(* ===== verification/Prelude.thy ===== *)
theory Prelude
  imports Complex_Main "HOL-Library.Word" "HOL-Library.Monad_Syntax" "HOL-Library.AList"
begin

text \<open>
  Shared vocabulary of the development.

  \<^item> Numbers: Rust's unsigned integers are words of their width, with the checked and
    saturating operations of the standard library. \<open>usize\<close> counters that are stored and
    compared are 64-bit words; lengths of lists stay \<open>nat\<close> until the code narrows them.
  \<^item> Decimals: a \<open>rust_decimal::Decimal\<close> is identified with the rational number it denotes.
    The arithmetic of the crate is not part of this repository, so the four operators are
    fields of the record \<open>ext\<close> that every definition using them takes as an argument; \<open>None\<close>
    is the panic of an operator (overflow, division by zero). What proofs rely on is the
    locale \<open>decimal_arith\<close>.
  \<^item> Time: a \<open>DateTime<Utc>\<close> is its number of nanoseconds since the epoch and a duration a
    difference of two of them; how chrono counts whole seconds and minutes is again a field
    of \<open>ext\<close>.
  \<^item> Panics and errors: \<open>'a option\<close> is a computation that may panic (\<open>None\<close>); a function that
    returns \<open>Result<T, E>\<close> and may panic has type \<open>(E + T) option\<close>.
\<close>

section \<open>Machine integers\<close>

type_synonym u8 = "8 word"
type_synonym u16 = "16 word"
type_synonym u32 = "32 word"
type_synonym u64 = "64 word"
type_synonym usize = "64 word"

definition sat_add :: "'a::len word \<Rightarrow> 'a word \<Rightarrow> 'a word" where
  "sat_add a b = (if unat a + unat b < 2 ^ LENGTH('a) then a + b else - 1)"

definition sat_sub :: "'a::len word \<Rightarrow> 'a word \<Rightarrow> 'a word" where
  "sat_sub a b = (if b \<le> a then a - b else 0)"

definition sat_mul :: "'a::len word \<Rightarrow> 'a word \<Rightarrow> 'a word" where
  "sat_mul a b = (if unat a * unat b < 2 ^ LENGTH('a) then a * b else - 1)"

definition checked_add :: "'a::len word \<Rightarrow> 'a word \<Rightarrow> 'a word option" where
  "checked_add a b = (if unat a + unat b < 2 ^ LENGTH('a) then Some (a + b) else None)"

definition checked_sub :: "'a::len word \<Rightarrow> 'a word \<Rightarrow> 'a word option" where
  "checked_sub a b = (if b \<le> a then Some (a - b) else None)"

text \<open>\<open>10u64.checked_pow(d)\<close>.\<close>

definition checked_pow10 :: "u8 \<Rightarrow> u64 option" where
  "checked_pow10 d = (if (10::nat) ^ unat d < 2 ^ 64 then Some (of_nat (10 ^ unat d)) else None)"

lemma unat_max_word: "unat (- 1 :: 'a::len word) = 2 ^ LENGTH('a) - 1"
  by (simp add: unat_word_ariths unsigned_minus_1_eq_mask mask_eq_exp_minus_1)

lemma unat_add_below:
  "unat a + unat b < 2 ^ LENGTH('a) \<Longrightarrow> unat (a + b) = unat a + unat (b :: 'a::len word)"
  by (simp add: unat_word_ariths take_bit_nat_eq_self)

lemma unat_mult_below:
  "unat a * unat b < 2 ^ LENGTH('a) \<Longrightarrow> unat (a * b) = unat a * unat (b :: 'a::len word)"
  by (simp add: unat_word_ariths)

lemma unat_sat_add: "unat (sat_add a b) = min (unat a + unat b) (2 ^ LENGTH('a) - 1)"
  for a b :: "'a::len word"
  by (auto simp: sat_add_def unat_add_below unat_max_word min_def)

lemma unat_sat_mul: "unat (sat_mul a b) = min (unat a * unat b) (2 ^ LENGTH('a) - 1)"
  for a b :: "'a::len word"
proof (cases "unat a * unat b < 2 ^ LENGTH('a)")
  case True
  then have "unat a * unat b \<le> 2 ^ LENGTH('a) - 1" by linarith
  with True show ?thesis by (simp add: sat_mul_def unat_mult_below min_absorb1)
next
  case False
  then have "2 ^ LENGTH('a) - 1 \<le> unat a * unat b" by linarith
  with False show ?thesis by (simp add: sat_mul_def unat_max_word min_def)
qed

lemma unat_sat_sub: "unat (sat_sub a b) = unat a - unat b"
  for a b :: "'a::len word"
  by (auto simp: sat_sub_def unat_sub word_le_nat_alt)

lemma unat_below: "unat (a :: 'a::len word) < 2 ^ LENGTH('a)"
  by (rule unsigned_less)

lemma sat_add_one_le: "a < b \<Longrightarrow> sat_add a 1 \<le> (b :: 'a::len word)"
  by (simp add: word_le_nat_alt word_less_nat_alt unat_sat_add)

lemma checked_sub_Some:
  "checked_sub a b = Some c \<longleftrightarrow> b \<le> a \<and> c = a - (b :: 'a::len word)"
  by (auto simp: checked_sub_def)

lemma checked_sub_unat:
  "checked_sub a b = Some c \<Longrightarrow> unat c + unat b = unat (a :: 'a::len word)"
  by (auto simp: checked_sub_Some unat_sub word_le_nat_alt)

lemma checked_pow10_unat: "checked_pow10 d = Some w \<Longrightarrow> unat w = 10 ^ unat d"
  unfolding checked_pow10_def
  by (auto simp: unat_of_nat take_bit_nat_eq_self simp del: of_nat_power split: if_splits)

text \<open>\<open>str::as_bytes\<close> and \<open>to_le_bytes\<close>.\<close>

definition str_bytes :: "string \<Rightarrow> u8 list" where
  "str_bytes s = map of_char s"

definition le_bytes :: "nat \<Rightarrow> 'a::len word \<Rightarrow> u8 list" where
  "le_bytes n w = map (\<lambda>i. ucast (drop_bit (8 * i) w)) [0..<n]"

section \<open>Panics and results\<close>

text \<open>\<open>try_res m f\<close> is \<open>f(m?)\<close>: an error of \<open>m\<close> is returned, a panic stays a panic.\<close>

definition try_res :: "('e + 'a) option \<Rightarrow> ('a \<Rightarrow> ('e + 'b) option) \<Rightarrow> ('e + 'b) option" where
  "try_res m f = (case m of None \<Rightarrow> None | Some (Inl e) \<Rightarrow> Some (Inl e) | Some (Inr x) \<Rightarrow> f x)"

named_theorems panic_simps \<open>elimination of the panic monad from a successful run\<close>

lemma try_res_Inr [panic_simps]:
  "try_res m f = Some (Inr y) \<longleftrightarrow> (\<exists>x. m = Some (Inr x) \<and> f x = Some (Inr y))"
  by (auto simp: try_res_def split: option.splits sum.splits)

lemma try_res_simps [simp]:
  "try_res None f = None" "try_res (Some (Inl e)) f = Some (Inl e)" "try_res (Some (Inr x)) f = f x"
  by (simp_all add: try_res_def)

lemma bind_Some_iff [panic_simps]:
  "Option.bind m f = Some y \<longleftrightarrow> (\<exists>x. m = Some x \<and> f x = Some y)"
  by (rule Option.bind_eq_Some_conv)

lemma map_option_Some_iff [panic_simps]:
  "map_option f m = Some y \<longleftrightarrow> (\<exists>x. m = Some x \<and> f x = y)"
  by (cases m) auto

section \<open>Time\<close>

type_synonym datetime = int
type_synonym duration = int

definition nanos :: int where "nanos = 1000000000"

text \<open>\<open>Duration::seconds(n)\<close> and \<open>Duration::minutes(n)\<close>, in nanoseconds.\<close>

definition secs :: "int \<Rightarrow> duration" where "secs n = n * nanos"
definition mins :: "int \<Rightarrow> duration" where "mins n = n * 60 * nanos"

section \<open>The external crates\<close>

type_synonym decimal = rat

record ext =
  dec_add :: "decimal \<Rightarrow> decimal \<Rightarrow> decimal option"
  dec_sub :: "decimal \<Rightarrow> decimal \<Rightarrow> decimal option"
  dec_mul :: "decimal \<Rightarrow> decimal \<Rightarrow> decimal option"
  dec_div :: "decimal \<Rightarrow> decimal \<Rightarrow> decimal option"
  dec_show :: "decimal \<Rightarrow> string"                    \<comment> \<open>Display of a Decimal\<close>
  dec_round_dp :: "nat \<Rightarrow> decimal \<Rightarrow> decimal"         \<comment> \<open>round_dp\<close>
  num_seconds :: "duration \<Rightarrow> int"
  num_minutes :: "duration \<Rightarrow> int"
  time_show :: "datetime \<Rightarrow> string"                  \<comment> \<open>Display and to_rfc3339 of a timestamp\<close>
  day_show :: "datetime \<Rightarrow> string"                   \<comment> \<open>date_naive().to_string()\<close>
  hash_trade :: "datetime \<Rightarrow> string \<Rightarrow> nat \<Rightarrow> string"  \<comment> \<open>DefaultHasher over timestamp, mint, index\<close>
  hash_signal :: "string \<Rightarrow> datetime \<Rightarrow> string"       \<comment> \<open>DefaultHasher over mint, timestamp\<close>
  sha256_hex :: "8 word list \<Rightarrow> string"
  str_debug :: "string \<Rightarrow> string"                    \<comment> \<open>Debug of a string\<close>
  overflow_checks :: bool                           \<comment> \<open>build profile: do plain operators trap\<close>

definition dec_of_word :: "'a::len word \<Rightarrow> decimal" where
  "dec_of_word w = of_nat (unat w)"

lemma dec_of_word_nonneg [simp]: "0 \<le> dec_of_word w"
  by (simp only: dec_of_word_def of_nat_0_le_iff)

lemma dec_of_word_le [simp]: "dec_of_word a \<le> dec_of_word b \<longleftrightarrow> a \<le> (b :: 'a::len word)"
  by (simp only: dec_of_word_def of_nat_le_iff word_le_nat_alt)

lemma dec_of_word_less [simp]: "dec_of_word a < dec_of_word b \<longleftrightarrow> a < (b :: 'a::len word)"
  by (simp only: dec_of_word_def of_nat_less_iff word_less_nat_alt)

lemma dec_of_word_0 [simp]: "dec_of_word 0 = 0"
  by (simp add: dec_of_word_def)

lemma dec_of_word_eq_0 [simp]: "dec_of_word w = 0 \<longleftrightarrow> w = 0"
  by (simp only: dec_of_word_def of_nat_eq_0_iff unat_eq_0)

lemma dec_of_word_pos [simp]: "0 < dec_of_word w \<longleftrightarrow> w \<noteq> 0"
  using dec_of_word_nonneg [of w] dec_of_word_eq_0 [of w] by linarith

lemma dec_of_word_minus:
  "b \<le> a \<Longrightarrow> dec_of_word (a - b) = dec_of_word a - dec_of_word (b :: 'a::len word)"
  by (simp only: dec_of_word_def unat_sub word_le_nat_alt of_nat_diff)

text \<open>\<open>10u64.pow(d)\<close>: a plain operator, which traps or wraps with the build profile.\<close>

definition pow10_u64 :: "ext \<Rightarrow> u8 \<Rightarrow> u64 option" where
  "pow10_u64 X d = (case checked_pow10 d of
      Some w \<Rightarrow> Some w
    | None \<Rightarrow> if overflow_checks X then None else Some (10 ^ unat d))"

text \<open>\<open>iter.sum::<Decimal>()\<close> starts from zero and adds from the left.\<close>

fun dec_sum_from :: "ext \<Rightarrow> decimal \<Rightarrow> decimal list \<Rightarrow> decimal option" where
  "dec_sum_from X acc [] = Some acc"
| "dec_sum_from X acc (x # xs) = Option.bind (dec_add X acc x) (\<lambda>a. dec_sum_from X a xs)"

definition dec_sum :: "ext \<Rightarrow> decimal list \<Rightarrow> decimal option" where
  "dec_sum X xs = dec_sum_from X 0 xs"

text \<open>
  What the proofs use of the crate's arithmetic: a result is a rounding of the exact result
  by a monotone rounding that keeps zero, and division by zero panics.
\<close>

locale decimal_arith =
  fixes X :: ext
  assumes add_mono: "dec_add X a b = Some r \<Longrightarrow> dec_add X a' b' = Some r' \<Longrightarrow> a + b \<le> a' + b' \<Longrightarrow> r \<le> r'"
    and sub_mono: "dec_sub X a b = Some r \<Longrightarrow> dec_sub X a' b' = Some r' \<Longrightarrow> a - b \<le> a' - b' \<Longrightarrow> r \<le> r'"
    and mul_mono: "dec_mul X a b = Some r \<Longrightarrow> dec_mul X a' b' = Some r' \<Longrightarrow> a * b \<le> a' * b' \<Longrightarrow> r \<le> r'"
    and div_mono: "dec_div X a b = Some r \<Longrightarrow> dec_div X a' b' = Some r' \<Longrightarrow> a / b \<le> a' / b' \<Longrightarrow> r \<le> r'"
    and add_zero: "dec_add X 0 0 = Some 0"
    and sub_self: "dec_sub X 1 1 = Some 0"
    and mul_zero: "dec_mul X 0 0 = Some 0"
    and div_zero: "dec_div X 0 1 = Some 0"
    and div_one: "dec_div X 1 1 = Some 1"
    and div_by_zero: "dec_div X a 0 = None"
begin

lemma add_nonneg: "dec_add X a b = Some r \<Longrightarrow> 0 \<le> a + b \<Longrightarrow> 0 \<le> r"
  using add_mono [OF add_zero] by simp

lemma sub_nonneg: "dec_sub X a b = Some r \<Longrightarrow> b \<le> a \<Longrightarrow> 0 \<le> r"
  using sub_mono [OF sub_self] by simp

lemma sub_nonpos: "dec_sub X a b = Some r \<Longrightarrow> a \<le> b \<Longrightarrow> r \<le> 0"
  using sub_mono [OF _ sub_self] by simp

lemma mul_nonneg: "dec_mul X a b = Some r \<Longrightarrow> 0 \<le> a \<Longrightarrow> 0 \<le> b \<Longrightarrow> 0 \<le> r"
  using mul_mono [OF mul_zero] by simp

lemma div_nonneg: "dec_div X a b = Some r \<Longrightarrow> 0 \<le> a \<Longrightarrow> 0 \<le> b \<Longrightarrow> 0 \<le> r"
  using div_mono [OF div_zero] by simp

lemma div_le_one: "dec_div X a b = Some r \<Longrightarrow> 0 \<le> b \<Longrightarrow> a \<le> b \<Longrightarrow> r \<le> 1"
  using div_mono [OF _ div_one, of a b r] div_by_zero [of a]
  by (cases "b = 0") (auto simp: divide_le_eq_1)

lemma div_nonzero: "dec_div X a b = Some r \<Longrightarrow> b \<noteq> 0"
  using div_by_zero by auto

lemma sum_from_nonneg:
  "dec_sum_from X acc xs = Some r \<Longrightarrow> 0 \<le> acc \<Longrightarrow> \<forall>x\<in>set xs. 0 \<le> x \<Longrightarrow> 0 \<le> r"
proof (induction xs arbitrary: acc)
  case (Cons x xs)
  then show ?case by (auto simp: panic_simps) (meson add_nonneg add_nonneg_nonneg)
qed simp

lemma sum_nonneg: "dec_sum X xs = Some r \<Longrightarrow> \<forall>x\<in>set xs. 0 \<le> x \<Longrightarrow> 0 \<le> r"
  unfolding dec_sum_def by (rule sum_from_nonneg) auto

lemmas sign_rules = add_nonneg sub_nonneg mul_nonneg div_nonneg sum_nonneg

end

text \<open>
  Two concrete instances. \<open>exact_ext\<close> computes exactly and panics where the result does not
  fit 96 bits; \<open>scaled_ext\<close> also rounds every result to 28 fractional digits. The crate's
  other functions are filled with simple total ones.
\<close>

definition dec_max :: decimal where "dec_max = 2 ^ 96 - 1"

definition fit :: "decimal \<Rightarrow> decimal option" where
  "fit r = (if \<bar>r\<bar> \<le> dec_max then Some r else None)"

definition round28 :: "decimal \<Rightarrow> decimal" where
  "round28 r = of_int \<lfloor>r * 10 ^ 28 + 1 / 2\<rfloor> / 10 ^ 28"

definition trunc_quot :: "int \<Rightarrow> int \<Rightarrow> int" where
  "trunc_quot a b = sgn a * (\<bar>a\<bar> div b)"

definition rounding_ext :: "(decimal \<Rightarrow> decimal) \<Rightarrow> ext" where
  "rounding_ext rd =
    \<lparr>dec_add = (\<lambda>a b. fit (rd (a + b))), dec_sub = (\<lambda>a b. fit (rd (a - b))),
     dec_mul = (\<lambda>a b. fit (rd (a * b))),
     dec_div = (\<lambda>a b. if b = 0 then None else fit (rd (a / b))),
     dec_show = (\<lambda>_. ''''), dec_round_dp = (\<lambda>n r. of_int \<lfloor>r * 10 ^ n + 1 / 2\<rfloor> / 10 ^ n),
     num_seconds = (\<lambda>d. trunc_quot d nanos), num_minutes = (\<lambda>d. trunc_quot d (60 * nanos)),
     time_show = (\<lambda>_. ''''), day_show = (\<lambda>_. ''''), hash_trade = (\<lambda>_ _ _. ''''),
     hash_signal = (\<lambda>_ _. ''''), sha256_hex = map (\<lambda>b. char_of (unat b)), str_debug = (\<lambda>s. s),
     overflow_checks = True\<rparr>"

definition exact_ext :: ext where "exact_ext = rounding_ext (\<lambda>r. r)"
definition scaled_ext :: ext where "scaled_ext = rounding_ext round28"

lemma rounding_ext_simps [simp]:
  "dec_add (rounding_ext rd) a b = fit (rd (a + b))"
  "dec_sub (rounding_ext rd) a b = fit (rd (a - b))"
  "dec_mul (rounding_ext rd) a b = fit (rd (a * b))"
  "dec_div (rounding_ext rd) a b = (if b = 0 then None else fit (rd (a / b)))"
  "num_seconds (rounding_ext rd) d = trunc_quot d nanos"
  "num_minutes (rounding_ext rd) d = trunc_quot d (60 * nanos)"
  "overflow_checks (rounding_ext rd)"
  by (simp_all add: rounding_ext_def)

lemma fit_Some: "fit r = Some s \<longleftrightarrow> s = r \<and> \<bar>r\<bar> \<le> dec_max"
  by (auto simp: fit_def)

lemma exact_ext_simps [simp]:
  "dec_add exact_ext a b = fit (a + b)"
  "dec_sub exact_ext a b = fit (a - b)"
  "dec_mul exact_ext a b = fit (a * b)"
  "dec_div exact_ext a b = (if b = 0 then None else fit (a / b))"
  "num_seconds exact_ext d = trunc_quot d nanos"
  "num_minutes exact_ext d = trunc_quot d (60 * nanos)"
  "overflow_checks exact_ext"
  by (simp_all add: exact_ext_def)

lemma fit_SomeD: "fit r = Some s \<Longrightarrow> s = r"
  by (simp add: fit_Some)

lemma dec_sum_exact: "dec_sum exact_ext xs = Some r \<Longrightarrow> r = sum_list xs"
proof -
  have "dec_sum_from exact_ext acc xs = Some r \<Longrightarrow> r = acc + sum_list xs" for acc
  proof (induction xs arbitrary: acc)
    case (Cons x xs)
    then have "dec_sum_from exact_ext (acc + x) xs = Some r"
      by (auto simp: bind_Some_iff dest!: fit_SomeD)
    then have "r = acc + x + sum_list xs" by (rule Cons.IH)
    then show ?case by simp
  qed simp
  then show "dec_sum exact_ext xs = Some r \<Longrightarrow> r = sum_list xs" by (fastforce simp: dec_sum_def)
qed

lemma if_None_Some [panic_simps]:
  "(if b then None else m) = Some r \<longleftrightarrow> \<not> b \<and> m = Some r"
  by simp

lemma rounding_arith:
  assumes "mono rd" "rd 0 = 0" "rd 1 = 1"
  shows "decimal_arith (rounding_ext rd)"
  using assms
  by unfold_locales (auto simp: fit_def dec_max_def split: if_splits dest: monoD)

lemma mono_round28: "mono round28"
  unfolding round28_def
  by (intro monoI divide_right_mono) (simp_all add: floor_mono mult_right_mono)

interpretation exact: decimal_arith exact_ext
  unfolding exact_ext_def by (rule rounding_arith) (auto simp: mono_def)

interpretation scaled: decimal_arith scaled_ext
  unfolding scaled_ext_def
  by (rule rounding_arith) (auto simp: mono_round28 round28_def floor_eq_iff)

section \<open>Text\<close>

fun show_nat :: "nat \<Rightarrow> string" where
  "show_nat n = (if n < 10 then [char_of (48 + n)] else show_nat (n div 10) @ [char_of (48 + n mod 10)])"

declare show_nat.simps [simp del]

definition show_int :: "int \<Rightarrow> string" where
  "show_int i = (if i < 0 then ''-'' @ show_nat (nat (- i)) else show_nat (nat i))"

definition show_word :: "'a::len word \<Rightarrow> string" where
  "show_word w = show_nat (unat w)"

text \<open>\<open>str::trim\<close> on the ASCII white space.\<close>

definition is_white :: "char \<Rightarrow> bool" where
  "is_white c \<longleftrightarrow> of_char c \<in> {9, 10, 11, 12, 13, 32 :: nat}"

definition trim :: "string \<Rightarrow> string" where
  "trim s = rev (dropWhile is_white (rev (dropWhile is_white s)))"

text \<open>\<open>str::lines\<close>: the pieces between line feeds, without a trailing carriage return.\<close>

definition strip_cr :: "string \<Rightarrow> string" where
  "strip_cr s = (if s \<noteq> [] \<and> last s = CHR 0x0D then butlast s else s)"

fun raw_lines :: "string \<Rightarrow> string \<Rightarrow> string list" where
  "raw_lines acc [] = (if acc = [] then [] else [rev acc])"
| "raw_lines acc (c # cs) =
     (if c = CHR 0x0A then strip_cr (rev acc) # raw_lines [] cs else raw_lines (c # acc) cs)"

definition str_lines :: "string \<Rightarrow> string list" where
  "str_lines s = raw_lines [] s"

definition is_ascii_alphanumeric :: "char \<Rightarrow> bool" where
  "is_ascii_alphanumeric c \<longleftrightarrow>
     (let n = of_char c :: nat in (48 \<le> n \<and> n \<le> 57) \<or> (65 \<le> n \<and> n \<le> 90) \<or> (97 \<le> n \<and> n \<le> 122))"

section \<open>Association lists for hash maps\<close>

text \<open>
  A \<open>HashMap\<close> that is iterated is an association list with distinct keys. \<open>AList.update\<close> is
  \<open>insert\<close>: it replaces the value in place or appends the new key. Rust leaves the iteration
  order of a \<open>HashMap\<close> open; lemmas state what holds of every order.
\<close>

lemma map_of_update [simp]: "map_of (AList.update k v m) = (map_of m)(k \<mapsto> v)"
  by (rule update_conv')

lemma distinct_update_keys [intro]:
  "distinct (map fst m) \<Longrightarrow> distinct (map fst (AList.update k v m))"
  by (rule distinct_update)

text \<open>
  Components that keep values under keys: the in-memory portfolio and the tables of the
  persistent store. A client only needs that a value written is the value read back.
\<close>

locale keyed_store =
  fixes look :: "'s \<Rightarrow> 'k \<Rightarrow> 'v option" and put :: "'k \<Rightarrow> 'v \<Rightarrow> 's \<Rightarrow> 's"
  assumes look_put: "look (put k v s) k' = (if k' = k then Some v else look s k')"
begin

definition put_all :: "('k \<times> 'v) list \<Rightarrow> 's \<Rightarrow> 's" where
  "put_all kvs s = fold (\<lambda>(k, v). put k v) kvs s"

lemma look_put_same: "look (put k v s) k = Some v"
  by (simp add: look_put)

lemma look_put_other: "k' \<noteq> k \<Longrightarrow> look (put k v s) k' = look s k'"
  by (simp add: look_put)

text \<open>The last write of each key wins; keys not written keep their value.\<close>

lemma look_put_all:
  "look (put_all kvs s) k = (case map_of (rev kvs) k of None \<Rightarrow> look s k | Some v \<Rightarrow> Some v)"
proof (induction kvs rule: rev_induct)
  case Nil
  then show ?case by (simp add: put_all_def)
next
  case (snoc kv kvs)
  obtain k' v' where "kv = (k', v')" by (cases kv)
  then show ?case using snoc.IH by (simp add: put_all_def look_put)
qed

end

interpretation alist: keyed_store map_of AList.update
  by unfold_locales simp

end
