(* ===== verification/Config.thy ===== *)
theory Config
  imports Prelude
begin

text \<open>
  \<open>src/config/types.rs\<close>: the configuration structs, their serde defaults and the start-up
  validation, whose checks are kept in the order of the source. Deserialisation (TOML) is not
  modelled.
\<close>

section \<open>Structs\<close>

datatype mode = Paper | Live | Replay

record rpc_config =
  http_endpoints :: "string list"
  rpc_websocket_endpoints :: "string list"
  max_data_age_secs :: int
  request_timeout_secs :: u64
  max_attempts :: u32
  unknown_after_secs :: int

record strategy_config =
  base_mint :: string
  min_wallet_score :: decimal
  min_wallet_samples :: u32
  min_consensus_wallets :: usize
  min_signal_score :: decimal
  min_token_age_secs :: int
  stop_loss_pct :: decimal
  take_profit_pct :: decimal
  trailing_stop_pct :: decimal
  max_holding_minutes :: int

record economics_config =
  round_trip_cost_threshold_pct :: decimal
  min_expected_net_return_pct :: decimal
  max_quote_age_secs :: int
  uncertainty_haircut_pct :: decimal
  cfg_sol_price_usd :: "decimal option"

record risk_config =
  starting_capital_usd :: decimal
  max_live_capital_usd :: decimal
  max_concurrent_positions :: usize
  max_position_percent_of_equity :: decimal
  max_position_percent_of_liquidity :: decimal
  max_risk_per_trade_percent :: decimal
  max_daily_loss_percent :: decimal
  max_total_drawdown_before_kill_switch_pct :: decimal
  cooldown_after_loss_minutes :: int
  max_slippage_bps :: u32
  min_liquidity_usd :: decimal
  max_trades_per_day :: u32
  max_consecutive_failures :: u32

datatype execution_provider = Jupiter

record execution_config =
  provider :: execution_provider
  jupiter_api_url :: string
  slippage_bps :: u16
  priority_fee_lamports :: u64
  max_fee_lamports :: u64
  max_price_impact_bps :: u32
  confirm_timeout_secs :: u64
  confirm_poll_ms :: u64
  live_signer_env :: "string option"
  jupiter_api_key_env :: "string option"
  allowed_program_ids :: "string list"

record storage_config =
  sqlite_path :: string

record collector_config =
  col_enabled :: bool
  col_websocket_endpoints :: "string list"
  replay_mode :: bool

record runtime_config =
  signal_feed_path :: "string option"
  poll_interval_secs :: u64
  paper_fill_haircut_bps :: u32
  reconcile_interval_secs :: u64
  max_liquidity_age_secs :: u64
  quote_cache_ttl_secs :: u64
  collector :: collector_config
  replay_dataset_path :: "string option"

record observability_config =
  log_format :: string

record wallet_monitor_config =
  wm_enabled :: bool
  wallets_file :: string
  wm_poll_interval_secs :: u64
  max_history_signatures :: u32
  consensus_window_secs :: u64
  wm_position_usd :: decimal

record config =
  cfg_mode :: mode
  rpc :: rpc_config
  strategy :: strategy_config
  economics :: economics_config
  risk :: risk_config
  execution :: execution_config
  storage :: storage_config
  runtime :: runtime_config
  observability :: observability_config
  wallet_monitor :: wallet_monitor_config

section \<open>Defaults\<close>

definition default_collector :: collector_config where
  "default_collector = \<lparr>col_enabled = True, col_websocket_endpoints = [], replay_mode = False\<rparr>"

definition default_websocket :: "string list" where
  "default_websocket = [''wss://api.mainnet-beta.solana.com'']"

definition default_replay :: bool where "default_replay = True"

definition default_stale :: int where "default_stale = 15"
definition default_timeout :: u64 where "default_timeout = 8"
definition default_log :: string where "default_log = ''json''"
definition default_poll :: u64 where "default_poll = 2"
definition default_paper_haircut :: u32 where "default_paper_haircut = 25"
definition default_rpc_attempts :: u32 where "default_rpc_attempts = 2"
definition default_unknown_after :: int where "default_unknown_after = 180"
definition default_max_failures :: u32 where "default_max_failures = 3"
definition default_max_fee :: u64 where "default_max_fee = 500000"
definition default_price_impact :: u32 where "default_price_impact = 300"
definition default_confirm_timeout :: u64 where "default_confirm_timeout = 90"
definition default_confirm_poll_ms :: u64 where "default_confirm_poll_ms = 500"
definition default_reconcile_interval :: u64 where "default_reconcile_interval = 60"
definition default_max_liquidity_age :: u64 where "default_max_liquidity_age = 300"
definition default_quote_cache_ttl :: u64 where "default_quote_cache_ttl = 30"

definition observability_default :: observability_config where
  "observability_default = \<lparr>log_format = default_log\<rparr>"

definition default_max_history_sigs :: u32 where "default_max_history_sigs = 100"
definition default_consensus_window :: u64 where "default_consensus_window = 900"

definition wallet_monitor_default :: wallet_monitor_config where
  "wallet_monitor_default =
    \<lparr>wm_enabled = False, wallets_file = ''smart_wallets.txt'',
     wm_poll_interval_secs = default_poll, max_history_signatures = default_max_history_sigs,
     consensus_window_secs = default_consensus_window, wm_position_usd = 0\<rparr>"

definition runtime_default :: runtime_config where
  "runtime_default =
    \<lparr>signal_feed_path = None, poll_interval_secs = default_poll,
     paper_fill_haircut_bps = default_paper_haircut,
     reconcile_interval_secs = default_reconcile_interval,
     max_liquidity_age_secs = default_max_liquidity_age,
     quote_cache_ttl_secs = default_quote_cache_ttl,
     collector = default_collector, replay_dataset_path = None\<rparr>"

section \<open>Validation\<close>

datatype config_error = ConfigInvalid string

definition live_signer_missing :: "config \<Rightarrow> bool" where
  "live_signer_missing c \<longleftrightarrow>
     (case live_signer_env (execution c) of None \<Rightarrow> True | Some s \<Rightarrow> s = [])"

definition validate_trading :: "config \<Rightarrow> config_error + unit" where
  "validate_trading c =
    (if http_endpoints (rpc c) = []
     then Inl (ConfigInvalid ''at least one HTTP RPC endpoint is required'')
     else if max_attempts (rpc c) = 0
     then Inl (ConfigInvalid ''rpc.max_attempts must be at least 1'')
     else if min_consensus_wallets (strategy c) < 2
     then Inl (ConfigInvalid ''min_consensus_wallets must be at least 2'')
     else if max_risk_per_trade_percent (risk c) \<le> 0 \<or> max_risk_per_trade_percent (risk c) > 100
     then Inl (ConfigInvalid ''max_risk_per_trade_percent must be in (0,100]'')
     else if max_slippage_bps (risk c) = 0
           \<or> (ucast (slippage_bps (execution c)) :: u32) > max_slippage_bps (risk c)
     then Inl (ConfigInvalid
       ''execution slippage must be positive and no greater than risk maximum'')
     else if max_consecutive_failures (risk c) = 0
     then Inl (ConfigInvalid ''max_consecutive_failures must be positive'')
     else if min_expected_net_return_pct (economics c) \<le> 0 \<or> min_liquidity_usd (risk c) \<le> 0
     then Inl (ConfigInvalid ''minimum edge and liquidity must be positive'')
     else if (case cfg_sol_price_usd (economics c) of None \<Rightarrow> False | Some price \<Rightarrow> price \<le> 0)
     then Inl (ConfigInvalid ''sol_price_usd must be positive when provided'')
     else if max_fee_lamports (execution c) < sat_add (priority_fee_lamports (execution c)) 5000
     then Inl (ConfigInvalid ''max_fee_lamports must cover base fee plus configured priority fee'')
     else if max_price_impact_bps (execution c) = 0 \<or> max_price_impact_bps (execution c) > 10000
     then Inl (ConfigInvalid ''max_price_impact_bps must be in (0,10000]'')
     else if confirm_timeout_secs (execution c) < 5
     then Inl (ConfigInvalid ''confirm_timeout_secs must be at least 5'')
     else if confirm_poll_ms (execution c) = 0
     then Inl (ConfigInvalid ''confirm_poll_ms must be positive'')
     else Inr ())"

definition validate_live :: "config \<Rightarrow> config_error + unit" where
  "validate_live c =
    (if cfg_mode c = Live \<and> (live_signer_missing c \<or> max_live_capital_usd (risk c) \<le> 0
           \<or> max_live_capital_usd (risk c) > starting_capital_usd (risk c))
     then Inl (ConfigInvalid (''live mode requires signer and a positive capital cap '' @
       ''no greater than starting capital''))
     else if cfg_mode c = Live \<and> trim (jupiter_api_url (execution c)) = []
     then Inl (ConfigInvalid ''live mode requires a non-empty jupiter_api_url'')
     else if cfg_mode c = Live \<and> cfg_sol_price_usd (economics c) = None
     then Inl (ConfigInvalid
       ''live mode requires sol_price_usd to be configured for fee conversion'')
     else if cfg_mode c = Live
           \<and> (case cfg_sol_price_usd (economics c) of None \<Rightarrow> False | Some price \<Rightarrow> price \<le> 0)
     then Inl (ConfigInvalid ''sol_price_usd must be positive in live mode'')
     else if cfg_mode c = Live \<and> jupiter_api_key_env (execution c) = None
     then Inl (ConfigInvalid ''live mode requires jupiter_api_key_env to be configured'')
     else if cfg_mode c = Live
           \<and> (case jupiter_api_key_env (execution c) of None \<Rightarrow> False | Some v \<Rightarrow> trim v = [])
     then Inl (ConfigInvalid ''live mode requires jupiter_api_key_env to be non-empty'')
     else if cfg_mode c = Live \<and> allowed_program_ids (execution c) = []
     then Inl (ConfigInvalid ''live mode requires a non-empty execution program allowlist'')
     else if cfg_mode c = Live \<and> reconcile_interval_secs (runtime c) = 0
     then Inl (ConfigInvalid ''live mode requires periodic on-chain position reconciliation'')
     else Inr ())"

definition validate_intervals :: "config \<Rightarrow> config_error + unit" where
  "validate_intervals c =
    (if poll_interval_secs (runtime c) = 0 \<or> max_quote_age_secs (economics c) \<le> 0
        \<or> max_data_age_secs (rpc c) \<le> 0 \<or> slippage_bps (execution c) > 10000
     then Inl (ConfigInvalid ''poll, freshness intervals, and slippage must be valid'')
     else if stop_loss_pct (strategy c) \<le> 0 \<or> take_profit_pct (strategy c) \<le> 0
        \<or> trailing_stop_pct (strategy c) < 0
     then Inl (ConfigInvalid
       ''stop-loss and take-profit must be positive; trailing stop non-negative'')
     else Inr ())"

text \<open>\<open>Config::validate\<close>: the three groups in the order of the source.\<close>

definition validate :: "config \<Rightarrow> config_error + unit" where
  "validate c =
     (case validate_trading c of Inl e \<Rightarrow> Inl e | Inr _ \<Rightarrow>
     (case validate_live c of Inl e \<Rightarrow> Inl e | Inr _ \<Rightarrow> validate_intervals c))"

section \<open>What a validated configuration guarantees\<close>

definition trading_ok :: "config \<Rightarrow> bool" where
  "trading_ok c \<longleftrightarrow> http_endpoints (rpc c) \<noteq> [] \<and> 0 < max_attempts (rpc c)
     \<and> 2 \<le> min_consensus_wallets (strategy c)
     \<and> 0 < max_risk_per_trade_percent (risk c) \<and> max_risk_per_trade_percent (risk c) \<le> 100
     \<and> (ucast (slippage_bps (execution c)) :: u32) \<le> max_slippage_bps (risk c)
     \<and> 0 < max_consecutive_failures (risk c)
     \<and> 0 < min_expected_net_return_pct (economics c) \<and> 0 < min_liquidity_usd (risk c)
     \<and> sat_add (priority_fee_lamports (execution c)) 5000 \<le> max_fee_lamports (execution c)
     \<and> 0 < max_price_impact_bps (execution c) \<and> max_price_impact_bps (execution c) \<le> 10000
     \<and> 5 \<le> confirm_timeout_secs (execution c) \<and> 0 < confirm_poll_ms (execution c)"

definition live_ok :: "config \<Rightarrow> bool" where
  "live_ok c \<longleftrightarrow> 0 < max_live_capital_usd (risk c)
     \<and> max_live_capital_usd (risk c) \<le> starting_capital_usd (risk c)
     \<and> (\<exists>env. live_signer_env (execution c) = Some env \<and> env \<noteq> [])
     \<and> (\<exists>price. cfg_sol_price_usd (economics c) = Some price \<and> 0 < price)
     \<and> (\<exists>key. jupiter_api_key_env (execution c) = Some key \<and> trim key \<noteq> [])
     \<and> allowed_program_ids (execution c) \<noteq> [] \<and> 0 < reconcile_interval_secs (runtime c)"

definition intervals_ok :: "config \<Rightarrow> bool" where
  "intervals_ok c \<longleftrightarrow> 0 < poll_interval_secs (runtime c) \<and> 0 < max_quote_age_secs (economics c)
     \<and> 0 < max_data_age_secs (rpc c) \<and> slippage_bps (execution c) \<le> 10000
     \<and> 0 < stop_loss_pct (strategy c) \<and> 0 < take_profit_pct (strategy c)
     \<and> 0 \<le> trailing_stop_pct (strategy c)"

lemma validate_trading_ok: "validate_trading c = Inr () \<Longrightarrow> trading_ok c"
  unfolding validate_trading_def trading_ok_def
  by (auto simp: not_le not_less word_neq_0_conv split: if_split_asm)

lemma validate_live_ok: "validate_live c = Inr () \<Longrightarrow> cfg_mode c = Live \<Longrightarrow> live_ok c"
  unfolding validate_live_def live_ok_def live_signer_missing_def
  by (auto simp: not_le word_neq_0_conv split: if_split_asm option.splits)

lemma validate_intervals_ok: "validate_intervals c = Inr () \<Longrightarrow> intervals_ok c"
  unfolding validate_intervals_def intervals_ok_def
  by (auto simp: not_le not_less word_neq_0_conv split: if_split_asm)

lemma validate_Inr:
  "validate c = Inr () \<longleftrightarrow>
     validate_trading c = Inr () \<and> validate_live c = Inr () \<and> validate_intervals c = Inr ()"
  by (auto simp: validate_def split: sum.splits)

lemma validated_intervals: "validate c = Inr () \<Longrightarrow> intervals_ok c"
  by (simp add: validate_Inr validate_intervals_ok)

lemma validated_trading: "validate c = Inr () \<Longrightarrow> trading_ok c"
  by (simp add: validate_Inr validate_trading_ok)

text \<open>The example configuration of the repository (\<open>config.example.toml\<close>), in a given mode.\<close>

definition example_config :: "mode \<Rightarrow> config" where
  "example_config m =
    \<lparr>cfg_mode = m,
     rpc = \<lparr>http_endpoints = [''https://api.mainnet-beta.solana.com''],
       rpc_websocket_endpoints = [], max_data_age_secs = 15, request_timeout_secs = 8,
       max_attempts = default_rpc_attempts, unknown_after_secs = default_unknown_after\<rparr>,
     strategy = \<lparr>base_mint = ''So11111111111111111111111111111111111111112'',
       min_wallet_score = 60, min_wallet_samples = 25, min_consensus_wallets = 2,
       min_signal_score = 65, min_token_age_secs = 86400, stop_loss_pct = 5,
       take_profit_pct = 12, trailing_stop_pct = 4, max_holding_minutes = 240\<rparr>,
     economics = \<lparr>round_trip_cost_threshold_pct = 3, min_expected_net_return_pct = 2,
       max_quote_age_secs = 3, uncertainty_haircut_pct = 1, cfg_sol_price_usd = Some 150\<rparr>,
     risk = \<lparr>starting_capital_usd = 100, max_live_capital_usd = 25,
       max_concurrent_positions = 1, max_position_percent_of_equity = 5,
       max_position_percent_of_liquidity = 1 / 10, max_risk_per_trade_percent = 1 / 2,
       max_daily_loss_percent = 2, max_total_drawdown_before_kill_switch_pct = 5,
       cooldown_after_loss_minutes = 30, max_slippage_bps = 100, min_liquidity_usd = 50000,
       max_trades_per_day = 3, max_consecutive_failures = default_max_failures\<rparr>,
     execution = \<lparr>provider = Jupiter, jupiter_api_url = ''https://api.jup.ag'',
       slippage_bps = 75, priority_fee_lamports = 10000, max_fee_lamports = default_max_fee,
       max_price_impact_bps = default_price_impact,
       confirm_timeout_secs = default_confirm_timeout,
       confirm_poll_ms = default_confirm_poll_ms,
       live_signer_env = Some ''SOLANA_BOT_KEYPAIR_JSON'',
       jupiter_api_key_env = Some ''JUPITER_API_KEY'',
       allowed_program_ids = [''JUP6LkbZbjS1jKKwapdHNy74zcZ3tLUZoi5QNyVTaV4'']\<rparr>,
     storage = \<lparr>sqlite_path = ''state/solana-bot.sqlite3''\<rparr>,
     runtime = runtime_default\<lparr>signal_feed_path := Some []\<rparr>,
     observability = observability_default,
     wallet_monitor = wallet_monitor_default\<rparr>"

lemma example_config_simps [simp]:
  "cfg_mode (example_config m) = m"
  "max_data_age_secs (rpc (example_config m)) = 15"
  "unknown_after_secs (rpc (example_config m)) = 180"
  "stop_loss_pct (strategy (example_config m)) = 5"
  "take_profit_pct (strategy (example_config m)) = 12"
  "trailing_stop_pct (strategy (example_config m)) = 4"
  "max_holding_minutes (strategy (example_config m)) = 240"
  "base_mint (strategy (example_config m)) = ''So11111111111111111111111111111111111111112''"
  "min_wallet_score (strategy (example_config m)) = 60"
  "min_wallet_samples (strategy (example_config m)) = 25"
  "min_consensus_wallets (strategy (example_config m)) = 2"
  "min_signal_score (strategy (example_config m)) = 65"
  "min_token_age_secs (strategy (example_config m)) = 86400"
  "round_trip_cost_threshold_pct (economics (example_config m)) = 3"
  "min_expected_net_return_pct (economics (example_config m)) = 2"
  "uncertainty_haircut_pct (economics (example_config m)) = 1"
  "cfg_sol_price_usd (economics (example_config m)) = Some 150"
  "slippage_bps (execution (example_config m)) = 75"
  "max_price_impact_bps (execution (example_config m)) = 300"
  "min_liquidity_usd (risk (example_config m)) = 50000"
  "max_live_capital_usd (risk (example_config m)) = 25"
  "starting_capital_usd (risk (example_config m)) = 100"
  "max_slippage_bps (risk (example_config m)) = 100"
  by (simp_all add: example_config_def default_unknown_after_def default_price_impact_def)

lemma example_config_valid: "validate (example_config m) = Inr ()"
  by (simp add: validate_Inr validate_trading_def validate_live_def validate_intervals_def
      example_config_def live_signer_missing_def runtime_default_def default_rpc_attempts_def
      default_max_failures_def default_max_fee_def default_price_impact_def
      default_confirm_timeout_def default_confirm_poll_ms_def default_reconcile_interval_def
      default_poll_def sat_add_def trim_def is_white_def)

section \<open>Properties\<close>

text \<open>
  A configuration that passes validation and selects live
  trading has a positive capital cap within the starting capital, a signer and an API key
  variable, a positive SOL price, a program allowlist, periodic reconciliation, a fee cap that
  covers the priority fee plus the base fee, at least two consensus wallets, a positive failure
  limit, slippage within the risk maximum, and positive stop-loss, take-profit and intervals.
\<close>

theorem validated_live_is_safe:
  assumes "validate c = Inr ()" and "cfg_mode c = Live"
  shows "live_ok c \<and> trading_ok c \<and> intervals_ok c"
  using assms validated_trading [OF assms(1)] validated_intervals [OF assms(1)]
  by (simp add: validate_Inr validate_live_ok)

theorem validated_live_is_safe_witness:
  "live_ok (example_config Live) \<and> trading_ok (example_config Live)"
  using validated_live_is_safe [OF example_config_valid, of Live] by simp

end
