(* ===== verification/Economics.thy ===== *)
theory Economics
  imports Prelude
begin

text \<open>
  \<open>src/economics\<close>: the break-even calculator (\<open>viability.rs\<close>), the cost model, the
  expected-value estimate and the economic gate (\<open>cost_model.rs\<close>). Arithmetic follows the
  order of the source expressions; every operator may panic.
\<close>

section \<open>viability.rs\<close>

record break_even_inputs =
  position_size_usd :: decimal
  avg_priority_fee_usd :: decimal
  avg_swap_fee_bps :: decimal
  avg_slippage_bps :: decimal
  avg_price_impact_bps :: decimal
  failed_tx_rate :: decimal
  avg_failed_tx_cost_usd :: decimal
  assumed_win_loss_ratio :: decimal
  assumed_avg_loss_pct :: decimal

record break_even_result =
  round_trip_cost_usd :: decimal
  round_trip_cost_pct_of_position :: decimal
  required_win_rate_at_given_rr :: decimal
  required_avg_win_pct :: decimal
  expected_failed_tx_cost_usd :: decimal

datatype viability_error =
    NonPositive string
  | ProbabilityOutOfRange string
  | Negative string

fun viability_text :: "viability_error \<Rightarrow> string" where
  "viability_text (NonPositive n) = n @ '' must be greater than zero''"
| "viability_text (ProbabilityOutOfRange n) = n @ '' must be between 0 and 1''"
| "viability_text (Negative n) = ''cost inputs cannot be negative: '' @ n"

definition positive :: "decimal \<Rightarrow> string \<Rightarrow> viability_error + unit" where
  "positive value name = (if value > 0 then Inr () else Inl (NonPositive name))"

definition probability :: "decimal \<Rightarrow> string \<Rightarrow> viability_error + unit" where
  "probability value name =
     (if value \<ge> 0 \<and> value \<le> 1 then Inr () else Inl (ProbabilityOutOfRange name))"

text \<open>The loop over the named non-negative inputs.\<close>

fun non_negative :: "(decimal \<times> string) list \<Rightarrow> viability_error + unit" where
  "non_negative [] = Inr ()"
| "non_negative ((value, name) # rest) =
     (if value < 0 then Inl (Negative name) else non_negative rest)"

definition check_inputs :: "break_even_inputs \<Rightarrow> viability_error + unit" where
  "check_inputs i =
     (case positive (position_size_usd i) ''position_size_usd'' of Inl e \<Rightarrow> Inl e | Inr _ \<Rightarrow>
     (case positive (assumed_win_loss_ratio i) ''assumed_win_loss_ratio'' of Inl e \<Rightarrow> Inl e | Inr _ \<Rightarrow>
     (case positive (assumed_avg_loss_pct i) ''assumed_avg_loss_pct'' of Inl e \<Rightarrow> Inl e | Inr _ \<Rightarrow>
     (case probability (failed_tx_rate i) ''failed_tx_rate'' of Inl e \<Rightarrow> Inl e | Inr _ \<Rightarrow>
      non_negative
        [(avg_priority_fee_usd i, ''avg_priority_fee_usd''),
         (avg_swap_fee_bps i, ''avg_swap_fee_bps''),
         (avg_slippage_bps i, ''avg_slippage_bps''),
         (avg_price_impact_bps i, ''avg_price_impact_bps''),
         (avg_failed_tx_cost_usd i, ''avg_failed_tx_cost_usd'')]))))"

definition break_even_values :: "ext \<Rightarrow> break_even_inputs \<Rightarrow> break_even_result option" where
  "break_even_values X i = do {
     fee_slip \<leftarrow> dec_add X (avg_swap_fee_bps i) (avg_slippage_bps i);
     per_fill_bps \<leftarrow> dec_add X fee_slip (avg_price_impact_bps i);
     scaled \<leftarrow> dec_mul X (position_size_usd i) per_fill_bps;
     fill_cost \<leftarrow> dec_div X scaled 10000;
     twice_rate \<leftarrow> dec_mul X 2 (failed_tx_rate i);
     failed_cost \<leftarrow> dec_mul X twice_rate (avg_failed_tx_cost_usd i);
     leg \<leftarrow> dec_add X fill_cost (avg_priority_fee_usd i);
     legs \<leftarrow> dec_mul X 2 leg;
     cost_usd \<leftarrow> dec_add X legs failed_cost;
     cost_frac \<leftarrow> dec_div X cost_usd (position_size_usd i);
     cost_pct \<leftarrow> dec_mul X cost_frac 100;
     let loss = assumed_avg_loss_pct i;
     loss_cost \<leftarrow> dec_add X loss cost_pct;
     one_rr \<leftarrow> dec_add X 1 (assumed_win_loss_ratio i);
     denominator \<leftarrow> dec_mul X loss one_rr;
     win_rate \<leftarrow> dec_div X loss_cost denominator;
     loss_cost' \<leftarrow> dec_add X loss cost_pct;
     win \<leftarrow> dec_div X loss_cost' (assumed_win_loss_ratio i);
     avg_win \<leftarrow> dec_add X win cost_pct;
     Some \<lparr>round_trip_cost_usd = cost_usd,
           round_trip_cost_pct_of_position = cost_pct,
           required_win_rate_at_given_rr = win_rate,
           required_avg_win_pct = avg_win,
           expected_failed_tx_cost_usd = failed_cost\<rparr>
   }"

definition break_even_calculator ::
    "ext \<Rightarrow> break_even_inputs \<Rightarrow> (viability_error + break_even_result) option" where
  "break_even_calculator X i =
     (case check_inputs i of
        Inl e \<Rightarrow> Some (Inl e)
      | Inr _ \<Rightarrow> map_option Inr (break_even_values X i))"

section \<open>cost_model.rs\<close>

record cost_model =
  cm_observed_at :: datetime
  cm_input :: break_even_inputs
  cm_source :: string
  cm_is_live_snapshot :: bool

definition calculate :: "ext \<Rightarrow> cost_model \<Rightarrow> (viability_error + break_even_result) option" where
  "calculate X m = break_even_calculator X (cm_input m)"

record expected_value =
  ev_gross_return_pct :: decimal
  trading_fees_pct :: decimal
  priority_and_network_pct :: decimal
  slippage_pct :: decimal
  price_impact_pct :: decimal
  failed_transaction_pct :: decimal
  adverse_selection_pct :: decimal
  expected_exit_cost_pct :: decimal
  ev_uncertainty_haircut_pct :: decimal
  ev_net_return_pct :: decimal

definition estimate_values ::
    "ext \<Rightarrow> decimal \<Rightarrow> break_even_inputs \<Rightarrow> break_even_result \<Rightarrow> decimal \<Rightarrow> decimal \<Rightarrow> decimal
     \<Rightarrow> expected_value option" where
  "estimate_values X gross i r adverse_bps exit_bps haircut = do {
     let p = position_size_usd i;
     f \<leftarrow> dec_mul X 2 (avg_swap_fee_bps i);
     fees \<leftarrow> dec_div X f 100;
     pr \<leftarrow> dec_mul X 2 (avg_priority_fee_usd i);
     pr' \<leftarrow> dec_div X pr p;
     priority \<leftarrow> dec_mul X pr' 100;
     s \<leftarrow> dec_mul X 2 (avg_slippage_bps i);
     slippage \<leftarrow> dec_div X s 100;
     im \<leftarrow> dec_mul X 2 (avg_price_impact_bps i);
     impact \<leftarrow> dec_div X im 100;
     fa \<leftarrow> dec_div X (expected_failed_tx_cost_usd r) p;
     failed \<leftarrow> dec_mul X fa 100;
     adverse \<leftarrow> dec_div X adverse_bps 100;
     exit \<leftarrow> dec_div X exit_bps 100;
     n1 \<leftarrow> dec_sub X gross fees;
     n2 \<leftarrow> dec_sub X n1 priority;
     n3 \<leftarrow> dec_sub X n2 slippage;
     n4 \<leftarrow> dec_sub X n3 impact;
     n5 \<leftarrow> dec_sub X n4 failed;
     n6 \<leftarrow> dec_sub X n5 adverse;
     n7 \<leftarrow> dec_sub X n6 exit;
     net \<leftarrow> dec_sub X n7 haircut;
     Some \<lparr>ev_gross_return_pct = gross, trading_fees_pct = fees,
           priority_and_network_pct = priority, slippage_pct = slippage,
           price_impact_pct = impact, failed_transaction_pct = failed,
           adverse_selection_pct = adverse, expected_exit_cost_pct = exit,
           ev_uncertainty_haircut_pct = haircut, ev_net_return_pct = net\<rparr>
   }"

text \<open>\<open>ExpectedValue::estimate\<close>.\<close>

definition estimate ::
    "ext \<Rightarrow> decimal \<Rightarrow> cost_model \<Rightarrow> decimal \<Rightarrow> decimal \<Rightarrow> decimal
     \<Rightarrow> (viability_error + expected_value) option" where
  "estimate X gross m adverse_bps exit_bps haircut =
     try_res (calculate X m) (\<lambda>r.
       if adverse_bps < 0 \<or> exit_bps < 0 \<or> haircut < 0
       then Some (Inl (Negative ''expected-value component''))
       else map_option Inr (estimate_values X gross (cm_input m) r adverse_bps exit_bps haircut))"

datatype economic_gate_decision =
    Allowed break_even_result
  | GateRejected break_even_result decimal

record economic_gate =
  gate_threshold_pct :: decimal

text \<open>\<open>EconomicGate::check\<close>.\<close>

definition gate_check ::
    "ext \<Rightarrow> economic_gate \<Rightarrow> cost_model \<Rightarrow> (viability_error + economic_gate_decision) option" where
  "gate_check X g m =
     try_res (calculate X m) (\<lambda>result.
       if round_trip_cost_pct_of_position result > gate_threshold_pct g
       then Some (Inr (GateRejected result (gate_threshold_pct g)))
       else Some (Inr (Allowed result)))"

section \<open>Facts about the calculator\<close>

definition valid_inputs :: "break_even_inputs \<Rightarrow> bool" where
  "valid_inputs i \<longleftrightarrow> 0 < position_size_usd i \<and> 0 < assumed_win_loss_ratio i
     \<and> 0 < assumed_avg_loss_pct i \<and> 0 \<le> failed_tx_rate i \<and> failed_tx_rate i \<le> 1
     \<and> 0 \<le> avg_priority_fee_usd i \<and> 0 \<le> avg_swap_fee_bps i \<and> 0 \<le> avg_slippage_bps i
     \<and> 0 \<le> avg_price_impact_bps i \<and> 0 \<le> avg_failed_tx_cost_usd i"

lemma check_inputs_valid: "check_inputs i = Inr () \<longleftrightarrow> valid_inputs i"
  unfolding check_inputs_def valid_inputs_def positive_def probability_def
  by (auto split: if_splits)

lemma break_even_calculator_Inr [panic_simps]:
  "break_even_calculator X i = Some (Inr r) \<longleftrightarrow> valid_inputs i \<and> break_even_values X i = Some r"
  unfolding break_even_calculator_def check_inputs_valid [symmetric]
  by (auto simp: panic_simps split: sum.splits)

lemma calculate_Inr [panic_simps]:
  "calculate X m = Some (Inr r) \<longleftrightarrow> valid_inputs (cm_input m) \<and> break_even_values X (cm_input m) = Some r"
  by (simp add: calculate_def panic_simps)

text \<open>With exact arithmetic the calculator computes the closed forms.\<close>

definition exact_cost_pct :: "break_even_inputs \<Rightarrow> decimal" where
  "exact_cost_pct i =
     (2 * (position_size_usd i * (avg_swap_fee_bps i + avg_slippage_bps i + avg_price_impact_bps i)
           / 10000 + avg_priority_fee_usd i)
      + 2 * failed_tx_rate i * avg_failed_tx_cost_usd i) / position_size_usd i * 100"

lemma break_even_values_exact:
  assumes "break_even_values exact_ext i = Some r"
  shows "round_trip_cost_pct_of_position r = exact_cost_pct i"
    and "required_win_rate_at_given_rr r =
      (assumed_avg_loss_pct i + exact_cost_pct i)
        / (assumed_avg_loss_pct i * (1 + assumed_win_loss_ratio i))"
    and "required_avg_win_pct r =
      (assumed_avg_loss_pct i + exact_cost_pct i) / assumed_win_loss_ratio i + exact_cost_pct i"
    and "expected_failed_tx_cost_usd r = 2 * failed_tx_rate i * avg_failed_tx_cost_usd i"
  using assms
  by (auto simp: break_even_values_def panic_simps exact_cost_pct_def Let_def dest!: fit_SomeD)

context decimal_arith begin

text \<open>Whatever the rounding, every figure of a result is non-negative.\<close>

lemma break_even_nonneg:
  assumes r: "break_even_values X i = Some r" and v: "valid_inputs i"
  shows "0 \<le> round_trip_cost_usd r" and "0 \<le> round_trip_cost_pct_of_position r"
    and "0 \<le> required_win_rate_at_given_rr r" and "0 \<le> required_avg_win_pct r"
    and "0 \<le> expected_failed_tx_cost_usd r"
proof -
  obtain fs pf sc fc tr fail leg legs cu cf cp lc orr den wr win aw where
    s: "dec_add X (avg_swap_fee_bps i) (avg_slippage_bps i) = Some fs"
       "dec_add X fs (avg_price_impact_bps i) = Some pf"
       "dec_mul X (position_size_usd i) pf = Some sc" "dec_div X sc 10000 = Some fc"
       "dec_mul X 2 (failed_tx_rate i) = Some tr"
       "dec_mul X tr (avg_failed_tx_cost_usd i) = Some fail"
       "dec_add X fc (avg_priority_fee_usd i) = Some leg" "dec_mul X 2 leg = Some legs"
       "dec_add X legs fail = Some cu" "dec_div X cu (position_size_usd i) = Some cf"
       "dec_mul X cf 100 = Some cp" "dec_add X (assumed_avg_loss_pct i) cp = Some lc"
       "dec_add X 1 (assumed_win_loss_ratio i) = Some orr"
       "dec_mul X (assumed_avg_loss_pct i) orr = Some den" "dec_div X lc den = Some wr"
       "dec_div X lc (assumed_win_loss_ratio i) = Some win" "dec_add X win cp = Some aw"
    and req: "r = \<lparr>round_trip_cost_usd = cu, round_trip_cost_pct_of_position = cp,
       required_win_rate_at_given_rr = wr, required_avg_win_pct = aw,
       expected_failed_tx_cost_usd = fail\<rparr>"
    using r unfolding break_even_values_def by (auto simp: panic_simps Let_def)
  have fs: "0 \<le> fs" and tr: "0 \<le> tr" and orr: "0 \<le> orr"
    using v s by (auto simp: valid_inputs_def intro: add_nonneg mul_nonneg)
  have "0 \<le> pf" using s(2) v fs by (auto simp: valid_inputs_def intro: add_nonneg)
  then have "0 \<le> sc" using s(3) v by (auto simp: valid_inputs_def intro: mul_nonneg)
  then have "0 \<le> fc" using s(4) by (auto intro: div_nonneg)
  then have "0 \<le> leg" using s(7) v by (auto simp: valid_inputs_def intro: add_nonneg)
  then have legs: "0 \<le> legs" using s(8) by (auto intro: mul_nonneg)
  have fail: "0 \<le> fail" using s(6) v tr by (auto simp: valid_inputs_def intro: mul_nonneg)
  have cu: "0 \<le> cu" using s(9) legs fail by (auto intro: add_nonneg)
  have "0 \<le> cf" using s(10) cu v by (auto simp: valid_inputs_def intro: div_nonneg)
  then have cp: "0 \<le> cp" using s(11) by (auto intro: mul_nonneg)
  have lc: "0 \<le> lc" using s(12) cp v by (auto simp: valid_inputs_def intro: add_nonneg)
  have den: "0 \<le> den" using s(14) orr v by (auto simp: valid_inputs_def intro: mul_nonneg)
  have wr: "0 \<le> wr" using s(15) lc den by (auto intro: div_nonneg)
  have "0 \<le> win" using s(16) lc v by (auto simp: valid_inputs_def intro: div_nonneg)
  then have aw: "0 \<le> aw" using s(17) cp by (auto intro: add_nonneg)
  show "0 \<le> round_trip_cost_usd r" "0 \<le> round_trip_cost_pct_of_position r"
    "0 \<le> required_win_rate_at_given_rr r" "0 \<le> required_avg_win_pct r"
    "0 \<le> expected_failed_tx_cost_usd r"
    using req cu cp wr aw fail by simp_all
qed

end

lemma gate_check_Allowed [panic_simps]:
  "gate_check X g m = Some (Inr (Allowed r)) \<longleftrightarrow>
     calculate X m = Some (Inr r) \<and> round_trip_cost_pct_of_position r \<le> gate_threshold_pct g"
  by (fastforce simp: gate_check_def panic_simps split: if_split_asm)

lemma estimate_Inr [panic_simps]:
  "estimate X gross m a e h = Some (Inr v) \<longleftrightarrow>
     (\<exists>r. calculate X m = Some (Inr r) \<and> 0 \<le> a \<and> 0 \<le> e \<and> 0 \<le> h
        \<and> estimate_values X gross (cm_input m) r a e h = Some v)"
  by (auto simp: estimate_def try_res_Inr map_option_Some_iff not_less split: if_splits)

lemma estimate_values_exact:
  assumes "estimate_values exact_ext gross i r a e h = Some v"
    and "break_even_values exact_ext i = Some r" and "valid_inputs i"
  shows "ev_net_return_pct v = gross - exact_cost_pct i - a / 100 - e / 100 - h"
    and "ev_gross_return_pct v = gross"
proof -
  have p: "position_size_usd i \<noteq> 0" using assms(3) by (simp add: valid_inputs_def)
  have f: "expected_failed_tx_cost_usd r = 2 * failed_tx_rate i * avg_failed_tx_cost_usd i"
    using assms(2) by (rule break_even_values_exact)
  have "ev_net_return_pct v = gross - 2 * avg_swap_fee_bps i / 100
     - 2 * avg_priority_fee_usd i / position_size_usd i * 100 - 2 * avg_slippage_bps i / 100
     - 2 * avg_price_impact_bps i / 100
     - expected_failed_tx_cost_usd r / position_size_usd i * 100 - a / 100 - e / 100 - h"
    using assms(1) by (auto simp: estimate_values_def panic_simps Let_def dest!: fit_SomeD)
  also have "\<dots> = gross - exact_cost_pct i - a / 100 - e / 100 - h"
    unfolding f exact_cost_pct_def using p by (simp add: field_simps)
  finally show "ev_net_return_pct v = gross - exact_cost_pct i - a / 100 - e / 100 - h" .
  show "ev_gross_return_pct v = gross"
    using assms(1) by (auto simp: estimate_values_def panic_simps Let_def dest!: fit_SomeD)
qed

text \<open>A set of inputs of the kind the configuration describes, for the concrete runs.\<close>

definition sample_inputs :: break_even_inputs where
  "sample_inputs = \<lparr>position_size_usd = 10, avg_priority_fee_usd = 2 / 1000,
     avg_swap_fee_bps = 30, avg_slippage_bps = 100, avg_price_impact_bps = 20,
     failed_tx_rate = 1 / 10, avg_failed_tx_cost_usd = 2 / 1000,
     assumed_win_loss_ratio = 2, assumed_avg_loss_pct = 10\<rparr>"

definition sample_costs :: cost_model where
  "sample_costs = \<lparr>cm_observed_at = 0, cm_input = sample_inputs, cm_source = ''test'',
     cm_is_live_snapshot = False\<rparr>"

lemma sample_valid: "valid_inputs sample_inputs"
  by (simp add: valid_inputs_def sample_inputs_def)

lemma sample_values:
  "break_even_values exact_ext sample_inputs =
     Some \<lparr>round_trip_cost_usd = 761 / 2500, round_trip_cost_pct_of_position = 761 / 250,
           required_win_rate_at_given_rr = 1087 / 2500, required_avg_win_pct = 4783 / 500,
           expected_failed_tx_cost_usd = 1 / 2500\<rparr>"
  by (simp add: break_even_values_def sample_inputs_def fit_def dec_max_def)

lemma sample_calculate: "\<exists>r. calculate exact_ext sample_costs = Some (Inr r)"
  by (simp add: calculate_Inr sample_costs_def sample_values sample_valid)

section \<open>Properties\<close>

text \<open>
  The calculator solves the equation its documentation
  states. With exact arithmetic, at the returned win rate the expected net outcome of a trade that
  wins \<open>R * L - C\<close> or loses \<open>L + C\<close> is zero, the required average win leaves \<open>R\<close> times less than
  the net loss after costs, and the win rate is a probability exactly when costs do not exceed the
  gross win.
\<close>

theorem break_even_solves:
  assumes "break_even_calculator exact_ext i = Some (Inr r)"
  shows "let p = required_win_rate_at_given_rr r; C = round_trip_cost_pct_of_position r;
             L = assumed_avg_loss_pct i; R = assumed_win_loss_ratio i
         in p * (R * L - C) + (1 - p) * (- L - C) = 0
            \<and> (required_avg_win_pct r - C) * R = L + C
            \<and> (p \<le> 1 \<longleftrightarrow> C \<le> R * L) \<and> C = exact_cost_pct i"
proof -
  have v: "valid_inputs i" and r: "break_even_values exact_ext i = Some r"
    using assms by (simp_all add: break_even_calculator_Inr)
  let ?L = "assumed_avg_loss_pct i" and ?R = "assumed_win_loss_ratio i" and ?C = "exact_cost_pct i"
  let ?p = "(?L + ?C) / (?L * (1 + ?R))"
  have L: "0 < ?L" and R: "0 < ?R" using v by (simp_all add: valid_inputs_def)
  then have d: "0 < ?L * (1 + ?R)" by simp
  have q: "x / D * D = x" if "0 < D" for x D :: decimal using that by simp
  have "?p * (?L * (1 + ?R)) = ?L + ?C" by (rule q [OF d])
  moreover have "?p * (?R * ?L - ?C) + (1 - ?p) * (- ?L - ?C) = ?p * (?L * (1 + ?R)) - (?L + ?C)"
    by (simp only: ring_distribs) simp
  ultimately have eq: "?p * (?R * ?L - ?C) + (1 - ?p) * (- ?L - ?C) = 0" by simp
  have le: "?p \<le> 1 \<longleftrightarrow> ?C \<le> ?R * ?L"
    using d by (simp add: divide_le_eq algebra_simps)
  show ?thesis
    unfolding break_even_values_exact(1-3) [OF r] Let_def using eq le R by simp
qed

theorem break_even_solves_witness:
  "\<exists>r. break_even_calculator exact_ext sample_inputs = Some (Inr r)
     \<and> (let p = required_win_rate_at_given_rr r; C = round_trip_cost_pct_of_position r
        in p * (20 - C) + (1 - p) * (- 10 - C) = 0)"
proof -
  obtain r where r: "break_even_calculator exact_ext sample_inputs = Some (Inr r)"
    by (auto simp: break_even_calculator_Inr sample_valid sample_values)
  have "assumed_avg_loss_pct sample_inputs = 10" "assumed_win_loss_ratio sample_inputs = 2"
    by (simp_all add: sample_inputs_def)
  with r break_even_solves [OF r] show ?thesis
    by (intro exI [of _ r]) (auto simp: Let_def)
qed

text \<open>
  Whatever the rounding of the decimal type, as long as it
  is monotone and keeps zero, every figure of a successful calculation is non-negative, so the
  gate never admits a trade on a negative cost.
\<close>

theorem figures_non_negative:
  assumes "decimal_arith X" and "break_even_calculator X i = Some (Inr r)"
  shows "0 \<le> round_trip_cost_usd r \<and> 0 \<le> round_trip_cost_pct_of_position r
     \<and> 0 \<le> required_win_rate_at_given_rr r \<and> 0 \<le> required_avg_win_pct r
     \<and> 0 \<le> expected_failed_tx_cost_usd r"
  using assms(2) decimal_arith.break_even_nonneg [OF assms(1), of i r]
  by (simp add: break_even_calculator_Inr)

theorem figures_non_negative_witness:
  "\<exists>r. break_even_calculator exact_ext sample_inputs = Some (Inr r) \<and> 0 \<le> round_trip_cost_usd r"
proof -
  obtain r where r: "break_even_calculator exact_ext sample_inputs = Some (Inr r)"
    by (auto simp: break_even_calculator_Inr sample_valid sample_values)
  with figures_non_negative [OF exact.decimal_arith_axioms r] show ?thesis by blast
qed

text \<open>
  The expected value charges every cost once. With exact
  arithmetic the net return is the gross return minus the round-trip cost of the calculator minus
  the adverse-selection, exit and uncertainty components, all of which are non-negative.
\<close>

theorem estimate_decomposes:
  assumes "estimate exact_ext gross m adverse_bps exit_bps haircut = Some (Inr v)"
  shows "\<exists>r. calculate exact_ext m = Some (Inr r)
     \<and> ev_net_return_pct v = gross - round_trip_cost_pct_of_position r
         - adverse_bps / 100 - exit_bps / 100 - haircut
     \<and> ev_net_return_pct v \<le> gross"
proof -
  obtain r where v: "valid_inputs (cm_input m)"
    and r: "break_even_values exact_ext (cm_input m) = Some r"
    and nn: "0 \<le> adverse_bps" "0 \<le> exit_bps" "0 \<le> haircut"
    and e: "estimate_values exact_ext gross (cm_input m) r adverse_bps exit_bps haircut = Some v"
    using assms by (auto simp: estimate_Inr calculate_Inr)
  have net: "ev_net_return_pct v = gross - round_trip_cost_pct_of_position r
         - adverse_bps / 100 - exit_bps / 100 - haircut"
    using estimate_values_exact(1) [OF e r v] by (simp add: break_even_values_exact(1) [OF r])
  have "0 \<le> round_trip_cost_pct_of_position r" by (rule exact.break_even_nonneg(2) [OF r v])
  then have "ev_net_return_pct v \<le> gross" unfolding net using nn by simp
  with net v r show ?thesis by (auto simp: calculate_Inr)
qed

theorem estimate_decomposes_witness:
  "\<exists>v r. estimate exact_ext 12 sample_costs 0 0 1 = Some (Inr v)
     \<and> calculate exact_ext sample_costs = Some (Inr r)
     \<and> ev_net_return_pct v = 12 - round_trip_cost_pct_of_position r - 0 / 100 - 0 / 100 - 1"
proof -
  have "\<exists>v. estimate exact_ext 12 sample_costs 0 0 1 = Some (Inr v)"
    by (simp add: estimate_def calculate_def break_even_calculator_def check_inputs_def
        positive_def probability_def sample_costs_def sample_values estimate_values_def Let_def)
      (simp add: sample_inputs_def fit_def dec_max_def)
  then obtain v where "estimate exact_ext 12 sample_costs 0 0 1 = Some (Inr v)" by blast
  with estimate_decomposes [OF this] show ?thesis by blast
qed

end
