(* ===== verification/Domain.thy ===== *)
theory Domain
  imports Economics
begin

text \<open>
  \<open>src/domain\<close>: market snapshots, token safety, wallets, signals, positions, fills and orders,
  with the order state machine of \<open>trade.rs\<close>. Record fields carry a prefix naming their
  struct, because the structs share field names.
\<close>

section \<open>market.rs, token.rs, wallet.rs, signal.rs\<close>

record market_snapshot =
  mk_mint :: string
  mk_price_usd :: decimal
  mk_liquidity_usd :: decimal
  mk_volume_24h_usd :: decimal
  mk_volatility_pct :: decimal
  mk_buy_sell_imbalance :: decimal
  mk_observed_at :: datetime
  mk_received_at :: datetime
  mk_slot :: "u64 option"
  mk_price_impact_bps :: "u32 option"

definition age_seconds :: "ext \<Rightarrow> market_snapshot \<Rightarrow> datetime \<Rightarrow> int" where
  "age_seconds X m now = num_seconds X (now - mk_observed_at m)"

record token_safety =
  mint_authority_present :: bool
  freeze_authority_present :: bool
  holder_top10_pct :: decimal
  token_age_secs :: int
  liquidity_locked_or_burned :: "bool option"
  sellable :: "bool option"
  route_available :: "bool option"
  creator_suspicious :: "bool option"
  abnormal_activity :: "bool option"
  liquidity_change_pct :: "decimal option"
  ts_observed_at :: datetime

datatype wallet_tier = Candidate | Observed | Qualified | HighConfidence

record wallet_stats =
  w_wallet :: string
  w_entity_id :: "string option"
  w_realized_pnl_usd :: decimal
  w_win_rate :: decimal
  w_avg_return_pct :: decimal
  w_median_return_pct :: decimal
  w_max_drawdown_pct :: decimal
  w_trades :: u32
  w_recent_return_pct :: decimal
  w_concentration_pct :: decimal
  w_scam_exposure_pct :: decimal
  w_score :: decimal
  w_tier :: wallet_tier
  w_updated_at :: datetime
  w_avg_win_pct :: "decimal option"
  w_avg_loss_pct :: "decimal option"

datatype side = Buy | Sell

record wallet_trade_observation =
  ob_wallet :: string
  ob_mint :: string
  ob_side :: side
  ob_notional_usd :: decimal
  ob_observed_at :: datetime
  ob_received_at :: datetime
  ob_signature :: string

record signal_score =
  wallet_score :: decimal
  wallet_sample_size :: u32
  wallet_recent_score :: decimal
  consensus_score :: decimal
  liquidity_score :: decimal
  momentum_score :: decimal
  risk_score :: decimal
  economic_score :: decimal
  final_signal_score :: decimal

record trade_signal =
  sg_id :: string
  sg_mint :: string
  sg_wallets :: "string list"
  sg_side :: side
  sg_score :: signal_score
  sg_expected_gross_return_pct :: decimal
  sg_created_at :: datetime
  sg_reason :: string

section \<open>position.rs\<close>

datatype position_state = PosOpen | PosClosed

datatype reconciliation_status =
  Unverified | RsReconciled | AdjustedOnChain | Mismatch | ClosedOnChain

definition quantity_is_trusted :: "reconciliation_status \<Rightarrow> bool" where
  "quantity_is_trusted s \<longleftrightarrow> s = RsReconciled \<or> s = AdjustedOnChain"

record position =
  p_mint :: string
  p_position_id :: "string option"
  p_token_mint :: "string option"
  p_base_mint :: "string option"
  p_entry_input_amount_atomic :: "u64 option"
  p_entry_output_amount_atomic :: "u64 option"
  p_token_decimals :: "u8 option"
  p_base_mint_decimals :: "u8 option"
  p_entry_fees_usd :: "decimal option"
  p_entry_slippage_bps :: "u32 option"
  p_entry_cost_model :: "cost_model option"
  p_quantity :: decimal
  p_remaining_quantity_atomic :: "u64 option"
  p_entry_cost_usd :: "decimal option"
  p_base_entry_price_usd :: "decimal option"
  p_state :: position_state
  p_reconciliation_status :: reconciliation_status
  p_last_reconciled_at :: "datetime option"
  p_exit_signature :: "string option"
  p_exit_fees_usd :: "decimal option"
  p_exit_time :: "datetime option"
  p_entry_price_usd :: decimal
  p_entry_time :: datetime
  p_entry_signature :: string
  p_high_water_price_usd :: decimal
  p_realized_pnl_usd :: decimal
  p_unrealized_pnl_usd :: decimal
  p_fees_usd :: decimal
  p_current_value_usd :: decimal
  p_signal_id :: string
  p_exit_reason :: "string option"

definition is_open :: "position \<Rightarrow> bool" where
  "is_open p \<longleftrightarrow> p_state p = PosOpen"

definition trusted_remaining :: "position \<Rightarrow> u64 option" where
  "trusted_remaining p =
     (if \<not> is_open p then None
      else if \<not> quantity_is_trusted (p_reconciliation_status p) then None
      else p_remaining_quantity_atomic p)"

section \<open>trade.rs\<close>

record fill =
  f_order_id :: string
  f_signature :: string
  f_input_amount :: u64
  f_output_amount :: u64
  f_price_usd :: decimal
  f_fees_usd :: decimal
  f_slippage_bps :: u32
  f_confirmed_at :: datetime
  f_latency_ms :: u64
  f_fee_lamports :: u64
  f_input_value_usd :: "decimal option"
  f_expected_output_amount :: "u64 option"

definition u32_try_from :: "u64 \<Rightarrow> u32 option" where
  "u32_try_from w = (if unat w < 2 ^ 32 then Some (ucast w) else None)"

definition realised_slippage_bps :: "fill \<Rightarrow> u32" where
  "realised_slippage_bps f =
     (case f_expected_output_amount f of
        None \<Rightarrow> 0
      | Some expected \<Rightarrow>
          if expected = 0 \<or> f_output_amount f \<ge> expected then 0
          else case u32_try_from (sat_mul (expected - f_output_amount f) 10000 div expected) of
                 Some w \<Rightarrow> w | None \<Rightarrow> - 1)"

datatype order_state =
  Pending | Submitted | Confirmed | Failed | Dropped | Unknown | Expired | Reconciled

fun is_terminal :: "order_state \<Rightarrow> bool" where
  "is_terminal s = (s \<in> {Confirmed, Failed, Dropped, Expired, Reconciled})"

fun can_transition :: "order_state \<Rightarrow> order_state \<Rightarrow> bool" where
  "can_transition Pending Submitted = True"
| "can_transition Pending Failed = True"
| "can_transition Pending Expired = True"
| "can_transition Pending Unknown = True"
| "can_transition Submitted Confirmed = True"
| "can_transition Submitted Failed = True"
| "can_transition Submitted Expired = True"
| "can_transition Submitted Unknown = True"
| "can_transition Unknown Confirmed = True"
| "can_transition Unknown Failed = True"
| "can_transition Unknown Expired = True"
| "can_transition Unknown Reconciled = True"
| "can_transition _ _ = False"

datatype order_kind = Entry | Exit | LegacyUnknown
datatype order_side = BuySide | SellSide | UnknownSide

record order_record =
  o_id :: string
  o_signal_id :: string
  o_mint :: string
  o_kind :: order_kind
  o_position_id :: "string option"
  o_side :: order_side
  o_input_mint :: "string option"
  o_output_mint :: "string option"
  o_input_amount_atomic :: "u64 option"
  o_input_value_usd :: "decimal option"
  o_output_mint_decimals :: "u8 option"
  o_state :: order_state
  o_idempotency_key :: string
  o_created_at :: datetime
  o_signature :: "string option"
  o_error :: "string option"

text \<open>The \<open>Debug\<close> text of a state, which is also what the \<open>state\<close> column of the store holds.\<close>

fun state_debug :: "order_state \<Rightarrow> string" where
  "state_debug Pending = ''Pending''"
| "state_debug Submitted = ''Submitted''"
| "state_debug Confirmed = ''Confirmed''"
| "state_debug Failed = ''Failed''"
| "state_debug Dropped = ''Dropped''"
| "state_debug Unknown = ''Unknown''"
| "state_debug Expired = ''Expired''"
| "state_debug Reconciled = ''Reconciled''"

text \<open>\<open>OrderRecord::transition\<close>; on an error the record is left as it was.\<close>

definition transition :: "order_record \<Rightarrow> order_state \<Rightarrow> string + order_record" where
  "transition ord next =
     (if o_state ord = next then Inr ord
      else if can_transition (o_state ord) next then Inr (ord\<lparr>o_state := next\<rparr>)
      else Inl (''illegal order transition '' @ state_debug (o_state ord) @ '' -> ''
                @ state_debug next))"

text \<open>Callers that log or drop the error keep the record the method left behind.\<close>

definition transition_or_keep :: "order_record \<Rightarrow> order_state \<Rightarrow> order_record" where
  "transition_or_keep ord next = (case transition ord next of Inl _ \<Rightarrow> ord | Inr ord' \<Rightarrow> ord')"

section \<open>The order state machine\<close>

text \<open>
  A machine whose steps climb a rank and whose terminal states have no step: the contract the
  order states fulfil, from which the length and the end of every run follow.
\<close>

locale ranked_machine =
  fixes step :: "'s \<Rightarrow> 's \<Rightarrow> bool" and terminal :: "'s \<Rightarrow> bool" and rank :: "'s \<Rightarrow> nat"
    and top :: nat
  assumes step_climbs: "step s t \<Longrightarrow> rank s < rank t"
    and rank_top: "rank s \<le> top"
    and terminal_stuck: "terminal s \<Longrightarrow> \<not> step s t"
    and stuck_terminal: "(\<And>t. \<not> step s t) \<Longrightarrow> terminal s"
begin

fun run :: "'s \<Rightarrow> 's list \<Rightarrow> bool" where
  "run s [] = True"
| "run s (t # ts) = (step s t \<and> run t ts)"

lemma run_length: "run s ts \<Longrightarrow> rank s + length ts \<le> top"
proof (induction ts arbitrary: s)
  case Nil
  then show ?case by (simp add: rank_top)
next
  case (Cons t ts)
  then have "rank t + length ts \<le> top" and "rank s < rank t" by (auto dest: step_climbs)
  then show ?case by simp
qed

lemma run_from_terminal: "terminal s \<Longrightarrow> run s ts \<Longrightarrow> ts = []"
  by (cases ts) (auto simp: terminal_stuck)

lemma run_climbs: "run s ts \<Longrightarrow> t \<in> set ts \<Longrightarrow> rank s < rank t"
  by (induction ts arbitrary: s) (auto dest: step_climbs intro: less_trans)

text \<open>No run returns to a state it has left.\<close>

lemma run_distinct: "run s ts \<Longrightarrow> distinct (s # ts)"
proof (induction ts arbitrary: s)
  case (Cons t ts)
  then show ?case using run_climbs [OF Cons.prems, of s] Cons.IH [of t] by auto
qed simp

end

fun order_rank :: "order_state \<Rightarrow> nat" where
  "order_rank Pending = 0"
| "order_rank Submitted = 1"
| "order_rank Unknown = 2"
| "order_rank _ = 3"

interpretation orders: ranked_machine can_transition is_terminal order_rank 3
proof
  fix s t
  show "can_transition s t \<Longrightarrow> order_rank s < order_rank t"
    by (cases "(s, t)" rule: can_transition.cases) simp_all
  show "is_terminal s \<Longrightarrow> \<not> can_transition s t"
    by (cases s) auto
qed (case_tac s; simp; metis can_transition.simps)+

lemma transition_Inr:
  "transition ord s = Inr ord' \<longleftrightarrow>
     ord' = ord\<lparr>o_state := s\<rparr> \<and> (o_state ord = s \<or> can_transition (o_state ord) s)"
  by (auto simp: transition_def)

lemma transition_or_keep_state:
  "o_state (transition_or_keep ord s) =
     (if can_transition (o_state ord) s then s else o_state ord)"
  by (auto simp: transition_or_keep_def transition_def)

lemma transition_or_keep_fields [simp]:
  "o_id (transition_or_keep ord s) = o_id ord"
  "o_kind (transition_or_keep ord s) = o_kind ord"
  "o_mint (transition_or_keep ord s) = o_mint ord"
  "o_side (transition_or_keep ord s) = o_side ord"
  "o_position_id (transition_or_keep ord s) = o_position_id ord"
  "o_idempotency_key (transition_or_keep ord s) = o_idempotency_key ord"
  "o_signature (transition_or_keep ord s) = o_signature ord"
  by (auto simp: transition_or_keep_def transition_def)

text \<open>A record driven by a list of requested transitions, refused ones leaving it alone.\<close>

fun drive :: "order_record \<Rightarrow> order_state list \<Rightarrow> order_record" where
  "drive ord [] = ord"
| "drive ord (s # ss) = drive (transition_or_keep ord s) ss"

lemma drive_terminal: "is_terminal (o_state ord) \<Longrightarrow> drive ord ss = ord"
proof (induction ss)
  case (Cons s ss)
  then have "transition_or_keep ord s = ord"
    using orders.terminal_stuck [of "o_state ord" s]
    by (auto simp: transition_or_keep_def transition_def)
  with Cons show ?case by simp
qed simp

section \<open>Realised slippage\<close>

lemma slippage_quotient:
  assumes "expected \<noteq> 0" "f_output_amount f < expected"
    and "f_expected_output_amount f = Some expected"
  shows "unat (realised_slippage_bps f) =
    min ((unat expected - unat (f_output_amount f)) * 10000) (2 ^ 64 - 1) div unat expected"
proof -
  let ?d = "expected - f_output_amount f" and ?e = "unat expected"
  have d: "unat ?d = ?e - unat (f_output_amount f)"
    using assms(2) by (simp add: unat_sub less_imp_le)
  have m: "unat (sat_mul ?d 10000) = min (unat ?d * 10000) (2 ^ 64 - 1)"
    by (simp add: unat_sat_mul)
  have e: "0 < ?e" using assms(1) by (simp add: unat_gt_0)
  have q: "unat (sat_mul ?d 10000 div expected) = min (unat ?d * 10000) (2 ^ 64 - 1) div ?e"
    by (simp add: unat_div m)
  have "min (unat ?d * 10000) (2 ^ 64 - 1) div ?e \<le> (?e * 10000) div ?e"
    using d by (intro div_le_mono) (auto simp: min_def)
  also have "\<dots> = 10000" using e by simp
  finally have small: "unat (sat_mul ?d 10000 div expected) \<le> 10000" using q by simp
  then have "unat (ucast (sat_mul ?d 10000 div expected) :: u32)
      = unat (sat_mul ?d 10000 div expected)"
    by (simp add: unsigned_ucast_eq take_bit_nat_eq_self)
  then show ?thesis
    using assms small q d by (simp add: realised_slippage_bps_def u32_try_from_def not_le)
qed

section \<open>Properties\<close>

text \<open>The states a record enters while a list of transitions is requested of it.\<close>

fun changes :: "order_record \<Rightarrow> order_state list \<Rightarrow> order_state list" where
  "changes ord [] = []"
| "changes ord (s # ss) =
     (if can_transition (o_state ord) s then s # changes (ord\<lparr>o_state := s\<rparr>) ss
      else changes ord ss)"

lemma changes_run: "orders.run (o_state ord) (changes ord ss)"
proof (induction ss arbitrary: ord)
  case (Cons s ss)
  then show ?case using Cons.IH [of "ord\<lparr>o_state := s\<rparr>"] by simp
qed simp

text \<open>
  The life of an order. Whatever transitions are requested, in
  any order and however often, a record changes its state at most three times and never enters a
  state twice; once terminal it is never changed again.
\<close>

theorem order_lifecycle:
  "length (changes ord ss) \<le> 3 \<and> distinct (o_state ord # changes ord ss)
   \<and> (is_terminal (o_state ord) \<longrightarrow> changes ord ss = [] \<and> drive ord ss = ord)"
proof -
  note run = changes_run [of ord ss]
  have "length (changes ord ss) \<le> 3" using orders.run_length [OF run] by simp
  moreover have "distinct (o_state ord # changes ord ss)" by (rule orders.run_distinct [OF run])
  moreover have "changes ord ss = [] \<and> drive ord ss = ord" if "is_terminal (o_state ord)"
    using orders.run_from_terminal [OF that run] drive_terminal [OF that] by blast
  ultimately show ?thesis by blast
qed

definition sample_order :: "order_state \<Rightarrow> order_record" where
  "sample_order s = \<lparr>o_id = ''o'', o_signal_id = ''s'', o_mint = ''m'', o_kind = Exit,
     o_position_id = Some ''pos'', o_side = SellSide, o_input_mint = Some ''m'',
     o_output_mint = Some ''sol'', o_input_amount_atomic = Some 500, o_input_value_usd = None,
     o_output_mint_decimals = Some 9, o_state = s, o_idempotency_key = ''k'',
     o_created_at = 0, o_signature = None, o_error = None\<rparr>"

theorem order_lifecycle_witness:
  "is_terminal (o_state (sample_order Failed))
   \<and> drive (sample_order Failed) [Confirmed, Reconciled] = sample_order Failed"
  using order_lifecycle [of "sample_order Failed" "[Confirmed, Reconciled]"]
  by (simp add: sample_order_def)

text \<open>
  The realised slippage of a fill is the shortfall
  against the quoted output in basis points, rounded down, and at most 10000, as long as the
  shortfall times 10000 fits 64 bits; a fill at or above the quote has slippage zero.
\<close>

theorem slippage_exact_below_saturation:
  assumes "f_expected_output_amount f = Some expected" and "expected \<noteq> 0"
    and "(unat expected - unat (f_output_amount f)) * 10000 < 2 ^ 64"
  shows "unat (realised_slippage_bps f)
      = (unat expected - unat (f_output_amount f)) * 10000 div unat expected
    \<and> unat (realised_slippage_bps f) \<le> 10000"
proof (cases "expected \<le> f_output_amount f")
  case True
  then show ?thesis
    using assms(1) by (simp add: realised_slippage_bps_def word_le_nat_alt)
next
  case False
  then have lt: "f_output_amount f < expected" by simp
  have e: "0 < unat expected" using assms(2) by (simp add: unat_gt_0)
  have q: "unat (realised_slippage_bps f)
      = (unat expected - unat (f_output_amount f)) * 10000 div unat expected"
    using slippage_quotient [OF assms(2) lt assms(1)] assms(3) by (simp add: min_def)
  have "\<dots> \<le> unat expected * 10000 div unat expected" by (intro div_le_mono) simp
  then show ?thesis using q e by simp
qed

definition sample_fill :: "u64 \<Rightarrow> u64 \<Rightarrow> fill" where
  "sample_fill out expected = \<lparr>f_order_id = ''o'', f_signature = ''sig'', f_input_amount = 500,
     f_output_amount = out, f_price_usd = 2, f_fees_usd = 0, f_slippage_bps = 0,
     f_confirmed_at = 0, f_latency_ms = 0, f_fee_lamports = 0, f_input_value_usd = Some 12,
     f_expected_output_amount = Some expected\<rparr>"

theorem slippage_exact_below_saturation_witness:
  "unat (realised_slippage_bps (sample_fill 990 1000)) = 100"
  using slippage_exact_below_saturation [of "sample_fill 990 1000" 1000]
  by (simp add: sample_fill_def)

text \<open>
  Above that bound the saturating product under-reports.
  A fill that received nothing of a quoted \<open>2^63\<close> units, a loss of 100 percent, is recorded with a
  slippage of one basis point.
\<close>

theorem slippage_underreported:
  "realised_slippage_bps (sample_fill 0 (2 ^ 63)) = 1"
  by (simp add: realised_slippage_bps_def sample_fill_def sat_mul_def u32_try_from_def)

end
