(* ===== verification/Strategy.thy ===== *)
theory Strategy
  imports Domain Config
begin

text \<open>
  \<open>src/strategy\<close>: the exit rules shared by the session, the exit monitor and the backtest
  (\<open>exit.rs\<close>), and the entry decision of the production path (\<open>signal.rs\<close>). The wall clock
  and the fresh UUID that \<open>evaluate_signal\<close> draws are arguments.
\<close>

section \<open>exit.rs\<close>

datatype exit_kind =
  StopLoss | TakeProfit | TrailingStop | TimeLimit | LiquidityDeterioration
| SignalInvalidated | Censored

fun as_str :: "exit_kind \<Rightarrow> string" where
  "as_str StopLoss = ''stop_loss''"
| "as_str TakeProfit = ''take_profit''"
| "as_str TrailingStop = ''trailing_stop''"
| "as_str TimeLimit = ''time_limit''"
| "as_str LiquidityDeterioration = ''liquidity_deterioration''"
| "as_str SignalInvalidated = ''signal_invalidated''"
| "as_str Censored = ''censored''"

text \<open>The price rules, once liquidity, invalidation and the entry price have been checked.\<close>

definition price_exit ::
    "ext \<Rightarrow> position \<Rightarrow> decimal \<Rightarrow> datetime \<Rightarrow> strategy_config \<Rightarrow> exit_kind option option" where
  "price_exit X p price now c = do {
     move \<leftarrow> dec_sub X price (p_entry_price_usd p);
     frac \<leftarrow> dec_div X move (p_entry_price_usd p);
     r \<leftarrow> dec_mul X frac 100;
     if r \<le> - stop_loss_pct c then Some (Some StopLoss)
     else if r \<ge> take_profit_pct c then Some (Some TakeProfit)
     else do {
       t \<leftarrow> dec_div X (trailing_stop_pct c) 100;
       keep \<leftarrow> dec_sub X 1 t;
       trail \<leftarrow> dec_mul X (p_high_water_price_usd p) keep;
       if price \<le> trail then Some (Some TrailingStop)
       else if num_minutes X (now - p_entry_time p) \<ge> max_holding_minutes c
         then Some (Some TimeLimit)
       else Some None
     }
   }"

definition exit_reason ::
    "ext \<Rightarrow> position \<Rightarrow> decimal \<Rightarrow> decimal option \<Rightarrow> decimal \<Rightarrow> bool \<Rightarrow> datetime \<Rightarrow> strategy_config
     \<Rightarrow> exit_kind option option" where
  "exit_reason X p price liquidity min_liquidity invalidated now c =
     (case liquidity of
        None \<Rightarrow> Some (Some LiquidityDeterioration)
      | Some liq \<Rightarrow>
          if liq < min_liquidity then Some (Some LiquidityDeterioration)
          else if invalidated then Some (Some SignalInvalidated)
          else if p_entry_price_usd p \<le> 0 then Some (Some StopLoss)
          else price_exit X p price now c)"

section \<open>signal.rs\<close>

datatype strategy_decision = Accepted trade_signal | Rejected string

text \<open>The token-safety filter.\<close>

definition token_unsafe :: "config \<Rightarrow> token_safety \<Rightarrow> bool" where
  "token_unsafe c s \<longleftrightarrow> token_age_secs s < min_token_age_secs (strategy c)
     \<or> mint_authority_present s \<or> freeze_authority_present s
     \<or> holder_top10_pct s > 70
     \<or> sellable s \<noteq> Some True \<or> route_available s \<noteq> Some True
     \<or> creator_suspicious s = Some True \<or> abnormal_activity s = Some True
     \<or> (case liquidity_change_pct s of None \<Rightarrow> 0 | Some v \<Rightarrow> v) < - 20"

definition weak_wallet :: "config \<Rightarrow> datetime \<Rightarrow> wallet_stats \<Rightarrow> bool" where
  "weak_wallet c now w \<longleftrightarrow> w_trades w < min_wallet_samples (strategy c)
     \<or> w_score w < min_wallet_score (strategy c) \<or> w_updated_at w > now"

text \<open>\<open>iter().map(|w| w.trades).min().unwrap_or(0)\<close>.\<close>

fun min_trades :: "wallet_stats list \<Rightarrow> u32" where
  "min_trades [] = 0"
| "min_trades [w] = w_trades w"
| "min_trades (w # ws) = min (w_trades w) (min_trades ws)"

definition clamp :: "decimal \<Rightarrow> decimal \<Rightarrow> decimal \<Rightarrow> decimal" where
  "clamp lo hi x = (if x < lo then lo else if x > hi then hi else x)"

definition wallet_count :: "wallet_stats list \<Rightarrow> decimal" where
  "wallet_count ws = dec_of_word (of_nat (length ws) :: u32)"

definition signal_scores ::
    "ext \<Rightarrow> wallet_stats list \<Rightarrow> market_snapshot \<Rightarrow> expected_value \<Rightarrow> signal_score option" where
  "signal_scores X ws m e = do {
     let count = wallet_count ws;
     ss \<leftarrow> dec_sum X (map w_score ws);
     ws_score \<leftarrow> dec_div X ss count;
     rs \<leftarrow> dec_sum X (map w_recent_return_pct ws);
     recent \<leftarrow> dec_div X rs count;
     cs \<leftarrow> dec_mul X count 20;
     l1 \<leftarrow> dec_div X (mk_liquidity_usd m) 10000;
     l2 \<leftarrow> dec_mul X l1 100;
     mo \<leftarrow> dec_mul X (mk_buy_sell_imbalance m) 50;
     rk \<leftarrow> dec_sub X 100 (min (mk_volatility_pct m) 100);
     ec \<leftarrow> dec_mul X (ev_net_return_pct e) 10;
     let consensus = min cs 100;
     let liquidity = min l2 100;
     let momentum = clamp 0 100 mo;
     let economic = min ec 100;
     t1 \<leftarrow> dec_add X ws_score consensus;
     t2 \<leftarrow> dec_add X t1 liquidity;
     t3 \<leftarrow> dec_add X t2 momentum;
     t4 \<leftarrow> dec_add X t3 rk;
     t5 \<leftarrow> dec_add X t4 economic;
     final \<leftarrow> dec_div X t5 6;
     Some \<lparr>wallet_score = ws_score, wallet_sample_size = min_trades ws,
           wallet_recent_score = recent, consensus_score = consensus,
           liquidity_score = liquidity, momentum_score = momentum, risk_score = rk,
           economic_score = economic, final_signal_score = final\<rparr>
   }"

text \<open>The checks that precede scoring, with the reason of the first one that rejects.\<close>

definition entry_filter ::
    "ext \<Rightarrow> config \<Rightarrow> wallet_stats list \<Rightarrow> market_snapshot \<Rightarrow> token_safety \<Rightarrow> expected_value
     \<Rightarrow> datetime \<Rightarrow> string option" where
  "entry_filter X c ws m s e now =
    (if mk_observed_at m > now \<or> ts_observed_at s > now
        \<or> age_seconds X m now > max_data_age_secs (rpc c)
     then Some ''stale or future-dated market data''
     else if mk_liquidity_usd m < min_liquidity_usd (risk c)
     then Some ''insufficient liquidity''
     else if token_unsafe c s
     then Some ''token safety filter or incomplete safety evidence''
     else if length ws < unat (min_consensus_wallets (strategy c))
     then Some ''insufficient independent qualified wallet consensus''
     else if list_ex (weak_wallet c now) ws
     then Some ''wallet evidence below configured confidence threshold''
     else if ev_net_return_pct e < min_expected_net_return_pct (economics c)
     then Some ''economic edge below threshold''
     else if wallet_count ws \<le> 0
     then Some ''no wallets for scoring''
     else None)"

definition evaluate_signal ::
    "ext \<Rightarrow> config \<Rightarrow> string \<Rightarrow> wallet_stats list \<Rightarrow> market_snapshot \<Rightarrow> token_safety
     \<Rightarrow> expected_value \<Rightarrow> datetime \<Rightarrow> string \<Rightarrow> strategy_decision option" where
  "evaluate_signal X c mint ws m s e now uuid =
     (case entry_filter X c ws m s e now of
        Some reason \<Rightarrow> Some (Rejected reason)
      | None \<Rightarrow> do {
          score \<leftarrow> signal_scores X ws m e;
          if final_signal_score score < min_signal_score (strategy c)
          then Some (Rejected ''signal confidence below threshold'')
          else Some (Accepted
            \<lparr>sg_id = uuid, sg_mint = mint, sg_wallets = map w_wallet ws, sg_side = Buy,
             sg_score = score, sg_expected_gross_return_pct = ev_gross_return_pct e,
             sg_created_at = now,
             sg_reason = ''qualified-wallet accumulation with liquid safe market''\<rparr>)
        })"

section \<open>Facts\<close>

lemma exit_reason_no_liquidity:
  "exit_reason X p price None ml inval now c = Some (Some LiquidityDeterioration)"
  by (simp add: exit_reason_def)

lemma exit_reason_holds_only_when_healthy:
  assumes "exit_reason X p price liquidity ml inval now c = Some None"
  obtains liq where "liquidity = Some liq" "ml \<le> liq" "\<not> inval" "0 < p_entry_price_usd p"
    "num_minutes X (now - p_entry_time p) < max_holding_minutes c"
    "price_exit X p price now c = Some None"
  using assms
  by (fastforce simp: exit_reason_def price_exit_def panic_simps not_less not_le
      split: option.splits if_split_asm)

lemma price_exit_None_exact:
  assumes "price_exit exact_ext p price now c = Some None" and "0 < p_entry_price_usd p"
  shows "p_entry_price_usd p * (1 - stop_loss_pct c / 100) < price"
    and "price < p_entry_price_usd p * (1 + take_profit_pct c / 100)"
    and "p_high_water_price_usd p * (1 - trailing_stop_pct c / 100) < price"
proof -
  let ?e = "p_entry_price_usd p"
  have r: "- stop_loss_pct c < (price - ?e) / ?e * 100" "(price - ?e) / ?e * 100 < take_profit_pct c"
    and t: "p_high_water_price_usd p * (1 - trailing_stop_pct c / 100) < price"
    using assms(1)
    by (auto simp: price_exit_def panic_simps not_le dest!: fit_SomeD split: if_split_asm)
  show "p_high_water_price_usd p * (1 - trailing_stop_pct c / 100) < price" by (rule t)
  show "?e * (1 - stop_loss_pct c / 100) < price"
    using r(1) assms(2) by (simp add: field_simps)
  show "price < ?e * (1 + take_profit_pct c / 100)"
    using r(2) assms(2) by (simp add: field_simps)
qed

context decimal_arith begin

text \<open>A stop that fires at one price fires at every lower one, whatever the rounding.\<close>

lemma stop_loss_downward:
  assumes hit: "price_exit X p price now c = Some (Some StopLoss)"
    and ran: "price_exit X p price' now' c = Some k"
    and le: "price' \<le> price" and e: "0 < p_entry_price_usd p"
  shows "k = Some StopLoss"
proof -
  obtain m f r where s: "dec_sub X price (p_entry_price_usd p) = Some m"
      "dec_div X m (p_entry_price_usd p) = Some f" "dec_mul X f 100 = Some r"
    and stop: "r \<le> - stop_loss_pct c"
    using hit by (auto simp: price_exit_def panic_simps split: if_split_asm)
  obtain m' f' r' where s': "dec_sub X price' (p_entry_price_usd p) = Some m'"
      "dec_div X m' (p_entry_price_usd p) = Some f'" "dec_mul X f' 100 = Some r'"
    using ran by (auto simp: price_exit_def panic_simps)
  have "m' \<le> m" using sub_mono [OF s'(1) s(1)] le by simp
  then have "f' \<le> f" using div_mono [OF s'(2) s(2)] e by (simp add: divide_right_mono)
  then have "r' \<le> r" using mul_mono [OF s'(3) s(3)] by simp
  then show ?thesis
    using ran s' stop by (simp add: price_exit_def)
qed

end

lemma entry_filter_None:
  "entry_filter X c ws m s e now = None \<longleftrightarrow>
     mk_observed_at m \<le> now \<and> ts_observed_at s \<le> now
     \<and> age_seconds X m now \<le> max_data_age_secs (rpc c)
     \<and> min_liquidity_usd (risk c) \<le> mk_liquidity_usd m \<and> \<not> token_unsafe c s
     \<and> unat (min_consensus_wallets (strategy c)) \<le> length ws
     \<and> (\<forall>w\<in>set ws. \<not> weak_wallet c now w)
     \<and> min_expected_net_return_pct (economics c) \<le> ev_net_return_pct e \<and> 0 < wallet_count ws"
  by (auto simp: entry_filter_def not_less not_le list_ex_iff)

lemma evaluate_signal_Accepted:
  "evaluate_signal X c mint ws m s e now uuid = Some (Accepted sg) \<longleftrightarrow>
     (\<exists>score. entry_filter X c ws m s e now = None \<and> signal_scores X ws m e = Some score
        \<and> min_signal_score (strategy c) \<le> final_signal_score score
        \<and> sg = \<lparr>sg_id = uuid, sg_mint = mint, sg_wallets = map w_wallet ws, sg_side = Buy,
             sg_score = score, sg_expected_gross_return_pct = ev_gross_return_pct e,
             sg_created_at = now,
             sg_reason = ''qualified-wallet accumulation with liquid safe market''\<rparr>)"
  by (auto simp: evaluate_signal_def panic_simps not_less split: option.splits if_splits)

text \<open>Concrete inputs: a healthy market and two qualified wallets.\<close>

definition sample_market :: market_snapshot where
  "sample_market = \<lparr>mk_mint = ''m'', mk_price_usd = 2, mk_liquidity_usd = 60000,
     mk_volume_24h_usd = 0, mk_volatility_pct = 0, mk_buy_sell_imbalance = 2,
     mk_observed_at = 0, mk_received_at = 0, mk_slot = None, mk_price_impact_bps = None\<rparr>"

definition sample_safety :: token_safety where
  "sample_safety = \<lparr>mint_authority_present = False, freeze_authority_present = False,
     holder_top10_pct = 40, token_age_secs = 90000, liquidity_locked_or_burned = None,
     sellable = Some True, route_available = Some True, creator_suspicious = None,
     abnormal_activity = None, liquidity_change_pct = None, ts_observed_at = 0\<rparr>"

definition sample_wallet :: "string \<Rightarrow> wallet_stats" where
  "sample_wallet name = \<lparr>w_wallet = name, w_entity_id = None, w_realized_pnl_usd = 50,
     w_win_rate = 8 / 10, w_avg_return_pct = 15, w_median_return_pct = 10,
     w_max_drawdown_pct = 5, w_trades = 50, w_recent_return_pct = 12,
     w_concentration_pct = 10, w_scam_exposure_pct = 0, w_score = 80,
     w_tier = HighConfidence, w_updated_at = 0, w_avg_win_pct = None, w_avg_loss_pct = None\<rparr>"

definition sample_ev :: expected_value where
  "sample_ev = \<lparr>ev_gross_return_pct = 12, trading_fees_pct = 1, priority_and_network_pct = 0,
     slippage_pct = 0, price_impact_pct = 0, failed_transaction_pct = 0,
     adverse_selection_pct = 0, expected_exit_cost_pct = 0, ev_uncertainty_haircut_pct = 1,
     ev_net_return_pct = 10\<rparr>"

definition sample_position :: position where
  "sample_position = \<lparr>p_mint = ''m'', p_position_id = Some ''pos'', p_token_mint = Some ''m'',
     p_base_mint = Some ''sol'', p_entry_input_amount_atomic = Some 1000,
     p_entry_output_amount_atomic = Some 500, p_token_decimals = Some 2,
     p_base_mint_decimals = Some 3, p_entry_fees_usd = Some 0, p_entry_slippage_bps = Some 0,
     p_entry_cost_model = Some sample_costs, p_quantity = 500,
     p_remaining_quantity_atomic = Some 500, p_entry_cost_usd = Some 10,
     p_base_entry_price_usd = Some 10, p_state = PosOpen,
     p_reconciliation_status = RsReconciled, p_last_reconciled_at = None,
     p_exit_signature = None, p_exit_fees_usd = None, p_exit_time = None,
     p_entry_price_usd = 2, p_entry_time = 0, p_entry_signature = ''sig'',
     p_high_water_price_usd = 2, p_realized_pnl_usd = 0, p_unrealized_pnl_usd = 0,
     p_fees_usd = 0, p_current_value_usd = 10, p_signal_id = ''s'', p_exit_reason = None\<rparr>"

lemma sample_signal_accepted:
  "\<exists>sg. evaluate_signal exact_ext (example_config Paper) ''m''
     [sample_wallet ''a'', sample_wallet ''b''] sample_market sample_safety sample_ev 0 ''u''
     = Some (Accepted sg)"
  by (simp add: evaluate_signal_Accepted entry_filter_None signal_scores_def age_seconds_def
      token_unsafe_def weak_wallet_def wallet_count_def dec_of_word_def dec_sum_def clamp_def
      sample_wallet_def sample_market_def sample_safety_def sample_ev_def fit_def dec_max_def
      trunc_quot_def nanos_def)

section \<open>Properties\<close>

text \<open>
  The exit rules fail closed. A position is kept only if
  its liquidity is known and at least the minimum, its signal is not invalidated, its entry price
  is positive, the price is strictly between the stop-loss and take-profit levels and above the
  trailing stop of the high-water mark (exact arithmetic), and the holding time is below the limit.
\<close>

theorem held_only_when_healthy:
  assumes "exit_reason exact_ext p price liquidity min_liq invalidated now c = Some None"
  shows "(\<exists>liq. liquidity = Some liq \<and> min_liq \<le> liq) \<and> \<not> invalidated \<and> 0 < p_entry_price_usd p
     \<and> p_entry_price_usd p * (1 - stop_loss_pct c / 100) < price
     \<and> price < p_entry_price_usd p * (1 + take_profit_pct c / 100)
     \<and> p_high_water_price_usd p * (1 - trailing_stop_pct c / 100) < price
     \<and> num_minutes exact_ext (now - p_entry_time p) < max_holding_minutes c"
  by (rule exit_reason_holds_only_when_healthy [OF assms]) (simp add: price_exit_None_exact)

theorem held_only_when_healthy_witness:
  "0 < p_entry_price_usd sample_position"
  using held_only_when_healthy [of sample_position "202 / 100" "Some 60000" 50000 False 0
      "strategy (example_config Paper)"]
  by (simp add: exit_reason_def price_exit_def sample_position_def fit_def dec_max_def
      trunc_quot_def nanos_def)

text \<open>
  A stop-loss is never un-triggered by a worse price. For
  every monotone rounding, if a price triggers the stop-loss of a position, every lower price that
  the code evaluates does, at any time and with any healthy liquidity.
\<close>

theorem stop_loss_monotone:
  assumes "decimal_arith X" and "0 < p_entry_price_usd p" and "price' \<le> price"
    and "min_liq \<le> liq" and "min_liq \<le> liq'"
    and "exit_reason X p price (Some liq) min_liq False now c = Some (Some StopLoss)"
    and "exit_reason X p price' (Some liq') min_liq False now' c = Some k"
  shows "k = Some StopLoss"
proof -
  have "price_exit X p price now c = Some (Some StopLoss)" "price_exit X p price' now' c = Some k"
    using assms(2,4-7) by (simp_all add: exit_reason_def)
  then show ?thesis by (rule decimal_arith.stop_loss_downward [OF assms(1) _ _ assms(3,2)])
qed

theorem stop_loss_monotone_witness:
  "exit_reason exact_ext sample_position 1 (Some 60000) 50000 False 0
     (strategy (example_config Paper)) = Some (Some StopLoss)"
proof -
  have "exit_reason exact_ext sample_position (19 / 10) (Some 60000) 50000 False 0
      (strategy (example_config Paper)) = Some (Some StopLoss)"
    "\<exists>k. exit_reason exact_ext sample_position 1 (Some 60000) 50000 False 0
      (strategy (example_config Paper)) = Some k" "0 < p_entry_price_usd sample_position"
    by (simp_all add: exit_reason_def price_exit_def sample_position_def fit_def dec_max_def)
  then show ?thesis
    using stop_loss_monotone [OF exact.decimal_arith_axioms, of sample_position 1 "19 / 10"
        50000 60000 60000 0 "strategy (example_config Paper)" 0] by auto
qed

text \<open>
  An accepted signal is for the requested
  mint and the given wallets, and everything behind it holds: fresh market data that is not from
  the future, sufficient liquidity, complete and clean safety evidence, at least the configured
  number of wallets, each with enough trades and score and statistics not from the future, a
  sufficient net return and a sufficient score.
\<close>

theorem accepted_signal_passed_every_filter:
  assumes "evaluate_signal X c mint ws m s e now uuid = Some (Accepted sg)"
  shows "sg_mint sg = mint \<and> sg_wallets sg = map w_wallet ws \<and> sg_side sg = Buy
    \<and> mk_observed_at m \<le> now \<and> ts_observed_at s \<le> now
    \<and> age_seconds X m now \<le> max_data_age_secs (rpc c)
    \<and> min_liquidity_usd (risk c) \<le> mk_liquidity_usd m
    \<and> sellable s = Some True \<and> route_available s = Some True
    \<and> \<not> mint_authority_present s \<and> \<not> freeze_authority_present s \<and> holder_top10_pct s \<le> 70
    \<and> unat (min_consensus_wallets (strategy c)) \<le> length ws
    \<and> list_all (\<lambda>w. min_wallet_samples (strategy c) \<le> w_trades w
        \<and> min_wallet_score (strategy c) \<le> w_score w \<and> w_updated_at w \<le> now) ws
    \<and> min_expected_net_return_pct (economics c) \<le> ev_net_return_pct e
    \<and> min_signal_score (strategy c) \<le> final_signal_score (sg_score sg)"
  using assms
  by (auto simp: evaluate_signal_Accepted entry_filter_None token_unsafe_def weak_wallet_def
      list_all_iff not_less)

theorem accepted_signal_passed_every_filter_witness:
  "\<exists>sg. evaluate_signal exact_ext (example_config Paper) ''m''
     [sample_wallet ''a'', sample_wallet ''b''] sample_market sample_safety sample_ev 0 ''u''
     = Some (Accepted sg) \<and> sg_mint sg = ''m''"
  using sample_signal_accepted accepted_signal_passed_every_filter by blast

end
