(* ===== verification/Smart_Money.thy ===== *)
theory Smart_Money
  imports Strategy
begin

text \<open>
  \<open>src/smart_money\<close>: the wallet score and tier (\<open>classifier.rs\<close>) and the tracker that turns
  observed trades into a consensus of qualified wallets (\<open>tracker.rs\<close>).
\<close>

section \<open>classifier.rs\<close>

record smart_money_thresholds =
  observed_trades :: u32
  qualified_trades :: u32
  qualified_score :: decimal
  high_confidence_score :: decimal

definition default_thresholds :: smart_money_thresholds where
  "default_thresholds = \<lparr>observed_trades = 5, qualified_trades = 25, qualified_score = 60,
     high_confidence_score = 75\<rparr>"

definition wallet_score_value ::
    "ext \<Rightarrow> wallet_stats \<Rightarrow> smart_money_thresholds \<Rightarrow> decimal option" where
  "wallet_score_value X s t = do {
     q \<leftarrow> dec_div X (dec_of_word (w_trades s)) (dec_of_word (max (qualified_trades t) 1));
     let sample = min q 1;
     p1 \<leftarrow> dec_mul X (w_win_rate s) 25;
     p2 \<leftarrow> dec_add X p1 (min (w_avg_return_pct s) 30);
     p3 \<leftarrow> dec_add X p2 (min (w_median_return_pct s) 20);
     p4 \<leftarrow> dec_add X p3 (min (w_recent_return_pct s) 15);
     let performance = max p4 0;
     c \<leftarrow> dec_mul X (max (w_concentration_pct s) 0) (1 / 10);
     e1 \<leftarrow> dec_add X (min (w_max_drawdown_pct s) 30) c;
     e2 \<leftarrow> dec_mul X (max (w_scam_exposure_pct s) 0) (1 / 2);
     penalties \<leftarrow> dec_add X e1 e2;
     d \<leftarrow> dec_sub X performance penalties;
     m \<leftarrow> dec_mul X (max d 0) sample;
     total \<leftarrow> dec_add X m (min (max (w_realized_pnl_usd s) 0) 10);
     Some (min total 100)
   }"

definition wallet_tier_of :: "smart_money_thresholds \<Rightarrow> u32 \<Rightarrow> decimal \<Rightarrow> wallet_tier" where
  "wallet_tier_of t trades score =
     (if trades \<ge> qualified_trades t \<and> score \<ge> high_confidence_score t then HighConfidence
      else if trades \<ge> qualified_trades t \<and> score \<ge> qualified_score t then Qualified
      else if trades \<ge> observed_trades t then Observed
      else Candidate)"

definition score_wallet ::
    "ext \<Rightarrow> wallet_stats \<Rightarrow> smart_money_thresholds \<Rightarrow> wallet_stats option" where
  "score_wallet X s t = do {
     score \<leftarrow> wallet_score_value X s t;
     Some (s\<lparr>w_score := score, w_tier := wallet_tier_of t (w_trades s) score\<rparr>)
   }"

section \<open>tracker.rs\<close>

record wallet_tracker =
  tr_wallets :: "string \<Rightarrow> wallet_stats option"
  tr_observations :: "wallet_trade_observation list"
  tr_thresholds :: smart_money_thresholds

definition new_tracker :: "smart_money_thresholds \<Rightarrow> wallet_tracker" where
  "new_tracker t = \<lparr>tr_wallets = Map.empty, tr_observations = [], tr_thresholds = t\<rparr>"

definition upsert :: "ext \<Rightarrow> wallet_tracker \<Rightarrow> wallet_stats \<Rightarrow> wallet_tracker option" where
  "upsert X tr s = do {
     s' \<leftarrow> score_wallet X s (tr_thresholds tr);
     Some (tr\<lparr>tr_wallets := (tr_wallets tr)(w_wallet s' \<mapsto> s')\<rparr>)
   }"

definition observe :: "wallet_tracker \<Rightarrow> wallet_trade_observation \<Rightarrow> wallet_tracker" where
  "observe tr ob = tr\<lparr>tr_observations := tr_observations tr @ [ob]\<rparr>"

definition buy_evidence ::
    "string \<Rightarrow> datetime \<Rightarrow> duration \<Rightarrow> wallet_trade_observation \<Rightarrow> bool" where
  "buy_evidence mint as_of max_age ob \<longleftrightarrow>
     ob_mint ob = mint \<and> ob_side ob = Buy \<and> ob_observed_at ob \<le> as_of
     \<and> ob_received_at ob \<le> as_of \<and> as_of - ob_observed_at ob \<le> max_age"

definition wallet_usable :: "datetime \<Rightarrow> duration \<Rightarrow> wallet_stats \<Rightarrow> bool" where
  "wallet_usable as_of max_age w \<longleftrightarrow>
     (w_tier w = Qualified \<or> w_tier w = HighConfidence)
     \<and> w_updated_at w \<le> as_of \<and> as_of - w_updated_at w \<le> max_age"

definition entity_key :: "wallet_stats \<Rightarrow> string" where
  "entity_key w = (case w_entity_id w of None \<Rightarrow> ''wallet:'' @ w_wallet w | Some e \<Rightarrow> e)"

text \<open>The filter that keeps the first wallet of each entity, with the set it has seen.\<close>

fun first_per_entity :: "string set \<Rightarrow> wallet_stats list \<Rightarrow> wallet_stats list" where
  "first_per_entity seen [] = []"
| "first_per_entity seen (w # ws) =
     (if entity_key w \<in> seen then first_per_entity seen ws
      else w # first_per_entity (insert (entity_key w) seen) ws)"

definition qualified_consensus_at ::
    "wallet_tracker \<Rightarrow> string \<Rightarrow> datetime \<Rightarrow> duration \<Rightarrow> wallet_stats list" where
  "qualified_consensus_at tr mint as_of max_age =
     first_per_entity {}
       (filter (wallet_usable as_of max_age)
         (List.map_filter (\<lambda>ob. tr_wallets tr (ob_wallet ob))
           (filter (buy_evidence mint as_of max_age) (tr_observations tr))))"

definition qualified_consensus :: "wallet_tracker \<Rightarrow> string \<Rightarrow> datetime \<Rightarrow> wallet_stats list" where
  "qualified_consensus tr mint now = qualified_consensus_at tr mint now (mins 15)"

section \<open>Facts\<close>

lemma wallet_score_at_most_100: "wallet_score_value X s t = Some v \<Longrightarrow> v \<le> 100"
  by (auto simp: wallet_score_value_def panic_simps Let_def)

context decimal_arith begin

lemma wallet_score_nonneg:
  assumes "wallet_score_value X s t = Some v"
  shows "0 \<le> v"
proof -
  obtain q d m total where
      q: "dec_div X (dec_of_word (w_trades s)) (dec_of_word (max (qualified_trades t) 1)) = Some q"
    and m: "dec_mul X (max d 0) (min q 1) = Some m"
    and t: "dec_add X m (min (max (w_realized_pnl_usd s) 0) 10) = Some total"
    and v: "v = min total 100"
    using assms by (auto simp: wallet_score_value_def panic_simps Let_def)
  have "0 \<le> q" using q by (rule div_nonneg) simp_all
  then have "0 \<le> m" using m by (auto intro: mul_nonneg)
  then have "0 \<le> total" using t by (auto intro: add_nonneg)
  with v show ?thesis by simp
qed

end

lemma wallet_tier_qualified:
  "wallet_tier_of t n v = Qualified \<or> wallet_tier_of t n v = HighConfidence \<Longrightarrow>
   qualified_trades t \<le> n \<and> min (qualified_score t) (high_confidence_score t) \<le> v"
  by (auto simp: wallet_tier_of_def split: if_splits)

lemma first_per_entity_set: "set (first_per_entity seen ws) \<subseteq> set ws"
  by (induction seen ws rule: first_per_entity.induct) auto

lemma first_per_entity_keys:
  "entity_key ` set (first_per_entity seen ws) = entity_key ` set ws - seen"
  by (induction seen ws rule: first_per_entity.induct) auto

lemma first_per_entity_distinct: "distinct (map entity_key (first_per_entity seen ws))"
proof (induction seen ws rule: first_per_entity.induct)
  case (2 seen w ws)
  then show ?case
    using first_per_entity_keys [of "insert (entity_key w) seen" ws] by auto
qed simp

lemma consensus_set:
  "w \<in> set (qualified_consensus_at tr mint as_of max_age) \<Longrightarrow>
     wallet_usable as_of max_age w
     \<and> (\<exists>ob\<in>set (tr_observations tr). buy_evidence mint as_of max_age ob
          \<and> tr_wallets tr (ob_wallet ob) = Some w)"
  unfolding qualified_consensus_at_def
  using first_per_entity_set by (fastforce simp: List.map_filter_def)

lemma consensus_entities:
  "entity_key ` set (qualified_consensus_at tr mint as_of max_age) =
     {entity_key w | w ob. ob \<in> set (tr_observations tr) \<and> buy_evidence mint as_of max_age ob
        \<and> tr_wallets tr (ob_wallet ob) = Some w \<and> wallet_usable as_of max_age w}"
  unfolding qualified_consensus_at_def first_per_entity_keys
  by (force simp: List.map_filter_def)

text \<open>Only what was observed and received by \<open>as_of\<close> counts.\<close>

definition known_at :: "datetime \<Rightarrow> wallet_tracker \<Rightarrow> wallet_tracker" where
  "known_at as_of tr = tr\<lparr>tr_observations :=
     filter (\<lambda>ob. ob_observed_at ob \<le> as_of \<and> ob_received_at ob \<le> as_of) (tr_observations tr)\<rparr>"

lemma buy_evidence_known:
  "buy_evidence mint as_of max_age ob \<Longrightarrow> ob_observed_at ob \<le> as_of \<and> ob_received_at ob \<le> as_of"
  by (simp add: buy_evidence_def)

lemma consensus_known_at:
  "qualified_consensus_at (known_at as_of tr) mint as_of max_age =
     qualified_consensus_at tr mint as_of max_age"
proof -
  have "filter (buy_evidence mint as_of max_age) (tr_observations (known_at as_of tr))
      = filter (buy_evidence mint as_of max_age) (tr_observations tr)"
    by (simp add: known_at_def) (meson buy_evidence_known)
  then show ?thesis by (simp add: qualified_consensus_at_def) (simp add: known_at_def)
qed

section \<open>Properties\<close>

text \<open>
  For every monotone rounding the score of a wallet
  lies in [0, 100], and only a wallet with the qualifying number of trades and score can become
  \<open>Qualified\<close> or \<open>HighConfidence\<close>; scoring changes nothing but score and tier.
\<close>

theorem wallet_score_in_range:
  assumes "decimal_arith X" and "score_wallet X s t = Some s'"
  shows "0 \<le> w_score s' \<and> w_score s' \<le> 100
    \<and> (w_tier s' \<in> {Qualified, HighConfidence} \<longrightarrow> qualified_trades t \<le> w_trades s
         \<and> min (qualified_score t) (high_confidence_score t) \<le> w_score s')
    \<and> s'\<lparr>w_score := w_score s, w_tier := w_tier s\<rparr> = s"
proof -
  obtain v where v: "wallet_score_value X s t = Some v"
    and s': "s' = s\<lparr>w_score := v, w_tier := wallet_tier_of t (w_trades s) v\<rparr>"
    using assms(2) by (auto simp: score_wallet_def panic_simps)
  have "0 \<le> v" by (rule decimal_arith.wallet_score_nonneg [OF assms(1) v])
  then show ?thesis
    using wallet_score_at_most_100 [OF v] wallet_tier_qualified [of t "w_trades s" v] s' by auto
qed

theorem wallet_score_in_range_witness:
  "\<exists>s'. score_wallet exact_ext (sample_wallet ''a'') default_thresholds = Some s'
     \<and> w_score s' \<le> 100"
proof -
  have "\<exists>s'. score_wallet exact_ext (sample_wallet ''a'') default_thresholds = Some s'"
    by (simp add: score_wallet_def wallet_score_value_def sample_wallet_def default_thresholds_def
        dec_of_word_def fit_def dec_max_def max_def Let_def)
  then show ?thesis
    using wallet_score_in_range [OF exact.decimal_arith_axioms] by blast
qed

text \<open>
  C27: the consensus for a mint has one wallet for each
  entity that has a usable wallet with fresh buy evidence and none for any other, so linked
  wallets count once; and it is a function of what had been observed and received by \<open>as_of\<close>.
\<close>

theorem consensus_is_independent:
  "distinct (map entity_key (qualified_consensus_at tr mint as_of max_age))
   \<and> entity_key ` set (qualified_consensus_at tr mint as_of max_age) =
     {entity_key w | w ob. ob \<in> set (tr_observations tr) \<and> buy_evidence mint as_of max_age ob
        \<and> tr_wallets tr (ob_wallet ob) = Some w \<and> wallet_usable as_of max_age w}
   \<and> qualified_consensus_at (known_at as_of tr) mint as_of max_age
     = qualified_consensus_at tr mint as_of max_age"
  using consensus_entities consensus_known_at
  by (simp add: qualified_consensus_at_def first_per_entity_distinct)

end
