(* ===== verification/Risk.thy ===== *)
theory Risk
  imports Strategy
begin

text \<open>
  \<open>src/risk.rs\<close>: the kill switch, the entry gate and the risk engine. \<open>now\<close> is an argument, as
  in the source; a rejection carries the text of its reason.
\<close>

section \<open>Kill switch and entry gate\<close>

datatype risk_error = Economics viability_error | RiskRejected string

record kill_switch =
  ks_starting_capital_usd :: decimal
  ks_max_drawdown_pct :: decimal
  tripped :: bool

definition new_kill_switch :: "decimal \<Rightarrow> decimal \<Rightarrow> kill_switch" where
  "new_kill_switch capital max_dd =
     \<lparr>ks_starting_capital_usd = capital, ks_max_drawdown_pct = max_dd, tripped = False\<rparr>"

definition ks_observe_equity :: "ext \<Rightarrow> kill_switch \<Rightarrow> decimal \<Rightarrow> kill_switch option" where
  "ks_observe_equity X k equity = do {
     f \<leftarrow> dec_div X (ks_max_drawdown_pct k) 100;
     keep \<leftarrow> dec_sub X 1 f;
     threshold \<leftarrow> dec_mul X (ks_starting_capital_usd k) keep;
     Some (if equity \<le> threshold then k\<lparr>tripped := True\<rparr> else k)
   }"

definition force_trip :: "kill_switch \<Rightarrow> kill_switch" where
  "force_trip k = k\<lparr>tripped := True\<rparr>"

definition authorize_entry ::
    "ext \<Rightarrow> kill_switch \<Rightarrow> economic_gate \<Rightarrow> cost_model \<Rightarrow> (risk_error + unit) option" where
  "authorize_entry X k g m =
    (if tripped k
     then Some (Inl (RiskRejected ''kill switch is latched; no new entries''))
     else case gate_check X g m of
       None \<Rightarrow> None
     | Some (Inl e) \<Rightarrow> Some (Inl (Economics e))
     | Some (Inr (Allowed _)) \<Rightarrow> Some (Inr ())
     | Some (Inr (GateRejected result threshold)) \<Rightarrow>
         Some (Inl (RiskRejected (''round-trip cost ''
           @ dec_show X (round_trip_cost_pct_of_position result) @ ''% exceeds ''
           @ dec_show X threshold @ ''% threshold''))))"

section \<open>Risk engine\<close>

record risk_state =
  equity :: decimal
  day_start_equity :: decimal
  total_exposure :: decimal
  open_positions :: usize
  trades_today :: u32
  cooldown_until :: "datetime option"

record risk_engine =
  re_config :: risk_config
  re_kill_switch :: kill_switch
  re_state :: risk_state
  consecutive_failures :: u32

definition new_engine :: "risk_config \<Rightarrow> decimal \<Rightarrow> risk_engine" where
  "new_engine c eq =
     \<lparr>re_config = c,
      re_kill_switch = new_kill_switch eq (max_total_drawdown_before_kill_switch_pct c),
      re_state = \<lparr>equity = eq, day_start_equity = eq, total_exposure = 0, open_positions = 0,
                  trades_today = 0, cooldown_until = None\<rparr>,
      consecutive_failures = 0\<rparr>"

definition max_position_usd :: "ext \<Rightarrow> risk_engine \<Rightarrow> decimal \<Rightarrow> decimal option option" where
  "max_position_usd X e stop_pct =
    (if stop_pct \<le> 0 then Some None
     else do {
       a \<leftarrow> dec_mul X (equity (re_state e)) (max_risk_per_trade_percent (re_config e));
       b \<leftarrow> dec_div X a stop_pct;
       Some (Some b)
     })"

text \<open>The size checks of \<open>authorize\<close>, evaluated left to right as \<open>||\<close> does.\<close>

definition exceeds_size_limits ::
    "ext \<Rightarrow> risk_engine \<Rightarrow> decimal \<Rightarrow> decimal \<Rightarrow> bool option" where
  "exceeds_size_limits X e position_usd liquidity_usd = do {
     a \<leftarrow> dec_mul X (equity (re_state e)) (max_position_percent_of_equity (re_config e));
     by_equity \<leftarrow> dec_div X a 100;
     if position_usd > by_equity then Some True
     else do {
       b \<leftarrow> dec_mul X liquidity_usd (max_position_percent_of_liquidity (re_config e));
       by_liquidity \<leftarrow> dec_div X b 100;
       Some (position_usd > by_liquidity)
     }
   }"

definition daily_loss_reached :: "ext \<Rightarrow> risk_engine \<Rightarrow> bool option" where
  "daily_loss_reached X e =
    (if day_start_equity (re_state e) > 0
     then do {
       d \<leftarrow> dec_sub X (day_start_equity (re_state e)) (equity (re_state e));
       f \<leftarrow> dec_div X d (day_start_equity (re_state e));
       loss_pct \<leftarrow> dec_mul X f 100;
       Some (loss_pct \<ge> max_daily_loss_percent (re_config e))
     }
     else Some False)"

definition authorize ::
    "ext \<Rightarrow> risk_engine \<Rightarrow> decimal \<Rightarrow> decimal \<Rightarrow> u32 \<Rightarrow> u32 \<Rightarrow> datetime \<Rightarrow> (risk_error + unit) option"
  where
  "authorize X e position_usd liquidity_usd slip_bps impact_bps now =
    (if tripped (re_kill_switch e) then Some (Inl (RiskRejected ''kill switch latched''))
     else if position_usd \<le> 0
     then Some (Inl (RiskRejected ''position size must be positive''))
     else if liquidity_usd \<le> 0
     then Some (Inl (RiskRejected ''liquidity unknown; refusing to size a position''))
     else if open_positions (re_state e) \<ge> max_concurrent_positions (re_config e)
     then Some (Inl (RiskRejected ''concurrent-position limit''))
     else if trades_today (re_state e) \<ge> max_trades_per_day (re_config e)
     then Some (Inl (RiskRejected ''daily trade-count limit''))
     else do {
       too_big \<leftarrow> exceeds_size_limits X e position_usd liquidity_usd;
       if too_big then Some (Inl (RiskRejected ''position exceeds equity/liquidity limit''))
       else do {
         projected \<leftarrow> dec_add X (total_exposure (re_state e)) position_usd;
         if projected \<ge> max_live_capital_usd (re_config e)
         then Some (Inl (RiskRejected (''aggregate exposure '' @ dec_show X projected
           @ '' would exceed max live capital ''
           @ dec_show X (max_live_capital_usd (re_config e)))))
         else if slip_bps > max_slippage_bps (re_config e)
         then Some (Inl (RiskRejected ''slippage limit''))
         else if impact_bps > max_slippage_bps (re_config e)
         then Some (Inl (RiskRejected ''price-impact limit''))
         else if (case cooldown_until (re_state e) of None \<Rightarrow> False | Some until \<Rightarrow> now < until)
         then Some (Inl (RiskRejected ''loss cooldown active''))
         else do {
           lost \<leftarrow> daily_loss_reached X e;
           if lost then Some (Inl (RiskRejected ''daily-loss limit'')) else Some (Inr ())
         }
       }
     })"

definition validate_position_size ::
    "ext \<Rightarrow> risk_engine \<Rightarrow> decimal \<Rightarrow> decimal \<Rightarrow> (risk_error + unit) option" where
  "validate_position_size X e position_usd stop_pct = do {
     m \<leftarrow> max_position_usd X e stop_pct;
     case m of
       None \<Rightarrow> Some (Inl (RiskRejected
         ''stop-loss percentage must be positive for position sizing''))
     | Some max_size \<Rightarrow>
         if position_usd > max_size
         then Some (Inl (RiskRejected (''position size '' @ dec_show X position_usd
           @ '' exceeds risk-adjusted maximum '' @ dec_show X max_size @ '' (equity=''
           @ dec_show X (equity (re_state e)) @ '', risk_per_trade=''
           @ dec_show X (max_risk_per_trade_percent (re_config e)) @ '', stop_loss=''
           @ dec_show X stop_pct @ '')'')))
         else Some (Inr ())
   }"

definition authorize_exit :: "risk_engine \<Rightarrow> u64 \<Rightarrow> risk_error + unit" where
  "authorize_exit e remaining_qty =
     (if remaining_qty = 0 then Inl (RiskRejected ''nothing to exit'') else Inr ())"

definition observe_equity :: "ext \<Rightarrow> risk_engine \<Rightarrow> decimal \<Rightarrow> risk_engine option" where
  "observe_equity X e eq = do {
     k \<leftarrow> ks_observe_equity X (re_kill_switch e) eq;
     Some (e\<lparr>re_state := (re_state e)\<lparr>equity := eq\<rparr>, re_kill_switch := k\<rparr>)
   }"

definition set_total_exposure :: "risk_engine \<Rightarrow> decimal \<Rightarrow> risk_engine" where
  "set_total_exposure e x = e\<lparr>re_state := (re_state e)\<lparr>total_exposure := x\<rparr>\<rparr>"

definition set_open_positions :: "risk_engine \<Rightarrow> usize \<Rightarrow> risk_engine" where
  "set_open_positions e n = e\<lparr>re_state := (re_state e)\<lparr>open_positions := n\<rparr>\<rparr>"

definition register_trade :: "ext \<Rightarrow> risk_engine \<Rightarrow> decimal \<Rightarrow> risk_engine option" where
  "register_trade X e exposure_usd = do {
     total \<leftarrow> dec_add X (total_exposure (re_state e)) exposure_usd;
     Some (e\<lparr>re_state := (re_state e)
       \<lparr>trades_today := sat_add (trades_today (re_state e)) 1,
        total_exposure := total,
        open_positions := sat_add (open_positions (re_state e)) 1\<rparr>\<rparr>)
   }"

definition register_exit :: "ext \<Rightarrow> risk_engine \<Rightarrow> decimal \<Rightarrow> risk_engine option" where
  "register_exit X e exposure_usd = do {
     left \<leftarrow> dec_sub X (total_exposure (re_state e)) exposure_usd;
     Some (e\<lparr>re_state := (re_state e)
       \<lparr>open_positions := sat_sub (open_positions (re_state e)) 1,
        total_exposure := max left 0\<rparr>\<rparr>)
   }"

definition record_execution_success :: "risk_engine \<Rightarrow> risk_engine" where
  "record_execution_success e = e\<lparr>consecutive_failures := 0\<rparr>"

definition record_execution_failure :: "risk_engine \<Rightarrow> bool \<times> risk_engine" where
  "record_execution_failure e =
    (let e' = e\<lparr>consecutive_failures := sat_add (consecutive_failures e) 1\<rparr> in
     if consecutive_failures e' \<ge> max_consecutive_failures (re_config e')
     then (True, e'\<lparr>re_kill_switch := force_trip (re_kill_switch e')\<rparr>)
     else (False, e'))"

definition apply_loss_cooldown :: "risk_engine \<Rightarrow> datetime \<Rightarrow> risk_engine" where
  "apply_loss_cooldown e now = e\<lparr>re_state := (re_state e)
     \<lparr>cooldown_until := Some (now + mins (cooldown_after_loss_minutes (re_config e)))\<rparr>\<rparr>"

section \<open>What an authorisation means\<close>

definition entry_allowed ::
    "ext \<Rightarrow> risk_engine \<Rightarrow> decimal \<Rightarrow> decimal \<Rightarrow> u32 \<Rightarrow> u32 \<Rightarrow> datetime \<Rightarrow> bool" where
  "entry_allowed X e position_usd liquidity_usd slip_bps impact_bps now \<longleftrightarrow>
     \<not> tripped (re_kill_switch e) \<and> 0 < position_usd \<and> 0 < liquidity_usd
     \<and> open_positions (re_state e) < max_concurrent_positions (re_config e)
     \<and> trades_today (re_state e) < max_trades_per_day (re_config e)
     \<and> exceeds_size_limits X e position_usd liquidity_usd = Some False
     \<and> (\<exists>projected. dec_add X (total_exposure (re_state e)) position_usd = Some projected
          \<and> projected < max_live_capital_usd (re_config e))
     \<and> slip_bps \<le> max_slippage_bps (re_config e) \<and> impact_bps \<le> max_slippage_bps (re_config e)
     \<and> (\<forall>until. cooldown_until (re_state e) = Some until \<longrightarrow> until \<le> now)
     \<and> daily_loss_reached X e = Some False"

lemma authorize_Inr:
  "authorize X e pos liq slip impact now = Some (Inr ()) \<longleftrightarrow>
     entry_allowed X e pos liq slip impact now"
proof
  assume "authorize X e pos liq slip impact now = Some (Inr ())"
  then show "entry_allowed X e pos liq slip impact now"
    unfolding authorize_def
    by (clarsimp simp: panic_simps entry_allowed_def not_le not_less
        split: if_split_asm option.split_asm)
next
  assume "entry_allowed X e pos liq slip impact now"
  then show "authorize X e pos liq slip impact now = Some (Inr ())"
    by (clarsimp simp: entry_allowed_def authorize_def not_le not_less split: option.split)
qed

lemma authorize_tripped:
  "tripped (re_kill_switch e) \<Longrightarrow>
   authorize X e pos liq slip impact now = Some (Inl (RiskRejected ''kill switch latched''))"
  by (simp add: authorize_def)

section \<open>The engine as a machine\<close>

text \<open>The operations the session performs on the engine between two authorisations.\<close>

datatype risk_op =
    ObserveEquity decimal
  | SetExposure decimal
  | SetOpen usize
  | RegisterTrade decimal
  | RegisterExit decimal
  | Success
  | Failure
  | Cooldown datetime

fun apply_op :: "ext \<Rightarrow> risk_engine \<Rightarrow> risk_op \<Rightarrow> risk_engine option" where
  "apply_op X e (ObserveEquity v) = observe_equity X e v"
| "apply_op X e (SetExposure v) = Some (set_total_exposure e v)"
| "apply_op X e (SetOpen n) = Some (set_open_positions e n)"
| "apply_op X e (RegisterTrade v) = register_trade X e v"
| "apply_op X e (RegisterExit v) = register_exit X e v"
| "apply_op X e Success = Some (record_execution_success e)"
| "apply_op X e Failure = Some (snd (record_execution_failure e))"
| "apply_op X e (Cooldown now) = Some (apply_loss_cooldown e now)"

fun apply_ops :: "ext \<Rightarrow> risk_engine \<Rightarrow> risk_op list \<Rightarrow> risk_engine option" where
  "apply_ops X e [] = Some e"
| "apply_ops X e (x # xs) = Option.bind (apply_op X e x) (\<lambda>e'. apply_ops X e' xs)"

lemma apply_op_keeps:
  assumes "apply_op X e op = Some e'"
  shows "tripped (re_kill_switch e) \<Longrightarrow> tripped (re_kill_switch e')"
    and "re_config e' = re_config e"
  using assms
  by (cases op; auto simp: observe_equity_def ks_observe_equity_def set_total_exposure_def
      set_open_positions_def register_trade_def register_exit_def record_execution_success_def
      record_execution_failure_def apply_loss_cooldown_def force_trip_def panic_simps Let_def)+

lemma apply_ops_keeps_trip:
  "apply_ops X e ops = Some e' \<Longrightarrow> tripped (re_kill_switch e) \<Longrightarrow> tripped (re_kill_switch e')"
  by (induction ops arbitrary: e) (auto simp: panic_simps dest: apply_op_keeps(1))

lemma apply_ops_config: "apply_ops X e ops = Some e' \<Longrightarrow> re_config e' = re_config e"
  by (induction ops arbitrary: e) (auto simp: panic_simps dest: apply_op_keeps(2))

lemma apply_ops_append:
  "apply_ops X e (xs @ ys) = Option.bind (apply_ops X e xs) (\<lambda>e. apply_ops X e ys)"
  by (induction xs arbitrary: e) (auto split: bind_splits)

lemma failure_trips:
  assumes "max_consecutive_failures (re_config e) \<le> sat_add (consecutive_failures e) 1"
  shows "record_execution_failure e =
     (True, e\<lparr>consecutive_failures := sat_add (consecutive_failures e) 1,
              re_kill_switch := force_trip (re_kill_switch e)\<rparr>)"
  using assms by (simp add: record_execution_failure_def)

lemma failures_accumulate:
  "apply_ops X e (replicate n Failure) = Some e' \<Longrightarrow>
   unat (consecutive_failures e') = min (unat (consecutive_failures e) + n) (2 ^ 32 - 1)"
proof (induction n arbitrary: e)
  case 0
  then show ?case using unat_below [of "consecutive_failures e"] by auto
next
  case (Suc n)
  let ?e = "snd (record_execution_failure e)"
  have c: "unat (consecutive_failures ?e) = min (unat (consecutive_failures e) + 1) (2 ^ 32 - 1)"
    by (simp add: record_execution_failure_def Let_def unat_sat_add)
  from Suc.prems have "apply_ops X ?e (replicate n Failure) = Some e'" by simp
  then have "unat (consecutive_failures e') = min (unat (consecutive_failures ?e) + n) (2 ^ 32 - 1)"
    by (rule Suc.IH)
  then show ?case unfolding c by linarith
qed

lemma failures_trip:
  assumes "apply_ops X e (replicate n Failure) = Some e'" "0 < n"
    and "unat (max_consecutive_failures (re_config e)) \<le> n"
  shows "tripped (re_kill_switch e')"
proof -
  obtain m where n: "n = Suc m" using assms(2) by (cases n) auto
  have split: "replicate n Failure = replicate m Failure @ [Failure]"
    using n by (simp add: replicate_append_same)
  obtain e1 where e1: "apply_ops X e (replicate m Failure) = Some e1"
    and e': "e' = snd (record_execution_failure e1)"
    using assms(1) unfolding split apply_ops_append by (auto simp: panic_simps)
  have "unat (consecutive_failures e1) = min (unat (consecutive_failures e) + m) (2 ^ 32 - 1)"
    using e1 by (rule failures_accumulate)
  moreover have "unat (max_consecutive_failures (re_config e)) \<le> 2 ^ 32 - 1"
    using unat_below [of "max_consecutive_failures (re_config e)"] by simp
  ultimately have "unat (max_consecutive_failures (re_config e1))
      \<le> unat (sat_add (consecutive_failures e1) 1)"
    using assms(3) n apply_ops_config [OF e1] by (simp add: unat_sat_add)
  then show ?thesis
    using failure_trips [of e1] e' by (simp add: word_le_nat_alt force_trip_def)
qed

section \<open>The limits of trading\<close>

text \<open>Engines that agree on the limits and on what counts against them.\<close>

definition same_counters :: "risk_engine \<Rightarrow> risk_engine \<Rightarrow> bool" where
  "same_counters e e' \<longleftrightarrow> total_exposure (re_state e') = total_exposure (re_state e)
     \<and> trades_today (re_state e') = trades_today (re_state e) \<and> re_config e' = re_config e"

lemma same_counters_refl [simp]: "same_counters e e"
  by (simp add: same_counters_def)

lemma same_counters_trans: "same_counters a b \<Longrightarrow> same_counters b c \<Longrightarrow> same_counters a c"
  by (simp add: same_counters_def)

lemma same_counters_ops [simp]:
  "same_counters e (record_execution_success e)"
  "same_counters e (snd (record_execution_failure e))"
  "same_counters e (set_open_positions e n)"
  by (simp_all add: same_counters_def record_execution_success_def record_execution_failure_def
      set_open_positions_def Let_def)

text \<open>A trade registered right after it was authorised with the same size keeps the limits.\<close>

lemma authorized_trade_within:
  assumes "authorize X e pos liq slip impact now = Some (Inr ())"
    and "register_trade X e pos = Some e'"
  shows "total_exposure (re_state e') < max_live_capital_usd (re_config e)"
    and "trades_today (re_state e) < trades_today (re_state e')"
    and "trades_today (re_state e') \<le> max_trades_per_day (re_config e)"
    and "open_positions (re_state e) < max_concurrent_positions (re_config e)"
    and "re_config e' = re_config e"
proof -
  have a: "entry_allowed X e pos liq slip impact now"
    using assms(1) by (simp add: authorize_Inr)
  then obtain p where p: "dec_add X (total_exposure (re_state e)) pos = Some p"
    "p < max_live_capital_usd (re_config e)"
    by (auto simp: entry_allowed_def)
  have e': "e' = e\<lparr>re_state := (re_state e)\<lparr>trades_today := sat_add (trades_today (re_state e)) 1,
      total_exposure := p, open_positions := sat_add (open_positions (re_state e)) 1\<rparr>\<rparr>"
    using assms(2) p(1) by (simp add: register_trade_def)
  show "total_exposure (re_state e') < max_live_capital_usd (re_config e)"
    "trades_today (re_state e') \<le> max_trades_per_day (re_config e)"
    "open_positions (re_state e) < max_concurrent_positions (re_config e)"
    "re_config e' = re_config e"
    using a p(2) by (auto simp: e' entry_allowed_def sat_add_one_le)
  have "trades_today (re_state e) < max_trades_per_day (re_config e)"
    using a by (simp add: entry_allowed_def)
  then show "trades_today (re_state e) < trades_today (re_state e')"
    using unat_below [of "max_trades_per_day (re_config e)"]
    by (simp add: e' word_less_nat_alt unat_sat_add)
qed

section \<open>Properties\<close>

definition sample_risk :: risk_engine where
  "sample_risk = new_engine (risk (example_config Paper)) 100"

text \<open>
  Once tripped the kill switch stays tripped through every
  sequence of operations of the engine: every entry is refused by the engine and by the entry
  gate, while an exit of a positive quantity is still authorised.
\<close>

theorem kill_switch_latches:
  assumes "apply_ops X e ops = Some e'" and "tripped (re_kill_switch e)"
  shows "authorize X e' pos liq slip impact now
      = Some (Inl (RiskRejected ''kill switch latched''))
    \<and> authorize_entry X (re_kill_switch e') g m
      = Some (Inl (RiskRejected ''kill switch is latched; no new entries''))
    \<and> (0 < q \<longrightarrow> authorize_exit e' q = Inr ())"
  using apply_ops_keeps_trip [OF assms]
  by (auto simp: authorize_def authorize_entry_def authorize_exit_def)

theorem kill_switch_latches_witness:
  "authorize exact_ext (sample_risk\<lparr>re_kill_switch := force_trip (re_kill_switch sample_risk)\<rparr>)
     1 60000 10 10 0 = Some (Inl (RiskRejected ''kill switch latched''))"
  using kill_switch_latches [of exact_ext
      "sample_risk\<lparr>re_kill_switch := force_trip (re_kill_switch sample_risk)\<rparr>" "[]"]
  by (simp add: force_trip_def)

lemma ks_parameters:
  assumes "apply_ops X e ops = Some e'"
  shows "ks_starting_capital_usd (re_kill_switch e') = ks_starting_capital_usd (re_kill_switch e)"
    and "ks_max_drawdown_pct (re_kill_switch e') = ks_max_drawdown_pct (re_kill_switch e)"
proof -
  have one: "ks_starting_capital_usd (re_kill_switch e') = ks_starting_capital_usd (re_kill_switch e)
      \<and> ks_max_drawdown_pct (re_kill_switch e') = ks_max_drawdown_pct (re_kill_switch e)"
    if "apply_op X e op = Some e'" for e e' op
    using that
    by (cases op) (auto simp: observe_equity_def ks_observe_equity_def set_total_exposure_def
        set_open_positions_def register_trade_def register_exit_def record_execution_success_def
        record_execution_failure_def apply_loss_cooldown_def force_trip_def panic_simps Let_def)
  show "ks_starting_capital_usd (re_kill_switch e') = ks_starting_capital_usd (re_kill_switch e)"
    and "ks_max_drawdown_pct (re_kill_switch e') = ks_max_drawdown_pct (re_kill_switch e)"
    using assms by (induction ops arbitrary: e) (auto simp: panic_simps dest!: one)
qed

text \<open>
  The drawdown limit is anchored at the equity the engine started
  with. After any operations, observing an equity at or below the starting equity less the
  maximum drawdown trips the switch for good (exact arithmetic); later operations cannot move the
  threshold.
\<close>

theorem drawdown_trips:
  assumes "apply_ops exact_ext (new_engine c start)
      (before @ ObserveEquity v # after) = Some e"
    and "v \<le> start * (1 - max_total_drawdown_before_kill_switch_pct c / 100)"
  shows "tripped (re_kill_switch e)"
proof -
  obtain e1 e2 where e1: "apply_ops exact_ext (new_engine c start) before = Some e1"
    and e2: "observe_equity exact_ext e1 v = Some e2"
    and e: "apply_ops exact_ext e2 after = Some e"
    using assms(1) by (auto simp: apply_ops_append panic_simps)
  have "tripped (re_kill_switch e2)"
    using e2 ks_parameters [OF e1] assms(2)
    by (auto simp: observe_equity_def ks_observe_equity_def new_engine_def new_kill_switch_def
        panic_simps dest!: fit_SomeD)
  then show ?thesis by (rule apply_ops_keeps_trip [OF e])
qed

theorem drawdown_trips_witness:
  "\<exists>e. apply_ops exact_ext sample_risk [ObserveEquity 95, ObserveEquity 100] = Some e
     \<and> tripped (re_kill_switch e)"
proof -
  have "\<exists>e. apply_ops exact_ext sample_risk [ObserveEquity 95, ObserveEquity 100] = Some e"
    by (simp add: observe_equity_def ks_observe_equity_def sample_risk_def new_engine_def
        new_kill_switch_def example_config_def fit_def dec_max_def)
  then show ?thesis
    using drawdown_trips [of "risk (example_config Paper)" 100 "[]" 95 "[ObserveEquity 100]"]
    by (auto simp: sample_risk_def example_config_def)
qed

lemma failures_below_limit:
  assumes "apply_ops X e (replicate n Failure) = Some e'" "\<not> tripped (re_kill_switch e)"
    and "unat (consecutive_failures e) + n < unat (max_consecutive_failures (re_config e))"
  shows "\<not> tripped (re_kill_switch e')"
  using assms
proof (induction n arbitrary: e)
  case (Suc n)
  let ?e = "snd (record_execution_failure e)"
  have c: "unat (sat_add (consecutive_failures e) 1) = unat (consecutive_failures e) + 1"
    using Suc.prems(3) unat_below [of "max_consecutive_failures (re_config e)"]
    by (simp add: unat_sat_add)
  have "?e = e\<lparr>consecutive_failures := sat_add (consecutive_failures e) 1\<rparr>"
    using Suc.prems(3) c by (simp add: record_execution_failure_def word_le_nat_alt)
  with Suc.prems c show ?case by (intro Suc.IH [of ?e]) simp_all
qed simp

text \<open>
  The failure limit counts consecutive failures exactly. With a
  positive limit and an untripped switch, a success followed by \<open>n\<close> failures trips the switch if
  and only if \<open>n\<close> reaches the limit.
\<close>

theorem failure_limit_exact:
  assumes "apply_ops X e (Success # replicate n Failure) = Some e'"
    and "\<not> tripped (re_kill_switch e)" and "0 < max_consecutive_failures (re_config e)"
  shows "tripped (re_kill_switch e') \<longleftrightarrow> unat (max_consecutive_failures (re_config e)) \<le> n"
proof -
  have run: "apply_ops X (record_execution_success e) (replicate n Failure) = Some e'"
    and c: "re_config (record_execution_success e) = re_config e"
    "\<not> tripped (re_kill_switch (record_execution_success e))"
    "consecutive_failures (record_execution_success e) = 0"
    using assms by (simp_all add: record_execution_success_def)
  have pos: "0 < unat (max_consecutive_failures (re_config e))"
    using assms(3) by (simp add: word_less_nat_alt)
  show ?thesis
    using failures_trip [OF run] failures_below_limit [OF run c(2)] c pos by fastforce
qed

theorem failure_limit_exact_witness:
  "\<exists>e'. apply_ops exact_ext sample_risk (Success # replicate 3 Failure) = Some e'
     \<and> tripped (re_kill_switch e')"
proof -
  have "\<exists>e'. apply_ops exact_ext sample_risk (Success # replicate 3 Failure) = Some e'"
    by (simp add: numeral_3_eq_3)
  then show ?thesis
    using failure_limit_exact [of exact_ext sample_risk 3]
    by (auto simp: sample_risk_def new_engine_def new_kill_switch_def example_config_def
        default_max_failures_def)
qed

end
