(* ===== verification/Portfolio.thy ===== *)
theory Portfolio
  imports Strategy
begin

text \<open>
  \<open>src/portfolio/mod.rs\<close>: position accounting. The portfolio is the association list of the
  source's \<open>HashMap<String, Position>\<close>; \<open>now\<close> is an argument. A method with \<open>&mut self\<close> returns
  the portfolio it leaves behind, also when it fails.
\<close>

section \<open>Operations\<close>

type_synonym portfolio = "(string \<times> position) list"

record exit_outcome =
  realized_pnl_usd :: decimal
  closed :: bool

definition position_of :: "portfolio \<Rightarrow> string \<Rightarrow> position option" where
  "position_of pf mint = map_of pf mint"

definition open_positions_of :: "portfolio \<Rightarrow> position list" where
  "open_positions_of pf = filter is_open (map snd pf)"

definition sync_position :: "position \<Rightarrow> portfolio \<Rightarrow> portfolio" where
  "sync_position p pf = AList.update (p_mint p) p pf"

definition load :: "position list \<Rightarrow> portfolio \<Rightarrow> portfolio" where
  "load stored pf = fold sync_position stored pf"

text \<open>The closure of \<open>and_modify\<close>: a further entry into a known position.\<close>

definition merge_entry ::
    "ext \<Rightarrow> fill \<Rightarrow> decimal \<Rightarrow> decimal \<Rightarrow> decimal \<Rightarrow> position \<Rightarrow> position option" where
  "merge_entry X f price q input_value p = do {
     total \<leftarrow> dec_add X (p_quantity p) q;
     old_value \<leftarrow> dec_mul X (p_entry_price_usd p) (p_quantity p);
     new_value \<leftarrow> dec_mul X price q;
     both \<leftarrow> dec_add X old_value new_value;
     entry_price \<leftarrow> dec_div X both total;
     cost \<leftarrow> dec_add X (case p_entry_cost_usd p of None \<Rightarrow> 0 | Some c \<Rightarrow> c) input_value;
     fees \<leftarrow> dec_add X (p_fees_usd p) (f_fees_usd f);
     entry_fees \<leftarrow> dec_add X (case p_entry_fees_usd p of None \<Rightarrow> 0 | Some c \<Rightarrow> c) (f_fees_usd f);
     value \<leftarrow> dec_mul X price total;
     move \<leftarrow> dec_sub X price entry_price;
     gain \<leftarrow> dec_mul X move total;
     unrealized \<leftarrow> dec_sub X gain fees;
     Some (p\<lparr>p_entry_price_usd := entry_price,
       p_quantity := total,
       p_remaining_quantity_atomic := Some (sat_add
         (case p_remaining_quantity_atomic p of None \<Rightarrow> 0 | Some r \<Rightarrow> r) (f_output_amount f)),
       p_entry_cost_usd := Some cost,
       p_high_water_price_usd := max (p_high_water_price_usd p) price,
       p_fees_usd := fees,
       p_entry_fees_usd := Some entry_fees,
       p_current_value_usd := value,
       p_unrealized_pnl_usd := unrealized,
       p_entry_input_amount_atomic :=
         Option.bind (p_entry_input_amount_atomic p) (\<lambda>v. checked_add v (f_input_amount f)),
       p_entry_output_amount_atomic :=
         Option.bind (p_entry_output_amount_atomic p) (\<lambda>v. checked_add v (f_output_amount f)),
       p_entry_slippage_bps := Some (max
         (case p_entry_slippage_bps p of None \<Rightarrow> 0 | Some b \<Rightarrow> b) (f_slippage_bps f)),
       p_state := PosOpen,
       p_reconciliation_status := AdjustedOnChain\<rparr>)
   }"

text \<open>The position inserted for a mint that has none; \<open>value\<close> is \<open>price * q\<close>.\<close>

definition fresh_entry ::
    "string \<Rightarrow> string \<Rightarrow> u8 \<Rightarrow> u8 \<Rightarrow> string \<Rightarrow> fill \<Rightarrow> decimal \<Rightarrow> string \<Rightarrow> cost_model
     \<Rightarrow> decimal \<Rightarrow> decimal \<Rightarrow> decimal option \<Rightarrow> decimal \<Rightarrow> position" where
  "fresh_entry mint base token_dec base_dec pos_id f price sig costs q input_value base_price value =
     \<lparr>p_mint = mint, p_position_id = Some pos_id, p_token_mint = Some mint,
      p_base_mint = Some base, p_entry_input_amount_atomic = Some (f_input_amount f),
      p_entry_output_amount_atomic = Some (f_output_amount f),
      p_token_decimals = Some token_dec, p_base_mint_decimals = Some base_dec,
      p_entry_fees_usd = Some (f_fees_usd f), p_entry_slippage_bps = Some (f_slippage_bps f),
      p_entry_cost_model = Some costs, p_quantity = q,
      p_remaining_quantity_atomic = Some (f_output_amount f),
      p_entry_cost_usd = Some input_value, p_base_entry_price_usd = base_price,
      p_state = PosOpen, p_reconciliation_status = RsReconciled,
      p_last_reconciled_at = Some (f_confirmed_at f), p_exit_signature = None,
      p_exit_fees_usd = None, p_exit_time = None, p_entry_price_usd = price,
      p_entry_time = f_confirmed_at f, p_entry_signature = f_signature f,
      p_high_water_price_usd = price, p_realized_pnl_usd = 0,
      p_unrealized_pnl_usd = - f_fees_usd f, p_fees_usd = f_fees_usd f,
      p_current_value_usd = value, p_signal_id = sig, p_exit_reason = None\<rparr>"

definition apply_entry ::
    "ext \<Rightarrow> portfolio \<Rightarrow> string \<Rightarrow> string \<Rightarrow> u8 \<Rightarrow> u8 \<Rightarrow> string \<Rightarrow> fill \<Rightarrow> decimal \<Rightarrow> string
     \<Rightarrow> cost_model \<Rightarrow> (string + portfolio) option" where
  "apply_entry X pf mint base token_dec base_dec pos_id f price sig costs =
    (if f_output_amount f = 0 then Some (Inl ''zero fill'')
     else case f_input_value_usd f of
       None \<Rightarrow> Some (Inl ''entry fill lacks USD value basis'')
     | Some input_value \<Rightarrow> do {
         let q = dec_of_word (f_output_amount f);
         unit \<leftarrow> pow10_u64 X base_dec;
         base_units \<leftarrow> dec_div X (dec_of_word (f_input_amount f)) (dec_of_word unit);
         base_price \<leftarrow> (if base_units > 0 then map_option Some (dec_div X input_value base_units)
                       else Some None);
         modified \<leftarrow> (case map_of pf mint of
             None \<Rightarrow> Some None
           | Some p \<Rightarrow> map_option Some (merge_entry X f price q input_value p));
         value \<leftarrow> dec_mul X price q;
         Some (Inr (AList.update mint (case modified of
             Some p \<Rightarrow> p
           | None \<Rightarrow> fresh_entry mint base token_dec base_dec pos_id f price sig costs q
                      input_value base_price value) pf))
       })"

text \<open>The update of an exit fill whose checks have passed.\<close>

definition exit_update ::
    "ext \<Rightarrow> fill \<Rightarrow> string \<Rightarrow> datetime \<Rightarrow> u64 \<Rightarrow> decimal \<Rightarrow> decimal \<Rightarrow> position
     \<Rightarrow> (exit_outcome \<times> position) option" where
  "exit_update X f reason now new_remaining proceeds entry_cost p = do {
     c \<leftarrow> dec_mul X entry_cost (dec_of_word (f_input_amount f));
     cost_of_sold \<leftarrow> dec_div X c (p_quantity p);
     gain \<leftarrow> dec_sub X proceeds cost_of_sold;
     realized \<leftarrow> dec_sub X gain (f_fees_usd f);
     pnl \<leftarrow> dec_add X (p_realized_pnl_usd p) realized;
     fees \<leftarrow> dec_add X (p_fees_usd p) (f_fees_usd f);
     exit_fees \<leftarrow> dec_add X (case p_exit_fees_usd p of None \<Rightarrow> 0 | Some x \<Rightarrow> x) (f_fees_usd f);
     value \<leftarrow> dec_mul X (f_price_usd f) (dec_of_word new_remaining);
     let is_closed = (new_remaining = 0);
     let p' = p\<lparr>p_remaining_quantity_atomic := Some new_remaining,
       p_realized_pnl_usd := pnl, p_fees_usd := fees, p_exit_fees_usd := Some exit_fees,
       p_high_water_price_usd := max (p_high_water_price_usd p) (f_price_usd f),
       p_current_value_usd := value\<rparr>;
     let p'' = (if is_closed
       then p'\<lparr>p_state := PosClosed, p_exit_reason := Some reason,
               p_exit_signature := Some (f_signature f), p_exit_time := Some now,
               p_unrealized_pnl_usd := 0\<rparr>
       else p');
     Some (\<lparr>realized_pnl_usd = realized, closed = is_closed\<rparr>, p'')
   }"

definition apply_exit ::
    "ext \<Rightarrow> portfolio \<Rightarrow> string \<Rightarrow> fill \<Rightarrow> string \<Rightarrow> datetime
     \<Rightarrow> (string + exit_outcome \<times> portfolio) option" where
  "apply_exit X pf mint f reason now =
    (case map_of pf mint of
       None \<Rightarrow> Some (Inl ''no position for mint'')
     | Some p \<Rightarrow> (case p_remaining_quantity_atomic p of
         None \<Rightarrow> Some (Inl ''remaining quantity unknown; refusing exit accounting'')
       | Some remaining \<Rightarrow> (case checked_sub remaining (f_input_amount f) of
           None \<Rightarrow> Some (Inl (''exit sold '' @ show_word (f_input_amount f)
                     @ '' exceeds remaining '' @ show_word remaining))
         | Some new_remaining \<Rightarrow> (case f_input_value_usd f of
             None \<Rightarrow> Some (Inl ''exit fill lacks USD proceeds'')
           | Some proceeds \<Rightarrow> (case p_entry_cost_usd p of
               None \<Rightarrow> Some (Inl ''position lacks entry cost basis'')
             | Some entry_cost \<Rightarrow>
                 if p_quantity p = 0 then Some (Inl ''position has zero entry quantity'')
                 else map_option (\<lambda>(out, p'). Inr (out, AList.update mint p' pf))
                   (exit_update X f reason now new_remaining proceeds entry_cost p))))))"

text \<open>
  \<open>mark_to_market\<close> writes the high-water mark and the value before it finds out that the entry
  cost is missing, so an error may leave a changed position behind.
\<close>

definition mark_to_market ::
    "ext \<Rightarrow> portfolio \<Rightarrow> string \<Rightarrow> decimal \<Rightarrow> ((string + decimal) \<times> portfolio) option" where
  "mark_to_market X pf mint price =
    (case map_of pf mint of
       None \<Rightarrow> Some (Inl ''no position for mint'', pf)
     | Some p \<Rightarrow> (case p_remaining_quantity_atomic p of
         None \<Rightarrow> Some (Inl
           ''position missing remaining_quantity_atomic; cannot mark to market'', pf)
       | Some remaining \<Rightarrow> do {
           value \<leftarrow> dec_mul X price (dec_of_word remaining);
           let p1 = p\<lparr>p_high_water_price_usd := max (p_high_water_price_usd p) price,
                      p_current_value_usd := value\<rparr>;
           case p_entry_cost_usd p of
             None \<Rightarrow> Some (Inl ''position missing entry_cost_usd; cannot mark to market'',
                          AList.update mint p1 pf)
           | Some entry_cost \<Rightarrow> do {
               c \<leftarrow> dec_mul X entry_cost (dec_of_word remaining);
               cost_of_remaining \<leftarrow> dec_div X c (if p_quantity p = 0 then 1 else p_quantity p);
               gain \<leftarrow> dec_sub X value cost_of_remaining;
               unrealized \<leftarrow> dec_sub X gain (p_fees_usd p);
               Some (Inr value, AList.update mint (p1\<lparr>p_unrealized_pnl_usd := unrealized\<rparr>) pf)
             }
         }))"

definition show_opt_u8 :: "u8 option \<Rightarrow> string" where
  "show_opt_u8 d = (case d of None \<Rightarrow> ''None'' | Some v \<Rightarrow> ''Some('' @ show_word v @ '')'')"

definition reconcile_with_chain ::
    "portfolio \<Rightarrow> string \<Rightarrow> u64 \<Rightarrow> u8 \<Rightarrow> datetime \<Rightarrow> (string + bool) \<times> portfolio" where
  "reconcile_with_chain pf mint on_chain decimals now =
    (case map_of pf mint of
       None \<Rightarrow> (Inr False, pf)
     | Some p \<Rightarrow>
       if \<not> is_open p then (Inr False, pf)
       else if p_remaining_quantity_atomic p = Some on_chain
       then (Inr True, AList.update mint
              (p\<lparr>p_reconciliation_status := RsReconciled, p_last_reconciled_at := Some now\<rparr>) pf)
       else if on_chain = 0
       then (Inr True, AList.update mint
              (p\<lparr>p_state := PosClosed, p_reconciliation_status := ClosedOnChain,
                 p_last_reconciled_at := Some now,
                 p_exit_reason := (case p_exit_reason p of
                     Some r \<Rightarrow> Some r
                   | None \<Rightarrow> Some ''reconciled: no on-chain balance''),
                 p_current_value_usd := 0, p_unrealized_pnl_usd := 0\<rparr>) pf)
       else if p_token_decimals p \<noteq> None \<and> p_token_decimals p \<noteq> Some decimals
       then (Inl (''decimals mismatch for '' @ mint @ '': recorded ''
              @ show_opt_u8 (p_token_decimals p) @ '', chain '' @ show_word decimals), pf)
       else (Inr True, AList.update mint
              (p\<lparr>p_token_decimals := Some decimals,
                 p_remaining_quantity_atomic := Some on_chain,
                 p_reconciliation_status := AdjustedOnChain,
                 p_last_reconciled_at := Some now\<rparr>) pf))"

section \<open>The portfolio as a keyed store\<close>

interpretation held: keyed_store position_of AList.update
  by unfold_locales (simp add: position_of_def)

lemma load_put_all: "load stored pf = held.put_all (map (\<lambda>p. (p_mint p, p)) stored) pf"
  unfolding load_def held.put_all_def
  by (induction stored arbitrary: pf) (simp_all add: sync_position_def)

section \<open>Exits\<close>

text \<open>The checks an exit passes, in one predicate.\<close>

definition exit_ready :: "position \<Rightarrow> fill \<Rightarrow> bool" where
  "exit_ready p f \<longleftrightarrow> (\<exists>remaining proceeds cost. p_remaining_quantity_atomic p = Some remaining
     \<and> f_input_amount f \<le> remaining \<and> f_input_value_usd f = Some proceeds
     \<and> p_entry_cost_usd p = Some cost \<and> p_quantity p \<noteq> 0)"

lemma apply_exit_Inr:
  "apply_exit X pf mint f reason now = Some (Inr (out, pf')) \<longleftrightarrow>
     (\<exists>p remaining proceeds cost p'. map_of pf mint = Some p
        \<and> p_remaining_quantity_atomic p = Some remaining \<and> f_input_amount f \<le> remaining
        \<and> f_input_value_usd f = Some proceeds \<and> p_entry_cost_usd p = Some cost
        \<and> p_quantity p \<noteq> 0
        \<and> exit_update X f reason now (remaining - f_input_amount f) proceeds cost p = Some (out, p')
        \<and> pf' = AList.update mint p' pf)"
  unfolding apply_exit_def
  by (auto simp: checked_sub_def map_option_Some_iff split: option.splits if_splits)

lemma exit_update_frame:
  assumes "exit_update X f reason now rem proceeds cost p = Some (out, p')"
  shows "p_remaining_quantity_atomic p' = Some rem"
    and "closed out = (rem = 0)"
    and "p_state p' = (if rem = 0 then PosClosed else p_state p)"
    and "p_mint p' = p_mint p" and "p_quantity p' = p_quantity p"
    and "p_entry_cost_usd p' = p_entry_cost_usd p"
    and "p_position_id p' = p_position_id p"
    and "p_entry_price_usd p' = p_entry_price_usd p"
    and "p_high_water_price_usd p \<le> p_high_water_price_usd p'"
  using assms by (auto simp: exit_update_def panic_simps Let_def)

lemma exit_update_exact:
  assumes "exit_update exact_ext f reason now rem proceeds cost p = Some (out, p')"
  shows "p_realized_pnl_usd p' = p_realized_pnl_usd p
      + (proceeds - cost * dec_of_word (f_input_amount f) / p_quantity p - f_fees_usd f)"
    and "realized_pnl_usd out
      = proceeds - cost * dec_of_word (f_input_amount f) / p_quantity p - f_fees_usd f"
  using assms by (auto simp: exit_update_def panic_simps Let_def dest!: fit_SomeD)

text \<open>A sequence of exit fills of one mint.\<close>

fun apply_exits :: "ext \<Rightarrow> portfolio \<Rightarrow> string \<Rightarrow> fill list \<Rightarrow> string \<Rightarrow> datetime
    \<Rightarrow> (string + portfolio) option" where
  "apply_exits X pf mint [] reason now = Some (Inr pf)"
| "apply_exits X pf mint (f # fs) reason now =
     try_res (apply_exit X pf mint f reason now) (\<lambda>(_, pf'). apply_exits X pf' mint fs reason now)"

definition total_sold :: "fill list \<Rightarrow> nat" where
  "total_sold fs = sum_list (map (\<lambda>f. unat (f_input_amount f)) fs)"

definition total_proceeds :: "fill list \<Rightarrow> decimal" where
  "total_proceeds fs =
     sum_list (map (\<lambda>f. case f_input_value_usd f of None \<Rightarrow> 0 | Some v \<Rightarrow> v) fs)"

definition total_fees :: "fill list \<Rightarrow> decimal" where
  "total_fees fs = sum_list (map f_fees_usd fs)"

lemma apply_exits_accounting:
  assumes "apply_exits exact_ext pf mint fs reason now = Some (Inr pf')"
    and "map_of pf mint = Some p" and "p_entry_cost_usd p = Some cost"
    and "p_remaining_quantity_atomic p = Some remaining" and "p_quantity p \<noteq> 0"
  shows "\<exists>p' r'. map_of pf' mint = Some p' \<and> p_remaining_quantity_atomic p' = Some r'
     \<and> unat r' + total_sold fs = unat remaining
     \<and> p_realized_pnl_usd p' = p_realized_pnl_usd p + total_proceeds fs
         - cost * of_nat (total_sold fs) / p_quantity p - total_fees fs
     \<and> (fs \<noteq> [] \<longrightarrow> (p_state p' = PosClosed) = (r' = 0 \<or> p_state p = PosClosed))"
  using assms
proof (induction fs arbitrary: pf p remaining)
  case Nil
  then show ?case by (simp add: total_sold_def total_proceeds_def total_fees_def)
next
  case (Cons f fs)
  from Cons.prems(1) obtain out pf1 where
      one: "apply_exit exact_ext pf mint f reason now = Some (Inr (out, pf1))"
    and rest: "apply_exits exact_ext pf1 mint fs reason now = Some (Inr pf')"
    by (auto simp: try_res_Inr)
  from one Cons.prems(2-4) obtain proceeds p1 where
      le: "f_input_amount f \<le> remaining" and v: "f_input_value_usd f = Some proceeds"
    and up: "exit_update exact_ext f reason now (remaining - f_input_amount f) proceeds cost p
        = Some (out, p1)" and pf1: "pf1 = AList.update mint p1 pf"
    by (auto simp: apply_exit_Inr)
  note fr = exit_update_frame [OF up] and ex = exit_update_exact [OF up]
  have q: "p_quantity p1 \<noteq> 0" using fr(5) Cons.prems(5) by simp
  obtain p' r' where p': "map_of pf' mint = Some p'" "p_remaining_quantity_atomic p' = Some r'"
    and r': "unat r' + total_sold fs = unat (remaining - f_input_amount f)"
    and pnl: "p_realized_pnl_usd p' = p_realized_pnl_usd p1 + total_proceeds fs
         - cost * of_nat (total_sold fs) / p_quantity p1 - total_fees fs"
    and st: "fs \<noteq> [] \<longrightarrow> (p_state p' = PosClosed) = (r' = 0 \<or> p_state p1 = PosClosed)"
    using Cons.IH [OF rest _ _ fr(1) q] fr(6) Cons.prems(3) pf1 by auto
  have sold: "unat r' + total_sold (f # fs) = unat remaining"
    using r' le by (simp add: total_sold_def unat_sub word_le_nat_alt)
  have "p_realized_pnl_usd p' = p_realized_pnl_usd p + total_proceeds (f # fs)
         - cost * of_nat (total_sold (f # fs)) / p_quantity p - total_fees (f # fs)"
    using pnl ex(1) fr(5) v
    by (simp add: total_sold_def total_proceeds_def total_fees_def dec_of_word_def
        algebra_simps add_divide_distrib del: of_nat_unat)
  moreover have "(p_state p' = PosClosed) = (r' = 0 \<or> p_state p = PosClosed)"
  proof (cases "fs = []")
    case True
    then have "p' = p1" "r' = remaining - f_input_amount f" using rest pf1 p' fr(1) by auto
    then show ?thesis using fr(3) by auto
  next
    case False
    have "r' = 0" if "remaining - f_input_amount f = 0"
      using r' that by (simp add: unat_eq_0)
    then show ?thesis using st False fr(3) by auto
  qed
  ultimately show ?case using p' sold by blast
qed

section \<open>Reconciliation with the chain\<close>

lemma reconcile_with_chain_frame:
  assumes "reconcile_with_chain pf mint amount decimals now = (res, pf')"
  shows "m \<noteq> mint \<Longrightarrow> map_of pf' m = map_of pf m"
    and "res = Inl e \<Longrightarrow> pf' = pf"
  using assms by (auto simp: reconcile_with_chain_def split: option.splits if_splits)

text \<open>Adopted or confirmed, the internal quantity of an open position equals the chain's.\<close>

lemma reconcile_adopts:
  assumes "reconcile_with_chain pf mint amount decimals now = (Inr True, pf')"
    and "map_of pf' mint = Some p'" and "is_open p'"
  shows "trusted_remaining p' = Some amount"
  using assms
  by (auto simp: reconcile_with_chain_def trusted_remaining_def is_open_def
      quantity_is_trusted_def split: option.splits if_splits)

lemma apply_entry_fresh:
  assumes "apply_entry X pf mint base td bd pos_id f price sig costs = Some (Inr pf')"
    and "map_of pf mint = None"
  obtains input_value base_price val where "f_input_value_usd f = Some input_value"
    "f_output_amount f \<noteq> 0"
    "pf' = AList.update mint (fresh_entry mint base td bd pos_id f price sig costs
       (dec_of_word (f_output_amount f)) input_value base_price val) pf"
  using assms by (auto simp: apply_entry_def panic_simps Let_def split: if_split_asm option.split_asm)

lemma apply_entry_merge:
  assumes "apply_entry X pf mint base td bd pos_id f price sig costs = Some (Inr pf')"
    and "map_of pf mint = Some p"
  obtains input_value p' where "f_input_value_usd f = Some input_value"
    "merge_entry X f price (dec_of_word (f_output_amount f)) input_value p = Some p'"
    "pf' = AList.update mint p' pf"
  using assms by (auto simp: apply_entry_def panic_simps Let_def split: if_split_asm option.split_asm)

lemma merge_entry_fields:
  assumes "merge_entry X f price q v p = Some p'"
  shows "p_remaining_quantity_atomic p' = Some (sat_add
       (case p_remaining_quantity_atomic p of None \<Rightarrow> 0 | Some r \<Rightarrow> r) (f_output_amount f))"
    and "p_state p' = PosOpen" and "p_reconciliation_status p' = AdjustedOnChain"
    and "p_entry_cost_usd p' \<noteq> None" and "p_mint p' = p_mint p"
  using assms by (auto simp: merge_entry_def panic_simps)

lemma merge_entry_exact:
  assumes "merge_entry exact_ext f price q v p = Some p'"
  shows "p_quantity p' = p_quantity p + q" and "p_quantity p + q \<noteq> 0"
    and "p_entry_price_usd p' * (p_quantity p + q)
      = p_entry_price_usd p * p_quantity p + price * q"
    and "p_entry_cost_usd p' = Some ((case p_entry_cost_usd p of None \<Rightarrow> 0 | Some c \<Rightarrow> c) + v)"
    and "p_fees_usd p' = p_fees_usd p + f_fees_usd f"
  using assms by (auto simp: merge_entry_def panic_simps dest!: fit_SomeD)

section \<open>Properties\<close>

text \<open>Concrete fills for the runs below.\<close>

definition buy_fill :: fill where
  "buy_fill = \<lparr>f_order_id = ''b'', f_signature = ''s1'', f_input_amount = 1000,
     f_output_amount = 500, f_price_usd = 2, f_fees_usd = 1, f_slippage_bps = 0,
     f_confirmed_at = 0, f_latency_ms = 0, f_fee_lamports = 0, f_input_value_usd = Some 10,
     f_expected_output_amount = Some 500\<rparr>"

definition sell_fill :: "u64 \<Rightarrow> decimal \<Rightarrow> fill" where
  "sell_fill amount proceeds = \<lparr>f_order_id = ''x'', f_signature = ''s2'',
     f_input_amount = amount, f_output_amount = 1, f_price_usd = 3, f_fees_usd = 1,
     f_slippage_bps = 0, f_confirmed_at = 0, f_latency_ms = 0, f_fee_lamports = 0,
     f_input_value_usd = Some proceeds, f_expected_output_amount = None\<rparr>"

definition entered :: "(string + portfolio) option" where
  "entered = apply_entry exact_ext [] ''m'' ''sol'' 2 3 ''pos'' buy_fill 2 ''sig'' sample_costs"

lemma entered_Inr: "\<exists>pf. entered = Some (Inr pf)"
  by (simp add: entered_def apply_entry_def buy_fill_def pow10_u64_def checked_pow10_def
      dec_of_word_def fit_def dec_max_def Let_def)

text \<open>
  C21: with exact decimal arithmetic, that is, as long as no
  result needs rounding to 28 digits, a position bought in one fill and sold off in any number of
  partial exits. The remaining quantity is always what has not been sold, more than that
  is never accepted, the position closes exactly with the last unit, and the realised profit is
  the proceeds minus the sold share of the entry value minus the exit fees; the entry fees appear
  in the fee total only.
\<close>

theorem round_trip_accounting:
  assumes "apply_entry exact_ext pf mint base td bd pos_id f price sig costs = Some (Inr pf1)"
    and "map_of pf mint = None" and "f_input_value_usd f = Some cost"
    and "apply_exits exact_ext pf1 mint fs reason now = Some (Inr pf2)" and "fs \<noteq> []"
  shows "\<exists>p r. map_of pf2 mint = Some p \<and> p_remaining_quantity_atomic p = Some r
     \<and> unat r + total_sold fs = unat (f_output_amount f)
     \<and> (p_state p = PosClosed \<longleftrightarrow> total_sold fs = unat (f_output_amount f))
     \<and> p_realized_pnl_usd p = total_proceeds fs
         - cost * of_nat (total_sold fs) / of_nat (unat (f_output_amount f)) - total_fees fs"
proof -
  obtain bp val where out: "f_output_amount f \<noteq> 0"
    and pf1: "pf1 = AList.update mint (fresh_entry mint base td bd pos_id f price sig costs
       (dec_of_word (f_output_amount f)) cost bp val) pf"
    using apply_entry_fresh [OF assms(1,2)] assms(3) by (metis option.inject)
  define p0 where "p0 = fresh_entry mint base td bd pos_id f price sig costs
       (dec_of_word (f_output_amount f)) cost bp val"
  have p0: "map_of pf1 mint = Some p0" "p_entry_cost_usd p0 = Some cost"
    "p_remaining_quantity_atomic p0 = Some (f_output_amount f)"
    "p_quantity p0 = dec_of_word (f_output_amount f)" "p_realized_pnl_usd p0 = 0"
    "p_state p0 = PosOpen"
    by (simp_all add: pf1 p0_def fresh_entry_def)
  have q: "p_quantity p0 \<noteq> 0" using p0(4) out by simp
  obtain p r where "map_of pf2 mint = Some p" "p_remaining_quantity_atomic p = Some r"
    and sold: "unat r + total_sold fs = unat (f_output_amount f)"
    and pnl: "p_realized_pnl_usd p = p_realized_pnl_usd p0 + total_proceeds fs
         - cost * of_nat (total_sold fs) / p_quantity p0 - total_fees fs"
    and st: "(p_state p = PosClosed) = (r = 0)"
    using apply_exits_accounting [OF assms(4) p0(1,2,3) q] assms(5) p0(6) by auto
  moreover have "(r = 0) = (total_sold fs = unat (f_output_amount f))"
    using sold unat_eq_0 [of r] by linarith
  ultimately show ?thesis
    unfolding p0(4,5) by (auto simp: dec_of_word_def simp del: of_nat_unat)
qed

theorem round_trip_accounting_witness:
  "\<exists>pf1 pf2 p. entered = Some (Inr pf1)
     \<and> apply_exits exact_ext pf1 ''m'' [sell_fill 200 5, sell_fill 300 8] ''why'' 0
         = Some (Inr pf2)
     \<and> map_of pf2 ''m'' = Some p \<and> p_state p = PosClosed \<and> p_realized_pnl_usd p = 13 - 10 - 2"
proof -
  have "\<exists>pf1 pf2. entered = Some (Inr pf1)
      \<and> apply_exits exact_ext pf1 ''m'' [sell_fill 200 5, sell_fill 300 8] ''why'' 0
        = Some (Inr pf2)"
    by (simp add: entered_def apply_entry_def buy_fill_def pow10_u64_def checked_pow10_def
        fresh_entry_def apply_exit_def exit_update_def sell_fill_def checked_sub_def
        dec_of_word_def fit_def dec_max_def Let_def)
  then obtain pf1 pf2 where r: "entered = Some (Inr pf1)"
    "apply_exits exact_ext pf1 ''m'' [sell_fill 200 5, sell_fill 300 8] ''why'' 0
        = Some (Inr pf2)" by blast
  have e: "apply_entry exact_ext [] ''m'' ''sol'' 2 3 ''pos'' buy_fill 2 ''sig'' sample_costs
      = Some (Inr pf1)" using r(1) by (simp add: entered_def)
  have n: "map_of [] ''m'' = None" "f_input_value_usd buy_fill = Some 10"
    "[sell_fill 200 5, sell_fill 300 8] \<noteq> []"
    by (simp_all add: buy_fill_def)
  from round_trip_accounting [OF e n(1,2) r(2) n(3)] show ?thesis
    using r by (auto simp: total_sold_def total_proceeds_def total_fees_def sell_fill_def
        buy_fill_def)
qed

text \<open>
  A further entry into a held mint. The entry price
  becomes the quantity-weighted average, quantity and cost basis add up, and the atomic remaining
  quantity grows by the filled amount (exact arithmetic; saturating at 64 bits).
\<close>

theorem further_entry_averages:
  assumes "apply_entry exact_ext pf mint base td bd pos_id f price sig costs = Some (Inr pf')"
    and "map_of pf mint = Some p" and "p_entry_cost_usd p = Some old_cost"
    and "f_input_value_usd f = Some v"
  shows "\<exists>p'. map_of pf' mint = Some p' \<and> is_open p'
    \<and> p_quantity p' = p_quantity p + dec_of_word (f_output_amount f)
    \<and> p_entry_price_usd p' * p_quantity p'
      = p_entry_price_usd p * p_quantity p + price * dec_of_word (f_output_amount f)
    \<and> p_entry_cost_usd p' = Some (old_cost + v)"
proof -
  obtain p' where m: "merge_entry exact_ext f price (dec_of_word (f_output_amount f)) v p = Some p'"
    and pf': "pf' = AList.update mint p' pf"
    using apply_entry_merge [OF assms(1,2)] assms(4) by (metis option.inject)
  show ?thesis
    using merge_entry_exact [OF m] merge_entry_fields [OF m] assms(3) pf'
    by (simp add: is_open_def)
qed

theorem further_entry_averages_witness:
  "\<exists>pf1 pf2 p. entered = Some (Inr pf1)
     \<and> apply_entry exact_ext pf1 ''m'' ''sol'' 2 3 ''pos'' buy_fill 4 ''sig'' sample_costs
         = Some (Inr pf2)
     \<and> map_of pf2 ''m'' = Some p \<and> p_entry_cost_usd p = Some 20"
proof -
  have "\<exists>pf1 pf2. entered = Some (Inr pf1)
     \<and> apply_entry exact_ext pf1 ''m'' ''sol'' 2 3 ''pos'' buy_fill 4 ''sig'' sample_costs
         = Some (Inr pf2)
     \<and> (\<exists>p. map_of pf1 ''m'' = Some p \<and> p_entry_cost_usd p = Some 10)"
    by (simp add: entered_def apply_entry_def buy_fill_def pow10_u64_def checked_pow10_def
        fresh_entry_def merge_entry_def dec_of_word_def fit_def dec_max_def Let_def)
  then obtain pf1 pf2 p where r: "entered = Some (Inr pf1)"
    and e: "apply_entry exact_ext pf1 ''m'' ''sol'' 2 3 ''pos'' buy_fill 4 ''sig'' sample_costs
         = Some (Inr pf2)"
    and p: "map_of pf1 ''m'' = Some p" "p_entry_cost_usd p = Some 10" by blast
  from further_entry_averages [OF e p, of 10] r e show ?thesis by (simp add: buy_fill_def) blast
qed

text \<open>
  After a successful reconciliation that leaves the
  position open, the quantity exits may sell is trusted and is the on-chain amount; every other
  position is untouched, and an error changes nothing.
\<close>

theorem reconciliation_adopts_chain:
  assumes "reconcile_with_chain pf mint amount decimals now = (res, pf')"
  shows "(res = Inr True \<longrightarrow> (\<forall>p'. map_of pf' mint = Some p' \<and> is_open p' \<longrightarrow>
           trusted_remaining p' = Some amount))
    \<and> (m \<noteq> mint \<longrightarrow> map_of pf' m = map_of pf m) \<and> (res = Inl e \<longrightarrow> pf' = pf)"
  using assms reconcile_adopts reconcile_with_chain_frame [OF assms] by blast

theorem reconciliation_adopts_chain_witness:
  "\<exists>pf p'. reconcile_with_chain [(''m'', sample_position)] ''m'' 400 2 5 = (Inr True, pf)
     \<and> map_of pf ''m'' = Some p' \<and> trusted_remaining p' = Some 400"
proof -
  obtain pf p' where r: "reconcile_with_chain [(''m'', sample_position)] ''m'' 400 2 5 = (Inr True, pf)"
    and p: "map_of pf ''m'' = Some p'" "is_open p'"
    by (simp add: reconcile_with_chain_def sample_position_def is_open_def)
  from reconciliation_adopts_chain [OF r] p r show ?thesis by blast
qed

text \<open>
  A position found empty on the chain is closed
  without clearing its recorded quantity. The next entry into the mint reopens it with the old
  quantity added to the bought one and marks it trusted, so the bot believes it can sell tokens
  that are not there.
\<close>

theorem reentry_sells_phantom_quantity:
  assumes "map_of pf mint = Some p" and "is_open p"
    and "p_remaining_quantity_atomic p = Some r" and "r \<noteq> 0"
    and "reconcile_with_chain pf mint 0 decimals now = (res, pf1)"
    and "apply_entry X pf1 mint base td bd pos_id f price sig costs = Some (Inr pf2)"
  shows "res = Inr True
    \<and> (\<exists>p1. map_of pf1 mint = Some p1 \<and> p_state p1 = PosClosed)
    \<and> (\<exists>p2. map_of pf2 mint = Some p2 \<and> trusted_remaining p2 = Some (sat_add r (f_output_amount f)))"
proof -
  obtain p1 where p1: "map_of pf1 mint = Some p1" "p_state p1 = PosClosed"
      "p_remaining_quantity_atomic p1 = Some r" "res = Inr True"
    using assms(1-5) by (auto simp: reconcile_with_chain_def)
  obtain v p2 where m: "merge_entry X f price (dec_of_word (f_output_amount f)) v p1 = Some p2"
    and pf2: "pf2 = AList.update mint p2 pf1"
    using apply_entry_merge [OF assms(6) p1(1)] by metis
  have "trusted_remaining p2 = Some (sat_add r (f_output_amount f))"
    using merge_entry_fields(1-3) [OF m] p1(3)
    by (simp add: trusted_remaining_def is_open_def quantity_is_trusted_def)
  with p1 pf2 show ?thesis by simp
qed

theorem reentry_sells_phantom_quantity_witness:
  "\<exists>pf1 pf2 p2. reconcile_with_chain [(''m'', sample_position)] ''m'' 0 2 5 = (Inr True, pf1)
     \<and> apply_entry exact_ext pf1 ''m'' ''sol'' 2 3 ''pos'' buy_fill 2 ''sig'' sample_costs
         = Some (Inr pf2)
     \<and> map_of pf2 ''m'' = Some p2 \<and> trusted_remaining p2 = Some 1000"
proof -
  have "\<exists>pf1 pf2. reconcile_with_chain [(''m'', sample_position)] ''m'' 0 2 5 = (Inr True, pf1)
     \<and> apply_entry exact_ext pf1 ''m'' ''sol'' 2 3 ''pos'' buy_fill 2 ''sig'' sample_costs
         = Some (Inr pf2)"
    by (simp add: reconcile_with_chain_def sample_position_def is_open_def apply_entry_def
        buy_fill_def pow10_u64_def checked_pow10_def merge_entry_def dec_of_word_def fit_def
        dec_max_def Let_def)
  then obtain pf1 pf2 where
      r: "reconcile_with_chain [(''m'', sample_position)] ''m'' 0 2 5 = (Inr True, pf1)"
    and e: "apply_entry exact_ext pf1 ''m'' ''sol'' 2 3 ''pos'' buy_fill 2 ''sig'' sample_costs
         = Some (Inr pf2)" by blast
  have p: "map_of [(''m'', sample_position)] ''m'' = Some sample_position" "is_open sample_position"
    "p_remaining_quantity_atomic sample_position = Some 500" "(500::u64) \<noteq> 0"
    by (simp_all add: sample_position_def is_open_def)
  have "sat_add 500 (f_output_amount buy_fill) = 1000" by (simp add: sat_add_def buy_fill_def)
  with reentry_sells_phantom_quantity [OF p r e] r e show ?thesis by auto
qed

end
