(* ===== verification/Execution.thy ===== *)
theory Execution
  imports Portfolio
begin

text \<open>
  \<open>src/execution\<close>: quotes, value basis and unit conversion (\<open>executor.rs\<close>), the paper executor
  (\<open>paper.rs\<close>), the deterministic replay executor (\<open>deterministic.rs\<close>) and the pure parts of the
  Jupiter executor (\<open>jupiter.rs\<close>): fee caps, the rate-limit back-off and \<open>finalize_fill\<close>.
  Clocks and UUIDs are arguments; a route is the opaque text of its JSON.
\<close>

section \<open>executor.rs\<close>

record quote =
  q_input_mint :: string
  q_output_mint :: string
  q_input_amount :: u64
  q_output_amount :: u64
  q_price_impact_bps :: u32
  q_route :: string
  q_observed_at :: datetime

datatype value_basis = InputValueUsd decimal | OutputUnitPriceUsd decimal

record execution_request =
  r_order_id :: string
  r_quote :: quote
  r_max_slippage_bps :: u32
  r_max_price_impact_bps :: u32
  r_min_output_amount :: u64
  r_input_decimals :: u8
  r_output_decimals :: u8
  r_value_basis :: value_basis

datatype execution_error =
    QuoteError string
  | StaleQuote
  | InvalidQuote
  | Policy string
  | UnknownOutcome "string option" string
  | Transaction string
  | Unavailable string

text \<open>\<open>Display\<close> of an error; the debug text of an optional signature is an argument.\<close>

fun error_text :: "(string option \<Rightarrow> string) \<Rightarrow> execution_error \<Rightarrow> string" where
  "error_text dbg (QuoteError s) = ''quote unavailable: '' @ s"
| "error_text dbg StaleQuote = ''quote is stale''"
| "error_text dbg InvalidQuote = ''quote violates slippage/impact/receive limit''"
| "error_text dbg (Policy s) = ''transaction policy rejected: '' @ s"
| "error_text dbg (UnknownOutcome sig d) =
     ''transaction outcome is unknown; reconcile before retrying (signature='' @ dbg sig
     @ ''): '' @ d"
| "error_text dbg (Transaction s) = ''transaction failed on-chain: '' @ s"
| "error_text dbg (Unavailable s) = ''execution backend unavailable: '' @ s"

definition units :: "ext \<Rightarrow> u64 \<Rightarrow> u8 \<Rightarrow> (execution_error + decimal) option" where
  "units X amount decimals =
     (case checked_pow10 decimals of
        None \<Rightarrow> Some (Inl (Policy ''decimals overflow''))
      | Some d \<Rightarrow> map_option Inr (dec_div X (dec_of_word amount) (dec_of_word d)))"

definition price_fill ::
    "ext \<Rightarrow> value_basis \<Rightarrow> u64 \<Rightarrow> u8 \<Rightarrow> u64 \<Rightarrow> u8 \<Rightarrow> (execution_error + decimal \<times> decimal) option" where
  "price_fill X basis in_amount in_dec out_amount out_dec =
     try_res (units X in_amount in_dec) (\<lambda>input_units.
     try_res (units X out_amount out_dec) (\<lambda>output_units.
       case basis of
         InputValueUsd v \<Rightarrow>
           if output_units \<le> 0 then Some (Inl InvalidQuote)
           else do { price \<leftarrow> dec_div X v output_units; Some (Inr (v, price)) }
       | OutputUnitPriceUsd p \<Rightarrow>
           if input_units \<le> 0 then Some (Inl InvalidQuote)
           else do {
             val \<leftarrow> dec_mul X output_units p;
             price \<leftarrow> dec_div X val input_units;
             Some (Inr (val, price))
           }))"

definition fee_usd :: "ext \<Rightarrow> u64 \<Rightarrow> decimal option \<Rightarrow> decimal option" where
  "fee_usd X fee_lamports sol_price =
     (case sol_price of
        Some p \<Rightarrow> do {
          sol \<leftarrow> dec_div X (dec_of_word fee_lamports) 1000000000;
          dec_mul X sol p
        }
      | None \<Rightarrow> Some 0)"

section \<open>paper.rs\<close>

record paper_executor =
  fill_haircut_bps :: u32
  base_fee_lamports :: u64
  pe_priority_fee_lamports :: u64
  call_counter :: u64
  fail_every_n :: u64

definition new_paper :: "u32 \<Rightarrow> paper_executor" where
  "new_paper haircut = \<lparr>fill_haircut_bps = haircut, base_fee_lamports = 5000,
     pe_priority_fee_lamports = 10000, call_counter = 0, fail_every_n = 0\<rparr>"

definition paper_with_failure_injection :: "u32 \<Rightarrow> u64 \<Rightarrow> paper_executor" where
  "paper_with_failure_injection haircut n = \<lparr>fill_haircut_bps = haircut,
     base_fee_lamports = 5000, pe_priority_fee_lamports = 10000, call_counter = 0,
     fail_every_n = n\<rparr>"

text \<open>\<open>10_000 - bps as u64\<close> as a plain operator, and the scaled amount.\<close>

definition keep_bps :: "ext \<Rightarrow> u64 \<Rightarrow> u64 option" where
  "keep_bps X bps = (if bps \<le> 10000 \<or> \<not> overflow_checks X then Some (10000 - bps) else None)"

definition scale_bps :: "u64 \<Rightarrow> u64 \<Rightarrow> u64" where
  "scale_bps amount kept = sat_mul amount kept div 10000"

definition paper_quote_ok :: "execution_request \<Rightarrow> bool" where
  "paper_quote_ok r \<longleftrightarrow> \<not> (q_output_amount (r_quote r) = 0
     \<or> q_price_impact_bps (r_quote r) > r_max_price_impact_bps r
     \<or> q_output_amount (r_quote r) < r_min_output_amount r)"

text \<open>The simulated fill, after the quote checks and the failure injection.\<close>

definition paper_fill ::
    "ext \<Rightarrow> paper_executor \<Rightarrow> execution_request \<Rightarrow> datetime \<Rightarrow> string
     \<Rightarrow> (execution_error + fill) option" where
  "paper_fill X pe r now uuid =
    (let output = scale_bps (q_output_amount (r_quote r))
                    (sat_sub 10000 (ucast (fill_haircut_bps pe))) in
     if output < r_min_output_amount r then Some (Inl InvalidQuote)
     else do {
       let slip = q_price_impact_bps (r_quote r) div 3 + 5;
       kept \<leftarrow> keep_bps X (ucast slip);
       let after_slippage = scale_bps output kept;
       if after_slippage < r_min_output_amount r then Some (Inl InvalidQuote)
       else try_res (price_fill X (r_value_basis r) (q_input_amount (r_quote r))
                       (r_input_decimals r) after_slippage (r_output_decimals r))
         (\<lambda>(value_usd, price_usd). do {
            let fee = base_fee_lamports pe + pe_priority_fee_lamports pe;
            fees \<leftarrow> fee_usd X fee None;
            Some (Inr \<lparr>f_order_id = r_order_id r, f_signature = ''paper:'' @ uuid,
              f_input_amount = q_input_amount (r_quote r), f_output_amount = after_slippage,
              f_price_usd = price_usd, f_fees_usd = fees, f_slippage_bps = slip,
              f_confirmed_at = now, f_latency_ms = 0, f_fee_lamports = fee,
              f_input_value_usd = Some value_usd,
              f_expected_output_amount = Some (q_output_amount (r_quote r))\<rparr>)
          })
     })"

definition paper_execute ::
    "ext \<Rightarrow> datetime \<Rightarrow> datetime \<Rightarrow> string \<Rightarrow> paper_executor \<Rightarrow> execution_request
     \<Rightarrow> ((execution_error + fill) \<times> paper_executor) option" where
  "paper_execute X now now' uuid pe r =
    (let age = now - q_observed_at (r_quote r) in
     if age < 0 \<or> age > secs 300 then Some (Inl StaleQuote, pe)
     else if \<not> paper_quote_ok r then Some (Inl InvalidQuote, pe)
     else if fail_every_n pe > 0
     then (let pe' = pe\<lparr>call_counter := call_counter pe + 1\<rparr> in
           if (call_counter pe + 1) mod fail_every_n pe = 0
           then Some (Inl (Transaction ''paper: simulated transaction failure''), pe')
           else map_option (\<lambda>res. (res, pe')) (paper_fill X pe' r now' uuid))
     else map_option (\<lambda>res. (res, pe)) (paper_fill X pe r now' uuid))"

section \<open>deterministic.rs\<close>

type_synonym quote_key = "string \<times> string \<times> u64 \<times> u16"
type_synonym deterministic_executor = "quote_key \<Rightarrow> quote option"

definition key_of :: "quote \<Rightarrow> quote_key" where
  "key_of q = (q_input_mint q, q_output_mint q, q_input_amount q, 0)"

definition register_quote :: "deterministic_executor \<Rightarrow> quote \<Rightarrow> deterministic_executor" where
  "register_quote m q = m(key_of q \<mapsto> q)"

definition with_quotes :: "deterministic_executor \<Rightarrow> quote list \<Rightarrow> deterministic_executor" where
  "with_quotes m qs = foldl register_quote m qs"

definition det_quote ::
    "deterministic_executor \<Rightarrow> string \<Rightarrow> string \<Rightarrow> u64 \<Rightarrow> u16 \<Rightarrow> execution_error + quote" where
  "det_quote m inp out amount slip =
     (case m (inp, out, amount, 0) of
        Some q \<Rightarrow> Inr q
      | None \<Rightarrow> Inl (QuoteError (''no deterministic quote for '' @ inp @ ''->'' @ out
                 @ '' amount='' @ show_word amount)))"

definition det_execute ::
    "ext \<Rightarrow> datetime \<Rightarrow> string \<Rightarrow> deterministic_executor \<Rightarrow> execution_request
     \<Rightarrow> ((execution_error + fill) \<times> deterministic_executor) option" where
  "det_execute X now uuid m r =
     map_option (\<lambda>res. (res, m))
      (try_res (price_fill X (r_value_basis r) (q_input_amount (r_quote r)) (r_input_decimals r)
                 (q_output_amount (r_quote r)) (r_output_decimals r))
        (\<lambda>(value_usd, price_usd).
           Some (Inr \<lparr>f_order_id = r_order_id r, f_signature = ''replay:'' @ uuid,
             f_input_amount = q_input_amount (r_quote r),
             f_output_amount = q_output_amount (r_quote r), f_price_usd = price_usd,
             f_fees_usd = 0, f_slippage_bps = 0, f_confirmed_at = now, f_latency_ms = 0,
             f_fee_lamports = 0, f_input_value_usd = Some value_usd,
             f_expected_output_amount = Some (q_output_amount (r_quote r))\<rparr>)))"

section \<open>jupiter.rs\<close>

definition verify_onchain_fee :: "u64 \<Rightarrow> u64 \<Rightarrow> execution_error + unit" where
  "verify_onchain_fee fee cap =
     (if fee > cap
      then Inl (Policy (''on-chain transaction fee '' @ show_word fee
        @ '' lamports exceeds configured maximum '' @ show_word cap))
      else Inr ())"

definition verify_presubmission_fee :: "ext \<Rightarrow> u64 \<Rightarrow> u64 \<Rightarrow> (execution_error + unit) option" where
  "verify_presubmission_fee X prio cap =
    (if overflow_checks X \<and> checked_add prio 5000 = None then None
     else let total = prio + 5000 in
       if total > cap
       then Some (Inl (Policy (''estimated transaction fee '' @ show_word total
         @ '' lamports (priority '' @ show_word prio
         @ '' + base 5000) exceeds configured maximum '' @ show_word cap)))
       else Some (Inr ()))"

text \<open>The rate limiter; instants and durations in seconds are enough for its arithmetic.\<close>

record rate_limit =
  consecutive_429s :: u32
  backoff_until :: "nat option"

definition pow2_sat :: "nat \<Rightarrow> u64" where
  "pow2_sat n = (if n < 64 then 2 ^ n else - 1)"

definition record_rate_limit :: "nat \<Rightarrow> u64 option \<Rightarrow> rate_limit \<Rightarrow> u64 \<times> rate_limit" where
  "record_rate_limit now retry_after rl =
    (let n = sat_add (consecutive_429s rl) 1;
         base = pow2_sat (unat (min n 6));
         wait = min (case retry_after of None \<Rightarrow> base | Some s \<Rightarrow> s) 120
     in (wait, rl\<lparr>consecutive_429s := n, backoff_until := Some (now + unat wait)\<rparr>))"

definition clear_rate_limit :: "rate_limit \<Rightarrow> rate_limit" where
  "clear_rate_limit rl = rl\<lparr>consecutive_429s := 0, backoff_until := None\<rparr>"

definition rate_limit_remaining :: "nat \<Rightarrow> rate_limit \<Rightarrow> nat option" where
  "rate_limit_remaining now rl =
     Option.bind (backoff_until rl) (\<lambda>until. if now \<le> until then Some (until - now) else None)"

definition finalize_fill :: "ext \<Rightarrow> fill \<Rightarrow> decimal option \<Rightarrow> fill option" where
  "finalize_fill X f sol_price = do {
     fees \<leftarrow> fee_usd X (f_fee_lamports f) sol_price;
     Some (f\<lparr>f_slippage_bps := realised_slippage_bps f, f_fees_usd := fees\<rparr>)
   }"

section \<open>The contract of an executor\<close>

text \<open>
  What the runtime relies on when it accounts a fill: the order it belongs to, that the sold
  amount is the quoted one, that it never receives more than quoted and that the fill carries a
  USD value.
\<close>

locale fill_executor =
  fixes exec :: "'st \<Rightarrow> execution_request \<Rightarrow> ((execution_error + fill) \<times> 'st) option"
  assumes fill_order: "exec s r = Some (Inr f, s') \<Longrightarrow> f_order_id f = r_order_id r"
    and fill_input: "exec s r = Some (Inr f, s') \<Longrightarrow> f_input_amount f = q_input_amount (r_quote r)"
    and fill_output: "exec s r = Some (Inr f, s') \<Longrightarrow> f_output_amount f \<le> q_output_amount (r_quote r)"
    and fill_expected:
      "exec s r = Some (Inr f, s') \<Longrightarrow>
         f_expected_output_amount f = Some (q_output_amount (r_quote r))"
    and fill_value: "exec s r = Some (Inr f, s') \<Longrightarrow> f_input_value_usd f \<noteq> None"
begin

text \<open>An exit of the whole remaining quantity passes every check of the accounting.\<close>

lemma exit_fill_ready:
  assumes "exec s r = Some (Inr f, s')" "finalize_fill X f sol = Some f'"
    and "p_remaining_quantity_atomic p = Some (q_input_amount (r_quote r))"
    and "p_entry_cost_usd p \<noteq> None" "p_quantity p \<noteq> 0"
  shows "exit_ready p f'"
  using assms fill_input [OF assms(1)] fill_value [OF assms(1)]
  by (auto simp: exit_ready_def finalize_fill_def bind_Some_iff)

text \<open>An exit of the whole remaining quantity closes the position.\<close>

lemma full_exit_closes:
  assumes "exec s r = Some (Inr f, s')" "finalize_fill X f sol = Some f'"
    and "map_of pf mint = Some p"
    and "p_remaining_quantity_atomic p = Some (q_input_amount (r_quote r))"
    and "apply_exit X pf mint f' reason now = Some (Inr (out, pf'))"
  shows "closed out" and "\<exists>p'. map_of pf' mint = Some p' \<and> p_state p' = PosClosed
           \<and> p_remaining_quantity_atomic p' = Some 0"
proof -
  have "f_input_amount f' = q_input_amount (r_quote r)"
    using assms(2) fill_input [OF assms(1)] by (auto simp: finalize_fill_def bind_Some_iff)
  then obtain proceeds cost p' where
      up: "exit_update X f' reason now 0 proceeds cost p = Some (out, p')"
    and pf': "pf' = AList.update mint p' pf"
    using assms(3-5) by (auto simp: apply_exit_Inr)
  show "closed out" using exit_update_frame(2) [OF up] by simp
  show "\<exists>p'. map_of pf' mint = Some p' \<and> p_state p' = PosClosed
           \<and> p_remaining_quantity_atomic p' = Some 0"
    using exit_update_frame(1,3) [OF up] pf' by simp
qed

end

lemma scale_bps_le: "unat kept \<le> 10000 \<Longrightarrow> scale_bps a kept \<le> a"
proof -
  assume k: "unat kept \<le> 10000"
  have "unat (scale_bps a kept) = min (unat a * unat kept) (2 ^ 64 - 1) div 10000"
    by (simp add: scale_bps_def unat_div unat_sat_mul)
  also have "\<dots> \<le> (unat a * 10000) div 10000"
    using mult_left_mono [OF k, of "unat a"] by (intro div_le_mono) (simp add: min.coboundedI1)
  finally show ?thesis by (simp add: word_le_nat_alt)
qed

lemma unat_scale_bps:
  "unat a * unat kept < 2 ^ 64 \<Longrightarrow> unat (scale_bps a kept) = unat a * unat kept div 10000"
  by (simp add: scale_bps_def unat_div unat_sat_mul min_def)

lemma paper_execute_fill:
  assumes "paper_execute X now now' uuid pe r = Some (Inr f, pe')"
  obtains pe1 where "paper_fill X pe1 r now' uuid = Some (Inr f)" "paper_quote_ok r"
    "0 \<le> now - q_observed_at (r_quote r)" "now - q_observed_at (r_quote r) \<le> secs 300"
    "fill_haircut_bps pe1 = fill_haircut_bps pe"
proof -
  have c: "0 \<le> now - q_observed_at (r_quote r)" "now - q_observed_at (r_quote r) \<le> secs 300"
    "paper_quote_ok r"
    using assms by (auto simp: paper_execute_def Let_def split: if_split_asm)
  moreover have "\<exists>pe1. paper_fill X pe1 r now' uuid = Some (Inr f)
      \<and> fill_haircut_bps pe1 = fill_haircut_bps pe"
    using assms c by (fastforce simp: paper_execute_def Let_def map_option_Some_iff
        split: if_split_asm)
  ultimately show ?thesis using that by blast
qed

lemma paper_fill_fields:
  assumes "paper_fill X pe r now uuid = Some (Inr f)"
  obtains kept where
    "keep_bps X (ucast (q_price_impact_bps (r_quote r) div 3 + 5)) = Some kept"
    "f_output_amount f = scale_bps (scale_bps (q_output_amount (r_quote r))
        (sat_sub 10000 (ucast (fill_haircut_bps pe)))) kept"
    "r_min_output_amount r \<le> f_output_amount f"
    "f_order_id f = r_order_id r" "f_input_amount f = q_input_amount (r_quote r)"
    "f_expected_output_amount f = Some (q_output_amount (r_quote r))"
    "f_input_value_usd f \<noteq> None"
  using assms
  by (fastforce simp: paper_fill_def Let_def panic_simps not_less split: if_split_asm)

text \<open>The price impact the configuration admits keeps the simulated slippage below 100%.\<close>

lemma kept_bound:
  assumes "keep_bps X (ucast (impact div 3 + 5 :: u32)) = Some kept" and "impact \<le> 10000"
  shows "unat kept \<le> 10000"
proof -
  have "unat (impact div 3 + 5) = unat impact div 3 + 5"
    using assms(2) by (subst unat_add_below) (auto simp: unat_div word_le_nat_alt)
  then have "unat (ucast (impact div 3 + 5) :: u64) \<le> 10000"
    using assms(2) by (simp add: unsigned_ucast_eq take_bit_nat_eq_self word_le_nat_alt)
  then show ?thesis
    using assms(1) by (auto simp: keep_bps_def unat_sub word_le_nat_alt split: if_split_asm)
qed

text \<open>
  The paper executor on requests whose impact cap is at most 100%, and the replay executor, both
  fulfil the contract.
\<close>

definition capped_paper_execute ::
    "ext \<Rightarrow> datetime \<Rightarrow> datetime \<Rightarrow> string \<Rightarrow> paper_executor \<Rightarrow> execution_request
     \<Rightarrow> ((execution_error + fill) \<times> paper_executor) option" where
  "capped_paper_execute X now now' uuid pe r =
     (if r_max_price_impact_bps r \<le> 10000 then paper_execute X now now' uuid pe r else None)"

interpretation paper: fill_executor "capped_paper_execute X now now' uuid"
proof
  fix s r f s'
  assume "capped_paper_execute X now now' uuid s r = Some (Inr f, s')"
  then have cap: "r_max_price_impact_bps r \<le> 10000"
    and ex: "paper_execute X now now' uuid s r = Some (Inr f, s')"
    by (auto simp: capped_paper_execute_def split: if_split_asm)
  obtain pe where pf: "paper_fill X pe r now' uuid = Some (Inr f)" and ok: "paper_quote_ok r"
    using paper_execute_fill [OF ex] by metis
  obtain kept where k: "keep_bps X (ucast (q_price_impact_bps (r_quote r) div 3 + 5)) = Some kept"
    and out: "f_output_amount f = scale_bps (scale_bps (q_output_amount (r_quote r))
        (sat_sub 10000 (ucast (fill_haircut_bps pe)))) kept"
    and rest: "f_order_id f = r_order_id r" "f_input_amount f = q_input_amount (r_quote r)"
    "f_expected_output_amount f = Some (q_output_amount (r_quote r))" "f_input_value_usd f \<noteq> None"
    using paper_fill_fields [OF pf] by metis
  show "f_order_id f = r_order_id r" "f_input_amount f = q_input_amount (r_quote r)"
    "f_expected_output_amount f = Some (q_output_amount (r_quote r))" "f_input_value_usd f \<noteq> None"
    by (fact rest)+
  have "q_price_impact_bps (r_quote r) \<le> 10000" using ok cap by (auto simp: paper_quote_ok_def)
  then have "unat kept \<le> 10000" by (rule kept_bound [OF k])
  moreover have "unat (sat_sub 10000 (ucast (fill_haircut_bps pe)) :: u64) \<le> 10000"
    by (simp add: unat_sat_sub)
  ultimately show "f_output_amount f \<le> q_output_amount (r_quote r)"
    unfolding out by (meson order.trans scale_bps_le)
qed

interpretation replay: fill_executor "det_execute X now uuid"
  by unfold_locales (auto simp: det_execute_def panic_simps)

interpretation quotes: keyed_store "\<lambda>m :: deterministic_executor. m" "\<lambda>k q m. m(k \<mapsto> q)"
  by unfold_locales simp

section \<open>Properties\<close>

definition sample_quote :: quote where
  "sample_quote = \<lparr>q_input_mint = ''m'', q_output_mint = ''sol'', q_input_amount = 500,
     q_output_amount = 10000, q_price_impact_bps = 30, q_route = ''{}'', q_observed_at = 0\<rparr>"

definition sample_request :: execution_request where
  "sample_request = \<lparr>r_order_id = ''o'', r_quote = sample_quote, r_max_slippage_bps = 100,
     r_max_price_impact_bps = 300, r_min_output_amount = 9900, r_input_decimals = 2,
     r_output_decimals = 3, r_value_basis = OutputUnitPriceUsd 2\<rparr>"

lemma sample_paper_fill:
  "\<exists>f pe'. capped_paper_execute exact_ext 0 0 ''u'' (new_paper 25) sample_request
     = Some (Inr f, pe')"
  by (simp add: capped_paper_execute_def paper_execute_def sample_request_def sample_quote_def
      new_paper_def paper_quote_ok_def paper_fill_def scale_bps_def sat_sub_def sat_mul_def
      keep_bps_def price_fill_def units_def checked_pow10_def fee_usd_def dec_of_word_def
      secs_def nanos_def fit_def dec_max_def Let_def)

text \<open>
  A simulated fill is never better than the quote and
  never below the requested minimum. For a request whose impact cap is at most 100 percent, the
  quote was fresh and within the caps, and unless a product saturates the output is the quoted
  amount less the haircut and less the simulated slippage, each rounded down.
\<close>

theorem paper_fill_is_adverse:
  assumes "capped_paper_execute X now now' uuid pe r = Some (Inr f, pe')"
    and "unat (q_output_amount (r_quote r)) * 10000 < 2 ^ 64" and "fill_haircut_bps pe \<le> 10000"
  shows "r_min_output_amount r \<le> f_output_amount f
    \<and> f_output_amount f \<le> q_output_amount (r_quote r)
    \<and> unat (f_output_amount f) =
        unat (q_output_amount (r_quote r)) * (10000 - unat (fill_haircut_bps pe)) div 10000
        * (10000 - (unat (q_price_impact_bps (r_quote r)) div 3 + 5)) div 10000
    \<and> 0 \<le> now - q_observed_at (r_quote r) \<and> now - q_observed_at (r_quote r) \<le> secs 300
    \<and> q_price_impact_bps (r_quote r) \<le> r_max_price_impact_bps r"
proof -
  let ?q = "q_output_amount (r_quote r)" and ?i = "q_price_impact_bps (r_quote r)"
  let ?h = "sat_sub 10000 (ucast (fill_haircut_bps pe)) :: u64"
  have cap: "r_max_price_impact_bps r \<le> 10000"
    and ex: "paper_execute X now now' uuid pe r = Some (Inr f, pe')"
    using assms(1) by (auto simp: capped_paper_execute_def split: if_split_asm)
  obtain pe1 where pf: "paper_fill X pe1 r now' uuid = Some (Inr f)" and ok: "paper_quote_ok r"
    and fresh: "0 \<le> now - q_observed_at (r_quote r)" "now - q_observed_at (r_quote r) \<le> secs 300"
    and h: "fill_haircut_bps pe1 = fill_haircut_bps pe"
    by (rule paper_execute_fill [OF ex]) (rule that)
  obtain kept where k: "keep_bps X (ucast (?i div 3 + 5)) = Some kept"
    and out: "f_output_amount f = scale_bps (scale_bps ?q ?h) kept"
    and lo: "r_min_output_amount r \<le> f_output_amount f"
    using paper_fill_fields [OF pf] h by metis
  have i: "?i \<le> r_max_price_impact_bps r" using ok by (auto simp: paper_quote_ok_def)
  then have i': "?i \<le> 10000" using cap by simp
  have hh: "unat ?h = 10000 - unat (fill_haircut_bps pe)"
    using assms(3) by (simp add: unat_sat_sub unsigned_ucast_eq take_bit_nat_eq_self
        word_le_nat_alt)
  have s: "unat (?i div 3 + 5) = unat ?i div 3 + 5"
    using i' by (subst unat_add_below) (auto simp: unat_div word_le_nat_alt)
  then have s64: "unat (ucast (?i div 3 + 5) :: u64) = unat ?i div 3 + 5"
    using i' by (simp add: unsigned_ucast_eq take_bit_nat_eq_self word_le_nat_alt)
  have kk: "unat kept = 10000 - (unat ?i div 3 + 5)"
    using k s64 i' by (auto simp: keep_bps_def unat_sub word_le_nat_alt split: if_split_asm)
  have b1: "unat ?q * unat ?h < 2 ^ 64"
    using mult_le_mono2 [of "unat ?h" 10000 "unat ?q"] assms(2) hh by linarith
  have o1: "unat (scale_bps ?q ?h) = unat ?q * unat ?h div 10000" by (rule unat_scale_bps [OF b1])
  have le1: "scale_bps ?q ?h \<le> ?q" by (rule scale_bps_le) (simp add: hh)
  then have "unat (scale_bps ?q ?h) * unat kept \<le> unat ?q * 10000"
    using kk by (intro mult_le_mono) (simp_all add: word_le_nat_alt)
  then have b2: "unat (scale_bps ?q ?h) * unat kept < 2 ^ 64" using assms(2) by linarith
  have o2: "unat (f_output_amount f) = unat (scale_bps ?q ?h) * unat kept div 10000"
    unfolding out by (rule unat_scale_bps [OF b2])
  have "f_output_amount f \<le> ?q"
    unfolding out by (rule order.trans [OF scale_bps_le le1]) (simp add: kk)
  with lo fresh i show ?thesis unfolding o2 o1 hh kk by simp
qed

theorem paper_fill_is_adverse_witness:
  "\<exists>f pe'. capped_paper_execute exact_ext 0 0 ''u'' (new_paper 25) sample_request
     = Some (Inr f, pe') \<and> unat (f_output_amount f) = 9960"
proof -
  obtain f pe' where f: "capped_paper_execute exact_ext 0 0 ''u'' (new_paper 25) sample_request
     = Some (Inr f, pe')" using sample_paper_fill by blast
  have "unat (f_output_amount f) = 9960"
    using paper_fill_is_adverse [OF f]
    by (simp add: sample_request_def sample_quote_def new_paper_def)
  with f show ?thesis by blast
qed

text \<open>
  Executor and accounting fit together. A paper fill of
  an exit for the whole remaining quantity, finalised as the runtime does, passes every check of
  the exit accounting, and when it is applied the position is closed with nothing left.
\<close>

theorem paper_full_exit_closes:
  assumes "capped_paper_execute X now now' uuid pe r = Some (Inr f, pe')"
    and "finalize_fill X f sol = Some f'" and "map_of pf mint = Some p"
    and "p_remaining_quantity_atomic p = Some (q_input_amount (r_quote r))"
    and "p_entry_cost_usd p \<noteq> None" and "p_quantity p \<noteq> 0"
    and "apply_exit X pf mint f' reason t = Some res"
  shows "\<exists>out pf' p'. res = Inr (out, pf') \<and> closed out \<and> map_of pf' mint = Some p'
    \<and> p_state p' = PosClosed \<and> p_remaining_quantity_atomic p' = Some 0"
proof -
  have ready: "exit_ready p f'"
    by (rule paper.exit_fill_ready [OF assms(1,2,4,5,6)])
  then obtain out pf' where res: "res = Inr (out, pf')"
    using assms(3,7)
    by (auto simp: exit_ready_def apply_exit_def checked_sub_def map_option_Some_iff)
  then have run: "apply_exit X pf mint f' reason t = Some (Inr (out, pf'))" using assms(7) by simp
  show ?thesis
    using paper.full_exit_closes [OF assms(1,2,3,4) run] res by blast
qed

theorem paper_full_exit_closes_witness:
  "\<exists>f f' pe' out pf'. capped_paper_execute exact_ext 0 0 ''u'' (new_paper 25) sample_request
       = Some (Inr f, pe')
     \<and> finalize_fill exact_ext f None = Some f'
     \<and> apply_exit exact_ext [(''m'', sample_position)] ''m'' f' ''time_limit'' 1
       = Some (Inr (out, pf')) \<and> closed out"
proof -
  obtain f pe' where f: "capped_paper_execute exact_ext 0 0 ''u'' (new_paper 25) sample_request
     = Some (Inr f, pe')" using sample_paper_fill by blast
  have "\<exists>f' res. finalize_fill exact_ext f None = Some f'
      \<and> apply_exit exact_ext [(''m'', sample_position)] ''m'' f' ''time_limit'' 1 = Some res"
    using f
    by (auto simp: capped_paper_execute_def paper_execute_def sample_request_def sample_quote_def
        new_paper_def paper_quote_ok_def paper_fill_def scale_bps_def sat_sub_def sat_mul_def
        keep_bps_def price_fill_def units_def checked_pow10_def fee_usd_def dec_of_word_def
        secs_def nanos_def fit_def dec_max_def Let_def finalize_fill_def apply_exit_def
        checked_sub_def sample_position_def exit_update_def)
  then obtain f' res where f': "finalize_fill exact_ext f None = Some f'"
    and res: "apply_exit exact_ext [(''m'', sample_position)] ''m'' f' ''time_limit'' 1 = Some res"
    by blast
  have p: "map_of [(''m'', sample_position)] ''m'' = Some sample_position"
    "p_remaining_quantity_atomic sample_position = Some (q_input_amount (r_quote sample_request))"
    "p_entry_cost_usd sample_position \<noteq> None" "p_quantity sample_position \<noteq> 0"
    by (simp_all add: sample_position_def sample_request_def sample_quote_def)
  from paper_full_exit_closes [OF f f' p res] f f' res show ?thesis by blast
qed

text \<open>
  The rate limiter of the Jupiter client. However many 429
  answers came before and whatever \<open>Retry-After\<close> says, the wait is at most 120 seconds; without
  that header the n-th consecutive answer waits \<open>2^min(n,6)\<close> seconds; and the remaining wait is
  reported until it is over.
\<close>

theorem backoff_bounded:
  "let (wait, rl') = record_rate_limit now retry_after rl in
     unat wait \<le> 120
     \<and> (retry_after = None \<longrightarrow> unat wait = 2 ^ min (unat (consecutive_429s rl')) 6)
     \<and> rate_limit_remaining now rl' = Some (unat wait)
     \<and> rate_limit_remaining (now + unat wait + 1) rl' = None
     \<and> rate_limit_remaining now (clear_rate_limit rl') = None"
proof -
  let ?n = "sat_add (consecutive_429s rl) 1"
  have six: "unat (min ?n 6) = min (unat ?n) 6" by (simp add: min_def word_le_nat_alt)
  have p: "unat (pow2_sat k) = 2 ^ k" if "k \<le> 6" for k
  proof -
    have "k \<in> {0,1,2,3,4,5,6}" using that by auto
    then show ?thesis by (auto simp: pow2_sat_def)
  qed
  have le: "(2::nat) ^ min (unat ?n) 6 \<le> 2 ^ 6" by (rule power_increasing) simp_all
  have w: "unat (min (pow2_sat (unat (min ?n 6))) 120) = 2 ^ min (unat ?n) 6"
    using le p [of "min (unat ?n) 6"] unfolding six
    by (simp add: min_def word_le_nat_alt split: if_splits)
  have c: "unat (min x 120) \<le> 120" for x :: u64
    by (simp add: min_def word_le_nat_alt)
  show ?thesis
    using w c by (auto simp: record_rate_limit_def rate_limit_remaining_def clear_rate_limit_def
        Let_def split: option.split)
qed

end
