(* ===== verification/Store.thy ===== *)
theory Store
  imports Portfolio
begin

text \<open>
  \<open>src/storage/state.rs\<close>: the persistent store. The tables of the SQLite database are lists of
  rows in insertion order, and each SQL statement of the source is a function on them. A
  serialised payload is represented by the value it serialises; a value of the wrong shape under
  a key is the serde error of reading it. I/O errors of SQLite are choices of the environment
  and appear where the callers handle them.
\<close>

section \<open>Tables\<close>

datatype storage_error = Sql string | Json | InvalidOrder string

datatype kv_value =
    VWallet wallet_stats
  | VPosition position
  | VText string
  | VDecimal decimal
  | VCount u32
  | VEmergency "string option" datetime
  | VLiquidity decimal datetime
  | VInvalidated bool datetime

record order_row =
  row_id :: string
  row_key :: string
  row_state :: string
  row_payload :: order_record
  row_updated_at :: datetime

record observation_row =
  obs_kind :: string
  obs_observed_at :: datetime
  obs_received_at :: datetime
  obs_payload :: string

record store =
  kv :: "(string \<times> kv_value) list"
  order_rows :: "order_row list"
  fill_rows :: "(string \<times> fill) list"
  observations :: "observation_row list"

definition empty_store :: store where
  "empty_store = \<lparr>kv = [], order_rows = [], fill_rows = [], observations = []\<rparr>"

section \<open>Key-value operations\<close>

definition kv_look :: "store \<Rightarrow> string \<Rightarrow> kv_value option" where
  "kv_look st k = map_of (kv st) k"

definition kv_put :: "string \<Rightarrow> kv_value \<Rightarrow> store \<Rightarrow> store" where
  "kv_put k v st = st\<lparr>kv := AList.update k v (kv st)\<rparr>"

definition position_key :: "string \<Rightarrow> string" where "position_key mint = ''position:'' @ mint"

definition save_wallet :: "wallet_stats \<Rightarrow> store \<Rightarrow> store" where
  "save_wallet w st = kv_put (''wallet:'' @ w_wallet w) (VWallet w) st"

definition save_position :: "position \<Rightarrow> store \<Rightarrow> store" where
  "save_position p st = kv_put (position_key (p_mint p)) (VPosition p) st"

definition key_like :: "string \<Rightarrow> string \<Rightarrow> bool" where
  "key_like pre k \<longleftrightarrow> take (length pre) k = pre"

fun decode_positions :: "kv_value list \<Rightarrow> storage_error + position list" where
  "decode_positions [] = Inr []"
| "decode_positions (VPosition p # vs) =
     (case decode_positions vs of Inl e \<Rightarrow> Inl e | Inr ps \<Rightarrow> Inr (p # ps))"
| "decode_positions (_ # vs) = Inl Json"

text \<open>\<open>SELECT value FROM kv WHERE key LIKE 'position:%'\<close>, decoded.\<close>

definition positions :: "store \<Rightarrow> storage_error + position list" where
  "positions st = decode_positions
     (map snd (filter (\<lambda>(k, v). key_like ''position:'' k) (kv st)))"

definition emergency_key :: string where "emergency_key = ''risk:emergency_stop''"
definition kill_switch_key :: string where "kill_switch_key = ''risk:kill_switch''"

definition set_emergency_stop :: "string \<Rightarrow> datetime \<Rightarrow> store \<Rightarrow> store" where
  "set_emergency_stop reason now st = kv_put emergency_key (VEmergency (Some reason) now) st"

definition clear_emergency_stop :: "store \<Rightarrow> store" where
  "clear_emergency_stop st = st\<lparr>kv := AList.delete emergency_key (kv st)\<rparr>"

definition emergency_stop :: "store \<Rightarrow> storage_error + string option" where
  "emergency_stop st = (case kv_look st emergency_key of
      None \<Rightarrow> Inr None
    | Some (VEmergency (Some reason) _) \<Rightarrow> Inr (Some reason)
    | Some _ \<Rightarrow> Inr (Some ''unspecified''))"

definition latch_kill_switch :: "string \<Rightarrow> store \<Rightarrow> store" where
  "latch_kill_switch reason st = kv_put kill_switch_key (VText reason) st"

definition kill_switch_reason :: "store \<Rightarrow> storage_error + string option" where
  "kill_switch_reason st = (case kv_look st kill_switch_key of
      None \<Rightarrow> Inr None
    | Some (VText reason) \<Rightarrow> Inr (Some reason)
    | Some _ \<Rightarrow> Inl Json)"

definition set_last_liquidity :: "string \<Rightarrow> decimal \<Rightarrow> datetime \<Rightarrow> store \<Rightarrow> store" where
  "set_last_liquidity mint liq now st = kv_put (''liquidity:'' @ mint) (VLiquidity liq now) st"

definition last_liquidity :: "store \<Rightarrow> string \<Rightarrow> storage_error + (decimal \<times> datetime) option" where
  "last_liquidity st mint = (case kv_look st (''liquidity:'' @ mint) of
      Some (VLiquidity l t) \<Rightarrow> Inr (Some (l, t))
    | _ \<Rightarrow> Inr None)"

definition set_signal_invalidated :: "string \<Rightarrow> datetime \<Rightarrow> store \<Rightarrow> store" where
  "set_signal_invalidated sig now st = kv_put (''invalidated:'' @ sig) (VInvalidated True now) st"

definition is_signal_invalidated :: "store \<Rightarrow> string \<Rightarrow> storage_error + bool" where
  "is_signal_invalidated st sig = (case kv_look st (''invalidated:'' @ sig) of
      Some (VInvalidated b _) \<Rightarrow> Inr b
    | _ \<Rightarrow> Inr False)"

section \<open>Fills, observations and orders\<close>

definition save_fill :: "fill \<Rightarrow> store \<Rightarrow> store" where
  "save_fill f st = st\<lparr>fill_rows := AList.update (f_order_id f) f (fill_rows st)\<rparr>"

definition fill_for_order :: "store \<Rightarrow> string \<Rightarrow> fill option" where
  "fill_for_order st oid = map_of (fill_rows st) oid"

definition record_observation ::
    "string \<Rightarrow> datetime \<Rightarrow> datetime \<Rightarrow> string \<Rightarrow> store \<Rightarrow> (storage_error + unit) \<times> store" where
  "record_observation kind observed received payload st =
    (if observed > received then (Inl (Sql ''InvalidQuery''), st)
     else (Inr (), st\<lparr>observations := observations st
       @ [\<lparr>obs_kind = kind, obs_observed_at = observed, obs_received_at = received,
           obs_payload = payload\<rparr>]\<rparr>))"

definition order_problem :: "order_record \<Rightarrow> string option" where
  "order_problem ord =
    (if (o_kind ord = Entry \<or> o_kind ord = Exit)
        \<and> (o_position_id ord = None \<or> o_input_mint ord = None \<or> o_output_mint ord = None
           \<or> o_input_amount_atomic ord = None)
     then Some (''new entry and exit orders require position, route mints, and atomic ''
            @ ''input amount'')
     else if o_kind ord = Entry \<and> o_side ord \<noteq> BuySide then Some ''entry order must be buy side''
     else if o_kind ord = Exit \<and> o_side ord \<noteq> SellSide then Some ''exit order must be sell side''
     else None)"

definition row_of :: "order_record \<Rightarrow> datetime \<Rightarrow> order_row" where
  "row_of ord now = \<lparr>row_id = o_id ord, row_key = o_idempotency_key ord,
     row_state = state_debug (o_state ord), row_payload = ord, row_updated_at = now\<rparr>"

text \<open>\<open>INSERT OR IGNORE\<close>: a taken id or idempotency key leaves the table alone.\<close>

definition reserve_order ::
    "order_record \<Rightarrow> datetime \<Rightarrow> store \<Rightarrow> (storage_error + bool) \<times> store" where
  "reserve_order ord now st = (case order_problem ord of
      Some msg \<Rightarrow> (Inl (InvalidOrder msg), st)
    | None \<Rightarrow>
       if list_ex (\<lambda>r. row_id r = o_id ord \<or> row_key r = o_idempotency_key ord) (order_rows st)
       then (Inr False, st)
       else (Inr True, st\<lparr>order_rows := order_rows st @ [row_of ord now]\<rparr>))"

definition update_order :: "order_record \<Rightarrow> datetime \<Rightarrow> store \<Rightarrow> store" where
  "update_order ord now st = st\<lparr>order_rows := map (\<lambda>r.
     if row_id r = o_id ord
     then r\<lparr>row_state := state_debug (o_state ord), row_payload := ord, row_updated_at := now\<rparr>
     else r) (order_rows st)\<rparr>"

definition incomplete_row :: "order_row \<Rightarrow> bool" where
  "incomplete_row r \<longleftrightarrow> row_state r \<in> {''Pending'', ''Submitted'', ''Unknown''}"

definition incomplete_orders :: "store \<Rightarrow> order_record list" where
  "incomplete_orders st = map row_payload (filter incomplete_row (order_rows st))"

definition all_orders :: "store \<Rightarrow> order_record list" where
  "all_orders st = map row_payload (sort_key row_updated_at (order_rows st))"

text \<open>\<open>run_in_transaction\<close>: an error of the body rolls every change back.\<close>

definition run_in_transaction :: "(store \<Rightarrow> ('e + 'r \<times> store)) \<Rightarrow> store \<Rightarrow> ('e + 'r) \<times> store" where
  "run_in_transaction f st = (case f st of
      Inl e \<Rightarrow> (Inl e, st)
    | Inr (r, st') \<Rightarrow> (Inr r, st'))"

section \<open>The store as keyed stores\<close>

interpretation kvs: keyed_store kv_look kv_put
  by unfold_locales (simp add: kv_look_def kv_put_def)

interpretation fills: keyed_store "\<lambda>st. fill_for_order st" "\<lambda>k f st. st\<lparr>fill_rows := AList.update k f (fill_rows st)\<rparr>"
  by unfold_locales (simp add: fill_for_order_def)

lemma save_position_fields [simp]:
  "order_rows (save_position p st) = order_rows st"
  "fill_rows (save_position p st) = fill_rows st"
  by (simp_all add: save_position_def kv_put_def)

lemma save_fill_fields [simp]:
  "order_rows (save_fill f st) = order_rows st" "kv (save_fill f st) = kv st"
  by (simp_all add: save_fill_def)

lemma update_order_fields [simp]:
  "kv (update_order ord now st) = kv st" "fill_rows (update_order ord now st) = fill_rows st"
  by (simp_all add: update_order_def)

lemma positions_kv: "kv st = kv st' \<Longrightarrow> positions st = positions st'"
  by (simp add: positions_def)

section \<open>Well-formed stores\<close>

text \<open>
  Ids and idempotency keys are unique, every row agrees with the order it stores, and every
  value under a position key is a position stored under its own mint.
\<close>

definition rows_ok :: "order_row list \<Rightarrow> bool" where
  "rows_ok rs \<longleftrightarrow> distinct (map row_id rs) \<and> distinct (map row_key rs)
     \<and> (\<forall>r\<in>set rs. row_id r = o_id (row_payload r) \<and> row_key r = o_idempotency_key (row_payload r)
          \<and> row_state r = state_debug (o_state (row_payload r)))"

definition kv_ok :: "(string \<times> kv_value) list \<Rightarrow> bool" where
  "kv_ok m \<longleftrightarrow> distinct (map fst m)
     \<and> (\<forall>(k, v)\<in>set m. key_like ''position:'' k \<longrightarrow>
          (\<exists>p. v = VPosition p \<and> k = position_key (p_mint p)))"

definition store_ok :: "store \<Rightarrow> bool" where
  "store_ok st \<longleftrightarrow> rows_ok (order_rows st) \<and> kv_ok (kv st)"

lemma store_ok_empty: "store_ok empty_store"
  by (simp add: store_ok_def rows_ok_def kv_ok_def empty_store_def)

lemma set_alist_update: "set (AList.update k v m) \<subseteq> insert (k, v) (set m)"
  by (induction m) auto

lemma set_alist_update_distinct:
  "distinct (map fst m) \<Longrightarrow> set (AList.update k v m) = insert (k, v) {(k', v') \<in> set m. k' \<noteq> k}"
  by (induction m) (auto simp: rev_image_eqI image_iff)

lemma key_like_position [simp]: "key_like ''position:'' (position_key m)"
  by (simp add: key_like_def position_key_def)

lemma kv_put_ok:
  assumes "kv_ok (kv st)"
    and "key_like ''position:'' k \<Longrightarrow> \<exists>p. v = VPosition p \<and> k = position_key (p_mint p)"
  shows "kv_ok (kv (kv_put k v st))"
  using assms set_alist_update [of k v "kv st"]
  unfolding kv_ok_def kv_put_def by (auto simp: distinct_update)

lemma save_position_ok: "store_ok st \<Longrightarrow> store_ok (save_position p st)"
  unfolding store_ok_def save_position_def
  by (auto intro!: kv_put_ok) (simp add: kv_put_def)

lemma reserve_order_Inr:
  "reserve_order ord now st = (Inr b, st') \<longleftrightarrow>
     order_problem ord = None
     \<and> (b \<longleftrightarrow> (\<forall>r\<in>set (order_rows st). row_id r \<noteq> o_id ord \<and> row_key r \<noteq> o_idempotency_key ord))
     \<and> st' = (if b then st\<lparr>order_rows := order_rows st @ [row_of ord now]\<rparr> else st)"
  by (auto simp: reserve_order_def list_ex_iff split: option.splits)

lemma reserve_order_ok: "store_ok st \<Longrightarrow> store_ok (snd (reserve_order ord now st))"
  by (auto simp: reserve_order_def store_ok_def rows_ok_def row_of_def list_ex_iff
      split: option.splits)

lemma update_rows_ok:
  assumes "rows_ok rs"
    and "\<forall>r\<in>set rs. row_id r = o_id ord \<longrightarrow> row_key r = o_idempotency_key ord"
  shows "rows_ok (map (\<lambda>r. if row_id r = o_id ord
     then r\<lparr>row_state := state_debug (o_state ord), row_payload := ord, row_updated_at := now\<rparr>
     else r) rs)"
proof -
  have f: "map row_id (map (\<lambda>r. if row_id r = o_id ord
     then r\<lparr>row_state := state_debug (o_state ord), row_payload := ord, row_updated_at := now\<rparr>
     else r) rs) = map row_id rs"
    "map row_key (map (\<lambda>r. if row_id r = o_id ord
     then r\<lparr>row_state := state_debug (o_state ord), row_payload := ord, row_updated_at := now\<rparr>
     else r) rs) = map row_key rs"
    by auto
  show ?thesis unfolding rows_ok_def f using assms by (auto simp: rows_ok_def)
qed

lemma update_order_ok:
  assumes "store_ok st"
    and "\<forall>r\<in>set (order_rows st). row_id r = o_id ord \<longrightarrow> row_key r = o_idempotency_key ord"
  shows "store_ok (update_order ord now st)"
  using assms update_rows_ok by (simp add: store_ok_def update_order_def)

lemma state_debug_incomplete:
  "state_debug s \<in> {''Pending'', ''Submitted'', ''Unknown''} \<longleftrightarrow> \<not> is_terminal s"
  by (cases s) auto

lemma incomplete_row_iff:
  assumes "rows_ok rs" "r \<in> set rs"
  shows "incomplete_row r \<longleftrightarrow> \<not> is_terminal (o_state (row_payload r))"
proof -
  have "row_state r = state_debug (o_state (row_payload r))"
    using assms by (simp add: rows_ok_def)
  then show ?thesis unfolding incomplete_row_def by (simp only: state_debug_incomplete)
qed

lemma incomplete_orders_open:
  "store_ok st \<Longrightarrow> set (incomplete_orders st) =
     {o'. \<not> is_terminal (o_state o') \<and> (\<exists>r\<in>set (order_rows st). row_payload r = o')}"
  using incomplete_row_iff unfolding incomplete_orders_def store_ok_def by fastforce

text \<open>The positions read back are those saved, one for each mint.\<close>

lemma decode_positions_all:
  "\<forall>v\<in>set vs. \<exists>p. v = VPosition p \<Longrightarrow> \<exists>ps. decode_positions vs = Inr ps \<and> map VPosition ps = vs"
  by (induction vs) fastforce+

lemma tagged_positions:
  "map VPosition ps = map snd xs \<Longrightarrow>
   \<forall>(k, v)\<in>set xs. \<exists>p. v = VPosition p \<and> k = position_key (p_mint p) \<Longrightarrow>
   xs = map (\<lambda>p. (position_key (p_mint p), VPosition p)) ps"
  by (induction ps arbitrary: xs) (auto simp: Cons_eq_map_conv)

lemma positions_map:
  assumes "store_ok st"
  obtains ps where "positions st = Inr ps" "distinct (map p_mint ps)"
    "\<And>p. p \<in> set ps \<longleftrightarrow> kv_look st (position_key (p_mint p)) = Some (VPosition p)"
proof -
  let ?sel = "filter (\<lambda>(k, v). key_like ''position:'' k) (kv st)"
  have ok: "kv_ok (kv st)" using assms by (simp add: store_ok_def)
  have each: "\<forall>(k, v)\<in>set ?sel. \<exists>p. v = VPosition p \<and> k = position_key (p_mint p)"
    using ok by (auto simp: kv_ok_def)
  then obtain ps where ps: "positions st = Inr ps" "map VPosition ps = map snd ?sel"
    unfolding positions_def using decode_positions_all [of "map snd ?sel"] by fastforce
  have sel: "?sel = map (\<lambda>p. (position_key (p_mint p), VPosition p)) ps"
    using ps(2) each by (rule tagged_positions)
  have "distinct (map fst ?sel)"
    using ok by (auto simp: kv_ok_def distinct_map_filter)
  then have "distinct (map (\<lambda>p. position_key (p_mint p)) ps)" unfolding sel by (simp add: comp_def)
  then have dist: "distinct (map p_mint ps)"
    by (auto simp: distinct_map inj_on_def)
  have "p \<in> set ps \<longleftrightarrow> kv_look st (position_key (p_mint p)) = Some (VPosition p)" for p
  proof -
    have "p \<in> set ps \<longleftrightarrow> (position_key (p_mint p), VPosition p) \<in> set ?sel"
      unfolding sel by auto
    also have "\<dots> \<longleftrightarrow> (position_key (p_mint p), VPosition p) \<in> set (kv st)" by simp
    also have "\<dots> \<longleftrightarrow> kv_look st (position_key (p_mint p)) = Some (VPosition p)"
      using ok by (simp add: kv_look_def kv_ok_def)
    finally show ?thesis .
  qed
  with ps(1) dist show ?thesis using that by blast
qed

section \<open>Reachable stores\<close>

text \<open>
  The operations the bot performs on its store, as a step relation. An order is only updated with a
  record that keeps the id and idempotency key it was reserved with, which is what the callers do:
  they change the state, signature and error of a record they read or reserved. The last rule is
  \<open>StateStore::put\<close> as the session and the start of the bot call it, for \<open>runtime:day\<close>,
  \<open>runtime:day_start_equity\<close>, \<open>runtime:trades_today\<close> and \<open>runtime:signer\<close>: any value under a key
  that is not a position's.
\<close>

inductive store_step :: "store \<Rightarrow> store \<Rightarrow> bool" where
  reserve: "reserve_order ord now st = (res, st') \<Longrightarrow> store_step st st'"
| update: "\<forall>r\<in>set (order_rows st). row_id r = o_id ord \<longrightarrow> row_key r = o_idempotency_key ord \<Longrightarrow>
     store_step st (update_order ord now st)"
| position: "store_step st (save_position p st)"
| fill: "store_step st (save_fill f st)"
| wallet: "store_step st (save_wallet w st)"
| emergency: "store_step st (set_emergency_stop reason now st)"
| clear: "store_step st (clear_emergency_stop st)"
| latch: "store_step st (latch_kill_switch reason st)"
| liquidity: "store_step st (set_last_liquidity mint liq now st)"
| invalidate: "store_step st (set_signal_invalidated sig now st)"
| observation: "record_observation kind seen received payload st = (res, st') \<Longrightarrow> store_step st st'"
| setting: "\<not> key_like ''position:'' k \<Longrightarrow> store_step st (kv_put k v st)"

inductive store_reach :: "store \<Rightarrow> bool" where
  empty: "store_reach empty_store"
| step: "store_reach st \<Longrightarrow> store_step st st' \<Longrightarrow> store_reach st'"

lemma kv_step_ok:
  assumes "store_ok st" and "\<not> key_like ''position:'' k"
  shows "store_ok (kv_put k v st)"
  using assms kv_put_ok [of st k v] by (auto simp: store_ok_def kv_put_def)

lemma clear_emergency_ok: "store_ok st \<Longrightarrow> store_ok (clear_emergency_stop st)"
  by (auto simp: store_ok_def clear_emergency_stop_def kv_ok_def AList.delete_eq
      distinct_map_filter)

lemma store_step_ok: "store_step st st' \<Longrightarrow> store_ok st \<Longrightarrow> store_ok st'"
proof (induction rule: store_step.induct)
  case (reserve ord now st res st')
  then show ?case using reserve_order_ok by (metis snd_conv)
next
  case (observation kind seen received payload st res st')
  then show ?case by (auto simp: record_observation_def store_ok_def split: if_split_asm)
next
  case (fill st f)
  then show ?case by (simp add: store_ok_def)
qed (simp_all add: update_order_ok save_position_ok clear_emergency_ok kv_step_ok save_wallet_def
      set_emergency_stop_def latch_kill_switch_def set_last_liquidity_def
      set_signal_invalidated_def key_like_def emergency_key_def kill_switch_key_def)

lemma store_reach_ok: "store_reach st \<Longrightarrow> store_ok st"
  by (induction rule: store_reach.induct) (auto simp: store_ok_empty intro: store_step_ok)

lemma update_order_keys [simp]:
  "row_key ` set (order_rows (update_order ord now st)) = row_key ` set (order_rows st)"
  unfolding set_map [symmetric] by (rule arg_cong [of _ _ set]) (simp add: update_order_def)

lemma store_step_keys:
  "store_step st st' \<Longrightarrow> row_key ` set (order_rows st) \<subseteq> row_key ` set (order_rows st')"
proof (induction rule: store_step.induct)
  case (reserve ord now st res st')
  then show ?case by (auto simp: reserve_order_def split: option.splits if_split_asm)
next
  case (observation kind seen received payload st res st')
  then show ?case by (auto simp: record_observation_def split: if_split_asm)
qed (simp_all add: save_wallet_def set_emergency_stop_def clear_emergency_stop_def
      latch_kill_switch_def set_last_liquidity_def set_signal_invalidated_def kv_put_def)

inductive store_steps :: "store \<Rightarrow> store \<Rightarrow> bool" where
  none: "store_steps st st"
| more: "store_steps st st' \<Longrightarrow> store_step st' st'' \<Longrightarrow> store_steps st st''"

lemma store_steps_trans:
  "store_steps st' st'' \<Longrightarrow> store_steps st st' \<Longrightarrow> store_steps st st''"
  by (induction rule: store_steps.induct) (auto intro: store_steps.more)

lemma store_steps_one: "store_step st st' \<Longrightarrow> store_steps st st'"
  by (rule store_steps.more [OF store_steps.none])

lemma store_reach_steps: "store_steps st st' \<Longrightarrow> store_reach st \<Longrightarrow> store_reach st'"
  by (induction rule: store_steps.induct) (auto intro: store_reach.step)

lemma store_steps_keys:
  "store_steps st st' \<Longrightarrow> row_key ` set (order_rows st) \<subseteq> row_key ` set (order_rows st')"
  by (induction rule: store_steps.induct) (use store_step_keys in blast)+

section \<open>Properties\<close>

text \<open>
  C17: an idempotency key is spent once. Once a reservation
  has succeeded, a second order with the same key is refused, and leaves the store as it is, no
  matter what the bot has done with the store in between: one intent, one order.
\<close>

theorem reservation_is_idempotent:
  assumes "reserve_order ord now st = (Inr True, st1)" and "store_steps st1 st2"
    and "order_problem ord' = None" and "o_idempotency_key ord' = o_idempotency_key ord"
  shows "reserve_order ord' now' st2 = (Inr False, st2)"
proof -
  have "o_idempotency_key ord \<in> row_key ` set (order_rows st1)"
    using assms(1) by (auto simp: reserve_order_Inr row_of_def)
  then have "o_idempotency_key ord \<in> row_key ` set (order_rows st2)"
    using store_steps_keys [OF assms(2)] by blast
  then show ?thesis
    using assms(3,4) by (auto simp: reserve_order_def list_ex_iff)
qed

theorem reservation_is_idempotent_witness:
  "\<exists>st1. reserve_order (sample_order Pending) 0 empty_store = (Inr True, st1)
     \<and> reserve_order (sample_order Pending\<lparr>o_id := ''other''\<rparr>) 5
         (update_order (sample_order Failed) 1 st1)
       = (Inr False, update_order (sample_order Failed) 1 st1)"
proof -
  obtain st1 where r: "reserve_order (sample_order Pending) 0 empty_store = (Inr True, st1)"
    by (simp add: reserve_order_def order_problem_def sample_order_def empty_store_def)
  then have "\<forall>r\<in>set (order_rows st1). row_id r = o_id (sample_order Failed) \<longrightarrow>
      row_key r = o_idempotency_key (sample_order Failed)"
    by (auto simp: reserve_order_Inr empty_store_def row_of_def sample_order_def)
  then have "store_steps st1 (update_order (sample_order Failed) 1 st1)"
    by (intro store_steps.more [OF store_steps.none] store_step.update)
  then show ?thesis
    using r reservation_is_idempotent [OF r, of "update_order (sample_order Failed) 1 st1"
        "sample_order Pending\<lparr>o_id := ''other''\<rparr>" 5]
    by (auto simp: order_problem_def sample_order_def)
qed

text \<open>
  C18: what a restart reads back. In every store the bot
  can reach, the incomplete orders are exactly the stored orders that are not in a terminal state,
  ids and idempotency keys are unique, and the positions can always be decoded, with one position
  for each mint.
\<close>

theorem restart_sees_every_open_order:
  assumes "store_reach st"
  shows "set (incomplete_orders st)
      = {ord. \<not> is_terminal (o_state ord) \<and> ord \<in> row_payload ` set (order_rows st)}
    \<and> distinct (map row_id (order_rows st)) \<and> distinct (map row_key (order_rows st))
    \<and> (\<exists>ps. positions st = Inr ps \<and> distinct (map p_mint ps)
         \<and> set ps = {p. kv_look st (position_key (p_mint p)) = Some (VPosition p)})"
proof -
  have ok: "store_ok st" by (rule store_reach_ok [OF assms])
  obtain ps where "positions st = Inr ps" "distinct (map p_mint ps)"
    "\<And>p. p \<in> set ps \<longleftrightarrow> kv_look st (position_key (p_mint p)) = Some (VPosition p)"
    by (rule positions_map [OF ok]) (rule that)
  moreover have "set (incomplete_orders st)
      = {ord. \<not> is_terminal (o_state ord) \<and> ord \<in> row_payload ` set (order_rows st)}"
    using incomplete_orders_open [OF ok] by (auto simp: image_iff)
  ultimately show ?thesis using ok by (auto simp: store_ok_def rows_ok_def)
qed

theorem restart_sees_every_open_order_witness:
  "\<exists>ps. positions (save_position sample_position empty_store) = Inr ps \<and> distinct (map p_mint ps)"
  using restart_sees_every_open_order [OF store_reach.step [OF store_reach.empty
      store_step.position [of empty_store sample_position]]] by blast

end
