(* ===== verification/Backtest_Split.thy ===== *)
theory Backtest_Split
  imports Prelude
begin

text \<open>
  \<open>src/backtest/split.rs\<close>: assignment of signals to the train, validation and out-of-sample
  periods, and the check of the configured boundaries.
\<close>

section \<open>Splits\<close>

datatype split = Train | Validation | OutOfSample

record split_config =
  train_end :: "datetime option"
  validation_start :: "datetime option"
  validation_end :: "datetime option"
  oos_start :: "datetime option"

definition no_split :: split_config where
  "no_split = \<lparr>train_end = None, validation_start = None, validation_end = None, oos_start = None\<rparr>"

fun show_split :: "split \<Rightarrow> string" where
  "show_split Train = ''train''"
| "show_split Validation = ''validation''"
| "show_split OutOfSample = ''out_of_sample''"

definition validate_boundaries :: "ext \<Rightarrow> split_config \<Rightarrow> string + unit" where
  "validate_boundaries X c =
    (case (case (train_end c, validation_start c) of
        (Some te, Some vs) \<Rightarrow> if te > vs
           then Some (''train_end ('' @ time_show X te @ '') must be <= validation_start (''
                      @ time_show X vs @ '')'')
           else None
      | _ \<Rightarrow> None) of Some e \<Rightarrow> Inl e | None \<Rightarrow>
    (case (case (validation_start c, validation_end c) of
        (Some vs, Some ve) \<Rightarrow> if vs \<ge> ve
           then Some (''validation_start ('' @ time_show X vs @ '') must be < validation_end (''
                      @ time_show X ve @ '')'')
           else None
      | _ \<Rightarrow> None) of Some e \<Rightarrow> Inl e | None \<Rightarrow>
    (case (case (validation_end c, oos_start c) of
        (Some ve, Some os) \<Rightarrow> if ve > os
           then Some (''validation_end ('' @ time_show X ve @ '') must be <= oos_start (''
                      @ time_show X os @ '')'')
           else None
      | _ \<Rightarrow> None) of Some e \<Rightarrow> Inl e | None \<Rightarrow> Inr ())))"

definition classify_split_with_exclusion ::
    "ext \<Rightarrow> datetime \<Rightarrow> split_config \<Rightarrow> split \<times> string option" where
  "classify_split_with_exclusion X ts c =
    (if (case oos_start c of Some os \<Rightarrow> ts \<ge> os | None \<Rightarrow> False) then (OutOfSample, None)
     else if oos_start c = None \<and> (case validation_end c of Some ve \<Rightarrow> ts \<ge> ve | None \<Rightarrow> False)
     then (OutOfSample, None)
     else if (case (validation_start c, validation_end c) of
                (Some vs, Some ve) \<Rightarrow> ts \<ge> vs \<and> ts < ve | _ \<Rightarrow> False)
     then (Validation, None)
     else case (validation_end c, oos_start c) of
       (Some ve, Some os) \<Rightarrow>
          if ts \<ge> ve \<and> ts < os
          then (Train, Some (''signal at '' @ time_show X ts @ '' falls between validation_end (''
                 @ time_show X ve @ '') and oos_start ('' @ time_show X os @ '')''))
          else (Train, None)
     | _ \<Rightarrow> (Train, None))"

definition assign_splits :: "ext \<Rightarrow> datetime list \<Rightarrow> split_config \<Rightarrow> string + split list" where
  "assign_splits X timestamps c = (case validate_boundaries X c of
      Inl e \<Rightarrow> Inl e
    | Inr _ \<Rightarrow> Inr (map (\<lambda>ts. fst (classify_split_with_exclusion X ts c)) timestamps))"

section \<open>Facts\<close>

definition boundaries_ok :: "split_config \<Rightarrow> bool" where
  "boundaries_ok c \<longleftrightarrow>
     (\<forall>te vs. train_end c = Some te \<longrightarrow> validation_start c = Some vs \<longrightarrow> te \<le> vs)
     \<and> (\<forall>vs ve. validation_start c = Some vs \<longrightarrow> validation_end c = Some ve \<longrightarrow> vs < ve)
     \<and> (\<forall>ve os. validation_end c = Some ve \<longrightarrow> oos_start c = Some os \<longrightarrow> ve \<le> os)"

lemma validate_boundaries_Inr: "validate_boundaries X c = Inr () \<longleftrightarrow> boundaries_ok c"
  by (auto simp: validate_boundaries_def boundaries_ok_def split: option.splits if_splits)

definition full_split :: "datetime \<Rightarrow> datetime \<Rightarrow> datetime \<Rightarrow> datetime \<Rightarrow> split_config" where
  "full_split te vs ve os = \<lparr>train_end = Some te, validation_start = Some vs,
     validation_end = Some ve, oos_start = Some os\<rparr>"

lemma classify_full_split:
  assumes "vs < ve" "ve \<le> os"
  shows "classify_split_with_exclusion X ts (full_split te vs ve os) =
    (if os \<le> ts then (OutOfSample, None)
     else if ve \<le> ts then (Train, snd (classify_split_with_exclusion X ts (full_split te vs ve os)))
     else if vs \<le> ts then (Validation, None)
     else (Train, None))"
    and "snd (classify_split_with_exclusion X ts (full_split te vs ve os)) \<noteq> None
           \<longleftrightarrow> ve \<le> ts \<and> ts < os"
  using assms by (auto simp: classify_split_with_exclusion_def full_split_def)

text \<open>The period a later timestamp falls into is never an earlier one.\<close>

fun split_rank :: "split \<times> string option \<Rightarrow> nat" where
  "split_rank (Train, None) = 0"
| "split_rank (Validation, _) = 1"
| "split_rank (_, Some _) = 2"
| "split_rank (OutOfSample, None) = 3"

section \<open>Properties\<close>

text \<open>
  Chronological split. With boundaries that
  \<open>validate_boundaries\<close> accepts, a later signal is never put into an earlier period (train,
  validation, excluded gap, out of sample), so no out-of-sample record precedes a training or
  validation record.
\<close>

theorem split_chronological:
  assumes "validate_boundaries X (full_split te vs ve os) = Inr ()" and "ts \<le> ts'"
  shows "split_rank (classify_split_with_exclusion X ts (full_split te vs ve os))
       \<le> split_rank (classify_split_with_exclusion X ts' (full_split te vs ve os))"
proof -
  have "vs < ve" "ve \<le> os"
    using assms(1) by (auto simp: validate_boundaries_Inr boundaries_ok_def full_split_def)
  then show ?thesis
    using assms(2) by (auto simp: classify_split_with_exclusion_def full_split_def)
qed

theorem split_chronological_witness:
  "split_rank (classify_split_with_exclusion exact_ext 15 (full_split 10 20 30 40))
     \<le> split_rank (classify_split_with_exclusion exact_ext 35 (full_split 10 20 30 40))"
  by (rule split_chronological)
    (simp_all add: validate_boundaries_Inr boundaries_ok_def full_split_def)

text \<open>
  The classification never reads \<open>train_end\<close>. A signal
  between \<open>train_end\<close> and \<open>validation_start\<close> is silently put into the training period, although
  the configuration documents the training period as ending (exclusively) at \<open>train_end\<close>.
\<close>

theorem train_end_ignored:
  "classify_split_with_exclusion X ts (c\<lparr>train_end := te\<rparr>) = classify_split_with_exclusion X ts c
   \<and> classify_split_with_exclusion X 15 (full_split 10 20 30 40) = (Train, None)"
  by (simp add: classify_split_with_exclusion_def full_split_def)

end
