(* ===== verification/Backtest_Data.thy ===== *)
theory Backtest_Data
  imports Strategy "HOL-Library.Multiset"
begin

text \<open>
  \<open>src/backtest/data.rs\<close>: price observations, historical signals, the fail-closed validation of
  a record, the loader and the pre-filter. Parsing one JSON line is \<open>serde_json\<close> and is the
  argument \<open>parse\<close> of the loader; the loader takes the content of the file.
\<close>

section \<open>Records\<close>

record price_observation =
  po_timestamp :: datetime
  po_price_usd :: decimal
  po_liquidity_usd :: decimal
  open_usd :: "decimal option"
  high_usd :: "decimal option"
  low_usd :: "decimal option"
  close_usd :: "decimal option"
  volume :: "decimal option"

definition effective_open :: "price_observation \<Rightarrow> decimal" where
  "effective_open ob = (case open_usd ob of Some v \<Rightarrow> v | None \<Rightarrow> po_price_usd ob)"
definition effective_high :: "price_observation \<Rightarrow> decimal" where
  "effective_high ob = (case high_usd ob of Some v \<Rightarrow> v | None \<Rightarrow> po_price_usd ob)"
definition effective_low :: "price_observation \<Rightarrow> decimal" where
  "effective_low ob = (case low_usd ob of Some v \<Rightarrow> v | None \<Rightarrow> po_price_usd ob)"
definition effective_close :: "price_observation \<Rightarrow> decimal" where
  "effective_close ob = (case close_usd ob of Some v \<Rightarrow> v | None \<Rightarrow> po_price_usd ob)"

record historical_signal =
  signal_timestamp :: datetime
  hs_mint :: string
  hs_market :: market_snapshot
  hs_safety :: token_safety
  hs_wallets :: "wallet_stats list"
  hs_costs :: cost_model
  hs_position_usd :: decimal
  hs_expected_gross_return_pct :: decimal
  hs_token_decimals :: u8
  hs_base_mint_decimals :: u8
  price_history :: "price_observation list"

record load_result =
  lr_signals :: "historical_signal list"
  lr_rejected_count :: nat
  lr_rejection_reasons :: "string list"

record signal_rejection =
  rej_reason :: string
  rej_mint :: string
  rej_signal_timestamp :: string

section \<open>Validation\<close>

definition is_valid_solana_mint :: "string \<Rightarrow> bool" where
  "is_valid_solana_mint s \<longleftrightarrow> 32 \<le> length s \<and> length s \<le> 44
     \<and> (\<forall>c\<in>set s. is_ascii_alphanumeric c \<and> c \<noteq> CHR ''0'' \<and> c \<noteq> CHR ''O'' \<and> c \<noteq> CHR ''I''
          \<and> c \<noteq> CHR ''l'')"

definition is_valid_solana_pubkey :: "string \<Rightarrow> bool" where
  "is_valid_solana_pubkey s = is_valid_solana_mint s"

definition at_line :: "nat \<Rightarrow> string \<Rightarrow> string" where
  "at_line line msg = ''line '' @ show_nat line @ '': '' @ msg"

definition em_dash :: string where
  "em_dash = [CHR 0xE2, CHR 0x80, CHR 0x94]"

fun chronological :: "price_observation list \<Rightarrow> bool" where
  "chronological (a # b # rest) = (po_timestamp a \<le> po_timestamp b \<and> chronological (b # rest))"
| "chronological _ = True"

text \<open>An optional OHLC field that is present but not positive.\<close>

definition bad_field :: "decimal option \<Rightarrow> bool" where
  "bad_field v = (case v of Some x \<Rightarrow> x \<le> 0 | None \<Rightarrow> False)"

definition show_opt_dec :: "ext \<Rightarrow> decimal option \<Rightarrow> string" where
  "show_opt_dec X v = (case v of Some x \<Rightarrow> dec_show X x | None \<Rightarrow> [])"

definition observation_problem ::
    "ext \<Rightarrow> historical_signal \<Rightarrow> price_observation \<Rightarrow> string option" where
  "observation_problem X s ob =
    (let obs = ''price observation '' @ time_show X (po_timestamp ob) in
     if po_timestamp ob < signal_timestamp s
     then Some (obs @ '' precedes signal timestamp '' @ time_show X (signal_timestamp s))
     else if po_price_usd ob \<le> 0
     then Some (obs @ '' has non-positive price_usd '' @ dec_show X (po_price_usd ob))
     else if po_liquidity_usd ob < 0
     then Some (obs @ '' has negative liquidity_usd '' @ dec_show X (po_liquidity_usd ob))
     else if bad_field (open_usd ob)
     then Some (obs @ '' has non-positive open_usd '' @ show_opt_dec X (open_usd ob))
     else if bad_field (high_usd ob)
     then Some (obs @ '' has non-positive high_usd '' @ show_opt_dec X (high_usd ob))
     else if bad_field (low_usd ob)
     then Some (obs @ '' has non-positive low_usd '' @ show_opt_dec X (low_usd ob))
     else if bad_field (close_usd ob)
     then Some (obs @ '' has non-positive close_usd '' @ show_opt_dec X (close_usd ob))
     else if effective_high ob < effective_low ob
     then Some (obs @ '' has high ('' @ dec_show X (effective_high ob) @ '') < low (''
            @ dec_show X (effective_low ob) @ '')'')
     else None)"

fun first_problem :: "('a \<Rightarrow> string option) \<Rightarrow> 'a list \<Rightarrow> string option" where
  "first_problem f [] = None"
| "first_problem f (x # xs) = (case f x of Some e \<Rightarrow> Some e | None \<Rightarrow> first_problem f xs)"

definition wallet_problem ::
    "ext \<Rightarrow> historical_signal \<Rightarrow> nat \<times> wallet_stats \<Rightarrow> string option" where
  "wallet_problem X s iw = (case iw of (i, w) \<Rightarrow>
     let which = ''wallet['' @ show_nat i @ '']'' in
     if w_updated_at w > signal_timestamp s
     then Some (which @ ''.updated_at ('' @ time_show X (w_updated_at w)
            @ '') is AFTER signal_timestamp ('' @ time_show X (signal_timestamp s) @ '') ''
            @ em_dash @ '' look-ahead bias'')
     else if w_updated_at w > mk_observed_at (hs_market s)
     then Some (which @ ''.updated_at ('' @ time_show X (w_updated_at w)
            @ '') is AFTER market.observed_at ('' @ time_show X (mk_observed_at (hs_market s))
            @ '') '' @ em_dash
            @ '' wallet data was not yet available when the market was observed'')
     else if \<not> is_valid_solana_pubkey (w_wallet w)
     then Some (which @ ''.wallet ('' @ str_debug X (w_wallet w)
            @ '') is not a valid Solana pubkey'')
     else None)"

definition look_ahead :: "ext \<Rightarrow> string \<Rightarrow> datetime \<Rightarrow> datetime \<Rightarrow> string" where
  "look_ahead X name t ts = name @ '' ('' @ time_show X t @ '') is AFTER signal_timestamp (''
     @ time_show X ts @ '') '' @ em_dash @ '' look-ahead bias''"

definition decision_problem :: "ext \<Rightarrow> historical_signal \<Rightarrow> string option" where
  "decision_problem X s =
    (if hs_position_usd s \<le> 0 then Some ''position_usd must be positive''
     else if hs_expected_gross_return_pct s < 0
     then Some ''expected_gross_return_pct must be non-negative''
     else if hs_token_decimals s > 18
     then Some (''token_decimals ('' @ show_word (hs_token_decimals s)
            @ '') implausibly large (max 18)'')
     else if hs_base_mint_decimals s > 18
     then Some (''base_mint_decimals ('' @ show_word (hs_base_mint_decimals s)
            @ '') implausibly large (max 18)'')
     else if mk_observed_at (hs_market s) > signal_timestamp s
     then Some (look_ahead X ''market.observed_at'' (mk_observed_at (hs_market s))
            (signal_timestamp s))
     else if mk_price_usd (hs_market s) \<le> 0 then Some ''market.price_usd must be positive''
     else if mk_liquidity_usd (hs_market s) < 0
     then Some ''market.liquidity_usd must be non-negative''
     else if ts_observed_at (hs_safety s) > signal_timestamp s
     then Some (look_ahead X ''safety.observed_at'' (ts_observed_at (hs_safety s))
            (signal_timestamp s))
     else if token_age_secs (hs_safety s) < 0
     then Some ''safety.token_age_secs must be non-negative''
     else if cm_observed_at (hs_costs s) > signal_timestamp s
     then Some (look_ahead X ''costs.observed_at'' (cm_observed_at (hs_costs s))
            (signal_timestamp s))
     else if hs_wallets s = [] then Some ''no wallets in signal''
     else first_problem (wallet_problem X s) (enumerate 0 (hs_wallets s)))"

definition validate_signal :: "ext \<Rightarrow> historical_signal \<Rightarrow> nat \<Rightarrow> string + unit" where
  "validate_signal X s line =
    (if price_history s = []
     then Inl (at_line line ''price_history is empty; cannot determine trade outcome'')
     else if \<not> is_valid_solana_mint (hs_mint s)
     then Inl (at_line line (''invalid mint address '' @ str_debug X (hs_mint s)
            @ '' (expected 32-44 base58 chars)''))
     else if \<not> chronological (price_history s)
     then Inl (at_line line ''price_history is not chronologically sorted'')
     else case first_problem (observation_problem X s) (price_history s) of
       Some e \<Rightarrow> Inl (at_line line e)
     | None \<Rightarrow> (case decision_problem X s of
         Some e \<Rightarrow> Inl (at_line line e)
       | None \<Rightarrow> Inr ()))"

section \<open>Loading\<close>

type_synonym signal_key = "string \<times> datetime"

definition signal_key :: "historical_signal \<Rightarrow> signal_key" where
  "signal_key s = (hs_mint s, signal_timestamp s)"

definition reject :: "string \<Rightarrow> load_result \<Rightarrow> load_result" where
  "reject reason r = r\<lparr>lr_rejected_count := lr_rejected_count r + 1,
     lr_rejection_reasons := lr_rejection_reasons r @ [reason]\<rparr>"

text \<open>One numbered line: the result so far and the keys already seen.\<close>

definition load_line ::
    "ext \<Rightarrow> (string \<Rightarrow> string + historical_signal) \<Rightarrow> nat \<times> string
     \<Rightarrow> load_result \<times> signal_key set \<Rightarrow> load_result \<times> signal_key set" where
  "load_line X parse nl acc = (case (nl, acc) of ((n, raw), (r, seen)) \<Rightarrow>
     let line = trim raw in
     if line = [] \<or> hd line = CHR 0x23 then (r, seen)
     else case parse line of
       Inl e \<Rightarrow> (reject (''JSON parse error at line '' @ show_nat (n + 1) @ '': '' @ e) r, seen)
     | Inr s \<Rightarrow> (case validate_signal X s (n + 1) of
         Inl reason \<Rightarrow> (reject reason r, seen)
       | Inr _ \<Rightarrow>
           if signal_key s \<in> seen
           then (reject (at_line (n + 1) ''duplicate signal (same mint + signal_timestamp)'') r,
                 seen)
           else (r\<lparr>lr_signals := lr_signals r @ [s]\<rparr>, insert (signal_key s) seen)))"

definition load_historical_signals ::
    "ext \<Rightarrow> (string \<Rightarrow> string + historical_signal) \<Rightarrow> string \<Rightarrow> load_result" where
  "load_historical_signals X parse content =
    (let (r, _) = fold (load_line X parse) (enumerate 0 (str_lines content))
       (\<lparr>lr_signals = [], lr_rejected_count = 0, lr_rejection_reasons = []\<rparr>, {})
     in r\<lparr>lr_signals := sort_key signal_timestamp (lr_signals r)\<rparr>)"

definition rejection :: "ext \<Rightarrow> string \<Rightarrow> historical_signal \<Rightarrow> signal_rejection" where
  "rejection X reason s = \<lparr>rej_reason = reason, rej_mint = hs_mint s,
     rej_signal_timestamp = time_show X (signal_timestamp s)\<rparr>"

fun prefilter_signals ::
    "ext \<Rightarrow> historical_signal list \<Rightarrow> historical_signal list \<times> signal_rejection list" where
  "prefilter_signals X [] = ([], [])"
| "prefilter_signals X (s # ss) = (let (ok, bad) = prefilter_signals X ss in
     if price_history s = [] then (ok, rejection X ''empty price_history'' s # bad)
     else if mk_mint (hs_market s) \<noteq> hs_mint s
     then (ok, rejection X ''mint mismatch (market.mint != signal.mint)'' s # bad)
     else (s # ok, bad))"

section \<open>Facts\<close>

lemma first_problem_None: "first_problem f xs = None \<longleftrightarrow> (\<forall>x\<in>set xs. f x = None)"
  by (induction xs) (auto split: option.splits)

lemma chronological_sorted: "chronological obs \<longleftrightarrow> sorted (map po_timestamp obs)"
  by (induction obs rule: chronological.induct) (auto intro: order.trans)

text \<open>What a record that passes the validation satisfies.\<close>

definition observation_ok :: "historical_signal \<Rightarrow> price_observation \<Rightarrow> bool" where
  "observation_ok s ob \<longleftrightarrow> signal_timestamp s \<le> po_timestamp ob \<and> 0 < po_price_usd ob
     \<and> 0 \<le> po_liquidity_usd ob \<and> 0 < effective_low ob \<and> 0 < effective_close ob
     \<and> effective_low ob \<le> effective_high ob"

definition point_in_time :: "historical_signal \<Rightarrow> bool" where
  "point_in_time s \<longleftrightarrow> mk_observed_at (hs_market s) \<le> signal_timestamp s
     \<and> ts_observed_at (hs_safety s) \<le> signal_timestamp s
     \<and> cm_observed_at (hs_costs s) \<le> signal_timestamp s
     \<and> (\<forall>w\<in>set (hs_wallets s). w_updated_at w \<le> mk_observed_at (hs_market s))"

definition signal_ok :: "historical_signal \<Rightarrow> bool" where
  "signal_ok s \<longleftrightarrow> price_history s \<noteq> [] \<and> sorted (map po_timestamp (price_history s))
     \<and> (\<forall>ob\<in>set (price_history s). observation_ok s ob)
     \<and> 0 < hs_position_usd s \<and> 0 < mk_price_usd (hs_market s) \<and> hs_wallets s \<noteq> []
     \<and> point_in_time s"

lemma observation_problem_None: "observation_problem X s ob = None \<Longrightarrow> observation_ok s ob"
  by (auto simp: observation_problem_def observation_ok_def bad_field_def effective_low_def
      effective_close_def effective_high_def Let_def not_le not_less
      split: if_split_asm option.splits)

lemma decision_problem_None:
  assumes "decision_problem X s = None"
  shows "0 < hs_position_usd s" "0 < mk_price_usd (hs_market s)" "hs_wallets s \<noteq> []"
    "point_in_time s"
proof -
  have basic: "0 < hs_position_usd s \<and> 0 < mk_price_usd (hs_market s) \<and> hs_wallets s \<noteq> []
     \<and> mk_observed_at (hs_market s) \<le> signal_timestamp s
     \<and> ts_observed_at (hs_safety s) \<le> signal_timestamp s
     \<and> cm_observed_at (hs_costs s) \<le> signal_timestamp s"
    and w: "first_problem (wallet_problem X s) (enumerate 0 (hs_wallets s)) = None"
    using assms by (auto simp: decision_problem_def not_le not_less split: if_split_asm)
  have "w_updated_at u \<le> mk_observed_at (hs_market s)" if u: "u \<in> set (hs_wallets s)" for u
  proof -
    obtain i where "i < length (hs_wallets s)" "hs_wallets s ! i = u"
      using u by (auto simp: in_set_conv_nth)
    then have "(i, u) \<in> set (enumerate 0 (hs_wallets s))" by (auto simp: in_set_enumerate_eq)
    then have "wallet_problem X s (i, u) = None" using w by (auto simp: first_problem_None)
    then show ?thesis by (auto simp: wallet_problem_def Let_def not_less split: if_split_asm)
  qed
  then show "0 < hs_position_usd s" "0 < mk_price_usd (hs_market s)" "hs_wallets s \<noteq> []"
    "point_in_time s"
    using basic by (auto simp: point_in_time_def)
qed

lemma validate_signal_ok:
  assumes "validate_signal X s line = Inr ()"
  shows "signal_ok s"
proof -
  have h: "price_history s \<noteq> []" "chronological (price_history s)"
    "\<forall>ob\<in>set (price_history s). observation_problem X s ob = None" "decision_problem X s = None"
    using assms by (auto simp: validate_signal_def first_problem_None
        split: if_split_asm option.splits)
  show ?thesis
    unfolding signal_ok_def
    using h decision_problem_None [OF h(4)] observation_problem_None [of X s]
    by (auto simp: chronological_sorted)
qed

text \<open>The loop invariant of the loader.\<close>

definition load_inv :: "load_result \<times> signal_key set \<Rightarrow> bool" where
  "load_inv acc \<longleftrightarrow> (case acc of (r, seen) \<Rightarrow>
     seen = signal_key ` set (lr_signals r) \<and> distinct (map signal_key (lr_signals r))
     \<and> (\<forall>s\<in>set (lr_signals r). signal_ok s)
     \<and> lr_rejected_count r = length (lr_rejection_reasons r))"

lemma load_line_inv: "load_inv acc \<Longrightarrow> load_inv (load_line X parse nl acc)"
  by (auto simp: load_inv_def load_line_def reject_def Let_def validate_signal_ok
      split: prod.splits sum.splits)

lemma load_fold_inv: "load_inv acc \<Longrightarrow> load_inv (fold (load_line X parse) nls acc)"
  by (induction nls arbitrary: acc) (simp_all add: load_line_inv)

lemma load_counts:
  "lr_rejected_count (load_historical_signals X parse content)
     = length (lr_rejection_reasons (load_historical_signals X parse content))"
proof -
  have "load_inv (fold (load_line X parse) (enumerate 0 (str_lines content))
      (\<lparr>lr_signals = [], lr_rejected_count = 0, lr_rejection_reasons = []\<rparr>, {}))"
    by (rule load_fold_inv) (simp add: load_inv_def)
  then show ?thesis by (simp add: load_historical_signals_def load_inv_def split: prod.splits)
qed

text \<open>
  What a file holds, read off its lines: the records are the numbered lines that are neither blank
  nor comments, and the valid ones are those that parse and pass the validation.
\<close>

definition is_record :: "nat \<times> string \<Rightarrow> bool" where
  "is_record nl \<longleftrightarrow> trim (snd nl) \<noteq> [] \<and> hd (trim (snd nl)) \<noteq> CHR 0x23"

definition record_lines :: "string \<Rightarrow> (nat \<times> string) list" where
  "record_lines content = filter is_record (enumerate 0 (str_lines content))"

definition valid_record ::
    "ext \<Rightarrow> (string \<Rightarrow> string + historical_signal) \<Rightarrow> nat \<times> string \<Rightarrow> historical_signal option" where
  "valid_record X parse nl = (case parse (trim (snd nl)) of
      Inl _ \<Rightarrow> None
    | Inr s \<Rightarrow> (case validate_signal X s (fst nl + 1) of Inl _ \<Rightarrow> None | Inr _ \<Rightarrow> Some s))"

definition valid_records ::
    "ext \<Rightarrow> (string \<Rightarrow> string + historical_signal) \<Rightarrow> string \<Rightarrow> historical_signal list" where
  "valid_records X parse content = List.map_filter (valid_record X parse) (record_lines content)"

text \<open>One line: it is counted once if it is a record, and its key is listed if it is a valid one.\<close>

lemma load_line_record:
  assumes "load_inv (r, seen)" "load_line X parse nl (r, seen) = (r', seen')"
  shows "length (lr_rejection_reasons r') + length (lr_signals r')
      = length (lr_rejection_reasons r) + length (lr_signals r) + (if is_record nl then 1 else 0)"
    and "signal_key ` set (lr_signals r') = signal_key ` set (lr_signals r)
      \<union> (if is_record nl then signal_key ` set (List.map_filter (valid_record X parse) [nl]) else {})"
proof -
  obtain n raw where nl: "nl = (n, raw)" by (cases nl)
  have seen: "seen = signal_key ` set (lr_signals r)" using assms(1) by (simp add: load_inv_def)
  have "length (lr_rejection_reasons r') + length (lr_signals r')
      = length (lr_rejection_reasons r) + length (lr_signals r) + (if is_record nl then 1 else 0)
    \<and> signal_key ` set (lr_signals r') = signal_key ` set (lr_signals r)
      \<union> (if is_record nl then signal_key ` set (List.map_filter (valid_record X parse) [nl]) else {})"
  proof (cases "is_record nl")
    case False
    then show ?thesis using assms(2) by (auto simp: load_line_def is_record_def nl Let_def)
  next
    case True
    then have line: "load_line X parse nl (r, seen) = (case parse (trim raw) of
       Inl e \<Rightarrow> (reject (''JSON parse error at line '' @ show_nat (n + 1) @ '': '' @ e) r, seen)
     | Inr s \<Rightarrow> (case validate_signal X s (n + 1) of
         Inl reason \<Rightarrow> (reject reason r, seen)
       | Inr _ \<Rightarrow>
           if signal_key s \<in> seen
           then (reject (at_line (n + 1) ''duplicate signal (same mint + signal_timestamp)'') r,
                 seen)
           else (r\<lparr>lr_signals := lr_signals r @ [s]\<rparr>, insert (signal_key s) seen)))"
      by (auto simp: load_line_def is_record_def nl Let_def)
    show ?thesis
    proof (cases "parse (trim raw)")
      case (Inl e)
      then show ?thesis using assms(2) True unfolding line
        by (auto simp: reject_def nl valid_record_def List.map_filter_simps)
    next
      case (Inr s)
      show ?thesis
      proof (cases "validate_signal X s (n + 1)")
        case (Inl e)
        then show ?thesis using assms(2) True \<open>parse (trim raw) = Inr s\<close> unfolding line
          by (auto simp: reject_def nl valid_record_def List.map_filter_simps)
      next
        case ok: (Inr u)
        show ?thesis
        proof (cases "signal_key s \<in> seen")
          case True
          then show ?thesis using assms(2) \<open>is_record nl\<close> Inr ok seen unfolding line
            by (auto simp: reject_def nl valid_record_def List.map_filter_simps)
        next
          case False
          then show ?thesis using assms(2) \<open>is_record nl\<close> Inr ok unfolding line
            by (auto simp: nl valid_record_def List.map_filter_simps)
        qed
      qed
    qed
  qed
  then show "length (lr_rejection_reasons r') + length (lr_signals r')
      = length (lr_rejection_reasons r) + length (lr_signals r) + (if is_record nl then 1 else 0)"
    and "signal_key ` set (lr_signals r') = signal_key ` set (lr_signals r)
      \<union> (if is_record nl then signal_key ` set (List.map_filter (valid_record X parse) [nl]) else {})"
    by blast+
qed

lemma set_map_filter_Cons:
  "set (List.map_filter f (x # xs)) = set (List.map_filter f [x]) \<union> set (List.map_filter f xs)"
  by (cases "f x") (simp_all add: List.map_filter_simps)

lemma load_fold_records:
  assumes "load_inv (r, seen)" "fold (load_line X parse) nls (r, seen) = (r', seen')"
  shows "length (lr_rejection_reasons r') + length (lr_signals r')
      = length (lr_rejection_reasons r) + length (lr_signals r) + length (filter is_record nls)"
    and "signal_key ` set (lr_signals r') = signal_key ` set (lr_signals r)
      \<union> signal_key ` set (List.map_filter (valid_record X parse) (filter is_record nls))"
proof -
  have "length (lr_rejection_reasons r') + length (lr_signals r')
      = length (lr_rejection_reasons r) + length (lr_signals r) + length (filter is_record nls)
    \<and> signal_key ` set (lr_signals r') = signal_key ` set (lr_signals r)
      \<union> signal_key ` set (List.map_filter (valid_record X parse) (filter is_record nls))"
    using assms
  proof (induction nls arbitrary: r seen)
    case Nil
    then show ?case by (simp add: List.map_filter_simps)
  next
    case (Cons nl nls)
    obtain r1 seen1 where one: "load_line X parse nl (r, seen) = (r1, seen1)" by fastforce
    note step = load_line_record [OF Cons.prems(1) one]
    have "load_inv (r1, seen1)" using load_line_inv [OF Cons.prems(1)] one by metis
    moreover have "fold (load_line X parse) nls (r1, seen1) = (r', seen')"
      using Cons.prems(2) one by simp
    ultimately have ih: "length (lr_rejection_reasons r') + length (lr_signals r')
        = length (lr_rejection_reasons r1) + length (lr_signals r1) + length (filter is_record nls)"
      "signal_key ` set (lr_signals r') = signal_key ` set (lr_signals r1)
        \<union> signal_key ` set (List.map_filter (valid_record X parse) (filter is_record nls))"
      using Cons.IH by blast+
    show ?case
    proof (cases "is_record nl")
      case True
      have "signal_key ` set (List.map_filter (valid_record X parse) (filter is_record (nl # nls)))
          = signal_key ` set (List.map_filter (valid_record X parse) [nl])
            \<union> signal_key ` set (List.map_filter (valid_record X parse) (filter is_record nls))"
        using True set_map_filter_Cons [of "valid_record X parse" nl "filter is_record nls"]
        by (simp add: image_Un)
      then show ?thesis using ih step True by (simp add: Un_assoc)
    qed (use ih step in simp)
  qed
  then show "length (lr_rejection_reasons r') + length (lr_signals r')
      = length (lr_rejection_reasons r) + length (lr_signals r) + length (filter is_record nls)"
    and "signal_key ` set (lr_signals r') = signal_key ` set (lr_signals r)
      \<union> signal_key ` set (List.map_filter (valid_record X parse) (filter is_record nls))" by blast+
qed

text \<open>The whole file: every record is refused or listed, and the keys listed are those of the valid ones.\<close>

lemma load_records:
  fixes X parse content
  defines "r \<equiv> load_historical_signals X parse content"
  shows "length (lr_rejection_reasons r) + length (lr_signals r) = length (record_lines content)"
    and "mset (map signal_key (lr_signals r)) = mset_set (signal_key ` set (valid_records X parse content))"
proof -
  let ?init = "\<lparr>lr_signals = [], lr_rejected_count = 0, lr_rejection_reasons = []\<rparr> :: load_result"
  obtain r1 seen1 where run: "fold (load_line X parse) (enumerate 0 (str_lines content)) (?init, {})
      = (r1, seen1)" by fastforce
  have i0: "load_inv (?init, {})" by (simp add: load_inv_def)
  have inv: "load_inv (r1, seen1)" using load_fold_inv [OF i0] run by metis
  have r: "r = r1\<lparr>lr_signals := sort_key signal_timestamp (lr_signals r1)\<rparr>"
    by (simp add: r_def load_historical_signals_def run)
  note recs = load_fold_records [OF i0 run]
  show "length (lr_rejection_reasons r) + length (lr_signals r) = length (record_lines content)"
    using recs(1) by (simp add: r record_lines_def)
  have "distinct (map signal_key (lr_signals r1))" using inv by (simp add: load_inv_def)
  then have "mset (map signal_key (lr_signals r1)) = mset_set (signal_key ` set (lr_signals r1))"
    using mset_set_set [of "map signal_key (lr_signals r1)"] by simp
  then show "mset (map signal_key (lr_signals r)) = mset_set (signal_key ` set (valid_records X parse content))"
    using recs(2) by (simp add: r valid_records_def record_lines_def)
qed

text \<open>The key of a record as the rejections and the trades show it.\<close>

definition shown_key :: "ext \<Rightarrow> signal_key \<Rightarrow> string \<times> string" where
  "shown_key X k = (fst k, time_show X (snd k))"

definition rejection_key :: "signal_rejection \<Rightarrow> string \<times> string" where
  "rejection_key j = (rej_mint j, rej_signal_timestamp j)"

lemma rejection_key_of [simp]: "rejection_key (rejection X reason s) = shown_key X (signal_key s)"
  by (simp add: rejection_key_def rejection_def shown_key_def signal_key_def)

lemma prefilter_keys:
  "mset (map (\<lambda>s. shown_key X (signal_key s)) (fst (prefilter_signals X ss)))
     + mset (map rejection_key (snd (prefilter_signals X ss)))
   = mset (map (\<lambda>s. shown_key X (signal_key s)) ss)"
  by (induction ss) (auto simp: Let_def split: prod.splits)

lemma prefilter_accepted:
  "fst (prefilter_signals X ss) =
     filter (\<lambda>s. price_history s \<noteq> [] \<and> mk_mint (hs_market s) = hs_mint s) ss"
  by (induction ss) (auto simp: Let_def split: prod.splits)

lemma prefilter_counts:
  "length (fst (prefilter_signals X ss)) + length (snd (prefilter_signals X ss)) = length ss"
  by (induction ss) (auto simp: Let_def split: prod.splits)

section \<open>Properties\<close>

text \<open>
  C26: what the loader hands to the backtest, for every file and every
  parser. The signals are in chronological order, no two share mint and timestamp, each has a
  non-empty chronological price history of positive prices that starts no earlier than the
  signal, and all its decision data (market, safety, costs, wallets) was observed by then; every
  rejection has its reason.
\<close>

theorem load_point_in_time:
  "let r = load_historical_signals X parse content in
     sorted (map signal_timestamp (lr_signals r))
     \<and> distinct (map signal_key (lr_signals r))
     \<and> list_all signal_ok (lr_signals r)
     \<and> lr_rejected_count r = length (lr_rejection_reasons r)"
proof -
  define acc where "acc = fold (load_line X parse) (enumerate 0 (str_lines content))
    (\<lparr>lr_signals = [], lr_rejected_count = 0, lr_rejection_reasons = []\<rparr>, {})"
  have inv: "load_inv acc"
    unfolding acc_def by (rule load_fold_inv) (simp add: load_inv_def)
  have load: "load_historical_signals X parse content
      = (fst acc)\<lparr>lr_signals := sort_key signal_timestamp (lr_signals (fst acc))\<rparr>"
    by (simp add: load_historical_signals_def acc_def split: prod.split)
  have "distinct (map signal_key (sort_key signal_timestamp xs)) = distinct (map signal_key xs)"
    for xs :: "historical_signal list"
    by (simp add: distinct_map)
  then show ?thesis
    using inv unfolding load by (auto simp: load_inv_def list_all_iff split: prod.splits)
qed

text \<open>
  The pre-filter loses nothing and reads no clock: it keeps exactly the records with a price
  history and a matching mint, in order, and rejects every other one once.
\<close>

lemma prefilter_partition:
  "fst (prefilter_signals X ss)
     = filter (\<lambda>s. price_history s \<noteq> [] \<and> mk_mint (hs_market s) = hs_mint s) ss
   \<and> length (snd (prefilter_signals X ss))
     = length (filter (\<lambda>s. \<not> (price_history s \<noteq> [] \<and> mk_mint (hs_market s) = hs_mint s)) ss)"
  by (induction ss) (auto simp: Let_def split: prod.splits)

end
