(* ===== verification/Backtest_Engine.thy ===== *)
theory Backtest_Engine
  imports Backtest_Data Backtest_Split
begin

text \<open>
  \<open>src/backtest/engine.rs\<close>: the simulation of one historical signal. \<open>simulate_signal\<close> is
  composed of the economic gate and the point-in-time decision, the walk over the price history
  and the profit-and-loss of the resulting trade. Trade and signal ids come from the standard
  library's hasher, a field of \<open>ext\<close>.
\<close>

section \<open>Costs\<close>

datatype cost_mode = Modeled | CostObserved | Mixed

fun show_cost_mode :: "cost_mode \<Rightarrow> string" where
  "show_cost_mode Modeled = ''modeled''"
| "show_cost_mode CostObserved = ''observed''"
| "show_cost_mode Mixed = ''mixed''"

record trade_costs =
  swap_fee_usd :: decimal
  priority_fee_usd :: decimal
  slippage_cost_usd :: decimal
  price_impact_cost_usd :: decimal
  total_usd :: decimal
  is_observed :: bool

record cost_assumptions =
  entry_swap_fee_bps :: decimal
  entry_priority_fee_usd :: decimal
  entry_slippage_bps :: decimal
  entry_price_impact_bps :: decimal
  exit_swap_fee_bps :: decimal
  exit_priority_fee_usd :: decimal
  exit_slippage_bps :: decimal
  exit_price_impact_bps :: decimal
  ca_failed_tx_rate :: decimal
  failed_tx_cost_usd :: decimal

definition cost_mode_of :: "cost_assumptions \<Rightarrow> cost_mode" where
  "cost_mode_of a = Modeled"

definition entry_costs :: "ext \<Rightarrow> cost_assumptions \<Rightarrow> decimal \<Rightarrow> trade_costs option" where
  "entry_costs X a notional = do {
     f \<leftarrow> dec_mul X notional (entry_swap_fee_bps a);
     swap_fee \<leftarrow> dec_div X f 10000;
     s \<leftarrow> dec_mul X notional (entry_slippage_bps a);
     slippage \<leftarrow> dec_div X s 10000;
     i \<leftarrow> dec_mul X notional (entry_price_impact_bps a);
     impact \<leftarrow> dec_div X i 10000;
     t1 \<leftarrow> dec_add X swap_fee (entry_priority_fee_usd a);
     t2 \<leftarrow> dec_add X t1 slippage;
     total \<leftarrow> dec_add X t2 impact;
     Some \<lparr>swap_fee_usd = swap_fee, priority_fee_usd = entry_priority_fee_usd a,
           slippage_cost_usd = slippage, price_impact_cost_usd = impact, total_usd = total,
           is_observed = False\<rparr>
   }"

definition exit_costs :: "ext \<Rightarrow> cost_assumptions \<Rightarrow> decimal \<Rightarrow> trade_costs option" where
  "exit_costs X a proceeds = do {
     f \<leftarrow> dec_mul X proceeds (exit_swap_fee_bps a);
     swap_fee \<leftarrow> dec_div X f 10000;
     s \<leftarrow> dec_mul X proceeds (exit_slippage_bps a);
     slippage \<leftarrow> dec_div X s 10000;
     i \<leftarrow> dec_mul X proceeds (exit_price_impact_bps a);
     impact \<leftarrow> dec_div X i 10000;
     t1 \<leftarrow> dec_add X swap_fee (exit_priority_fee_usd a);
     t2 \<leftarrow> dec_add X t1 slippage;
     total \<leftarrow> dec_add X t2 impact;
     Some \<lparr>swap_fee_usd = swap_fee, priority_fee_usd = exit_priority_fee_usd a,
           slippage_cost_usd = slippage, price_impact_cost_usd = impact, total_usd = total,
           is_observed = False\<rparr>
   }"

definition expected_failed_tx_cost :: "ext \<Rightarrow> cost_assumptions \<Rightarrow> decimal option" where
  "expected_failed_tx_cost X a = do {
     r \<leftarrow> dec_mul X 2 (ca_failed_tx_rate a);
     dec_mul X r (failed_tx_cost_usd a)
   }"

definition total_round_trip_cost ::
    "ext \<Rightarrow> cost_assumptions \<Rightarrow> decimal \<Rightarrow> decimal \<Rightarrow> decimal option" where
  "total_round_trip_cost X a position_usd exit_proceeds = do {
     en \<leftarrow> entry_costs X a position_usd;
     ex \<leftarrow> exit_costs X a exit_proceeds;
     both \<leftarrow> dec_add X (total_usd en) (total_usd ex);
     failed \<leftarrow> expected_failed_tx_cost X a;
     dec_add X both failed
   }"

record backtest_cost_config =
  bc_entry_swap_fee_bps :: "decimal option"
  bc_entry_priority_fee_usd :: "decimal option"
  bc_entry_slippage_bps :: "decimal option"
  bc_entry_price_impact_bps :: "decimal option"
  bc_exit_swap_fee_bps :: "decimal option"
  bc_exit_priority_fee_usd :: "decimal option"
  bc_exit_slippage_bps :: "decimal option"
  bc_exit_price_impact_bps :: "decimal option"
  bc_failed_tx_rate :: "decimal option"
  bc_failed_tx_cost_usd :: "decimal option"

record backtest_config =
  bt_split :: split_config
  bt_costs :: backtest_cost_config
  bt_capital_usd :: decimal
  bt_is_synthetic_data :: bool

definition default_capital :: decimal where "default_capital = 100"

definition unwrap_or :: "'a option \<Rightarrow> 'a \<Rightarrow> 'a" where
  "unwrap_or v d = (case v of Some x \<Rightarrow> x | None \<Rightarrow> d)"

definition from_config :: "backtest_config \<Rightarrow> cost_assumptions" where
  "from_config bt = (let c = bt_costs bt in
    \<lparr>entry_swap_fee_bps = unwrap_or (bc_entry_swap_fee_bps c) 30,
     entry_priority_fee_usd = unwrap_or (bc_entry_priority_fee_usd c) (2 / 1000),
     entry_slippage_bps = unwrap_or (bc_entry_slippage_bps c) 50,
     entry_price_impact_bps = unwrap_or (bc_entry_price_impact_bps c) 20,
     exit_swap_fee_bps = unwrap_or (bc_exit_swap_fee_bps c) 30,
     exit_priority_fee_usd = unwrap_or (bc_exit_priority_fee_usd c) (2 / 1000),
     exit_slippage_bps = unwrap_or (bc_exit_slippage_bps c) 50,
     exit_price_impact_bps = unwrap_or (bc_exit_price_impact_bps c) 20,
     ca_failed_tx_rate = unwrap_or (bc_failed_tx_rate c) (5 / 100),
     failed_tx_cost_usd = unwrap_or (bc_failed_tx_cost_usd c) (2 / 1000)\<rparr>)"

section \<open>Trades\<close>

record simulated_trade =
  t_trade_id :: string
  t_signal_timestamp :: datetime
  t_mint :: string
  t_split :: split
  t_entry_time :: datetime
  t_entry_price_usd :: decimal
  t_position_usd :: decimal
  t_entry_quantity_tokens :: decimal
  t_entry_costs :: trade_costs
  t_exit_time :: datetime
  t_exit_price_usd :: decimal
  t_exit_reason :: exit_kind
  t_holding_minutes :: int
  t_exit_costs :: trade_costs
  t_gross_return_pct :: decimal
  t_gross_pnl_usd :: decimal
  t_total_cost_usd :: decimal
  t_net_return_pct :: decimal
  t_net_pnl_usd :: decimal
  t_mfe_pct :: decimal
  t_mae_pct :: decimal
  t_is_ambiguous :: bool
  t_ambiguous_reason :: "string option"
  t_is_censored :: bool
  t_censored_reason :: "string option"
  t_cost_mode :: cost_mode

definition deterministic_trade_id :: "ext \<Rightarrow> historical_signal \<Rightarrow> nat \<Rightarrow> string" where
  "deterministic_trade_id X s index =
     ''bt:'' @ hash_trade X (signal_timestamp s) (hs_mint s) index"

definition deterministic_trade_id_from_str :: "ext \<Rightarrow> string \<Rightarrow> datetime \<Rightarrow> string" where
  "deterministic_trade_id_from_str X mint ts = ''sig:'' @ hash_signal X mint ts"

definition detect_ambiguity ::
    "ext \<Rightarrow> price_observation \<Rightarrow> price_observation \<Rightarrow> decimal \<Rightarrow> decimal \<Rightarrow> decimal
     \<Rightarrow> string option option" where
  "detect_ambiguity X prev cur entry_price sl_pct tp_pct =
    (if entry_price \<le> 0 then Some None
     else do {
       sf \<leftarrow> dec_div X sl_pct 100;
       sk \<leftarrow> dec_sub X 1 sf;
       sl_price \<leftarrow> dec_mul X entry_price sk;
       tf \<leftarrow> dec_div X tp_pct 100;
       tk \<leftarrow> dec_add X 1 tf;
       tp_price \<leftarrow> dec_mul X entry_price tk;
       let lo = min (effective_low prev) (effective_low cur);
       let hi = max (effective_high prev) (effective_high cur);
       if lo \<le> sl_price \<and> hi \<ge> tp_price
       then Some (Some (''SL ('' @ dec_show X sl_price @ '') and TP ('' @ dec_show X tp_price
              @ '') both within observed range ['' @ dec_show X lo @ '', '' @ dec_show X hi
              @ '']''))
       else Some None
     })"

definition build_position :: "historical_signal \<Rightarrow> decimal \<Rightarrow> datetime \<Rightarrow> position" where
  "build_position s entry_price entry_time =
    \<lparr>p_mint = hs_mint s, p_position_id = Some (''bt-pos:'' @ hs_mint s),
     p_token_mint = Some (hs_mint s), p_base_mint = None, p_entry_input_amount_atomic = None,
     p_entry_output_amount_atomic = None, p_token_decimals = Some (hs_token_decimals s),
     p_base_mint_decimals = Some (hs_base_mint_decimals s), p_entry_fees_usd = None,
     p_entry_slippage_bps = None, p_entry_cost_model = Some (hs_costs s), p_quantity = 1,
     p_remaining_quantity_atomic = Some 1, p_entry_cost_usd = Some (hs_position_usd s),
     p_base_entry_price_usd = None, p_state = PosOpen, p_reconciliation_status = RsReconciled,
     p_last_reconciled_at = Some entry_time, p_exit_signature = None, p_exit_fees_usd = None,
     p_exit_time = None, p_entry_price_usd = entry_price, p_entry_time = entry_time,
     p_entry_signature = ''backtest:'' @ hs_mint s, p_high_water_price_usd = entry_price,
     p_realized_pnl_usd = 0, p_unrealized_pnl_usd = 0, p_fees_usd = 0,
     p_current_value_usd = hs_position_usd s, p_signal_id = hs_mint s, p_exit_reason = None\<rparr>"

section \<open>The point-in-time decision\<close>

definition pit_filter ::
    "ext \<Rightarrow> config \<Rightarrow> wallet_stats list \<Rightarrow> market_snapshot \<Rightarrow> token_safety \<Rightarrow> expected_value
     \<Rightarrow> datetime \<Rightarrow> string option" where
  "pit_filter X c ws m s e now =
    (if mk_observed_at m > now \<or> ts_observed_at s > now
        \<or> age_seconds X m now > max_data_age_secs (rpc c)
     then Some ''stale or future-dated market data''
     else if mk_liquidity_usd m < min_liquidity_usd (risk c)
     then Some ''insufficient liquidity''
     else if token_age_secs s < min_token_age_secs (strategy c)
        \<or> mint_authority_present s \<or> freeze_authority_present s \<or> holder_top10_pct s > 70
        \<or> sellable s \<noteq> Some True \<or> route_available s \<noteq> Some True
        \<or> creator_suspicious s = Some True \<or> abnormal_activity s = Some True
        \<or> unwrap_or (liquidity_change_pct s) 0 < - 20
     then Some ''token safety filter or incomplete safety evidence''
     else if length ws < unat (min_consensus_wallets (strategy c))
     then Some ''insufficient independent qualified wallet consensus''
     else if list_ex (\<lambda>w. w_trades w < min_wallet_samples (strategy c)
        \<or> w_score w < min_wallet_score (strategy c) \<or> w_updated_at w > now) ws
     then Some ''wallet evidence below configured confidence threshold''
     else if ev_net_return_pct e < min_expected_net_return_pct (economics c)
     then Some ''economic edge below threshold''
     else None)"

definition pit_scores ::
    "ext \<Rightarrow> wallet_stats list \<Rightarrow> market_snapshot \<Rightarrow> expected_value \<Rightarrow> signal_score option" where
  "pit_scores X ws m e = do {
     let count = dec_of_word (of_nat (length ws) :: u32);
     ss \<leftarrow> dec_sum X (map w_score ws);
     ws_score \<leftarrow> dec_div X ss count;
     rs \<leftarrow> dec_sum X (map w_recent_return_pct ws);
     recent \<leftarrow> dec_div X rs count;
     cs \<leftarrow> dec_mul X count 20;
     l1 \<leftarrow> dec_div X (mk_liquidity_usd m) 10000;
     l2 \<leftarrow> dec_mul X l1 100;
     mo \<leftarrow> dec_mul X (mk_buy_sell_imbalance m) 50;
     rk \<leftarrow> dec_sub X 100 (min (mk_volatility_pct m) 100);
     ec \<leftarrow> dec_mul X (ev_net_return_pct e) 10;
     t1 \<leftarrow> dec_add X ws_score (min cs 100);
     t2 \<leftarrow> dec_add X t1 (min l2 100);
     t3 \<leftarrow> dec_add X t2 (clamp 0 100 mo);
     t4 \<leftarrow> dec_add X t3 rk;
     t5 \<leftarrow> dec_add X t4 (min ec 100);
     final \<leftarrow> dec_div X t5 6;
     Some \<lparr>wallet_score = ws_score, wallet_sample_size = min_trades ws,
           wallet_recent_score = recent, consensus_score = min cs 100,
           liquidity_score = min l2 100, momentum_score = clamp 0 100 mo, risk_score = rk,
           economic_score = min ec 100, final_signal_score = final\<rparr>
   }"

definition evaluate_signal_pit ::
    "ext \<Rightarrow> config \<Rightarrow> string \<Rightarrow> wallet_stats list \<Rightarrow> market_snapshot \<Rightarrow> token_safety
     \<Rightarrow> expected_value \<Rightarrow> datetime \<Rightarrow> strategy_decision option" where
  "evaluate_signal_pit X c mint ws m s e now =
     (case pit_filter X c ws m s e now of
        Some reason \<Rightarrow> Some (Rejected reason)
      | None \<Rightarrow> do {
          score \<leftarrow> pit_scores X ws m e;
          if final_signal_score score < min_signal_score (strategy c)
          then Some (Rejected ''signal confidence below threshold'')
          else Some (Accepted
            \<lparr>sg_id = deterministic_trade_id_from_str X mint now, sg_mint = mint,
             sg_wallets = map w_wallet ws, sg_side = Buy, sg_score = score,
             sg_expected_gross_return_pct = ev_gross_return_pct e, sg_created_at = now,
             sg_reason = ''qualified-wallet accumulation with liquid safe market''\<rparr>)
        })"

text \<open>The economic gate and the expected value reconstructed from the cost model.\<close>

definition pit_expected ::
    "ext \<Rightarrow> historical_signal \<Rightarrow> config \<Rightarrow> (string + expected_value) option" where
  "pit_expected X s c =
    (if cm_observed_at (hs_costs s) > signal_timestamp s
     then Some (Inl
       ''insufficient economic evidence: costs.observed_at is after signal_timestamp'')
     else case gate_check X \<lparr>gate_threshold_pct = round_trip_cost_threshold_pct (economics c)\<rparr>
                 (hs_costs s) of
       None \<Rightarrow> None
     | Some (Inl e) \<Rightarrow> Some (Inl (''insufficient economic evidence: '' @ viability_text e))
     | Some (Inr (GateRejected result threshold)) \<Rightarrow>
         Some (Inl (''round-trip cost '' @ dec_show X (round_trip_cost_pct_of_position result)
           @ ''% exceeds '' @ dec_show X threshold @ ''% threshold''))
     | Some (Inr (Allowed result)) \<Rightarrow>
         (case estimate X (required_avg_win_pct result) (hs_costs s) 0 0
                 (uncertainty_haircut_pct (economics c)) of
            None \<Rightarrow> None
          | Some (Inl e) \<Rightarrow> Some (Inl (''insufficient economic evidence: '' @ viability_text e))
          | Some (Inr v) \<Rightarrow> Some (Inr v)))"

section \<open>The walk over the price history\<close>

record walk_state =
  wk_position :: position
  wk_high_water :: decimal
  wk_mfe :: decimal
  wk_mae :: decimal

record exit_hit =
  hit_price :: decimal
  hit_time :: datetime
  hit_reason :: exit_kind
  hit_ambiguous :: "string option"

definition track_excursion :: "decimal \<Rightarrow> walk_state \<Rightarrow> walk_state" where
  "track_excursion r st = st\<lparr>wk_mfe := (if r > wk_mfe st then r else wk_mfe st),
     wk_mae := (if r < wk_mae st then r else wk_mae st)\<rparr>"

definition raise_high_water :: "decimal \<Rightarrow> walk_state \<Rightarrow> walk_state" where
  "raise_high_water high st = (if high > wk_high_water st
     then st\<lparr>wk_high_water := high,
             wk_position := (wk_position st)\<lparr>p_high_water_price_usd := high\<rparr>\<rparr>
     else st)"

fun walk ::
    "ext \<Rightarrow> config \<Rightarrow> decimal \<Rightarrow> price_observation option \<Rightarrow> price_observation list \<Rightarrow> walk_state
     \<Rightarrow> (walk_state \<times> exit_hit option) option" where
  "walk X c entry prev [] st = Some (st, None)"
| "walk X c entry prev (ob # obs) st = do {
     amb \<leftarrow> (case prev of
         None \<Rightarrow> Some None
       | Some pv \<Rightarrow> detect_ambiguity X pv ob entry (stop_loss_pct (strategy c))
                     (take_profit_pct (strategy c)));
     case amb of
       Some reason \<Rightarrow> do {
         f \<leftarrow> dec_div X (stop_loss_pct (strategy c)) 100;
         k \<leftarrow> dec_sub X 1 f;
         stop \<leftarrow> dec_mul X entry k;
         Some (st, Some \<lparr>hit_price = stop, hit_time = po_timestamp ob, hit_reason = StopLoss,
                         hit_ambiguous = Some reason\<rparr>)
       }
     | None \<Rightarrow> do {
         let price = effective_close ob;
         move \<leftarrow> dec_sub X price entry;
         frac \<leftarrow> dec_div X move entry;
         r \<leftarrow> dec_mul X frac 100;
         let st = track_excursion r st;
         reason \<leftarrow> exit_reason X (wk_position st) price (Some (po_liquidity_usd ob))
           (min_liquidity_usd (risk c)) False (po_timestamp ob) (strategy c);
         case reason of
           Some k \<Rightarrow> Some (st, Some \<lparr>hit_price = price, hit_time = po_timestamp ob,
                                    hit_reason = k, hit_ambiguous = None\<rparr>)
         | None \<Rightarrow> walk X c entry (Some ob) obs (raise_high_water (effective_high ob) st)
       }
   }"

section \<open>Simulation\<close>

text \<open>Exit price, time, reason and flags of a walk; no hit means censored.\<close>

definition conclude_exit ::
    "ext \<Rightarrow> historical_signal \<Rightarrow> config \<Rightarrow> decimal \<Rightarrow> exit_hit option
     \<Rightarrow> decimal \<times> datetime \<times> exit_kind \<times> string option \<times> string option" where
  "conclude_exit X s c entry_price hit = (case hit of
      Some h \<Rightarrow> (hit_price h, hit_time h, hit_reason h, hit_ambiguous h, None)
    | None \<Rightarrow>
        (let final_time = (if price_history s = [] then signal_timestamp s
                           else po_timestamp (last (price_history s)));
             span = (if price_history s = [] then 0
                     else num_minutes X (final_time - signal_timestamp s))
         in (entry_price, final_time, Censored, None,
             Some (''insufficient_future_data: '' @ show_int span
               @ '' minutes of history after entry but max_holding is ''
               @ show_int (max_holding_minutes (strategy c))
               @ '' minutes; no exit trigger and no terminal event observed''))))"

definition start_walk :: "historical_signal \<Rightarrow> walk_state" where
  "start_walk s = \<lparr>wk_position = build_position s (mk_price_usd (hs_market s)) (signal_timestamp s),
     wk_high_water = mk_price_usd (hs_market s), wk_mfe = 0, wk_mae = 0\<rparr>"

definition pct_of_position :: "ext \<Rightarrow> decimal \<Rightarrow> decimal \<Rightarrow> decimal option" where
  "pct_of_position X pnl position_usd =
     (if position_usd > 0 then do { f \<leftarrow> dec_div X pnl position_usd; dec_mul X f 100 }
      else Some 0)"

definition simulate_accepted ::
    "ext \<Rightarrow> historical_signal \<Rightarrow> config \<Rightarrow> cost_assumptions \<Rightarrow> split \<Rightarrow> nat
     \<Rightarrow> simulated_trade option" where
  "simulate_accepted X s c a spl index = do {
     let entry_price = mk_price_usd (hs_market s);
     en \<leftarrow> entry_costs X a (hs_position_usd s);
     quantity \<leftarrow> dec_div X (hs_position_usd s) entry_price;
     let entry_time = signal_timestamp s;
     (st, hit) \<leftarrow> walk X c entry_price None (price_history s) (start_walk s);
     let (exit_price, exit_time, reason, ambiguous, censored) =
       conclude_exit X s c entry_price hit;
     proceeds \<leftarrow> dec_mul X quantity exit_price;
     ex \<leftarrow> exit_costs X a proceeds;
     failed \<leftarrow> expected_failed_tx_cost X a;
     legs \<leftarrow> dec_add X (total_usd en) (total_usd ex);
     total_cost \<leftarrow> dec_add X legs failed;
     gross_pnl \<leftarrow> dec_sub X proceeds (hs_position_usd s);
     net_pnl \<leftarrow> dec_sub X gross_pnl total_cost;
     gross_pct \<leftarrow> pct_of_position X gross_pnl (hs_position_usd s);
     net_pct \<leftarrow> pct_of_position X net_pnl (hs_position_usd s);
     Some \<lparr>t_trade_id = deterministic_trade_id X s index,
       t_signal_timestamp = signal_timestamp s, t_mint = hs_mint s, t_split = spl,
       t_entry_time = entry_time, t_entry_price_usd = entry_price,
       t_position_usd = hs_position_usd s, t_entry_quantity_tokens = quantity,
       t_entry_costs = en, t_exit_time = exit_time, t_exit_price_usd = exit_price,
       t_exit_reason = reason, t_holding_minutes = num_minutes X (exit_time - entry_time),
       t_exit_costs = ex, t_gross_return_pct = gross_pct, t_gross_pnl_usd = gross_pnl,
       t_total_cost_usd = total_cost, t_net_return_pct = net_pct, t_net_pnl_usd = net_pnl,
       t_mfe_pct = wk_mfe st, t_mae_pct = wk_mae st, t_is_ambiguous = (ambiguous \<noteq> None),
       t_ambiguous_reason = ambiguous, t_is_censored = (censored \<noteq> None),
       t_censored_reason = censored, t_cost_mode = cost_mode_of a\<rparr>
   }"

definition simulate_signal ::
    "ext \<Rightarrow> historical_signal \<Rightarrow> config \<Rightarrow> cost_assumptions \<Rightarrow> split \<Rightarrow> nat
     \<Rightarrow> (string + simulated_trade) option" where
  "simulate_signal X s c a spl index =
     try_res (pit_expected X s c) (\<lambda>expected. do {
       decision \<leftarrow> evaluate_signal_pit X c (hs_mint s) (hs_wallets s) (hs_market s)
         (hs_safety s) expected (signal_timestamp s);
       case decision of
         Rejected reason \<Rightarrow> Some (Inl reason)
       | Accepted _ \<Rightarrow>
           if mk_price_usd (hs_market s) \<le> 0 then Some (Inl ''non-positive entry price'')
           else map_option Inr (simulate_accepted X s c a spl index)
     })"

section \<open>Facts about the walk\<close>

lemma exit_reason_kind:
  assumes "exit_reason X p price liq ml inval now c = Some (Some k)"
  shows "k \<noteq> Censored"
    and "k = TimeLimit \<Longrightarrow> max_holding_minutes c \<le> num_minutes X (now - p_entry_time p)"
  using assms
  by (auto simp: exit_reason_def price_exit_def panic_simps split: option.splits if_split_asm)

lemma walk_position_simps [simp]:
  "wk_position (track_excursion r st) = wk_position st"
  "p_entry_time (wk_position (raise_high_water h st)) = p_entry_time (wk_position st)"
  "p_entry_price_usd (wk_position (raise_high_water h st)) = p_entry_price_usd (wk_position st)"
  "wk_mfe (raise_high_water h st) = wk_mfe st" "wk_mae (raise_high_water h st) = wk_mae st"
  by (simp_all add: track_excursion_def raise_high_water_def)

lemma track_excursion_bounds:
  "wk_mfe (track_excursion r st) = max r (wk_mfe st)"
  "wk_mae (track_excursion r st) = min r (wk_mae st)"
  by (auto simp: track_excursion_def max_def min_def)

text \<open>One step of the walk: it stops with a hit, or goes on with the next observation.\<close>

lemma walk_Cons_hit:
  assumes "walk X c entry prev (ob # obs) st = Some (st', res)"
  obtains (ambiguous) reason stop where
      "st' = st" "res = Some \<lparr>hit_price = stop, hit_time = po_timestamp ob,
         hit_reason = StopLoss, hit_ambiguous = Some reason\<rparr>"
      "\<exists>f k. dec_div X (stop_loss_pct (strategy c)) 100 = Some f \<and> dec_sub X 1 f = Some k
         \<and> dec_mul X entry k = Some stop"
    | (exit) r k where
      "\<exists>m f. dec_sub X (effective_close ob) entry = Some m \<and> dec_div X m entry = Some f
         \<and> dec_mul X f 100 = Some r"
      "st' = track_excursion r st"
      "exit_reason X (wk_position st) (effective_close ob) (Some (po_liquidity_usd ob))
         (min_liquidity_usd (risk c)) False (po_timestamp ob) (strategy c) = Some (Some k)"
      "res = Some \<lparr>hit_price = effective_close ob, hit_time = po_timestamp ob, hit_reason = k,
         hit_ambiguous = None\<rparr>"
    | (go_on) r where
      "\<exists>m f. dec_sub X (effective_close ob) entry = Some m \<and> dec_div X m entry = Some f
         \<and> dec_mul X f 100 = Some r"
      "walk X c entry (Some ob) obs
         (raise_high_water (effective_high ob) (track_excursion r st)) = Some (st', res)"
  using assms by (auto simp: panic_simps Let_def split: option.splits)

lemma walk_append_hit:
  "walk X c entry prev obs st = Some (st', Some h) \<Longrightarrow>
   walk X c entry prev (obs @ later) st = Some (st', Some h)"
proof (induction obs arbitrary: prev st)
  case (Cons ob obs)
  from Cons.prems show ?case
    by (auto simp: Let_def Cons.IH split: bind_split_asm option.split_asm)
qed simp

lemma walk_hit:
  assumes "walk X c entry prev obs st = Some (st', Some h)"
  shows "hit_reason h \<noteq> Censored"
    and "hit_ambiguous h \<noteq> None \<Longrightarrow> hit_reason h = StopLoss"
    and "\<exists>ob\<in>set obs. hit_time h = po_timestamp ob
           \<and> (hit_reason h = TimeLimit \<longrightarrow> max_holding_minutes (strategy c)
                \<le> num_minutes X (po_timestamp ob - p_entry_time (wk_position st)))"
proof -
  have "hit_reason h \<noteq> Censored \<and> (hit_ambiguous h \<noteq> None \<longrightarrow> hit_reason h = StopLoss)
     \<and> (\<exists>ob\<in>set obs. hit_time h = po_timestamp ob
           \<and> (hit_reason h = TimeLimit \<longrightarrow> max_holding_minutes (strategy c)
                \<le> num_minutes X (po_timestamp ob - p_entry_time (wk_position st))))"
    using assms
  proof (induction obs arbitrary: prev st)
    case (Cons ob obs)
    from Cons.prems show ?case
    proof (cases rule: walk_Cons_hit)
      case (exit r k)
      then show ?thesis using exit_reason_kind [OF exit(3)] by auto
    next
      case (go_on r)
      then show ?thesis using Cons.IH by fastforce
    qed auto
  qed simp
  then show "hit_reason h \<noteq> Censored" "hit_ambiguous h \<noteq> None \<Longrightarrow> hit_reason h = StopLoss"
    "\<exists>ob\<in>set obs. hit_time h = po_timestamp ob
       \<and> (hit_reason h = TimeLimit \<longrightarrow> max_holding_minutes (strategy c)
            \<le> num_minutes X (po_timestamp ob - p_entry_time (wk_position st)))"
    by blast+
qed

lemma walk_excursion:
  assumes "walk exact_ext c entry prev obs st = Some (st', res)"
  shows "wk_mfe st \<le> wk_mfe st'" and "wk_mae st' \<le> wk_mae st"
    and "res = Some h \<Longrightarrow> hit_ambiguous h = None \<Longrightarrow>
           wk_mae st' \<le> (hit_price h - entry) / entry * 100
           \<and> (hit_price h - entry) / entry * 100 \<le> wk_mfe st'"
proof -
  have "wk_mfe st \<le> wk_mfe st' \<and> wk_mae st' \<le> wk_mae st \<and> (\<forall>h. res = Some h \<longrightarrow>
     hit_ambiguous h = None \<longrightarrow> wk_mae st' \<le> (hit_price h - entry) / entry * 100
           \<and> (hit_price h - entry) / entry * 100 \<le> wk_mfe st')"
    using assms
  proof (induction obs arbitrary: prev st)
    case (Cons ob obs)
    from Cons.prems show ?case
    proof (cases rule: walk_Cons_hit)
      case (exit r k)
      have "r = (effective_close ob - entry) / entry * 100"
        using exit(1) by (auto split: if_split_asm dest!: fit_SomeD)
      then show ?thesis using exit by (simp add: track_excursion_bounds)
    next
      case (go_on r)
      from Cons.IH [OF go_on(2)] show ?thesis by (auto simp: track_excursion_bounds)
    qed auto
  qed simp
  then show "wk_mfe st \<le> wk_mfe st'" "wk_mae st' \<le> wk_mae st"
    "res = Some h \<Longrightarrow> hit_ambiguous h = None \<Longrightarrow>
       wk_mae st' \<le> (hit_price h - entry) / entry * 100
       \<and> (hit_price h - entry) / entry * 100 \<le> wk_mfe st'"
    by blast+
qed

lemma simulate_accepted_walk:
  assumes "simulate_accepted X s c a spl i = Some t"
  obtains st hit where
    "walk X c (mk_price_usd (hs_market s)) None (price_history s) (start_walk s) = Some (st, hit)"
    "t_is_censored t = (hit = None)"
    "t_exit_reason t = (case hit of None \<Rightarrow> Censored | Some h \<Rightarrow> hit_reason h)"
    "\<And>h. hit = Some h \<Longrightarrow> t_exit_time t = hit_time h \<and> t_is_ambiguous t = (hit_ambiguous h \<noteq> None)"
    "hit = None \<Longrightarrow> \<not> t_is_ambiguous t"
    "t_exit_price_usd t = (case hit of None \<Rightarrow> mk_price_usd (hs_market s) | Some h \<Rightarrow> hit_price h)"
    "t_mfe_pct t = wk_mfe st" "t_mae_pct t = wk_mae st"
proof -
  let ?e = "mk_price_usd (hs_market s)"
  have "walk X c ?e None (price_history s) (start_walk s) \<noteq> None"
    using assms by (auto simp: simulate_accepted_def start_walk_def panic_simps Let_def)
  then obtain st hit where
      w: "walk X c ?e None (price_history s) (start_walk s) = Some (st, hit)"
    by fastforce
  obtain xp xt k amb cen where cd: "conclude_exit X s c ?e hit = (xp, xt, k, amb, cen)"
    by (metis prod_cases5)
  have t: "t_exit_price_usd t = xp" "t_exit_time t = xt" "t_exit_reason t = k"
      "t_is_ambiguous t = (amb \<noteq> None)" "t_is_censored t = (cen \<noteq> None)"
      "t_mfe_pct t = wk_mfe st" "t_mae_pct t = wk_mae st"
    using assms w cd
    by (auto simp: simulate_accepted_def start_walk_def panic_simps Let_def)
  show ?thesis
    by (rule that [OF w]) (use t cd in \<open>auto simp: conclude_exit_def Let_def split: option.splits\<close>)
qed

lemma simulate_accepted_pnl:
  assumes "simulate_accepted exact_ext s c a spl i = Some t"
  obtains en ex where "entry_costs exact_ext a (hs_position_usd s) = Some en"
    "exit_costs exact_ext a (hs_position_usd s / mk_price_usd (hs_market s) * t_exit_price_usd t)
       = Some ex"
    "t_total_cost_usd t
       = total_usd en + total_usd ex + 2 * ca_failed_tx_rate a * failed_tx_cost_usd a"
    "t_gross_pnl_usd t
       = hs_position_usd s / mk_price_usd (hs_market s) * t_exit_price_usd t - hs_position_usd s"
    "t_net_pnl_usd t = t_gross_pnl_usd t - t_total_cost_usd t"
    "t_net_return_pct t
       = (if 0 < hs_position_usd s then t_net_pnl_usd t / hs_position_usd s * 100 else 0)"
proof -
  let ?e = "mk_price_usd (hs_market s)"
  obtain st hit where
      w: "walk exact_ext c ?e None (price_history s) (start_walk s) = Some (st, hit)"
    by (rule simulate_accepted_walk [OF assms]) (rule that)
  obtain xp xt k amb cen where cd: "conclude_exit exact_ext s c ?e hit = (xp, xt, k, amb, cen)"
    by (metis prod_cases5)
  show ?thesis
    using assms
    by (auto simp: simulate_accepted_def expected_failed_tx_cost_def pct_of_position_def w cd
        panic_simps Let_def dest!: fit_SomeD split: if_split_asm intro!: that)
qed

lemma simulate_signal_Inr:
  "simulate_signal X s c a spl i = Some (Inr t) \<longleftrightarrow>
     (\<exists>e sg. pit_expected X s c = Some (Inr e)
        \<and> evaluate_signal_pit X c (hs_mint s) (hs_wallets s) (hs_market s) (hs_safety s) e
            (signal_timestamp s) = Some (Accepted sg)
        \<and> 0 < mk_price_usd (hs_market s) \<and> simulate_accepted X s c a spl i = Some t)"
  (is "?L \<longleftrightarrow> ?R")
proof
  assume ?L
  then obtain e d where e: "pit_expected X s c = Some (Inr e)"
    and d: "evaluate_signal_pit X c (hs_mint s) (hs_wallets s) (hs_market s) (hs_safety s) e
        (signal_timestamp s) = Some d"
    by (auto simp: simulate_signal_def panic_simps)
  with \<open>?L\<close> show ?R
    by (cases d) (auto simp: simulate_signal_def map_option_Some_iff not_le split: if_split_asm)
next
  assume ?R then show ?L by (auto simp: simulate_signal_def not_le)
qed

text \<open>A signal that is accepted and leaves at its take-profit, for the concrete runs.\<close>

definition cheap_costs :: cost_model where
  "cheap_costs = \<lparr>cm_observed_at = 0, cm_input = sample_inputs\<lparr>avg_slippage_bps := 50\<rparr>,
     cm_source = ''test'', cm_is_live_snapshot = False\<rparr>"

definition tick_at :: "int \<Rightarrow> decimal \<Rightarrow> price_observation" where
  "tick_at t p = \<lparr>po_timestamp = secs t, po_price_usd = p, po_liquidity_usd = 60000,
     open_usd = None, high_usd = None, low_usd = None, close_usd = None, volume = None\<rparr>"

definition sample_history_signal :: historical_signal where
  "sample_history_signal = \<lparr>signal_timestamp = 0, hs_mint = ''m'', hs_market = sample_market,
     hs_safety = sample_safety, hs_wallets = [sample_wallet ''a'', sample_wallet ''b''],
     hs_costs = cheap_costs, hs_position_usd = 10, hs_expected_gross_return_pct = 7,
     hs_token_decimals = 6, hs_base_mint_decimals = 9,
     price_history = [tick_at 60 (202 / 100), tick_at 120 (23 / 10)]\<rparr>"

definition plain_backtest :: backtest_config where
  "plain_backtest = \<lparr>bt_split = no_split, bt_costs = \<lparr>bc_entry_swap_fee_bps = None,
     bc_entry_priority_fee_usd = None, bc_entry_slippage_bps = None,
     bc_entry_price_impact_bps = None, bc_exit_swap_fee_bps = None,
     bc_exit_priority_fee_usd = None, bc_exit_slippage_bps = None,
     bc_exit_price_impact_bps = None, bc_failed_tx_rate = None, bc_failed_tx_cost_usd = None\<rparr>,
     bt_capital_usd = default_capital, bt_is_synthetic_data = False\<rparr>"

lemma cheap_values:
  "break_even_values exact_ext (sample_inputs\<lparr>avg_slippage_bps := 50\<rparr>) =
     Some \<lparr>round_trip_cost_usd = 511 / 2500, round_trip_cost_pct_of_position = 511 / 250,
           required_win_rate_at_given_rr = 3011 / 7500, required_avg_win_pct = 4033 / 500,
           expected_failed_tx_cost_usd = 1 / 2500\<rparr>"
  by (simp add: break_even_values_def sample_inputs_def fit_def dec_max_def)

lemma cheap_calculate:
  "calculate exact_ext cheap_costs =
     Some (Inr \<lparr>round_trip_cost_usd = 511 / 2500, round_trip_cost_pct_of_position = 511 / 250,
           required_win_rate_at_given_rr = 3011 / 7500, required_avg_win_pct = 4033 / 500,
           expected_failed_tx_cost_usd = 1 / 2500\<rparr>)"
  by (simp add: calculate_Inr cheap_costs_def cheap_values)
    (simp add: valid_inputs_def sample_inputs_def)

lemma cheap_observed: "cm_observed_at cheap_costs = 0"
  by (simp add: cheap_costs_def)

lemma cheap_input: "cm_input cheap_costs = \<lparr>position_size_usd = 10,
     avg_priority_fee_usd = 2 / 1000, avg_swap_fee_bps = 30, avg_slippage_bps = 50,
     avg_price_impact_bps = 20, failed_tx_rate = 1 / 10, avg_failed_tx_cost_usd = 2 / 1000,
     assumed_win_loss_ratio = 2, assumed_avg_loss_pct = 10\<rparr>"
  by (simp add: cheap_costs_def sample_inputs_def)

definition sample_trade_run :: "(string + simulated_trade) option" where
  "sample_trade_run = simulate_signal exact_ext sample_history_signal (example_config Paper)
     (from_config plain_backtest) Train 0"

lemma sample_history_simps [simp]:
  "mk_price_usd (hs_market sample_history_signal) = 2" "hs_position_usd sample_history_signal = 10"
  "signal_timestamp sample_history_signal = 0" "hs_mint sample_history_signal = ''m''"
  by (simp_all add: sample_history_signal_def sample_market_def)

lemma sample_walk:
  "walk exact_ext (example_config Paper) 2 None (price_history sample_history_signal)
     (start_walk sample_history_signal) =
   Some (\<lparr>wk_position = (build_position sample_history_signal 2 0)
            \<lparr>p_high_water_price_usd := 202 / 100\<rparr>,
          wk_high_water = 202 / 100, wk_mfe = 15, wk_mae = 0\<rparr>,
         Some \<lparr>hit_price = 23 / 10, hit_time = secs 120, hit_reason = TakeProfit,
               hit_ambiguous = None\<rparr>)"
  by (simp add: start_walk_def sample_history_signal_def tick_at_def sample_market_def
      detect_ambiguity_def effective_low_def effective_high_def effective_close_def
      exit_reason_def price_exit_def build_position_def raise_high_water_def
      track_excursion_def fit_def dec_max_def secs_def nanos_def trunc_quot_def Let_def)

lemma sample_trade:
  obtains t where "sample_trade_run = Some (Inr t)" "t_exit_reason t = TakeProfit"
    "\<not> t_is_censored t" "\<not> t_is_ambiguous t"
proof -
  have "\<exists>e. pit_expected exact_ext sample_history_signal (example_config Paper) = Some (Inr e)
      \<and> ev_net_return_pct e = 2511 / 500"
    by (simp add: pit_expected_def gate_check_def cheap_calculate estimate_def estimate_values_def
        sample_history_signal_def cheap_observed cheap_input fit_def dec_max_def)
  then obtain e where e: "pit_expected exact_ext sample_history_signal (example_config Paper)
      = Some (Inr e)" "ev_net_return_pct e = 2511 / 500" by blast
  have a: "\<exists>sg. evaluate_signal_pit exact_ext (example_config Paper) ''m''
      [sample_wallet ''a'', sample_wallet ''b''] sample_market sample_safety e 0
      = Some (Accepted sg)"
    using e(2)
    by (simp add: evaluate_signal_pit_def pit_filter_def pit_scores_def age_seconds_def
        dec_of_word_def dec_sum_def clamp_def unwrap_or_def
        sample_wallet_def sample_market_def sample_safety_def fit_def dec_max_def
        trunc_quot_def nanos_def)
  have "\<exists>t. simulate_accepted exact_ext sample_history_signal (example_config Paper)
      (from_config plain_backtest) Train 0 = Some t \<and> t_exit_reason t = TakeProfit
      \<and> \<not> t_is_censored t \<and> \<not> t_is_ambiguous t"
    using sample_walk
    by (simp add: simulate_accepted_def entry_costs_def exit_costs_def expected_failed_tx_cost_def
        from_config_def plain_backtest_def unwrap_or_def conclude_exit_def pct_of_position_def
        fit_def dec_max_def Let_def del: walk.simps)
  with e a that show ?thesis
    unfolding sample_trade_run_def simulate_signal_Inr
    by (fastforce simp: sample_history_signal_def sample_market_def)
qed

section \<open>Properties\<close>

text \<open>
  C22: parity of the backtest with production. For any
  non-empty wallet list that fits the 32-bit count, the point-in-time decision of the backtest
  accepts, rejects (with the same text) and panics exactly as the production \<open>evaluate_signal\<close>
  at the same instant; the two differ in the id of an accepted signal only.
\<close>

theorem pit_matches_production:
  assumes "0 < wallet_count ws"
  shows "evaluate_signal_pit X c mint ws m s e now =
    map_option (\<lambda>d. case d of Rejected r \<Rightarrow> Rejected r
      | Accepted sg \<Rightarrow> Accepted (sg\<lparr>sg_id := deterministic_trade_id_from_str X mint now\<rparr>))
     (evaluate_signal X c mint ws m s e now uuid)"
proof -
  have f: "pit_filter X c ws m s e now = entry_filter X c ws m s e now"
  proof -
    have weak: "weak_wallet c now = (\<lambda>w. w_trades w < min_wallet_samples (strategy c)
        \<or> w_score w < min_wallet_score (strategy c) \<or> w_updated_at w > now)"
      by (simp add: weak_wallet_def fun_eq_iff)
    show ?thesis
      using assms unfolding pit_filter_def entry_filter_def token_unsafe_def unwrap_or_def weak
      by (simp add: not_le)
  qed
  have sc: "pit_scores X ws m e = signal_scores X ws m e"
    by (simp add: pit_scores_def signal_scores_def wallet_count_def Let_def)
  show ?thesis
    by (auto simp: evaluate_signal_pit_def evaluate_signal_def f sc Let_def
        split: option.split bind_split)
qed

theorem pit_matches_production_witness:
  "\<exists>sg. evaluate_signal_pit exact_ext (example_config Paper) ''m''
     [sample_wallet ''a'', sample_wallet ''b''] sample_market sample_safety sample_ev 0
     = Some (Accepted sg)"
proof -
  have n: "0 < wallet_count [sample_wallet ''a'', sample_wallet ''b'']"
    by (simp add: wallet_count_def dec_of_word_def)
  from sample_signal_accepted obtain sg where
    "evaluate_signal exact_ext (example_config Paper) ''m''
       [sample_wallet ''a'', sample_wallet ''b''] sample_market sample_safety sample_ev 0 ''u''
     = Some (Accepted sg)" by blast
  then show ?thesis
    by (simp add: pit_matches_production [OF n, where uuid = "''u''"])
qed

text \<open>
  C23: no look-ahead. Once a trade has left the
  market, neither price observations that come later nor the recorded forecast
  \<open>expected_gross_return_pct\<close> change anything about it.
\<close>

theorem outcome_ignores_the_future:
  assumes "simulate_signal X s c a spl i = Some (Inr t)" and "\<not> t_is_censored t"
  shows "simulate_signal X (s\<lparr>price_history := price_history s @ later,
           hs_expected_gross_return_pct := g\<rparr>) c a spl i = Some (Inr t)"
proof -
  let ?s = "s\<lparr>price_history := price_history s @ later, hs_expected_gross_return_pct := g\<rparr>"
  have b: "build_position ?s p u = build_position s p u" for p u
    by (simp add: build_position_def)
  have i: "deterministic_trade_id X ?s i = deterministic_trade_id X s i"
    by (simp add: deterministic_trade_id_def)
  have acc: "simulate_accepted X s c a spl i = Some t"
    using assms(1) by (auto simp: simulate_signal_Inr)
  have f: "hs_costs ?s = hs_costs s" "signal_timestamp ?s = signal_timestamp s" by simp_all
  have pre: "pit_expected X ?s c = pit_expected X s c"
    by (simp only: pit_expected_def f)
  obtain st h where w: "walk X c (mk_price_usd (hs_market s)) None (price_history s)
      (start_walk s) = Some (st, Some h)"
    by (rule simulate_accepted_walk [OF acc]) (use assms(2) that in auto)
  have "simulate_accepted X ?s c a spl i = simulate_accepted X s c a spl i"
    using w walk_append_hit [OF w, of later]
    by (simp add: simulate_accepted_def b i conclude_exit_def start_walk_def)
  with acc assms(1) pre show ?thesis by (simp add: simulate_signal_Inr)
qed

theorem outcome_ignores_the_future_witness:
  "\<exists>t. simulate_signal exact_ext (sample_history_signal\<lparr>price_history :=
       price_history sample_history_signal @ [tick_at 180 1], hs_expected_gross_return_pct := 99\<rparr>)
     (example_config Paper) (from_config plain_backtest) Train 0 = Some (Inr t)"
proof (rule sample_trade)
  fix t assume "sample_trade_run = Some (Inr t)" "\<not> t_is_censored t"
  then show ?thesis
    unfolding sample_trade_run_def by (blast dest: outcome_ignores_the_future)
qed

text \<open>
  An exit is never invented. A trade is censored
  exactly when its reason is \<open>Censored\<close>; any other exit happens at the time of a real
  observation, a time-limit exit only when that observation lies at or after the maximum holding
  time, and an ambiguous interval is always booked as the stop-loss.
\<close>

theorem exits_are_observed:
  assumes "simulate_signal X s c a spl i = Some (Inr t)"
  shows "t_is_censored t = (t_exit_reason t = Censored)
    \<and> (t_exit_reason t \<noteq> Censored \<longrightarrow> t_exit_time t \<in> po_timestamp ` set (price_history s))
    \<and> (t_exit_reason t = TimeLimit \<longrightarrow>
       max_holding_minutes (strategy c) \<le> num_minutes X (t_exit_time t - signal_timestamp s))
    \<and> (t_is_ambiguous t \<longrightarrow> t_exit_reason t = StopLoss)"
proof (intro conjI)
  let ?e = "mk_price_usd (hs_market s)"
  have acc: "simulate_accepted X s c a spl i = Some t"
    using assms by (auto simp: simulate_signal_Inr)
  obtain st hit where w: "walk X c ?e None (price_history s) (start_walk s) = Some (st, hit)"
    and t: "t_is_censored t = (hit = None)"
      "t_exit_reason t = (case hit of None \<Rightarrow> Censored | Some h \<Rightarrow> hit_reason h)"
      "\<And>h. hit = Some h \<Longrightarrow> t_exit_time t = hit_time h \<and> t_is_ambiguous t = (hit_ambiguous h \<noteq> None)"
      "hit = None \<Longrightarrow> \<not> t_is_ambiguous t"
    by (rule simulate_accepted_walk [OF acc]) (rule that)
  have entry: "p_entry_time (wk_position (start_walk s)) = signal_timestamp s"
    by (simp add: start_walk_def build_position_def)
  show "t_is_censored t = (t_exit_reason t = Censored)"
    using w t walk_hit(1) by (cases hit) auto
  show "t_exit_reason t \<noteq> Censored \<longrightarrow> t_exit_time t \<in> po_timestamp ` set (price_history s)"
    using w t walk_hit(3) by (cases hit) fastforce+
  show "t_exit_reason t = TimeLimit \<longrightarrow>
      max_holding_minutes (strategy c) \<le> num_minutes X (t_exit_time t - signal_timestamp s)"
    using w t walk_hit(3) entry by (cases hit) fastforce+
  show "t_is_ambiguous t \<longrightarrow> t_exit_reason t = StopLoss"
    using w t walk_hit(2) by (cases hit) auto
qed

theorem exits_are_observed_witness:
  "\<exists>t. sample_trade_run = Some (Inr t) \<and> \<not> t_is_censored t
     \<and> t_exit_time t \<in> po_timestamp ` set (price_history sample_history_signal)"
proof (rule sample_trade)
  fix t assume t: "sample_trade_run = Some (Inr t)" "\<not> t_is_censored t"
  from t(1) have "simulate_signal exact_ext sample_history_signal (example_config Paper)
      (from_config plain_backtest) Train 0 = Some (Inr t)"
    by (simp add: sample_trade_run_def)
  note this = exits_are_observed [OF this]
  with t show ?thesis by blast
qed

text \<open>
  The profit and loss of a trade, with exact arithmetic.
  Gross is quantity times exit price minus the notional, costs are the entry leg on the notional,
  the exit leg on the proceeds and twice the expected failed-transaction cost, each counted once,
  net is gross minus costs, and a censored trade has no market profit or loss.
\<close>

definition leg_cost ::
    "decimal \<Rightarrow> decimal \<Rightarrow> decimal \<Rightarrow> decimal \<Rightarrow> decimal \<Rightarrow> decimal" where
  "leg_cost amount swap prio slip impact =
     amount * (swap + slip + impact) / 10000 + prio"

theorem trade_pnl_exact:
  assumes "simulate_signal exact_ext s c a spl i = Some (Inr t)"
  shows "let entry = mk_price_usd (hs_market s); pos = hs_position_usd s;
             proceeds = pos / entry * t_exit_price_usd t;
             costs = leg_cost pos (entry_swap_fee_bps a) (entry_priority_fee_usd a)
                 (entry_slippage_bps a) (entry_price_impact_bps a)
               + leg_cost proceeds (exit_swap_fee_bps a) (exit_priority_fee_usd a)
                 (exit_slippage_bps a) (exit_price_impact_bps a)
               + 2 * ca_failed_tx_rate a * failed_tx_cost_usd a
         in t_gross_pnl_usd t = proceeds - pos \<and> t_total_cost_usd t = costs
            \<and> t_net_pnl_usd t = proceeds - pos - costs
            \<and> t_net_return_pct t = (if 0 < pos then (proceeds - pos - costs) / pos * 100 else 0)
            \<and> (t_is_censored t \<longrightarrow> t_gross_pnl_usd t = 0)"
proof -
  let ?e = "mk_price_usd (hs_market s)" and ?p = "hs_position_usd s"
  have acc: "simulate_accepted exact_ext s c a spl i = Some t" and e: "0 < ?e"
    using assms by (auto simp: simulate_signal_Inr)
  obtain hit :: "exit_hit option" where hit: "t_is_censored t = (hit = None)"
    "t_exit_price_usd t = (case hit of None \<Rightarrow> ?e | Some h \<Rightarrow> hit_price h)"
    by (rule simulate_accepted_walk [OF acc]) (rule that)
  obtain en ex where en: "entry_costs exact_ext a ?p = Some en"
    and ex: "exit_costs exact_ext a (?p / ?e * t_exit_price_usd t) = Some ex"
    and t: "t_total_cost_usd t
        = total_usd en + total_usd ex + 2 * ca_failed_tx_rate a * failed_tx_cost_usd a"
      "t_gross_pnl_usd t = ?p / ?e * t_exit_price_usd t - ?p"
      "t_net_pnl_usd t = t_gross_pnl_usd t - t_total_cost_usd t"
      "t_net_return_pct t = (if 0 < ?p then t_net_pnl_usd t / ?p * 100 else 0)"
    by (rule simulate_accepted_pnl [OF acc]) (rule that)
  have legs: "total_usd en = leg_cost ?p (entry_swap_fee_bps a) (entry_priority_fee_usd a)
        (entry_slippage_bps a) (entry_price_impact_bps a)"
    "total_usd ex = leg_cost (?p / ?e * t_exit_price_usd t) (exit_swap_fee_bps a)
        (exit_priority_fee_usd a) (exit_slippage_bps a) (exit_price_impact_bps a)"
    using en ex
    by (auto simp: entry_costs_def exit_costs_def leg_cost_def panic_simps ring_distribs
        add_divide_distrib dest!: fit_SomeD)
  show ?thesis
    using t legs hit e by (auto simp: Let_def)
qed

theorem trade_pnl_exact_witness:
  "\<exists>t. sample_trade_run = Some (Inr t) \<and> t_gross_pnl_usd t = 10 / 2 * t_exit_price_usd t - 10"
proof (rule sample_trade)
  fix t assume "sample_trade_run = Some (Inr t)"
  moreover from this have "simulate_signal exact_ext sample_history_signal (example_config Paper)
      (from_config plain_backtest) Train 0 = Some (Inr t)"
    by (simp add: sample_trade_run_def)
  ultimately show ?thesis using trade_pnl_exact by (fastforce simp: Let_def)
qed

text \<open>
  The favourable and adverse excursions of a
  trade lie on either side of zero, and unless the trade was booked on an ambiguous interval the
  market return it realised lies between them (exact arithmetic).
\<close>

theorem excursion_contains_outcome:
  assumes "simulate_signal exact_ext s c a spl i = Some (Inr t)"
  shows "t_mae_pct t \<le> 0 \<and> 0 \<le> t_mfe_pct t
     \<and> (\<not> t_is_ambiguous t \<and> \<not> t_is_censored t \<longrightarrow>
          t_mae_pct t \<le> (t_exit_price_usd t / mk_price_usd (hs_market s) - 1) * 100
          \<and> (t_exit_price_usd t / mk_price_usd (hs_market s) - 1) * 100 \<le> t_mfe_pct t)"
proof -
  let ?e = "mk_price_usd (hs_market s)"
  have acc: "simulate_accepted exact_ext s c a spl i = Some t" and e: "0 < ?e"
    using assms by (auto simp: simulate_signal_Inr)
  obtain st hit where
      w: "walk exact_ext c ?e None (price_history s) (start_walk s) = Some (st, hit)"
    and t: "t_is_censored t = (hit = None)"
      "\<And>h. hit = Some h \<Longrightarrow> t_exit_time t = hit_time h \<and> t_is_ambiguous t = (hit_ambiguous h \<noteq> None)"
      "t_exit_price_usd t = (case hit of None \<Rightarrow> ?e | Some h \<Rightarrow> hit_price h)"
      "t_mfe_pct t = wk_mfe st" "t_mae_pct t = wk_mae st"
    by (rule simulate_accepted_walk [OF acc]) (rule that)
  have r: "(x - ?e) / ?e * 100 = (x / ?e - 1) * 100" for x
    using e by (simp add: diff_divide_distrib)
  have "wk_mae st \<le> 0" "0 \<le> wk_mfe st"
    using walk_excursion(1,2) [OF w] by (simp_all add: start_walk_def)
  moreover have "wk_mae st \<le> (hit_price h / ?e - 1) * 100
      \<and> (hit_price h / ?e - 1) * 100 \<le> wk_mfe st"
    if "hit = Some h" "hit_ambiguous h = None" for h
    using walk_excursion(3) [OF w that] unfolding r .
  ultimately show ?thesis using t by (cases hit) auto
qed

theorem excursion_contains_outcome_witness:
  "\<exists>t. sample_trade_run = Some (Inr t)
     \<and> (t_exit_price_usd t / 2 - 1) * 100 \<le> t_mfe_pct t"
proof (rule sample_trade)
  fix t assume "sample_trade_run = Some (Inr t)" "\<not> t_is_ambiguous t" "\<not> t_is_censored t"
  moreover from this(1) have "simulate_signal exact_ext sample_history_signal (example_config Paper)
      (from_config plain_backtest) Train 0 = Some (Inr t)"
    by (simp add: sample_trade_run_def)
  ultimately show ?thesis using excursion_contains_outcome by fastforce
qed

text \<open>
  The economic edge the backtest tests. With
  exact arithmetic the net return compared with the configured minimum is
  \<open>(loss + cost) / ratio - haircut\<close>: the round-trip cost cancels out of the net return and enters
  only through the required win, so a more expensive signal shows a larger edge.
\<close>

theorem backtest_edge_grows_with_cost:
  assumes "pit_expected exact_ext s c = Some (Inr e)"
  shows "ev_net_return_pct e =
    (assumed_avg_loss_pct (cm_input (hs_costs s)) + exact_cost_pct (cm_input (hs_costs s)))
      / assumed_win_loss_ratio (cm_input (hs_costs s)) - uncertainty_haircut_pct (economics c)"
proof -
  obtain r where g: "gate_check exact_ext
        \<lparr>gate_threshold_pct = round_trip_cost_threshold_pct (economics c)\<rparr> (hs_costs s)
        = Some (Inr (Allowed r))"
    and est: "estimate exact_ext (required_avg_win_pct r) (hs_costs s) 0 0
        (uncertainty_haircut_pct (economics c)) = Some (Inr e)"
    using assms
    by (auto simp: pit_expected_def split: if_split_asm option.split_asm sum.split_asm
        economic_gate_decision.split_asm)
  have v: "valid_inputs (cm_input (hs_costs s))"
    and r: "break_even_values exact_ext (cm_input (hs_costs s)) = Some r"
    using g by (auto simp: gate_check_Allowed calculate_Inr)
  have "estimate_values exact_ext (required_avg_win_pct r) (cm_input (hs_costs s)) r 0 0
      (uncertainty_haircut_pct (economics c)) = Some e"
    using est r by (auto simp: estimate_Inr calculate_Inr)
  from estimate_values_exact(1) [OF this r v] show ?thesis
    unfolding break_even_values_exact(3) [OF r] by simp
qed

theorem backtest_edge_grows_with_cost_witness:
  "\<exists>e. pit_expected exact_ext sample_history_signal (example_config Paper) = Some (Inr e)
     \<and> ev_net_return_pct e = (10 + exact_cost_pct (cm_input cheap_costs)) / 2 - 1"
proof -
  obtain e where e: "pit_expected exact_ext sample_history_signal (example_config Paper)
      = Some (Inr e)"
    by (rule sample_trade) (auto simp: sample_trade_run_def simulate_signal_Inr)
  have "hs_costs sample_history_signal = cheap_costs" by (simp add: sample_history_signal_def)
  with e backtest_edge_grows_with_cost [OF e] show ?thesis by (simp add: cheap_input)
qed

end
