(* ===== verification/Backtest_Stats.thy ===== *)
theory Backtest_Stats
  imports Backtest_Engine
begin

text \<open>
  \<open>src/backtest/stats.rs\<close> and the pipeline of \<open>src/backtest/mod.rs\<close>: the trade-level statistics,
  the out-of-sample verdict and \<open>run_backtest\<close>. The resampling functions are in
  Backtest_Resampling; the text reports are not modelled. Counts are natural numbers; the one place
  where the code subtracts counts is proved not to underflow.
\<close>

section \<open>stats.rs\<close>

datatype oos_verdict =
  PositiveExpectancy | NegativeExpectancy | Inconclusive | NoOosData | InvalidData
| InsufficientOosSample | SyntheticData

definition min_oos_trades_for_verdict :: nat where "min_oos_trades_for_verdict = 5"

record split_counts =
  sc_total :: nat
  sc_usable :: nat
  sc_ambiguous :: nat
  sc_censored :: nat

record backtest_statistics =
  st_total_signals :: nat
  st_accepted_trades :: nat
  st_rejected_signals :: nat
  st_ambiguous_trades :: nat
  st_censored_trades :: nat
  st_win_rate :: decimal
  st_avg_win_pct :: decimal
  st_avg_loss_pct :: decimal
  st_median_return_pct :: decimal
  st_expectancy_per_trade_pct :: decimal
  st_profit_factor :: decimal
  st_gross_pnl_usd :: decimal
  st_net_pnl_usd :: decimal
  st_total_costs_usd :: decimal
  st_max_drawdown_pct :: decimal
  st_longest_losing_streak :: nat
  st_avg_holding_minutes :: decimal
  st_return_std_dev :: decimal
  st_standard_error :: decimal
  st_t_statistic :: decimal
  st_sharpe_like :: decimal
  st_sortino_like :: decimal
  st_cost_mode :: cost_mode
  st_oos :: split_counts
  st_oos_mean_return_pct :: decimal
  st_oos_ci95_lower_pct :: decimal
  st_oos_ci95_upper_pct :: decimal
  st_oos_verdict :: oos_verdict
  st_is_synthetic_data :: bool
  st_train :: split_counts
  st_validation :: split_counts

definition no_counts :: split_counts where
  "no_counts = \<lparr>sc_total = 0, sc_usable = 0, sc_ambiguous = 0, sc_censored = 0\<rparr>"

definition median :: "ext \<Rightarrow> decimal list \<Rightarrow> decimal option" where
  "median X values =
    (if values = [] then Some 0
     else let sorted = sort values; n = length sorted in
       if n mod 2 = 0
       then do { s \<leftarrow> dec_add X (sorted ! (n div 2 - 1)) (sorted ! (n div 2)); dec_div X s 2 }
       else Some (sorted ! (n div 2)))"

text \<open>The Newton loop of \<open>decimal_sqrt\<close>, with the iterations left.\<close>

fun sqrt_loop :: "ext \<Rightarrow> decimal \<Rightarrow> nat \<Rightarrow> decimal \<Rightarrow> decimal option" where
  "sqrt_loop X v 0 guess = Some guess"
| "sqrt_loop X v (Suc n) guess = do {
     q \<leftarrow> dec_div X v guess;
     s \<leftarrow> dec_add X guess q;
     next_guess \<leftarrow> dec_div X s 2;
     d \<leftarrow> dec_sub X next_guess guess;
     if \<bar>d\<bar> < 1 / 10 ^ 10 then Some next_guess else sqrt_loop X v n next_guess
   }"

definition decimal_sqrt :: "ext \<Rightarrow> decimal \<Rightarrow> decimal option" where
  "decimal_sqrt X v =
    (if v \<le> 0 then Some 0
     else do {
       guess \<leftarrow> dec_div X v 2;
       sqrt_loop X v 50 (if guess = 0 then 1 else guess)
     })"

definition ci95 :: "ext \<Rightarrow> decimal \<Rightarrow> decimal \<Rightarrow> (decimal \<times> decimal) option" where
  "ci95 X mean standard_error = do {
     half \<leftarrow> dec_mul X (196 / 100) standard_error;
     lo \<leftarrow> dec_sub X mean half;
     hi \<leftarrow> dec_add X mean half;
     Some (lo, hi)
   }"

text \<open>A quotient that is zero when its guard fails.\<close>

definition guarded_div :: "ext \<Rightarrow> bool \<Rightarrow> decimal \<Rightarrow> decimal \<Rightarrow> decimal option" where
  "guarded_div X guard a b = (if guard then dec_div X a b else Some 0)"

text \<open>The sum and the mean over a list, zero for an empty one.\<close>

definition mean_of :: "ext \<Rightarrow> decimal list \<Rightarrow> decimal option" where
  "mean_of X xs =
     (if xs = [] then Some 0
      else do { s \<leftarrow> dec_sum X xs; dec_div X s (of_nat (length xs)) })"

text \<open>The drawdown loop over the equity path, with equity, peak and maximum so far.\<close>

fun drawdown_loop ::
    "ext \<Rightarrow> decimal \<Rightarrow> decimal \<Rightarrow> decimal \<Rightarrow> decimal list \<Rightarrow> decimal option" where
  "drawdown_loop X eq peak max_dd [] = Some max_dd"
| "drawdown_loop X eq peak max_dd (pnl # pnls) = do {
     eq \<leftarrow> dec_add X eq pnl;
     let peak = (if eq > peak then eq else peak);
     dd \<leftarrow> (if peak > 0
           then do { d \<leftarrow> dec_sub X peak eq; f \<leftarrow> dec_div X d peak; dec_mul X f 100 }
           else Some 0);
     drawdown_loop X eq peak (if dd > max_dd then dd else max_dd) pnls
   }"

fun streak_loop :: "nat \<Rightarrow> nat \<Rightarrow> decimal list \<Rightarrow> nat" where
  "streak_loop longest cur [] = longest"
| "streak_loop longest cur (pnl # pnls) =
     (if pnl \<le> 0
      then streak_loop (if cur + 1 > longest then cur + 1 else longest) (cur + 1) pnls
      else streak_loop longest 0 pnls)"

fun dec_squares :: "ext \<Rightarrow> decimal \<Rightarrow> decimal list \<Rightarrow> decimal list option" where
  "dec_squares X mean [] = Some []"
| "dec_squares X mean (r # rs) = do {
     d \<leftarrow> dec_sub X r mean;
     sq \<leftarrow> dec_mul X d d;
     sqs \<leftarrow> dec_squares X mean rs;
     Some (sq # sqs)
   }"

fun dec_self_squares :: "ext \<Rightarrow> decimal list \<Rightarrow> decimal list option" where
  "dec_self_squares X [] = Some []"
| "dec_self_squares X (r # rs) = do {
     sq \<leftarrow> dec_mul X r r;
     sqs \<leftarrow> dec_self_squares X rs;
     Some (sq # sqs)
   }"

definition usable_trade :: "simulated_trade \<Rightarrow> bool" where
  "usable_trade t \<longleftrightarrow> \<not> t_is_ambiguous t \<and> \<not> t_is_censored t"

text \<open>Dispersion of the usable returns: standard deviation, its error and the downside deviation.\<close>

definition dispersion ::
    "ext \<Rightarrow> decimal list \<Rightarrow> decimal \<Rightarrow> (decimal \<times> decimal \<times> decimal) option" where
  "dispersion X returns mean = do {
     let n = of_nat (length returns);
     variance \<leftarrow> (if n > 1
       then do {
         sqs \<leftarrow> dec_squares X mean returns;
         s \<leftarrow> dec_sum X sqs;
         m \<leftarrow> dec_sub X n 1;
         dec_div X s m
       } else Some 0);
     std_dev \<leftarrow> decimal_sqrt X variance;
     standard_error \<leftarrow> (if n > 0
       then do { root \<leftarrow> decimal_sqrt X n; dec_div X std_dev root } else Some 0);
     downside_var \<leftarrow> (if n > 1
       then do {
         sqs \<leftarrow> dec_self_squares X (filter (\<lambda>r. r < 0) returns);
         s \<leftarrow> dec_sum X sqs;
         dec_div X s n
       } else Some 0);
     downside_dev \<leftarrow> decimal_sqrt X downside_var;
     Some (std_dev, standard_error, downside_dev)
   }"

definition compute_statistics ::
    "ext \<Rightarrow> simulated_trade list \<Rightarrow> nat \<Rightarrow> nat \<Rightarrow> decimal \<Rightarrow> bool \<Rightarrow> backtest_statistics option" where
  "compute_statistics X trades total_signals rejected_count starting_capital is_synthetic = do {
     let usable = filter usable_trade trades;
     let wins = filter (\<lambda>t. t_net_pnl_usd t > 0) usable;
     let losses = filter (\<lambda>t. t_net_pnl_usd t \<le> 0) usable;
     let n = (of_nat (length usable) :: decimal);
     win_rate \<leftarrow> (if n > 0
       then do { f \<leftarrow> dec_div X (of_nat (length wins)) n; dec_mul X f 100 } else Some 0);
     avg_win \<leftarrow> mean_of X (map t_net_return_pct wins);
     avg_loss \<leftarrow> mean_of X (map t_net_return_pct losses);
     med \<leftarrow> median X (map t_net_return_pct usable);
     expectancy \<leftarrow> mean_of X (map t_net_return_pct usable);
     gross_wins \<leftarrow> dec_sum X (map t_net_pnl_usd wins);
     gross_losses \<leftarrow> dec_sum X (map (\<lambda>t. \<bar>t_net_pnl_usd t\<bar>) losses);
     profit_factor \<leftarrow> (if gross_losses > 0 then dec_div X gross_wins gross_losses
       else Some (if gross_wins > 0 then 2147483647 else 0));
     gross_pnl \<leftarrow> dec_sum X (map t_gross_pnl_usd usable);
     net_pnl \<leftarrow> dec_sum X (map t_net_pnl_usd usable);
     total_costs \<leftarrow> dec_sum X (map t_total_cost_usd usable);
     max_dd \<leftarrow> drawdown_loop X starting_capital starting_capital 0 (map t_net_pnl_usd usable);
     avg_holding \<leftarrow> mean_of X (map (\<lambda>t. of_int (t_holding_minutes t)) trades);
     (std_dev, standard_error, downside_dev) \<leftarrow>
       dispersion X (map t_net_return_pct usable) expectancy;
     t_stat \<leftarrow> guarded_div X (standard_error > 0) expectancy standard_error;
     sharpe \<leftarrow> guarded_div X (std_dev > 0) expectancy std_dev;
     sortino \<leftarrow> guarded_div X (downside_dev > 0) expectancy downside_dev;
     Some \<lparr>st_total_signals = total_signals, st_accepted_trades = length trades,
       st_rejected_signals = rejected_count,
       st_ambiguous_trades = length (filter t_is_ambiguous trades),
       st_censored_trades = length (filter t_is_censored trades),
       st_win_rate = win_rate, st_avg_win_pct = avg_win, st_avg_loss_pct = avg_loss,
       st_median_return_pct = med, st_expectancy_per_trade_pct = expectancy,
       st_profit_factor = profit_factor, st_gross_pnl_usd = gross_pnl,
       st_net_pnl_usd = net_pnl, st_total_costs_usd = total_costs,
       st_max_drawdown_pct = max_dd,
       st_longest_losing_streak = streak_loop 0 0 (map t_net_pnl_usd usable),
       st_avg_holding_minutes = avg_holding, st_return_std_dev = std_dev,
       st_standard_error = standard_error, st_t_statistic = t_stat, st_sharpe_like = sharpe,
       st_sortino_like = sortino,
       st_cost_mode = (case trades of [] \<Rightarrow> Modeled | t # _ \<Rightarrow> t_cost_mode t),
       st_oos = no_counts, st_oos_mean_return_pct = 0, st_oos_ci95_lower_pct = 0,
       st_oos_ci95_upper_pct = 0, st_oos_verdict = Inconclusive,
       st_is_synthetic_data = is_synthetic, st_train = no_counts, st_validation = no_counts\<rparr>
   }"

definition compute_oos_verdict :: "backtest_statistics \<Rightarrow> oos_verdict" where
  "compute_oos_verdict s =
    (if st_is_synthetic_data s then SyntheticData
     else if sc_total (st_oos s) = 0 then NoOosData
     else if sc_usable (st_oos s) = 0 then InvalidData
     else if sc_usable (st_oos s) < min_oos_trades_for_verdict then InsufficientOosSample
     else if st_oos_ci95_lower_pct s \<le> 0 \<and> st_oos_ci95_upper_pct s \<ge> 0 then Inconclusive
     else if st_oos_ci95_lower_pct s > 0 then PositiveExpectancy
     else if st_oos_ci95_upper_pct s < 0 then NegativeExpectancy
     else Inconclusive)"

section \<open>mod.rs\<close>

record backtest_result =
  br_statistics :: backtest_statistics
  br_all_trades :: "simulated_trade list"
  br_total_signals :: nat
  br_accepted_trades :: nat
  br_rejected_count :: nat
  br_malformed_records :: "string list"
  br_structural_rejections :: "signal_rejection list"
  br_strategy_rejections :: "signal_rejection list"
  br_range_excluded :: "signal_rejection list"
  br_train_stats :: backtest_statistics
  br_validation_stats :: backtest_statistics

text \<open>The simulation loop; the trade index is the number of trades so far.\<close>

fun simulate_all ::
    "ext \<Rightarrow> config \<Rightarrow> backtest_config \<Rightarrow> historical_signal list \<Rightarrow> nat
     \<Rightarrow> (simulated_trade list \<times> signal_rejection list \<times> signal_rejection list) option" where
  "simulate_all X c bt [] i = Some ([], [], [])"
| "simulate_all X c bt (s # ss) i =
    (case classify_split_with_exclusion X (signal_timestamp s) (bt_split bt) of
       (_, Some reason) \<Rightarrow> do {
         (trades, strat, excl) \<leftarrow> simulate_all X c bt ss i;
         Some (trades, strat, rejection X (''outside experiment range: '' @ reason) s # excl)
       }
     | (spl, None) \<Rightarrow> do {
         outcome \<leftarrow> simulate_signal X s c (from_config bt) spl i;
         case outcome of
           Inr t \<Rightarrow> do {
             (trades, strat, excl) \<leftarrow> simulate_all X c bt ss (i + 1);
             Some (t # trades, strat, excl)
           }
         | Inl reason \<Rightarrow> do {
             (trades, strat, excl) \<leftarrow> simulate_all X c bt ss i;
             Some (trades, rejection X reason s # strat, excl)
           }
       })"

definition trades_in :: "split \<Rightarrow> simulated_trade list \<Rightarrow> simulated_trade list" where
  "trades_in spl trades = filter (\<lambda>t. t_split t = spl) trades"

definition counts_in :: "split \<Rightarrow> simulated_trade list \<Rightarrow> split_counts" where
  "counts_in spl trades = (let ts = trades_in spl trades;
       tot = length ts; amb = length (filter t_is_ambiguous ts);
       cen = length (filter t_is_censored ts)
     in \<lparr>sc_total = tot, sc_usable = tot - amb - cen, sc_ambiguous = amb, sc_censored = cen\<rparr>)"

text \<open>The statistics of the whole run with the out-of-sample evaluation and the split counts.\<close>

definition overall_statistics ::
    "ext \<Rightarrow> simulated_trade list \<Rightarrow> nat \<Rightarrow> nat \<Rightarrow> backtest_config \<Rightarrow> backtest_statistics option" where
  "overall_statistics X trades seen rejected bt = do {
     s \<leftarrow> compute_statistics X trades seen rejected (bt_capital_usd bt) (bt_is_synthetic_data bt);
     oos \<leftarrow> compute_statistics X (trades_in OutOfSample trades)
             (length (trades_in OutOfSample trades)) 0 (bt_capital_usd bt)
             (bt_is_synthetic_data bt);
     (lo, hi) \<leftarrow> ci95 X (st_expectancy_per_trade_pct oos) (st_standard_error oos);
     let s1 = s\<lparr>st_oos := counts_in OutOfSample trades,
                st_oos_mean_return_pct := st_expectancy_per_trade_pct oos,
                st_oos_ci95_lower_pct := lo, st_oos_ci95_upper_pct := hi\<rparr>;
     Some (s1\<lparr>st_oos_verdict := compute_oos_verdict s1,
              st_train := counts_in Train trades, st_validation := counts_in Validation trades\<rparr>)
   }"

definition run_backtest ::
    "ext \<Rightarrow> (string \<Rightarrow> string + historical_signal) \<Rightarrow> config \<Rightarrow> backtest_config \<Rightarrow> string
     \<Rightarrow> (string + backtest_result) option" where
  "run_backtest X parse c bt content =
    (case validate_boundaries X (bt_split bt) of
       Inl e \<Rightarrow> Some (Inl e)
     | Inr _ \<Rightarrow> do {
         let loaded = load_historical_signals X parse content;
         let records = length (lr_signals loaded) + lr_rejected_count loaded;
         let (accepted, structural) = prefilter_signals X (lr_signals loaded);
         (trades, strat, excl) \<leftarrow> simulate_all X c bt accepted 0;
         s \<leftarrow> overall_statistics X trades records
               (length structural + length strat + length excl) bt;
         train \<leftarrow> compute_statistics X (trades_in Train trades) (length (trades_in Train trades)) 0
                   (bt_capital_usd bt) (bt_is_synthetic_data bt);
         val \<leftarrow> compute_statistics X (trades_in Validation trades)
                   (length (trades_in Validation trades)) 0 (bt_capital_usd bt)
                   (bt_is_synthetic_data bt);
         Some (Inr \<lparr>br_statistics = s, br_all_trades = trades, br_total_signals = records,
           br_accepted_trades = length accepted, br_rejected_count = length structural,
           br_malformed_records = lr_rejection_reasons loaded,
           br_structural_rejections = structural, br_strategy_rejections = strat,
           br_range_excluded = excl, br_train_stats = train, br_validation_stats = val\<rparr>)
       })"

section \<open>Facts\<close>

text \<open>Whatever the walk did, an ambiguous trade is never censored: the counts are disjoint.\<close>

lemma simulated_disjoint:
  assumes "simulate_signal X s c a spl i = Some (Inr t)"
  shows "\<not> (t_is_ambiguous t \<and> t_is_censored t)"
proof -
  have acc: "simulate_accepted X s c a spl i = Some t"
    using assms by (auto simp: simulate_signal_Inr)
  obtain hit :: "exit_hit option" where "t_is_censored t = (hit = None)"
    "hit = None \<Longrightarrow> \<not> t_is_ambiguous t"
    by (rule simulate_accepted_walk [OF acc]) (rule that)
  then show ?thesis by blast
qed

lemma simulate_all_trades:
  assumes "simulate_all X c bt ss i = Some (trades, strat, excl)"
  shows "\<forall>t\<in>set trades. \<not> (t_is_ambiguous t \<and> t_is_censored t)"
    and "length trades + length strat + length excl = length ss"
proof -
  have "(\<forall>t\<in>set trades. \<not> (t_is_ambiguous t \<and> t_is_censored t))
     \<and> length trades + length strat + length excl = length ss"
    using assms
  proof (induction ss arbitrary: i trades strat excl)
    case (Cons s ss)
    obtain spl ex where cl:
        "classify_split_with_exclusion X (signal_timestamp s) (bt_split bt) = (spl, ex)"
      by fastforce
    show ?case
    proof (cases ex)
      case (Some reason)
      then show ?thesis using Cons.prems cl Cons.IH by (auto simp: panic_simps)
    next
      case None
      then obtain outcome where
          o: "simulate_signal X s c (from_config bt) spl i = Some outcome"
        using Cons.prems cl by (auto simp: panic_simps)
      then show ?thesis
      proof (cases outcome)
        case (Inl reason)
        then show ?thesis using Cons.prems cl None o Cons.IH by (auto simp: panic_simps)
      next
        case (Inr t)
        then show ?thesis
          using Cons.prems cl None o Cons.IH simulated_disjoint by (auto simp: panic_simps)
      qed
    qed
  qed simp
  then show "\<forall>t\<in>set trades. \<not> (t_is_ambiguous t \<and> t_is_censored t)"
    and "length trades + length strat + length excl = length ss" by blast+
qed

definition trade_key :: "ext \<Rightarrow> simulated_trade \<Rightarrow> string \<times> string" where
  "trade_key X t = shown_key X (t_mint t, t_signal_timestamp t)"

lemma simulated_key:
  assumes "simulate_signal X s c a spl i = Some (Inr t)"
  shows "trade_key X t = shown_key X (signal_key s)"
proof -
  let ?e = "mk_price_usd (hs_market s)"
  have acc: "simulate_accepted X s c a spl i = Some t" using assms by (auto simp: simulate_signal_Inr)
  obtain st hit where w: "walk X c ?e None (price_history s) (start_walk s) = Some (st, hit)"
    by (rule simulate_accepted_walk [OF acc]) (rule that)
  obtain xp xt k amb cen where cd: "conclude_exit X s c ?e hit = (xp, xt, k, amb, cen)"
    by (metis prod_cases5)
  have "t_mint t = hs_mint s \<and> t_signal_timestamp t = signal_timestamp s"
    using acc w cd by (auto simp: simulate_accepted_def start_walk_def panic_simps Let_def)
  then show ?thesis by (simp add: trade_key_def signal_key_def)
qed

text \<open>The simulation carries the key of every record on, once.\<close>

lemma simulate_all_keys:
  "simulate_all X c bt ss i = Some (trades, strat, excl) \<Longrightarrow>
     mset (map (trade_key X) trades) + mset (map rejection_key strat) + mset (map rejection_key excl)
       = mset (map (\<lambda>s. shown_key X (signal_key s)) ss)"
proof (induction ss arbitrary: i trades strat excl)
  case (Cons s ss)
  obtain spl ex where cl:
      "classify_split_with_exclusion X (signal_timestamp s) (bt_split bt) = (spl, ex)" by fastforce
  show ?case
  proof (cases ex)
    case (Some reason)
    then show ?thesis using Cons.prems cl by (auto simp: panic_simps dest!: Cons.IH)
  next
    case None
    then obtain outcome where
        o: "simulate_signal X s c (from_config bt) spl i = Some outcome"
      using Cons.prems cl by (auto simp: panic_simps)
    then show ?thesis
    proof (cases outcome)
      case (Inl reason)
      then show ?thesis using Cons.prems cl None o by (auto simp: panic_simps dest!: Cons.IH)
    next
      case (Inr t)
      then show ?thesis
        using Cons.prems cl None o simulated_key by (auto simp: panic_simps dest!: Cons.IH)
    qed
  qed
qed simp

text \<open>The subtraction of the source is the number of usable trades.\<close>

lemma counts_in_usable:
  assumes "\<forall>t\<in>set trades. \<not> (t_is_ambiguous t \<and> t_is_censored t)"
  shows "sc_usable (counts_in spl trades) = length (filter usable_trade (trades_in spl trades))"
    and "sc_ambiguous (counts_in spl trades) + sc_censored (counts_in spl trades)
           \<le> sc_total (counts_in spl trades)"
proof -
  have "length ts = length (filter t_is_ambiguous ts) + length (filter t_is_censored ts)
      + length (filter usable_trade ts)"
    if "\<forall>t\<in>set ts. \<not> (t_is_ambiguous t \<and> t_is_censored t)" for ts
    using that by (induction ts) (auto simp: usable_trade_def)
  from this [of "trades_in spl trades"] assms
  show "sc_usable (counts_in spl trades) = length (filter usable_trade (trades_in spl trades))"
    "sc_ambiguous (counts_in spl trades) + sc_censored (counts_in spl trades)
       \<le> sc_total (counts_in spl trades)"
    by (simp_all add: counts_in_def trades_in_def Let_def)
qed

text \<open>The Newton iteration with exact arithmetic: every iterate but the first is an upper bound.\<close>

lemma newton_step:
  fixes g v :: decimal
  assumes "0 < g" "0 < v"
  shows "0 < (g + v / g) / 2" and "((g + v / g) / 2)\<^sup>2 - v = ((g + v / g) / 2 - g)\<^sup>2"
proof -
  show "0 < (g + v / g) / 2" using assms by (simp add: add_pos_pos)
  have d: "(g + v / g) / 2 - g = (v / g - g) / 2" by (simp add: field_simps)
  show "((g + v / g) / 2)\<^sup>2 - v = ((g + v / g) / 2 - g)\<^sup>2"
    unfolding d using assms by (simp add: power2_eq_square field_simps)
qed

lemma sqrt_loop_upper:
  assumes "sqrt_loop exact_ext v n g = Some r" "0 < g" "0 < v" "0 < n \<or> v \<le> g\<^sup>2"
  shows "0 < r \<and> v \<le> r\<^sup>2"
  using assms
proof (induction n arbitrary: g)
  case (Suc n)
  let ?h = "(g + v / g) / 2"
  have h: "0 < ?h" "v \<le> ?h\<^sup>2"
    using newton_step [OF Suc.prems(2,3)] by (simp_all add: algebra_simps)
  have "r = ?h \<or> sqrt_loop exact_ext v n ?h = Some r"
    using Suc.prems(1)
    by (auto simp: panic_simps Let_def dest!: fit_SomeD split: if_split_asm)
  then show ?case using h Suc.IH [of ?h] Suc.prems(3) by blast
qed simp

lemma decimal_sqrt_exact:
  assumes "decimal_sqrt exact_ext v = Some r"
  shows "0 \<le> r" and "v \<le> r\<^sup>2" and "0 < v \<Longrightarrow> 0 < r"
proof -
  have pos: "0 < r \<and> v \<le> r\<^sup>2" if v: "0 < v"
  proof -
    have "sqrt_loop exact_ext v 50 (v / 2) = Some r"
      using assms v by (auto simp: decimal_sqrt_def panic_simps dest!: fit_SomeD split: if_split_asm)
    then show ?thesis by (rule sqrt_loop_upper) (use v in simp_all)
  qed
  show "0 \<le> r" and "v \<le> r\<^sup>2" and "0 < v \<Longrightarrow> 0 < r"
    using pos assms by (cases "0 < v"; auto simp: decimal_sqrt_def)+
qed

lemma mean_of_exact:
  "mean_of exact_ext xs = Some m \<Longrightarrow> m = (if xs = [] then 0 else sum_list xs / of_nat (length xs))"
  by (auto simp: mean_of_def panic_simps dest!: fit_SomeD dec_sum_exact split: if_split_asm)

text \<open>The standard error: the sample deviation over the root of the sample size.\<close>

lemma dec_squares_exact:
  "dec_squares exact_ext m rs = Some sqs \<Longrightarrow> sqs = map (\<lambda>r. (r - m)\<^sup>2) rs"
  by (induction rs arbitrary: sqs)
    (auto simp: panic_simps power2_eq_square dest!: fit_SomeD)

definition sample_variance :: "decimal list \<Rightarrow> decimal" where
  "sample_variance rs = (let n = of_nat (length rs); mean = sum_list rs / n
     in (\<Sum>r\<leftarrow>rs. (r - mean)\<^sup>2) / (n - 1))"

lemma standard_error_exact:
  assumes "dispersion exact_ext rs (sum_list rs / of_nat (length rs)) = Some (sd, se, dd)"
    and "2 \<le> length rs"
  shows "decimal_sqrt exact_ext (sample_variance rs) = Some sd"
    and "\<exists>root. decimal_sqrt exact_ext (of_nat (length rs)) = Some root \<and> se = sd / root"
proof -
  have n: "(1::decimal) < of_nat (length rs)" "(0::decimal) < of_nat (length rs)"
    using assms(2) by auto
  obtain sqs total where "dec_squares exact_ext (sum_list rs / of_nat (length rs)) rs = Some sqs"
    "dec_sum exact_ext sqs = Some total"
    and sd: "decimal_sqrt exact_ext (total / (of_nat (length rs) - 1)) = Some sd"
    using assms(1) n by (auto simp: dispersion_def panic_simps Let_def dest!: fit_SomeD)
  then have "total / (of_nat (length rs) - 1) = sample_variance rs"
    by (auto simp: sample_variance_def Let_def dest!: dec_squares_exact dec_sum_exact)
  with sd show "decimal_sqrt exact_ext (sample_variance rs) = Some sd" by simp
  show "\<exists>root. decimal_sqrt exact_ext (of_nat (length rs)) = Some root \<and> se = sd / root"
    using assms(1) n by (auto simp: dispersion_def panic_simps Let_def dest!: fit_SomeD)
qed

lemma standard_error_nonneg:
  assumes "dispersion exact_ext rs m = Some (sd, se, dd)"
  shows "0 \<le> se"
proof -
  obtain v where sd: "decimal_sqrt exact_ext v = Some sd"
    and se: "(if (0::decimal) < of_nat (length rs)
       then decimal_sqrt exact_ext (of_nat (length rs)) \<bind> (\<lambda>root. dec_div exact_ext sd root)
       else Some 0) = Some se"
    using assms by (auto simp: dispersion_def panic_simps Let_def)
  show ?thesis
  proof (cases "rs = []")
    case False
    then obtain root where "decimal_sqrt exact_ext (of_nat (length rs)) = Some root"
      and "se = sd / root"
      using se by (auto simp: panic_simps dest!: fit_SomeD split: if_split_asm)
    then show ?thesis using decimal_sqrt_exact(1) [OF sd] decimal_sqrt_exact(1) by auto
  qed (use se in simp)
qed

lemma compute_statistics_fields:
  assumes "compute_statistics X ts n rej cap syn = Some s"
  shows "st_total_signals s = n" "st_rejected_signals s = rej" "st_accepted_trades s = length ts"
    "st_is_synthetic_data s = syn"
    and "mean_of X (map t_net_return_pct (filter usable_trade ts))
      = Some (st_expectancy_per_trade_pct s)"
    and "\<exists>sd dd. dispersion X (map t_net_return_pct (filter usable_trade ts))
      (st_expectancy_per_trade_pct s) = Some (sd, st_standard_error s, dd)"
  using assms by (auto simp: compute_statistics_def panic_simps Let_def split: prod.split_asm)

lemma overall_statistics_oos:
  assumes "overall_statistics exact_ext trades n rej bt = Some s"
  shows "st_total_signals s = n" "st_rejected_signals s = rej"
    "st_accepted_trades s = length trades" "st_is_synthetic_data s = bt_is_synthetic_data bt"
    "st_oos s = counts_in OutOfSample trades" "st_train s = counts_in Train trades"
    "st_validation s = counts_in Validation trades"
    "st_oos_verdict s = compute_oos_verdict s"
    and "let rs = map t_net_return_pct (filter usable_trade (trades_in OutOfSample trades)) in
      \<exists>mean sd se dd. mean = (if rs = [] then 0 else sum_list rs / of_nat (length rs)) \<and> 0 \<le> se
        \<and> dispersion exact_ext rs mean = Some (sd, se, dd)
        \<and> st_oos_ci95_lower_pct s = mean - 196 / 100 * se
        \<and> st_oos_ci95_upper_pct s = mean + 196 / 100 * se"
proof -
  obtain s0 oos lo hi where
      s0: "compute_statistics exact_ext trades n rej (bt_capital_usd bt) (bt_is_synthetic_data bt)
        = Some s0"
    and oos: "compute_statistics exact_ext (trades_in OutOfSample trades)
        (length (trades_in OutOfSample trades)) 0 (bt_capital_usd bt) (bt_is_synthetic_data bt)
        = Some oos"
    and ci: "ci95 exact_ext (st_expectancy_per_trade_pct oos) (st_standard_error oos) = Some (lo, hi)"
    and s: "s = (let s1 = s0\<lparr>st_oos := counts_in OutOfSample trades,
                st_oos_mean_return_pct := st_expectancy_per_trade_pct oos,
                st_oos_ci95_lower_pct := lo, st_oos_ci95_upper_pct := hi\<rparr>
        in s1\<lparr>st_oos_verdict := compute_oos_verdict s1,
              st_train := counts_in Train trades, st_validation := counts_in Validation trades\<rparr>)"
    using assms by (auto simp: overall_statistics_def panic_simps Let_def)
  show "st_total_signals s = n" "st_rejected_signals s = rej"
    "st_accepted_trades s = length trades" "st_is_synthetic_data s = bt_is_synthetic_data bt"
    "st_oos s = counts_in OutOfSample trades" "st_train s = counts_in Train trades"
    "st_validation s = counts_in Validation trades"
    using s compute_statistics_fields(1-4) [OF s0] by (simp_all add: Let_def)
  show "st_oos_verdict s = compute_oos_verdict s"
    using s by (simp add: Let_def compute_oos_verdict_def)
  let ?rs = "map t_net_return_pct (filter usable_trade (trades_in OutOfSample trades))"
  have m: "st_expectancy_per_trade_pct oos
      = (if ?rs = [] then 0 else sum_list ?rs / of_nat (length ?rs))"
    using mean_of_exact [OF compute_statistics_fields(5) [OF oos]] by simp
  obtain sd dd where di: "dispersion exact_ext ?rs (st_expectancy_per_trade_pct oos)
      = Some (sd, st_standard_error oos, dd)"
    using compute_statistics_fields(6) [OF oos] by blast
  have se: "0 \<le> st_standard_error oos" by (rule standard_error_nonneg [OF di])
  have "lo = st_expectancy_per_trade_pct oos - 196 / 100 * st_standard_error oos
      \<and> hi = st_expectancy_per_trade_pct oos + 196 / 100 * st_standard_error oos"
    using ci by (auto simp: ci95_def panic_simps dest!: fit_SomeD)
  then show "let rs = ?rs in
      \<exists>mean sd se dd. mean = (if rs = [] then 0 else sum_list rs / of_nat (length rs)) \<and> 0 \<le> se
        \<and> dispersion exact_ext rs mean = Some (sd, se, dd)
        \<and> st_oos_ci95_lower_pct s = mean - 196 / 100 * se
        \<and> st_oos_ci95_upper_pct s = mean + 196 / 100 * se"
    using m se s di by (auto simp: Let_def)
qed

lemma run_backtest_Inr:
  assumes "run_backtest X parse c bt content = Some (Inr r)"
  obtains loaded acc str trades strat excl where
    "loaded = load_historical_signals X parse content"
    "prefilter_signals X (lr_signals loaded) = (acc, str)"
    "simulate_all X c bt acc 0 = Some (trades, strat, excl)"
    "overall_statistics X trades (length (lr_signals loaded) + lr_rejected_count loaded)
       (length str + length strat + length excl) bt = Some (br_statistics r)"
    "br_all_trades r = trades" "br_structural_rejections r = str"
    "br_strategy_rejections r = strat" "br_range_excluded r = excl"
    "br_malformed_records r = lr_rejection_reasons loaded"
    "br_total_signals r = length (lr_signals loaded) + lr_rejected_count loaded"
proof -
  obtain acc str where pf: "prefilter_signals X (lr_signals (load_historical_signals X parse content))
      = (acc, str)" by fastforce
  show ?thesis
    using assms by (auto simp: run_backtest_def pf panic_simps Let_def
        split: sum.split_asm prod.split_asm intro!: that [OF refl pf])
qed

section \<open>Properties\<close>

text \<open>
  C24: no record disappears and none is counted twice.
  A record is a line of the file that is neither blank nor a comment, and it is valid if it parses
  and passes the validation. The total that is reported is the number of records of the file. The
  malformed ones are all but one for each mint and timestamp of a valid record, and the trades, the
  structural and strategy rejections and the exclusions together carry each of these keys exactly
  once. The usable count of each split, which the code gets by unsigned subtraction, never
  underflows and is the number of trades that are neither ambiguous nor censored.
\<close>

theorem pipeline_conserves_records:
  assumes "run_backtest X parse c bt content = Some (Inr r)"
  shows "br_total_signals r = length (record_lines content)
    \<and> length (br_malformed_records r) + card (signal_key ` set (valid_records X parse content))
        = length (record_lines content)
    \<and> mset (map (trade_key X) (br_all_trades r)) + mset (map rejection_key (br_structural_rejections r))
        + mset (map rejection_key (br_strategy_rejections r))
        + mset (map rejection_key (br_range_excluded r))
      = image_mset (shown_key X) (mset_set (signal_key ` set (valid_records X parse content)))
    \<and> sc_ambiguous (counts_in spl (br_all_trades r)) + sc_censored (counts_in spl (br_all_trades r))
      \<le> sc_total (counts_in spl (br_all_trades r))
    \<and> sc_usable (counts_in spl (br_all_trades r))
      = length (filter usable_trade (trades_in spl (br_all_trades r)))"
proof -
  obtain loaded acc str trades strat excl where l: "loaded = load_historical_signals X parse content"
    and pf: "prefilter_signals X (lr_signals loaded) = (acc, str)"
    and sim: "simulate_all X c bt acc 0 = Some (trades, strat, excl)"
    and r: "br_all_trades r = trades" "br_structural_rejections r = str"
      "br_strategy_rejections r = strat" "br_range_excluded r = excl"
      "br_malformed_records r = lr_rejection_reasons loaded"
      "br_total_signals r = length (lr_signals loaded) + lr_rejected_count loaded"
    by (rule run_backtest_Inr [OF assms]) (rule that)
  note recs = load_records [of X parse content, folded l]
  have total: "br_total_signals r = length (record_lines content)"
    using recs(1) load_counts [of X parse content] r(6) l by simp
  have "length (lr_signals loaded) = card (signal_key ` set (valid_records X parse content))"
    using arg_cong [OF recs(2), of size] by simp
  then have malformed: "length (br_malformed_records r)
      + card (signal_key ` set (valid_records X parse content)) = length (record_lines content)"
    using recs(1) r(5) by simp
  have "mset (map (trade_key X) trades) + mset (map rejection_key strat) + mset (map rejection_key excl)
      + mset (map rejection_key str) = mset (map (\<lambda>s. shown_key X (signal_key s)) (lr_signals loaded))"
    using simulate_all_keys [OF sim] prefilter_keys [of X "lr_signals loaded"] pf by simp
  also have "\<dots> = image_mset (shown_key X) (mset (map signal_key (lr_signals loaded)))"
    by (simp add: multiset.map_comp comp_def)
  finally have keys: "mset (map (trade_key X) (br_all_trades r))
        + mset (map rejection_key (br_structural_rejections r))
        + mset (map rejection_key (br_strategy_rejections r))
        + mset (map rejection_key (br_range_excluded r))
      = image_mset (shown_key X) (mset_set (signal_key ` set (valid_records X parse content)))"
    unfolding r recs(2) by (simp add: ac_simps)
  show ?thesis
    using total malformed keys counts_in_usable simulate_all_trades(1) [OF sim] r(1) by blast
qed

text \<open>A file with a record, its duplicate, a line that does not parse, a comment and a blank line.\<close>

definition two_records :: string where
  "two_records = ''a'' @ [CHR 0x0A] @ ''a'' @ [CHR 0x0A] @ ''b'' @ [CHR 0x0A] @ ''# c'' @ [CHR 0x0A]
     @ '' '' @ [CHR 0x0A]"

definition listed_signal :: historical_signal where
  "listed_signal = sample_history_signal\<lparr>hs_mint := replicate 32 CHR ''m'',
     hs_wallets := [sample_wallet (replicate 32 CHR ''a'')]\<rparr>"

definition parse_listed :: "string \<Rightarrow> string + historical_signal" where
  "parse_listed line = (if line = ''a'' then Inr listed_signal else Inl ''bad'')"

definition records_run :: "(string + backtest_result) option" where
  "records_run = run_backtest exact_ext parse_listed (example_config Paper) plain_backtest two_records"

lemma listed_valid: "validate_signal exact_ext listed_signal n = Inr ()"
  by (simp add: validate_signal_def listed_signal_def sample_history_signal_def tick_at_def
      is_valid_solana_mint_def is_ascii_alphanumeric_def observation_problem_def bad_field_def
      effective_low_def effective_high_def effective_close_def decision_problem_def wallet_problem_def
      sample_market_def sample_safety_def sample_wallet_def cheap_observed is_valid_solana_pubkey_def
      secs_def nanos_def Let_def)

lemma records_run_Inr:
  "\<exists>r. records_run = Some (Inr r) \<and> length (br_structural_rejections r) = 1"
proof -
  have lines: "enumerate 0 (str_lines two_records)
      = [(0, ''a''), (1, ''a''), (2, ''b''), (3, ''# c''), (4, '' '')]"
    by (simp add: two_records_def str_lines_def strip_cr_def)
  have trims: "trim ''a'' = ''a''" "trim ''b'' = ''b''" "trim ''# c'' = ''# c''" "trim '' '' = []"
    by (simp_all add: trim_def is_white_def)
  have "lr_signals (load_historical_signals exact_ext parse_listed two_records) = [listed_signal]"
    "lr_rejected_count (load_historical_signals exact_ext parse_listed two_records) = 2"
    by (simp_all add: load_historical_signals_def lines load_line_def trims parse_listed_def
        listed_valid reject_def Let_def)
  moreover have "prefilter_signals exact_ext [listed_signal]
      = ([], [rejection exact_ext ''mint mismatch (market.mint != signal.mint)'' listed_signal])"
    by (auto simp: listed_signal_def sample_history_signal_def sample_market_def
        dest: arg_cong [of _ _ length])
  ultimately show ?thesis
    by (simp add: records_run_def run_backtest_def validate_boundaries_def plain_backtest_def
      no_split_def overall_statistics_def compute_statistics_def dec_sum_def mean_of_def
      median_def dispersion_def decimal_sqrt_def guarded_div_def ci95_def trades_in_def fit_def
      dec_max_def Let_def)
qed

theorem pipeline_conserves_records_witness:
  "\<exists>r. records_run = Some (Inr r) \<and> br_structural_rejections r \<noteq> []
     \<and> br_total_signals r = length (record_lines two_records)
     \<and> length (br_malformed_records r)
         + card (signal_key ` set (valid_records exact_ext parse_listed two_records)) = 3"
proof -
  obtain r where r: "records_run = Some (Inr r)" "length (br_structural_rejections r) = 1"
    using records_run_Inr by blast
  have "length (record_lines two_records) = 3"
    by (simp add: record_lines_def is_record_def two_records_def str_lines_def strip_cr_def trim_def
        is_white_def)
  with pipeline_conserves_records [OF r(1) [unfolded records_run_def]] r show ?thesis by auto
qed

text \<open>Five out-of-sample trades that all returned one percent.\<close>

definition flat_costs :: trade_costs where
  "flat_costs = \<lparr>swap_fee_usd = 0, priority_fee_usd = 0, slippage_cost_usd = 0,
     price_impact_cost_usd = 0, total_usd = 0, is_observed = False\<rparr>"

definition flat_trade :: simulated_trade where
  "flat_trade = \<lparr>t_trade_id = [], t_signal_timestamp = 0, t_mint = ''m'', t_split = OutOfSample,
     t_entry_time = 0, t_entry_price_usd = 1, t_position_usd = 10, t_entry_quantity_tokens = 10,
     t_entry_costs = flat_costs, t_exit_time = 0, t_exit_price_usd = 1,
     t_exit_reason = TakeProfit, t_holding_minutes = 1, t_exit_costs = flat_costs,
     t_gross_return_pct = 1, t_gross_pnl_usd = 1 / 10, t_total_cost_usd = 0,
     t_net_return_pct = 1, t_net_pnl_usd = 1 / 10, t_mfe_pct = 1, t_mae_pct = 0,
     t_is_ambiguous = False, t_ambiguous_reason = None, t_is_censored = False,
     t_censored_reason = None, t_cost_mode = Modeled\<rparr>"

lemma flat_simps [simp]:
  "t_split flat_trade = OutOfSample" "usable_trade flat_trade" "t_is_ambiguous flat_trade = False"
  "t_is_censored flat_trade = False" "t_net_return_pct flat_trade = 1"
  "t_net_pnl_usd flat_trade = 1 / 10" "t_gross_pnl_usd flat_trade = 1 / 10"
  "t_total_cost_usd flat_trade = 0" "t_holding_minutes flat_trade = 1"
  "t_cost_mode flat_trade = Modeled"
  by (simp_all add: flat_trade_def usable_trade_def)

lemma flat_dispersion: "dispersion exact_ext [1, 1, 1, 1, 1] 1 = Some (0, 0, 0)"
  by (simp add: dispersion_def dec_sum_def decimal_sqrt_def fit_def dec_max_def Let_def
      eval_nat_numeral)

text \<open>
  With no dispersion at all the interval collapses to the mean and the verdict is positive,
  although the documentation of \<open>OosVerdict::Inconclusive\<close> promises that verdict for a sample in
  which every usable trade returned identically.
\<close>

lemma identical_returns_claim_expectancy:
  "\<exists>s. overall_statistics exact_ext [flat_trade, flat_trade, flat_trade, flat_trade, flat_trade]
         5 0 plain_backtest = Some s
     \<and> st_oos_verdict s = PositiveExpectancy"
  by (simp add: overall_statistics_def compute_statistics_def trades_in_def mean_of_def
        median_def dec_sum_def guarded_div_def ci95_def compute_oos_verdict_def counts_in_def
        plain_backtest_def default_capital_def min_oos_trades_for_verdict_def fit_def dec_max_def
        flat_dispersion Let_def)

text \<open>
  C25: when the statistics of a run report
  positive expectancy, the data is not flagged synthetic, there are at least five out-of-sample
  trades that are neither ambiguous nor censored, and their mean net return exceeds 1.96 standard
  errors: the sample deviation of those returns, with the divisor one below their number, over the
  root of their number, both roots being what \<open>decimal_sqrt\<close> gives, which for the deviation is never
  too small. No trade of another split contributes. Arithmetic is exact; the hypothesis on the
  trades holds for every trade the engine simulates. A sample without any dispersion has a zero
  error, so a positive mean suffices there.
\<close>

theorem positive_verdict_needs_evidence:
  assumes "overall_statistics exact_ext trades total_seen rejected bt = Some s"
    and "list_all (\<lambda>t. \<not> (t_is_ambiguous t \<and> t_is_censored t)) trades"
    and "st_oos_verdict s = PositiveExpectancy"
  shows "\<not> bt_is_synthetic_data bt
    \<and> (let returns = map t_net_return_pct (filter usable_trade (trades_in OutOfSample trades));
           n = of_nat (length returns)
       in 5 \<le> length returns
          \<and> (\<exists>sd root. decimal_sqrt exact_ext (sample_variance returns) = Some sd
               \<and> sample_variance returns \<le> sd\<^sup>2 \<and> 0 \<le> sd
               \<and> decimal_sqrt exact_ext n = Some root \<and> 0 < root
               \<and> 196 / 100 * (sd / root) < sum_list returns / n))"
proof -
  let ?rs = "map t_net_return_pct (filter usable_trade (trades_in OutOfSample trades))"
  note f = overall_statistics_oos [OF assms(1)]
  have v: "compute_oos_verdict s = PositiveExpectancy" using f(8) assms(3) by simp
  then have lo: "0 < st_oos_ci95_lower_pct s" and syn: "\<not> bt_is_synthetic_data bt"
    and five: "5 \<le> sc_usable (counts_in OutOfSample trades)"
    using f(4,5)
    by (auto simp: compute_oos_verdict_def min_oos_trades_for_verdict_def split: if_split_asm)
  have n: "sc_usable (counts_in OutOfSample trades) = length ?rs"
    using counts_in_usable(1) [of trades OutOfSample] assms(2) by (simp add: list_all_iff)
  obtain mean sd se dd where mean: "mean = (if ?rs = [] then 0 else sum_list ?rs / of_nat (length ?rs))"
    "dispersion exact_ext ?rs mean = Some (sd, se, dd)"
    and ci: "st_oos_ci95_lower_pct s = mean - 196 / 100 * se"
    using f(9) unfolding Let_def by blast
  have m: "mean = sum_list ?rs / of_nat (length ?rs)" using mean(1) five n by auto
  have two: "2 \<le> length ?rs" using five n by simp
  note error = standard_error_exact [OF mean(2) [unfolded m] two]
  from error(2) obtain root where root: "decimal_sqrt exact_ext (of_nat (length ?rs)) = Some root"
    "se = sd / root" by blast
  have "(0::decimal) < of_nat (length ?rs)" using two by auto
  then have "0 < root" by (rule decimal_sqrt_exact(3) [OF root(1)])
  moreover have "196 / 100 * (sd / root) < sum_list ?rs / of_nat (length ?rs)"
    using lo ci m root(2) by simp
  ultimately have "\<exists>sd root. decimal_sqrt exact_ext (sample_variance ?rs) = Some sd
      \<and> sample_variance ?rs \<le> sd\<^sup>2 \<and> 0 \<le> sd
      \<and> decimal_sqrt exact_ext (of_nat (length ?rs)) = Some root \<and> 0 < root
      \<and> 196 / 100 * (sd / root) < sum_list ?rs / of_nat (length ?rs)"
    using error(1) root(1) decimal_sqrt_exact(1,2) [OF error(1)] by blast
  with syn five n show ?thesis unfolding Let_def by auto
qed

text \<open>Five trades whose returns spread by two around ten percent.\<close>

definition varied_trades :: "simulated_trade list" where
  "varied_trades = map (\<lambda>r. flat_trade\<lparr>t_net_return_pct := r\<rparr>) [12, 8, 12, 8, 10]"

lemma varied_dispersion: "dispersion exact_ext [12, 8, 12, 8, 10] 10
    = Some (2, 51680708854858323072 / 57780789062419261441, 0)"
  by (simp add: dispersion_def dec_sum_def decimal_sqrt_def fit_def dec_max_def Let_def
      eval_nat_numeral)

lemma varied_simps:
  "trades_in OutOfSample varied_trades = varied_trades" "trades_in Train varied_trades = []"
  "trades_in Validation varied_trades = []" "filter usable_trade varied_trades = varied_trades"
  "map t_net_return_pct varied_trades = [12, 8, 12, 8, 10]" "length varied_trades = 5"
  "map t_net_pnl_usd varied_trades = [1 / 10, 1 / 10, 1 / 10, 1 / 10, 1 / 10]"
  "filter (\<lambda>t. 0 < t_net_pnl_usd t) varied_trades = varied_trades"
  "filter (\<lambda>t. t_net_pnl_usd t \<le> 0) varied_trades = []"
  "map t_gross_pnl_usd varied_trades = [1 / 10, 1 / 10, 1 / 10, 1 / 10, 1 / 10]"
  "map t_total_cost_usd varied_trades = [0, 0, 0, 0, 0]"
  "map (\<lambda>t. of_int (t_holding_minutes t)) varied_trades = [1, 1, 1, 1, 1 :: decimal]"
  "filter t_is_ambiguous varied_trades = []" "filter t_is_censored varied_trades = []"
  "varied_trades \<noteq> []"
  by (simp_all add: varied_trades_def trades_in_def usable_trade_def flat_trade_def)

lemma varied_median: "median exact_ext [12, 8, 12, 8, 10] = Some 10"
  by (simp add: median_def)

lemma varied_run:
  "\<exists>s. overall_statistics exact_ext varied_trades 5 0 plain_backtest = Some s
     \<and> st_oos_verdict s = PositiveExpectancy"
proof -
  have empty: "median exact_ext [] = Some 0" "dispersion exact_ext [] 0 = Some (0, 0, 0)"
    by (simp_all add: median_def dispersion_def decimal_sqrt_def)
  show ?thesis
    by (simp add: overall_statistics_def compute_statistics_def varied_simps mean_of_def
        varied_median empty dec_sum_def guarded_div_def ci95_def compute_oos_verdict_def
        counts_in_def plain_backtest_def default_capital_def min_oos_trades_for_verdict_def fit_def
        dec_max_def varied_dispersion Let_def)
qed

theorem positive_verdict_needs_evidence_witness:
  "\<exists>s sd root. overall_statistics exact_ext varied_trades 5 0 plain_backtest = Some s
     \<and> decimal_sqrt exact_ext (sample_variance [12, 8, 12, 8, 10]) = Some sd \<and> 4 \<le> sd\<^sup>2
     \<and> decimal_sqrt exact_ext 5 = Some root \<and> 196 / 100 * (sd / root) < 10"
proof -
  obtain s where s: "overall_statistics exact_ext varied_trades 5 0 plain_backtest = Some s"
    "st_oos_verdict s = PositiveExpectancy" using varied_run by blast
  have u: "list_all (\<lambda>t. \<not> (t_is_ambiguous t \<and> t_is_censored t)) varied_trades"
    by (simp add: varied_trades_def)
  have v: "sample_variance [12, 8, 12, 8, 10] = 4" by (simp add: sample_variance_def Let_def)
  from positive_verdict_needs_evidence [OF s(1) u s(2)] v show ?thesis
    using s(1) by (auto simp: varied_simps Let_def)
qed

end
