(* ===== verification/Backtest_Resampling.thy ===== *)
theory Backtest_Resampling
  imports Backtest_Stats "HOL-Library.List_Lexorder" "HOL-Library.Char_ord" "HOL-Library.Log_Nat"
begin

text \<open>
  The resampling and grouping functions of \<open>src/backtest/stats.rs\<close>: the bootstrap interval, the
  Monte Carlo paths, the monthly breakdown and the four analyses that are placeholders. The random
  generator is another crate: \<open>g k n\<close> is its k-th draw below \<open>n\<close>, for a seed that is left out. A
  product of a count and a \<open>f64\<close> constant is computed as the hardware does, on binary fractions.
\<close>

section \<open>Products of a count and a fraction\<close>

text \<open>The double nearest to a natural number, ties to even: 53 significant bits.\<close>

definition f64_nat :: "nat \<Rightarrow> nat" where
  "f64_nat a = (let b = nat (bitlen (int a) - 53); q = a div 2 ^ b; r = a mod 2 ^ b
     in (if 2 * r > 2 ^ b \<or> (2 * r = 2 ^ b \<and> odd q) then q + 1 else q) * 2 ^ b)"

text \<open>
  A constant \<open>c / 2 ^ k\<close>; \<open>n as f64 * c\<close> has the numerator below, and its \<open>floor\<close> and \<open>ceil\<close> are
  cast to \<open>usize\<close>.
\<close>

record f64_const =
  fc_num :: nat
  fc_exp :: nat

definition f64_0025 :: f64_const where "f64_0025 = \<lparr>fc_num = 3602879701896397, fc_exp = 57\<rparr>"
definition f64_0975 :: f64_const where "f64_0975 = \<lparr>fc_num = 8782019273372467, fc_exp = 53\<rparr>"
definition f64_005 :: f64_const where "f64_005 = \<lparr>fc_num = 3602879701896397, fc_exp = 56\<rparr>"
definition f64_095 :: f64_const where "f64_095 = \<lparr>fc_num = 4278419646001971, fc_exp = 52\<rparr>"

lemmas f64_consts = f64_0025_def f64_0975_def f64_005_def f64_095_def

definition f64_mul :: "nat \<Rightarrow> f64_const \<Rightarrow> nat" where
  "f64_mul n c = f64_nat (f64_nat n * fc_num c)"

definition mul_floor :: "nat \<Rightarrow> f64_const \<Rightarrow> nat" where
  "mul_floor n c = f64_mul n c div 2 ^ fc_exp c"

definition mul_ceil :: "nat \<Rightarrow> f64_const \<Rightarrow> nat" where
  "mul_ceil n c = (f64_mul n c + (2 ^ fc_exp c - 1)) div 2 ^ fc_exp c"

text \<open>\<open>m - 1\<close> on \<open>usize\<close> and indexing; either may panic.\<close>

definition usize_pred :: "nat \<Rightarrow> nat option" where
  "usize_pred m = (if m = 0 then None else Some (m - 1))"

definition index_or_panic :: "'a list \<Rightarrow> nat \<Rightarrow> 'a option" where
  "index_or_panic xs i = (if i < length xs then Some (xs ! i) else None)"

section \<open>bootstrap_ci95\<close>

text \<open>\<open>returns[rng.gen_range(0..returns.len())]\<close>; an empty range panics.\<close>

definition draw_return :: "(nat \<Rightarrow> nat \<Rightarrow> nat) \<Rightarrow> decimal list \<Rightarrow> nat \<Rightarrow> decimal option" where
  "draw_return g returns k =
    (if returns = [] then None else index_or_panic returns (g k (length returns)))"

fun draw_returns :: "(nat \<Rightarrow> nat \<Rightarrow> nat) \<Rightarrow> decimal list \<Rightarrow> nat \<Rightarrow> nat \<Rightarrow> decimal list option" where
  "draw_returns g returns k 0 = Some []"
| "draw_returns g returns k (Suc n) = do {
     r \<leftarrow> draw_return g returns k;
     rs \<leftarrow> draw_returns g returns (k + 1) n;
     Some (r # rs)
   }"

text \<open>The means, one for each resample; the draws go on from one to the next.\<close>

fun bootstrap_means ::
    "ext \<Rightarrow> (nat \<Rightarrow> nat \<Rightarrow> nat) \<Rightarrow> decimal list \<Rightarrow> nat \<Rightarrow> nat \<Rightarrow> decimal list option" where
  "bootstrap_means X g returns k 0 = Some []"
| "bootstrap_means X g returns k (Suc n) = do {
     rs \<leftarrow> draw_returns g returns k (length returns);
     s \<leftarrow> dec_sum X rs;
     m \<leftarrow> dec_div X s (of_nat (length returns));
     ms \<leftarrow> bootstrap_means X g returns (k + length returns) n;
     Some (m # ms)
   }"

definition bootstrap_ci95 ::
    "ext \<Rightarrow> (nat \<Rightarrow> nat \<Rightarrow> nat) \<Rightarrow> decimal list \<Rightarrow> nat \<Rightarrow> (decimal \<times> decimal) option" where
  "bootstrap_ci95 X g returns n_bootstraps = do {
     means \<leftarrow> bootstrap_means X g returns 0 n_bootstraps;
     let ms = sort means;
     last_idx \<leftarrow> usize_pred (length ms);
     lo \<leftarrow> index_or_panic ms (min (mul_floor n_bootstraps f64_0025) last_idx);
     hi \<leftarrow> index_or_panic ms (min (mul_floor n_bootstraps f64_0975) last_idx);
     Some (lo, hi)
   }"

definition percentile_sorted :: "decimal list \<Rightarrow> f64_const \<Rightarrow> decimal option" where
  "percentile_sorted xs quantile =
    (if xs = [] then Some 0
     else do {
       idx \<leftarrow> usize_pred (mul_ceil (length xs) quantile);
       index_or_panic xs (min idx (length xs - 1))
     })"

section \<open>monte_carlo_path_analysis\<close>

text \<open>One path: its drawdown, its final equity and its longest losing streak.\<close>

definition path_outcome :: "ext \<Rightarrow> decimal list \<Rightarrow> (decimal \<times> decimal \<times> nat) option" where
  "path_outcome X rs = do {
     equity \<leftarrow> dec_sum X rs;
     dd \<leftarrow> drawdown_loop X 0 0 0 rs;
     Some (dd, equity, streak_loop 0 0 rs)
   }"

fun path_outcomes ::
    "ext \<Rightarrow> (nat \<Rightarrow> nat \<Rightarrow> nat) \<Rightarrow> decimal list \<Rightarrow> nat \<Rightarrow> nat \<Rightarrow> nat
     \<Rightarrow> (decimal \<times> decimal \<times> nat) list option" where
  "path_outcomes X g returns n_trades k 0 = Some []"
| "path_outcomes X g returns n_trades k (Suc n) = do {
     rs \<leftarrow> draw_returns g returns k n_trades;
     p \<leftarrow> path_outcome X rs;
     ps \<leftarrow> path_outcomes X g returns n_trades (k + n_trades) n;
     Some (p # ps)
   }"

text \<open>The two percentiles of a sorted list, with the subtractions that may underflow.\<close>

definition pick_95 :: "'a list \<Rightarrow> nat \<Rightarrow> ('a \<times> 'a) option" where
  "pick_95 xs n = do {
     i \<leftarrow> usize_pred (mul_ceil n f64_005);
     lo \<leftarrow> index_or_panic xs i;
     j \<leftarrow> usize_pred (mul_floor n f64_095);
     hi \<leftarrow> index_or_panic xs j;
     Some (lo, hi)
   }"

definition monte_carlo_path_analysis ::
    "ext \<Rightarrow> (nat \<Rightarrow> nat \<Rightarrow> nat) \<Rightarrow> decimal list \<Rightarrow> nat \<Rightarrow> nat
     \<Rightarrow> (decimal \<times> decimal \<times> decimal \<times> decimal) option" where
  "monte_carlo_path_analysis X g returns n_paths n_trades = do {
     ps \<leftarrow> path_outcomes X g returns n_trades 0 n_paths;
     (dd_lo, dd_hi) \<leftarrow> pick_95 (sort (map fst ps)) n_paths;
     (term_lo, term_hi) \<leftarrow> pick_95 (sort (map (fst \<circ> snd) ps)) n_paths;
     streaks \<leftarrow> pick_95 (sort (map (snd \<circ> snd) ps)) n_paths;
     Some (max dd_lo 0, max dd_hi 0, term_lo, term_hi)
   }"

section \<open>oos_monthly_breakdown\<close>

text \<open>\<open>entry(month).or_default().push(t)\<close> of a map that is kept in the order of its keys.\<close>

fun month_push :: "string \<Rightarrow> 'a \<Rightarrow> (string \<times> 'a list) list \<Rightarrow> (string \<times> 'a list) list" where
  "month_push k t [] = [(k, [t])]"
| "month_push k t ((k', ts) # m) =
    (if k = k' then (k', ts @ [t]) # m
     else if k < k' then (k, [t]) # (k', ts) # m
     else (k', ts) # month_push k t m)"

text \<open>\<open>month\<close> is the format \<open>%Y-%m\<close> of the time crate.\<close>

fun monthly_groups ::
    "(datetime \<Rightarrow> string) \<Rightarrow> (string \<times> simulated_trade list) list \<Rightarrow> simulated_trade list
     \<Rightarrow> (string \<times> simulated_trade list) list" where
  "monthly_groups month m [] = m"
| "monthly_groups month m (t # ts) =
    (if t_split t \<noteq> OutOfSample \<or> t_is_ambiguous t \<or> t_is_censored t
     then monthly_groups month m ts
     else monthly_groups month (month_push (month (t_signal_timestamp t)) t m) ts)"

definition expectancy_per_trade :: "ext \<Rightarrow> simulated_trade list \<Rightarrow> decimal option" where
  "expectancy_per_trade X trades = mean_of X (map t_net_return_pct trades)"

record month_row =
  mr_month :: string
  mr_trades :: nat
  mr_expectancy :: decimal
  mr_win_rate :: decimal
  mr_max_drawdown :: decimal
  mr_usable :: nat

text \<open>The two averages are computed and dropped; they can still overflow.\<close>

definition month_summary ::
    "ext \<Rightarrow> string \<Rightarrow> simulated_trade list \<Rightarrow> month_row option option" where
  "month_summary X month period = do {
     let usable = filter usable_trade period;
     if usable = [] then Some None
     else do {
       let n = (of_nat (length usable) :: decimal);
       f \<leftarrow> dec_div X (of_nat (length (filter (\<lambda>t. t_net_pnl_usd t > 0) usable))) n;
       win_rate \<leftarrow> dec_mul X f 100;
       w \<leftarrow> dec_sum X (map t_net_return_pct (filter (\<lambda>t. t_net_pnl_usd t > 0) usable));
       avg_win \<leftarrow> dec_div X w n;
       l \<leftarrow> dec_sum X (map t_net_return_pct (filter (\<lambda>t. t_net_pnl_usd t \<le> 0) usable));
       avg_loss \<leftarrow> dec_div X l n;
       max_dd \<leftarrow> drawdown_loop X 0 0 0 (map t_net_pnl_usd usable);
       e \<leftarrow> expectancy_per_trade X usable;
       Some (Some \<lparr>mr_month = month, mr_trades = length usable, mr_expectancy = e,
         mr_win_rate = win_rate, mr_max_drawdown = max_dd, mr_usable = length usable\<rparr>)
     }
   }"

fun month_rows ::
    "ext \<Rightarrow> (string \<times> simulated_trade list) list \<Rightarrow> month_row list option" where
  "month_rows X [] = Some []"
| "month_rows X ((k, period) # m) = do {
     row \<leftarrow> month_summary X k period;
     rows \<leftarrow> month_rows X m;
     Some (case row of None \<Rightarrow> rows | Some r \<Rightarrow> r # rows)
   }"

definition oos_monthly_breakdown ::
    "ext \<Rightarrow> (datetime \<Rightarrow> string) \<Rightarrow> simulated_trade list \<Rightarrow> month_row list option" where
  "oos_monthly_breakdown X month trades = month_rows X (monthly_groups month [] trades)"

text \<open>Expectancy, win rate, sample, wins, sample.\<close>

definition oos_summary_stats ::
    "ext \<Rightarrow> simulated_trade list \<Rightarrow> (decimal \<times> decimal \<times> nat \<times> nat \<times> nat) option" where
  "oos_summary_stats X trades = do {
     let usable = filter usable_trade trades;
     let n = length usable;
     let wins = length (filter (\<lambda>t. t_net_pnl_usd t > 0) usable);
     expectancy \<leftarrow> (if n > 0
       then do { s \<leftarrow> dec_sum X (map t_net_return_pct usable); dec_div X s (of_nat n) }
       else Some 0);
     win_rate \<leftarrow> (if n > 0
       then do { f \<leftarrow> dec_div X (of_nat wins) (of_nat n); dec_mul X f 100 } else Some 0);
     Some (expectancy, win_rate, n, wins, n)
   }"

section \<open>The placeholders\<close>

definition wallet_concentration ::
    "simulated_trade list \<Rightarrow> (string \<times> decimal \<times> nat) list \<times> decimal \<times> decimal" where
  "wallet_concentration trades = ([], 0, 0)"

definition token_concentration ::
    "simulated_trade list \<Rightarrow> (string \<times> decimal \<times> nat) list \<times> decimal \<times> decimal" where
  "token_concentration trades = ([], 0, 0)"

definition random_wallet_control :: "simulated_trade list \<Rightarrow> nat \<Rightarrow> u64 \<Rightarrow> decimal \<times> decimal" where
  "random_wallet_control trades n_resamples seed = (0, 0)"

definition parameter_sensitivity ::
    "string \<Rightarrow> decimal list \<Rightarrow> (string \<times> simulated_trade list) list
     \<Rightarrow> (decimal \<times> decimal \<times> decimal) list" where
  "parameter_sensitivity name values trades_by_param = []"

section \<open>Facts\<close>

lemma f64_nat_bounds:
  "f64_nat a * 2 ^ 53 \<le> a * (2 ^ 53 + 1)" "a * (2 ^ 53 - 1) \<le> f64_nat a * 2 ^ 53"
proof -
  define b where "b = nat (bitlen (int a) - 53)"
  define q where "q = a div 2 ^ b"
  define r where "r = a mod 2 ^ b"
  have a: "a = q * 2 ^ b + r" unfolding q_def r_def by (rule div_mult_mod_eq [symmetric])
  have r: "r < 2 ^ b" by (simp add: r_def)
  have R: "f64_nat a = (if 2 * r > 2 ^ b \<or> (2 * r = 2 ^ b \<and> odd q) then q + 1 else q) * 2 ^ b"
    by (simp only: f64_nat_def Let_def b_def q_def r_def)
  have by_cases: "(f64_nat a = q * 2 ^ b + 2 ^ b \<and> 2 ^ b \<le> 2 * r) \<or> (f64_nat a = q * 2 ^ b \<and> 2 * r \<le> 2 ^ b)"
    by (auto simp: R algebra_simps)
  have near: "2 * f64_nat a \<le> 2 * a + 2 ^ b" "2 * a \<le> 2 * f64_nat a + 2 ^ b"
    using a r by_cases by linarith+
  have "f64_nat a = a \<or> 2 ^ b * 2 ^ 52 \<le> a"
  proof (cases "b = 0")
    case True
    then show ?thesis using a r by_cases by auto
  next
    case False
    then have n: "nat (bitlen (int a) - 1) = b + 52" and "bitlen (int a) \<noteq> 0"
      by (auto simp: b_def)
    then have "0 < int a" by (cases "a = 0") auto
    then have "2 ^ nat (bitlen (int a) - 1) \<le> int a" using bitlen_bounds by blast
    then have "2 ^ (b + 52) \<le> int a" by (simp only: n)
    then have "2 ^ (b + 52) \<le> a" by (metis of_nat_le_iff of_nat_numeral of_nat_power)
    then show ?thesis by (simp add: power_add)
  qed
  with near show "f64_nat a * 2 ^ 53 \<le> a * (2 ^ 53 + 1)" "a * (2 ^ 53 - 1) \<le> f64_nat a * 2 ^ 53"
    by (auto simp: algebra_simps)
qed

lemma f64_nat_small: "a < 2 ^ 53 \<Longrightarrow> f64_nat a = a"
proof -
  assume "a < 2 ^ 53"
  then have "bitlen (int a) \<le> 53"
    by (simp add: bitlen_le_iff_power)
  then show ?thesis by (simp add: f64_nat_def)
qed

text \<open>A product is at most one part in \<open>2 ^ 53\<close> off the exact one of the rounded count.\<close>

lemma f64_mul_bounds:
  "f64_mul n c * 2 ^ 53 \<le> f64_nat n * fc_num c * (2 ^ 53 + 1)"
  "f64_nat n * fc_num c * (2 ^ 53 - 1) \<le> f64_mul n c * 2 ^ 53"
  using f64_nat_bounds [of "f64_nat n * fc_num c"] by (simp_all add: f64_mul_def)

lemma floor_order: "mul_floor n f64_0025 \<le> mul_floor n f64_0975"
proof -
  have "f64_mul n f64_0025 \<le> 16 * f64_mul n f64_0975"
    using f64_mul_bounds [of n f64_0025] f64_mul_bounds [of n f64_0975]
    by (simp add: f64_consts)
  then have "f64_mul n f64_0025 div 2 ^ 57 \<le> (2 ^ 4 * f64_mul n f64_0975) div (2 ^ 4 * 2 ^ 53)"
    by (simp add: div_le_mono)
  then show ?thesis by (simp only: mul_floor_def f64_consts f64_const.simps div_mult_mult1)
       simp
qed

text \<open>The draws: as many as asked for, all from the returns; a generator that obeys never panics.\<close>

lemma draw_returns_set:
  "draw_returns g returns k n = Some rs \<Longrightarrow> length rs = n \<and> set rs \<subseteq> set returns"
  by (induction n arbitrary: k rs)
    (fastforce simp: draw_return_def index_or_panic_def bind_Some_iff split: if_split_asm)+

lemma draw_returns_Some:
  assumes "returns \<noteq> []" and "\<And>k. g k (length returns) < length returns"
  shows "\<exists>rs. draw_returns g returns k n = Some rs"
proof (induction n arbitrary: k)
  case (Suc n)
  obtain rs where "draw_returns g returns (k + 1) n = Some rs" using Suc.IH by blast
  then show ?case using assms by (simp add: draw_return_def index_or_panic_def)
qed simp

lemma sum_list_between:
  "\<forall>x\<in>set xs. a \<le> x \<and> x \<le> (b :: decimal) \<Longrightarrow>
     of_nat (length xs) * a \<le> sum_list xs \<and> sum_list xs \<le> of_nat (length xs) * b"
  by (induction xs) (auto simp: algebra_simps)

lemma bootstrap_means_between:
  assumes "bootstrap_means exact_ext g returns k n = Some ms"
    and "\<forall>r\<in>set returns. a \<le> r \<and> r \<le> b"
  shows "length ms = n \<and> (\<forall>m\<in>set ms. a \<le> m \<and> m \<le> b)"
  using assms(1)
proof (induction n arbitrary: k ms)
  case (Suc n)
  from Suc.prems obtain rs s m ms' where
      rs: "draw_returns g returns k (length returns) = Some rs"
    and s: "dec_sum exact_ext rs = Some s"
    and m: "dec_div exact_ext s (of_nat (length returns)) = Some m"
    and ms': "bootstrap_means exact_ext g returns (k + length returns) n = Some ms'"
    and ms: "ms = m # ms'"
    by (auto simp: bind_Some_iff)
  let ?n = "of_nat (length returns) :: decimal"
  have pos: "0 < ?n" and m_eq: "m = s / ?n"
    using m by (auto dest!: fit_SomeD split: if_split_asm)
  have len: "length rs = length returns" and sub: "set rs \<subseteq> set returns"
    using draw_returns_set [OF rs] by auto
  have "\<forall>x\<in>set rs. a \<le> x \<and> x \<le> b" using sub assms(2) by auto
  then have "?n * a \<le> s \<and> s \<le> ?n * b"
    using sum_list_between [of rs a b] dec_sum_exact [OF s] len by simp
  then have "a \<le> m \<and> m \<le> b" using pos by (simp add: m_eq pos_le_divide_eq pos_divide_le_eq mult.commute)
  then show ?case using Suc.IH [OF ms'] ms by simp
qed simp

text \<open>Percentiles of a sorted list.\<close>

lemma picked_in: "index_or_panic xs i = Some x \<Longrightarrow> x \<in> set xs \<and> i < length xs \<and> x = xs ! i"
  by (auto simp: index_or_panic_def split: if_split_asm)

lemma pick_95_order:
  assumes "sorted xs" "pick_95 xs n = Some (lo, hi)" "2 \<le> n"
  shows "lo \<le> hi"
proof -
  have n': "f64_nat n = 2 \<or> 3 \<le> f64_nat n"
  proof (cases "n < 2 ^ 53")
    case True
    then show ?thesis using assms(3) by (auto simp: f64_nat_small)
  next
    case False
    then have "2 ^ 53 \<le> n" by simp
    then show ?thesis using f64_nat_bounds(2) [of n] by simp
  qed
  have le: "mul_ceil n f64_005 \<le> mul_floor n f64_095"
  proof -
    define N where "N = f64_nat n"
    define d where "d = N div 10 + 1"
    have d: "10 * d \<le> N + 10" "N < 10 * d" by (simp_all add: d_def)
    have "f64_mul n f64_005 * 2 ^ 53 \<le> N * 3602879701896397 * (2 ^ 53 + 1)"
      using f64_mul_bounds(1) [of n f64_005] by (simp only: N_def f64_005_def f64_const.simps)
    then have A: "f64_mul n f64_005 \<le> d * 2 ^ 56" using d by simp
    have "N * 4278419646001971 * (2 ^ 53 - 1) \<le> f64_mul n f64_095 * 2 ^ 53"
      using f64_mul_bounds(2) [of n f64_095] by (simp only: N_def f64_095_def f64_const.simps)
    then have B: "d * 2 ^ 52 \<le> f64_mul n f64_095"
      using d n' [folded N_def] by (elim disjE) simp_all
    have "mul_ceil n f64_005 \<le> (d * 2 ^ 56 + (2 ^ 56 - 1)) div 2 ^ 56"
      using A by (simp add: mul_ceil_def f64_consts div_le_mono)
    also have "\<dots> = d" by simp
    also have "d = (d * 2 ^ 52) div 2 ^ 52" by simp
    also have "\<dots> \<le> mul_floor n f64_095"
      using B by (simp add: mul_floor_def f64_consts div_le_mono)
    finally show ?thesis .
  qed
  then show ?thesis
    using assms(1,2)
    by (auto simp: pick_95_def bind_Some_iff usize_pred_def split: if_split_asm
        dest!: picked_in intro!: sorted_nth_mono)
qed

lemma pick_95_few: "n \<le> 1 \<Longrightarrow> pick_95 xs n = None"
proof -
  assume "n \<le> 1"
  then have "n = 0 \<or> n = 1" by auto
  moreover have "mul_ceil 0 f64_005 = 0"
    by (simp add: mul_ceil_def f64_mul_def f64_nat_small f64_consts)
  moreover have "mul_floor 1 f64_095 = 0"
    by (simp add: mul_floor_def f64_mul_def f64_nat_small f64_consts)
  ultimately show ?thesis
    by (auto simp: pick_95_def usize_pred_def split: option.splits bind_split)
qed

lemma path_outcomes_length:
  "path_outcomes X g returns m k n = Some ps \<Longrightarrow> length ps = n"
  by (induction n arbitrary: k ps) (auto simp: bind_Some_iff)

text \<open>The groups: in the order of the months, each the trades of its month in the order met.\<close>

lemma month_push_keys: "fst ` set (month_push k t m) = insert k (fst ` set m)"
  by (induction m rule: month_push.induct) auto

lemma month_push_sorted:
  "sorted_wrt (<) (map fst m) \<Longrightarrow> sorted_wrt (<) (map fst (month_push k t m))"
  by (induction k t m rule: month_push.induct) (auto simp: month_push_keys)

lemma month_push_map_of:
  "sorted_wrt (<) (map fst m) \<Longrightarrow> map_of (month_push k t m) =
     (map_of m)(k \<mapsto> (case map_of m k of None \<Rightarrow> [] | Some ts \<Rightarrow> ts) @ [t])"
proof (induction k t m rule: month_push.induct)
  case (2 k t k' ts m)
  show ?case
  proof (cases "k < k'")
    case True
    then have "k \<notin> fst ` set m" using 2(2) by auto
    then have "map_of m k = None" by (simp add: map_of_eq_None_iff)
    then show ?thesis using True by auto
  qed (use 2 in \<open>auto simp: fun_upd_twist\<close>)
qed simp

lemma month_push_count:
  "sum_list (map (length \<circ> snd) (month_push k t m)) = sum_list (map (length \<circ> snd) m) + 1"
  by (induction k t m rule: month_push.induct) auto

definition oos_usable :: "simulated_trade \<Rightarrow> bool" where
  "oos_usable t \<longleftrightarrow> t_split t = OutOfSample \<and> usable_trade t"

definition grouped :: "('a \<Rightarrow> string) \<Rightarrow> (string \<times> 'a list) list \<Rightarrow> 'a list \<Rightarrow> bool" where
  "grouped key m ts \<longleftrightarrow> sorted_wrt (<) (map fst m)
     \<and> sum_list (map (length \<circ> snd) m) = length ts
     \<and> (\<forall>k. map_of m k = (if filter (\<lambda>t. key t = k) ts = [] then None
          else Some (filter (\<lambda>t. key t = k) ts)))"

lemma grouped_push: "grouped key m ts \<Longrightarrow> grouped key (month_push (key t) t m) (ts @ [t])"
  by (auto simp: grouped_def month_push_sorted month_push_count month_push_map_of)

lemma monthly_groups_grouped:
  "grouped (\<lambda>t. month (t_signal_timestamp t)) m us \<Longrightarrow>
   grouped (\<lambda>t. month (t_signal_timestamp t)) (monthly_groups month m ts)
     (us @ filter oos_usable ts)"
proof (induction ts arbitrary: m us)
  case (Cons t ts)
  show ?case
  proof (cases "oos_usable t")
    case True
    then show ?thesis
      using Cons.IH [OF grouped_push [OF Cons.prems]]
      by (simp add: oos_usable_def usable_trade_def)
  next
    case False
    then have "t_split t \<noteq> OutOfSample \<or> t_is_ambiguous t \<or> t_is_censored t"
      by (auto simp: oos_usable_def usable_trade_def)
    then show ?thesis using False Cons.IH [OF Cons.prems] by simp
  qed
qed simp

lemma grouped_members:
  assumes "grouped key m ts" "(k, g) \<in> set m"
  shows "g = filter (\<lambda>t. key t = k) ts \<and> g \<noteq> []"
proof -
  have "distinct (map fst m)"
    using assms(1) by (simp add: grouped_def strict_sorted_iff)
  then have "map_of m k = Some g" using assms(2) by simp
  then show ?thesis using assms(1) by (auto simp: grouped_def split: if_split_asm)
qed

lemma month_summary_Some:
  assumes "month_summary X k g = Some row" "g \<noteq> []" "\<forall>t\<in>set g. usable_trade t"
  shows "\<exists>r. row = Some r \<and> mr_month r = k \<and> mr_trades r = length g \<and> mr_usable r = length g"
proof -
  have "filter usable_trade g = g" using assms(3) by (simp add: filter_id_conv)
  then show ?thesis
    using assms(1,2) by (auto simp: month_summary_def Let_def bind_Some_iff)
qed

lemma month_rows_keys:
  assumes "month_rows X m = Some rows" "\<forall>(k, g)\<in>set m. g \<noteq> [] \<and> (\<forall>t\<in>set g. usable_trade t)"
  shows "map (\<lambda>r. (mr_month r, mr_trades r)) rows = map (\<lambda>p. (fst p, length (snd p))) m"
  using assms
proof (induction m arbitrary: rows)
  case (Cons p m)
  obtain k g where p: "p = (k, g)" by fastforce
  from Cons.prems(1) obtain row rs where row: "month_summary X k g = Some row"
    and rs: "month_rows X m = Some rs"
    and rows: "rows = (case row of None \<Rightarrow> rs | Some r \<Rightarrow> r # rs)"
    by (auto simp: p bind_Some_iff)
  have "\<exists>r. row = Some r \<and> mr_month r = k \<and> mr_trades r = length g \<and> mr_usable r = length g"
    using Cons.prems(2) by (intro month_summary_Some [OF row]) (auto simp: p)
  then show ?case using Cons.IH [OF rs] Cons.prems(2) by (auto simp: rows p)
qed simp

section \<open>Properties\<close>

text \<open>
  The monthly breakdown is a partition
  of the evidence. Its rows are in the order of the months without repetition, each counts exactly
  the out-of-sample trades of its month that are neither ambiguous nor censored, none is empty, and
  the counts add up to all such trades: no trade is lost or counted twice.
\<close>

theorem monthly_breakdown_is_a_partition:
  assumes "oos_monthly_breakdown X month trades = Some rows"
  shows "sorted_wrt (<) (map mr_month rows)
    \<and> sum_list (map mr_trades rows)
        = length (filter (\<lambda>t. t_split t = OutOfSample \<and> usable_trade t) trades)
    \<and> (\<forall>row\<in>set rows. 0 < mr_trades row \<and> mr_trades row = length (filter (\<lambda>t.
        t_split t = OutOfSample \<and> usable_trade t
        \<and> month (t_signal_timestamp t) = mr_month row) trades))"
proof -
  let ?m = "monthly_groups month [] trades"
  let ?key = "\<lambda>t. month (t_signal_timestamp t)"
  have "grouped ?key [] []" by (simp add: grouped_def)
  from monthly_groups_grouped [OF this, of trades]
  have g: "grouped ?key ?m (filter oos_usable trades)" by simp
  have mem: "g = filter (\<lambda>t. ?key t = k) (filter oos_usable trades) \<and> g \<noteq> []"
    if "(k, g) \<in> set ?m" for k g
    by (rule grouped_members [OF g that])
  have "g \<noteq> [] \<and> (\<forall>t\<in>set g. usable_trade t)" if "(k, g) \<in> set ?m" for k g
    using mem [OF that] by (auto simp: oos_usable_def)
  then have "\<forall>(k, g)\<in>set ?m. g \<noteq> [] \<and> (\<forall>t\<in>set g. usable_trade t)" by blast
  then have pairs: "map (\<lambda>r. (mr_month r, mr_trades r)) rows = map (\<lambda>p. (fst p, length (snd p))) ?m"
    using month_rows_keys assms unfolding oos_monthly_breakdown_def by blast
  from arg_cong [OF pairs, of "map fst"] arg_cong [OF pairs, of "map snd"]
  have rows: "map mr_month rows = map fst ?m" "map mr_trades rows = map (length \<circ> snd) ?m"
    by (simp_all add: comp_def)
  have "0 < mr_trades row \<and> mr_trades row
      = length (filter (\<lambda>t. ?key t = mr_month row) (filter oos_usable trades))"
    if row: "row \<in> set rows" for row
  proof -
    have "(mr_month row, mr_trades row) \<in> set (map (\<lambda>r. (mr_month r, mr_trades r)) rows)"
      using row by simp
    then obtain k g where kg: "(k, g) \<in> set ?m" "mr_month row = k" "mr_trades row = length g"
      unfolding pairs by auto
    with mem [OF kg(1)] show ?thesis by auto
  qed
  moreover have "filter (\<lambda>t. ?key t = k) (filter oos_usable trades)
      = filter (\<lambda>t. t_split t = OutOfSample \<and> usable_trade t \<and> ?key t = k) trades" for k
    by (simp add: oos_usable_def conj_ac)
  ultimately have each: "\<forall>row\<in>set rows. 0 < mr_trades row \<and> mr_trades row = length (filter (\<lambda>t.
        t_split t = OutOfSample \<and> usable_trade t \<and> ?key t = mr_month row) trades)" by metis
  have "sorted_wrt (<) (map mr_month rows)" and "sum_list (map mr_trades rows)
      = length (filter (\<lambda>t. t_split t = OutOfSample \<and> usable_trade t) trades)"
    using g rows by (simp_all add: grouped_def oos_usable_def [abs_def])
  with each show ?thesis by blast
qed

theorem monthly_breakdown_is_a_partition_witness:
  "\<exists>rows. oos_monthly_breakdown exact_ext (\<lambda>_. ''2024-01'')
       [flat_trade, flat_trade\<lparr>t_split := Train\<rparr>, flat_trade] = Some rows
     \<and> sum_list (map mr_trades rows) = 2"
proof -
  have "\<exists>rows. oos_monthly_breakdown exact_ext (\<lambda>_. ''2024-01'')
       [flat_trade, flat_trade\<lparr>t_split := Train\<rparr>, flat_trade] = Some rows"
    by (simp add: oos_monthly_breakdown_def month_summary_def expectancy_per_trade_def mean_of_def
        dec_sum_def fit_def dec_max_def Let_def)
  then obtain rows where r: "oos_monthly_breakdown exact_ext (\<lambda>_. ''2024-01'')
       [flat_trade, flat_trade\<lparr>t_split := Train\<rparr>, flat_trade] = Some rows" by blast
  then show ?thesis using monthly_breakdown_is_a_partition [OF r] by auto
qed

text \<open>
  The bootstrap interval is an interval within the observed returns, and it exists only for a
  non-empty sample and at least one resample: on empty input the function panics.
\<close>

theorem bootstrap_interval_sound:
  assumes "bootstrap_ci95 exact_ext g returns n = Some (lo, hi)"
  shows "returns \<noteq> [] \<and> 0 < n \<and> Min (set returns) \<le> lo \<and> lo \<le> hi \<and> hi \<le> Max (set returns)"
proof -
  from assms obtain ms where ms: "bootstrap_means exact_ext g returns 0 n = Some ms"
    and n: "sort ms \<noteq> []"
    and lo: "index_or_panic (sort ms) (min (mul_floor n f64_0025) (length ms - 1)) = Some lo"
    and hi: "index_or_panic (sort ms) (min (mul_floor n f64_0975) (length ms - 1)) = Some hi"
    by (auto simp: bootstrap_ci95_def bind_Some_iff usize_pred_def Let_def split: if_split_asm)
  have ne: "ms \<noteq> []" using n by auto
  have between: "length ms = n \<and> (\<forall>m\<in>set ms. Min (set returns) \<le> m \<and> m \<le> Max (set returns))"
    by (rule bootstrap_means_between [OF ms]) simp
  have "returns \<noteq> []"
  proof
    assume "returns = []"
    then show False using ms ne between by (cases n) (auto simp: bind_Some_iff dec_sum_def)
  qed
  moreover have "lo \<le> hi"
    using picked_in [OF lo] picked_in [OF hi] floor_order [of n]
    by (auto intro!: sorted_nth_mono min.mono)
  moreover have "lo \<in> set ms" "hi \<in> set ms" using picked_in [OF lo] picked_in [OF hi] by auto
  ultimately show ?thesis using between ne by auto
qed

text \<open>
  The percentiles of the Monte Carlo paths are in order and need two paths: with fewer the index
  underflows. Nothing is assumed of the decimal arithmetic or of the generator.
\<close>

theorem monte_carlo_percentiles:
  assumes "monte_carlo_path_analysis X g returns n m = Some (dd_lo, dd_hi, term_lo, term_hi)"
  shows "2 \<le> n \<and> 0 \<le> dd_lo \<and> dd_lo \<le> dd_hi \<and> term_lo \<le> term_hi"
proof -
  from assms obtain ps :: "(decimal \<times> decimal \<times> nat) list" and d d' where
      p: "pick_95 (sort (map fst ps)) n = Some (d, d')" and dd: "dd_lo = max d 0" "dd_hi = max d' 0"
      and t: "pick_95 (sort (map (fst \<circ> snd) ps)) n = Some (term_lo, term_hi)"
    by (auto simp: monte_carlo_path_analysis_def bind_Some_iff split: prod.split_asm)
  have n: "2 \<le> n"
  proof (rule ccontr)
    assume "\<not> 2 \<le> n"
    then have "n \<le> 1" by simp
    from pick_95_few [OF this, of "sort (map fst ps)"] p show False by simp
  qed
  have "d \<le> d'" "term_lo \<le> term_hi"
    using pick_95_order [OF _ p n] pick_95_order [OF _ t n] by simp_all
  then show ?thesis using n dd by auto
qed

lemma one_path_panics: "n \<le> 1 \<Longrightarrow> monte_carlo_path_analysis X g returns n m = None"
  by (auto simp: monte_carlo_path_analysis_def pick_95_few split: bind_split)

text \<open>A path starts from an equity of zero, so one that only loses has no drawdown at all.\<close>

lemma losing_path_has_no_drawdown:
  assumes "path_outcome exact_ext rs = Some (dd, equity, k)" "\<forall>r\<in>set rs. r \<le> 0"
  shows "dd = 0"
proof -
  have "drawdown_loop exact_ext eq 0 0 rs = Some dd \<Longrightarrow> eq \<le> 0 \<Longrightarrow> dd = 0" for eq
    using assms(2)
  proof (induction rs arbitrary: eq)
    case (Cons r rs)
    then show ?case by (auto simp: Let_def bind_Some_iff dest!: fit_SomeD split: if_split_asm)
  qed simp
  then show ?thesis using assms(1) by (auto simp: path_outcome_def bind_Some_iff)
qed

text \<open>The summary that is named out-of-sample counts the trades of every split.\<close>

lemma summary_ignores_the_split:
  "oos_summary_stats X (map (t_split_update (\<lambda>_. spl)) trades) = oos_summary_stats X trades"
proof -
  have u: "usable_trade (t_split_update f t) = usable_trade t" for f t
    by (simp add: usable_trade_def)
  have "filter usable_trade (map (t_split_update (\<lambda>_. spl)) trades)
      = map (t_split_update (\<lambda>_. spl)) (filter usable_trade trades)"
    by (simp add: filter_map comp_def u)
  then show ?thesis by (simp add: oos_summary_stats_def filter_map comp_def Let_def)
qed

end
