(* ===== verification/Reconcile.thy ===== *)
theory Reconcile
  imports Execution "HOL-Library.List_Lexorder" "HOL-Library.Product_Lexorder" "HOL-Library.Char_ord"
begin

text \<open>
  \<open>src/execution/reconcile.rs\<close> and the outcome handling of \<open>src/execution/jupiter.rs\<close>: what a
  confirmed transaction did, derived from its metadata. \<open>serde_json::Value\<close> is not part of the
  repository: the accessors the code calls are the fields of the record \<open>json\<close>, over any type of
  values. RPC answers are arguments; a polling loop takes the sequence of answers it receives.
\<close>

section \<open>JSON values\<close>

record 'v json =
  jv_get :: "'v \<Rightarrow> string \<Rightarrow> 'v option"     \<comment> \<open>Value::get on an object\<close>
  jv_index :: "'v \<Rightarrow> string \<Rightarrow> 'v"          \<comment> \<open>indexing by a string; Null when missing\<close>
  jv_null :: "'v \<Rightarrow> bool"
  jv_object :: "'v \<Rightarrow> bool"                 \<comment> \<open>as_object() is Some\<close>
  jv_array :: "'v \<Rightarrow> 'v list option"
  jv_str :: "'v \<Rightarrow> string option"
  jv_u64 :: "'v \<Rightarrow> u64 option"
  jv_i64 :: "'v \<Rightarrow> int option"
  jv_f64 :: "'v \<Rightarrow> rat option"
  jv_bool :: "'v \<Rightarrow> bool option"
  jv_item :: "'v \<Rightarrow> nat \<Rightarrow> 'v"             \<comment> \<open>indexing by a number; Null when missing\<close>
  jv_show :: "'v \<Rightarrow> string"

text \<open>\<open>str::parse::<u64>\<close>: an optional plus sign and decimal digits below \<open>2^64\<close>.\<close>

definition digit_val :: "char \<Rightarrow> nat option" where
  "digit_val c = (let n = of_char c :: nat in if 48 \<le> n \<and> n \<le> 57 then Some (n - 48) else None)"

fun digits_val :: "nat \<Rightarrow> string \<Rightarrow> nat option" where
  "digits_val acc [] = Some acc"
| "digits_val acc (c # cs) =
     (case digit_val c of None \<Rightarrow> None | Some d \<Rightarrow> digits_val (10 * acc + d) cs)"

definition parse_u64 :: "string \<Rightarrow> u64 option" where
  "parse_u64 s = (let ds = (if s \<noteq> [] \<and> hd s = CHR ''+'' then tl s else s) in
     if ds = [] then None
     else case digits_val 0 ds of
       None \<Rightarrow> None
     | Some n \<Rightarrow> if n < 2 ^ 64 then Some (of_nat n) else None)"

text \<open>\<open>u64::try_from\<close> of a wide integer.\<close>

definition u64_of_int :: "int \<Rightarrow> u64 option" where
  "u64_of_int i = (if 0 \<le> i \<and> i < 2 ^ 64 then Some (of_int i) else None)"

section \<open>reconcile.rs\<close>

definition wsol_mint :: string where
  "wsol_mint = ''So11111111111111111111111111111111111111112''"

record chain_swap_outcome =
  co_input_amount :: u64
  co_output_amount :: u64
  co_fee_lamports :: u64
  co_block_time :: "int option"

datatype 'v swap_outcome =
  SwapFailed 'v | Executed chain_swap_outcome | Unverifiable string

definition balance_entry :: "'v json \<Rightarrow> 'v \<Rightarrow> (u64 \<times> string \<times> u64) option" where
  "balance_entry J e = do {
     idx \<leftarrow> jv_u64 J (jv_index J e ''accountIndex'');
     mint \<leftarrow> jv_str J (jv_index J e ''mint'');
     text \<leftarrow> jv_str J (jv_index J (jv_index J e ''uiTokenAmount'') ''amount'');
     amount \<leftarrow> parse_u64 text;
     Some (idx, mint, amount)
   }"

definition balances :: "'v json \<Rightarrow> 'v \<Rightarrow> string \<Rightarrow> (u64 \<times> string \<times> u64) list" where
  "balances J meta key = (case jv_array J (jv_index J meta key) of
      None \<Rightarrow> []
    | Some arr \<Rightarrow> List.map_filter (balance_entry J) arr)"

text \<open>\<open>find\<close> by account index and mint, zero when absent.\<close>

definition amount_at :: "(u64 \<times> string \<times> u64) list \<Rightarrow> u64 \<Rightarrow> string \<Rightarrow> int" where
  "amount_at bs idx mint =
     (case find (\<lambda>(i, m, _). i = idx \<and> m = mint) bs of
        None \<Rightarrow> 0
      | Some (_, _, a) \<Rightarrow> int (unat a))"

definition token_deltas :: "'v json \<Rightarrow> 'v \<Rightarrow> (u64 \<times> string \<times> int) list" where
  "token_deltas J meta = (let pre = balances J meta ''preTokenBalances'';
       post = balances J meta ''postTokenBalances'';
       keys = remdups_adj (sort (map (\<lambda>(i, m, _). (i, m)) pre @ map (\<lambda>(i, m, _). (i, m)) post))
     in map (\<lambda>(i, m). (i, m, amount_at post i m - amount_at pre i m)) keys)"

definition owner_entry :: "'v json \<Rightarrow> 'v \<Rightarrow> (u64 \<times> string) option" where
  "owner_entry J e = do {
     idx \<leftarrow> jv_u64 J (jv_index J e ''accountIndex'');
     owner \<leftarrow> jv_str J (jv_index J e ''owner'');
     Some (idx, owner)
   }"

definition owner_for_index :: "'v json \<Rightarrow> 'v \<Rightarrow> (u64 \<times> string) list" where
  "owner_for_index J meta = (case jv_array J (jv_index J meta ''postTokenBalances'') of
      None \<Rightarrow> []
    | Some arr \<Rightarrow> List.map_filter (owner_entry J) arr)"

fun position_where :: "('a \<Rightarrow> bool) \<Rightarrow> 'a list \<Rightarrow> nat option" where
  "position_where P [] = None"
| "position_where P (x # xs) = (if P x then Some 0 else map_option Suc (position_where P xs))"

definition nth_opt :: "'a list \<Rightarrow> nat \<Rightarrow> 'a option" where
  "nth_opt xs i = (if i < length xs then Some (xs ! i) else None)"

definition native_delta_for_owner :: "'v json \<Rightarrow> 'v \<Rightarrow> string \<Rightarrow> int option" where
  "native_delta_for_owner J tx owner = do {
     keys \<leftarrow> jv_array J (jv_index J (jv_index J (jv_index J tx ''transaction'') ''message'')
              ''accountKeys'');
     idx \<leftarrow> position_where (\<lambda>k. jv_str J (jv_index J k ''pubkey'') = Some owner) keys;
     let meta = jv_index J tx ''meta'';
     pres \<leftarrow> jv_array J (jv_index J meta ''preBalances'');
     p \<leftarrow> nth_opt pres idx;
     pre \<leftarrow> jv_i64 J p;
     posts \<leftarrow> jv_array J (jv_index J meta ''postBalances'');
     q \<leftarrow> nth_opt posts idx;
     post \<leftarrow> jv_i64 J q;
     Some (post - pre)
   }"

text \<open>The closure \<open>delta_for\<close>: the summed deltas of the accounts the owner owns after the swap.\<close>

definition delta_for :: "'v json \<Rightarrow> 'v \<Rightarrow> string \<Rightarrow> string \<Rightarrow> int" where
  "delta_for J meta owner mint =
     sum_list (map (\<lambda>(_, _, d). d)
       (filter (\<lambda>(idx, m, _). m = mint \<and> (idx, owner) \<in> set (owner_for_index J meta))
         (token_deltas J meta)))"

definition input_leg ::
    "'v json \<Rightarrow> 'v \<Rightarrow> string \<Rightarrow> string \<Rightarrow> u64 \<Rightarrow> string + u64" where
  "input_leg J meta owner input_mint expected_input =
    (if input_mint = wsol_mint then Inr expected_input
     else let d = delta_for J meta owner input_mint in
       if d = 0 then Inl (''no owner delta for input mint '' @ input_mint)
       else case u64_of_int \<bar>d\<bar> of
              Some v \<Rightarrow> Inr v
            | None \<Rightarrow> Inl ''input delta overflow'')"

definition output_leg ::
    "'v json \<Rightarrow> 'v \<Rightarrow> 'v \<Rightarrow> string \<Rightarrow> string \<Rightarrow> u64 \<Rightarrow> string + u64" where
  "output_leg J tx meta owner output_mint fee =
    (if output_mint = wsol_mint
     then case native_delta_for_owner J tx owner of
            Some d \<Rightarrow>
              if d > 0
              then (case u64_of_int (d + int (unat fee)) of
                      Some v \<Rightarrow> Inr v
                    | None \<Rightarrow> Inl ''output delta overflow'')
              else Inl ''no positive native delta for wrapped-SOL output''
          | None \<Rightarrow> Inl ''no positive native delta for wrapped-SOL output''
     else let d = delta_for J meta owner output_mint in
       if d \<le> 0 then Inl (''no positive owner delta for output mint '' @ output_mint)
       else case u64_of_int d of
              Some v \<Rightarrow> Inr v
            | None \<Rightarrow> Inl ''output delta overflow'')"

definition parse_swap_transaction ::
    "'v json \<Rightarrow> 'v \<Rightarrow> string \<Rightarrow> string \<Rightarrow> string \<Rightarrow> u64 \<Rightarrow> 'v swap_outcome" where
  "parse_swap_transaction J tx input_mint output_mint owner expected_input =
    (case jv_get J tx ''meta'' of
       None \<Rightarrow> Unverifiable ''missing transaction metadata''
     | Some meta \<Rightarrow>
       if jv_null J meta then Unverifiable ''missing transaction metadata''
       else case (case jv_get J meta ''err'' of
                    None \<Rightarrow> None | Some e \<Rightarrow> if jv_null J e then None else Some e) of
         Some err \<Rightarrow> SwapFailed err
       | None \<Rightarrow>
         (case jv_u64 J (jv_index J meta ''fee'') of
            None \<Rightarrow> Unverifiable ''missing fee metadata''
          | Some fee \<Rightarrow>
            (case input_leg J meta owner input_mint expected_input of
               Inl reason \<Rightarrow> Unverifiable reason
             | Inr input_amount \<Rightarrow>
               (case output_leg J tx meta owner output_mint fee of
                  Inl reason \<Rightarrow> Unverifiable reason
                | Inr output_amount \<Rightarrow> Executed
                    \<lparr>co_input_amount = input_amount, co_output_amount = output_amount,
                     co_fee_lamports = fee,
                     co_block_time = jv_i64 J (jv_index J tx ''blockTime'')\<rparr>))))"

section \<open>Outcome handling of the Jupiter executor\<close>

record 'v signature_status =
  ss_err :: "'v option"
  ss_confirmation_status :: "string option"
  ss_slot :: u64

definition is_confirmed_or_finalized :: "'v signature_status \<Rightarrow> bool" where
  "is_confirmed_or_finalized s \<longleftrightarrow> ss_confirmation_status s = Some ''confirmed''
     \<or> ss_confirmation_status s = Some ''finalized''"

text \<open>An RPC error: its text and whether it is one of the availability errors.\<close>

record rpc_failure =
  rf_text :: string
  rf_availability :: bool

type_synonym 'a rpc_answer = "rpc_failure + 'a"

definition on_chain_failure :: "'v json \<Rightarrow> 'v \<Rightarrow> execution_error" where
  "on_chain_failure J err = Transaction (''on-chain failure: '' @ jv_show J err)"

fun outcome_result ::
    "'v json \<Rightarrow> string \<Rightarrow> 'v swap_outcome \<Rightarrow> execution_error + chain_swap_outcome" where
  "outcome_result J sig (Executed out) = Inr out"
| "outcome_result J sig (SwapFailed err) = Inl (on_chain_failure J err)"
| "outcome_result J sig (Unverifiable detail) = Inl (UnknownOutcome (Some sig) detail)"

text \<open>\<open>verify_outcome\<close>: the loop over the answers of the attempts, at most three.\<close>

fun verify_loop ::
    "'v json \<Rightarrow> string \<Rightarrow> ('v \<Rightarrow> 'v swap_outcome) \<Rightarrow> 'v option rpc_answer list
     \<Rightarrow> execution_error + chain_swap_outcome" where
  "verify_loop J sig parse [] =
     Inl (UnknownOutcome (Some sig) ''transaction not indexed after confirmation'')"
| "verify_loop J sig parse (Inr (Some tx) # answers) = outcome_result J sig (parse tx)"
| "verify_loop J sig parse (Inr None # answers) = verify_loop J sig parse answers"
| "verify_loop J sig parse (Inl e # answers) =
     (if rf_availability e then verify_loop J sig parse answers
      else Inl (UnknownOutcome (Some sig) (rf_text e)))"

definition verify_outcome ::
    "'v json \<Rightarrow> string \<Rightarrow> ('v \<Rightarrow> 'v swap_outcome) \<Rightarrow> (nat \<Rightarrow> 'v option rpc_answer)
     \<Rightarrow> execution_error + chain_swap_outcome" where
  "verify_outcome J sig parse answers = verify_loop J sig parse (map answers [0..<3])"

text \<open>
  \<open>await_confirmation\<close>: one element for each poll, whether the deadline had passed when it woke
  up and the answer. \<open>None\<close>: it is still polling after these.
\<close>

fun await_confirmation ::
    "'v json \<Rightarrow> string \<Rightarrow> (bool \<times> 'v signature_status option rpc_answer) list
     \<Rightarrow> (execution_error + unit) option" where
  "await_confirmation J sig [] = None"
| "await_confirmation J sig ((late, answer) # polls) =
    (if late then Some (Inl (UnknownOutcome (Some sig) ''confirmation window elapsed''))
     else case answer of
       Inr (Some status) \<Rightarrow>
         (case ss_err status of
            Some err \<Rightarrow> Some (Inl (on_chain_failure J err))
          | None \<Rightarrow> if is_confirmed_or_finalized status then Some (Inr ())
                   else await_confirmation J sig polls)
     | Inr None \<Rightarrow> await_confirmation J sig polls
     | Inl e \<Rightarrow> if rf_availability e then await_confirmation J sig polls
               else Some (Inl (UnknownOutcome (Some sig) (rf_text e))))"

definition reconcile_signature ::
    "'v json \<Rightarrow> (string \<Rightarrow> 'v signature_status option rpc_answer)
     \<Rightarrow> (string \<Rightarrow> 'v option rpc_answer) \<Rightarrow> string \<Rightarrow> string \<Rightarrow> string \<Rightarrow> string \<Rightarrow> u64
     \<Rightarrow> execution_error + chain_swap_outcome option" where
  "reconcile_signature J status_of transaction_of sig input_mint output_mint owner expected =
    (case status_of sig of
       Inl e \<Rightarrow> Inl (UnknownOutcome (Some sig) (rf_text e))
     | Inr None \<Rightarrow> Inr None
     | Inr (Some status) \<Rightarrow>
       (case ss_err status of
          Some err \<Rightarrow> Inl (on_chain_failure J err)
        | None \<Rightarrow>
          if \<not> is_confirmed_or_finalized status then Inr None
          else case transaction_of sig of
            Inl e \<Rightarrow> Inl (UnknownOutcome (Some sig) (rf_text e))
          | Inr None \<Rightarrow> Inr None
          | Inr (Some tx) \<Rightarrow>
              (case outcome_result J sig
                      (parse_swap_transaction J tx input_mint output_mint owner expected) of
                 Inl e \<Rightarrow> Inl e
               | Inr out \<Rightarrow> Inr (Some out))))"

section \<open>Facts\<close>

lemma u64_of_int_unat: "u64_of_int i = Some w \<Longrightarrow> int (unat w) = i"
proof -
  assume "u64_of_int i = Some w"
  then have i: "0 \<le> i" "i < 2 ^ 64" and w: "w = of_int i"
    by (auto simp: u64_of_int_def split: if_split_asm)
  from i have u: "uint w = i" unfolding w by (simp add: unsigned_of_int take_bit_int_eq_self)
  show ?thesis unfolding unat_eq_nat_uint u using i(1) by simp
qed

lemma input_leg_Inr:
  assumes "input_leg J meta owner mint expected = Inr v"
  shows "if mint = wsol_mint then v = expected
     else int (unat v) = \<bar>delta_for J meta owner mint\<bar> \<and> v \<noteq> 0"
proof (cases "mint = wsol_mint")
  case True
  then show ?thesis using assms by (simp add: input_leg_def)
next
  case False
  then have d: "delta_for J meta owner mint \<noteq> 0"
    and v: "u64_of_int \<bar>delta_for J meta owner mint\<bar> = Some v"
    using assms by (auto simp: input_leg_def Let_def split: if_split_asm option.split_asm)
  from u64_of_int_unat [OF v] d False show ?thesis by auto
qed

lemma output_leg_Inr:
  assumes "output_leg J tx meta owner mint fee = Inr v"
  shows "if mint = wsol_mint
     then (\<exists>d. native_delta_for_owner J tx owner = Some d \<and> 0 < d
             \<and> int (unat v) = d + int (unat fee))
     else int (unat v) = delta_for J meta owner mint \<and> 0 < delta_for J meta owner mint"
  using assms u64_of_int_unat
  by (fastforce simp: output_leg_def Let_def not_le split: if_split_asm option.split_asm)

lemma parse_Executed:
  assumes "parse_swap_transaction J tx inp out owner expected = Executed res"
  obtains meta where "jv_get J tx ''meta'' = Some meta" "\<not> jv_null J meta"
    "\<forall>e. jv_get J meta ''err'' = Some e \<longrightarrow> jv_null J e"
    "jv_u64 J (jv_index J meta ''fee'') = Some (co_fee_lamports res)"
    "input_leg J meta owner inp expected = Inr (co_input_amount res)"
    "output_leg J tx meta owner out (co_fee_lamports res) = Inr (co_output_amount res)"
  using assms
  by (auto simp: parse_swap_transaction_def split: option.split_asm if_split_asm sum.split_asm)

lemma parse_SwapFailed:
  assumes "parse_swap_transaction J tx inp out owner expected = SwapFailed err"
  shows "\<exists>meta. jv_get J tx ''meta'' = Some meta \<and> jv_get J meta ''err'' = Some err
     \<and> \<not> jv_null J err"
  using assms
  by (auto simp: parse_swap_transaction_def split: option.split_asm if_split_asm sum.split_asm)

text \<open>A concrete type of values for the runs below.\<close>

datatype jval = JNull | JFlag bool | JNum int | JText string | JList "jval list" | JDict "(string \<times> jval) list"

fun jval_get :: "jval \<Rightarrow> string \<Rightarrow> jval option" where
  "jval_get (JDict kvs) k = map_of kvs k"
| "jval_get _ k = None"

definition jval_ops :: "jval json" where
  "jval_ops = \<lparr>jv_get = jval_get,
     jv_index = (\<lambda>v k. case jval_get v k of None \<Rightarrow> JNull | Some x \<Rightarrow> x),
     jv_null = (\<lambda>v. v = JNull), jv_object = (\<lambda>v. case v of JDict _ \<Rightarrow> True | _ \<Rightarrow> False),
     jv_array = (\<lambda>v. case v of JList xs \<Rightarrow> Some xs | _ \<Rightarrow> None),
     jv_str = (\<lambda>v. case v of JText s \<Rightarrow> Some s | _ \<Rightarrow> None),
     jv_u64 = (\<lambda>v. case v of JNum n \<Rightarrow> u64_of_int n | _ \<Rightarrow> None),
     jv_i64 = (\<lambda>v. case v of JNum n \<Rightarrow> Some n | _ \<Rightarrow> None),
     jv_f64 = (\<lambda>v. case v of JNum n \<Rightarrow> Some (of_int n) | _ \<Rightarrow> None),
     jv_bool = (\<lambda>v. case v of JFlag b \<Rightarrow> Some b | _ \<Rightarrow> None),
     jv_item = (\<lambda>v i. case v of JList xs \<Rightarrow> if i < length xs then xs ! i else JNull | _ \<Rightarrow> JNull),
     jv_show = (\<lambda>_. ''json'')\<rparr>"

definition balance_json :: "int \<Rightarrow> string \<Rightarrow> string \<Rightarrow> jval" where
  "balance_json i mint amount = JDict [(''accountIndex'', JNum i), (''mint'', JText mint),
     (''owner'', JText ''w''), (''uiTokenAmount'', JDict [(''amount'', JText amount)])]"

text \<open>A swap of the token \<open>m\<close> into the token \<open>u\<close>, with the owner's balance of \<open>m\<close> before and after.\<close>

definition swap_meta :: "string \<Rightarrow> string \<Rightarrow> jval" where
  "swap_meta before after = JDict [(''fee'', JNum 5000),
     (''preTokenBalances'', JList [balance_json 1 ''m'' before, balance_json 2 ''u'' ''10'']),
     (''postTokenBalances'', JList [balance_json 1 ''m'' after, balance_json 2 ''u'' ''40''])]"

definition swap_json :: "string \<Rightarrow> string \<Rightarrow> jval" where
  "swap_json before after = JDict [(''meta'', swap_meta before after)]"

lemma balance_entry_json:
  "balance_entry jval_ops (balance_json i m a)
    = Option.bind (u64_of_int i) (\<lambda>idx. map_option (\<lambda>x. (idx, m, x)) (parse_u64 a))"
  by (simp add: balance_entry_def balance_json_def jval_ops_def split: option.split bind_split)

lemma owner_entry_json:
  "owner_entry jval_ops (balance_json i m a) = map_option (\<lambda>idx. (idx, ''w'')) (u64_of_int i)"
  by (simp add: owner_entry_def balance_json_def jval_ops_def split: option.split bind_split)

lemma swap_meta_fields:
  "jv_get jval_ops (swap_json b a) ''meta'' = Some (swap_meta b a)"
  "jv_index jval_ops (swap_json b a) ''blockTime'' = JNull"
  "jv_i64 jval_ops JNull = None"
  "\<not> jv_null jval_ops (swap_meta b a)"
  "jv_get jval_ops (swap_meta b a) ''err'' = None"
  "jv_u64 jval_ops (jv_index jval_ops (swap_meta b a) ''fee'') = Some 5000"
  "jv_array jval_ops (jv_index jval_ops (swap_meta b a) ''preTokenBalances'')
    = Some [balance_json 1 ''m'' b, balance_json 2 ''u'' ''10'']"
  "jv_array jval_ops (jv_index jval_ops (swap_meta b a) ''postTokenBalances'')
    = Some [balance_json 1 ''m'' a, balance_json 2 ''u'' ''40'']"
  by (simp_all add: jval_ops_def swap_json_def swap_meta_def u64_of_int_def)

lemma parse_sample: "parse_u64 ''10'' = Some 10" "parse_u64 ''40'' = Some 40"
  "parse_u64 ''50'' = Some 50" "parse_u64 ''100'' = Some 100" "parse_u64 ''150'' = Some 150"
  by (simp_all add: parse_u64_def digit_val_def)

lemma balances_swap:
  "balances jval_ops (swap_meta b a) ''preTokenBalances''
   = (case parse_u64 b of None \<Rightarrow> [] | Some x \<Rightarrow> [(1, ''m'', x)]) @ [(2, ''u'', 10)]"
  "balances jval_ops (swap_meta b a) ''postTokenBalances''
   = (case parse_u64 a of None \<Rightarrow> [] | Some x \<Rightarrow> [(1, ''m'', x)]) @ [(2, ''u'', 40)]"
  by (simp_all add: balances_def swap_meta_fields balance_entry_json
      List.map_filter_simps parse_sample u64_of_int_def split: option.split)

lemma owners_swap: "owner_for_index jval_ops (swap_meta b a) = [(1, ''w''), (2, ''w'')]"
  by (simp add: owner_for_index_def swap_meta_fields owner_entry_json List.map_filter_simps
      u64_of_int_def)

subsection \<open>The owner's deltas\<close>

definition balance_key :: "u64 \<times> string \<times> u64 \<Rightarrow> u64 \<times> string" where
  "balance_key e = (case e of (i, m, _) \<Rightarrow> (i, m))"

lemma balance_key_simp [simp]: "balance_key (i, m, a) = (i, m)"
  by (simp add: balance_key_def)

text \<open>The first entry of each account and mint; a later one for the same pair does not count.\<close>

fun first_entries :: "(u64 \<times> string \<times> u64) list \<Rightarrow> (u64 \<times> string \<times> u64) list" where
  "first_entries [] = []"
| "first_entries (b # bs) = b # filter (\<lambda>e. balance_key e \<noteq> balance_key b) (first_entries bs)"

text \<open>
  The sum of the amounts of the accounts the owner owns after the swap, read straight off one list
  of balances: the specification the sorted and deduplicated pipeline of \<open>token_deltas\<close> is held to.
\<close>

definition owned_sum :: "'v json \<Rightarrow> 'v \<Rightarrow> string \<Rightarrow> string \<Rightarrow> string \<Rightarrow> int" where
  "owned_sum J meta owner mint key =
     sum_list (map (\<lambda>(_, _, a). int (unat a))
       (filter (\<lambda>(i, m, _). m = mint \<and> (i, owner) \<in> set (owner_for_index J meta))
         (first_entries (balances J meta key))))"

lemma amount_at_Nil [simp]: "amount_at [] i m = 0"
  by (simp add: amount_at_def)

lemma amount_at_Cons [simp]:
  "amount_at ((j, n, a) # bs) i m = (if (j, n) = (i, m) then int (unat a) else amount_at bs i m)"
  by (simp add: amount_at_def)

lemma amount_at_absent: "(i, m) \<notin> balance_key ` set bs \<Longrightarrow> amount_at bs i m = 0"
  by (induction bs) (auto simp: image_iff)

lemma amount_at_filter:
  "(i, m) \<noteq> k \<Longrightarrow> amount_at (filter (\<lambda>e. balance_key e \<noteq> k) bs) i m = amount_at bs i m"
  by (induction bs) auto

lemma amount_at_first [simp]: "amount_at (first_entries bs) i m = amount_at bs i m"
proof (induction bs)
  case (Cons b bs)
  obtain j n a where b: "b = (j, n, a)" by (cases b)
  show ?case using Cons amount_at_filter [of i m "(j, n)"] by (auto simp: b)
qed simp

lemma first_entries_keys: "balance_key ` set (first_entries bs) = balance_key ` set bs"
proof (induction bs)
  case (Cons b bs)
  have "balance_key ` {e \<in> set (first_entries bs). balance_key e \<noteq> balance_key b}
      = balance_key ` set (first_entries bs) - {balance_key b}" by auto
  then show ?case using Cons by auto
qed simp

lemma first_entries_distinct: "distinct (map balance_key (first_entries bs))"
  by (induction bs) (auto simp: distinct_map_filter)

lemma first_entries_id: "distinct (map balance_key bs) \<Longrightarrow> first_entries bs = bs"
  by (induction bs) (auto simp: filter_id_conv image_iff)

lemma sum_amount_at:
  assumes "finite K" "distinct (map balance_key bs)"
  shows "(\<Sum>(i, m)\<in>K. amount_at bs i m)
    = sum_list (map (\<lambda>(_, _, a). int (unat a)) (filter (\<lambda>e. balance_key e \<in> K) bs))"
  using assms(2)
proof (induction bs)
  case Nil
  then show ?case by simp
next
  case (Cons b bs)
  obtain j n a where b: "b = (j, n, a)" by (cases b)
  from Cons.prems b have absent: "amount_at bs j n = 0"
    by (intro amount_at_absent) auto
  have step: "(\<Sum>(i, m)\<in>K. amount_at (b # bs) i m)
      = (\<Sum>k\<in>K. if k = (j, n) then int (unat a) else 0) + (\<Sum>(i, m)\<in>K. amount_at bs i m)"
    unfolding sum.distrib [symmetric] using absent
    by (intro sum.cong) (auto simp: b split: if_splits)
  have "(\<Sum>k\<in>K. if k = (j, n) then int (unat a) else 0) = (if (j, n) \<in> K then int (unat a) else 0)"
    using assms(1) by (simp add: sum.delta)
  then show ?case unfolding step using Cons by (simp add: b)
qed

lemma distinct_remdups_adj_sort: "distinct (remdups_adj (sort xs))"
  for xs :: "'a::linorder list"
proof -
  have "sorted ys \<Longrightarrow> distinct (remdups_adj ys)" for ys :: "'a list"
    by (induction ys rule: remdups_adj.induct) (auto simp: order_antisym)
  then show ?thesis by simp
qed

lemma delta_for_eq_owned:
  "delta_for J meta owner mint
    = owned_sum J meta owner mint ''postTokenBalances''
      - owned_sum J meta owner mint ''preTokenBalances''"
proof -
  define bs where "bs = balances J meta ''preTokenBalances''"
  define cs where "cs = balances J meta ''postTokenBalances''"
  define good where "good = (\<lambda>(i, m). m = mint \<and> (i, owner) \<in> set (owner_for_index J meta))"
  define ks where "ks = remdups_adj (sort (map balance_key bs @ map balance_key cs))"
  define K where "K = set (filter good ks)"
  have key: "balance_key = (\<lambda>(i, m, _). (i, m))" by (auto simp: balance_key_def fun_eq_iff)
  have good': "(\<lambda>(idx, m, _). m = mint \<and> (idx, owner) \<in> set (owner_for_index J meta))
      = (\<lambda>e. good (balance_key e))" by (auto simp: good_def)
  have keys: "set ks = balance_key ` set bs \<union> balance_key ` set cs" by (simp add: ks_def)
  have sums: "(\<Sum>(i, m)\<in>K. amount_at xs i m)
      = sum_list (map (\<lambda>(_, _, a). int (unat a)) (filter (\<lambda>e. good (balance_key e)) (first_entries xs)))"
    if "balance_key ` set xs \<subseteq> set ks" for xs
  proof -
    have "(\<Sum>(i, m)\<in>K. amount_at xs i m) = (\<Sum>(i, m)\<in>K. amount_at (first_entries xs) i m)"
      by simp
    also have "\<dots> = sum_list (map (\<lambda>(_, _, a). int (unat a))
        (filter (\<lambda>e. balance_key e \<in> K) (first_entries xs)))"
      by (intro sum_amount_at) (simp_all add: K_def first_entries_distinct)
    also have "filter (\<lambda>e. balance_key e \<in> K) (first_entries xs)
        = filter (\<lambda>e. good (balance_key e)) (first_entries xs)"
    proof (intro filter_cong refl)
      fix e assume "e \<in> set (first_entries xs)"
      then have "balance_key e \<in> set ks" using that first_entries_keys [of xs] by blast
      then show "balance_key e \<in> K \<longleftrightarrow> good (balance_key e)" by (simp add: K_def)
    qed
    finally show ?thesis .
  qed
  have "delta_for J meta owner mint
      = sum_list (map (\<lambda>(i, m). amount_at cs i m - amount_at bs i m) (filter good ks))"
    unfolding delta_for_def token_deltas_def Let_def bs_def [symmetric] cs_def [symmetric]
      key [symmetric] ks_def [symmetric]
    by (simp add: filter_map comp_def case_prod_beta' good_def)
  also have "\<dots> = (\<Sum>(i, m)\<in>K. amount_at cs i m - amount_at bs i m)"
    unfolding K_def by (rule sum_list_distinct_conv_sum_set)
      (simp add: ks_def distinct_remdups_adj_sort)
  also have "\<dots> = (\<Sum>(i, m)\<in>K. amount_at cs i m) - (\<Sum>(i, m)\<in>K. amount_at bs i m)"
    by (simp add: sum_subtractf case_prod_beta)
  finally show ?thesis
    using sums [of cs] sums [of bs] keys
    unfolding owned_sum_def good' bs_def [symmetric] cs_def [symmetric] by simp
qed


subsection \<open>Runs on the sample transaction\<close>

lemma swap_meta_distinct:
  "distinct (map balance_key (balances jval_ops (swap_meta b a) ''preTokenBalances''))"
  "distinct (map balance_key (balances jval_ops (swap_meta b a) ''postTokenBalances''))"
  by (simp_all add: balances_swap split: option.split)

lemma owned_sum_swap:
  "owned_sum jval_ops (swap_meta b a) ''w'' ''m'' ''preTokenBalances''
    = (case parse_u64 b of None \<Rightarrow> 0 | Some x \<Rightarrow> int (unat x))"
  "owned_sum jval_ops (swap_meta b a) ''w'' ''m'' ''postTokenBalances''
    = (case parse_u64 a of None \<Rightarrow> 0 | Some x \<Rightarrow> int (unat x))"
  "owned_sum jval_ops (swap_meta b a) ''w'' ''u'' ''preTokenBalances'' = 10"
  "owned_sum jval_ops (swap_meta b a) ''w'' ''u'' ''postTokenBalances'' = 40"
  by (simp_all add: owned_sum_def first_entries_id [OF swap_meta_distinct(1)]
      first_entries_id [OF swap_meta_distinct(2)] balances_swap owners_swap split: option.split)

lemma parse_swap_sample:
  assumes "parse_u64 b = Some x" "parse_u64 a = Some y" "\<bar>int (unat y) - int (unat x)\<bar> = int n"
    "0 < n" "n < 2 ^ 64"
  shows "parse_swap_transaction jval_ops (swap_json b a) ''m'' ''u'' ''w'' expected
   = Executed \<lparr>co_input_amount = of_nat n, co_output_amount = 30, co_fee_lamports = 5000,
       co_block_time = None\<rparr>"
  using assms
  by (simp add: parse_swap_transaction_def swap_meta_fields input_leg_def output_leg_def
      wsol_mint_def Let_def delta_for_eq_owned owned_sum_swap u64_of_int_def)

section \<open>Properties\<close>

text \<open>
  C16: A transaction counts as executed only when its
  metadata say so: they are present, report no error, and report the fee of the outcome. An input
  other than wrapped SOL is exactly the size of the change of the owner's summed balances, which is
  not zero, and an output other than wrapped SOL is exactly their rise; in both sums the first entry
  counts when the metadata list an account and mint more than once. A wrapped SOL output is the
  owner's native gain, which is positive, plus the fee. A wrapped SOL input is the amount that was
  requested: it is the one amount that is not read from the metadata.
\<close>

theorem executed_outcome_is_evidenced:
  assumes "parse_swap_transaction J tx inp out owner expected = Executed res"
  shows "\<exists>meta. jv_get J tx ''meta'' = Some meta \<and> \<not> jv_null J meta
    \<and> (\<forall>e. jv_get J meta ''err'' = Some e \<longrightarrow> jv_null J e)
    \<and> jv_u64 J (jv_index J meta ''fee'') = Some (co_fee_lamports res)
    \<and> (if inp = wsol_mint then co_input_amount res = expected
       else co_input_amount res \<noteq> 0
         \<and> int (unat (co_input_amount res)) = \<bar>owned_sum J meta owner inp ''postTokenBalances''
                                              - owned_sum J meta owner inp ''preTokenBalances''\<bar>)
    \<and> (if out = wsol_mint
       then \<exists>d. native_delta_for_owner J tx owner = Some d \<and> 0 < d
              \<and> int (unat (co_output_amount res)) = d + int (unat (co_fee_lamports res))
       else co_output_amount res \<noteq> 0
         \<and> int (unat (co_output_amount res)) = owned_sum J meta owner out ''postTokenBalances''
                                             - owned_sum J meta owner out ''preTokenBalances'')"
proof -
  obtain meta where meta: "jv_get J tx ''meta'' = Some meta" "\<not> jv_null J meta"
    and err: "\<forall>e. jv_get J meta ''err'' = Some e \<longrightarrow> jv_null J e"
    and fee: "jv_u64 J (jv_index J meta ''fee'') = Some (co_fee_lamports res)"
    and inl: "input_leg J meta owner inp expected = Inr (co_input_amount res)"
    and outl: "output_leg J tx meta owner out (co_fee_lamports res) = Inr (co_output_amount res)"
    by (rule parse_Executed [OF assms]) (rule that)
  note delta = delta_for_eq_owned [of J meta owner]
  from input_leg_Inr [OF inl]
  have "if inp = wsol_mint then co_input_amount res = expected
      else co_input_amount res \<noteq> 0
        \<and> int (unat (co_input_amount res)) = \<bar>owned_sum J meta owner inp ''postTokenBalances''
                                             - owned_sum J meta owner inp ''preTokenBalances''\<bar>"
    unfolding delta by (simp split: if_split_asm)
  moreover from output_leg_Inr [OF outl]
  have "if out = wsol_mint
      then \<exists>d. native_delta_for_owner J tx owner = Some d \<and> 0 < d
             \<and> int (unat (co_output_amount res)) = d + int (unat (co_fee_lamports res))
      else co_output_amount res \<noteq> 0
        \<and> int (unat (co_output_amount res)) = owned_sum J meta owner out ''postTokenBalances''
                                            - owned_sum J meta owner out ''preTokenBalances''"
    unfolding delta by (auto split: if_split_asm)
  ultimately show ?thesis using meta err fee by blast
qed

theorem executed_outcome_is_evidenced_witness:
  "int (unat (50::u64)) = \<bar>owned_sum jval_ops (swap_meta ''150'' ''100'') ''w'' ''m'' ''postTokenBalances''
      - owned_sum jval_ops (swap_meta ''150'' ''100'') ''w'' ''m'' ''preTokenBalances''\<bar>"
  using executed_outcome_is_evidenced
    [OF parse_swap_sample [of "''150''" 150 "''100''" 100 50 0]] swap_meta_fields(1)
  by (auto simp: parse_sample wsol_mint_def)

lemma reconcile_signature_fill:
  assumes "reconcile_signature J status_of transaction_of sig inp out owner expected
    = Inr (Some res)"
  shows "\<exists>status tx. status_of sig = Inr (Some status) \<and> ss_err status = None
     \<and> is_confirmed_or_finalized status \<and> transaction_of sig = Inr (Some tx)
     \<and> parse_swap_transaction J tx inp out owner expected = Executed res"
proof -
  obtain status tx where s: "status_of sig = Inr (Some status)" "ss_err status = None"
      "is_confirmed_or_finalized status" "transaction_of sig = Inr (Some tx)"
    and o: "outcome_result J sig (parse_swap_transaction J tx inp out owner expected) = Inr res"
    using assms
    by (auto simp: reconcile_signature_def split: sum.split_asm option.split_asm if_split_asm)
  from o have "parse_swap_transaction J tx inp out owner expected = Executed res"
    by (cases "parse_swap_transaction J tx inp out owner expected") simp_all
  with s show ?thesis by blast
qed

text \<open>
  C15: Reconciling a signature never guesses. A fill comes
  back only for a status without an error that is confirmed or finalized and a transaction that
  parses as executed; a failed transaction is reported only when the chain itself reports an error,
  in the status or in the metadata; and what could not be derived is an unknown outcome that keeps
  the signature.
\<close>

theorem settlement_needs_evidence:
  "case reconcile_signature J status_of transaction_of sig inp out owner expected of
     Inr (Some res) \<Rightarrow> (\<exists>status tx. status_of sig = Inr (Some status) \<and> ss_err status = None
         \<and> is_confirmed_or_finalized status \<and> transaction_of sig = Inr (Some tx)
         \<and> parse_swap_transaction J tx inp out owner expected = Executed res)
   | Inr None \<Rightarrow> status_of sig = Inr None \<or> transaction_of sig = Inr None
         \<or> (\<exists>status. status_of sig = Inr (Some status) \<and> \<not> is_confirmed_or_finalized status)
   | Inl (Transaction msg) \<Rightarrow> (\<exists>err. msg = ''on-chain failure: '' @ jv_show J err
         \<and> ((\<exists>status. status_of sig = Inr (Some status) \<and> ss_err status = Some err)
            \<or> (\<exists>tx meta. transaction_of sig = Inr (Some tx) \<and> jv_get J tx ''meta'' = Some meta
                 \<and> jv_get J meta ''err'' = Some err \<and> \<not> jv_null J err)))
   | Inl (UnknownOutcome s _) \<Rightarrow> s = Some sig
   | Inl _ \<Rightarrow> False"
proof (cases "status_of sig")
  case (Inl e)
  then show ?thesis by (simp add: reconcile_signature_def)
next
  case (Inr st)
  show ?thesis
  proof (cases st)
    case None
    then show ?thesis using Inr by (simp add: reconcile_signature_def)
  next
    case (Some status)
    note st = Inr [unfolded Some]
    show ?thesis
    proof (cases "ss_err status = None \<and> is_confirmed_or_finalized status")
      case False
      then show ?thesis using st
        by (auto simp: reconcile_signature_def on_chain_failure_def split: option.split)
    next
      case True
      show ?thesis
      proof (cases "transaction_of sig")
        case (Inl e)
        then show ?thesis using st True by (simp add: reconcile_signature_def)
      next
        case tx: (Inr t)
        show ?thesis
        proof (cases t)
          case None
          then show ?thesis using st True tx by (simp add: reconcile_signature_def)
        next
          case (Some v)
          then show ?thesis using st True tx parse_SwapFailed [of J v inp out owner expected]
            by (cases "parse_swap_transaction J v inp out owner expected")
              (auto simp: reconcile_signature_def on_chain_failure_def)
        qed
      qed
    qed
  qed
qed

text \<open>
  The input leg takes the size of the change and not its direction: a transaction that raised the
  owner's balance of the token it was to sell is booked as a sale of that amount.
\<close>

lemma rising_input_is_booked_as_sold:
  "parse_swap_transaction jval_ops (swap_json ''100'' ''150'') ''m'' ''u'' ''w'' 50
   = Executed \<lparr>co_input_amount = 50, co_output_amount = 30, co_fee_lamports = 5000,
       co_block_time = None\<rparr>"
  using parse_swap_sample [of "''100''" 100 "''150''" 150 50] by (simp add: parse_sample)

end
