(* ===== verification/Tx_Policy.thy ===== *)
theory Tx_Policy
  imports Prelude
begin

text \<open>
  \<open>src/execution/policy.rs\<close>: the validation of a transaction built by the swap provider before it
  is signed. The RPC pool, base64 and the text form of public keys are fields of \<open>chain_env\<close>. An
  address lookup table is fetched at most once for a resolver, so one function describes what the
  chain answers during a validation. Of the Solana transaction types only the fields the code
  reads are kept.
\<close>

section \<open>Environment and data\<close>

type_synonym pubkey = "u8 list"

record chain_env =
  fetch_account :: "string \<Rightarrow> string + string option list"   \<comment> \<open>fetch_accounts_base64 of one key\<close>
  base64_decode :: "string \<Rightarrow> string + u8 list"
  key_text :: "pubkey \<Rightarrow> string"                             \<comment> \<open>Display of a key\<close>
  key_parse :: "string \<Rightarrow> pubkey option"                     \<comment> \<open>FromStr of a key\<close>

datatype policy_error =
    MalformedAlt string
  | AltFetchFailed string
  | Signers
  | Payer
  | ProgramId string
  | Program string
  | AccountIndex

record compiled_instruction =
  ci_program_id_index :: u8
  ci_accounts :: "u8 list"

record table_lookup =
  tl_account_key :: pubkey
  tl_writable_indexes :: "u8 list"
  tl_readonly_indexes :: "u8 list"

record message_body =
  ms_account_keys :: "pubkey list"
  ms_num_required_signatures :: u8
  ms_instructions :: "compiled_instruction list"

datatype versioned_message = Legacy message_body | V0 message_body "table_lookup list"

type_synonym alt_cache = "pubkey \<rightharpoonup> pubkey list"

section \<open>Lookup tables\<close>

fun chunks32 :: "nat \<Rightarrow> u8 list \<Rightarrow> pubkey list" where
  "chunks32 0 bs = []"
| "chunks32 (Suc n) bs = take 32 bs # chunks32 n (drop 32 bs)"

text \<open>The checks on the decoded account and its addresses.\<close>

definition decode_alt :: "string \<Rightarrow> u8 list \<Rightarrow> policy_error + pubkey list" where
  "decode_alt key raw =
    (if length raw < 11
     then Inl (MalformedAlt (key @ '': data too short ('' @ show_nat (length raw)
            @ '' bytes, minimum 11)''))
     else if raw ! 0 \<noteq> 1
     then Inl (MalformedAlt (key @ '': invalid discriminator ['' @ show_word (raw ! 0) @ '']''))
     else if raw ! 1 > 1
     then Inl (MalformedAlt (key @ '': invalid status ['' @ show_word (raw ! 1) @ '']''))
     else let addr_bytes = drop 11 raw in
       if length addr_bytes mod 32 \<noteq> 0
       then Inl (MalformedAlt (key @ '': address data length '' @ show_nat (length addr_bytes)
              @ '' is not a multiple of 32''))
       else Inr (chunks32 (length addr_bytes div 32) addr_bytes))"

text \<open>\<open>AltResolver::fetch_alt_addresses\<close>, with the cache it leaves behind.\<close>

definition fetch_alt_addresses ::
    "chain_env \<Rightarrow> alt_cache \<Rightarrow> pubkey \<Rightarrow> (policy_error + pubkey list) \<times> alt_cache" where
  "fetch_alt_addresses E cache alt_key =
    (case cache alt_key of
       Some addrs \<Rightarrow> (Inr addrs, cache)
     | None \<Rightarrow>
       (let key = key_text E alt_key in
        case fetch_account E key of
          Inl e \<Rightarrow> (Inl (AltFetchFailed (key @ '': '' @ e)), cache)
        | Inr accounts \<Rightarrow>
          (case accounts of
             Some data # _ \<Rightarrow>
               (case base64_decode E data of
                  Inl e \<Rightarrow> (Inl (MalformedAlt (key @ '': invalid base64: '' @ e)), cache)
                | Inr raw \<Rightarrow>
                    (case decode_alt key raw of
                       Inl e \<Rightarrow> (Inl e, cache)
                     | Inr addrs \<Rightarrow> (Inr addrs, cache(alt_key \<mapsto> addrs))))
           | _ \<Rightarrow> (Inl (AltFetchFailed (key @ '': account not found'')), cache))))"

text \<open>The addresses of a list of indexes, or the first index that is out of range.\<close>

fun pick_indexes :: "pubkey list \<Rightarrow> u8 list \<Rightarrow> u8 + pubkey list" where
  "pick_indexes addrs [] = Inr []"
| "pick_indexes addrs (i # is) =
     (if unat i \<ge> length addrs then Inl i
      else case pick_indexes addrs is of
             Inl j \<Rightarrow> Inl j
           | Inr ks \<Rightarrow> Inr (addrs ! unat i # ks))"

definition index_error :: "chain_env \<Rightarrow> string \<Rightarrow> table_lookup \<Rightarrow> u8 \<Rightarrow> nat \<Rightarrow> policy_error" where
  "index_error E kind l i n = MalformedAlt (''ALT '' @ key_text E (tl_account_key l) @ '' '' @ kind
     @ '' index '' @ show_word i @ '' exceeds table length '' @ show_nat n)"

fun load_lookups ::
    "chain_env \<Rightarrow> alt_cache \<Rightarrow> table_lookup list
     \<Rightarrow> (policy_error + pubkey list \<times> pubkey list) \<times> alt_cache" where
  "load_lookups E cache [] = (Inr ([], []), cache)"
| "load_lookups E cache (l # ls) =
    (case fetch_alt_addresses E cache (tl_account_key l) of
       (Inl e, cache') \<Rightarrow> (Inl e, cache')
     | (Inr addrs, cache') \<Rightarrow>
       (case pick_indexes addrs (tl_writable_indexes l) of
          Inl i \<Rightarrow> (Inl (index_error E ''writable'' l i (length addrs)), cache')
        | Inr ws \<Rightarrow>
          (case pick_indexes addrs (tl_readonly_indexes l) of
             Inl i \<Rightarrow> (Inl (index_error E ''readonly'' l i (length addrs)), cache')
           | Inr rs \<Rightarrow>
             (case load_lookups E cache' ls of
                (Inl e, cache'') \<Rightarrow> (Inl e, cache'')
              | (Inr (wss, rss), cache'') \<Rightarrow> (Inr (ws @ wss, rs @ rss), cache'')))))"

definition resolve_v0_accounts ::
    "chain_env \<Rightarrow> alt_cache \<Rightarrow> message_body \<Rightarrow> table_lookup list
     \<Rightarrow> (policy_error + pubkey list \<times> u8 \<times> compiled_instruction list) \<times> alt_cache" where
  "resolve_v0_accounts E cache m lookups =
    (case load_lookups E cache lookups of
       (Inl e, cache') \<Rightarrow> (Inl e, cache')
     | (Inr (ws, rs), cache') \<Rightarrow>
         (Inr (ms_account_keys m @ ws @ rs, ms_num_required_signatures m, ms_instructions m),
          cache'))"

section \<open>Validation\<close>

fun parse_allowed :: "chain_env \<Rightarrow> string list \<Rightarrow> policy_error + pubkey list" where
  "parse_allowed E [] = Inr []"
| "parse_allowed E (s # ss) =
    (case key_parse E s of
       None \<Rightarrow> Inl (ProgramId s)
     | Some k \<Rightarrow> (case parse_allowed E ss of Inl e \<Rightarrow> Inl e | Inr ks \<Rightarrow> Inr (k # ks)))"

text \<open>The loop over the instructions.\<close>

fun check_instructions ::
    "chain_env \<Rightarrow> pubkey list \<Rightarrow> pubkey list \<Rightarrow> compiled_instruction list \<Rightarrow> policy_error + unit" where
  "check_instructions E allow keys [] = Inr ()"
| "check_instructions E allow keys (ix # ixs) =
    (if unat (ci_program_id_index ix) \<ge> length keys then Inl AccountIndex
     else if keys ! unat (ci_program_id_index ix) \<notin> set allow
     then Inl (Program (key_text E (keys ! unat (ci_program_id_index ix))))
     else if list_ex (\<lambda>i. unat i \<ge> length keys) (ci_accounts ix) then Inl AccountIndex
     else check_instructions E allow keys ixs)"

definition message_accounts ::
    "chain_env \<Rightarrow> alt_cache \<Rightarrow> versioned_message
     \<Rightarrow> (policy_error + pubkey list \<times> u8 \<times> compiled_instruction list) \<times> alt_cache" where
  "message_accounts E cache msg =
    (case msg of
       Legacy m \<Rightarrow>
         (Inr (ms_account_keys m, ms_num_required_signatures m, ms_instructions m), cache)
     | V0 m lookups \<Rightarrow> resolve_v0_accounts E cache m lookups)"

definition validate_provider_transaction ::
    "chain_env \<Rightarrow> versioned_message \<Rightarrow> pubkey \<Rightarrow> string list \<Rightarrow> alt_cache
     \<Rightarrow> (policy_error + unit) \<times> alt_cache" where
  "validate_provider_transaction E msg signer allowed cache =
    (case parse_allowed E allowed of
       Inl e \<Rightarrow> (Inl e, cache)
     | Inr allow \<Rightarrow>
       (case message_accounts E cache msg of
          (Inl e, cache') \<Rightarrow> (Inl e, cache')
        | (Inr (keys, required, instructions), cache') \<Rightarrow>
            (if required \<noteq> 1 then Inl Signers
             else if keys = [] \<or> hd keys \<noteq> signer then Inl Payer
             else check_instructions E allow keys instructions, cache')))"

section \<open>Facts\<close>

lemma chunks32_shape:
  "length bs = 32 * n \<Longrightarrow> concat (chunks32 n bs) = bs \<and> list_all (\<lambda>k. length k = 32) (chunks32 n bs)"
  by (induction n bs rule: chunks32.induct) auto

lemma chunks32_length: "length (chunks32 n bs) = n"
  by (induction n bs rule: chunks32.induct) auto

lemma decode_alt_shape:
  assumes "decode_alt key raw = Inr addrs"
  shows "raw = take 11 raw @ concat addrs" and "list_all (\<lambda>k. length k = 32) addrs"
proof -
  have m: "length (drop 11 raw) mod 32 = 0"
    and a: "addrs = chunks32 (length (drop 11 raw) div 32) (drop 11 raw)"
    using assms by (auto simp: decode_alt_def Let_def split: if_split_asm)
  have "length (drop 11 raw) = 32 * (length (drop 11 raw) div 32)" using m by presburger
  from chunks32_shape [OF this]
  show "raw = take 11 raw @ concat addrs" "list_all (\<lambda>k. length k = 32) addrs"
    unfolding a by simp_all
qed

lemma pick_indexes_Inr:
  "pick_indexes addrs is = Inr ks \<Longrightarrow>
     list_all (\<lambda>i. unat i < length addrs) is \<and> ks = map (\<lambda>i. addrs ! unat i) is"
  by (induction "is" arbitrary: ks) (auto split: sum.splits if_split_asm)

lemma parse_allowed_set:
  "parse_allowed E ss = Inr ks \<Longrightarrow> k \<in> set ks \<longleftrightarrow> (\<exists>s\<in>set ss. key_parse E s = Some k)"
  by (induction ss arbitrary: ks) (auto split: option.splits sum.splits)

lemma check_instructions_Inr:
  "check_instructions E allow keys ixs = Inr () \<longleftrightarrow>
     list_all (\<lambda>ix. unat (ci_program_id_index ix) < length keys
       \<and> keys ! unat (ci_program_id_index ix) \<in> set allow
       \<and> list_all (\<lambda>i. unat i < length keys) (ci_accounts ix)) ixs"
  by (induction ixs) (auto simp: list_ex_iff list_all_iff not_less)

text \<open>A cached table is never fetched again, and fetching only adds to the cache.\<close>

lemma fetch_extends:
  assumes "fetch_alt_addresses E cache k = (res, cache')"
  shows "cache \<subseteq>\<^sub>m cache'" and "res = Inr addrs \<Longrightarrow> cache' k = Some addrs"
  using assms
  by (auto simp: fetch_alt_addresses_def map_le_def Let_def
      split: option.splits sum.splits list.splits)

lemma load_extends: "load_lookups E cache ls = (res, cache') \<Longrightarrow> cache \<subseteq>\<^sub>m cache'"
proof (induction ls arbitrary: cache res cache')
  case (Cons l ls)
  obtain r1 c1 where f: "fetch_alt_addresses E cache (tl_account_key l) = (r1, c1)" by fastforce
  have le: "cache \<subseteq>\<^sub>m c1" by (rule fetch_extends(1) [OF f])
  have "c1 = cache' \<or> (\<exists>res'. load_lookups E c1 ls = (res', cache'))"
    using Cons.prems f by (auto split: sum.splits prod.splits)
  then show ?case using le Cons.IH map_le_trans by blast
qed simp

text \<open>What a successful resolution loads: every table's writable addresses, then the readonly ones.\<close>

definition loaded :: "alt_cache \<Rightarrow> (table_lookup \<Rightarrow> u8 list) \<Rightarrow> table_lookup list \<Rightarrow> pubkey list" where
  "loaded cache sel ls =
     concat (map (\<lambda>l. map (\<lambda>i. the (cache (tl_account_key l)) ! unat i) (sel l)) ls)"

lemma load_lookups_Inr:
  assumes "load_lookups E cache ls = (Inr (ws, rs), cache')"
  shows "ws = loaded cache' tl_writable_indexes ls \<and> rs = loaded cache' tl_readonly_indexes ls
    \<and> list_all (\<lambda>l. cache' (tl_account_key l) \<noteq> None) ls"
  using assms
proof (induction ls arbitrary: cache ws rs)
  case Nil
  then show ?case by (simp add: loaded_def)
next
  case (Cons l ls)
  obtain addrs c1 where f: "fetch_alt_addresses E cache (tl_account_key l) = (Inr addrs, c1)"
    using Cons.prems by (auto split: sum.splits prod.splits)
  then obtain w r wss rss where
      w: "pick_indexes addrs (tl_writable_indexes l) = Inr w"
    and r: "pick_indexes addrs (tl_readonly_indexes l) = Inr r"
    and rest: "load_lookups E c1 ls = (Inr (wss, rss), cache')"
    and eq: "ws = w @ wss" "rs = r @ rss"
    using Cons.prems by (auto split: sum.splits prod.splits)
  have "c1 (tl_account_key l) = Some addrs" using fetch_extends(2) [OF f] by simp
  then have "cache' (tl_account_key l) = Some addrs"
    using load_extends [OF rest] by (auto simp: map_le_def dom_def)
  then show ?case
    using Cons.IH [OF rest] pick_indexes_Inr [OF w] pick_indexes_Inr [OF r] eq
    by (simp add: loaded_def)
qed

text \<open>
  The lookup tables of the chain have a header of 56 bytes (\<open>LOOKUP_TABLE_META_SIZE\<close> of the address
  lookup table program); 56 is not 11 plus a multiple of 32, so each of them is rejected.
\<close>

lemma chain_header_is_rejected:
  assumes "length raw = 56 + 32 * n"
  shows "\<exists>e. decode_alt key raw = Inl e"
proof -
  have "length (drop 11 raw) mod 32 \<noteq> 0" using assms by simp
  then show ?thesis by (auto simp: decode_alt_def)
qed

section \<open>Properties\<close>

text \<open>
  C2: a provider transaction that passes validation
  needs exactly one signature, its payer is the configured signer, every instruction calls a
  program of the allowlist, and no instruction refers to an account outside the resolved list.
  That list is the message's static keys, then the writable addresses of all lookup tables, then
  the readonly ones, as the tables read from the chain have them; no table a resolver has read is
  replaced.
\<close>

theorem validated_transaction_is_safe:
  assumes "validate_provider_transaction E msg signer allowed cache = (Inr (), cache')"
  shows "\<exists>keys ixs. (keys, ixs) = (case msg of
        Legacy m \<Rightarrow> (ms_account_keys m, ms_instructions m)
      | V0 m ls \<Rightarrow> (ms_account_keys m @ loaded cache' tl_writable_indexes ls
                     @ loaded cache' tl_readonly_indexes ls, ms_instructions m))
    \<and> keys \<noteq> [] \<and> hd keys = signer
    \<and> (case msg of Legacy m \<Rightarrow> ms_num_required_signatures m
        | V0 m _ \<Rightarrow> ms_num_required_signatures m) = 1
    \<and> list_all (\<lambda>ix. unat (ci_program_id_index ix) < length keys
        \<and> (\<exists>s\<in>set allowed. key_parse E s = Some (keys ! unat (ci_program_id_index ix)))
        \<and> list_all (\<lambda>i. unat i < length keys) (ci_accounts ix)) ixs
    \<and> cache \<subseteq>\<^sub>m cache'"
proof -
  obtain allow keys req ixs where
      a: "parse_allowed E allowed = Inr allow"
    and m: "message_accounts E cache msg = (Inr (keys, req, ixs), cache')"
    and c: "req = 1" "keys \<noteq> []" "hd keys = signer"
    and ix: "check_instructions E allow keys ixs = Inr ()"
    using assms
    by (auto simp: validate_provider_transaction_def split: sum.splits prod.splits if_split_asm)
  have "(keys, ixs) = (case msg of
        Legacy m \<Rightarrow> (ms_account_keys m, ms_instructions m)
      | V0 m ls \<Rightarrow> (ms_account_keys m @ loaded cache' tl_writable_indexes ls
                     @ loaded cache' tl_readonly_indexes ls, ms_instructions m))
    \<and> req = (case msg of Legacy m \<Rightarrow> ms_num_required_signatures m
        | V0 m _ \<Rightarrow> ms_num_required_signatures m) \<and> cache \<subseteq>\<^sub>m cache'"
  proof (cases msg)
    case (V0 m ls)
    then obtain ws rs where "load_lookups E cache ls = (Inr (ws, rs), cache')"
      "keys = ms_account_keys m @ ws @ rs" "req = ms_num_required_signatures m"
      "ixs = ms_instructions m"
      using m by (auto simp: message_accounts_def resolve_v0_accounts_def
          split: sum.splits prod.splits)
    then show ?thesis using load_lookups_Inr load_extends V0 by simp
  qed (use m in \<open>simp add: message_accounts_def\<close>)
  moreover have "list_all (\<lambda>ix. unat (ci_program_id_index ix) < length keys
        \<and> (\<exists>s\<in>set allowed. key_parse E s = Some (keys ! unat (ci_program_id_index ix)))
        \<and> list_all (\<lambda>i. unat i < length keys) (ci_accounts ix)) ixs"
    using ix parse_allowed_set [OF a] by (simp add: check_instructions_Inr list_all_iff)
  ultimately show ?thesis using c by blast
qed

text \<open>A chain with one lookup table that holds one address, read by a V0 message.\<close>

definition sample_table :: "u8 list" where
  "sample_table = [1, 1, 0] @ replicate 8 0 @ replicate 32 7"

lemma sample_decode: "decode_alt key sample_table = Inr [replicate 32 7]"
proof -
  have h: "length sample_table = 43" "sample_table ! 0 = 1" "sample_table ! 1 = 1"
    "drop 11 sample_table = replicate 32 7"
    by (simp_all add: sample_table_def)
  have "chunks32 (Suc 0) (replicate 32 7) = [replicate 32 7]" by simp
  then show ?thesis using h by (simp add: decode_alt_def)
qed

definition sample_chain :: chain_env where
  "sample_chain = \<lparr>fetch_account = (\<lambda>_. Inr [Some ''data'']),
     base64_decode = (\<lambda>_. Inr sample_table), key_text = (\<lambda>_. ''key''),
     key_parse = (\<lambda>s. if s = ''prog'' then Some [9] else None)\<rparr>"

definition sample_message :: versioned_message where
  "sample_message = V0 \<lparr>ms_account_keys = [[5], [9]], ms_num_required_signatures = 1,
       ms_instructions = [\<lparr>ci_program_id_index = 1, ci_accounts = [0, 2]\<rparr>]\<rparr>
     [\<lparr>tl_account_key = [3], tl_writable_indexes = [0], tl_readonly_indexes = []\<rparr>]"

theorem validated_transaction_is_safe_witness:
  "\<exists>cache. validate_provider_transaction sample_chain sample_message [5] [''prog''] Map.empty
       = (Inr (), cache) \<and> Map.empty \<subseteq>\<^sub>m cache"
proof -
  obtain cache where v: "validate_provider_transaction sample_chain sample_message [5] [''prog'']
      Map.empty = (Inr (), cache)"
    by (simp add: validate_provider_transaction_def message_accounts_def resolve_v0_accounts_def
        sample_chain_def sample_message_def fetch_alt_addresses_def sample_decode)
  with validated_transaction_is_safe [OF v] show ?thesis by blast
qed

text \<open>
  A lookup table is either rejected or decoded
  completely. The account is its 11-byte header followed by the decoded addresses, each of 32
  bytes, with nothing left over, and the table is remembered so that later look-ups of it ask the
  chain no more.
\<close>

theorem lookup_table_decoding_exact:
  assumes "fetch_alt_addresses E cache k = (Inr addrs, cache')" and "cache k = None"
  shows "(\<exists>raw header. raw = header @ concat addrs \<and> length header = 11
       \<and> list_all (\<lambda>a. length a = 32) addrs \<and> header ! 0 = 1
       \<and> (\<exists>data rest. fetch_account E (key_text E k) = Inr (Some data # rest)
            \<and> base64_decode E data = Inr raw))
    \<and> fetch_alt_addresses E' cache' k = (Inr addrs, cache')"
proof -
  obtain data rest raw where d: "fetch_account E (key_text E k) = Inr (Some data # rest)"
      "base64_decode E data = Inr raw" "decode_alt (key_text E k) raw = Inr addrs"
    and c: "cache' = cache(k \<mapsto> addrs)"
    using assms by (auto simp: fetch_alt_addresses_def Let_def
        split: option.splits sum.splits list.splits)
  have "11 \<le> length raw" "raw ! 0 = 1"
    using d(3) by (auto simp: decode_alt_def not_less Let_def split: if_split_asm)
  then have "length (take 11 raw) = 11" "take 11 raw ! 0 = 1" by simp_all
  with decode_alt_shape [OF d(3)] d(1,2) c show ?thesis
    by (auto simp: fetch_alt_addresses_def intro!: exI [of _ "take 11 raw"])
qed

theorem lookup_table_decoding_exact_witness:
  "\<exists>cache. fetch_alt_addresses sample_chain Map.empty [3] = (Inr [replicate 32 7], cache)
     \<and> fetch_alt_addresses sample_chain cache [3] = (Inr [replicate 32 7], cache)"
proof -
  have f: "fetch_alt_addresses sample_chain Map.empty [3]
      = (Inr [replicate 32 7], [[3] \<mapsto> [replicate 32 7]])"
    by (simp add: fetch_alt_addresses_def sample_chain_def sample_decode)
  with lookup_table_decoding_exact [OF f] show ?thesis by simp
qed

end
