(* ===== verification/Jupiter.thy ===== *)
theory Jupiter
  imports Reconcile Tx_Policy "HOL-Library.Sublist"
begin

text \<open>
  \<open>src/execution/jupiter.rs\<close>: the live executor. The HTTP client, the RPC pool, the environment
  variables, the key pair and \<open>bincode\<close> are fields of \<open>jup_env\<close>: each says what the outside
  answers. The executor's own state is the rate limiter. A result of \<open>None\<close> is a panic, or a
  confirmation loop that is still polling after the answers it was given.
\<close>

section \<open>Environment\<close>

datatype env_error = NotPresent | NotUnicode string

text \<open>How a request ends: as far as the code tells the cases apart.\<close>

datatype 'v http =
    SendFailed string
  | TooManyRequests "u64 option"   \<comment> \<open>429 with its parsed retry-after header\<close>
  | BadStatus string
  | BadBody string
  | Body 'v

record ('v, 'f) jup_env =
  je_json :: "'v json"
  je_chain :: chain_env
  je_env_var :: "string \<Rightarrow> env_error + string"
  je_key_bytes :: "string \<Rightarrow> u8 list option"             \<comment> \<open>serde_json::from_str to bytes\<close>
  je_keypair :: "u8 list \<Rightarrow> pubkey option"               \<comment> \<open>Keypair::try_from, its public key\<close>
  je_quote_request :: "string \<Rightarrow> string \<Rightarrow> u64 \<Rightarrow> u16 \<Rightarrow> string option \<Rightarrow> 'v http"
  je_swap_request :: "string \<Rightarrow> string \<Rightarrow> u64 \<Rightarrow> string option \<Rightarrow> 'v http"
  je_base64 :: "string \<Rightarrow> u8 list option"
  je_bincode :: "u8 list \<Rightarrow> versioned_message option"
  je_sign :: "versioned_message \<Rightarrow> pubkey \<Rightarrow> string option"
  je_wire :: "string \<Rightarrow> string option"
  je_send :: "string \<Rightarrow> 'v rpc_answer"
  je_polls :: "string \<Rightarrow> (bool \<times> 'v signature_status option rpc_answer) list"
  je_transactions :: "string \<Rightarrow> nat \<Rightarrow> 'v option rpc_answer"
  je_f64 :: "string \<Rightarrow> 'f option"                        \<comment> \<open>str::parse::<f64>\<close>
  je_f64_ok :: "'f \<Rightarrow> bool"                              \<comment> \<open>finite and not below zero\<close>
  je_f64_bps :: "'f \<Rightarrow> u32"                              \<comment> \<open>(x * 10_000.0) as u32\<close>

record jupiter_executor =
  jx_signer_env :: "string option"
  jx_api_key_env :: "string option"
  jx_max_quote_age_secs :: int
  jx_max_fee_lamports :: u64
  jx_allowed_program_ids :: "string list"
  jx_priority_fee_lamports :: u64

section \<open>Secrets\<close>

definition jup_signer :: "('v, 'f) jup_env \<Rightarrow> jupiter_executor \<Rightarrow> execution_error + pubkey" where
  "jup_signer E jx = (case jx_signer_env jx of
       None \<Rightarrow> Inl (Unavailable ''live signer environment variable is not configured'')
     | Some variable \<Rightarrow>
       (case je_env_var E variable of
          Inl _ \<Rightarrow> Inl (Unavailable ''live signer secret is absent'')
        | Inr raw \<Rightarrow>
          (case je_key_bytes E raw of
             None \<Rightarrow> Inl (Unavailable ''live signer must be a JSON byte array'')
           | Some bytes \<Rightarrow>
             (case je_keypair E bytes of
                None \<Rightarrow> Inl (Unavailable ''invalid signer keypair'')
              | Some key \<Rightarrow> Inr key))))"

fun env_error_text :: "env_error \<Rightarrow> string" where
  "env_error_text NotPresent = ''environment variable not found''"
| "env_error_text (NotUnicode s) = ''environment variable was not valid unicode: '' @ s"

definition jup_api_key ::
    "('v, 'f) jup_env \<Rightarrow> jupiter_executor \<Rightarrow> execution_error + string option" where
  "jup_api_key E jx = (case jx_api_key_env jx of
       None \<Rightarrow> Inr None
     | Some variable \<Rightarrow>
       if variable = [] then Inr None
       else case je_env_var E variable of
         Inr val \<Rightarrow> if val \<noteq> [] then Inr (Some val) else Inr None
       | Inl NotPresent \<Rightarrow> Inr None
       | Inl e \<Rightarrow> Inl (Unavailable (''Jupiter API key env var error: '' @ env_error_text e)))"

definition is_live :: "jupiter_executor \<Rightarrow> bool" where
  "is_live jx \<longleftrightarrow> jx_signer_env jx \<noteq> None"

definition signer_pubkey :: "('v, 'f) jup_env \<Rightarrow> jupiter_executor \<Rightarrow> string option" where
  "signer_pubkey E jx = (case jup_signer E jx of
     Inl _ \<Rightarrow> None | Inr key \<Rightarrow> Some (key_text (je_chain E) key))"

section \<open>Quotes\<close>

definition parse_amount :: "'v json \<Rightarrow> 'v \<Rightarrow> string \<Rightarrow> execution_error + u64" where
  "parse_amount J v n = (case jv_str J (jv_index J v n) of
       None \<Rightarrow> Inl (QuoteError (''missing '' @ n))
     | Some x \<Rightarrow> (case parse_u64 x of
         None \<Rightarrow> Inl (QuoteError (''invalid '' @ n))
       | Some a \<Rightarrow> Inr a))"

definition parse_quote ::
    "('v, 'f) jup_env \<Rightarrow> string \<Rightarrow> string \<Rightarrow> 'v \<Rightarrow> datetime \<Rightarrow> execution_error + quote" where
  "parse_quote E input output v now =
    (let J = je_json E;
         text = (case jv_str J (jv_index J v ''priceImpactPct'') of None \<Rightarrow> ''0'' | Some s \<Rightarrow> s)
     in case je_f64 E text of
          None \<Rightarrow> Inl (QuoteError ''invalid price impact'')
        | Some impact \<Rightarrow>
          if \<not> je_f64_ok E impact
          then Inl (QuoteError ''invalid negative/non-finite price impact'')
          else case parse_amount J v ''inAmount'' of
            Inl e \<Rightarrow> Inl e
          | Inr in_amount \<Rightarrow>
            (case parse_amount J v ''outAmount'' of
               Inl e \<Rightarrow> Inl e
             | Inr out_amount \<Rightarrow> Inr
                 \<lparr>q_input_mint = input, q_output_mint = output, q_input_amount = in_amount,
                  q_output_amount = out_amount, q_price_impact_bps = je_f64_bps E impact,
                  q_route = jv_show J v, q_observed_at = now\<rparr>))"

text \<open>\<open>quote\<close>, with the limiter it leaves; \<open>clock\<close> is the instant of the call in seconds.\<close>

definition jupiter_quote ::
    "('v, 'f) jup_env \<Rightarrow> jupiter_executor \<Rightarrow> nat \<Rightarrow> datetime \<Rightarrow> string \<Rightarrow> string \<Rightarrow> u64 \<Rightarrow> u16
     \<Rightarrow> rate_limit \<Rightarrow> (execution_error + quote) \<times> rate_limit" where
  "jupiter_quote E jx clock now input output amount slippage rl =
    (if amount = 0 then (Inl (QuoteError ''quote amount must be non-zero''), rl)
     else case rate_limit_remaining clock rl of
       Some remaining \<Rightarrow>
         (Inl (Unavailable (''Jupiter rate-limited; retry in '' @ show_nat remaining @ ''s'')), rl)
     | None \<Rightarrow>
       (case jup_api_key E jx of
          Inl e \<Rightarrow> (Inl e, rl)
        | Inr key \<Rightarrow>
          (case je_quote_request E input output amount slippage key of
             SendFailed e \<Rightarrow> (Inl (QuoteError e), rl)
           | TooManyRequests retry_after \<Rightarrow>
               (let (wait, rl') = record_rate_limit clock retry_after rl
                in (Inl (Unavailable (''Jupiter HTTP 429 rate-limited; backing off ''
                      @ show_word wait @ ''s'')), rl'))
           | BadStatus e \<Rightarrow> (Inl (QuoteError e), rl)
           | BadBody e \<Rightarrow> (Inl (QuoteError e), rl)
           | Body v \<Rightarrow> (parse_quote E input output v now, clear_rate_limit rl))))"

section \<open>Execution\<close>

fun policy_text :: "policy_error \<Rightarrow> string" where
  "policy_text (MalformedAlt s) = ''address lookup table data is malformed: '' @ s"
| "policy_text (AltFetchFailed s) = ''failed to fetch address lookup table from chain: '' @ s"
| "policy_text Signers = ''transaction has unexpected signer layout''"
| "policy_text Payer = ''transaction payer differs from configured signer''"
| "policy_text (ProgramId s) = ''invalid allowed program id: '' @ s"
| "policy_text (Program s) = ''unexpected program: '' @ s"
| "policy_text AccountIndex = ''instruction references an invalid account index''"

text \<open>\<open>to_lowercase\<close> on the ASCII letters, the only ones the patterns below look for.\<close>

definition ascii_lower :: "string \<Rightarrow> string" where
  "ascii_lower = map (\<lambda>c. let n = of_char c :: nat in
     if 65 \<le> n \<and> n \<le> 90 then char_of (n + 32) else c)"

definition classify_submit_error :: "string \<Rightarrow> execution_error" where
  "classify_submit_error detail =
    (let lower = ascii_lower detail in
     if sublist ''simulation failed'' lower \<or> sublist ''blockhash'' lower
        \<or> sublist ''block hash'' lower
     then Transaction (''submission refused deterministically: '' @ detail)
     else UnknownOutcome None (''submission not confirmed: '' @ detail))"

text \<open>The checks before anything is sent.\<close>

definition request_ok :: "jupiter_executor \<Rightarrow> datetime \<Rightarrow> execution_request \<Rightarrow> execution_error + unit" where
  "request_ok jx now r =
    (if now - q_observed_at (r_quote r) > secs (jx_max_quote_age_secs jx) then Inl StaleQuote
     else if q_price_impact_bps (r_quote r) > r_max_price_impact_bps r then Inl InvalidQuote
     else if q_output_amount (r_quote r) = 0
          \<or> q_output_amount (r_quote r) < r_min_output_amount r then Inl InvalidQuote
     else Inr ())"

text \<open>The provider's transaction: decoded, validated, signed and encoded.\<close>

definition signed_wire ::
    "('v, 'f) jup_env \<Rightarrow> jupiter_executor \<Rightarrow> pubkey \<Rightarrow> 'v \<Rightarrow> execution_error + string" where
  "signed_wire E jx key swap =
    (case jv_str (je_json E) (jv_index (je_json E) swap ''swapTransaction'') of
       None \<Rightarrow> Inl (Transaction ''provider omitted transaction'')
     | Some encoded \<Rightarrow>
       (case je_base64 E encoded of
          None \<Rightarrow> Inl (Transaction ''invalid provider transaction encoding'')
        | Some bytes \<Rightarrow>
          (case je_bincode E bytes of
             None \<Rightarrow> Inl (Transaction ''invalid provider transaction'')
           | Some msg \<Rightarrow>
             (case fst (validate_provider_transaction (je_chain E) msg key
                      (jx_allowed_program_ids jx) Map.empty) of
                Inl e \<Rightarrow> Inl (Policy (policy_text e))
              | Inr _ \<Rightarrow>
                (case je_sign E msg key of
                   None \<Rightarrow> Inl (Transaction ''could not sign provider transaction'')
                 | Some tx \<Rightarrow>
                   (case je_wire E tx of
                      None \<Rightarrow> Inl (Transaction ''could not serialize transaction'')
                    | Some wire \<Rightarrow> Inr wire))))))"

definition submit :: "('v, 'f) jup_env \<Rightarrow> string \<Rightarrow> execution_error + string" where
  "submit E wire = (case je_send E wire of
       Inr sent \<Rightarrow> (case jv_str (je_json E) sent of
           None \<Rightarrow> Inl (UnknownOutcome None ''missing transaction signature in submission response'')
         | Some sig \<Rightarrow> Inr sig)
     | Inl e \<Rightarrow> if rf_availability e then Inl (classify_submit_error (rf_text e))
               else Inl (UnknownOutcome None (rf_text e)))"

text \<open>What follows the submission: confirmation, the outcome on the chain, the fee cap, the value.\<close>

definition settle ::
    "ext \<Rightarrow> ('v, 'f) jup_env \<Rightarrow> jupiter_executor \<Rightarrow> string \<Rightarrow> execution_request \<Rightarrow> string
     \<Rightarrow> datetime \<Rightarrow> u64 \<Rightarrow> (execution_error + fill) option" where
  "settle X E jx owner r sig now latency =
    try_res (await_confirmation (je_json E) sig (je_polls E sig)) (\<lambda>_.
    try_res (Some (verify_outcome (je_json E) sig
      (\<lambda>tx. parse_swap_transaction (je_json E) tx (q_input_mint (r_quote r))
         (q_output_mint (r_quote r)) owner (q_input_amount (r_quote r)))
      (je_transactions E sig))) (\<lambda>out.
    try_res (Some (verify_onchain_fee (co_fee_lamports out) (jx_max_fee_lamports jx))) (\<lambda>_.
    try_res (price_fill X (r_value_basis r) (co_input_amount out) (r_input_decimals r)
      (co_output_amount out) (r_output_decimals r)) (\<lambda>(value_usd, price_usd).
    Some (Inr \<lparr>f_order_id = r_order_id r, f_signature = sig,
       f_input_amount = co_input_amount out, f_output_amount = co_output_amount out,
       f_price_usd = price_usd, f_fees_usd = 0, f_slippage_bps = 0, f_confirmed_at = now,
       f_latency_ms = latency, f_fee_lamports = co_fee_lamports out,
       f_input_value_usd = Some value_usd,
       f_expected_output_amount = Some (q_output_amount (r_quote r))\<rparr>)))))"

text \<open>\<open>execute\<close>; \<open>now\<close> is read at the start and \<open>now'\<close> when the fill is built.\<close>

definition jupiter_execute ::
    "ext \<Rightarrow> ('v, 'f) jup_env \<Rightarrow> jupiter_executor \<Rightarrow> nat \<Rightarrow> datetime \<Rightarrow> datetime \<Rightarrow> u64
     \<Rightarrow> rate_limit \<Rightarrow> execution_request \<Rightarrow> ((execution_error + fill) \<times> rate_limit) option" where
  "jupiter_execute X E jx clock now now' latency rl r =
    (case request_ok jx now r of
       Inl e \<Rightarrow> Some (Inl e, rl)
     | Inr _ \<Rightarrow>
    (case jup_signer E jx of
       Inl e \<Rightarrow> Some (Inl e, rl)
     | Inr key \<Rightarrow>
    (case jup_api_key E jx of
       Inl e \<Rightarrow> Some (Inl e, rl)
     | Inr api \<Rightarrow>
    (case verify_presubmission_fee X (jx_priority_fee_lamports jx) (jx_max_fee_lamports jx) of
       None \<Rightarrow> None
     | Some (Inl e) \<Rightarrow> Some (Inl e, rl)
     | Some (Inr _) \<Rightarrow>
    (let owner = key_text (je_chain E) key in
     case je_swap_request E (q_route (r_quote r)) owner (jx_priority_fee_lamports jx) api of
       SendFailed e \<Rightarrow> Some (Inl (Transaction e), rl)
     | TooManyRequests retry_after \<Rightarrow>
         (let (wait, rl') = record_rate_limit clock retry_after rl
          in Some (Inl (Unavailable (''Jupiter swap HTTP 429 rate-limited; backing off ''
                @ show_word wait @ ''s'')), rl'))
     | BadStatus e \<Rightarrow> Some (Inl (Transaction e), rl)
     | BadBody e \<Rightarrow> Some (Inl (Transaction e), rl)
     | Body swap \<Rightarrow> map_option (\<lambda>res. (res, clear_rate_limit rl))
         (try_res (Some (signed_wire E jx key swap)) (\<lambda>wire.
          try_res (Some (submit E wire)) (\<lambda>sig.
            settle X E jx owner r sig now' latency))))))))"

section \<open>Facts\<close>

lemma await_confirmation_Inr:
  "await_confirmation J sig polls = Some (Inr ()) \<Longrightarrow>
     \<exists>status. (False, Inr (Some status)) \<in> set polls \<and> ss_err status = None
       \<and> is_confirmed_or_finalized status"
  by (induction J sig polls rule: await_confirmation.induct)
    (auto split: if_split_asm sum.split_asm option.split_asm)

lemma await_confirmation_returns:
  "list_ex fst polls \<Longrightarrow> await_confirmation J sig polls \<noteq> None"
  by (induction J sig polls rule: await_confirmation.induct)
    (auto split: sum.split option.split)

lemma outcome_result_Inr: "outcome_result J sig so = Inr out \<longleftrightarrow> so = Executed out"
  by (cases so) auto

lemma verify_loop_Inr:
  "verify_loop J sig parse answers = Inr out \<Longrightarrow>
     \<exists>tx. Inr (Some tx) \<in> set answers \<and> parse tx = Executed out"
  by (induction J sig parse answers rule: verify_loop.induct)
    (auto simp: outcome_result_Inr split: if_split_asm)

lemma verify_outcome_Inr:
  "verify_outcome J sig parse answers = Inr out \<Longrightarrow>
     \<exists>i<3. \<exists>tx. answers i = Inr (Some tx) \<and> parse tx = Executed out"
  unfolding verify_outcome_def by (drule verify_loop_Inr) (fastforce simp: eq_commute)

lemma presubmission_Inr:
  "verify_presubmission_fee X prio cap = Some (Inr ()) \<Longrightarrow> prio + 5000 \<le> cap"
  by (auto simp: verify_presubmission_fee_def Let_def split: if_split_asm)

lemma request_ok_Inr:
  "request_ok jx now r = Inr () \<longleftrightarrow>
     now - q_observed_at (r_quote r) \<le> secs (jx_max_quote_age_secs jx)
     \<and> q_price_impact_bps (r_quote r) \<le> r_max_price_impact_bps r
     \<and> q_output_amount (r_quote r) \<noteq> 0 \<and> r_min_output_amount r \<le> q_output_amount (r_quote r)"
  by (auto simp: request_ok_def not_less)

lemma signed_wire_Inr:
  assumes "signed_wire E jx key swap = Inr wire"
  obtains msg tx cache where
    "validate_provider_transaction (je_chain E) msg key (jx_allowed_program_ids jx) Map.empty
       = (Inr (), cache)"
    "je_sign E msg key = Some tx" "je_wire E tx = Some wire"
proof -
  obtain msg tx u where
      v: "fst (validate_provider_transaction (je_chain E) msg key (jx_allowed_program_ids jx)
            Map.empty) = Inr u"
    and t: "je_sign E msg key = Some tx" "je_wire E tx = Some wire"
    using assms by (auto simp: signed_wire_def split: option.split_asm sum.split_asm)
  then show ?thesis using that [OF _ t] by (metis (full_types) old.unit.exhaust prod.collapse)
qed

text \<open>A successful settlement: the chain confirmed the signature and shows the swap.\<close>

lemma settle_Inr:
  assumes "settle X E jx owner r sig now latency = Some (Inr f)"
  obtains out where
    "\<exists>status. (False, Inr (Some status)) \<in> set (je_polls E sig) \<and> ss_err status = None
       \<and> is_confirmed_or_finalized status"
    "\<exists>i<3. \<exists>tx. je_transactions E sig i = Inr (Some tx)
       \<and> parse_swap_transaction (je_json E) tx (q_input_mint (r_quote r))
           (q_output_mint (r_quote r)) owner (q_input_amount (r_quote r)) = Executed out"
    "co_fee_lamports out \<le> jx_max_fee_lamports jx"
    "f_signature f = sig" "f_order_id f = r_order_id r"
    "f_input_amount f = co_input_amount out" "f_output_amount f = co_output_amount out"
    "f_fee_lamports f = co_fee_lamports out"
proof -
  obtain out where
      a: "await_confirmation (je_json E) sig (je_polls E sig) = Some (Inr ())"
    and o: "verify_outcome (je_json E) sig
        (\<lambda>tx. parse_swap_transaction (je_json E) tx (q_input_mint (r_quote r))
           (q_output_mint (r_quote r)) owner (q_input_amount (r_quote r)))
        (je_transactions E sig) = Inr out"
    and c: "verify_onchain_fee (co_fee_lamports out) (jx_max_fee_lamports jx) = Inr ()"
    and f: "f_signature f = sig" "f_order_id f = r_order_id r"
    "f_input_amount f = co_input_amount out" "f_output_amount f = co_output_amount out"
    "f_fee_lamports f = co_fee_lamports out"
    using assms by (auto simp: settle_def panic_simps)
  have "co_fee_lamports out \<le> jx_max_fee_lamports jx"
    using c by (auto simp: verify_onchain_fee_def not_less split: if_split_asm)
  from that [OF await_confirmation_Inr [OF a] verify_outcome_Inr [OF o] this f] show ?thesis .
qed

text \<open>A successful execution, step by step.\<close>

lemma jupiter_execute_Inr:
  assumes "jupiter_execute X E jx clock now now' latency rl r = Some (Inr f, rl')"
  obtains key swap wire sig where
    "request_ok jx now r = Inr ()" "jup_signer E jx = Inr key"
    "verify_presubmission_fee X (jx_priority_fee_lamports jx) (jx_max_fee_lamports jx)
       = Some (Inr ())"
    "signed_wire E jx key swap = Inr wire" "submit E wire = Inr sig"
    "settle X E jx (key_text (je_chain E) key) r sig now' latency = Some (Inr f)"
    "rl' = clear_rate_limit rl"
  using assms
  by (auto simp: jupiter_execute_def Let_def panic_simps split: sum.split_asm option.split_asm
      http.split_asm prod.split_asm)

lemma submit_Inr:
  "submit E wire = Inr sig \<Longrightarrow>
     \<exists>sent. je_send E wire = Inr sent \<and> jv_str (je_json E) sent = Some sig"
  by (auto simp: submit_def split: sum.split_asm option.split_asm if_split_asm)

section \<open>Properties\<close>

text \<open>
  C1: A live fill went through every guard. The quote was fresh,
  its impact and output within the limits of the request, and the estimated fee within the cap;
  the provider's transaction passed the policy before it was signed, and exactly what was signed
  was submitted under the signature the fill carries; the chain confirmed that signature without an
  error in a poll before the deadline, and one of at most three reads of the transaction shows the
  executed swap whose amounts the fill reports, with a fee within the cap.
\<close>

theorem live_fill_is_guarded:
  assumes "jupiter_execute X E jx clock now now' latency rl r = Some (Inr f, rl')"
  shows "now - q_observed_at (r_quote r) \<le> secs (jx_max_quote_age_secs jx)
    \<and> q_price_impact_bps (r_quote r) \<le> r_max_price_impact_bps r
    \<and> r_min_output_amount r \<le> q_output_amount (r_quote r) \<and> q_output_amount (r_quote r) \<noteq> 0
    \<and> jx_priority_fee_lamports jx + 5000 \<le> jx_max_fee_lamports jx
    \<and> f_fee_lamports f \<le> jx_max_fee_lamports jx
    \<and> (\<exists>key msg cache tx wire sent. jup_signer E jx = Inr key
         \<and> validate_provider_transaction (je_chain E) msg key (jx_allowed_program_ids jx) Map.empty
             = (Inr (), cache)
         \<and> je_sign E msg key = Some tx \<and> je_wire E tx = Some wire \<and> je_send E wire = Inr sent
         \<and> jv_str (je_json E) sent = Some (f_signature f)
         \<and> (\<exists>i<3. \<exists>chain_tx out. je_transactions E (f_signature f) i = Inr (Some chain_tx)
              \<and> parse_swap_transaction (je_json E) chain_tx (q_input_mint (r_quote r))
                  (q_output_mint (r_quote r)) (key_text (je_chain E) key)
                  (q_input_amount (r_quote r)) = Executed out
              \<and> co_input_amount out = f_input_amount f \<and> co_output_amount out = f_output_amount f
              \<and> co_fee_lamports out = f_fee_lamports f))
    \<and> (\<exists>status. (False, Inr (Some status)) \<in> set (je_polls E (f_signature f))
         \<and> ss_err status = None \<and> is_confirmed_or_finalized status)
    \<and> f_order_id f = r_order_id r \<and> consecutive_429s rl' = 0"
proof -
  obtain key swap wire sig where
      ok: "request_ok jx now r = Inr ()" and k: "jup_signer E jx = Inr key"
    and pre: "verify_presubmission_fee X (jx_priority_fee_lamports jx) (jx_max_fee_lamports jx)
       = Some (Inr ())"
    and w: "signed_wire E jx key swap = Inr wire" and s: "submit E wire = Inr sig"
    and se: "settle X E jx (key_text (je_chain E) key) r sig now' latency = Some (Inr f)"
    and rl: "rl' = clear_rate_limit rl"
    by (rule jupiter_execute_Inr [OF assms]) (rule that)
  obtain msg tx cache where
      v: "validate_provider_transaction (je_chain E) msg key (jx_allowed_program_ids jx) Map.empty
       = (Inr (), cache)"
    and t: "je_sign E msg key = Some tx" "je_wire E tx = Some wire"
    by (rule signed_wire_Inr [OF w]) (rule that)
  obtain out where
      c: "\<exists>status. (False, Inr (Some status)) \<in> set (je_polls E sig) \<and> ss_err status = None
       \<and> is_confirmed_or_finalized status"
    and o: "\<exists>i<3. \<exists>tx. je_transactions E sig i = Inr (Some tx)
       \<and> parse_swap_transaction (je_json E) tx (q_input_mint (r_quote r))
           (q_output_mint (r_quote r)) (key_text (je_chain E) key) (q_input_amount (r_quote r))
         = Executed out"
    and f: "co_fee_lamports out \<le> jx_max_fee_lamports jx"
    "f_signature f = sig" "f_order_id f = r_order_id r"
    "f_input_amount f = co_input_amount out" "f_output_amount f = co_output_amount out"
    "f_fee_lamports f = co_fee_lamports out"
    by (rule settle_Inr [OF se]) (rule that)
  have "consecutive_429s rl' = 0" unfolding rl by (simp add: clear_rate_limit_def)
  moreover have "\<exists>i<3. \<exists>chain_tx out. je_transactions E (f_signature f) i = Inr (Some chain_tx)
              \<and> parse_swap_transaction (je_json E) chain_tx (q_input_mint (r_quote r))
                  (q_output_mint (r_quote r)) (key_text (je_chain E) key)
                  (q_input_amount (r_quote r)) = Executed out
              \<and> co_input_amount out = f_input_amount f \<and> co_output_amount out = f_output_amount f
              \<and> co_fee_lamports out = f_fee_lamports f"
    using o f by auto
  moreover obtain sent where n: "je_send E wire = Inr sent"
      "jv_str (je_json E) sent = Some (f_signature f)"
    using submit_Inr [OF s] f(2) by auto
  moreover note ok [unfolded request_ok_Inr] presubmission_Inr [OF pre] c [folded f(2)] f(1,3,6)
  ultimately show ?thesis using k v t by (simp only: simp_thms) metis
qed

text \<open>A run: a legacy transaction of one allowed program, sent, confirmed and read back.\<close>

definition sample_jup_env :: "(jval, unit) jup_env" where
  "sample_jup_env = \<lparr>je_json = jval_ops, je_chain = sample_chain\<lparr>key_text := (\<lambda>_. ''w'')\<rparr>,
     je_env_var = (\<lambda>_. Inr ''secret''), je_key_bytes = (\<lambda>_. Some [5]),
     je_keypair = (\<lambda>k. Some k), je_quote_request = (\<lambda>_ _ _ _ _. SendFailed ''down''),
     je_swap_request = (\<lambda>_ _ _ _. Body (JDict [(''swapTransaction'', JText ''tx'')])),
     je_base64 = (\<lambda>_. Some [1]),
     je_bincode = (\<lambda>_. Some (Legacy \<lparr>ms_account_keys = [[5], [9]], ms_num_required_signatures = 1,
        ms_instructions = [\<lparr>ci_program_id_index = 1, ci_accounts = [0]\<rparr>]\<rparr>)),
     je_sign = (\<lambda>_ _. Some ''signed''), je_wire = (\<lambda>t. Some t), je_send = (\<lambda>_. Inr (JText ''sig'')),
     je_polls = (\<lambda>_. [(False, Inr (Some \<lparr>ss_err = None,
        ss_confirmation_status = Some ''confirmed'', ss_slot = 1\<rparr>))]),
     je_transactions = (\<lambda>_ _. Inr (Some (swap_json ''150'' ''100''))),
     je_f64 = (\<lambda>_. None), je_f64_ok = (\<lambda>_. True), je_f64_bps = (\<lambda>_. 0)\<rparr>"

definition sample_jupiter :: "u64 \<Rightarrow> jupiter_executor" where
  "sample_jupiter cap = \<lparr>jx_signer_env = Some ''KEY'', jx_api_key_env = None,
     jx_max_quote_age_secs = 3, jx_max_fee_lamports = cap, jx_allowed_program_ids = [''prog''],
     jx_priority_fee_lamports = 1000\<rparr>"

definition sample_live_request :: execution_request where
  "sample_live_request = \<lparr>r_order_id = ''o'', r_quote = \<lparr>q_input_mint = ''m'', q_output_mint = ''u'',
       q_input_amount = 50, q_output_amount = 30, q_price_impact_bps = 30, q_route = ''{}'',
       q_observed_at = 0\<rparr>,
     r_max_slippage_bps = 100, r_max_price_impact_bps = 300, r_min_output_amount = 29,
     r_input_decimals = 0, r_output_decimals = 0, r_value_basis = OutputUnitPriceUsd 2\<rparr>"

lemma sample_parse:
  "parse_swap_transaction jval_ops (swap_json ''150'' ''100'') ''m'' ''u'' ''w'' 50
   = Executed \<lparr>co_input_amount = 50, co_output_amount = 30, co_fee_lamports = 5000,
       co_block_time = None\<rparr>"
  using parse_swap_sample [of "''150''" 150 "''100''" 100 50] by (simp add: parse_sample)

lemma sample_wire: "signed_wire sample_jup_env (sample_jupiter cap) [5]
    (JDict [(''swapTransaction'', JText ''tx'')]) = Inr ''signed''"
  by (simp add: signed_wire_def sample_jup_env_def sample_jupiter_def jval_ops_def
      validate_provider_transaction_def message_accounts_def sample_chain_def)

lemma sample_submit: "submit sample_jup_env wire = Inr ''sig''"
  by (simp add: submit_def sample_jup_env_def jval_ops_def)

lemma sample_settle:
  "settle exact_ext sample_jup_env (sample_jupiter cap) ''w'' sample_live_request ''sig'' 0 7
   = (if 5000 > cap
      then Some (Inl (Policy (''on-chain transaction fee '' @ show_word (5000::u64)
        @ '' lamports exceeds configured maximum '' @ show_word cap)))
      else Some (Inr \<lparr>f_order_id = ''o'', f_signature = ''sig'', f_input_amount = 50,
        f_output_amount = 30, f_price_usd = 60 / 50, f_fees_usd = 0, f_slippage_bps = 0,
        f_confirmed_at = 0, f_latency_ms = 7, f_fee_lamports = 5000, f_input_value_usd = Some 60,
        f_expected_output_amount = Some 30\<rparr>))"
  by (simp add: settle_def verify_outcome_def numeral_3_eq_3 sample_jup_env_def sample_live_request_def
      sample_parse is_confirmed_or_finalized_def verify_onchain_fee_def price_fill_def units_def
      sample_jupiter_def checked_pow10_def dec_of_word_def fit_def dec_max_def)

lemma sample_execute:
  "\<exists>f. jupiter_execute exact_ext sample_jup_env (sample_jupiter 10000) 0 0 0 7 rl sample_live_request
     = Some (Inr f, clear_rate_limit rl) \<and> f_signature f = ''sig''"
proof -
  have k: "jup_signer sample_jup_env (sample_jupiter 10000) = Inr [5]"
    by (simp add: jup_signer_def sample_jup_env_def sample_jupiter_def)
  have a: "jup_api_key sample_jup_env (sample_jupiter 10000) = Inr None"
    by (simp add: jup_api_key_def sample_jupiter_def)
  have p: "verify_presubmission_fee exact_ext 1000 10000 = Some (Inr ())"
    by (simp add: verify_presubmission_fee_def checked_add_def Let_def)
  have r: "request_ok (sample_jupiter 10000) 0 sample_live_request = Inr ()"
    by (simp add: request_ok_def sample_live_request_def sample_jupiter_def secs_def nanos_def)
  have w: "key_text (je_chain sample_jup_env) [5] = ''w''"
    "je_swap_request sample_jup_env = (\<lambda>_ _ _ _. Body (JDict [(''swapTransaction'', JText ''tx'')]))"
    "jx_priority_fee_lamports (sample_jupiter 10000) = 1000"
    "jx_max_fee_lamports (sample_jupiter 10000) = 10000"
    by (simp_all add: sample_jup_env_def sample_jupiter_def)
  show ?thesis
    by (simp add: jupiter_execute_def r k a p w sample_wire sample_submit sample_settle)
qed

theorem live_fill_is_guarded_witness:
  "\<exists>f rl'. jupiter_execute exact_ext sample_jup_env (sample_jupiter 10000) 0 0 0 7
       \<lparr>consecutive_429s = 3, backoff_until = None\<rparr> sample_live_request = Some (Inr f, rl')
     \<and> f_fee_lamports f \<le> 10000 \<and> consecutive_429s rl' = 0"
proof -
  obtain f rl' where e: "jupiter_execute exact_ext sample_jup_env (sample_jupiter 10000) 0 0 0 7
       \<lparr>consecutive_429s = 3, backoff_until = None\<rparr> sample_live_request = Some (Inr f, rl')"
    using sample_execute by blast
  have "jx_max_fee_lamports (sample_jupiter 10000) = 10000" by (simp add: sample_jupiter_def)
  with live_fill_is_guarded [OF e] e show ?thesis by auto
qed

text \<open>
  Once the swap is on the chain the execution can still end in an error that is neither a fill nor
  an unknown outcome: the fee cap is checked after the confirmation.
\<close>

lemma fee_cap_fails_an_executed_swap:
  assumes "await_confirmation (je_json E) sig (je_polls E sig) = Some (Inr ())"
    and "verify_outcome (je_json E) sig
        (\<lambda>tx. parse_swap_transaction (je_json E) tx (q_input_mint (r_quote r))
           (q_output_mint (r_quote r)) owner (q_input_amount (r_quote r)))
        (je_transactions E sig) = Inr out"
    and "jx_max_fee_lamports jx < co_fee_lamports out"
  shows "\<exists>msg. settle X E jx owner r sig now latency = Some (Inl (Policy msg))"
  using assms by (simp add: settle_def verify_onchain_fee_def)


end
