(* ===== verification/Runtime_Exit.thy ===== *)
theory Runtime_Exit
  imports Execution Store
begin

text \<open>
  \<open>src/runtime.rs\<close>, the exit pipeline shared by the session, the exit monitor and the manual exit:
  \<open>execute_exit_order\<close> and its helpers. The executor is a pair of functions; faults of the database
  are choices of the environment, gathered in \<open>faults\<close>. A transaction can fail before the order is
  marked (\<open>TxEarly\<close>) or in the last statement and the commit (\<open>TxLate\<close>): the code treats the record
  it holds in memory differently in the two cases. Logging is left out.
\<close>

section \<open>Environment\<close>

record exec_env =
  xe_quote :: "string \<Rightarrow> string \<Rightarrow> u64 \<Rightarrow> u16 \<Rightarrow> execution_error + quote"
  xe_execute :: "execution_request \<Rightarrow> (execution_error + fill) option"

datatype tx_fault = TxFine | TxEarly string | TxLate string

record faults =
  ft_positions :: "string option"
  ft_incomplete :: "string option"
  ft_orders :: "string option"
  ft_reserve :: "string option"
  ft_update :: "order_state \<Rightarrow> bool"   \<comment> \<open>update_order fails on a record in that state\<close>
  ft_tx :: tx_fault

definition no_faults :: faults where
  "no_faults = \<lparr>ft_positions = None, ft_incomplete = None, ft_orders = None, ft_reserve = None,
     ft_update = (\<lambda>_. False), ft_tx = TxFine\<rparr>"

text \<open>A write whose failure is only logged.\<close>

definition persist :: "faults \<Rightarrow> order_record \<Rightarrow> datetime \<Rightarrow> store \<Rightarrow> store" where
  "persist ft ord now st = (if ft_update ft (o_state ord) then st else update_order ord now st)"

section \<open>Helpers\<close>

definition mark_price_from_quote ::
    "ext \<Rightarrow> u64 \<Rightarrow> u8 \<Rightarrow> decimal \<Rightarrow> u64 \<Rightarrow> u8 \<Rightarrow> decimal option option" where
  "mark_price_from_quote X quote_output base_dec base_price remaining token_dec =
    (if remaining = 0 \<or> quote_output = 0 then Some None
     else do {
       base \<leftarrow> units X quote_output base_dec;
       case base of
         Inl _ \<Rightarrow> Some None
       | Inr base_units \<Rightarrow> do {
           token \<leftarrow> units X remaining token_dec;
           case token of
             Inl _ \<Rightarrow> Some None
           | Inr token_units \<Rightarrow>
               if token_units = 0 then Some None
               else do {
                 v \<leftarrow> dec_mul X base_units base_price;
                 mark \<leftarrow> dec_div X v token_units;
                 Some (Some mark)
               }
         }
     })"

definition exit_idempotency_key :: "ext \<Rightarrow> string \<Rightarrow> u64 \<Rightarrow> string \<Rightarrow> u32 \<Rightarrow> string" where
  "exit_idempotency_key X position_id remaining reason attempt =
     sha256_hex X (str_bytes position_id @ le_bytes 8 remaining @ str_bytes reason
       @ le_bytes 4 attempt)"

definition equity_usd :: "ext \<Rightarrow> decimal \<Rightarrow> position list \<Rightarrow> decimal option" where
  "equity_usd X starting ps = fold (\<lambda>p acc. do {
       equity \<leftarrow> acc;
       pnl \<leftarrow> dec_add X (p_realized_pnl_usd p) (p_unrealized_pnl_usd p);
       dec_add X equity pnl
     }) ps (Some starting)"

definition aggregate_exposure :: "ext \<Rightarrow> position list \<Rightarrow> decimal option" where
  "aggregate_exposure X ps = fold (\<lambda>c acc. do { total \<leftarrow> acc; dec_add X total c })
     (List.map_filter p_entry_cost_usd ps) (Some 0)"

definition load_portfolio :: "store \<Rightarrow> storage_error + portfolio" where
  "load_portfolio st = (case positions st of Inl e \<Rightarrow> Inl e | Inr ps \<Rightarrow> Inr (load ps []))"

definition entries_blocked_by :: "store \<Rightarrow> bool" where
  "entries_blocked_by st \<longleftrightarrow> incomplete_orders st \<noteq> []"

definition min_output_of :: "ext \<Rightarrow> u64 \<Rightarrow> u16 \<Rightarrow> u64 option" where
  "min_output_of X output slippage =
    (if overflow_checks X \<and> 10000 < unat slippage then None
     else Some (sat_mul output (10000 - ucast slippage) div 10000))"

section \<open>The exit pipeline\<close>

datatype exit_exec_result =
  ExitConfirmed fill | ExitUnknown | ExitFailed string | ExitSkipped string

text \<open>What the checks before the reservation establish.\<close>

record exit_plan =
  xp_position :: position
  xp_remaining :: u64
  xp_base_price :: decimal
  xp_base_decimals :: u8
  xp_token_decimals :: u8
  xp_base_mint :: string
  xp_position_id :: string
  xp_attempt :: u32

definition same_exit :: "position \<Rightarrow> order_record \<Rightarrow> bool" where
  "same_exit p ord \<longleftrightarrow> o_kind ord = Exit \<and> o_position_id ord = p_position_id p"

definition plan_exit ::
    "faults \<Rightarrow> store \<Rightarrow> string \<Rightarrow> position list \<Rightarrow> exit_exec_result + exit_plan" where
  "plan_exit ft st mint stored =
    (case find (\<lambda>p. p_mint p = mint) stored of
       None \<Rightarrow> Inl (ExitSkipped (''no position for '' @ mint))
     | Some p \<Rightarrow>
       if p_state p \<noteq> PosOpen then Inl (ExitSkipped ''position not open'')
       else case trusted_remaining p of
         None \<Rightarrow> Inl (ExitSkipped ''quantity not trusted'')
       | Some remaining \<Rightarrow>
         (case ft_incomplete ft of
            Some e \<Rightarrow> Inl (ExitFailed (''inflight check failed: '' @ e))
          | None \<Rightarrow>
            if list_ex (same_exit p) (incomplete_orders st)
            then Inl (ExitSkipped ''exit order already in flight'')
            else case p_base_entry_price_usd p of
              None \<Rightarrow> Inl (ExitSkipped ''no base price'')
            | Some base_price \<Rightarrow>
              (case (p_base_mint_decimals p, p_token_decimals p) of
                 (Some base_dec, Some token_dec) \<Rightarrow>
                   (case p_base_mint p of
                      None \<Rightarrow> Inl (ExitSkipped ''no base mint'')
                    | Some base \<Rightarrow>
                      (let pid = (case p_position_id p of None \<Rightarrow> mint | Some i \<Rightarrow> i) in
                       case ft_orders ft of
                         Some e \<Rightarrow> Inl (ExitFailed (''order history read failed: '' @ e))
                       | None \<Rightarrow> Inr
                           \<lparr>xp_position = p, xp_remaining = remaining, xp_base_price = base_price,
                            xp_base_decimals = base_dec, xp_token_decimals = token_dec,
                            xp_base_mint = base, xp_position_id = pid,
                            xp_attempt = of_nat (length (filter
                              (\<lambda>ord. o_kind ord = Exit \<and> o_position_id ord = Some pid)
                              (all_orders st)))\<rparr>))
               | _ \<Rightarrow> Inl (ExitSkipped ''missing decimals''))))"

definition exit_order ::
    "ext \<Rightarrow> string \<Rightarrow> datetime \<Rightarrow> string \<Rightarrow> string \<Rightarrow> exit_plan \<Rightarrow> decimal \<Rightarrow> order_record" where
  "exit_order X uuid now mint reason xp mark_value =
     \<lparr>o_id = uuid, o_signal_id = p_signal_id (xp_position xp), o_mint = mint, o_kind = Exit,
      o_position_id = p_position_id (xp_position xp), o_side = SellSide, o_input_mint = Some mint,
      o_output_mint = Some (xp_base_mint xp), o_input_amount_atomic = Some (xp_remaining xp),
      o_input_value_usd = Some mark_value, o_output_mint_decimals = Some (xp_base_decimals xp),
      o_state = Pending,
      o_idempotency_key =
        exit_idempotency_key X (xp_position_id xp) (xp_remaining xp) reason (xp_attempt xp),
      o_created_at = now, o_signature = None, o_error = Some reason\<rparr>"

text \<open>
  The transaction that persists a confirmed exit, with the order record the closure leaves behind:
  it is changed in memory even when the transaction is rolled back.
\<close>

definition exit_transaction ::
    "ext \<Rightarrow> faults \<Rightarrow> datetime \<Rightarrow> store \<Rightarrow> position list \<Rightarrow> string \<Rightarrow> fill \<Rightarrow> string \<Rightarrow> order_record
     \<Rightarrow> ((string + exit_outcome \<times> store) \<times> order_record) option" where
  "exit_transaction X ft now st stored mint f reason placed =
    (case ft_tx ft of
       TxEarly e \<Rightarrow> Some (Inl e, placed)
     | _ \<Rightarrow>
       (let st1 = save_fill f st in
        case positions st1 of
          Inl _ \<Rightarrow> Some (Inl ''positions cannot be decoded'', placed)
        | Inr ps \<Rightarrow>
          (let pf = load ps [];
               pf1 = (case find (\<lambda>p. p_mint p = mint) stored of
                        None \<Rightarrow> pf | Some p \<Rightarrow> sync_position p pf)
           in case apply_exit X pf1 mint f reason now of
             None \<Rightarrow> None
           | Some (Inl e) \<Rightarrow> Some (Inl e, placed)
           | Some (Inr (out, pf2)) \<Rightarrow>
             (let st2 = (case position_of pf2 mint of None \<Rightarrow> st1 | Some p \<Rightarrow> save_position p st1);
                  placed1 = placed\<lparr>o_signature := Some (f_signature f)\<rparr>
              in case transition placed1 Confirmed of
                Inl e \<Rightarrow> Some (Inl (''order transition failed inside atomic tx: '' @ e), placed1)
              | Inr placed2 \<Rightarrow>
                (case ft_tx ft of
                   TxLate e \<Rightarrow> Some (Inl e, placed2)
                 | _ \<Rightarrow> Some (Inr (out, update_order placed2 now st2), placed2))))))"

text \<open>What follows a successful execution.\<close>

definition exit_persisted ::
    "ext \<Rightarrow> faults \<Rightarrow> datetime \<Rightarrow> store \<Rightarrow> position list \<Rightarrow> string \<Rightarrow> fill \<Rightarrow> string \<Rightarrow> order_record
     \<Rightarrow> portfolio \<Rightarrow> (exit_exec_result \<times> store \<times> portfolio) option" where
  "exit_persisted X ft now st stored mint f reason placed pf =
    (case exit_transaction X ft now st stored mint f reason placed of
       None \<Rightarrow> None
     | Some (Inr (_, st'), _) \<Rightarrow>
       (let pf1 = (case find (\<lambda>p. p_mint p = mint) stored of
                     None \<Rightarrow> pf | Some p \<Rightarrow> sync_position p pf)
        in case apply_exit X pf1 mint f reason now of
             None \<Rightarrow> None
           | Some (Inl _) \<Rightarrow> Some (ExitConfirmed f, st', pf1)
           | Some (Inr (_, pf2)) \<Rightarrow> Some (ExitConfirmed f, st', pf2))
     | Some (Inl e, placed') \<Rightarrow>
       (let placed1 = transition_or_keep (placed'\<lparr>o_signature := Some (f_signature f)\<rparr>) Unknown;
            placed2 = placed1\<lparr>o_error := Some (''atomic persistence failed: '' @ e)\<rparr>
        in Some (ExitFailed (''transactional persistence failed: '' @ e),
                 persist ft placed2 now st, pf)))"

text \<open>From the reserved order on: the quote, the submission and the outcome.\<close>

definition run_exit ::
    "ext \<Rightarrow> exec_env \<Rightarrow> (string option \<Rightarrow> string) \<Rightarrow> faults \<Rightarrow> config \<Rightarrow> datetime \<Rightarrow> string \<Rightarrow> string
     \<Rightarrow> position list \<Rightarrow> exit_plan \<Rightarrow> order_record \<Rightarrow> store \<Rightarrow> portfolio
     \<Rightarrow> (exit_exec_result \<times> store \<times> portfolio) option" where
  "run_exit X E dbg ft c now mint reason stored xp order st pf =
    (case xe_quote E mint (xp_base_mint xp) (xp_remaining xp) (slippage_bps (execution c)) of
       Inl e \<Rightarrow>
         (let msg = ''quote failed: '' @ error_text dbg e;
              o1 = transition_or_keep (order\<lparr>o_error := Some msg\<rparr>) Failed
          in Some (ExitFailed msg, persist ft o1 now st, pf))
     | Inr q \<Rightarrow>
       if q_price_impact_bps q > max_price_impact_bps (execution c)
       then (let o1 = transition_or_keep (order\<lparr>o_error := Some ''price impact limit''\<rparr>) Failed
             in Some (ExitFailed (''price impact '' @ show_word (q_price_impact_bps q)
                        @ '' bps exceeds limit ''
                        @ show_word (max_price_impact_bps (execution c))),
                      persist ft o1 now st, pf))
       else do {
         min_output \<leftarrow> min_output_of X (q_output_amount q) (slippage_bps (execution c));
         let placed = transition_or_keep order Submitted;
         let st1 = persist ft placed now st;
         res \<leftarrow> xe_execute E \<lparr>r_order_id = o_id order, r_quote = q,
             r_max_slippage_bps = max_slippage_bps (risk c),
             r_max_price_impact_bps = max_price_impact_bps (execution c),
             r_min_output_amount = min_output, r_input_decimals = xp_token_decimals xp,
             r_output_decimals = xp_base_decimals xp,
             r_value_basis = OutputUnitPriceUsd (xp_base_price xp)\<rparr>;
         case res of
           Inr f0 \<Rightarrow> do {
             f \<leftarrow> finalize_fill X f0 (cfg_sol_price_usd (economics c));
             exit_persisted X ft now st1 stored mint f reason placed pf
           }
         | Inl (UnknownOutcome sig detail) \<Rightarrow>
             (let p1 = (case sig of None \<Rightarrow> placed | Some s \<Rightarrow> placed\<lparr>o_signature := Some s\<rparr>);
                  p2 = (transition_or_keep p1 Unknown)\<lparr>o_error := Some detail\<rparr>
              in Some (ExitUnknown, persist ft p2 now st1, pf))
         | Inl e \<Rightarrow>
             (let p2 = (transition_or_keep placed Failed)\<lparr>o_error := Some (error_text dbg e)\<rparr>
              in Some (ExitFailed (error_text dbg e), persist ft p2 now st1, pf))
       })"

definition execute_exit_order ::
    "ext \<Rightarrow> exec_env \<Rightarrow> (string option \<Rightarrow> string) \<Rightarrow> faults \<Rightarrow> config \<Rightarrow> datetime \<Rightarrow> string
     \<Rightarrow> string \<Rightarrow> string \<Rightarrow> store \<Rightarrow> portfolio \<Rightarrow> (exit_exec_result \<times> store \<times> portfolio) option" where
  "execute_exit_order X E dbg ft c now uuid mint reason st pf =
    (case ft_positions ft of
       Some e \<Rightarrow> Some (ExitSkipped (''store read failed: '' @ e), st, pf)
     | None \<Rightarrow>
    (case positions st of
       Inl _ \<Rightarrow> Some (ExitSkipped ''store read failed: serialization'', st, pf)
     | Inr stored \<Rightarrow>
    (case plan_exit ft st mint stored of
       Inl res \<Rightarrow> Some (res, st, pf)
     | Inr xp \<Rightarrow>
    (case units X (xp_remaining xp) (xp_token_decimals xp) of
       None \<Rightarrow> None
     | Some (Inl _) \<Rightarrow> Some (ExitSkipped ''unit conversion failed'', st, pf)
     | Some (Inr q) \<Rightarrow>
       (case dec_mul X q (xp_base_price xp) of
          None \<Rightarrow> None
        | Some mark_value \<Rightarrow>
          (let order = exit_order X uuid now mint reason xp mark_value in
           case ft_reserve ft of
             Some e \<Rightarrow> Some (ExitFailed (''order reservation failed: '' @ e), st, pf)
           | None \<Rightarrow>
             (case reserve_order order now st of
                (Inl _, st') \<Rightarrow>
                  Some (ExitFailed ''order reservation failed: invalid order'', st', pf)
              | (Inr False, st') \<Rightarrow>
                  Some (ExitSkipped ''duplicate exit blocked by idempotency'', st', pf)
              | (Inr True, st') \<Rightarrow>
                  run_exit X E dbg ft c now mint reason stored xp order st' pf)))))))"

section \<open>Facts\<close>

text \<open>The store while an exit runs: what was there before and, last, the row of the exit order.\<close>

definition tail_order :: "order_row list \<Rightarrow> store \<Rightarrow> order_record \<Rightarrow> datetime \<Rightarrow> bool" where
  "tail_order rs st ord now \<longleftrightarrow> order_rows st = rs @ [row_of ord now]
     \<and> (\<forall>r\<in>set rs. row_id r \<noteq> o_id ord)"

definition same_order :: "order_record \<Rightarrow> order_record \<Rightarrow> bool" where
  "same_order ord ord' \<longleftrightarrow> o_id ord' = o_id ord \<and> o_idempotency_key ord' = o_idempotency_key ord
     \<and> o_kind ord' = o_kind ord \<and> o_position_id ord' = o_position_id ord \<and> o_mint ord' = o_mint ord"

lemma same_order_refl [simp]: "same_order ord ord"
  by (simp add: same_order_def)

lemma same_order_trans: "same_order a b \<Longrightarrow> same_order b c \<Longrightarrow> same_order a c"
  by (simp add: same_order_def)

lemma same_order_updates [simp]:
  "same_order ord (ord'\<lparr>o_signature := s\<rparr>) \<longleftrightarrow> same_order ord ord'"
  "same_order ord (ord'\<lparr>o_error := e\<rparr>) \<longleftrightarrow> same_order ord ord'"
  "same_order ord (ord'\<lparr>o_state := s'\<rparr>) \<longleftrightarrow> same_order ord ord'"
  "same_order ord (transition_or_keep ord' s') \<longleftrightarrow> same_order ord ord'"
  by (simp_all add: same_order_def)

lemma update_tail:
  assumes "tail_order rs st ord now" "same_order ord ord'"
  shows "tail_order rs (update_order ord' now st) ord' now"
proof -
  have "map (\<lambda>r. if row_id r = o_id ord'
     then r\<lparr>row_state := state_debug (o_state ord'), row_payload := ord', row_updated_at := now\<rparr>
     else r) rs = rs"
    using assms by (intro map_idI) (auto simp: tail_order_def same_order_def)
  then show ?thesis
    using assms by (simp add: tail_order_def same_order_def update_order_def row_of_def)
qed

lemma persist_tail:
  assumes "tail_order rs st ord now" "same_order ord ord'"
  shows "tail_order rs (persist ft ord' now st) (if ft_update ft (o_state ord') then ord else ord') now"
  using update_tail [OF assms] assms(1) by (simp add: persist_def)

lemma persist_fields [simp]:
  "kv (persist ft ord now st) = kv st" "fill_rows (persist ft ord now st) = fill_rows st"
  by (simp_all add: persist_def)

lemma tail_fields:
  "order_rows st' = order_rows st \<Longrightarrow> tail_order rs st' ord now = tail_order rs st ord now"
  by (simp add: tail_order_def)

lemma find_stored_mint: "find (\<lambda>p. p_mint p = mint) stored = Some p \<Longrightarrow> p_mint p = mint \<and> p \<in> set stored"
  by (auto simp: find_Some_iff)

lemma plan_exit_Inr:
  assumes "plan_exit ft st mint stored = Inr xp"
  shows "find (\<lambda>p. p_mint p = mint) stored = Some (xp_position xp)"
    and "trusted_remaining (xp_position xp) = Some (xp_remaining xp)"
    and "\<not> list_ex (same_exit (xp_position xp)) (incomplete_orders st)"
    and "p_base_entry_price_usd (xp_position xp) = Some (xp_base_price xp)"
    and "p_base_mint (xp_position xp) = Some (xp_base_mint xp)"
    and "p_token_decimals (xp_position xp) = Some (xp_token_decimals xp)"
    and "p_base_mint_decimals (xp_position xp) = Some (xp_base_decimals xp)"
  using assms
  by (auto simp: plan_exit_def Let_def split: option.split_asm if_split_asm)

lemma plan_exit_Inl:
  "plan_exit ft st mint stored = Inl res \<Longrightarrow> (\<exists>msg. res = ExitSkipped msg \<or> res = ExitFailed msg)"
  by (auto simp: plan_exit_def Let_def split: option.split_asm if_split_asm)

text \<open>What the transaction of a confirmed exit leaves when it commits, and when it does not.\<close>

lemma exit_transaction_Inr:
  assumes "exit_transaction X ft now st stored mint f reason placed = Some (Inr (out, st'), placed')"
    and "find (\<lambda>p. p_mint p = mint) stored = Some p"
  obtains remaining proceeds cost p' where
    "p_remaining_quantity_atomic p = Some remaining" "f_input_amount f \<le> remaining"
    "f_input_value_usd f = Some proceeds" "p_entry_cost_usd p = Some cost"
    "exit_update X f reason now (remaining - f_input_amount f) proceeds cost p = Some (out, p')"
    "st' = update_order placed' now (save_position p' (save_fill f st))"
    "placed' = placed\<lparr>o_signature := Some (f_signature f), o_state := Confirmed\<rparr>"
    "ft_tx ft = TxFine"
proof -
  have m: "p_mint p = mint" using find_stored_mint [OF assms(2)] by simp
  obtain ps pf2 where
      ps: "positions (save_fill f st) = Inr ps"
    and ex: "apply_exit X (sync_position p (load ps [])) mint f reason now = Some (Inr (out, pf2))"
    and t: "transition (placed\<lparr>o_signature := Some (f_signature f)\<rparr>) Confirmed = Inr placed'"
    and st': "st' = update_order placed' now (case position_of pf2 mint of
         None \<Rightarrow> save_fill f st | Some p \<Rightarrow> save_position p (save_fill f st))"
    and fine: "ft_tx ft = TxFine"
    using assms unfolding exit_transaction_def
    by (auto simp: Let_def split: tx_fault.split_asm sum.split_asm option.split_asm prod.split_asm)
  from ex m obtain remaining proceeds cost p' where
      "p_remaining_quantity_atomic p = Some remaining" "f_input_amount f \<le> remaining"
    "f_input_value_usd f = Some proceeds" "p_entry_cost_usd p = Some cost"
    "exit_update X f reason now (remaining - f_input_amount f) proceeds cost p = Some (out, p')"
    and pf2: "pf2 = AList.update mint p' (sync_position p (load ps []))"
    by (auto simp: apply_exit_Inr sync_position_def)
  moreover have "placed' = placed\<lparr>o_signature := Some (f_signature f), o_state := Confirmed\<rparr>"
    using t by (auto simp: transition_Inr)
  moreover have "st' = update_order placed' now (save_position p' (save_fill f st))"
    unfolding st' pf2 by (simp add: position_of_def)
  ultimately show ?thesis using that fine by blast
qed

lemma exit_transaction_Inl:
  assumes "exit_transaction X ft now st stored mint f reason placed = Some (Inl e, placed')"
  shows "same_order placed placed'"
  using assms unfolding exit_transaction_def
  by (auto simp: Let_def transition_Inr
      split: tx_fault.split_asm sum.split_asm option.split_asm prod.split_asm)

text \<open>The shape of every run after the reservation.\<close>

definition exit_ran ::
    "ext \<Rightarrow> faults \<Rightarrow> datetime \<Rightarrow> string \<Rightarrow> position \<Rightarrow> order_row list \<Rightarrow> order_record \<Rightarrow> store
     \<Rightarrow> portfolio \<Rightarrow> exit_exec_result \<Rightarrow> store \<Rightarrow> portfolio \<Rightarrow> bool" where
  "exit_ran X ft now reason p rs order st pf res st' pf' \<longleftrightarrow>
    (\<exists>ord'. tail_order rs st' ord' now \<and> same_order order ord'
       \<and> (case res of
            ExitConfirmed f \<Rightarrow> o_state ord' = Confirmed \<and> o_signature ord' = Some (f_signature f)
              \<and> fill_rows st' = AList.update (f_order_id f) f (fill_rows st)
              \<and> (\<exists>remaining proceeds cost out p'. p_remaining_quantity_atomic p = Some remaining
                   \<and> f_input_amount f \<le> remaining \<and> f_input_value_usd f = Some proceeds
                   \<and> p_entry_cost_usd p = Some cost
                   \<and> exit_update X f reason now (remaining - f_input_amount f) proceeds cost p
                       = Some (out, p')
                   \<and> kv st' = AList.update (position_key (p_mint p)) (VPosition p') (kv st))
          | ExitUnknown \<Rightarrow> kv st' = kv st \<and> fill_rows st' = fill_rows st \<and> pf' = pf
              \<and> \<not> is_terminal (o_state ord')
          | ExitFailed _ \<Rightarrow> kv st' = kv st \<and> fill_rows st' = fill_rows st \<and> pf' = pf
          | ExitSkipped _ \<Rightarrow> False))"

lemma exit_ran_cong:
  "kv st1 = kv st \<Longrightarrow> fill_rows st1 = fill_rows st \<Longrightarrow>
     exit_ran X ft now reason p rs order st1 pf res st' pf'
     = exit_ran X ft now reason p rs order st pf res st' pf'"
  unfolding exit_ran_def by (cases res) simp_all

lemma exit_persisted_ran:
  assumes run: "exit_persisted X ft now st1 stored mint f reason placed pf = Some (res, st', pf')"
    and p: "find (\<lambda>p. p_mint p = mint) stored = Some p"
    and tail: "tail_order rs st1 ord now" "same_order order ord" "same_order order placed"
      "same_order ord placed"
    and st1: "kv st1 = kv st" "fill_rows st1 = fill_rows st"
  shows "exit_ran X ft now reason p rs order st pf res st' pf'"
proof -
  obtain txres placed' where tx: "exit_transaction X ft now st1 stored mint f reason placed
      = Some (txres, placed')"
    using run by (auto simp: exit_persisted_def split: option.split_asm)
  show ?thesis
  proof (cases txres)
    case (Inl e)
    have so: "same_order placed placed'" using tx exit_transaction_Inl unfolding Inl by blast
    let ?p2 = "transition_or_keep (placed'\<lparr>o_signature := Some (f_signature f)\<rparr>) Unknown
        \<lparr>o_error := Some (''atomic persistence failed: '' @ e)\<rparr>"
    have r: "res = ExitFailed (''transactional persistence failed: '' @ e)"
      "st' = persist ft ?p2 now st1" "pf' = pf"
      using run tx Inl by (auto simp: exit_persisted_def Let_def)
    have s2: "same_order ord ?p2" using same_order_trans [OF tail(4) so] by simp
    have "tail_order rs st' (if ft_update ft (o_state ?p2) then ord else ?p2) now"
      unfolding r(2) by (rule persist_tail [OF tail(1) s2])
    moreover have "same_order order (if ft_update ft (o_state ?p2) then ord else ?p2)"
      using tail(2) same_order_trans [OF tail(3) so] by simp
    ultimately show ?thesis unfolding exit_ran_def using r st1
      by (intro exI [of _ "if ft_update ft (o_state ?p2) then ord else ?p2"]) simp
  next
    case (Inr os)
    obtain out st2 where os: "os = (out, st2)" by (cases os)
    have tx': "exit_transaction X ft now st1 stored mint f reason placed
        = Some (Inr (out, st2), placed')" using tx Inr os by simp
    have r: "res = ExitConfirmed f" "st' = st2"
      using run tx' by (auto simp: exit_persisted_def Let_def
          split: option.split_asm sum.split_asm prod.split_asm)
    obtain remaining proceeds cost p' where
        u: "p_remaining_quantity_atomic p = Some remaining" "f_input_amount f \<le> remaining"
      "f_input_value_usd f = Some proceeds" "p_entry_cost_usd p = Some cost"
      "exit_update X f reason now (remaining - f_input_amount f) proceeds cost p = Some (out, p')"
      and st2: "st2 = update_order placed' now (save_position p' (save_fill f st1))"
      and pl: "placed' = placed\<lparr>o_signature := Some (f_signature f), o_state := Confirmed\<rparr>"
      by (rule exit_transaction_Inr [OF tx' p]) (rule that)
    have "tail_order rs (save_position p' (save_fill f st1)) ord now"
      using tail(1) by (simp add: tail_order_def)
    from update_tail [OF this, of placed'] tail(4)
    have t: "tail_order rs st2 placed' now" unfolding st2 pl by simp
    have "p_mint p' = p_mint p" by (rule exit_update_frame(4) [OF u(5)])
    then have k: "kv st2 = AList.update (position_key (p_mint p)) (VPosition p') (kv st)"
      "fill_rows st2 = AList.update (f_order_id f) f (fill_rows st)"
      unfolding st2 using st1 by (simp_all add: save_position_def kv_put_def save_fill_def)
    show ?thesis unfolding exit_ran_def r
      using t k u tail(3) by (auto simp: pl intro!: exI [of _ placed'])
  qed
qed


text \<open>An attempt that fails, and one whose outcome stays unknown, leave the accounts as they were.\<close>

lemma exit_ran_failed:
  assumes "tail_order rs st1 ord now" "same_order order ord" "same_order ord o1"
    "kv st1 = kv st" "fill_rows st1 = fill_rows st"
  shows "exit_ran X ft now reason p rs order st pf (ExitFailed msg) (persist ft o1 now st1) pf"
  using persist_tail [OF assms(1,3)] assms(2,4,5) same_order_trans [OF assms(2,3)]
  unfolding exit_ran_def
  by (intro exI [of _ "if ft_update ft (o_state o1) then ord else o1"]) simp

lemma exit_ran_unknown:
  fixes placed :: order_record and sig :: "string option" and detail :: string
  defines "p1 \<equiv> (case sig of None \<Rightarrow> placed | Some s \<Rightarrow> placed\<lparr>o_signature := Some s\<rparr>)"
  defines "p2 \<equiv> (transition_or_keep p1 Unknown)\<lparr>o_error := Some detail\<rparr>"
  assumes "tail_order rs st1 ord now" "same_order order ord" "same_order ord placed"
    "o_state placed = Submitted" "kv st1 = kv st" "fill_rows st1 = fill_rows st"
    and op: "\<not> is_terminal (o_state ord)"
  shows "exit_ran X ft now reason p rs order st pf ExitUnknown (persist ft p2 now st1) pf"
proof -
  have p1: "o_state p1 = Submitted" "same_order ord p1"
    using assms(5,6) by (auto simp: p1_def split: option.split)
  have u: "o_state p2 = Unknown" using p1(1) by (simp add: p2_def transition_or_keep_state)
  have s2: "same_order ord p2" using p1 by (simp add: p2_def)
  have "tail_order rs (persist ft p2 now st1) (if ft_update ft (o_state p2) then ord else p2) now"
    by (rule persist_tail [OF assms(3) s2])
  then show ?thesis unfolding exit_ran_def
    using u s2 same_order_trans [OF assms(4) s2] assms(4,7,8) op
    by (intro exI [of _ "if ft_update ft (o_state p2) then ord else p2"]) simp
qed

lemma run_exit_ran:
  assumes run: "run_exit X E dbg ft c now mint reason stored xp order st pf = Some (res, st', pf')"
    and p: "find (\<lambda>p. p_mint p = mint) stored = Some (xp_position xp)"
    and tail: "tail_order rs st order now" and pend: "o_state order = Pending"
  shows "exit_ran X ft now reason (xp_position xp) rs order st pf res st' pf'"
proof -
  show ?thesis
  proof (cases "xe_quote E mint (xp_base_mint xp) (xp_remaining xp) (slippage_bps (execution c))")
    case (Inl e)
    then have "\<exists>msg o1. res = ExitFailed msg \<and> st' = persist ft o1 now st \<and> pf' = pf
        \<and> same_order order o1" using run by (auto simp: run_exit_def Let_def)
    then show ?thesis using exit_ran_failed [OF tail] by auto
  next
    case (Inr q)
    show ?thesis
    proof (cases "q_price_impact_bps q > max_price_impact_bps (execution c)")
      case True
      then have "\<exists>msg o1. res = ExitFailed msg \<and> st' = persist ft o1 now st \<and> pf' = pf
          \<and> same_order order o1" using run Inr by (auto simp: run_exit_def Let_def)
      then show ?thesis using exit_ran_failed [OF tail] by auto
    next
      case False
      let ?placed = "transition_or_keep order Submitted"
      let ?st1 = "persist ft ?placed now st"
      let ?ord = "if ft_update ft (o_state ?placed) then order else ?placed"
      have t1: "tail_order rs ?st1 ?ord now" by (rule persist_tail [OF tail]) simp
      have s1: "same_order order ?ord" "same_order ?ord ?placed" by (simp_all add: same_order_def)
      have sub: "o_state ?placed = Submitted" using pend by (simp add: transition_or_keep_state)
      have op: "\<not> is_terminal (o_state ?ord)" using pend sub by simp
      obtain mo res' where ex: "xe_execute E \<lparr>r_order_id = o_id order, r_quote = q,
             r_max_slippage_bps = max_slippage_bps (risk c),
             r_max_price_impact_bps = max_price_impact_bps (execution c),
             r_min_output_amount = mo, r_input_decimals = xp_token_decimals xp,
             r_output_decimals = xp_base_decimals xp,
             r_value_basis = OutputUnitPriceUsd (xp_base_price xp)\<rparr> = Some res'"
        and mo: "min_output_of X (q_output_amount q) (slippage_bps (execution c)) = Some mo"
        using run Inr False by (auto simp: run_exit_def Let_def panic_simps)
      show ?thesis
      proof (cases res')
        case res: (Inr f0)
        then obtain f where "exit_persisted X ft now ?st1 stored mint f reason ?placed pf
            = Some (res, st', pf')"
          using run Inr False ex mo by (auto simp: run_exit_def Let_def panic_simps)
        then show ?thesis
          by (rule exit_persisted_ran [OF _ p t1 s1(1)]) (use s1 in simp_all)
      next
        case res: (Inl e)
        show ?thesis
        proof (cases "\<exists>sig detail. e = UnknownOutcome sig detail")
          case True
          then obtain sig detail where e: "e = UnknownOutcome sig detail" by blast
          then show ?thesis
            using run Inr False ex mo res exit_ran_unknown [OF t1 s1 sub _ _ op]
            by (auto simp: run_exit_def Let_def)
        next
          case False
          then have "\<exists>msg o1. res = ExitFailed msg \<and> st' = persist ft o1 now ?st1 \<and> pf' = pf
              \<and> same_order ?ord o1"
            using run Inr \<open>\<not> max_price_impact_bps (execution c) < q_price_impact_bps q\<close> ex mo res s1(2)
            by (cases e) (auto simp: run_exit_def Let_def)
          then show ?thesis using exit_ran_failed [OF t1 s1(1)] by auto
        qed
      qed
    qed
  qed
qed

text \<open>A call either stops before it reserves an order and changes nothing, or runs as above.\<close>

lemma execute_exit_order_cases:
  assumes "execute_exit_order X E dbg ft c now uuid mint reason st pf = Some (res, st', pf')"
  shows "((\<exists>msg. res = ExitSkipped msg \<or> res = ExitFailed msg) \<and> st' = st \<and> pf' = pf)
    \<or> (\<exists>stored xp mark. positions st = Inr stored \<and> plan_exit ft st mint stored = Inr xp
         \<and> reserve_order (exit_order X uuid now mint reason xp mark) now st
             = (Inr True, st\<lparr>order_rows := order_rows st
                 @ [row_of (exit_order X uuid now mint reason xp mark) now]\<rparr>)
         \<and> exit_ran X ft now reason (xp_position xp) (order_rows st)
             (exit_order X uuid now mint reason xp mark) st pf res st' pf')"
proof (cases "ft_positions ft")
  case (Some e)
  then show ?thesis using assms by (auto simp: execute_exit_order_def)
next
  case None
  note f1 = None
  show ?thesis
  proof (cases "positions st")
    case (Inl e)
    then show ?thesis using assms f1 by (auto simp: execute_exit_order_def)
  next
    case (Inr stored)
    note ps = Inr
    show ?thesis
    proof (cases "plan_exit ft st mint stored")
      case (Inl r)
      then show ?thesis using assms f1 ps plan_exit_Inl [OF Inl]
        by (auto simp: execute_exit_order_def)
    next
      case (Inr xp)
      show ?thesis
      proof (cases "\<exists>q. units X (xp_remaining xp) (xp_token_decimals xp) = Some (Inr q)")
        case False
        then show ?thesis using assms f1 ps Inr
          by (auto simp: execute_exit_order_def split: option.split_asm sum.split_asm)
      next
        case True
        then obtain q where q: "units X (xp_remaining xp) (xp_token_decimals xp) = Some (Inr q)" ..
        then obtain mark where m: "dec_mul X q (xp_base_price xp) = Some mark"
          using assms f1 ps Inr by (auto simp: execute_exit_order_def split: option.split_asm)
        let ?o = "exit_order X uuid now mint reason xp mark"
        obtain rr st1 where rr: "reserve_order ?o now st = (rr, st1)" by fastforce
        show ?thesis
        proof (cases "ft_reserve ft = None \<and> rr = Inr True")
          case False
          moreover have "rr \<noteq> Inr True \<Longrightarrow> st1 = st"
            using rr by (auto simp: reserve_order_def split: option.split_asm if_split_asm)
          ultimately show ?thesis using assms f1 ps Inr q m rr
            by (auto simp: execute_exit_order_def Let_def split: option.split_asm sum.split_asm
                bool.split_asm)
        next
          case True
          then have re: "reserve_order ?o now st = (Inr True, st1)" using rr by simp
          then have fresh: "\<forall>r\<in>set (order_rows st). row_id r \<noteq> o_id ?o"
            and st1: "st1 = st\<lparr>order_rows := order_rows st @ [row_of ?o now]\<rparr>"
            by (auto simp: reserve_order_Inr)
          have run: "run_exit X E dbg ft c now mint reason stored xp ?o st1 pf = Some (res, st', pf')"
            using assms f1 ps Inr q m True re by (auto simp: execute_exit_order_def Let_def)
          have "exit_ran X ft now reason (xp_position xp) (order_rows st) ?o st1 pf res st' pf'"
            by (rule run_exit_ran [OF run plan_exit_Inr(1) [OF Inr]])
              (use fresh in \<open>simp_all add: tail_order_def st1 exit_order_def\<close>)
          then have "exit_ran X ft now reason (xp_position xp) (order_rows st) ?o st pf res st' pf'"
            by (rule exit_ran_cong [THEN iffD1, rotated -1]) (simp_all add: st1)
          then show ?thesis using ps Inr re st1 by blast
        qed
      qed
    qed
  qed
qed

text \<open>An open order for the sale of the position stored for a mint stops every further attempt.\<close>

lemma open_exit_stops:
  assumes "ord \<in> set (incomplete_orders st)" "o_kind ord = Exit"
    and "\<forall>stored p. positions st = Inr stored \<and> find (\<lambda>p. p_mint p = mint) stored = Some p
           \<longrightarrow> p_position_id p = o_position_id ord"
  shows "\<exists>res. (\<exists>msg. res = ExitSkipped msg \<or> res = ExitFailed msg)
    \<and> (\<forall>E. execute_exit_order X E dbg ft c now uuid mint reason st pf = Some (res, st, pf))"
proof (cases "ft_positions ft = None \<and> (\<exists>stored. positions st = Inr stored)")
  case True
  then obtain stored where ps: "positions st = Inr stored" and ft: "ft_positions ft = None" by blast
  have "\<exists>res. plan_exit ft st mint stored = Inl res"
  proof (cases "plan_exit ft st mint stored")
    case (Inr xp)
    note plan = plan_exit_Inr [OF this]
    have "same_exit (xp_position xp) ord"
      using assms(2,3) ps plan(1) by (simp add: same_exit_def)
    then show ?thesis using plan(3) assms(1) by (auto simp: list_ex_iff)
  qed simp
  then obtain res where res: "plan_exit ft st mint stored = Inl res" ..
  then show ?thesis using ps ft plan_exit_Inl [OF res] by (auto simp: execute_exit_order_def)
next
  case False
  then show ?thesis
    by (cases "ft_positions ft"; cases "positions st") (auto simp: execute_exit_order_def)
qed

section \<open>Properties\<close>

text \<open>The order of an attempt that ran, and what a confirmed one leaves.\<close>

lemma exit_ran_rows:
  assumes "exit_ran X ft now reason p (order_rows st) (exit_order X uuid now mint reason xp mark)
    st pf res st' pf'"
  obtains ord where "order_rows st' = order_rows st @ [row_of ord now]" "o_id ord = uuid"
  using assms by (fastforce simp: exit_ran_def tail_order_def same_order_def exit_order_def)

lemma exit_ran_confirmed:
  assumes pos: "positions st = Inr stored" and xp: "plan_exit ft st mint stored = Inr xp"
    and ran: "exit_ran X ft now reason (xp_position xp) (order_rows st)
      (exit_order X uuid now mint reason xp mark) st pf (ExitConfirmed f) st' pf'"
  shows "\<exists>stored p remaining proceeds cost out p' ord.
      positions st = Inr stored \<and> find (\<lambda>p. p_mint p = mint) stored = Some p
    \<and> trusted_remaining p = Some remaining \<and> f_input_amount f \<le> remaining
    \<and> exit_update X f reason now (remaining - f_input_amount f) proceeds cost p = Some (out, p')
    \<and> kv_look st' (position_key mint) = Some (VPosition p')
    \<and> fill_for_order st' (f_order_id f) = Some f
    \<and> order_rows st' = order_rows st @ [row_of ord now]
    \<and> o_state ord = Confirmed \<and> o_signature ord = Some (f_signature f) \<and> o_id ord = uuid"
proof -
  note plan = plan_exit_Inr [OF xp]
  have m: "p_mint (xp_position xp) = mint" using find_stored_mint [OF plan(1)] by simp
  obtain ord remaining proceeds cost out p' where
      c: "tail_order (order_rows st) st' ord now"
    "same_order (exit_order X uuid now mint reason xp mark) ord"
    "o_state ord = Confirmed" "o_signature ord = Some (f_signature f)"
    "fill_rows st' = AList.update (f_order_id f) f (fill_rows st)"
    "p_remaining_quantity_atomic (xp_position xp) = Some remaining"
    "f_input_amount f \<le> remaining"
    "exit_update X f reason now (remaining - f_input_amount f) proceeds cost (xp_position xp)
       = Some (out, p')"
    "kv st' = AList.update (position_key mint) (VPosition p') (kv st)"
    using ran m unfolding exit_ran_def by auto
  have "trusted_remaining (xp_position xp) = Some remaining"
    using plan(2) c(6) by (auto simp: trusted_remaining_def split: if_split_asm)
  moreover have "kv_look st' (position_key mint) = Some (VPosition p')"
    "fill_for_order st' (f_order_id f) = Some f"
    using c(5,9) by (simp_all add: kv_look_def fill_for_order_def)
  moreover have "o_id ord = uuid" "order_rows st' = order_rows st @ [row_of ord now]"
    using c(1,2) by (simp_all add: same_order_def exit_order_def tail_order_def)
  ultimately show ?thesis using pos plan(1) c(3,4,7,8) by blast
qed

text \<open>
  C3: An exit is accounted completely or not at all,
  whatever the executor answers and whichever database call fails. A skipped exit changes nothing.
  A failed or unknown one leaves every position, every fill and the session's portfolio as they
  were. A confirmed one stores the fill, the position advanced by exactly that fill and the order
  as confirmed under the signature of the fill. At most one order is added, and no other order is
  touched.
\<close>

theorem exit_accounts_atomically:
  assumes "execute_exit_order X E dbg ft c now uuid mint reason st pf = Some (res, st', pf')"
  shows "(\<exists>rows. order_rows st' = order_rows st @ rows \<and> length rows \<le> 1
           \<and> list_all (\<lambda>r. row_id r = uuid) rows)
    \<and> (case res of
         ExitSkipped _ \<Rightarrow> st' = st \<and> pf' = pf
       | ExitFailed _ \<Rightarrow> kv st' = kv st \<and> fill_rows st' = fill_rows st \<and> pf' = pf
       | ExitUnknown \<Rightarrow> kv st' = kv st \<and> fill_rows st' = fill_rows st \<and> pf' = pf
       | ExitConfirmed f \<Rightarrow> (\<exists>stored p remaining proceeds cost out p' ord.
           positions st = Inr stored \<and> find (\<lambda>p. p_mint p = mint) stored = Some p
         \<and> trusted_remaining p = Some remaining \<and> f_input_amount f \<le> remaining
         \<and> exit_update X f reason now (remaining - f_input_amount f) proceeds cost p = Some (out, p')
         \<and> kv_look st' (position_key mint) = Some (VPosition p')
         \<and> fill_for_order st' (f_order_id f) = Some f
         \<and> order_rows st' = order_rows st @ [row_of ord now]
         \<and> o_state ord = Confirmed \<and> o_signature ord = Some (f_signature f) \<and> o_id ord = uuid))"
proof -
  consider (idle) "\<exists>msg. res = ExitSkipped msg \<or> res = ExitFailed msg" "st' = st" "pf' = pf"
    | (ran) stored xp mark where "positions st = Inr stored" "plan_exit ft st mint stored = Inr xp"
      "exit_ran X ft now reason (xp_position xp) (order_rows st)
         (exit_order X uuid now mint reason xp mark) st pf res st' pf'"
    using execute_exit_order_cases [OF assms] by blast
  then show ?thesis
  proof cases
    case idle
    then show ?thesis by (auto intro!: exI [of _ "[]"])
  next
    case ran
    obtain ord where "order_rows st' = order_rows st @ [row_of ord now]" "o_id ord = uuid"
      by (rule exit_ran_rows [OF ran(3)]) (rule that)
    then have rows: "\<exists>rows. order_rows st' = order_rows st @ rows \<and> length rows \<le> 1
           \<and> list_all (\<lambda>r. row_id r = uuid) rows"
      by (auto simp: row_of_def)
    show ?thesis
    proof (cases res)
      case (ExitConfirmed f)
      with exit_ran_confirmed [OF ran(1,2)] ran(3) rows show ?thesis
        by (simp only: exit_exec_result.case)
    qed (use ran(3) rows in \<open>auto simp: exit_ran_def\<close>)
  qed
qed

text \<open>A store that holds one open position, and an executor that answers with a given outcome.\<close>

definition held_store :: store where
  "held_store = save_position sample_position empty_store"

definition sample_exit_fill :: fill where
  "sample_exit_fill = \<lparr>f_order_id = ''u'', f_signature = ''sig'', f_input_amount = 500,
     f_output_amount = 10000, f_price_usd = 20, f_fees_usd = 0, f_slippage_bps = 0,
     f_confirmed_at = 0, f_latency_ms = 0, f_fee_lamports = 0, f_input_value_usd = Some 100,
     f_expected_output_amount = Some 10000\<rparr>"

definition sample_exec :: "execution_error + fill \<Rightarrow> exec_env" where
  "sample_exec res = \<lparr>xe_quote = (\<lambda>_ _ _ _. Inr sample_quote), xe_execute = (\<lambda>_. Some res)\<rparr>"

lemma held_positions: "positions held_store = Inr [sample_position]"
  by (simp add: held_store_def positions_def save_position_def kv_put_def empty_store_def
      key_like_def position_key_def sample_position_def)

lemma held_plan:
  "plan_exit no_faults held_store ''m'' [sample_position] = Inr
     \<lparr>xp_position = sample_position, xp_remaining = 500, xp_base_price = 10, xp_base_decimals = 3,
      xp_token_decimals = 2, xp_base_mint = ''sol'', xp_position_id = ''pos'', xp_attempt = 0\<rparr>"
  by (simp add: plan_exit_def sample_position_def trusted_remaining_def is_open_def
      no_faults_def held_store_def incomplete_orders_def all_orders_def empty_store_def
      quantity_is_trusted_def)

lemma plan_ignores_tx [simp]: "plan_exit (ft\<lparr>ft_tx := t\<rparr>) st mint stored = plan_exit ft st mint stored"
  unfolding plan_exit_def
  by (cases ft) (simp cong: option.case_cong if_cong prod.case_cong)

abbreviation held_xp :: exit_plan where
  "held_xp \<equiv> \<lparr>xp_position = sample_position, xp_remaining = 500, xp_base_price = 10,
     xp_base_decimals = 3, xp_token_decimals = 2, xp_base_mint = ''sol'',
     xp_position_id = ''pos'', xp_attempt = 0\<rparr>"

definition held_order :: order_record where
  "held_order = exit_order exact_ext ''u'' 0 ''m'' ''stop'' held_xp 50"

lemma held_order_fields [simp]:
  "o_id held_order = ''u''" "o_state held_order = Pending" "o_kind held_order = Exit"
  "o_position_id held_order = Some ''pos''"
  by (simp_all add: held_order_def exit_order_def sample_position_def)

lemma held_reserve: "reserve_order held_order 0 held_store
    = (Inr True, held_store\<lparr>order_rows := [row_of held_order 0]\<rparr>)"
proof -
  have "order_problem held_order = None"
    by (simp add: order_problem_def held_order_def exit_order_def sample_position_def)
  then show ?thesis by (simp add: reserve_order_def held_store_def empty_store_def)
qed

lemma no_faults_fields [simp]:
  "ft_positions no_faults = None" "ft_incomplete no_faults = None" "ft_orders no_faults = None"
  "ft_reserve no_faults = None" "ft_update no_faults s = False" "ft_tx no_faults = TxFine"
  by (simp_all add: no_faults_def)

lemma held_run:
  "execute_exit_order exact_ext (sample_exec res) dbg (no_faults\<lparr>ft_tx := t\<rparr>) (example_config Paper)
     0 ''u'' ''m'' ''stop'' held_store []
   = run_exit exact_ext (sample_exec res) dbg (no_faults\<lparr>ft_tx := t\<rparr>) (example_config Paper)
       0 ''m'' ''stop'' [sample_position] held_xp held_order
       (held_store\<lparr>order_rows := [row_of held_order 0]\<rparr>) []"
proof -
  have "units exact_ext 500 2 = Some (Inr 5)"
    by (simp add: units_def checked_pow10_def dec_of_word_def fit_def dec_max_def)
  moreover have "dec_mul exact_ext 5 10 = Some 50" by (simp add: fit_def dec_max_def)
  ultimately show ?thesis
    using held_reserve
    by (simp add: execute_exit_order_def held_positions held_plan held_order_def Let_def)
qed


definition held_exit :: "position" where
  "held_exit = sample_position\<lparr>p_remaining_quantity_atomic := Some 0, p_realized_pnl_usd := 90,
     p_exit_fees_usd := Some 0, p_high_water_price_usd := 20, p_current_value_usd := 0,
     p_state := PosClosed, p_exit_reason := Some ''stop'', p_exit_signature := Some ''sig'',
     p_exit_time := Some 0, p_unrealized_pnl_usd := 0\<rparr>"

lemma held_apply:
  "apply_exit exact_ext [(''m'', sample_position)] ''m'' sample_exit_fill ''stop'' 0
   = Some (Inr (\<lparr>realized_pnl_usd = 90, closed = True\<rparr>, [(''m'', held_exit)]))"
  by (simp add: apply_exit_def exit_update_def sample_position_def sample_exit_fill_def held_exit_def
      checked_sub_def dec_of_word_def fit_def dec_max_def Let_def max_def)

lemma held_finalize: "finalize_fill exact_ext sample_exit_fill (Some 150) = Some sample_exit_fill"
  by (simp add: finalize_fill_def fee_usd_def sample_exit_fill_def realised_slippage_bps_def
      dec_of_word_def fit_def dec_max_def)

definition held_placed :: "order_state \<Rightarrow> order_record" where
  "held_placed s = held_order\<lparr>o_signature := Some ''sig'', o_state := s\<rparr>"

lemma held_submitted:
  "transition_or_keep held_order Submitted = held_order\<lparr>o_state := Submitted\<rparr>"
  by (simp add: transition_or_keep_def transition_def)

definition held_st1 :: store where
  "held_st1 = held_store\<lparr>order_rows := [row_of (held_order\<lparr>o_state := Submitted\<rparr>) 0]\<rparr>"

lemma sample_exec_simps [simp]:
  "xe_quote (sample_exec res) a b v s = Inr sample_quote"
  "xe_execute (sample_exec res) r = Some res"
  by (simp_all add: sample_exec_def)

lemma held_submit:
  "min_output_of exact_ext 10000 75 = Some 9925"
  "update_order (held_order\<lparr>o_state := Submitted\<rparr>) 0 (held_store\<lparr>order_rows := [row_of held_order 0]\<rparr>)
     = held_st1"
  by (simp_all add: min_output_of_def sat_mul_def update_order_def row_of_def held_order_def
      exit_order_def held_st1_def)

lemma held_filled:
  "run_exit exact_ext (sample_exec (Inr sample_exit_fill)) dbg (no_faults\<lparr>ft_tx := t\<rparr>)
       (example_config Paper) 0 ''m'' ''stop'' [sample_position] held_xp held_order
       (held_store\<lparr>order_rows := [row_of held_order 0]\<rparr>) []
   = exit_persisted exact_ext (no_faults\<lparr>ft_tx := t\<rparr>) 0 held_st1 [sample_position] ''m''
       sample_exit_fill ''stop'' (held_order\<lparr>o_state := Submitted\<rparr>) []"
  by (simp add: run_exit_def held_submit held_submitted held_finalize persist_def Let_def
      sample_quote_def)

lemma held_unknown:
  "run_exit exact_ext (sample_exec (Inl (UnknownOutcome (Some ''sig'') ''late''))) dbg
       (no_faults\<lparr>ft_tx := t\<rparr>) (example_config Paper) 0 ''m'' ''stop'' [sample_position] held_xp
       held_order (held_store\<lparr>order_rows := [row_of held_order 0]\<rparr>) []
   = Some (ExitUnknown, update_order (held_order\<lparr>o_signature := Some ''sig'', o_state := Unknown,
       o_error := Some ''late''\<rparr>) 0 held_st1, [])"
  by (simp add: run_exit_def held_submit held_submitted persist_def Let_def sample_quote_def
      transition_or_keep_def transition_def)


lemma held_st1_positions: "positions (save_fill f held_st1) = Inr [sample_position]"
  using held_positions by (simp add: held_st1_def positions_def save_fill_def)

lemma held_load:
  "sync_position sample_position (load [sample_position] []) = [(''m'', sample_position)]"
  "sync_position sample_position [] = [(''m'', sample_position)]"
  "p_mint sample_position = ''m''" "f_signature sample_exit_fill = ''sig''"
  by (simp_all add: sync_position_def load_def sample_position_def sample_exit_fill_def)

lemma held_transaction:
  "exit_transaction exact_ext (no_faults\<lparr>ft_tx := t\<rparr>) 0 held_st1 [sample_position] ''m''
     sample_exit_fill ''stop'' (held_order\<lparr>o_state := Submitted\<rparr>)
   = Some (case t of
       TxEarly e \<Rightarrow> (Inl e, held_order\<lparr>o_state := Submitted\<rparr>)
     | TxLate e \<Rightarrow> (Inl e, held_placed Confirmed)
     | TxFine \<Rightarrow> (Inr (\<lparr>realized_pnl_usd = 90, closed = True\<rparr>, update_order (held_placed Confirmed) 0
         (save_position held_exit (save_fill sample_exit_fill held_st1))), held_placed Confirmed))"
  by (simp add: exit_transaction_def held_st1_positions held_load held_apply position_of_def
      transition_def held_placed_def Let_def split: tx_fault.split)

lemma held_confirmed:
  "execute_exit_order exact_ext (sample_exec (Inr sample_exit_fill)) dbg (no_faults\<lparr>ft_tx := TxFine\<rparr>)
     (example_config Paper) 0 ''u'' ''m'' ''stop'' held_store []
   = Some (ExitConfirmed sample_exit_fill, update_order (held_placed Confirmed) 0
       (save_position held_exit (save_fill sample_exit_fill held_st1)), [(''m'', held_exit)])"
  unfolding held_run held_filled
  by (simp add: exit_persisted_def held_transaction held_load held_apply Let_def)

text \<open>
  A fault of the environment the code does not survive: when the last statement of the transaction
  or its commit fails, the record in memory is already confirmed, so it cannot become unknown. It is
  stored as confirmed although neither the fill nor the position was, and nothing will reconcile it.
\<close>

lemma late_failure_loses_the_fill:
  "\<exists>st' msg. execute_exit_order exact_ext (sample_exec (Inr sample_exit_fill)) dbg
       (no_faults\<lparr>ft_tx := TxLate ''disk full''\<rparr>) (example_config Paper) 0 ''u'' ''m'' ''stop''
       held_store [] = Some (ExitFailed msg, st', [])
     \<and> \<not> entries_blocked_by st' \<and> fill_rows st' = [] \<and> positions st' = Inr [sample_position]
     \<and> map row_state (order_rows st') = [''Confirmed'']"
proof -
  let ?ord = "held_order\<lparr>o_state := Confirmed, o_signature := Some ''sig'',
      o_error := Some (''atomic persistence failed: '' @ ''disk full'')\<rparr>"
  let ?st = "update_order ?ord 0 held_st1"
  have run: "execute_exit_order exact_ext (sample_exec (Inr sample_exit_fill)) dbg
       (no_faults\<lparr>ft_tx := TxLate ''disk full''\<rparr>) (example_config Paper) 0 ''u'' ''m'' ''stop''
       held_store [] = Some (ExitFailed (''transactional persistence failed: '' @ ''disk full''), ?st, [])"
    unfolding held_run held_filled
    by (simp add: exit_persisted_def held_transaction transition_or_keep_def transition_def
        held_placed_def persist_def Let_def held_load)
  have rows: "order_rows ?st = [row_of ?ord 0]"
    by (simp add: update_order_def held_st1_def row_of_def)
  have "positions ?st = Inr [sample_position]" "fill_rows ?st = []"
    using held_positions
    by (simp_all add: held_st1_def positions_def held_store_def empty_store_def save_position_def
        kv_put_def)
  with run rows show ?thesis
    by (auto simp: entries_blocked_by_def incomplete_orders_def incomplete_row_def row_of_def)
qed

theorem exit_accounts_atomically_witness:
  "\<exists>st'. execute_exit_order exact_ext (sample_exec (Inr sample_exit_fill)) Option.the
       (no_faults\<lparr>ft_tx := TxFine\<rparr>) (example_config Paper) 0 ''u'' ''m'' ''stop'' held_store []
     = Some (ExitConfirmed sample_exit_fill, st', [(''m'', held_exit)])
   \<and> fill_for_order st' ''u'' = Some sample_exit_fill"
proof -
  note run = held_confirmed [of Option.the]
  have "f_order_id sample_exit_fill = ''u''" by (simp add: sample_exit_fill_def)
  with exit_accounts_atomically [OF run] run show ?thesis by auto
qed

text \<open>
  C4: A sale whose outcome is unknown is not
  repeated. Once a call has ended with an unknown outcome, its order is stored and open, even if
  the database failed while it was marked. As long as that order is among the open orders, in
  whatever state and with whatever signature and error, every later call for the mint stops
  without asking the executor and without a change: for every executor, reason, configuration,
  session portfolio and database fault, and for every store, unless the position now stored for the
  mint is another one than the position that was being sold.
\<close>

theorem unknown_exit_blocks_repetition:
  assumes "execute_exit_order X E dbg ft c now uuid mint reason st pf = Some (ExitUnknown, st1, pf1)"
  shows "\<exists>ord. ord \<in> set (incomplete_orders st1) \<and> o_id ord = uuid \<and> o_kind ord = Exit
    \<and> (\<exists>stored p. positions st = Inr stored \<and> find (\<lambda>p. p_mint p = mint) stored = Some p
         \<and> o_position_id ord = p_position_id p)
    \<and> (\<forall>st2 ord2 X' dbg' ft' c' now' uuid' reason' pf2.
         ord2 \<in> set (incomplete_orders st2) \<and> same_order ord ord2
         \<and> (\<forall>stored p. positions st2 = Inr stored \<and> find (\<lambda>p. p_mint p = mint) stored = Some p
              \<longrightarrow> p_position_id p = o_position_id ord) \<longrightarrow>
         (\<exists>res. (\<exists>msg. res = ExitSkipped msg \<or> res = ExitFailed msg)
            \<and> (\<forall>E'. execute_exit_order X' E' dbg' ft' c' now' uuid' mint reason' st2 pf2
                 = Some (res, st2, pf2))))"
proof -
  obtain stored xp mark where
      ps: "positions st = Inr stored" and pl: "plan_exit ft st mint stored = Inr xp"
    and ran: "exit_ran X ft now reason (xp_position xp) (order_rows st)
         (exit_order X uuid now mint reason xp mark) st pf ExitUnknown st1 pf1"
    using execute_exit_order_cases [OF assms(1)] by auto
  from ran obtain ord where
      t: "tail_order (order_rows st) st1 ord now"
    and s: "same_order (exit_order X uuid now mint reason xp mark) ord"
    and u: "\<not> is_terminal (o_state ord)"
    unfolding exit_ran_def by auto
  have "incomplete_row (row_of ord now)"
    using u state_debug_incomplete [of "o_state ord"] by (simp only: incomplete_row_def row_of_def) simp
  then have o1: "ord \<in> set (incomplete_orders st1)"
    using t by (simp add: incomplete_orders_def tail_order_def row_of_def)
  have o2: "o_id ord = uuid" "o_kind ord = Exit" "o_position_id ord = p_position_id (xp_position xp)"
    using s by (simp_all add: same_order_def exit_order_def)
  have later: "\<exists>res. (\<exists>msg. res = ExitSkipped msg \<or> res = ExitFailed msg)
      \<and> (\<forall>E'. execute_exit_order X' E' dbg' ft' c' now' uuid' mint reason' st2 pf2
           = Some (res, st2, pf2))"
    if "ord2 \<in> set (incomplete_orders st2)" "same_order ord ord2"
      "\<forall>stored p. positions st2 = Inr stored \<and> find (\<lambda>p. p_mint p = mint) stored = Some p
          \<longrightarrow> p_position_id p = o_position_id ord"
    for st2 ord2 X' dbg' ft' c' now' uuid' reason' pf2
    by (rule open_exit_stops [OF that(1)]) (use that(2,3) o2 in \<open>simp_all add: same_order_def\<close>)
  show ?thesis
  proof (intro exI [of _ ord] conjI allI impI, goal_cases)
    case (5 st2 ord2 X' dbg' ft' c' now' uuid' reason' pf2)
    then show ?case by (elim conjE) (rule later)
  qed (use o1 o2 ps plan_exit_Inr(1) [OF pl] in auto)
qed

theorem unknown_exit_blocks_repetition_witness:
  "\<exists>st1 msg. execute_exit_order exact_ext (sample_exec (Inl (UnknownOutcome (Some ''sig'') ''late'')))
       Option.the (no_faults\<lparr>ft_tx := TxFine\<rparr>) (example_config Paper) 0 ''u'' ''m'' ''stop''
       held_store [] = Some (ExitUnknown, st1, [])
     \<and> (execute_exit_order exact_ext (sample_exec (Inr sample_exit_fill)) Option.the no_faults
         (example_config Paper) 5 ''v'' ''m'' ''stop'' st1 [] = Some (ExitSkipped msg, st1, [])
      \<or> execute_exit_order exact_ext (sample_exec (Inr sample_exit_fill)) Option.the no_faults
         (example_config Paper) 5 ''v'' ''m'' ''stop'' st1 [] = Some (ExitFailed msg, st1, []))"
proof -
  let ?ord = "held_order\<lparr>o_signature := Some ''sig'', o_state := Unknown, o_error := Some ''late''\<rparr>"
  let ?st1 = "update_order ?ord 0 held_st1"
  have run: "execute_exit_order exact_ext
       (sample_exec (Inl (UnknownOutcome (Some ''sig'') ''late''))) Option.the
       (no_faults\<lparr>ft_tx := TxFine\<rparr>) (example_config Paper) 0 ''u'' ''m'' ''stop'' held_store []
     = Some (ExitUnknown, ?st1, [])"
    unfolding held_run by (rule held_unknown)
  have rows: "order_rows ?st1 = [row_of ?ord 0]"
    by (simp add: update_order_def held_st1_def row_of_def)
  have ps: "positions ?st1 = Inr [sample_position]"
    using held_positions by (simp add: held_st1_def positions_def)
  have pid: "p_position_id sample_position = Some ''pos''" by (simp add: sample_position_def)
  have inc: "incomplete_orders ?st1 = [?ord]"
    unfolding incomplete_orders_def rows by (simp add: incomplete_row_def row_of_def)
  obtain ord where o: "ord \<in> set (incomplete_orders ?st1)"
    and later: "\<And>st2 ord2 X' dbg' ft' c' now' uuid' reason' pf2.
         ord2 \<in> set (incomplete_orders st2) \<and> same_order ord ord2
         \<and> (\<forall>stored p. positions st2 = Inr stored \<and> find (\<lambda>p. p_mint p = ''m'') stored = Some p
              \<longrightarrow> p_position_id p = o_position_id ord) \<Longrightarrow>
         \<exists>res. (\<exists>msg. res = ExitSkipped msg \<or> res = ExitFailed msg)
            \<and> (\<forall>E'. execute_exit_order X' E' dbg' ft' c' now' uuid' ''m'' reason' st2 pf2
                 = Some (res, st2, pf2))"
    using unknown_exit_blocks_repetition [OF run] by blast
  have "ord = ?ord" using o inc by simp
  then have "\<forall>stored p. positions ?st1 = Inr stored \<and> find (\<lambda>p. p_mint p = ''m'') stored = Some p
      \<longrightarrow> p_position_id p = o_position_id ord"
    using ps pid by (auto split: if_split_asm)
  with o later [of ord ?st1 exact_ext Option.the no_faults "example_config Paper" 5 "''v''"
      "''stop''" "[]"]
  show ?thesis using run by auto
qed

end
