(* ===== verification/Runtime_Orders.thy ===== *)
theory Runtime_Orders
  imports Runtime_Exit Reconcile
begin

text \<open>
  \<open>src/runtime.rs\<close>: the reconciliation of orders left open and of the positions with the balances on
  the chain. What the RPC nodes answer is an argument, and so are the faults of the database for
  each order. A run that aborts with an error returns the store it had reached.
\<close>

section \<open>Summary\<close>

record reconcile_summary =
  rs_confirmed_orders :: u32
  rs_failed_orders :: u32
  rs_expired_orders :: u32
  rs_unresolved_orders :: u32
  rs_positions_reconciled :: u32
  rs_positions_adjusted :: u32
  rs_positions_closed :: u32
  rs_onchain_errors :: u32

definition empty_summary :: reconcile_summary where
  "empty_summary = \<lparr>rs_confirmed_orders = 0, rs_failed_orders = 0, rs_expired_orders = 0,
     rs_unresolved_orders = 0, rs_positions_reconciled = 0, rs_positions_adjusted = 0,
     rs_positions_closed = 0, rs_onchain_errors = 0\<rparr>"

text \<open>The counter an order ends up in.\<close>

datatype order_verdict = VConfirmed | VFailed | VExpired | VUnresolved

fun count_order :: "order_verdict \<Rightarrow> reconcile_summary \<Rightarrow> reconcile_summary" where
  "count_order VConfirmed s = s\<lparr>rs_confirmed_orders := rs_confirmed_orders s + 1\<rparr>"
| "count_order VFailed s = s\<lparr>rs_failed_orders := rs_failed_orders s + 1\<rparr>"
| "count_order VExpired s = s\<lparr>rs_expired_orders := rs_expired_orders s + 1\<rparr>"
| "count_order VUnresolved s = s\<lparr>rs_unresolved_orders := rs_unresolved_orders s + 1\<rparr>"

section \<open>A reconciled fill\<close>

definition order_position :: "faults \<Rightarrow> store \<Rightarrow> order_record \<Rightarrow> position option" where
  "order_position ft st ord = (case (o_position_id ord, ft_positions ft, positions st) of
      (Some pid, None, Inr ps) \<Rightarrow> find (\<lambda>p. p_position_id p = Some pid) ps
    | _ \<Rightarrow> None)"

definition reconciled_fill ::
    "order_record \<Rightarrow> chain_swap_outcome \<Rightarrow> string \<Rightarrow> decimal \<Rightarrow> decimal \<Rightarrow> decimal \<Rightarrow> datetime \<Rightarrow> fill" where
  "reconciled_fill ord outcome sig value_usd price_usd fees now =
     \<lparr>f_order_id = o_id ord, f_signature = sig, f_input_amount = co_input_amount outcome,
      f_output_amount = co_output_amount outcome, f_price_usd = price_usd, f_fees_usd = fees,
      f_slippage_bps = - 1, f_confirmed_at = now, f_latency_ms = - 1,
      f_fee_lamports = co_fee_lamports outcome, f_input_value_usd = Some value_usd,
      f_expected_output_amount = None\<rparr>"

text \<open>\<open>run_in_transaction\<close> of a closure, with the fault of the environment at either place.\<close>

definition in_transaction ::
    "faults \<Rightarrow> store \<Rightarrow> (string + store) option \<Rightarrow> ((string + unit) \<times> store) option" where
  "in_transaction ft st body = (case ft_tx ft of
      TxEarly e \<Rightarrow> Some (Inl e, st)
    | TxLate e \<Rightarrow> (case body of None \<Rightarrow> None | Some (Inl e') \<Rightarrow> Some (Inl e', st)
                   | Some (Inr _) \<Rightarrow> Some (Inl e, st))
    | TxFine \<Rightarrow> (case body of None \<Rightarrow> None | Some (Inl e) \<Rightarrow> Some (Inl e, st)
                 | Some (Inr st') \<Rightarrow> Some (Inr (), st')))"

definition audit_only_body ::
    "datetime \<Rightarrow> order_record \<Rightarrow> string \<Rightarrow> fill \<Rightarrow> store \<Rightarrow> string + store" where
  "audit_only_body now ord sig f st =
    (case transition (ord\<lparr>o_signature := Some sig,
            o_error := Some (''entry order has no cost model; fill recorded but accounting cannot ''
              @ ''be completed'')\<rparr>) Failed of
       Inl e \<Rightarrow> Inl e
     | Inr ord' \<Rightarrow> Inr (update_order ord' now (save_fill f st)))"

definition apply_reconciled ::
    "ext \<Rightarrow> datetime \<Rightarrow> order_record \<Rightarrow> position \<Rightarrow> u8 \<Rightarrow> u8 \<Rightarrow> fill \<Rightarrow> portfolio
     \<Rightarrow> (string + portfolio) option" where
  "apply_reconciled X now ord p token_dec base_dec f pf =
    (if o_kind ord = Entry
     then (case (p_entry_cost_model p, p_base_mint p) of
             (Some costs, Some base) \<Rightarrow>
               apply_entry X pf (o_mint ord) base token_dec base_dec
                 (case o_position_id ord of Some pid \<Rightarrow> pid | None \<Rightarrow> o_id ord) f (f_price_usd f)
                 (o_signal_id ord) costs
           | _ \<Rightarrow> Some (Inl ''position missing base_mint''))
     else map_option (map_sum id snd)
            (apply_exit X pf (o_mint ord) f
              (case o_error ord of Some e \<Rightarrow> e | None \<Rightarrow> ''reconciled'') now))"

definition account_body ::
    "ext \<Rightarrow> datetime \<Rightarrow> order_record \<Rightarrow> position \<Rightarrow> u8 \<Rightarrow> u8 \<Rightarrow> string \<Rightarrow> fill \<Rightarrow> store
     \<Rightarrow> (string + store) option" where
  "account_body X now ord p token_dec base_dec sig f st =
    (case load_portfolio (save_fill f st) of
       Inl _ \<Rightarrow> Some (Inl ''positions cannot be decoded'')
     | Inr pf \<Rightarrow>
       (case apply_reconciled X now ord p token_dec base_dec f pf of
          None \<Rightarrow> None
        | Some (Inl e) \<Rightarrow> Some (Inl e)
        | Some (Inr pf') \<Rightarrow>
          (let st1 = (case position_of pf' (o_mint ord) of
                        None \<Rightarrow> save_fill f st | Some q \<Rightarrow> save_position q (save_fill f st))
           in case transition (ord\<lparr>o_signature := Some sig\<rparr>) Confirmed of
                Inl e \<Rightarrow> Some (Inl e)
              | Inr ord' \<Rightarrow> Some (Inr (update_order ord' now st1)))))"

text \<open>
  What is done with the fill. Without a cost model an entry is only recorded for the audit, its
  order fails and the result is false; otherwise the fill is accounted.
\<close>

definition settle_reconciled ::
    "ext \<Rightarrow> faults \<Rightarrow> datetime \<Rightarrow> store \<Rightarrow> order_record \<Rightarrow> position \<Rightarrow> u8 \<Rightarrow> u8 \<Rightarrow> string \<Rightarrow> fill
     \<Rightarrow> ((string + bool) \<times> store) option" where
  "settle_reconciled X ft now st ord p token_dec base_dec sig f =
    (if o_kind ord = Entry \<and> p_entry_cost_model p = None
     then map_option (\<lambda>(res, st'). (map_sum id (\<lambda>_. False) res, st'))
            (in_transaction ft st (Some (audit_only_body now ord sig f st)))
     else map_option (\<lambda>(res, st'). (map_sum id (\<lambda>_. True) res, st'))
            (in_transaction ft st (account_body X now ord p token_dec base_dec sig f st)))"

text \<open>\<open>record_reconciled_fill\<close>: true when the fill was accounted.\<close>

definition record_reconciled_fill ::
    "ext \<Rightarrow> faults \<Rightarrow> config \<Rightarrow> datetime \<Rightarrow> store \<Rightarrow> order_record \<Rightarrow> chain_swap_outcome \<Rightarrow> string
     \<Rightarrow> ((string + bool) \<times> store) option" where
  "record_reconciled_fill X ft c now st ord outcome sig =
    (case (order_position ft st ord, o_input_value_usd ord) of
       (Some p, Some input_value) \<Rightarrow>
       (case (p_token_decimals p, p_base_mint_decimals p) of
          (Some token_dec, Some base_dec) \<Rightarrow>
          (case (if o_kind ord = Entry then Some (InputValueUsd input_value)
                 else map_option OutputUnitPriceUsd (p_base_entry_price_usd p)) of
             None \<Rightarrow> Some (Inr False, st)
           | Some basis \<Rightarrow>
             (case price_fill X basis
                     (co_input_amount outcome) (if o_kind ord = Entry then base_dec else token_dec)
                     (co_output_amount outcome) (if o_kind ord = Entry then token_dec else base_dec) of
                None \<Rightarrow> None
              | Some (Inl _) \<Rightarrow> Some (Inr False, st)
              | Some (Inr (value_usd, price_usd)) \<Rightarrow>
                (case fee_usd X (co_fee_lamports outcome) (cfg_sol_price_usd (economics c)) of
                   None \<Rightarrow> None
                 | Some fees \<Rightarrow> settle_reconciled X ft now st ord p token_dec base_dec sig
                     (reconciled_fill ord outcome sig value_usd price_usd fees now))))
        | _ \<Rightarrow> Some (Inr False, st))
     | _ \<Rightarrow> Some (Inr False, st))"

section \<open>Open orders\<close>

text \<open>What the chain answers to a reader: signature statuses, transactions and token balances.\<close>

record 'v chain_reader =
  cr_json :: "'v json"
  cr_status :: "string \<Rightarrow> 'v signature_status option rpc_answer"
  cr_transaction :: "string \<Rightarrow> 'v option rpc_answer"
  cr_balances :: "string \<Rightarrow> (string \<times> u64 \<times> u8) list rpc_answer"   \<comment> \<open>mint, amount, decimals\<close>

text \<open>Ending an order: a refused transition is logged and the record written as it is.\<close>

definition end_order ::
    "faults \<Rightarrow> datetime \<Rightarrow> order_record \<Rightarrow> string \<Rightarrow> order_state \<Rightarrow> order_verdict \<Rightarrow> store
     \<Rightarrow> (string + order_verdict) \<times> store" where
  "end_order ft now ord msg target verdict st =
    (let ord' = transition_or_keep (ord\<lparr>o_error := Some msg\<rparr>) target
     in if ft_update ft (o_state ord') then (Inl ''order update failed'', st)
        else (Inr verdict, update_order ord' now st))"

definition reconcile_live ::
    "ext \<Rightarrow> 'v chain_reader \<Rightarrow> faults \<Rightarrow> config \<Rightarrow> datetime \<Rightarrow> string option \<Rightarrow> order_record \<Rightarrow> string
     \<Rightarrow> store \<Rightarrow> ((string + order_verdict) \<times> store) option" where
  "reconcile_live X C ft c now owner ord sig st =
    (case owner of
       None \<Rightarrow> Some (Inr VUnresolved, st)
     | Some own \<Rightarrow>
    (case (o_input_mint ord, o_output_mint ord, o_input_amount_atomic ord) of
       (Some input_mint, Some output_mint, Some expected) \<Rightarrow>
       (case reconcile_signature (cr_json C) (cr_status C) (cr_transaction C) sig input_mint
               output_mint own expected of
          Inr (Some outcome) \<Rightarrow>
            map_option (\<lambda>(res, st'). (Inr (case res of Inr True \<Rightarrow> VConfirmed | _ \<Rightarrow> VUnresolved), st'))
              (record_reconciled_fill X ft c now st ord outcome sig)
        | Inr None \<Rightarrow>
            if now - o_created_at ord > secs (unknown_after_secs (rpc c))
            then Some (end_order ft now ord
                   ''signature never appeared on-chain within the expiry window'' Expired VExpired st)
            else Some (Inr VUnresolved, st)
        | Inl (Transaction detail) \<Rightarrow> Some (end_order ft now ord detail Failed VFailed st)
        | Inl _ \<Rightarrow> Some (Inr VUnresolved, st))
     | _ \<Rightarrow> Some (Inr VUnresolved, st)))"

definition reconcile_order ::
    "ext \<Rightarrow> 'v chain_reader \<Rightarrow> faults \<Rightarrow> config \<Rightarrow> datetime \<Rightarrow> bool \<Rightarrow> string option \<Rightarrow> order_record
     \<Rightarrow> store \<Rightarrow> ((string + order_verdict) \<times> store) option" where
  "reconcile_order X C ft c now live owner ord st =
    (case (o_signature ord, live) of
       (None, False) \<Rightarrow> Some (end_order ft now ord
          ''paper order never completed execution'' Failed VFailed st)
     | (None, True) \<Rightarrow>
         if now - o_created_at ord > secs (unknown_after_secs (rpc c))
         then Some (end_order ft now ord
                ''order expired without ever being submitted'' Failed VFailed st)
         else Some (Inr VUnresolved, st)
     | (Some sig, False) \<Rightarrow> Some (end_order ft now ord
          (''paper signature '' @ sig @ '' cannot be reconciled on-chain'') Failed VFailed st)
     | (Some sig, True) \<Rightarrow> reconcile_live X C ft c now owner ord sig st)"

fun reconcile_orders ::
    "ext \<Rightarrow> 'v chain_reader \<Rightarrow> (order_record \<Rightarrow> faults) \<Rightarrow> config \<Rightarrow> datetime \<Rightarrow> bool \<Rightarrow> string option
     \<Rightarrow> order_record list \<Rightarrow> reconcile_summary \<Rightarrow> store
     \<Rightarrow> ((string + reconcile_summary) \<times> store) option" where
  "reconcile_orders X C fts c now live owner [] s st = Some (Inr s, st)"
| "reconcile_orders X C fts c now live owner (ord # ords) s st =
    (case reconcile_order X C (fts ord) c now live owner ord st of
       None \<Rightarrow> None
     | Some (Inl e, st') \<Rightarrow> Some (Inl e, st')
     | Some (Inr v, st') \<Rightarrow>
         reconcile_orders X C fts c now live owner ords (count_order v s) st')"

definition reconcile_pending_orders ::
    "ext \<Rightarrow> 'v chain_reader \<Rightarrow> (order_record \<Rightarrow> faults) \<Rightarrow> config \<Rightarrow> datetime \<Rightarrow> bool \<Rightarrow> string option
     \<Rightarrow> store \<Rightarrow> ((string + reconcile_summary) \<times> store) option" where
  "reconcile_pending_orders X C fts c now live owner st =
     reconcile_orders X C fts c now live owner (incomplete_orders st) empty_summary st"

section \<open>Positions\<close>

text \<open>The map from mints to balances: of several accounts of one mint the last one stays.\<close>

definition balance_of :: "(string \<times> u64 \<times> u8) list \<Rightarrow> string \<Rightarrow> (u64 \<times> u8) option" where
  "balance_of bs mint = map_of (rev bs) mint"

definition save_if_held :: "portfolio \<Rightarrow> string \<Rightarrow> store \<Rightarrow> store" where
  "save_if_held pf mint st =
     (case position_of pf mint of None \<Rightarrow> st | Some p \<Rightarrow> save_position p st)"

definition reconcile_position ::
    "(string \<times> u64 \<times> u8) list \<Rightarrow> datetime \<Rightarrow> string
     \<Rightarrow> reconcile_summary \<times> portfolio \<times> store \<Rightarrow> reconcile_summary \<times> portfolio \<times> store" where
  "reconcile_position bs now mint = (\<lambda>(s, pf, st).
    (case balance_of bs mint of
       None \<Rightarrow>
         (case reconcile_with_chain pf mint 0 0 now of
            (Inr _, pf') \<Rightarrow>
              (s\<lparr>rs_positions_closed := rs_positions_closed s + 1\<rparr>, pf', save_if_held pf' mint st)
          | (Inl _, pf') \<Rightarrow> (s, pf', st))
     | Some (amount, decimals) \<Rightarrow>
         (case reconcile_with_chain pf mint amount decimals now of
            (Inr True, pf') \<Rightarrow>
              (if map_option p_reconciliation_status (position_of pf' mint) = Some AdjustedOnChain
               then s\<lparr>rs_positions_adjusted := rs_positions_adjusted s + 1\<rparr>
               else s\<lparr>rs_positions_reconciled := rs_positions_reconciled s + 1\<rparr>,
               pf', save_if_held pf' mint st)
          | (Inr False, pf') \<Rightarrow> (s, pf', st)
          | (Inl _, pf') \<Rightarrow> (s\<lparr>rs_onchain_errors := rs_onchain_errors s + 1\<rparr>, pf', st))))"

definition reconcile_positions_onchain ::
    "'v chain_reader \<Rightarrow> datetime \<Rightarrow> string option \<Rightarrow> store
     \<Rightarrow> (storage_error + reconcile_summary) \<times> store" where
  "reconcile_positions_onchain C now owner st =
    (case owner of
       None \<Rightarrow> (Inr empty_summary, st)
     | Some own \<Rightarrow>
       (case cr_balances C own of
          Inl _ \<Rightarrow> (Inr (empty_summary\<lparr>rs_onchain_errors := 1\<rparr>), st)
        | Inr bs \<Rightarrow>
          (case load_portfolio st of
             Inl e \<Rightarrow> (Inl e, st)
           | Inr pf \<Rightarrow>
             (case fold (reconcile_position bs now) (map p_mint (open_positions_of pf))
                     (empty_summary, pf, st) of
                (s, _, st') \<Rightarrow> (Inr s, st')))))"

text \<open>\<open>run_reconciliation\<close>: the orders, then the positions.\<close>

definition run_reconciliation ::
    "ext \<Rightarrow> 'v chain_reader \<Rightarrow> (order_record \<Rightarrow> faults) \<Rightarrow> config \<Rightarrow> datetime \<Rightarrow> bool \<Rightarrow> string option
     \<Rightarrow> store \<Rightarrow> ((string + reconcile_summary) \<times> store) option" where
  "run_reconciliation X C fts c now live owner st =
    (case reconcile_pending_orders X C fts c now live owner st of
       None \<Rightarrow> None
     | Some (Inl e, st') \<Rightarrow> Some (Inl e, st')
     | Some (Inr s, st') \<Rightarrow>
       (case reconcile_positions_onchain C now owner st' of
          (Inl _, st'') \<Rightarrow> Some (Inl ''positions cannot be decoded'', st'')
        | (Inr p, st'') \<Rightarrow> Some (Inr (s\<lparr>rs_positions_reconciled := rs_positions_reconciled s
              + rs_positions_reconciled p,
             rs_positions_adjusted := rs_positions_adjusted s + rs_positions_adjusted p,
             rs_positions_closed := rs_positions_closed s + rs_positions_closed p,
             rs_onchain_errors := rs_onchain_errors s + rs_onchain_errors p\<rparr>), st'')))"

section \<open>Facts\<close>

lemma update_order_row:
  "r \<in> set (order_rows (update_order ord now st)) \<Longrightarrow> row_id r = o_id ord \<Longrightarrow>
     row_state r = state_debug (o_state ord) \<and> row_payload r = ord"
  by (auto simp: update_order_def split: if_split_asm)

lemma update_order_ids [simp]:
  "map row_id (order_rows (update_order ord now st)) = map row_id (order_rows st)"
  by (simp add: update_order_def comp_def if_distrib cong: if_cong)

lemma end_order_Inr:
  assumes "end_order ft now ord msg target verdict st = (res, st')"
  shows "kv st' = kv st" "fill_rows st' = fill_rows st"
    "map row_id (order_rows st') = map row_id (order_rows st)"
    "res = Inr v \<Longrightarrow> v = verdict"
  using assms by (auto simp: end_order_def Let_def split: if_split_asm)

lemma end_order_res:
  "end_order ft now ord msg target verdict st = (res, st') \<Longrightarrow> (\<exists>e. res = Inl e) \<or> res = Inr verdict"
  by (auto simp: end_order_def Let_def split: if_split_asm)

lemma end_order_Inl: "end_order ft now ord msg target verdict st = (Inl e, st') \<Longrightarrow> st' = st"
  by (auto simp: end_order_def Let_def split: if_split_asm)

text \<open>What a reconciled fill leaves in the store.\<close>

definition accounted ::
    "order_record \<Rightarrow> chain_swap_outcome \<Rightarrow> string \<Rightarrow> store \<Rightarrow> bool" where
  "accounted ord outcome sig st \<longleftrightarrow>
     (\<exists>f. fill_for_order st (o_id ord) = Some f \<and> f_signature f = sig
        \<and> f_input_amount f = co_input_amount outcome
        \<and> f_output_amount f = co_output_amount outcome
        \<and> f_fee_lamports f = co_fee_lamports outcome)
     \<and> list_all (\<lambda>r. row_id r = o_id ord \<longrightarrow> row_state r = ''Confirmed''
          \<and> o_signature (row_payload r) = Some sig) (order_rows st)"

text \<open>What an executed entry without a cost model leaves: the fill for the audit, the order failed.\<close>

definition audited ::
    "order_record \<Rightarrow> chain_swap_outcome \<Rightarrow> string \<Rightarrow> store \<Rightarrow> store \<Rightarrow> bool" where
  "audited ord outcome sig st st' \<longleftrightarrow> o_kind ord = Entry \<and> kv st' = kv st
     \<and> (\<exists>f. fill_for_order st' (o_id ord) = Some f \<and> f_signature f = sig
        \<and> f_input_amount f = co_input_amount outcome
        \<and> f_output_amount f = co_output_amount outcome)
     \<and> list_all (\<lambda>r. row_id r = o_id ord \<longrightarrow> row_state r = ''Failed''
          \<and> o_signature (row_payload r) = Some sig) (order_rows st')"

lemma account_body_Inr:
  assumes "account_body X now ord p td bd sig f st = Some (Inr st')"
    and "f_order_id f = o_id ord" "f_signature f = sig"
    and "f_input_amount f = co_input_amount outcome" "f_output_amount f = co_output_amount outcome"
    and "f_fee_lamports f = co_fee_lamports outcome"
  shows "accounted ord outcome sig st'" and "map row_id (order_rows st') = map row_id (order_rows st)"
proof -
  obtain st1 ord' where t: "transition (ord\<lparr>o_signature := Some sig\<rparr>) Confirmed = Inr ord'"
    and st': "st' = update_order ord' now st1"
    and st1: "fill_rows st1 = fill_rows (save_fill f st)" "order_rows st1 = order_rows st"
    using assms(1) by (fastforce simp: account_body_def Let_def split: sum.split_asm option.split_asm)
  from t have o: "o_id ord' = o_id ord" "o_state ord' = Confirmed" "o_signature ord' = Some sig"
    by (auto simp: transition_Inr)
  have "fill_for_order st' (o_id ord) = Some f"
    using st1 assms(2) by (simp add: st' fill_for_order_def save_fill_def)
  then show "accounted ord outcome sig st'"
    using assms(3-) o update_order_row [of _ ord' now st1]
    by (auto simp: accounted_def list_all_iff st')
  show "map row_id (order_rows st') = map row_id (order_rows st)" by (simp add: st' st1)
qed

lemma in_transaction_cases:
  assumes "in_transaction ft st body = Some (res, st')"
  shows "(res = Inr () \<and> body = Some (Inr st')) \<or> (\<exists>e. res = Inl e \<and> st' = st)"
  using assms by (auto simp: in_transaction_def split: tx_fault.split_asm option.split_asm sum.split_asm)

lemma audit_only_kv: "audit_only_body now ord sig f st = Inr st' \<Longrightarrow> kv st' = kv st"
  by (auto simp: audit_only_body_def split: sum.split_asm)

lemma audit_only_Inr:
  assumes "audit_only_body now ord sig f st = Inr st'" and "o_kind ord = Entry"
    and "f_order_id f = o_id ord" "f_signature f = sig"
    and "f_input_amount f = co_input_amount outcome" "f_output_amount f = co_output_amount outcome"
  shows "audited ord outcome sig st st'" "map row_id (order_rows st') = map row_id (order_rows st)"
proof -
  obtain ord' where t: "transition (ord\<lparr>o_signature := Some sig,
            o_error := Some (''entry order has no cost model; fill recorded but accounting cannot ''
              @ ''be completed'')\<rparr>) Failed = Inr ord'"
    and st': "st' = update_order ord' now (save_fill f st)"
    using assms(1) by (auto simp: audit_only_body_def split: sum.split_asm)
  from t have o: "o_id ord' = o_id ord" "o_state ord' = Failed" "o_signature ord' = Some sig"
    by (auto simp: transition_Inr)
  have "fill_for_order st' (o_id ord) = Some f"
    using assms(3) by (simp add: st' fill_for_order_def save_fill_def)
  then show "audited ord outcome sig st st'"
    using assms(2,4-) o update_order_row [of _ ord' now "save_fill f st"]
    by (auto simp: audited_def list_all_iff st')
  show "map row_id (order_rows st') = map row_id (order_rows st)" by (simp add: st')
qed

lemma settle_reconciled_cases:
  assumes "settle_reconciled X ft now st ord p td bd sig f = Some (res, st')"
    and f: "f_order_id f = o_id ord" "f_signature f = sig"
      "f_input_amount f = co_input_amount outcome" "f_output_amount f = co_output_amount outcome"
      "f_fee_lamports f = co_fee_lamports outcome"
  shows "(res = Inr True \<and> accounted ord outcome sig st'
      \<or> res \<noteq> Inr True \<and> (st' = st \<or> audited ord outcome sig st st'))
    \<and> map row_id (order_rows st') = map row_id (order_rows st)"
proof (cases "o_kind ord = Entry \<and> p_entry_cost_model p = None")
  case True
  then obtain r where tx: "in_transaction ft st (Some (audit_only_body now ord sig f st)) = Some (r, st')"
    and r: "res = map_sum id (\<lambda>_. False) r"
    using assms(1) by (auto simp: settle_reconciled_def)
  from in_transaction_cases [OF tx] show ?thesis
    using audit_only_Inr [OF _ conjunct1 [OF True] f(1-4)] r by (cases r) auto
next
  case False
  then obtain r where tx: "in_transaction ft st (account_body X now ord p td bd sig f st) = Some (r, st')"
    and r: "res = map_sum id (\<lambda>_. True) r"
    using assms(1) by (auto simp: settle_reconciled_def)
  from in_transaction_cases [OF tx] show ?thesis
    using account_body_Inr [OF _ f] r by (cases r) auto
qed

lemma record_reconciled_fill_cases:
  assumes "record_reconciled_fill X ft c now st ord outcome sig = Some (res, st')"
  shows "(res = Inr True \<and> accounted ord outcome sig st'
      \<or> res \<noteq> Inr True \<and> (st' = st \<or> audited ord outcome sig st st'))
    \<and> map row_id (order_rows st') = map row_id (order_rows st)"
proof -
  have "(res = Inr False \<and> st' = st)
    \<or> (\<exists>p td bd v q fees. settle_reconciled X ft now st ord p td bd sig
         (reconciled_fill ord outcome sig v q fees now) = Some (res, st'))"
    using assms unfolding record_reconciled_fill_def
    by (auto split: option.split_asm sum.split_asm prod.split_asm)
  then show ?thesis
    using settle_reconciled_cases [where outcome = outcome and ord = ord and sig = sig]
    by (fastforce simp: reconciled_fill_def)
qed

lemma reconcile_live_cases:
  assumes "reconcile_live X C ft c now owner ord sig st = Some (res, st')"
  shows "(res = Inr VUnresolved \<and> st' = st)
    \<or> (\<exists>own inp out expected. owner = Some own \<and> o_input_mint ord = Some inp
         \<and> o_output_mint ord = Some out \<and> o_input_amount_atomic ord = Some expected
         \<and> (let answer = reconcile_signature (cr_json C) (cr_status C) (cr_transaction C) sig inp out
                           own expected in
            (\<exists>outcome. answer = Inr (Some outcome)
               \<and> (res = Inr VConfirmed \<and> accounted ord outcome sig st'
                  \<or> res = Inr VUnresolved \<and> audited ord outcome sig st st')
               \<and> map row_id (order_rows st') = map row_id (order_rows st))
          \<or> (answer = Inr None \<and> now - o_created_at ord > secs (unknown_after_secs (rpc c))
               \<and> (\<exists>msg. end_order ft now ord msg Expired VExpired st = (res, st')))
          \<or> (\<exists>detail. answer = Inl (Transaction detail)
               \<and> end_order ft now ord detail Failed VFailed st = (res, st'))))"
proof (cases "\<exists>own inp out expected. owner = Some own \<and> o_input_mint ord = Some inp
         \<and> o_output_mint ord = Some out \<and> o_input_amount_atomic ord = Some expected")
  case False
  then show ?thesis using assms
    by (auto simp: reconcile_live_def split: option.split_asm)
next
  case True
  then obtain own inp out expected where
      r: "owner = Some own" "o_input_mint ord = Some inp" "o_output_mint ord = Some out"
      "o_input_amount_atomic ord = Some expected" by blast
  let ?a = "reconcile_signature (cr_json C) (cr_status C) (cr_transaction C) sig inp out own expected"
  consider (fill) outcome where "?a = Inr (Some outcome)" | (pending) "?a = Inr None"
    | (failed) detail where "?a = Inl (Transaction detail)"
    | (other) e where "?a = Inl e" "\<forall>d. e \<noteq> Transaction d"
    by (cases ?a; cases "projr ?a"; force)
  then show ?thesis
  proof cases
    case fill
    then obtain rec where rec: "record_reconciled_fill X ft c now st ord outcome sig = Some (rec, st')"
      and res: "res = Inr (case rec of Inr True \<Rightarrow> VConfirmed | _ \<Rightarrow> VUnresolved)"
      using assms r by (auto simp: reconcile_live_def)
    note record_reconciled_fill_cases [OF rec]
    then show ?thesis using fill r res
      by (cases "rec = Inr True") (auto simp: Let_def split: sum.splits bool.splits)
  next
    case pending
    then show ?thesis using assms r by (auto simp: reconcile_live_def Let_def split: if_split_asm)
  next
    case failed
    then show ?thesis using assms r by (auto simp: reconcile_live_def Let_def)
  next
    case other
    then show ?thesis using assms r
      by (cases e) (auto simp: reconcile_live_def Let_def)
  qed
qed

lemma reconcile_order_ids:
  assumes "reconcile_order X C ft c now live owner ord st = Some (res, st')"
  shows "map row_id (order_rows st') = map row_id (order_rows st)"
proof -
  have e: "map row_id (order_rows st') = map row_id (order_rows st)"
    if "end_order ft now ord msg target v st = (res, st')" for msg target v
    using end_order_Inr(3) [OF that] .
  show ?thesis
  proof (cases "o_signature ord")
    case None
    then show ?thesis using assms e
      by (cases live) (auto simp: reconcile_order_def split: if_split_asm)
  next
    case (Some sig)
    then show ?thesis
    proof (cases live)
      case True
      then have "reconcile_live X C ft c now owner ord sig st = Some (res, st')"
        using assms Some by (simp add: reconcile_order_def)
      from reconcile_live_cases [OF this] e show ?thesis by (auto simp: Let_def)
    qed (use assms e Some in \<open>auto simp: reconcile_order_def\<close>)
  qed
qed

text \<open>The orders counted so far.\<close>

definition counted :: "reconcile_summary \<Rightarrow> u32" where
  "counted s = rs_confirmed_orders s + rs_failed_orders s + rs_expired_orders s
     + rs_unresolved_orders s"

lemma counted_count: "counted (count_order v s) = counted s + 1"
  by (cases v) (simp_all add: counted_def)

lemma reconcile_orders_Inr:
  "reconcile_orders X C fts c now live owner ords s st = Some (res, st') \<Longrightarrow>
     map row_id (order_rows st') = map row_id (order_rows st)
     \<and> (res = Inr s' \<longrightarrow> counted s' = counted s + of_nat (length ords))"
proof (induction X C fts c now live owner ords s st rule: reconcile_orders.induct)
  case (1 X C fts c now live owner s st)
  then show ?case by auto
next
  case (2 X C fts c now live owner ord ords s st)
  obtain r st1 where o: "reconcile_order X C (fts ord) c now live owner ord st = Some (r, st1)"
    using 2(2) by (auto split: option.split_asm)
  note ids = reconcile_order_ids [OF o]
  show ?case
  proof (cases r)
    case (Inl e)
    then show ?thesis using 2(2) o ids by auto
  next
    case (Inr v)
    have "reconcile_orders X C fts c now live owner ords (count_order v s) st1 = Some (res, st')"
      using 2(2) o Inr by simp
    from 2(1) [OF o refl Inr this] show ?thesis
      using ids by (auto simp: counted_count algebra_simps)
  qed
qed

subsection \<open>Positions against the chain\<close>

definition chain_amount :: "(string \<times> u64 \<times> u8) list \<Rightarrow> string \<Rightarrow> u64" where
  "chain_amount bs mint = (case balance_of bs mint of None \<Rightarrow> 0 | Some (a, _) \<Rightarrow> a)"

text \<open>
  What reconciliation promises for a mint: a trusted quantity, the chain's; or the node reports other
  decimals than the position records, and the position is left as it was in the portfolio \<open>pf\<close>.
\<close>

definition adopted :: "(string \<times> u64 \<times> u8) list \<Rightarrow> portfolio \<Rightarrow> position \<Rightarrow> bool" where
  "adopted bs pf p \<longleftrightarrow> is_open p \<longrightarrow> trusted_remaining p = Some (chain_amount bs (p_mint p))
     \<or> (\<exists>a d td. balance_of bs (p_mint p) = Some (a, d) \<and> p_token_decimals p = Some td \<and> td \<noteq> d
          \<and> map_of pf (p_mint p) = Some p)"

lemma adopted_cong: "map_of pf (p_mint p) = map_of pf1 (p_mint p) \<Longrightarrow> adopted bs pf p = adopted bs pf1 p"
  by (simp add: adopted_def)

definition synced :: "portfolio \<Rightarrow> store \<Rightarrow> bool" where
  "synced pf st \<longleftrightarrow> (\<forall>m. kv_look st (position_key m) = map_option VPosition (map_of pf m)
     \<and> (\<forall>p. map_of pf m = Some p \<longrightarrow> p_mint p = m))"

lemma position_key_eq [simp]: "position_key a = position_key b \<longleftrightarrow> a = b"
  by (simp add: position_key_def)

lemma kv_look_save: "kv_look (save_position p st) (position_key m)
    = (if m = p_mint p then Some (VPosition p) else kv_look st (position_key m))"
  by (simp add: save_position_def kvs.look_put)

lemma reconcile_with_chain_mint:
  assumes "reconcile_with_chain pf mint amount decimals now = (res, pf')"
    and "map_of pf' m = Some p'"
  shows "\<exists>p. map_of pf m = Some p \<and> p_mint p' = p_mint p"
  using assms by (auto simp: reconcile_with_chain_def split: option.splits if_splits)

lemma reconcile_with_chain_False:
  assumes "reconcile_with_chain pf mint amount decimals now = (Inr False, pf')"
  shows "pf' = pf" and "map_of pf mint = Some p \<Longrightarrow> \<not> is_open p"
  using assms by (auto simp: reconcile_with_chain_def split: option.splits if_splits)

lemma reconcile_with_chain_mismatch:
  assumes "reconcile_with_chain pf mint amount decimals now = (Inl e, pf')"
  shows "pf' = pf" "amount \<noteq> 0"
    "map_of pf mint = Some p \<Longrightarrow> \<exists>td. p_token_decimals p = Some td \<and> td \<noteq> decimals"
  using assms by (auto simp: reconcile_with_chain_def split: option.splits if_splits)

lemma reconcile_with_chain_absent:
  assumes "reconcile_with_chain pf mint amount decimals now = (res, pf')" and "map_of pf' mint = None"
  shows "pf' = pf"
  using assms by (auto simp: reconcile_with_chain_def split: option.splits if_splits)

lemma synced_save:
  assumes "synced pf st" "reconcile_with_chain pf mint amount decimals now = (res, pf')"
  shows "synced pf' (save_if_held pf' mint st)"
proof -
  have own: "map_of pf' m = Some p \<Longrightarrow> p_mint p = m" for m p
    using reconcile_with_chain_mint [OF assms(2)] assms(1) by (fastforce simp: synced_def)
  have "kv_look (save_if_held pf' mint st) (position_key m) = map_option VPosition (map_of pf' m)" for m
  proof (cases "map_of pf' mint")
    case None
    then show ?thesis
      using reconcile_with_chain_absent [OF assms(2) None] assms(1)
      by (simp add: save_if_held_def position_of_def synced_def)
  next
    case (Some r)
    then have "p_mint r = mint" by (rule own)
    then show ?thesis
      using Some assms(1) reconcile_with_chain_frame(1) [OF assms(2)]
      by (cases "m = mint") (simp_all add: save_if_held_def position_of_def kv_look_save synced_def)
  qed
  then show ?thesis using own by (simp add: synced_def)
qed

text \<open>The portfolio loaded from a well-formed store mirrors it.\<close>

lemma load_lookup:
  "distinct (map p_mint ps) \<Longrightarrow> map_of (load ps pf) m
     = (case find (\<lambda>p. p_mint p = m) ps of None \<Rightarrow> map_of pf m | Some p \<Rightarrow> Some p)"
proof (induction ps arbitrary: pf)
  case (Cons p ps)
  have "p_mint p = m \<Longrightarrow> find (\<lambda>p. p_mint p = m) ps = None"
    using Cons.prems by (auto simp: find_None_iff image_iff)
  moreover have "load (p # ps) pf = load ps (sync_position p pf)" by (simp add: load_def)
  ultimately show ?case using Cons by (auto simp: sync_position_def split: option.split)
qed (simp add: load_def)

lemma load_distinct: "distinct (map fst pf) \<Longrightarrow> distinct (map fst (load ps pf))"
  unfolding load_def by (induction ps arbitrary: pf) (simp_all add: sync_position_def distinct_update)

lemma load_synced:
  assumes "store_ok st" "load_portfolio st = Inr pf"
  shows "synced pf st" and "distinct (map fst pf)"
proof -
  obtain ps where ps: "positions st = Inr ps" "distinct (map p_mint ps)"
    and look: "\<And>p. p \<in> set ps \<longleftrightarrow> kv_look st (position_key (p_mint p)) = Some (VPosition p)"
    by (rule positions_map [OF assms(1)]) (rule that)
  have pf: "pf = load ps []" using assms(2) ps(1) by (simp add: load_portfolio_def)
  show "distinct (map fst pf)" unfolding pf by (rule load_distinct) simp
  show "synced pf st" unfolding synced_def
  proof (intro allI conjI impI)
    fix m
    show "kv_look st (position_key m) = map_option VPosition (map_of pf m)"
    proof (cases "kv_look st (position_key m)")
      case None
      then have "find (\<lambda>p. p_mint p = m) ps = None" using look by (auto simp: find_None_iff)
      then show ?thesis using None ps(2) by (simp add: pf load_lookup)
    next
      case (Some v)
      then have "(position_key m, v) \<in> set (kv st)" by (simp add: kv_look_def map_of_SomeD)
      then obtain p where v: "v = VPosition p" "m = p_mint p"
        using assms(1) by (fastforce simp: store_ok_def kv_ok_def)
      then have "p \<in> set ps" using Some look by simp
      then obtain q where q: "find (\<lambda>p. p_mint p = m) ps = Some q"
        using v(2) by (cases "find (\<lambda>p. p_mint p = m) ps") (auto simp: find_None_iff)
      then have "q \<in> set ps" "p_mint q = m" by (auto simp: find_Some_iff)
      then have "kv_look st (position_key m) = Some (VPosition q)" using look by blast
      then show ?thesis using q ps(2) by (simp add: pf load_lookup)
    qed
  next
    fix m p assume "map_of pf m = Some p"
    then show "p_mint p = m"
      using ps(2) by (auto simp: pf load_lookup find_Some_iff split: option.split_asm)
  qed
qed

lemma open_mints:
  assumes "synced pf st" "distinct (map fst pf)"
  shows "distinct (map p_mint (open_positions_of pf))"
    and "map_of pf m = Some p \<Longrightarrow> is_open p \<Longrightarrow> m \<in> set (map p_mint (open_positions_of pf))"
proof -
  have k: "\<forall>(m, p)\<in>set pf. p_mint p = m"
    using assms by (auto simp: synced_def)
  then have "map p_mint (open_positions_of pf) = map fst (filter (\<lambda>(m, p). is_open p) pf)"
    unfolding open_positions_of_def by (induction pf) auto
  then show "distinct (map p_mint (open_positions_of pf))"
    using assms(2) by (simp add: distinct_map_filter)
  show "map_of pf m = Some p \<Longrightarrow> is_open p \<Longrightarrow> m \<in> set (map p_mint (open_positions_of pf))"
    using k by (force simp: open_positions_of_def dest: map_of_SomeD)
qed

lemma adopted_step:
  assumes "reconcile_with_chain pf mint (chain_amount bs mint) decimals now = (res, pf')"
    and "\<forall>a d. balance_of bs mint = Some (a, d) \<longrightarrow> d = decimals"
    and "balance_of bs mint = None \<longrightarrow> (\<forall>e. res \<noteq> Inl e)"
    and "map_of pf' mint = Some p" "p_mint p = mint"
  shows "adopted bs pf p"
proof (cases res)
  case (Inr b)
  show ?thesis
  proof (cases b)
    case True
    with assms(1,4,5) Inr reconcile_adopts show ?thesis by (fastforce simp: adopted_def)
  next
    case False
    with assms(1,4) Inr reconcile_with_chain_False show ?thesis by (fastforce simp: adopted_def)
  qed
next
  case (Inl e)
  note mm = reconcile_with_chain_mismatch [OF assms(1) [unfolded Inl]]
  obtain a d where "balance_of bs mint = Some (a, d)" using assms(3) Inl by fastforce
  then show ?thesis using mm(1,3) assms(2,4,5) by (auto simp: adopted_def)
qed

lemma reconcile_position_adopts:
  assumes "reconcile_position bs now mint (s, pf, st) = (s', pf', st')" and "synced pf st"
  shows "synced pf' st' \<and> (\<forall>m. m \<noteq> mint \<longrightarrow> map_of pf' m = map_of pf m)
    \<and> (\<forall>p. map_of pf' mint = Some p \<longrightarrow> adopted bs pf p)"
proof -
  define dec where "dec = (case balance_of bs mint of None \<Rightarrow> 0 | Some (_, d) \<Rightarrow> d)"
  obtain res pf1 where r: "reconcile_with_chain pf mint (chain_amount bs mint) dec now = (res, pf1)"
    by fastforce
  have none: "balance_of bs mint = None \<longrightarrow> (\<forall>e. res \<noteq> Inl e)"
    using r reconcile_with_chain_mismatch(2) by (fastforce simp: chain_amount_def)
  have pf': "pf' = pf1" and st': "st' = save_if_held pf1 mint st \<or> st' = st \<and> pf1 = pf"
    using assms(1) r reconcile_with_chain_False(1) reconcile_with_chain_mismatch(1) none
    by (auto simp: reconcile_position_def chain_amount_def dec_def
        split: option.split_asm sum.split_asm bool.split_asm prod.split_asm)
  have sy: "synced pf' st'" using st' synced_save [OF assms(2) r] assms(2) pf' by auto
  have "adopted bs pf p" if "map_of pf1 mint = Some p" for p
  proof -
    have "p_mint p = mint" using sy that pf' by (auto simp: synced_def)
    then show ?thesis using adopted_step [OF r _ none that] by (simp add: dec_def)
  qed
  then show ?thesis using sy reconcile_with_chain_frame(1) [OF r] pf' by auto
qed

lemma reconcile_positions_adopts:
  assumes "fold (reconcile_position bs now) mints (s, pf, st) = (s', pf', st')" and "synced pf st"
  shows "synced pf' st' \<and> (\<forall>m. m \<notin> set mints \<longrightarrow> map_of pf' m = map_of pf m)
    \<and> (distinct mints \<longrightarrow> (\<forall>m\<in>set mints. \<forall>p. map_of pf' m = Some p \<longrightarrow> adopted bs pf p))"
  using assms
proof (induction mints arbitrary: s pf st)
  case (Cons mint mints)
  obtain s1 pf1 st1 where o: "reconcile_position bs now mint (s, pf, st) = (s1, pf1, st1)"
    by (metis prod_cases3)
  note step = reconcile_position_adopts [OF o Cons.prems(2)]
  have "fold (reconcile_position bs now) mints (s1, pf1, st1) = (s', pf', st')"
    using Cons.prems(1) o by simp
  note ih = Cons.IH [OF this conjunct1 [OF step]]
  show ?case
  proof (intro conjI allI impI ballI)
    fix m p assume d: "distinct (mint # mints)" and m: "m \<in> set (mint # mints)"
      and p: "map_of pf' m = Some p"
    have pm: "p_mint p = m" using ih p by (auto simp: synced_def)
    show "adopted bs pf p"
    proof (cases "m = mint")
      case True
      then show ?thesis using ih step d p by auto
    next
      case False
      then have "adopted bs pf1 p" using ih d m p by auto
      then show ?thesis using adopted_cong [of pf p pf1] pm False step by simp
    qed
  qed (use ih step in auto)
qed simp

text \<open>What the chain says of an order whose parameters are known, and the four ways a live order ends.\<close>

definition chain_answer ::
    "'v chain_reader \<Rightarrow> string option \<Rightarrow> order_record \<Rightarrow> string
     \<Rightarrow> execution_error + chain_swap_outcome option \<Rightarrow> bool" where
  "chain_answer C owner ord sig ans \<longleftrightarrow> (\<exists>own inp out expected. owner = Some own
     \<and> o_input_mint ord = Some inp \<and> o_output_mint ord = Some out
     \<and> o_input_amount_atomic ord = Some expected
     \<and> reconcile_signature (cr_json C) (cr_status C) (cr_transaction C) sig inp out own expected = ans)"

lemma reconcile_live_ends:
  assumes "reconcile_live X C ft c now owner ord sig st = Some (res, st')"
  obtains (unresolved) "res = Inr VUnresolved" "st' = st"
  | (audit) outcome where "chain_answer C owner ord sig (Inr (Some outcome))"
      "res = Inr VUnresolved" "audited ord outcome sig st st'"
  | (fill) outcome where "chain_answer C owner ord sig (Inr (Some outcome))"
      "res = Inr VConfirmed" "accounted ord outcome sig st'"
  | (old) msg where "chain_answer C owner ord sig (Inr None)"
      "now - o_created_at ord > secs (unknown_after_secs (rpc c))"
      "end_order ft now ord msg Expired VExpired st = (res, st')"
  | (failed) detail where "chain_answer C owner ord sig (Inl (Transaction detail))"
      "end_order ft now ord detail Failed VFailed st = (res, st')"
proof -
  have ans: "chain_answer C owner ord sig a"
    if "owner = Some own" "o_input_mint ord = Some inp" "o_output_mint ord = Some out"
      "o_input_amount_atomic ord = Some expected"
      "reconcile_signature (cr_json C) (cr_status C) (cr_transaction C) sig inp out own expected = a"
    for own inp out expected a
    using that by (simp add: chain_answer_def)
  from reconcile_live_cases [OF assms] show thesis unfolding Let_def
  proof (elim disjE exE conjE, goal_cases)
    case 1
    show ?case by (rule unresolved) (fact 1)+
  next
    case 2
    show ?case by (rule fill, rule ans) (fact 2)+
  next
    case 3
    show ?case by (rule audit, rule ans) (fact 3)+
  next
    case 4
    show ?case by (rule old, rule ans) (fact 4)+
  next
    case 5
    show ?case by (rule failed, rule ans) (fact 5)+
  qed
qed

lemma chain_answer_fill:
  assumes "chain_answer C owner ord sig (Inr (Some outcome))"
  shows "\<exists>own inp out expected status tx. owner = Some own \<and> o_input_mint ord = Some inp
         \<and> o_output_mint ord = Some out \<and> o_input_amount_atomic ord = Some expected
         \<and> cr_status C sig = Inr (Some status) \<and> ss_err status = None
         \<and> is_confirmed_or_finalized status \<and> cr_transaction C sig = Inr (Some tx)
         \<and> parse_swap_transaction (cr_json C) tx inp out own expected = Executed outcome"
  using assms reconcile_signature_fill unfolding chain_answer_def by metis

section \<open>Properties\<close>


text \<open>
  A pass over the open orders that does not
  abort counts each of them once, as confirmed, failed, expired or unresolved; no pass, aborted or
  not, adds an order or removes one.
\<close>

theorem reconciliation_counts_every_order:
  assumes "reconcile_pending_orders X C fts c now live owner st = Some (res, st')"
  shows "map row_id (order_rows st') = map row_id (order_rows st)
    \<and> (case res of Inl _ \<Rightarrow> True
       | Inr s \<Rightarrow> rs_confirmed_orders s + rs_failed_orders s + rs_expired_orders s
           + rs_unresolved_orders s = of_nat (length (incomplete_orders st)))"
proof -
  note r = assms [unfolded reconcile_pending_orders_def]
  show ?thesis using reconcile_orders_Inr [OF r]
    by (cases res) (auto simp: counted_def empty_summary_def)
qed

text \<open>A live exit order of the held position whose swap the chain shows.\<close>

definition live_order :: order_record where
  "live_order = (sample_order Unknown)\<lparr>o_output_mint := Some ''u'', o_signature := Some ''sig'',
     o_input_value_usd := Some 50\<rparr>"

definition sample_reader :: "jval chain_reader" where
  "sample_reader = \<lparr>cr_json = jval_ops,
     cr_status = (\<lambda>_. Inr (Some \<lparr>ss_err = None, ss_confirmation_status = Some ''confirmed'',
        ss_slot = 1\<rparr>)),
     cr_transaction = (\<lambda>_. Inr (Some (swap_json ''150'' ''100''))),
     cr_balances = (\<lambda>_. Inr [(''m'', 400, 2)])\<rparr>"

abbreviation sample_outcome :: chain_swap_outcome where
  "sample_outcome \<equiv> \<lparr>co_input_amount = 50, co_output_amount = 30, co_fee_lamports = 5000,
     co_block_time = None\<rparr>"

lemma sample_reader_swap:
  "reconcile_signature (cr_json sample_reader) (cr_status sample_reader)
     (cr_transaction sample_reader) sig ''m'' ''u'' ''w'' expected = Inr (Some sample_outcome)"
  using parse_swap_sample [of "''150''" 150 "''100''" 100 50 expected]
  by (simp add: reconcile_signature_def sample_reader_def is_confirmed_or_finalized_def parse_sample)

lemma live_order_fields [simp]:
  "o_signature live_order = Some ''sig''" "o_input_mint live_order = Some ''m''"
  "o_output_mint live_order = Some ''u''" "o_input_amount_atomic live_order = Some 500"
  "o_input_value_usd live_order = Some 50" "o_position_id live_order = Some ''pos''"
  "o_kind live_order = Exit" "o_mint live_order = ''m''" "o_id live_order = ''o''"
  "o_state live_order = Unknown" "o_error live_order = None"
  by (simp_all add: live_order_def sample_order_def)

lemma live_fill:
  "\<exists>st'. record_reconciled_fill exact_ext no_faults (example_config Paper) 0 held_store live_order
     sample_outcome ''sig'' = Some (Inr True, st')"
proof -
  have p: "order_position no_faults held_store live_order = Some sample_position"
    by (simp add: order_position_def held_positions sample_position_def)
  have f: "p_token_decimals sample_position = Some 2" "p_base_mint_decimals sample_position = Some 3"
    "p_base_entry_price_usd sample_position = Some 10"
    by (simp_all add: sample_position_def)
  have pr: "price_fill exact_ext (OutputUnitPriceUsd 10) 50 2 30 3 = Some (Inr (3 / 10, 3 / 5))"
    by (simp add: price_fill_def units_def checked_pow10_def dec_of_word_def fit_def dec_max_def)
  have fe: "fee_usd exact_ext 5000 (Some 150) = Some (3 / 4000)"
    by (simp add: fee_usd_def dec_of_word_def fit_def dec_max_def)
  let ?f = "reconciled_fill live_order sample_outcome ''sig'' (3 / 10) (3 / 5) (3 / 4000) 0"
  have l: "load_portfolio (save_fill ?f held_store) = Inr [(''m'', sample_position)]"
    using held_positions held_load positions_kv [of "save_fill ?f held_store" held_store]
    by (simp add: load_portfolio_def load_def sync_position_def)
  have "\<exists>out pf. apply_exit exact_ext [(''m'', sample_position)] ''m'' ?f ''reconciled'' 0
      = Some (Inr (out, pf))"
    by (simp add: apply_exit_def exit_update_def sample_position_def reconciled_fill_def
        checked_sub_def dec_of_word_def fit_def dec_max_def Let_def)
  then obtain out pf where e: "apply_exit exact_ext [(''m'', sample_position)] ''m'' ?f ''reconciled'' 0
      = Some (Inr (out, pf))" by blast
  have t: "\<exists>o'. transition (live_order\<lparr>o_signature := Some ''sig''\<rparr>) Confirmed = Inr o'"
    by (simp add: transition_def)
  show ?thesis
    using t by (auto simp: record_reconciled_fill_def p f pr fe settle_reconciled_def in_transaction_def
        account_body_def l apply_reconciled_def e Let_def)
qed


theorem reconciliation_counts_every_order_witness:
  "\<exists>st' s. reconcile_pending_orders exact_ext sample_reader (\<lambda>_. no_faults) (example_config Paper) 0
       False None (held_store\<lparr>order_rows := [row_of (sample_order Pending) 0]\<rparr>) = Some (Inr s, st')
     \<and> rs_confirmed_orders s + rs_failed_orders s + rs_expired_orders s + rs_unresolved_orders s = 1"
proof -
  let ?st = "held_store\<lparr>order_rows := [row_of (sample_order Pending) 0]\<rparr>"
  have i: "incomplete_orders ?st = [sample_order Pending]"
    by (simp add: incomplete_orders_def incomplete_row_def row_of_def sample_order_def)
  have "\<exists>v st'. reconcile_order exact_ext sample_reader no_faults (example_config Paper) 0 False None
      (sample_order Pending) ?st = Some (Inr v, st')"
    by (simp add: reconcile_order_def end_order_def Let_def split: option.split)
  then obtain st' s where r: "reconcile_pending_orders exact_ext sample_reader (\<lambda>_. no_faults)
      (example_config Paper) 0 False None ?st = Some (Inr s, st')"
    by (auto simp: reconcile_pending_orders_def i)
  with reconciliation_counts_every_order [OF r] i show ?thesis by auto
qed



text \<open>
  A wallet may hold several token accounts of a mint. The balances are collected into a map keyed by
  the mint, so only one of them counts, and the position is adjusted to a part of the holding.
\<close>

lemma second_account_replaces_first:
  "balance_of [(mint, a, d), (mint, b, d)] mint = Some (b, d)"
  by (simp add: balance_of_def)

text \<open>
  An entry whose outcome was unknown cannot be
  settled by reconciliation. The position an entry order names is only created when its fill is
  accounted, so as long as no stored position has that id, an order whose swap the chain shows as
  executed stays unresolved and the store unchanged, at every pass: the bought tokens have no
  position that could be sold, and new entries stay blocked.
\<close>

theorem landed_entry_is_never_accounted:
  assumes "o_signature ord = Some sig" and "o_position_id ord = Some pid"
    and "positions st = Inr ps" and "Some pid \<notin> p_position_id ` set ps"
    and "ord \<in> set (incomplete_orders st)"
    and "o_input_mint ord = Some inp" and "o_output_mint ord = Some out"
    and "o_input_amount_atomic ord = Some expected"
    and "reconcile_signature (cr_json C) (cr_status C) (cr_transaction C) sig inp out own expected
      = Inr (Some outcome)"
  shows "reconcile_order X C ft c now True (Some own) ord st = Some (Inr VUnresolved, st)
    \<and> entries_blocked_by st"
proof -
  have "find (\<lambda>p. p_position_id p = Some pid) ps = None"
    using assms(4) by (auto simp: find_None_iff image_iff)
  then have "order_position ft st ord = None"
    using assms(2,3) by (simp add: order_position_def split: option.split)
  then have "record_reconciled_fill X ft c now st ord outcome sig = Some (Inr False, st)"
    by (simp add: record_reconciled_fill_def)
  then have "reconcile_order X C ft c now True (Some own) ord st = Some (Inr VUnresolved, st)"
    using assms by (simp add: reconcile_order_def reconcile_live_def)
  moreover have "entries_blocked_by st" using assms(5) by (auto simp: entries_blocked_by_def)
  ultimately show ?thesis by blast
qed

theorem landed_entry_is_never_accounted_witness:
  "reconcile_order exact_ext sample_reader no_faults (example_config Paper) 0 True (Some ''w'')
     (live_order\<lparr>o_kind := Entry, o_position_id := Some ''new''\<rparr>)
     (held_store\<lparr>order_rows := [row_of (live_order\<lparr>o_kind := Entry, o_position_id := Some ''new''\<rparr>) 0]\<rparr>)
   = Some (Inr VUnresolved,
     held_store\<lparr>order_rows := [row_of (live_order\<lparr>o_kind := Entry, o_position_id := Some ''new''\<rparr>) 0]\<rparr>)"
proof -
  let ?o = "live_order\<lparr>o_kind := Entry, o_position_id := Some ''new''\<rparr>"
  let ?st = "held_store\<lparr>order_rows := [row_of ?o 0]\<rparr>"
  have p: "positions ?st = Inr [sample_position]"
    using held_positions positions_kv [of ?st held_store] by simp
  have i: "?o \<in> set (incomplete_orders ?st)"
    by (simp add: incomplete_orders_def incomplete_row_def row_of_def)
  have n: "Some ''new'' \<notin> p_position_id ` set [sample_position]"
    by (simp add: sample_position_def)
  show ?thesis
    using landed_entry_is_never_accounted [OF _ _ p n i, of "''sig''" "''m''" "''u''" 500
        sample_reader "''w''" sample_outcome exact_ext no_faults "example_config Paper" 0]
      sample_reader_swap by simp
qed

end
