(* ===== verification/Runtime_Entry.thy ===== *)
theory Runtime_Entry
  imports Runtime_Orders Risk Strategy
begin

text \<open>
  \<open>src/runtime.rs\<close>, the entry pipeline: \<open>process_entries\<close> for the candidates of a tick and
  \<open>compute_live_input_amount_atomic\<close>. Candidates come from a hash map, so they are a list in any
  order. UUIDs are arguments; a run that stops with a storage error returns the state it reached.
  \<open>latch_kill_switch\<close> is taken to succeed.
\<close>

section \<open>State\<close>

record candidate =
  cd_mint :: string
  cd_token_decimals :: "u8 option"
  cd_base_mint_decimals :: "u8 option"
  cd_input_amount :: u64
  cd_position_usd :: decimal
  cd_expected_gross_return_pct :: decimal
  cd_market :: market_snapshot
  cd_safety :: token_safety
  cd_wallets :: "wallet_stats list"
  cd_costs :: cost_model
  cd_blockchain_timestamp :: datetime
  cd_detection_timestamp :: datetime
  cd_candidate_timestamp :: datetime
  cd_detection_latency_ms :: int

record session =
  se_portfolio :: portfolio
  se_risk :: risk_engine
  se_candidates :: "(string \<times> candidate) list"
  se_seen_signals :: "string set"
  se_day_key :: string
  se_emergency_active :: bool
  se_sol_price_usd :: "decimal option"
  se_sol_price_fetched_at :: "datetime option"

section \<open>Sizing\<close>

definition compute_live_input_amount_atomic ::
    "ext \<Rightarrow> decimal \<Rightarrow> decimal \<Rightarrow> u8 \<Rightarrow> (execution_error + decimal) option" where
  "compute_live_input_amount_atomic X sized_usd sol_price token_dec =
    (if sol_price \<le> 0 then Some (Inl (Policy ''sol_price_usd must be positive''))
     else if token_dec > 18 then Some (Inl (Policy ''token decimals overflow''))
     else do {
       a \<leftarrow> dec_mul X sized_usd sol_price;
       b \<leftarrow> dec_mul X a 1000000000;
       atomic \<leftarrow> dec_div X b (10 ^ unat token_dec);
       Some (Inr atomic)
     })"

definition parse_or_zero :: "ext \<Rightarrow> decimal \<Rightarrow> u64" where
  "parse_or_zero X d = (case parse_u64 (dec_show X d) of None \<Rightarrow> 0 | Some n \<Rightarrow> n)"

text \<open>The amount to sell and the notional in USD, or the reason for skipping.\<close>

definition entry_size ::
    "ext \<Rightarrow> config \<Rightarrow> risk_engine \<Rightarrow> decimal option \<Rightarrow> candidate \<Rightarrow> u8
     \<Rightarrow> (string + u64 \<times> decimal) option" where
  "entry_size X c re sol cand token_dec =
    (if cfg_mode c = Live
     then do {
       m \<leftarrow> max_position_usd X re (stop_loss_pct (strategy c));
       let max_pos = (case m of None \<Rightarrow> 0 | Some v \<Rightarrow> v);
       if max_pos \<le> 0 then Some (Inl ''risk engine computed zero position size'')
       else do {
         let sized = (if cd_position_usd cand > 0 \<and> cd_position_usd cand \<le> max_pos
                      then cd_position_usd cand else max_pos);
         live_input \<leftarrow> compute_live_input_amount_atomic X sized
           (case sol of None \<Rightarrow> 0 | Some p \<Rightarrow> p) token_dec;
         case live_input of
           Inl e \<Rightarrow> Some (Inl ''failed to compute live input amount'')
         | Inr atomic \<Rightarrow> Some (Inr (parse_or_zero X atomic,
             if atomic > max_live_capital_usd (risk c) then max_live_capital_usd (risk c)
             else atomic))
       }
     }
     else Some (Inr (parse_or_zero X (cd_position_usd cand), cd_position_usd cand)))"

section \<open>Screening\<close>

text \<open>The filters before the strategy, in the order of the code.\<close>

definition screen_problem :: "ext \<Rightarrow> config \<Rightarrow> session \<Rightarrow> string \<Rightarrow> candidate \<Rightarrow> datetime \<Rightarrow> bool" where
  "screen_problem X c se mint cand now \<longleftrightarrow>
     (case position_of (se_portfolio se) mint of Some p \<Rightarrow> is_open p | None \<Rightarrow> False)
   \<or> num_seconds X (now - cd_detection_timestamp cand) > max_data_age_secs (rpc c)
   \<or> cd_token_decimals cand = None \<or> cd_base_mint_decimals cand = None
   \<or> position_size_usd (cm_input (cd_costs cand)) \<noteq> cd_position_usd cand"

definition evidence_wallets :: "candidate \<Rightarrow> wallet_stats list" where
  "evidence_wallets cand =
     filter (\<lambda>w. w_updated_at w \<le> mk_observed_at (cd_market cand)) (cd_wallets cand)"

definition screen_candidate ::
    "ext \<Rightarrow> config \<Rightarrow> session \<Rightarrow> string \<Rightarrow> candidate \<Rightarrow> datetime \<Rightarrow> string
     \<Rightarrow> (string + trade_signal) option" where
  "screen_candidate X c se mint cand now uuid =
    (if screen_problem X c se mint cand now then Some (Inl ''screened'')
     else do {
       gate \<leftarrow> authorize_entry X (re_kill_switch (se_risk se))
         \<lparr>gate_threshold_pct = round_trip_cost_threshold_pct (economics c)\<rparr> (cd_costs cand);
       case gate of
         Inl _ \<Rightarrow> Some (Inl ''economic cost gate rejected candidate'')
       | Inr _ \<Rightarrow> do {
           est \<leftarrow> estimate X (cd_expected_gross_return_pct cand) (cd_costs cand) 0 0
             (uncertainty_haircut_pct (economics c));
           case est of
             Inl _ \<Rightarrow> Some (Inl ''expected-value estimation failed'')
           | Inr ev \<Rightarrow> do {
               decision \<leftarrow> evaluate_signal X c mint (evidence_wallets cand) (cd_market cand)
                 (cd_safety cand) ev now uuid;
               case decision of
                 Accepted sg \<Rightarrow> Some (Inr sg)
               | Rejected reason \<Rightarrow> Some (Inl reason)
             }
         }
     })"

section \<open>Orders\<close>

definition entry_order ::
    "ext \<Rightarrow> config \<Rightarrow> string \<Rightarrow> string \<Rightarrow> datetime \<Rightarrow> string \<Rightarrow> trade_signal \<Rightarrow> u64 \<Rightarrow> decimal \<Rightarrow> u8
     \<Rightarrow> order_record" where
  "entry_order X c oid pid now mint sg input_amount usd token_dec =
     \<lparr>o_id = oid, o_signal_id = sg_id sg, o_mint = mint, o_kind = Entry, o_position_id = Some pid,
      o_side = BuySide, o_input_mint = Some (base_mint (strategy c)), o_output_mint = Some mint,
      o_input_amount_atomic = Some input_amount, o_input_value_usd = Some usd,
      o_output_mint_decimals = Some token_dec, o_state = Pending,
      o_idempotency_key = sha256_hex X (str_bytes (sg_id sg) @ str_bytes mint
        @ le_bytes 8 input_amount),
      o_created_at = now, o_signature = None, o_error = None\<rparr>"

definition entry_transaction ::
    "ext \<Rightarrow> faults \<Rightarrow> config \<Rightarrow> datetime \<Rightarrow> store \<Rightarrow> string \<Rightarrow> u8 \<Rightarrow> u8 \<Rightarrow> string \<Rightarrow> fill
     \<Rightarrow> trade_signal \<Rightarrow> cost_model \<Rightarrow> order_record
     \<Rightarrow> ((string + store) \<times> order_record) option" where
  "entry_transaction X ft c now st mint token_dec base_dec pid f sg costs placed =
    (case ft_tx ft of
       TxEarly e \<Rightarrow> Some (Inl e, placed)
     | _ \<Rightarrow>
       (let st1 = save_fill f st in
        case load_portfolio st1 of
          Inl _ \<Rightarrow> Some (Inl ''positions cannot be decoded'', placed)
        | Inr pf \<Rightarrow>
          (case apply_entry X pf mint (base_mint (strategy c)) token_dec base_dec pid f
                  (f_price_usd f) (sg_id sg) costs of
             None \<Rightarrow> None
           | Some (Inl e) \<Rightarrow> Some (Inl e, placed)
           | Some (Inr pf2) \<Rightarrow>
             (let st2 = (case position_of pf2 mint of None \<Rightarrow> st1 | Some p \<Rightarrow> save_position p st1);
                  placed1 = placed\<lparr>o_signature := Some (f_signature f)\<rparr>
              in case transition placed1 Confirmed of
                Inl e \<Rightarrow> Some (Inl (''order transition failed inside atomic tx: '' @ e), placed1)
              | Inr placed2 \<Rightarrow>
                (case ft_tx ft of
                   TxLate e \<Rightarrow> Some (Inl e, placed2)
                 | _ \<Rightarrow> Some (Inr (update_order placed2 now st2), placed2))))))"

text \<open>\<open>update_order(..)?\<close>: a failing write ends the pass.\<close>

definition write_order ::
    "faults \<Rightarrow> order_record \<Rightarrow> datetime \<Rightarrow> store \<Rightarrow> (string + unit) \<times> store" where
  "write_order ft ord now st =
     (if ft_update ft (o_state ord) then (Inl ''order update failed'', st)
      else (Inr (), update_order ord now st))"

text \<open>The failure counter, latching the persisted kill switch when it trips.\<close>

definition note_failure :: "session \<Rightarrow> store \<Rightarrow> session \<times> store" where
  "note_failure se st = (case record_execution_failure (se_risk se) of
     (trip, re) \<Rightarrow> (se\<lparr>se_risk := re\<rparr>,
        if trip then latch_kill_switch ''consecutive execution failures'' st else st))"

definition mark_seen :: "string \<Rightarrow> session \<Rightarrow> session" where
  "mark_seen sid se = se\<lparr>se_seen_signals := insert sid (se_seen_signals se)\<rparr>"

text \<open>What follows a fill.\<close>

definition entry_filled ::
    "ext \<Rightarrow> faults \<Rightarrow> config \<Rightarrow> datetime \<Rightarrow> string \<Rightarrow> u8 \<Rightarrow> u8 \<Rightarrow> string \<Rightarrow> fill \<Rightarrow> trade_signal
     \<Rightarrow> cost_model \<Rightarrow> order_record \<Rightarrow> u64 \<Rightarrow> decimal \<Rightarrow> session \<Rightarrow> store
     \<Rightarrow> ((string + unit) \<times> session \<times> store) option" where
  "entry_filled X ft c now mint token_dec base_dec pid f sg costs placed min_output usd se st =
    (case entry_transaction X ft c now st mint token_dec base_dec pid f sg costs placed of
       None \<Rightarrow> None
     | Some (Inr st', _) \<Rightarrow> do {
         mem \<leftarrow> apply_entry X (se_portfolio se) mint (base_mint (strategy c)) token_dec base_dec pid f
                 (f_price_usd f) (sg_id sg) costs;
         let se1 = se\<lparr>se_portfolio := (case mem of Inl _ \<Rightarrow> se_portfolio se | Inr pf \<Rightarrow> pf)\<rparr>;
         re \<leftarrow> register_trade X (se_risk se1) usd;
         let se2 = se1\<lparr>se_risk := record_execution_success re\<rparr>;
         Some (if f_output_amount f < min_output
               then (Inr (), note_failure se2 st') else (Inr (), se2, st'))
       }
     | Some (Inl e, placed') \<Rightarrow>
       (let placed1 = (transition_or_keep (placed'\<lparr>o_signature := Some (f_signature f)\<rparr>) Unknown)
              \<lparr>o_error := Some (''atomic persistence failed: '' @ e)\<rparr>;
            (res, st') = write_order ft placed1 now st
        in Some (res, se, st')))"

text \<open>From the reserved order on: the submission and the outcome.\<close>

definition run_entry ::
    "ext \<Rightarrow> exec_env \<Rightarrow> (string option \<Rightarrow> string) \<Rightarrow> faults \<Rightarrow> config \<Rightarrow> datetime \<Rightarrow> string
     \<Rightarrow> u8 \<Rightarrow> u8 \<Rightarrow> string \<Rightarrow> quote \<Rightarrow> trade_signal \<Rightarrow> cost_model \<Rightarrow> order_record \<Rightarrow> decimal \<Rightarrow> session
     \<Rightarrow> store \<Rightarrow> ((string + unit) \<times> session \<times> store) option" where
  "run_entry X E dbg ft c now mint token_dec base_dec pid q sg costs order usd se st = do {
     min_output \<leftarrow> min_output_of X (q_output_amount q) (slippage_bps (execution c));
     let placed = transition_or_keep order Submitted;
     (case write_order ft placed now st of
        (Inl e, st1) \<Rightarrow> Some (Inl e, se, st1)
      | (Inr _, st1) \<Rightarrow> do {
          res \<leftarrow> xe_execute E \<lparr>r_order_id = o_id order, r_quote = q,
             r_max_slippage_bps = max_slippage_bps (risk c),
             r_max_price_impact_bps = max_price_impact_bps (execution c),
             r_min_output_amount = min_output, r_input_decimals = base_dec,
             r_output_decimals = token_dec, r_value_basis = InputValueUsd usd\<rparr>;
          (case res of
             Inr f0 \<Rightarrow> do {
               f \<leftarrow> finalize_fill X f0 (se_sol_price_usd se);
               entry_filled X ft c now mint token_dec base_dec pid f sg costs placed min_output usd
                 se st1
             }
           | Inl (UnknownOutcome sig detail) \<Rightarrow>
               (let p1 = (case sig of None \<Rightarrow> placed | Some s \<Rightarrow> placed\<lparr>o_signature := Some s\<rparr>);
                    p2 = (transition_or_keep p1 Unknown)\<lparr>o_error := Some detail\<rparr>;
                    (r, st2) = write_order ft p2 now st1
                in Some (r, se, st2))
           | Inl e \<Rightarrow>
               (let p2 = (transition_or_keep placed Failed)\<lparr>o_error := Some (error_text dbg e)\<rparr>
                in case write_order ft p2 now st1 of
                     (Inl e', st2) \<Rightarrow> Some (Inl e', se, st2)
                   | (Inr _, st2) \<Rightarrow> Some (Inr (), note_failure se st2)))
        })
   }"

section \<open>One candidate\<close>

text \<open>
  The checks between the signal and the order: size, cap, quote and the two risk checks. The
  result is the amount, the notional and the quote.
\<close>

definition entry_terms ::
    "ext \<Rightarrow> exec_env \<Rightarrow> config \<Rightarrow> session \<Rightarrow> string \<Rightarrow> candidate \<Rightarrow> u8 \<Rightarrow> datetime
     \<Rightarrow> (string + u64 \<times> decimal \<times> quote) option" where
  "entry_terms X E c se mint cand token_dec now =
     try_res (entry_size X c (se_risk se) (se_sol_price_usd se) cand token_dec) (\<lambda>(amount, usd).
       if usd \<le> 0 \<or> usd > max_live_capital_usd (risk c)
       then Some (Inl ''position exceeds configured live-capital cap or is invalid'')
       else case xe_quote E (base_mint (strategy c)) mint amount (slippage_bps (execution c)) of
         Inl e \<Rightarrow> Some (Inl ''entry quote unavailable'')
       | Inr q \<Rightarrow>
         (case authorize X (se_risk se) usd (mk_liquidity_usd (cd_market cand))
                 (ucast (slippage_bps (execution c))) (q_price_impact_bps q) now of
            None \<Rightarrow> None
          | Some (Inl _) \<Rightarrow> Some (Inl ''risk engine rejected entry'')
          | Some (Inr _) \<Rightarrow>
            (case validate_position_size X (se_risk se) usd (stop_loss_pct (strategy c)) of
               None \<Rightarrow> None
             | Some (Inl _) \<Rightarrow> Some (Inl ''risk-per-trade position sizing rejected entry'')
             | Some (Inr _) \<Rightarrow> Some (Inr (amount, usd, q)))))"

text \<open>The body of the loop; \<open>uuids\<close> are those of the signal, the position and the order.\<close>

definition process_entry ::
    "ext \<Rightarrow> exec_env \<Rightarrow> (string option \<Rightarrow> string) \<Rightarrow> faults \<Rightarrow> config \<Rightarrow> datetime
     \<Rightarrow> string \<times> string \<times> string \<Rightarrow> string \<Rightarrow> candidate \<Rightarrow> session \<Rightarrow> store
     \<Rightarrow> ((string + unit) \<times> session \<times> store) option" where
  "process_entry X E dbg ft c now uuids mint cand se st =
    (let (su, pid, oid) = uuids in do {
     screened \<leftarrow> screen_candidate X c se mint cand now su;
     (case screened of
        Inl _ \<Rightarrow> Some (Inr (), se, st)
      | Inr sg \<Rightarrow>
        if sg_id sg \<in> se_seen_signals se then Some (Inr (), se, st)
        else do {
          let token_dec = the (cd_token_decimals cand);
          let base_dec = the (cd_base_mint_decimals cand);
          let se1 = se\<lparr>se_risk := set_open_positions (se_risk se)
                (of_nat (length (open_positions_of (se_portfolio se))))\<rparr>;
          terms \<leftarrow> entry_terms X E c se1 mint cand token_dec now;
          (case terms of
             Inl _ \<Rightarrow> Some (Inr (), se1, st)
           | Inr (amount, usd, q) \<Rightarrow>
             (let order = entry_order X c oid pid now mint sg amount usd token_dec in
              case ft_reserve ft of
                Some e \<Rightarrow> Some (Inl e, se1, st)
              | None \<Rightarrow>
                (case reserve_order order now st of
                   (Inl _, st') \<Rightarrow> Some (Inl ''invalid order'', se1, st')
                 | (Inr False, st') \<Rightarrow> Some (Inr (), mark_seen (sg_id sg) se1, st')
                 | (Inr True, st') \<Rightarrow>
                   (case run_entry X E dbg ft c now mint token_dec base_dec pid q sg (cd_costs cand)
                           order usd se1 st' of
                      None \<Rightarrow> None
                    | Some (Inl e, se2, st2) \<Rightarrow> Some (Inl e, se2, st2)
                    | Some (Inr _, se2, st2) \<Rightarrow> Some (Inr (), mark_seen (sg_id sg) se2, st2)))))
        })
   })"

text \<open>The loop, with the environment of each candidate.\<close>

fun process_entries ::
    "ext \<Rightarrow> (string \<Rightarrow> exec_env) \<Rightarrow> (string option \<Rightarrow> string) \<Rightarrow> (string \<Rightarrow> faults) \<Rightarrow> config \<Rightarrow> datetime
     \<Rightarrow> (string \<Rightarrow> string \<times> string \<times> string) \<Rightarrow> (string \<times> candidate) list \<Rightarrow> session \<Rightarrow> store
     \<Rightarrow> ((string + unit) \<times> session \<times> store) option" where
  "process_entries X E dbg ft c now uuids [] se st = Some (Inr (), se, st)"
| "process_entries X E dbg ft c now uuids ((mint, cand) # cands) se st =
    (case process_entry X (E mint) dbg (ft mint) c now (uuids mint) mint cand se st of
       None \<Rightarrow> None
     | Some (Inl e, se', st') \<Rightarrow> Some (Inl e, se', st')
     | Some (Inr _, se', st') \<Rightarrow> process_entries X E dbg ft c now uuids cands se' st')"

section \<open>Facts\<close>

lemma transition_or_keep_frame [simp]:
  "o_id (transition_or_keep ord s) = o_id ord"
  "o_input_amount_atomic (transition_or_keep ord s) = o_input_amount_atomic ord"
  "o_input_value_usd (transition_or_keep ord s) = o_input_value_usd ord"
  "o_signal_id (transition_or_keep ord s) = o_signal_id ord"
  by (simp_all add: transition_or_keep_def transition_def)

text \<open>The tables of positions and fills that an entry may touch.\<close>

definition same_accounts :: "store \<Rightarrow> store \<Rightarrow> bool" where
  "same_accounts st st' \<longleftrightarrow> fill_rows st' = fill_rows st
     \<and> (\<forall>m. kv_look st' (position_key m) = kv_look st (position_key m))"

lemma same_accounts_refl [simp]: "same_accounts st st"
  by (simp add: same_accounts_def)

lemma same_accounts_trans: "same_accounts a b \<Longrightarrow> same_accounts b c \<Longrightarrow> same_accounts a c"
  by (simp add: same_accounts_def)

lemma latch_frame [simp]:
  "order_rows (latch_kill_switch r st) = order_rows st"
  "fill_rows (latch_kill_switch r st) = fill_rows st"
  "kv_look (latch_kill_switch r st) (position_key m) = kv_look st (position_key m)"
  by (simp_all add: latch_kill_switch_def kvs.look_put kill_switch_key_def position_key_def)
    (simp_all add: kv_put_def)

lemma write_order_frame:
  assumes "write_order ft ord now st = (res, st')" "tail_order rs st ord0 now" "same_order ord0 ord"
  shows "same_accounts st st'" and "\<exists>ord'. tail_order rs st' ord' now \<and> same_order ord0 ord'
       \<and> (ord' = ord0 \<or> ord' = ord)"
    and "res = Inr () \<Longrightarrow> tail_order rs st' ord now"
    and "kv st' = kv st" and "fill_rows st' = fill_rows st"
  using assms update_tail [OF assms(2,3)]
  by (auto simp: write_order_def same_accounts_def kv_look_def same_order_def split: if_split_asm)

lemma note_failure_frame:
  assumes "note_failure se st = (se', st')"
  shows "se_portfolio se' = se_portfolio se" "order_rows st' = order_rows st" "same_accounts st st'"
  using assms by (auto simp: note_failure_def same_accounts_def split: prod.split_asm if_split_asm)

lemma apply_entry_update:
  assumes "apply_entry X pf mint base td bd pid f price sig costs = Some (Inr pf')"
  obtains p where "pf' = AList.update mint p pf" "p_state p = PosOpen"
    "\<forall>q. map_of pf mint = Some q \<longrightarrow> p_mint p = p_mint q" "map_of pf mint = None \<longrightarrow> p_mint p = mint"
proof (cases "map_of pf mint")
  case None
  obtain iv bp v where "pf' = AList.update mint (fresh_entry mint base td bd pid f price sig costs
       (dec_of_word (f_output_amount f)) iv bp v) pf"
    by (rule apply_entry_fresh [OF assms None])
  then show ?thesis using None by (intro that) (auto simp: fresh_entry_def)
next
  case (Some q)
  obtain iv p' where m: "merge_entry X f price (dec_of_word (f_output_amount f)) iv q = Some p'"
    and pf': "pf' = AList.update mint p' pf"
    by (rule apply_entry_merge [OF assms Some])
  show ?thesis using that [OF pf'] Some merge_entry_fields(2,5) [OF m] by simp
qed

text \<open>The position the store keeps for the mint after a confirmed entry.\<close>

definition entry_booked ::
    "ext \<Rightarrow> config \<Rightarrow> store \<Rightarrow> string \<Rightarrow> u8 \<Rightarrow> u8 \<Rightarrow> string \<Rightarrow> fill \<Rightarrow> trade_signal \<Rightarrow> cost_model
     \<Rightarrow> store \<Rightarrow> bool" where
  "entry_booked X c st mint token_dec base_dec pid f sg costs st' \<longleftrightarrow>
     (\<exists>pf pf' p. load_portfolio st = Inr pf
        \<and> apply_entry X pf mint (base_mint (strategy c)) token_dec base_dec pid f (f_price_usd f)
            (sg_id sg) costs = Some (Inr pf')
        \<and> map_of pf' mint = Some p
        \<and> kv_look st' (position_key (p_mint p)) = Some (VPosition p)
        \<and> (\<forall>m. m \<noteq> p_mint p \<longrightarrow> kv_look st' (position_key m) = kv_look st (position_key m))
        \<and> fill_rows st' = AList.update (f_order_id f) f (fill_rows st))"

lemma load_portfolio_kv: "kv st = kv st' \<Longrightarrow> load_portfolio st = load_portfolio st'"
  using positions_kv [of st st'] by (simp add: load_portfolio_def)

lemma entry_transaction_Inr:
  assumes "entry_transaction X ft c now st mint td bd pid f sg costs placed
      = Some (Inr st', placed')"
  shows "\<exists>st2. st' = update_order placed' now st2 \<and> order_rows st2 = order_rows st
       \<and> entry_booked X c st mint td bd pid f sg costs st2
     \<and> placed' = placed\<lparr>o_signature := Some (f_signature f), o_state := Confirmed\<rparr>"
proof -
  obtain pf pf2 where
      pf: "load_portfolio (save_fill f st) = Inr pf"
    and ap: "apply_entry X pf mint (base_mint (strategy c)) td bd pid f (f_price_usd f) (sg_id sg)
        costs = Some (Inr pf2)"
    and t: "transition (placed\<lparr>o_signature := Some (f_signature f)\<rparr>) Confirmed = Inr placed'"
    and st': "st' = update_order placed' now (case position_of pf2 mint of
         None \<Rightarrow> save_fill f st | Some p \<Rightarrow> save_position p (save_fill f st))"
    using assms unfolding entry_transaction_def
    by (auto simp: Let_def split: tx_fault.split_asm sum.split_asm option.split_asm prod.split_asm)
  obtain p where p: "pf2 = AList.update mint p pf" by (rule apply_entry_update [OF ap])
  have l: "load_portfolio st = Inr pf" using pf load_portfolio_kv [of "save_fill f st" st] by simp
  have "st' = update_order placed' now (save_position p (save_fill f st))"
    unfolding st' p by (simp add: position_of_def)
  moreover have "entry_booked X c st mint td bd pid f sg costs (save_position p (save_fill f st))"
    unfolding entry_booked_def
  proof (intro exI conjI)
    show "load_portfolio st = Inr pf" by (rule l)
    show "apply_entry X pf mint (base_mint (strategy c)) td bd pid f (f_price_usd f) (sg_id sg)
        costs = Some (Inr pf2)" by (rule ap)
    show "map_of pf2 mint = Some p" by (simp add: p)
  qed (auto simp: kv_look_save, simp_all add: save_fill_def kv_look_def)
  ultimately show ?thesis using t by (auto simp: transition_Inr)
qed

lemma entry_transaction_Inl:
  assumes "entry_transaction X ft c now st mint td bd pid f sg costs placed = Some (Inl e, placed')"
  shows "same_order placed placed'"
  using assms unfolding entry_transaction_def
  by (auto simp: Let_def transition_Inr
      split: tx_fault.split_asm sum.split_asm option.split_asm prod.split_asm)

text \<open>
  What a run from the reserved order leaves behind: the order keeps its identity, and accounts
  change only together with its confirmation.
\<close>

definition entry_ran ::
    "ext \<Rightarrow> config \<Rightarrow> datetime \<Rightarrow> string \<Rightarrow> u8 \<Rightarrow> u8 \<Rightarrow> string \<Rightarrow> trade_signal \<Rightarrow> cost_model \<Rightarrow> order_record
     \<Rightarrow> order_row list \<Rightarrow> session \<Rightarrow> store \<Rightarrow> session \<Rightarrow> store \<Rightarrow> bool" where
  "entry_ran X c now mint td bd pid sg costs order rs se st se' st' \<longleftrightarrow>
    (\<exists>ord. tail_order rs st' ord now \<and> same_order order ord
       \<and> (same_accounts st st' \<and> se_portfolio se' = se_portfolio se
        \<or> (\<exists>f st2. o_state ord = Confirmed \<and> o_signature ord = Some (f_signature f)
             \<and> entry_booked X c st mint td bd pid f sg costs st2 \<and> same_accounts st2 st')))"

lemma entry_booked_kv:
  "kv st1 = kv st \<Longrightarrow> fill_rows st1 = fill_rows st
   \<Longrightarrow> entry_booked X c st1 mint td bd pid f sg costs st2 = entry_booked X c st mint td bd pid f sg costs st2"
  using load_portfolio_kv [of st1 st] by (simp add: entry_booked_def kv_look_def)

lemma entry_filled_ran:
  assumes run: "entry_filled X ft c now mint td bd pid f sg costs placed mo usd se st1 = Some (res, se', st')"
    and tail: "tail_order rs st1 placed now" and so: "same_order order placed"
    and st1: "kv st1 = kv st" "fill_rows st1 = fill_rows st"
  shows "entry_ran X c now mint td bd pid sg costs order rs se st se' st'"
proof -
  obtain txres placed' where tx:
      "entry_transaction X ft c now st1 mint td bd pid f sg costs placed = Some (txres, placed')"
    using run by (auto simp: entry_filled_def split: option.split_asm)
  show ?thesis
  proof (cases txres)
    case (Inl e)
    define p2 where "p2 = (transition_or_keep (placed'\<lparr>o_signature := Some (f_signature f)\<rparr>) Unknown)
              \<lparr>o_error := Some (''atomic persistence failed: '' @ e)\<rparr>"
    have w: "write_order ft p2 now st1 = (res, st')" and se: "se' = se"
      using run tx Inl by (auto simp: entry_filled_def p2_def split: prod.split_asm)
    have "same_order placed placed'" using tx Inl entry_transaction_Inl by blast
    then have s2: "same_order placed p2" by (simp add: p2_def)
    obtain ord where o: "tail_order rs st' ord now" "same_order placed ord"
      using write_order_frame(2) [OF w tail s2] by blast
    have "same_accounts st st'"
      using write_order_frame(4,5) [OF w tail s2] st1 by (simp add: same_accounts_def kv_look_def)
    then show ?thesis unfolding entry_ran_def using o so se same_order_trans by blast
  next
    case (Inr st2)
    obtain st3 where st3: "st2 = update_order placed' now st3" "order_rows st3 = order_rows st1"
      "entry_booked X c st1 mint td bd pid f sg costs st3"
      and pl: "placed' = placed\<lparr>o_signature := Some (f_signature f), o_state := Confirmed\<rparr>"
      using entry_transaction_Inr tx Inr by blast
    have t2: "tail_order rs st2 placed' now"
      unfolding st3(1) using tail st3(2)
      by (intro update_tail [of _ _ placed]) (simp_all add: tail_order_def pl)
    have st': "st' = st2 \<or> (\<exists>sy sx. note_failure sy st2 = (sx, st'))"
      using run tx Inr by (auto simp: entry_filled_def panic_simps Let_def split: if_split_asm)
    then have f: "order_rows st' = order_rows st2" "same_accounts st2 st'"
      using note_failure_frame by auto
    have "same_accounts st3 st2" by (simp add: st3(1) same_accounts_def kv_look_def)
    with f(2) have "same_accounts st3 st'" using same_accounts_trans by blast
    moreover have "entry_booked X c st mint td bd pid f sg costs st3"
      using st3(3) entry_booked_kv [OF st1] by simp
    moreover have "tail_order rs st' placed' now" using t2 tail_fields [OF f(1)] by simp
    ultimately show ?thesis unfolding entry_ran_def using so
      by (intro exI [of _ placed']) (auto simp: pl)
  qed
qed

lemma run_entry_ran:
  assumes run: "run_entry X E dbg ft c now mint td bd pid q sg costs order usd se st
      = Some (res, se', st')"
    and tail: "tail_order rs st order now"
  shows "entry_ran X c now mint td bd pid sg costs order rs se st se' st'"
proof -
  define placed where "placed = transition_or_keep order Submitted"
  have so: "same_order order placed" by (simp add: placed_def)
  obtain w st1 where w: "write_order ft placed now st = (w, st1)" by fastforce
  note frame = write_order_frame [OF w tail so]
  have acc1: "same_accounts st st1" by (rule frame(1))
  have failed: "entry_ran X c now mint td bd pid sg costs order rs se st se2 st2"
    if "tail_order rs st2 ord now" "same_order order ord" "same_accounts st st2"
      "se_portfolio se2 = se_portfolio se" for ord st2 se2
    unfolding entry_ran_def using that by blast
  show ?thesis
  proof (cases w)
    case (Inl e)
    then have "se' = se" "st' = st1" using run w
      by (auto simp: run_entry_def panic_simps Let_def placed_def)
    then show ?thesis using frame(2) acc1 failed by blast
  next
    case (Inr u)
    then have tail1: "tail_order rs st1 placed now" using frame(3) by simp
    obtain mo res' where ex: "xe_execute E \<lparr>r_order_id = o_id order, r_quote = q,
             r_max_slippage_bps = max_slippage_bps (risk c),
             r_max_price_impact_bps = max_price_impact_bps (execution c),
             r_min_output_amount = mo, r_input_decimals = bd,
             r_output_decimals = td, r_value_basis = InputValueUsd usd\<rparr> = Some res'"
      and mo: "min_output_of X (q_output_amount q) (slippage_bps (execution c)) = Some mo"
      using run w Inr by (auto simp: run_entry_def panic_simps Let_def placed_def)
    show ?thesis
    proof (cases res')
      case res: (Inr f0)
      obtain f where "entry_filled X ft c now mint td bd pid f sg costs placed mo usd se st1
          = Some (res, se', st')"
        using run w Inr ex mo res by (auto simp: run_entry_def panic_simps Let_def placed_def)
      then show ?thesis using entry_filled_ran [OF _ tail1 so frame(4,5)] by blast
    next
      case res: (Inl e)
      have *: "\<exists>p2 r st2. same_order placed p2 \<and> write_order ft p2 now st1 = (r, st2)
         \<and> (st' = st2 \<and> se' = se \<or> note_failure se st2 = (se', st'))"
      proof (cases "\<exists>sig detail. e = UnknownOutcome sig detail")
        case True
        then obtain sig detail where e: "e = UnknownOutcome sig detail" by blast
        define p1 where "p1 = (case sig of None \<Rightarrow> placed | Some s \<Rightarrow> placed\<lparr>o_signature := Some s\<rparr>)"
        have "same_order placed p1" by (simp add: p1_def split: option.split)
        then show ?thesis using run w Inr ex mo res e
          by (auto simp: run_entry_def panic_simps Let_def placed_def [symmetric]
              p1_def [symmetric] split: prod.split_asm
              intro!: exI [of _ "(transition_or_keep p1 Unknown)\<lparr>o_error := Some detail\<rparr>"])
      next
        case False
        let ?p2 = "(transition_or_keep placed Failed)\<lparr>o_error := Some (error_text dbg e)\<rparr>"
        show ?thesis using run w Inr ex mo res False
          by (cases e) (auto simp: run_entry_def panic_simps Let_def placed_def [symmetric]
              split: prod.split_asm sum.split_asm intro!: exI [of _ ?p2])
      qed
      then obtain p2 r st2 where p2: "same_order placed p2"
        and w2: "write_order ft p2 now st1 = (r, st2)"
        and fin: "st' = st2 \<and> se' = se \<or> note_failure se st2 = (se', st')" by blast
      note frame2 = write_order_frame [OF w2 tail1 p2]
      obtain ord where "tail_order rs st2 ord now" "same_order placed ord" using frame2(2) by blast
      then have "tail_order rs st' ord now" "same_order order ord"
        using fin note_failure_frame(2) tail_fields so same_order_trans by blast+
      moreover have "same_accounts st st'" "se_portfolio se' = se_portfolio se"
        using fin note_failure_frame(1,3) same_accounts_trans [OF acc1]
          same_accounts_trans [OF frame2(1)] frame2(1) by auto
      ultimately show ?thesis using failed by blast
    qed
  qed
qed

text \<open>What must hold before an order for a candidate is written.\<close>

definition passed_every_gate ::
    "ext \<Rightarrow> exec_env \<Rightarrow> config \<Rightarrow> session \<Rightarrow> string \<Rightarrow> candidate \<Rightarrow> datetime \<Rightarrow> string
     \<Rightarrow> trade_signal \<Rightarrow> u64 \<Rightarrow> decimal \<Rightarrow> quote \<Rightarrow> bool" where
  "passed_every_gate X E c se mint cand now su sg amount usd q \<longleftrightarrow>
    \<not> screen_problem X c se mint cand now
  \<and> authorize_entry X (re_kill_switch (se_risk se))
      \<lparr>gate_threshold_pct = round_trip_cost_threshold_pct (economics c)\<rparr> (cd_costs cand)
      = Some (Inr ())
  \<and> (\<exists>ev. estimate X (cd_expected_gross_return_pct cand) (cd_costs cand) 0 0
        (uncertainty_haircut_pct (economics c)) = Some (Inr ev)
      \<and> evaluate_signal X c mint (evidence_wallets cand) (cd_market cand) (cd_safety cand) ev now su
        = Some (Accepted sg))
  \<and> sg_id sg \<notin> se_seen_signals se
  \<and> 0 < usd \<and> usd \<le> max_live_capital_usd (risk c)
  \<and> xe_quote E (base_mint (strategy c)) mint amount (slippage_bps (execution c)) = Inr q
  \<and> entry_allowed X (set_open_positions (se_risk se)
        (of_nat (length (open_positions_of (se_portfolio se)))))
      usd (mk_liquidity_usd (cd_market cand)) (ucast (slippage_bps (execution c)))
      (q_price_impact_bps q) now
  \<and> validate_position_size X (set_open_positions (se_risk se)
        (of_nat (length (open_positions_of (se_portfolio se))))) usd (stop_loss_pct (strategy c))
      = Some (Inr ())"

lemma screen_candidate_Inr:
  "screen_candidate X c se mint cand now su = Some (Inr sg) \<Longrightarrow>
    \<not> screen_problem X c se mint cand now
  \<and> authorize_entry X (re_kill_switch (se_risk se))
      \<lparr>gate_threshold_pct = round_trip_cost_threshold_pct (economics c)\<rparr> (cd_costs cand)
      = Some (Inr ())
  \<and> (\<exists>ev. estimate X (cd_expected_gross_return_pct cand) (cd_costs cand) 0 0
        (uncertainty_haircut_pct (economics c)) = Some (Inr ev)
      \<and> evaluate_signal X c mint (evidence_wallets cand) (cd_market cand) (cd_safety cand) ev now su
        = Some (Accepted sg))"
proof -
  assume sc: "screen_candidate X c se mint cand now su = Some (Inr sg)"
  then have np: "\<not> screen_problem X c se mint cand now"
    by (auto simp: screen_candidate_def)
  obtain g where g: "authorize_entry X (re_kill_switch (se_risk se))
      \<lparr>gate_threshold_pct = round_trip_cost_threshold_pct (economics c)\<rparr> (cd_costs cand) = Some g"
    using sc np by (auto simp: screen_candidate_def bind_Some_iff)
  then obtain u where u: "g = Inr u" using sc np by (cases g) (auto simp: screen_candidate_def)
  obtain e where e: "estimate X (cd_expected_gross_return_pct cand) (cd_costs cand) 0 0
        (uncertainty_haircut_pct (economics c)) = Some e"
    using sc np g u by (auto simp: screen_candidate_def bind_Some_iff)
  then obtain ev where ev: "e = Inr ev" using sc np g u by (cases e) (auto simp: screen_candidate_def)
  obtain d where d: "evaluate_signal X c mint (evidence_wallets cand) (cd_market cand)
      (cd_safety cand) ev now su = Some d"
    using sc np g u e ev by (auto simp: screen_candidate_def bind_Some_iff)
  then have "d = Accepted sg" using sc np g u e ev by (cases d) (auto simp: screen_candidate_def)
  with np g u e ev d show ?thesis by (cases u) simp
qed

lemma entry_terms_Inr:
  "entry_terms X E c se mint cand td now = Some (Inr (amount, usd, q)) \<Longrightarrow>
    entry_size X c (se_risk se) (se_sol_price_usd se) cand td = Some (Inr (amount, usd))
  \<and> 0 < usd \<and> usd \<le> max_live_capital_usd (risk c)
  \<and> xe_quote E (base_mint (strategy c)) mint amount (slippage_bps (execution c)) = Inr q
  \<and> authorize X (se_risk se) usd (mk_liquidity_usd (cd_market cand))
      (ucast (slippage_bps (execution c))) (q_price_impact_bps q) now = Some (Inr ())
  \<and> validate_position_size X (se_risk se) usd (stop_loss_pct (strategy c)) = Some (Inr ())"
  unfolding entry_terms_def
  by (auto simp: try_res_Inr not_le not_less
      split: if_split_asm sum.split_asm option.split_asm)

lemma entry_size_live:
  assumes "entry_size X c re sol cand td = Some (Inr (amount, usd))" "cfg_mode c = Live"
  shows "\<exists>sized atomic. compute_live_input_amount_atomic X sized
        (case sol of None \<Rightarrow> 0 | Some p \<Rightarrow> p) td = Some (Inr atomic)
    \<and> amount = parse_or_zero X atomic
    \<and> usd = (if atomic > max_live_capital_usd (risk c) then max_live_capital_usd (risk c) else atomic)"
proof -
  obtain m where m: "max_position_usd X re (stop_loss_pct (strategy c)) = Some m"
    using assms by (auto simp: entry_size_def bind_Some_iff)
  define max_pos where "max_pos = (case m of None \<Rightarrow> 0 | Some v \<Rightarrow> v)"
  have pos: "\<not> max_pos \<le> 0" using assms m by (auto simp: entry_size_def max_pos_def)
  define sized where "sized = (if cd_position_usd cand > 0 \<and> cd_position_usd cand \<le> max_pos
      then cd_position_usd cand else max_pos)"
  obtain li where li: "compute_live_input_amount_atomic X sized (case sol of None \<Rightarrow> 0 | Some p \<Rightarrow> p) td
      = Some li"
    using assms m pos
    by (simp add: entry_size_def Let_def max_pos_def [symmetric] sized_def [symmetric] bind_Some_iff cong: if_cong)
       blast
  then obtain atomic where "li = Inr atomic"
    using assms m pos
    by (cases li) (simp_all add: entry_size_def Let_def max_pos_def [symmetric] sized_def [symmetric] cong: if_cong)
  with li show ?thesis using assms m pos
    by (intro exI [of _ sized] exI [of _ atomic])
      (simp add: entry_size_def Let_def max_pos_def [symmetric] sized_def [symmetric] cong: if_cong)
qed

text \<open>
  What a run does to the counters of the risk engine: nothing, unless the fill was booked, and then
  exactly this notional is registered and the portfolio of the session gains the position.
\<close>

definition entry_counted ::
    "ext \<Rightarrow> decimal \<Rightarrow> session \<Rightarrow> store \<Rightarrow> session \<Rightarrow> store \<Rightarrow> bool" where
  "entry_counted X usd se st se' st' \<longleftrightarrow>
     same_accounts st st' \<and> se_portfolio se' = se_portfolio se
       \<and> same_counters (se_risk se) (se_risk se')
   \<or> (\<exists>re. register_trade X (se_risk se) usd = Some re \<and> same_counters re (se_risk se'))
       \<and> (se_portfolio se' = se_portfolio se
          \<or> (\<exists>m p. is_open p \<and> se_portfolio se' = AList.update m p (se_portfolio se)))"

lemma note_failure_counters:
  "note_failure se st = (se', st') \<Longrightarrow>
     same_counters (se_risk se) (se_risk se') \<and> se_portfolio se' = se_portfolio se"
  using same_counters_ops(2) [of "se_risk se"]
  by (cases "record_execution_failure (se_risk se)") (auto simp: note_failure_def split: if_split_asm)

lemma entry_filled_counted:
  assumes run: "entry_filled X ft c now mint td bd pid f sg costs placed mo usd se st1 = Some (res, se', st')"
    and acc: "same_accounts st st1"
  shows "entry_counted X usd se st se' st'"
proof -
  obtain txres placed' where tx:
      "entry_transaction X ft c now st1 mint td bd pid f sg costs placed = Some (txres, placed')"
    using run by (auto simp: entry_filled_def split: option.split_asm)
  show ?thesis
  proof (cases txres)
    case (Inl e)
    then have "same_accounts st1 st'" "se' = se"
      using run tx by (auto simp: entry_filled_def write_order_def same_accounts_def kv_look_def Let_def
          split: prod.split_asm if_split_asm)
    then show ?thesis unfolding entry_counted_def using acc same_accounts_trans by auto
  next
    case (Inr st2)
    then obtain mem re where mem: "apply_entry X (se_portfolio se) mint (base_mint (strategy c)) td bd pid f
          (f_price_usd f) (sg_id sg) costs = Some mem"
      and re: "register_trade X (se_risk se) usd = Some re"
      using run tx by (auto simp: entry_filled_def panic_simps Let_def)
    define se2 where "se2 = se\<lparr>se_portfolio := (case mem of Inl _ \<Rightarrow> se_portfolio se | Inr pf \<Rightarrow> pf),
        se_risk := record_execution_success re\<rparr>"
    have "se' = se2 \<or> (\<exists>st'. note_failure se2 st2 = (se', st'))"
      using run tx mem re Inr by (auto simp: entry_filled_def Let_def se2_def split: if_split_asm)
    then have "same_counters (se_risk se2) (se_risk se')" "se_portfolio se' = se_portfolio se2"
      using note_failure_counters by auto
    moreover have "same_counters re (se_risk se2)" by (simp add: se2_def)
    moreover have "se_portfolio se2 = se_portfolio se
        \<or> (\<exists>m p. is_open p \<and> se_portfolio se2 = AList.update m p (se_portfolio se))"
      using mem by (cases mem) (auto simp: se2_def is_open_def elim!: apply_entry_update)
    ultimately show ?thesis unfolding entry_counted_def using re same_counters_trans by metis
  qed
qed

lemma run_entry_counted:
  assumes "run_entry X E dbg ft c now mint td bd pid q sg costs order usd se st = Some (res, se', st')"
  shows "entry_counted X usd se st se' st'"
proof -
  have wr: "same_accounts st2 st3" if "write_order ft ord now st2 = (r, st3)" for ord r st2 st3
    using that by (auto simp: write_order_def same_accounts_def kv_look_def split: if_split_asm)
  have quiet: "entry_counted X usd se st se2 st2"
    if "same_accounts st st2" "se2 = se \<or> (\<exists>sx. note_failure se sx = (se2, st2))" for se2 st2
    using that note_failure_counters unfolding entry_counted_def by auto
  obtain mo w st1 where mo: "min_output_of X (q_output_amount q) (slippage_bps (execution c)) = Some mo"
    and w: "write_order ft (transition_or_keep order Submitted) now st = (w, st1)"
    using assms by (cases "write_order ft (transition_or_keep order Submitted) now st")
      (auto simp: run_entry_def panic_simps)
  note a1 = wr [OF w]
  show ?thesis
  proof (cases w)
    case (Inl e)
    then have "se' = se" "st' = st1" using assms w mo by (auto simp: run_entry_def Let_def)
    then show ?thesis using quiet a1 by simp
  next
    case (Inr u)
    then obtain res' where ex: "xe_execute E \<lparr>r_order_id = o_id order, r_quote = q,
             r_max_slippage_bps = max_slippage_bps (risk c),
             r_max_price_impact_bps = max_price_impact_bps (execution c),
             r_min_output_amount = mo, r_input_decimals = bd,
             r_output_decimals = td, r_value_basis = InputValueUsd usd\<rparr> = Some res'"
      using assms w mo by (auto simp: run_entry_def panic_simps Let_def)
    show ?thesis
    proof (cases res')
      case res: (Inr f0)
      then obtain f placed where "entry_filled X ft c now mint td bd pid f sg costs placed mo usd se st1
          = Some (res, se', st')"
        using assms w Inr ex mo by (auto simp: run_entry_def panic_simps Let_def)
      then show ?thesis by (rule entry_filled_counted) (rule a1)
    next
      case res: (Inl e)
      have "\<exists>p2 r st2. write_order ft p2 now st1 = (r, st2)
         \<and> (st' = st2 \<and> se' = se \<or> note_failure se st2 = (se', st'))"
        using assms w Inr ex mo res
        by (cases e) (auto simp: run_entry_def Let_def split: prod.split_asm sum.split_asm)
      then obtain p2 r st2 where w2: "write_order ft p2 now st1 = (r, st2)"
        and fin: "st' = st2 \<and> se' = se \<or> note_failure se st2 = (se', st')" by blast
      have "same_accounts st st2" using a1 wr [OF w2] same_accounts_trans by blast
      then have "same_accounts st st'" using fin note_failure_frame(3) same_accounts_trans by blast
      then show ?thesis using quiet fin by blast
    qed
  qed
qed

text \<open>A candidate is dropped without a trace, or the entry is reserved and run.\<close>

lemma process_entry_runs:
  assumes "process_entry X E dbg ft c now (su, pid, oid) mint cand se st = Some (res, se', st')"
  defines "se1 \<equiv> se\<lparr>se_risk := set_open_positions (se_risk se)
                (of_nat (length (open_positions_of (se_portfolio se))))\<rparr>"
  obtains (idle) "st' = st" "se_portfolio se' = se_portfolio se"
      "same_counters (se_risk se) (se_risk se')"
  | (run) sg td bd amount usd q r se2 st1 where
      "screen_candidate X c se mint cand now su = Some (Inr sg)" "sg_id sg \<notin> se_seen_signals se"
      "cd_token_decimals cand = Some td" "cd_base_mint_decimals cand = Some bd"
      "entry_terms X E c se1 mint cand td now = Some (Inr (amount, usd, q))"
      "reserve_order (entry_order X c oid pid now mint sg amount usd td) now st = (Inr True, st1)"
      "run_entry X E dbg ft c now mint td bd pid q sg (cd_costs cand)
         (entry_order X c oid pid now mint sg amount usd td) usd se1 st1 = Some (r, se2, st')"
      "se_portfolio se' = se_portfolio se2" "se_risk se' = se_risk se2"
proof -
  have p1: "se_portfolio se1 = se_portfolio se" "same_counters (se_risk se) (se_risk se1)"
    by (simp_all add: se1_def)
  note d = process_entry_def Let_def se1_def [symmetric]
  obtain scr where scr: "screen_candidate X c se mint cand now su = Some scr"
    using assms(1) by (auto simp: process_entry_def bind_Some_iff)
  consider e where "scr = Inl e" | sg where "scr = Inr sg" "sg_id sg \<in> se_seen_signals se"
    | (fresh) sg where "scr = Inr sg" "sg_id sg \<notin> se_seen_signals se"
    by (cases scr) auto
  then show thesis
  proof cases
    case fresh
    with screen_candidate_Inr [OF scr [unfolded fresh(1)]]
    obtain td bd where td: "cd_token_decimals cand = Some td" "cd_base_mint_decimals cand = Some bd"
      by (auto simp: screen_problem_def)
    obtain terms where te: "entry_terms X E c se1 mint cand td now = Some terms"
      using assms(1) scr fresh td
      by (cases "entry_terms X E c se1 mint cand td now") (simp_all add: d)
    show thesis
    proof (cases terms)
      case (Inl e)
      then have "st' = st" "se' = se1"
        using assms(1) scr fresh td te by (auto simp: process_entry_def se1_def)
      then show thesis using idle p1 by simp
    next
      case (Inr t)
      obtain amount usd q where t: "t = (amount, usd, q)" by (cases t)
      define order where "order = entry_order X c oid pid now mint sg amount usd td"
      obtain rr st1 where rr: "reserve_order order now st = (rr, st1)" by fastforce
      have "st' = st \<and> se_portfolio se' = se_portfolio se \<and> same_counters (se_risk se) (se_risk se')
          \<or> (rr = Inr True \<and> (\<exists>r se2. run_entry X E dbg ft c now mint td bd pid q sg
               (cd_costs cand) order usd se1 st1 = Some (r, se2, st')
             \<and> se_portfolio se' = se_portfolio se2 \<and> se_risk se' = se_risk se2))"
        using assms(1) scr fresh td te Inr t rr p1
        by (auto simp: d order_def [symmetric] mark_seen_def reserve_order_def
            split: option.split_asm sum.split_asm if_split_asm)
      then show thesis using idle run scr fresh td te Inr t rr unfolding order_def by blast
    qed
  qed (use assms(1) scr idle in \<open>auto simp: process_entry_def\<close>)
qed

text \<open>What is left of a candidate, with every gate it passed when an order was run.\<close>

lemma process_entry_cases:
  assumes "process_entry X E dbg ft c now (su, pid, oid) mint cand se st = Some (res, se', st')"
  shows "(st' = st \<and> se_portfolio se' = se_portfolio se)
    \<or> (\<exists>sg amount usd q order td bd. passed_every_gate X E c se mint cand now su sg amount usd q
        \<and> cd_token_decimals cand = Some td \<and> cd_base_mint_decimals cand = Some bd
        \<and> entry_size X c (se_risk se) (se_sol_price_usd se) cand td = Some (Inr (amount, usd))
        \<and> order = entry_order X c oid pid now mint sg amount usd td
        \<and> (\<forall>r\<in>set (order_rows st). row_id r \<noteq> oid \<and> row_key r \<noteq> o_idempotency_key order)
        \<and> entry_ran X c now mint td bd pid sg (cd_costs cand) order (order_rows st) se st se' st')"
proof (cases rule: process_entry_runs [OF assms])
  case (2 sg td bd amount usd q r se2 st1)
  define se1 where "se1 = se\<lparr>se_risk := set_open_positions (se_risk se)
                (of_nat (length (open_positions_of (se_portfolio se))))\<rparr>"
  note 2 = 2 [folded se1_def]
  define order where "order = entry_order X c oid pid now mint sg amount usd td"
  note gate = screen_candidate_Inr [OF 2(1)] and terms = entry_terms_Inr [OF 2(5)]
  have fresh: "\<forall>r\<in>set (order_rows st). row_id r \<noteq> oid \<and> row_key r \<noteq> o_idempotency_key order"
    and st1: "st1 = st\<lparr>order_rows := order_rows st @ [row_of order now]\<rparr>"
    using 2(6) by (auto simp: reserve_order_Inr order_def entry_order_def)
  have "tail_order (order_rows st) st1 order now"
    using fresh by (simp add: tail_order_def st1 order_def entry_order_def)
  from run_entry_ran [OF 2(7) [folded order_def] this]
  have "entry_ran X c now mint td bd pid sg (cd_costs cand) order (order_rows st) se1 st1 se2 st'" .
  then have ran: "entry_ran X c now mint td bd pid sg (cd_costs cand) order (order_rows st)
      se st se' st'"
    using entry_booked_kv [of st1 st] 2(8) se1_def
    by (fastforce simp: entry_ran_def same_accounts_def st1 kv_look_def)
  have "passed_every_gate X E c se mint cand now su sg amount usd q"
    unfolding passed_every_gate_def using gate terms 2(2) by (simp add: se1_def authorize_Inr)
  moreover have "entry_size X c (se_risk se1) (se_sol_price_usd se1) cand td
      = entry_size X c (se_risk se) (se_sol_price_usd se) cand td"
    by (simp add: entry_size_def se1_def max_position_usd_def set_open_positions_def)
  then have "entry_size X c (se_risk se) (se_sol_price_usd se) cand td = Some (Inr (amount, usd))"
    using terms by simp
  ultimately show ?thesis using fresh ran 2(3,4)
    by (intro disjI2 exI conjI) (assumption | rule order_def)+
qed simp

section \<open>Properties\<close>

text \<open>
  C5: No order is written for a candidate unless it passed
  every gate. If a pass over a candidate changes the order table, it adds one single order and then
  the mint had no open position and the candidate was fresh and complete, the kill switch was
  untripped and the economic gate allowed the costs, the strategy accepted the signal on wallets
  whose evidence predates the market snapshot, the signal was new, the notional lay within the cap,
  a quote existed, and the risk engine authorised exactly this notional, liquidity, slippage and
  price impact. The order carries that amount and notional under a key that was not in the table.
\<close>

theorem entry_needs_every_gate:
  assumes "process_entry X E dbg ft c now (su, pid, oid) mint cand se st = Some (res, se', st')"
    and "order_rows st' \<noteq> order_rows st"
  shows "\<exists>sg amount usd q ord. order_rows st' = order_rows st @ [row_of ord now]
    \<and> passed_every_gate X E c se mint cand now su sg amount usd q
    \<and> \<not> tripped (re_kill_switch (se_risk se))
    \<and> (\<forall>p. position_of (se_portfolio se) mint = Some p \<longrightarrow> \<not> is_open p)
    \<and> o_id ord = oid \<and> o_kind ord = Entry \<and> o_mint ord = mint
    \<and> o_idempotency_key ord \<notin> row_key ` set (order_rows st)"
proof -
  from assms obtain sg amount usd q order td bd where
      g: "passed_every_gate X E c se mint cand now su sg amount usd q"
    and o: "order = entry_order X c oid pid now mint sg amount usd td"
    and f: "\<forall>r\<in>set (order_rows st). row_id r \<noteq> oid \<and> row_key r \<noteq> o_idempotency_key order"
    and r: "entry_ran X c now mint td bd pid sg (cd_costs cand) order (order_rows st) se st se' st'"
    using process_entry_cases [OF assms(1)] assms(2) by blast
  obtain ord where t: "order_rows st' = order_rows st @ [row_of ord now]" and s: "same_order order ord"
    using r by (auto simp: entry_ran_def tail_order_def)
  have k: "o_idempotency_key ord = o_idempotency_key order" "o_id ord = oid" "o_kind ord = Entry"
    "o_mint ord = mint" using s by (simp_all add: same_order_def o entry_order_def)
  have "\<not> tripped (re_kill_switch (se_risk se))"
    using g by (auto simp: passed_every_gate_def authorize_entry_def split: if_split_asm)
  moreover have "\<forall>p. position_of (se_portfolio se) mint = Some p \<longrightarrow> \<not> is_open p"
    using g by (auto simp: passed_every_gate_def screen_problem_def)
  ultimately show ?thesis using t g k f by (intro exI conjI) (assumption | force)+
qed

text \<open>A booked entry stays booked while the accounts are left alone.\<close>

lemma entry_booked_kept:
  assumes "entry_booked X c st mint td bd pid f sg costs st2" "same_accounts st2 st'"
  shows "\<exists>pf pf' p. load_portfolio st = Inr pf
    \<and> apply_entry X pf mint (base_mint (strategy c)) td bd pid f (f_price_usd f) (sg_id sg) costs
        = Some (Inr pf')
    \<and> map_of pf' mint = Some p \<and> kv_look st' (position_key (p_mint p)) = Some (VPosition p)
    \<and> (\<forall>m. m = p_mint p \<or> kv_look st' (position_key m) = kv_look st (position_key m))
    \<and> fill_rows st' = AList.update (f_order_id f) f (fill_rows st)"
proof -
  obtain pf pf' p where "load_portfolio st = Inr pf"
    "apply_entry X pf mint (base_mint (strategy c)) td bd pid f (f_price_usd f) (sg_id sg) costs
       = Some (Inr pf')" "map_of pf' mint = Some p"
    and l2: "kv_look st2 (position_key (p_mint p)) = Some (VPosition p)"
    "\<forall>m. m \<noteq> p_mint p \<longrightarrow> kv_look st2 (position_key m) = kv_look st (position_key m)"
    "fill_rows st2 = AList.update (f_order_id f) f (fill_rows st)"
    using assms(1) unfolding entry_booked_def by blast
  moreover have "kv_look st' (position_key (p_mint p)) = Some (VPosition p)"
    "\<forall>m. m = p_mint p \<or> kv_look st' (position_key m) = kv_look st (position_key m)"
    "fill_rows st' = AList.update (f_order_id f) f (fill_rows st)"
    using l2 assms(2) by (auto simp: same_accounts_def)
  ultimately show ?thesis by blast
qed

text \<open>
  C6: An entry is accounted completely or not at all,
  whatever the executor answers and whichever database call fails. At most one order is added and no
  other order is touched. Either no stored position, no fill and nothing of the session's portfolio
  has changed, or the order is stored as confirmed under the signature of a fill, that fill is
  stored, and the one position that changed is the stored portfolio's, advanced by exactly that fill.
\<close>

theorem entry_accounts_atomically:
  assumes "process_entry X E dbg ft c now (su, pid, oid) mint cand se st = Some (res, se', st')"
  shows "(order_rows st' = order_rows st \<or> (\<exists>ord. order_rows st' = order_rows st @ [row_of ord now]
            \<and> o_id ord = oid))
    \<and> (same_accounts st st' \<and> se_portfolio se' = se_portfolio se
     \<or> (\<exists>f ord pf pf' p sid td bd. order_rows st' = order_rows st @ [row_of ord now]
         \<and> o_state ord = Confirmed \<and> o_signature ord = Some (f_signature f)
         \<and> fill_rows st' = AList.update (f_order_id f) f (fill_rows st)
         \<and> load_portfolio st = Inr pf
         \<and> apply_entry X pf mint (base_mint (strategy c)) td bd pid f (f_price_usd f) sid
             (cd_costs cand) = Some (Inr pf')
         \<and> map_of pf' mint = Some p \<and> kv_look st' (position_key (p_mint p)) = Some (VPosition p)
         \<and> (\<forall>m. m = p_mint p \<or> kv_look st' (position_key m) = kv_look st (position_key m))))"
proof -
  consider (idle) "st' = st" "se_portfolio se' = se_portfolio se"
    | (ran) sg amount usd order td bd where
        "order = entry_order X c oid pid now mint sg amount usd td"
        "entry_ran X c now mint td bd pid sg (cd_costs cand) order (order_rows st) se st se' st'"
    using process_entry_cases [OF assms] by blast
  then show ?thesis
  proof cases
    case ran
    then obtain ord where t: "order_rows st' = order_rows st @ [row_of ord now]"
      and s: "same_order order ord"
      and d: "same_accounts st st' \<and> se_portfolio se' = se_portfolio se
        \<or> (\<exists>f st2. o_state ord = Confirmed \<and> o_signature ord = Some (f_signature f)
             \<and> entry_booked X c st mint td bd pid f sg (cd_costs cand) st2 \<and> same_accounts st2 st')"
      by (auto simp: entry_ran_def tail_order_def)
    have i: "o_id ord = oid" using s ran(1) by (simp add: same_order_def entry_order_def)
    from d show ?thesis
    proof (elim disjE exE conjE)
      fix f st2
      assume c: "o_state ord = Confirmed" "o_signature ord = Some (f_signature f)"
        and b: "entry_booked X c st mint td bd pid f sg (cd_costs cand) st2" "same_accounts st2 st'"
      from entry_booked_kept [OF b] t i c show ?thesis by blast
    qed (use t i in blast)
  qed simp
qed

text \<open>
  What a live entry really is. The sizing
  compares a number of atomic units with the capital cap, which is in dollars, and passes it on as
  the notional; the capped value itself is refused by the risk engine. So whenever a live entry is
  ordered, the number of atomic units it sells is below the dollar cap, and the dollars the risk
  engine authorised are that number.
\<close>

theorem live_notional_is_an_atomic_amount:
  assumes "process_entry X E dbg ft c now (su, pid, oid) mint cand se st = Some (res, se', st')"
    and "order_rows st' \<noteq> order_rows st" and "cfg_mode c = Live"
    and "re_config (se_risk se) = risk c" and "0 \<le> total_exposure (re_state (se_risk se))"
    and "\<forall>a b r. 0 \<le> a \<and> dec_add X a b = Some r \<longrightarrow> b \<le> r"
  shows "\<exists>sized atomic ord sg q td. cd_token_decimals cand = Some td
    \<and> compute_live_input_amount_atomic X sized
        (case se_sol_price_usd se of None \<Rightarrow> 0 | Some p \<Rightarrow> p) td = Some (Inr atomic)
    \<and> atomic < max_live_capital_usd (risk c)
    \<and> passed_every_gate X E c se mint cand now su sg (parse_or_zero X atomic) atomic q"
proof -
  from assms obtain sg amount usd q td where
      g: "passed_every_gate X E c se mint cand now su sg amount usd q"
    and td: "cd_token_decimals cand = Some td"
    and sz: "entry_size X c (se_risk se) (se_sol_price_usd se) cand td = Some (Inr (amount, usd))"
    using process_entry_cases [OF assms(1)] assms(2) by blast
  from entry_size_live [OF sz assms(3)] obtain sized atomic where
      at: "compute_live_input_amount_atomic X sized
        (case se_sol_price_usd se of None \<Rightarrow> 0 | Some p \<Rightarrow> p) td = Some (Inr atomic)"
    and amount: "amount = parse_or_zero X atomic"
    and usd: "usd = (if atomic > max_live_capital_usd (risk c) then max_live_capital_usd (risk c)
             else atomic)" by blast
  obtain projected where "dec_add X (total_exposure (re_state (se_risk se))) usd = Some projected"
    and "projected < max_live_capital_usd (risk c)"
    using g assms(4) by (auto simp: passed_every_gate_def entry_allowed_def set_open_positions_def)
  then have "usd < max_live_capital_usd (risk c)" using assms(5,6) by force
  then have "atomic < max_live_capital_usd (risk c)" "usd = atomic"
    using usd by (auto split: if_split_asm)
  with td at g amount show ?thesis by blast
qed

text \<open>One candidate, and the loop: what counts against the limits moves only with a booked entry.\<close>

definition within_limits :: "session \<Rightarrow> session \<Rightarrow> bool" where
  "within_limits se se' \<longleftrightarrow>
     total_exposure (re_state (se_risk se')) < max_live_capital_usd (re_config (se_risk se))
   \<and> trades_today (re_state (se_risk se)) < trades_today (re_state (se_risk se'))
   \<and> trades_today (re_state (se_risk se')) \<le> max_trades_per_day (re_config (se_risk se))
   \<and> of_nat (length (open_positions_of (se_portfolio se'))) \<le> max_concurrent_positions (re_config (se_risk se))
   \<and> re_config (se_risk se') = re_config (se_risk se)"

definition nothing_booked :: "session \<Rightarrow> store \<Rightarrow> session \<Rightarrow> store \<Rightarrow> bool" where
  "nothing_booked se st se' st' \<longleftrightarrow> same_accounts st st' \<and> se_portfolio se' = se_portfolio se
     \<and> same_counters (se_risk se) (se_risk se')"

lemma open_positions_update:
  "is_open p \<Longrightarrow> length (open_positions_of (AList.update m p pf)) = length (open_positions_of pf)
     \<or> length (open_positions_of (AList.update m p pf)) = Suc (length (open_positions_of pf))"
  unfolding open_positions_of_def by (induction pf) auto

lemma of_nat_open_le:
  fixes limit :: usize
  assumes "of_nat n < limit" "k = n \<or> k = Suc n"
  shows "of_nat k \<le> limit"
  using assms(2)
proof
  assume "k = Suc n"
  then have "of_nat k = of_nat n + (1::usize)" by simp
  with assms(1) show ?thesis using inc_le by (metis)
qed (use assms(1) in simp)

lemma process_entry_limits:
  assumes "process_entry X E dbg ft c now ids mint cand se st = Some (res, se', st')"
  shows "nothing_booked se st se' st' \<or> within_limits se se'"
proof -
  obtain su pid oid where ids: "ids = (su, pid, oid)" by (cases ids)
  show ?thesis
  proof (cases rule: process_entry_runs [OF assms [unfolded ids]])
    case 1
    then show ?thesis by (simp add: nothing_booked_def)
  next
    case (2 sg td bd amount usd q r se2 st1)
    define se1 where "se1 = se\<lparr>se_risk := set_open_positions (se_risk se)
                (of_nat (length (open_positions_of (se_portfolio se))))\<rparr>"
    note 2 = 2 [folded se1_def]
    have s1: "same_counters (se_risk se) (se_risk se1)" "se_portfolio se1 = se_portfolio se"
      "re_config (se_risk se1) = re_config (se_risk se)"
      "trades_today (re_state (se_risk se1)) = trades_today (re_state (se_risk se))"
      "open_positions (re_state (se_risk se1)) = of_nat (length (open_positions_of (se_portfolio se)))"
      by (simp_all add: se1_def) (simp_all add: set_open_positions_def)
    have acc: "same_accounts st st1"
      using 2(6) by (auto simp: reserve_order_Inr same_accounts_def kv_look_def)
    from run_entry_counted [OF 2(7)] consider
        (quiet) "same_accounts st1 st'" "se_portfolio se2 = se_portfolio se1"
          "same_counters (se_risk se1) (se_risk se2)"
      | (booked) re where "register_trade X (se_risk se1) usd = Some re"
          "same_counters re (se_risk se2)" "se_portfolio se2 = se_portfolio se1
            \<or> (\<exists>m p. is_open p \<and> se_portfolio se2 = AList.update m p (se_portfolio se1))"
      unfolding entry_counted_def by blast
    then show ?thesis
    proof cases
      case quiet
      then show ?thesis using acc s1(1,2) 2(8,9) same_accounts_trans same_counters_trans
        unfolding nothing_booked_def by metis
    next
      case (booked re)
      note re = booked(1,2) and pf = booked(3)
      have "authorize X (se_risk se1) usd (mk_liquidity_usd (cd_market cand))
          (ucast (slippage_bps (execution c))) (q_price_impact_bps q) now = Some (Inr ())"
        using entry_terms_Inr [OF 2(5)] by blast
      note w = authorized_trade_within [OF this re(1)]
      let ?n = "length (open_positions_of (se_portfolio se))"
        and ?k = "length (open_positions_of (se_portfolio se'))"
      have "?k = ?n \<or> ?k = Suc ?n"
        using pf open_positions_update s1(2) 2(8) by metis
      then have "of_nat ?k \<le> max_concurrent_positions (re_config (se_risk se))"
        using w(4) s1 by (intro of_nat_open_le) auto
      then show ?thesis
        using w re(2) s1 2(9) by (simp add: within_limits_def same_counters_def)
    qed
  qed
qed

lemma limits_trans:
  "nothing_booked a st b st' \<Longrightarrow> nothing_booked b st' d st'' \<Longrightarrow> nothing_booked a st d st''"
  "nothing_booked a st b st' \<Longrightarrow> within_limits b d \<Longrightarrow> within_limits a d"
  "within_limits a b \<Longrightarrow> nothing_booked b st' d st'' \<Longrightarrow> within_limits a d"
  "within_limits a b \<Longrightarrow> within_limits b d \<Longrightarrow> within_limits a d"
  by (auto simp: nothing_booked_def within_limits_def same_counters_def
      intro: same_accounts_trans)

lemma process_entries_limits:
  "process_entries X E dbg ft c now uuids cands se st = Some (res, se', st') \<Longrightarrow>
     nothing_booked se st se' st' \<or> within_limits se se'"
proof (induction cands arbitrary: se st)
  case Nil
  then show ?case by (simp add: nothing_booked_def)
next
  case (Cons a cands)
  obtain mint cand where a: "a = (mint, cand)" by (cases a)
  obtain r se1 st1 where one: "process_entry X (E mint) dbg (ft mint) c now (uuids mint) mint cand se st
      = Some (r, se1, st1)"
    and rest: "se' = se1 \<and> st' = st1
      \<or> process_entries X E dbg ft c now uuids cands se1 st1 = Some (res, se', st')"
    using Cons.prems a by (auto split: option.split_asm sum.split_asm)
  note first = process_entry_limits [OF one]
  from rest show ?case
  proof
    assume "process_entries X E dbg ft c now uuids cands se1 st1 = Some (res, se', st')"
    from Cons.IH [OF this] first limits_trans show ?thesis by blast
  qed (use first in simp)
qed

text \<open>
  C20: The limits hold through the loop over the
  candidates, for every executor, database fault and rounding, and from any state the marks and
  exits of the tick have left. Either nothing was booked, and then no position, no fill and nothing
  that counts against the limits has changed; or the aggregate exposure ends below the live-capital
  cap, the open positions do not exceed their limit, and the trades of the day have grown but not
  beyond theirs.
\<close>

theorem entries_stay_within_limits:
  assumes "process_entries X E dbg ft c now uuids cands se st = Some (res, se', st')"
  shows "(same_accounts st st' \<and> se_portfolio se' = se_portfolio se
        \<and> total_exposure (re_state (se_risk se')) = total_exposure (re_state (se_risk se))
        \<and> trades_today (re_state (se_risk se')) = trades_today (re_state (se_risk se)))
    \<or> (total_exposure (re_state (se_risk se')) < max_live_capital_usd (re_config (se_risk se))
        \<and> of_nat (length (open_positions_of (se_portfolio se')))
            \<le> max_concurrent_positions (re_config (se_risk se))
        \<and> trades_today (re_state (se_risk se)) < trades_today (re_state (se_risk se'))
        \<and> trades_today (re_state (se_risk se')) \<le> max_trades_per_day (re_config (se_risk se)))"
  using process_entries_limits [OF assms]
  by (auto simp: nothing_booked_def within_limits_def same_counters_def)

section \<open>A candidate that is entered\<close>

definition candidate_costs :: cost_model where
  "candidate_costs = sample_costs\<lparr>cm_input := sample_inputs\<lparr>position_size_usd := 5,
     avg_slippage_bps := 10, avg_price_impact_bps := 10\<rparr>\<rparr>"

definition sample_candidate :: candidate where
  "sample_candidate = \<lparr>cd_mint = ''m'', cd_token_decimals = Some 12, cd_base_mint_decimals = Some 3,
     cd_input_amount = 0, cd_position_usd = 5, cd_expected_gross_return_pct = 12,
     cd_market = sample_market, cd_safety = sample_safety,
     cd_wallets = [sample_wallet ''a'', sample_wallet ''b''], cd_costs = candidate_costs,
     cd_blockchain_timestamp = 0, cd_detection_timestamp = 0, cd_candidate_timestamp = 0,
     cd_detection_latency_ms = 0\<rparr>"

definition sample_session :: "decimal option \<Rightarrow> (string \<times> candidate) list \<Rightarrow> session" where
  "sample_session pr cs = \<lparr>se_portfolio = [], se_risk = new_engine (risk (example_config Paper)) 100,
     se_candidates = cs, se_seen_signals = {}, se_day_key = [], se_emergency_active = False,
     se_sol_price_usd = pr, se_sol_price_fetched_at = None\<rparr>"

lemma sample_calc: "\<exists>r. calculate exact_ext candidate_costs = Some (Inr r)
     \<and> round_trip_cost_pct_of_position r \<le> 3 \<and> expected_failed_tx_cost_usd r = 1 / 2500"
  by (simp add: calculate_Inr valid_inputs_def candidate_costs_def
      sample_costs_def sample_inputs_def break_even_values_def fit_def dec_max_def)

lemma sample_gate:
  "authorize_entry exact_ext (re_kill_switch (se_risk (sample_session pr cs)))
     \<lparr>gate_threshold_pct = 3\<rparr> candidate_costs = Some (Inr ())"
proof -
  obtain r where "gate_check exact_ext \<lparr>gate_threshold_pct = 3\<rparr> candidate_costs = Some (Inr (Allowed r))"
    using sample_calc by (auto simp: gate_check_Allowed)
  then show ?thesis
    by (simp add: authorize_entry_def sample_session_def new_engine_def new_kill_switch_def)
qed

lemma sample_estimate:
  "\<exists>ev. estimate exact_ext 12 candidate_costs 0 0 1 = Some (Inr ev) \<and> 9 \<le> ev_net_return_pct ev
     \<and> ev_net_return_pct ev \<le> 12"
proof -
  obtain r where r: "calculate exact_ext candidate_costs = Some (Inr r)"
    "expected_failed_tx_cost_usd r = 1 / 2500" using sample_calc by blast
  then show ?thesis
    by (simp add: estimate_def estimate_values_def candidate_costs_def sample_costs_def sample_inputs_def
        fit_def dec_max_def Let_def)
qed

lemma sample_accepted:
  assumes "9 \<le> ev_net_return_pct ev" "ev_net_return_pct ev \<le> 12"
  shows "\<exists>sg. evaluate_signal exact_ext (example_config m) ''m''
     [sample_wallet ''a'', sample_wallet ''b''] sample_market sample_safety ev 0 u
     = Some (Accepted sg) \<and> sg_id sg = u"
  using assms
  by (simp add: evaluate_signal_Accepted entry_filter_None signal_scores_def age_seconds_def
      token_unsafe_def weak_wallet_def wallet_count_def dec_of_word_def dec_sum_def clamp_def
      sample_wallet_def sample_market_def sample_safety_def fit_def dec_max_def
      trunc_quot_def nanos_def min_def Let_def)

lemma sample_screen:
  "\<exists>sg. screen_candidate exact_ext (example_config m) (sample_session pr cs) ''m'' sample_candidate 0 u
     = Some (Inr sg) \<and> sg_id sg = u"
proof -
  have p: "\<not> screen_problem exact_ext (example_config m) (sample_session pr cs) ''m'' sample_candidate 0"
    by (simp add: screen_problem_def sample_session_def sample_candidate_def position_of_def
        trunc_quot_def candidate_costs_def sample_costs_def)
  have w: "evidence_wallets sample_candidate = [sample_wallet ''a'', sample_wallet ''b'']"
    by (simp add: evidence_wallets_def sample_candidate_def sample_market_def sample_wallet_def)
  obtain ev where ev: "estimate exact_ext 12 candidate_costs 0 0 1 = Some (Inr ev)"
    "9 \<le> ev_net_return_pct ev" "ev_net_return_pct ev \<le> 12" using sample_estimate by blast
  from sample_accepted [OF ev(2,3)] obtain sg where
      "evaluate_signal exact_ext (example_config m) ''m''
     [sample_wallet ''a'', sample_wallet ''b''] sample_market sample_safety ev 0 u = Some (Accepted sg)"
    "sg_id sg = u" by blast
  then show ?thesis using p w ev(1) sample_gate
    by (simp add: screen_candidate_def) (simp add: sample_candidate_def)
qed

definition sample_usd :: "mode \<Rightarrow> decimal" where
  "sample_usd m = (if m = Live then 3 / 4 else 5)"

lemma sample_size:
  "m = Live \<longrightarrow> pr = Some 150 \<Longrightarrow>
   entry_size exact_ext (example_config m) (set_open_positions (se_risk (sample_session pr cs)) 0) pr
     sample_candidate 12 = Some (Inr (parse_or_zero exact_ext (sample_usd m), sample_usd m))"
  by (cases m) (simp_all add: entry_size_def sample_session_def new_engine_def set_open_positions_def
      max_position_usd_def compute_live_input_amount_atomic_def sample_candidate_def sample_usd_def
      example_config_def fit_def dec_max_def)

lemma sample_terms:
  assumes "m = Live \<longrightarrow> pr = Some 150"
  shows "entry_terms exact_ext (sample_exec res) (example_config m)
     ((sample_session pr cs)\<lparr>se_risk := set_open_positions (se_risk (sample_session pr cs)) 0\<rparr>) ''m''
     sample_candidate 12 0
   = Some (Inr (parse_or_zero exact_ext (sample_usd m), sample_usd m, sample_quote))"
proof -
  have usd: "\<not> sample_usd m \<le> 0" "\<not> 25 < sample_usd m" "sample_usd m \<le> 5"
    by (simp_all add: sample_usd_def)
  have a: "authorize exact_ext (set_open_positions (se_risk (sample_session pr cs)) 0) (sample_usd m)
      (mk_liquidity_usd (cd_market sample_candidate)) 75 (q_price_impact_bps sample_quote) 0
      = Some (Inr ())"
    by (simp add: authorize_def sample_session_def new_engine_def
        new_kill_switch_def set_open_positions_def sample_usd_def sample_candidate_def
        sample_market_def sample_quote_def example_config_def exceeds_size_limits_def
        daily_loss_reached_def fit_def dec_max_def)
  have v: "validate_position_size exact_ext (set_open_positions (se_risk (sample_session pr cs)) 0)
      (sample_usd m) 5 = Some (Inr ())"
    by (simp add: validate_position_size_def max_position_usd_def sample_session_def new_engine_def
        set_open_positions_def sample_usd_def example_config_def fit_def dec_max_def)
  show ?thesis
    using usd a v sample_size [OF assms]
    by (simp add: entry_terms_def try_res_def) (simp add: sample_session_def)
qed

text \<open>The pass over the sample candidate in an empty store.\<close>

definition sample_entry :: "mode \<Rightarrow> trade_signal \<Rightarrow> order_record" where
  "sample_entry m sg = entry_order exact_ext (example_config m) ''u'' ''pos'' 0 ''m'' sg
     (parse_or_zero exact_ext (sample_usd m)) (sample_usd m) 12"

definition sample_se1 :: "decimal option \<Rightarrow> (string \<times> candidate) list \<Rightarrow> session" where
  "sample_se1 pr cs = (sample_session pr cs)\<lparr>se_risk := set_open_positions (se_risk (sample_session pr cs)) 0\<rparr>"

definition sample_st1 :: "mode \<Rightarrow> trade_signal \<Rightarrow> store" where
  "sample_st1 m sg = empty_store\<lparr>order_rows := [row_of (sample_entry m sg) 0]\<rparr>"

lemma sample_pass:
  assumes "m = Live \<longrightarrow> pr = Some 150"
  shows "\<exists>sg. process_entry exact_ext (sample_exec res) Option.the no_faults (example_config m) 0
      (''s'', ''pos'', ''u'') ''m'' sample_candidate (sample_session pr cs) empty_store
    = (case run_entry exact_ext (sample_exec res) Option.the no_faults (example_config m) 0 ''m'' 12 3
          ''pos'' sample_quote sg candidate_costs (sample_entry m sg) (sample_usd m) (sample_se1 pr cs)
          (sample_st1 m sg) of
         None \<Rightarrow> None
       | Some (Inl e, se2, st2) \<Rightarrow> Some (Inl e, se2, st2)
       | Some (Inr _, se2, st2) \<Rightarrow> Some (Inr (), mark_seen ''s'' se2, st2))"
proof -
  obtain sg where sg: "screen_candidate exact_ext (example_config m) (sample_session pr cs) ''m''
      sample_candidate 0 ''s'' = Some (Inr sg)" "sg_id sg = ''s''" using sample_screen by blast
  have d: "cd_token_decimals sample_candidate = Some 12"
    "cd_base_mint_decimals sample_candidate = Some 3" "cd_costs sample_candidate = candidate_costs"
    "se_seen_signals (sample_session pr cs) = {}" "se_portfolio (sample_session pr cs) = []"
    by (simp_all add: sample_candidate_def sample_session_def)
  have r: "reserve_order (sample_entry m sg) 0 empty_store = (Inr True, sample_st1 m sg)"
    by (simp add: reserve_order_def empty_store_def order_problem_def sample_entry_def
        entry_order_def sample_st1_def)
  have o: "open_positions_of [] = []" by (simp add: open_positions_of_def)
  have t: "entry_terms exact_ext (sample_exec res) (example_config m) (sample_se1 pr cs) ''m''
     sample_candidate 12 0
   = Some (Inr (parse_or_zero exact_ext (sample_usd m), sample_usd m, sample_quote))"
    using sample_terms [OF assms] by (simp add: sample_se1_def)
  show ?thesis
    by (rule exI [of _ sg])
      (simp add: process_entry_def sg d o Let_def t r sample_se1_def [symmetric]
        sample_entry_def [symmetric] split: option.split sum.split)
qed

lemma sample_update:
  "o_id ord = ''u'' \<Longrightarrow> update_order ord 0 (sample_st1 m sg)
     = empty_store\<lparr>order_rows := [(row_of (sample_entry m sg) 0)
        \<lparr>row_state := state_debug (o_state ord), row_payload := ord\<rparr>]\<rparr>"
  by (simp add: update_order_def sample_st1_def row_of_def sample_entry_def entry_order_def)

lemma sample_min: "min_output_of exact_ext (q_output_amount sample_quote) 75 = Some 9925"
  by (simp add: min_output_of_def sat_mul_def sample_quote_def)

lemma sample_unknown:
  assumes "m = Live \<longrightarrow> pr = Some 150"
  shows "\<exists>se2 st2. process_entry exact_ext (sample_exec (Inl (UnknownOutcome None ''late''))) Option.the
      no_faults (example_config m) 0 (''s'', ''pos'', ''u'') ''m'' sample_candidate (sample_session pr cs)
      empty_store = Some (Inr (), se2, st2) \<and> order_rows st2 \<noteq> order_rows empty_store"
proof -
  obtain sg where p: "process_entry exact_ext (sample_exec (Inl (UnknownOutcome None ''late'')))
      Option.the no_faults (example_config m) 0 (''s'', ''pos'', ''u'') ''m'' sample_candidate
      (sample_session pr cs) empty_store
    = (case run_entry exact_ext (sample_exec (Inl (UnknownOutcome None ''late''))) Option.the
          no_faults (example_config m) 0 ''m'' 12 3
          ''pos'' sample_quote sg candidate_costs (sample_entry m sg) (sample_usd m) (sample_se1 pr cs)
          (sample_st1 m sg) of
         None \<Rightarrow> None
       | Some (Inl e, se2, st2) \<Rightarrow> Some (Inl e, se2, st2)
       | Some (Inr _, se2, st2) \<Rightarrow> Some (Inr (), mark_seen ''s'' se2, st2))"
    using sample_pass [OF assms] by blast
  have "\<exists>st2. run_entry exact_ext (sample_exec (Inl (UnknownOutcome None ''late''))) Option.the
          no_faults (example_config m) 0 ''m'' 12 3
          ''pos'' sample_quote sg candidate_costs (sample_entry m sg) (sample_usd m) (sample_se1 pr cs)
          (sample_st1 m sg) = Some (Inr (), (sample_se1 pr cs), st2) \<and> order_rows st2 \<noteq> []"
    by (simp add: run_entry_def sample_min write_order_def Let_def update_order_def sample_st1_def)
  then show ?thesis using p by (auto simp: empty_store_def)
qed

theorem entry_needs_every_gate_witness:
  "\<exists>sg amount usd q. passed_every_gate exact_ext (sample_exec (Inl (UnknownOutcome None ''late'')))
     (example_config Paper) (sample_session (Some 150) []) ''m'' sample_candidate 0 ''s'' sg amount usd q"
proof -
  obtain se2 st2 where "process_entry exact_ext (sample_exec (Inl (UnknownOutcome None ''late'')))
      Option.the no_faults (example_config Paper) 0 (''s'', ''pos'', ''u'') ''m'' sample_candidate
      (sample_session (Some 150) []) empty_store = Some (Inr (), se2, st2)" "order_rows st2 \<noteq> order_rows empty_store"
    using sample_unknown by blast
  from entry_needs_every_gate [OF this] show ?thesis by blast
qed

theorem live_notional_is_an_atomic_amount_witness:
  "\<exists>sized atomic. compute_live_input_amount_atomic exact_ext sized 150 12 = Some (Inr atomic)
     \<and> atomic < 25"
proof -
  obtain se2 st2 where run: "process_entry exact_ext (sample_exec (Inl (UnknownOutcome None ''late'')))
      Option.the no_faults (example_config Live) 0 (''s'', ''pos'', ''u'') ''m'' sample_candidate
      (sample_session (Some 150) []) empty_store = Some (Inr (), se2, st2)" "order_rows st2 \<noteq> order_rows empty_store"
    using sample_unknown by blast
  have s: "re_config (se_risk (sample_session (Some 150) [])) = risk (example_config Live)"
    "0 \<le> total_exposure (re_state (se_risk (sample_session (Some 150) [])))"
    "cd_token_decimals sample_candidate = Some 12" "se_sol_price_usd (sample_session (Some 150) []) = Some 150"
    by (simp_all add: sample_session_def new_engine_def sample_candidate_def example_config_def)
  have d: "\<forall>a b r. 0 \<le> a \<and> dec_add exact_ext a b = Some r \<longrightarrow> b \<le> r"
    by (auto dest: fit_SomeD)
  from live_notional_is_an_atomic_amount [OF run _ s(1,2) d] s(3,4) show ?thesis by auto
qed

definition sample_entry_fill :: fill where
  "sample_entry_fill = \<lparr>f_order_id = ''u'', f_signature = ''sig'', f_input_amount = 1000,
     f_output_amount = 10000, f_price_usd = 2, f_fees_usd = 0, f_slippage_bps = 0,
     f_confirmed_at = 0, f_latency_ms = 0, f_fee_lamports = 0, f_input_value_usd = Some 5,
     f_expected_output_amount = Some 10000\<rparr>"

lemma sample_entry_apply:
  "\<exists>pf. apply_entry exact_ext [] mint base 12 3 pid sample_entry_fill 2 sid costs
     = Some (Inr pf)"
  by (simp add: apply_entry_def sample_entry_fill_def pow10_u64_def checked_pow10_def
      dec_of_word_def fit_def dec_max_def Let_def)

lemma sample_confirmed:
  "\<exists>se2 st2. process_entry exact_ext (sample_exec (Inr sample_entry_fill)) Option.the
      no_faults (example_config Paper) 0 (''s'', ''pos'', ''u'') ''m'' sample_candidate
      (sample_session (Some 150) []) empty_store = Some (Inr (), se2, st2)
    \<and> fill_rows st2 = [(''u'', sample_entry_fill)]"
proof -
  obtain sg where p: "process_entry exact_ext (sample_exec (Inr sample_entry_fill))
      Option.the no_faults (example_config Paper) 0 (''s'', ''pos'', ''u'') ''m'' sample_candidate
      (sample_session (Some 150) []) empty_store
    = (case run_entry exact_ext (sample_exec (Inr sample_entry_fill)) Option.the
          no_faults (example_config Paper) 0 ''m'' 12 3
          ''pos'' sample_quote sg candidate_costs (sample_entry Paper sg) (sample_usd Paper) (sample_se1 (Some 150) [])
          (sample_st1 Paper sg) of
         None \<Rightarrow> None
       | Some (Inl e, se2, st2) \<Rightarrow> Some (Inl e, se2, st2)
       | Some (Inr _, se2, st2) \<Rightarrow> Some (Inr (), mark_seen ''s'' se2, st2))"
    using sample_pass by blast
  define placed where "placed = transition_or_keep (sample_entry Paper sg) Submitted"
  define st1 where "st1 = update_order placed 0 (sample_st1 Paper sg)"
  let ?f = sample_entry_fill
  have fin: "finalize_fill exact_ext ?f (Some 150) = Some ?f"
    by (simp add: finalize_fill_def fee_usd_def sample_entry_fill_def realised_slippage_bps_def
        dec_of_word_def fit_def dec_max_def)
  have ps: "load_portfolio (save_fill ?f st1) = Inr []"
    by (simp add: load_portfolio_def positions_def st1_def sample_st1_def empty_store_def load_def)
  have fp: "f_price_usd ?f = 2" "f_order_id ?f = ''u''" "f_output_amount ?f = 10000"
    by (simp_all add: sample_entry_fill_def)
  obtain pf where ap: "apply_entry exact_ext [] ''m'' (base_mint (strategy (example_config Paper)))
      12 3 ''pos'' ?f 2 (sg_id sg) candidate_costs = Some (Inr pf)"
    using sample_entry_apply by blast
  have sub: "o_state placed = Submitted"
    by (simp add: placed_def transition_or_keep_state sample_entry_def entry_order_def)
  have fr: "fill_rows st1 = []" by (simp add: st1_def sample_st1_def empty_store_def)
  obtain st2 placed' where tx: "entry_transaction exact_ext no_faults (example_config Paper) 0 st1
      ''m'' 12 3 ''pos'' ?f sg candidate_costs placed = Some (Inr st2, placed')"
    and st2: "fill_rows st2 = [(''u'', ?f)]"
    using ps ap sub fp fr
    by (simp add: entry_transaction_def transition_def Let_def save_fill_def
        split: option.split)
  have pf0: "se_portfolio (sample_se1 (Some 150) []) = []" by (simp add: sample_se1_def sample_session_def)
  obtain re where re: "register_trade exact_ext (se_risk (sample_se1 (Some 150) [])) (sample_usd Paper) = Some re"
    by (simp add: register_trade_def sample_se1_def sample_session_def new_engine_def
        set_open_positions_def sample_usd_def fit_def dec_max_def)
  have "\<exists>se2. run_entry exact_ext (sample_exec (Inr ?f)) Option.the
          no_faults (example_config Paper) 0 ''m'' 12 3
          ''pos'' sample_quote sg candidate_costs (sample_entry Paper sg) (sample_usd Paper) (sample_se1 (Some 150) [])
          (sample_st1 Paper sg) = Some (Inr (), se2, st2)"
    using tx re ap fp fin pf0
    by (simp add: run_entry_def sample_min write_order_def Let_def placed_def [symmetric]
        st1_def [symmetric] entry_filled_def) (simp add: sample_se1_def sample_session_def)
  then show ?thesis using p st2 by auto
qed

theorem entry_accounts_atomically_witness:
  "\<exists>se2 st2 ord. process_entry exact_ext (sample_exec (Inr sample_entry_fill)) Option.the
      no_faults (example_config Paper) 0 (''s'', ''pos'', ''u'') ''m'' sample_candidate
      (sample_session (Some 150) []) empty_store = Some (Inr (), se2, st2)
    \<and> order_rows st2 = [row_of ord 0] \<and> o_state ord = Confirmed"
proof -
  obtain se2 st2 where run: "process_entry exact_ext (sample_exec (Inr sample_entry_fill)) Option.the
      no_faults (example_config Paper) 0 (''s'', ''pos'', ''u'') ''m'' sample_candidate
      (sample_session (Some 150) []) empty_store = Some (Inr (), se2, st2)"
    and f: "fill_rows st2 = [(''u'', sample_entry_fill)]" using sample_confirmed by blast
  have "\<not> same_accounts empty_store st2" "order_rows empty_store = []"
    using f by (simp_all add: same_accounts_def empty_store_def)
  with run entry_accounts_atomically [OF run] show ?thesis by auto
qed

theorem entries_stay_within_limits_witness:
  "\<exists>se2 st2. process_entries exact_ext (\<lambda>_. sample_exec (Inr sample_entry_fill)) Option.the
      (\<lambda>_. no_faults) (example_config Paper) 0 (\<lambda>_. (''s'', ''pos'', ''u'')) [(''m'', sample_candidate)]
      (sample_session (Some 150) []) empty_store = Some (Inr (), se2, st2)
    \<and> fill_rows st2 \<noteq> [] \<and> total_exposure (re_state (se_risk se2)) < 25
    \<and> 0 < trades_today (re_state (se_risk se2)) \<and> trades_today (re_state (se_risk se2)) \<le> 3"
proof -
  obtain se2 st2 where one: "process_entry exact_ext (sample_exec (Inr sample_entry_fill)) Option.the
      no_faults (example_config Paper) 0 (''s'', ''pos'', ''u'') ''m'' sample_candidate
      (sample_session (Some 150) []) empty_store = Some (Inr (), se2, st2)"
    and f: "fill_rows st2 = [(''u'', sample_entry_fill)]" using sample_confirmed by blast
  have run: "process_entries exact_ext (\<lambda>_. sample_exec (Inr sample_entry_fill)) Option.the
      (\<lambda>_. no_faults) (example_config Paper) 0 (\<lambda>_. (''s'', ''pos'', ''u'')) [(''m'', sample_candidate)]
      (sample_session (Some 150) []) empty_store = Some (Inr (), se2, st2)"
    by (simp add: one)
  have "\<not> same_accounts empty_store st2" using f by (simp add: same_accounts_def empty_store_def)
  moreover have "max_live_capital_usd (re_config (se_risk (sample_session (Some 150) []))) = 25"
    "max_trades_per_day (re_config (se_risk (sample_session (Some 150) []))) = 3"
    "trades_today (re_state (se_risk (sample_session (Some 150) []))) = 0"
    by (simp_all add: sample_session_def new_engine_def example_config_def)
  ultimately show ?thesis using entries_stay_within_limits [OF run] run f by auto
qed

end
