(* ===== verification/Rpc.thy ===== *)
theory Rpc
  imports Reconcile
begin

text \<open>
  \<open>src/data/rpc.rs\<close>: the client of the JSON-RPC nodes. The HTTP traffic is the environment: what a
  node answers to the n-th request of a call is a function of the pass and the endpoint. The
  failover loop, its waits and the parsing of every answer are modelled. A number below \<open>2^64\<close> that
  the code casts to \<open>u8\<close> is truncated as the cast does.
\<close>

section \<open>The failover loop\<close>

definition rate_limit_backoff_start_ms :: u64 where "rate_limit_backoff_start_ms = 350"
definition rate_limit_backoff_max_ms :: u64 where "rate_limit_backoff_max_ms = 5000"

text \<open>\<open>2u64.saturating_pow(n)\<close>.\<close>

definition rpc_pow2 :: "nat \<Rightarrow> u64" where
  "rpc_pow2 n = (if n < 64 then 2 ^ n else - 1)"

definition rate_limit_backoff :: "u32 \<Rightarrow> u64" where
  "rate_limit_backoff stp =
     min (sat_mul rate_limit_backoff_start_ms (rpc_pow2 (unat (min stp 4)))) rate_limit_backoff_max_ms"

text \<open>
  The answer of a node to one request: rate limited, with the \<open>Retry-After\<close> seconds if any; a JSON
  value; a body that is no JSON; or no answer. Texts are those of the errors.
\<close>

datatype 'v http_answer =
  Limited string "u64 option" | Body string 'v | BadBody string string | NoAnswer string

text \<open>The wait after a rate-limited answer, in milliseconds.\<close>

definition limited_wait :: "u64 option \<Rightarrow> u32 \<Rightarrow> nat" where
  "limited_wait retry_after stp = (case retry_after of
      Some s \<Rightarrow> min (unat s * 1000) (unat rate_limit_backoff_max_ms)
    | None \<Rightarrow> unat (rate_limit_backoff stp))"

text \<open>
  The state of a call: the errors so far, the step of the ladder, the milliseconds waited and the
  number of requests sent. The result is the first answer without an error.
\<close>

record call_state =
  cs_errors :: "string list"
  cs_step :: u32
  cs_waited :: nat
  cs_requests :: nat

definition answer_error :: "'v json \<Rightarrow> 'v \<Rightarrow> string" where
  "answer_error J v = (case Option.bind (jv_get J v ''error'') (\<lambda>e. jv_get J e ''message'') of
      None \<Rightarrow> ''unknown''
    | Some m \<Rightarrow> (case jv_str J m of None \<Rightarrow> ''unknown'' | Some s \<Rightarrow> s))"

definition request_once ::
    "'v json \<Rightarrow> string \<Rightarrow> 'v http_answer \<Rightarrow> call_state \<Rightarrow> call_state + 'v \<times> call_state" where
  "request_once J endpoint ans s0 =
    (let s = s0\<lparr>cs_requests := cs_requests s0 + 1\<rparr> in
     case ans of
       Limited status retry_after \<Rightarrow> Inl (s\<lparr>
           cs_errors := cs_errors s @ [endpoint @ '' ['' @ status @ '']: 429 rate-limited''],
           cs_step := sat_add (cs_step s) 1,
           cs_waited := cs_waited s + limited_wait retry_after (cs_step s)\<rparr>)
     | Body status v \<Rightarrow>
         if jv_get J v ''error'' = None then Inr (jv_index J v ''result'', s)
         else Inl (s\<lparr>cs_errors := cs_errors s
                @ [endpoint @ '' ['' @ status @ '']: '' @ answer_error J v]\<rparr>)
     | BadBody status e \<Rightarrow>
         Inl (s\<lparr>cs_errors := cs_errors s @ [endpoint @ '' ['' @ status @ '']: '' @ e]\<rparr>)
     | NoAnswer e \<Rightarrow> Inl (s\<lparr>cs_errors := cs_errors s @ [endpoint @ '': '' @ e]\<rparr>))"

fun call_pass ::
    "'v json \<Rightarrow> (string \<Rightarrow> 'v http_answer) \<Rightarrow> string list \<Rightarrow> call_state
     \<Rightarrow> call_state + 'v \<times> call_state" where
  "call_pass J answers [] s = Inl s"
| "call_pass J answers (e # es) s =
    (case request_once J e (answers e) s of
       Inr r \<Rightarrow> Inr r
     | Inl s' \<Rightarrow> call_pass J answers es s')"

definition pass_backoff_ms :: "nat \<Rightarrow> nat" where
  "pass_backoff_ms attempt = unat (sat_mul (500 :: u64) (rpc_pow2 (min attempt 4)))"

fun call_passes ::
    "'v json \<Rightarrow> (nat \<Rightarrow> string \<Rightarrow> 'v http_answer) \<Rightarrow> string list \<Rightarrow> nat list \<Rightarrow> call_state
     \<Rightarrow> call_state + 'v \<times> call_state" where
  "call_passes J answers es [] s = Inl s"
| "call_passes J answers es (n # ns) s =
    (case call_pass J (answers n) es (if n > 0
            then s\<lparr>cs_waited := cs_waited s + pass_backoff_ms n\<rparr> else s) of
       Inr r \<Rightarrow> Inr r
     | Inl s' \<Rightarrow> call_passes J answers es ns s')"

fun join_errors :: "string list \<Rightarrow> string" where
  "join_errors [] = ''''"
| "join_errors [x] = x"
| "join_errors (x # xs) = x @ ''; '' @ join_errors xs"

definition empty_call :: call_state where
  "empty_call = \<lparr>cs_errors = [], cs_step = 0, cs_waited = 0, cs_requests = 0\<rparr>"

text \<open>\<open>RpcPool::call\<close>; \<open>with_attempts\<close> makes the number of passes at least one.\<close>

definition rpc_call ::
    "'v json \<Rightarrow> (nat \<Rightarrow> string \<Rightarrow> 'v http_answer) \<Rightarrow> string list \<Rightarrow> u32 \<Rightarrow> 'v rpc_answer \<times> call_state"
  where
  "rpc_call J answers endpoints passes =
    (case call_passes J answers endpoints [0..<unat (max passes 1)] empty_call of
       Inr (v, s) \<Rightarrow> (Inr v, s)
     | Inl s \<Rightarrow> (Inl \<lparr>rf_text = ''no RPC endpoint succeeded: '' @ join_errors (cs_errors s),
                     rf_availability = True\<rparr>, s))"

section \<open>Answers\<close>

definition invalid_answer :: "string \<Rightarrow> rpc_failure" where
  "invalid_answer msg = \<lparr>rf_text = ''invalid RPC response: '' @ msg, rf_availability = False\<rparr>"

definition need :: "'a option \<Rightarrow> string \<Rightarrow> rpc_failure + 'a" where
  "need m msg = (case m of None \<Rightarrow> Inl (invalid_answer msg) | Some x \<Rightarrow> Inr x)"

definition also_then :: "'e + 'a \<Rightarrow> ('a \<Rightarrow> 'e + 'b) \<Rightarrow> 'e + 'b" where
  "also_then m f = (case m of Inl e \<Rightarrow> Inl e | Inr x \<Rightarrow> f x)"

text \<open>A loop that collects or stops at the first error.\<close>

fun collect_all :: "('a \<Rightarrow> 'e + 'b) \<Rightarrow> 'a list \<Rightarrow> 'e + 'b list" where
  "collect_all f [] = Inr []"
| "collect_all f (x # xs) = also_then (f x) (\<lambda>y. also_then (collect_all f xs) (\<lambda>ys. Inr (y # ys)))"

definition parse_signature_status :: "'v json \<Rightarrow> 'v \<Rightarrow> 'v signature_status option" where
  "parse_signature_status J v =
    (let entry = jv_item J (jv_index J v ''value'') 0;
         err = jv_index J entry ''err''
     in if jv_null J entry then None
        else Some \<lparr>ss_err = (if jv_null J err then None else Some err),
          ss_confirmation_status = jv_str J (jv_index J entry ''confirmationStatus''),
          ss_slot = (case jv_u64 J (jv_index J entry ''slot'') of None \<Rightarrow> 0 | Some n \<Rightarrow> n)\<rparr>)"

text \<open>A transaction that is not indexed yet is null.\<close>

definition parse_transaction_answer :: "'v json \<Rightarrow> 'v \<Rightarrow> 'v option" where
  "parse_transaction_answer J v = (if jv_null J v then None else Some v)"

record 'v signature_entry =
  sn_signature :: string
  sn_slot :: u64
  sn_block_time :: "int option"
  sn_err :: "'v option"
  sn_confirmation_status :: "string option"

definition parse_signature_entry :: "'v json \<Rightarrow> 'v \<Rightarrow> rpc_failure + 'v signature_entry" where
  "parse_signature_entry J e =
     also_then (need (jv_str J (jv_index J e ''signature'')) ''signature entry missing signature'')
      (\<lambda>s. Inr \<lparr>sn_signature = s,
         sn_slot = (case jv_u64 J (jv_index J e ''slot'') of None \<Rightarrow> 0 | Some n \<Rightarrow> n),
         sn_block_time = jv_i64 J (jv_index J e ''blockTime''),
         sn_err = (let err = jv_index J e ''err'' in if jv_null J err then None else Some err),
         sn_confirmation_status = jv_str J (jv_index J e ''confirmationStatus'')\<rparr>)"

definition parse_signatures :: "'v json \<Rightarrow> 'v \<Rightarrow> rpc_failure + 'v signature_entry list" where
  "parse_signatures J v = also_then (need (jv_array J v) ''missing signatures array'')
     (collect_all (parse_signature_entry J))"

record largest_account =
  la_address :: string
  la_amount :: u64
  la_decimals :: u8

definition parse_largest_account :: "'v json \<Rightarrow> 'v \<Rightarrow> rpc_failure + largest_account" where
  "parse_largest_account J a =
     also_then (need (jv_str J (jv_index J a ''address'')) ''largest account missing address'') (\<lambda>addr.
     also_then (need (jv_str J (jv_index J a ''amount'')) ''largest account missing amount'') (\<lambda>txt.
     also_then (need (parse_u64 txt) ''invalid largest account amount'') (\<lambda>amount.
       Inr \<lparr>la_address = addr, la_amount = amount,
         la_decimals = (case jv_u64 J (jv_index J a ''decimals'') of None \<Rightarrow> 0 | Some n \<Rightarrow> ucast n)\<rparr>)))"

definition parse_largest_accounts :: "'v json \<Rightarrow> 'v \<Rightarrow> rpc_failure + largest_account list" where
  "parse_largest_accounts J v =
     also_then (need (jv_array J (jv_index J v ''value'')) ''missing token largest accounts array'')
       (collect_all (parse_largest_account J))"

record mint_account_info =
  ma_mint_authority :: "string option"
  ma_freeze_authority :: "string option"
  ma_supply :: u64
  ma_decimals :: u8
  ma_is_initialized :: bool

definition parse_mint_account_info :: "'v json \<Rightarrow> 'v \<Rightarrow> rpc_failure + mint_account_info option" where
  "parse_mint_account_info J v =
    (let account = jv_index J v ''value'';
         info = jv_index J (jv_index J (jv_index J account ''data'') ''parsed'') ''info''
     in if jv_null J account then Inr None
        else
          also_then (need (jv_str J (jv_index J info ''supply'')) ''mint missing supply'') (\<lambda>txt.
          also_then (need (parse_u64 txt) ''invalid mint supply'') (\<lambda>supply.
          also_then (need (jv_u64 J (jv_index J info ''decimals'')) ''mint missing decimals'') (\<lambda>d.
            Inr (Some \<lparr>ma_mint_authority = jv_str J (jv_index J info ''mintAuthority''),
              ma_freeze_authority = jv_str J (jv_index J info ''freezeAuthority''),
              ma_supply = supply, ma_decimals = ucast d,
              ma_is_initialized = (case jv_bool J (jv_index J info ''isInitialized'') of
                None \<Rightarrow> False | Some b \<Rightarrow> b)\<rparr>)))))"

text \<open>A balance is the mint, the amount and the decimals; here a number beyond \<open>u8\<close> is an error.\<close>

definition parse_token_balance :: "'v json \<Rightarrow> 'v \<Rightarrow> rpc_failure + string \<times> u64 \<times> u8" where
  "parse_token_balance J a =
    (let info = jv_index J (jv_index J (jv_index J (jv_index J a ''account'') ''data'') ''parsed'') ''info'';
         amt = jv_index J info ''tokenAmount''
     in also_then (need (jv_str J (jv_index J info ''mint'')) ''token account missing mint'') (\<lambda>mint.
        also_then (need (jv_str J (jv_index J amt ''amount'')) ''token account missing amount'') (\<lambda>txt.
        also_then (need (jv_u64 J (jv_index J amt ''decimals'')) ''token account missing decimals'') (\<lambda>d.
        also_then (need (parse_u64 txt) ''invalid token amount'') (\<lambda>amount.
        also_then (need (if d < 256 then Some (ucast d) else None) ''invalid token decimals'') (\<lambda>dec.
          Inr (mint, amount, dec)))))))"

definition parse_token_balances :: "'v json \<Rightarrow> 'v \<Rightarrow> rpc_failure + (string \<times> u64 \<times> u8) list" where
  "parse_token_balances J v =
     also_then (need (jv_array J (jv_index J v ''value'')) ''missing token account array'')
       (collect_all (parse_token_balance J))"

text \<open>\<open>fetch_accounts_base64\<close>: the code takes the element at index 1 of \<open>data\<close>.\<close>

definition account_base64 :: "'v json \<Rightarrow> 'v \<Rightarrow> string option" where
  "account_base64 J account = (if jv_null J account then None
     else do {
       arr \<leftarrow> jv_array J (jv_index J account ''data'');
       d \<leftarrow> (if 1 < length arr then Some (arr ! 1) else None);
       jv_str J d
     })"

definition parse_accounts_base64 :: "'v json \<Rightarrow> 'v \<Rightarrow> rpc_failure + string option list" where
  "parse_accounts_base64 J v =
     also_then (need (jv_array J (jv_index J v ''value''))
         ''missing value array in getMultipleAccounts'')
       (\<lambda>accounts. Inr (map (account_base64 J) accounts))"

definition parse_balance_lamports :: "'v json \<Rightarrow> 'v \<Rightarrow> rpc_failure + u64" where
  "parse_balance_lamports J v = need (jv_u64 J (jv_index J v ''value'')) ''missing balance value''"

text \<open>
  \<open>fetch_sol_price_usd\<close>, from the JSON body of the price service: only a JSON number is accepted,
  formatted with two digits.
\<close>

definition parse_sol_price :: "ext \<Rightarrow> 'v json \<Rightarrow> 'v \<Rightarrow> decimal option" where
  "parse_sol_price X J body =
    (case jv_f64 J (jv_index J (jv_index J (jv_index J body ''data'') wsol_mint) ''price'') of
       Some p \<Rightarrow> if p > 0 \<and> dec_round_dp X 2 p > 0 then Some (dec_round_dp X 2 p) else None
     | None \<Rightarrow> None)"

section \<open>Facts\<close>

lemma also_then_Inr: "also_then m f = Inr y \<longleftrightarrow> (\<exists>x. m = Inr x \<and> f x = Inr y)"
  by (cases m) (auto simp: also_then_def)

lemma need_Inr: "need m msg = Inr x \<longleftrightarrow> m = Some x"
  by (cases m) (auto simp: need_def)

lemmas answer_simps = also_then_Inr need_Inr

lemma collect_all_Inr: "collect_all f xs = Inr ys \<longleftrightarrow> list_all2 (\<lambda>x y. f x = Inr y) xs ys"
  by (induction xs arbitrary: ys) (auto simp: also_then_Inr list_all2_Cons1)

text \<open>The answers that end a call.\<close>

definition answered :: "'v json \<Rightarrow> 'v http_answer \<Rightarrow> bool" where
  "answered J ans = (case ans of Body _ v \<Rightarrow> jv_get J v ''error'' = None | _ \<Rightarrow> False)"

definition answer_result :: "'v json \<Rightarrow> 'v http_answer \<Rightarrow> 'v option" where
  "answer_result J ans = (case ans of
      Body _ v \<Rightarrow> (if jv_get J v ''error'' = None then Some (jv_index J v ''result'') else None)
    | _ \<Rightarrow> None)"

lemma limited_wait_bound: "limited_wait r stp \<le> 5000"
proof -
  have "rate_limit_backoff stp \<le> rate_limit_backoff_max_ms" by (simp add: rate_limit_backoff_def)
  then have "unat (rate_limit_backoff stp) \<le> 5000"
    by (simp add: word_le_nat_alt rate_limit_backoff_max_ms_def)
  then show ?thesis by (simp add: limited_wait_def rate_limit_backoff_max_ms_def split: option.split)
qed

lemma request_once_Inl:
  assumes "request_once J e ans s = Inl s'"
  shows "\<not> answered J ans \<and> cs_requests s' = cs_requests s + 1
    \<and> length (cs_errors s') = length (cs_errors s) + 1 \<and> cs_waited s' \<le> cs_waited s + 5000"
  using assms limited_wait_bound
  by (cases ans) (auto simp: request_once_def answered_def Let_def split: if_split_asm)

lemma request_once_Inr:
  assumes "request_once J e ans s = Inr (v, s')"
  shows "answer_result J ans = Some v \<and> cs_requests s' = cs_requests s + 1
    \<and> cs_waited s' = cs_waited s"
  using assms
  by (cases ans) (auto simp: request_once_def answer_result_def Let_def split: if_split_asm)

lemma call_pass_Inl:
  "call_pass J a es s = Inl s' \<Longrightarrow> (\<forall>e\<in>set es. \<not> answered J (a e))
    \<and> cs_requests s' = cs_requests s + length es
    \<and> length (cs_errors s') = length (cs_errors s) + length es
    \<and> cs_waited s' \<le> cs_waited s + 5000 * length es"
proof (induction es arbitrary: s)
  case (Cons e es)
  then obtain s1 where s1: "request_once J e (a e) s = Inl s1" "call_pass J a es s1 = Inl s'"
    by (auto split: sum.split_asm)
  show ?case using request_once_Inl [OF s1(1)] Cons.IH [OF s1(2)] by auto
qed simp

lemma call_pass_Inr:
  "call_pass J a es s = Inr (v, s') \<Longrightarrow> \<exists>i<length es. answer_result J (a (es ! i)) = Some v
    \<and> (\<forall>j<i. \<not> answered J (a (es ! j))) \<and> cs_requests s' = cs_requests s + i + 1
    \<and> cs_waited s' \<le> cs_waited s + 5000 * length es"
proof (induction es arbitrary: s)
  case (Cons e es)
  show ?case
  proof (cases "request_once J e (a e) s")
    case (Inl s1)
    then have "call_pass J a es s1 = Inr (v, s')" using Cons.prems by simp
    from Cons.IH [OF this] obtain i where i: "i < length es" "answer_result J (a (es ! i)) = Some v"
      "\<forall>j<i. \<not> answered J (a (es ! j))" "cs_requests s' = cs_requests s1 + i + 1"
      "cs_waited s' \<le> cs_waited s1 + 5000 * length es" by blast
    then show ?thesis using request_once_Inl [OF Inl]
      by (intro exI [of _ "Suc i"]) (auto simp: less_Suc_eq_0_disj)
  next
    case (Inr r)
    then show ?thesis using Cons.prems request_once_Inr [of J e "a e" s v s']
      by (intro exI [of _ 0]) auto
  qed
qed simp

lemma pass_backoff_bound: "pass_backoff_ms n \<le> 8000"
proof -
  have "min n 4 \<in> {0, 1, 2, 3, 4}" by auto
  then show ?thesis
    by (elim insertE emptyE) (simp_all add: pass_backoff_ms_def rpc_pow2_def sat_mul_def)
qed

lemma call_passes_run:
  assumes "call_passes J a es [m..<m + k] s = r"
  shows "case r of
      Inl s' \<Rightarrow> (\<forall>n<k. \<forall>e\<in>set es. \<not> answered J (a (m + n) e))
        \<and> cs_requests s' = cs_requests s + k * length es
        \<and> length (cs_errors s') = length (cs_errors s) + k * length es
        \<and> cs_waited s' \<le> cs_waited s + k * (8000 + 5000 * length es)
    | Inr (v, s') \<Rightarrow> \<exists>n<k. \<exists>i<length es. answer_result J (a (m + n) (es ! i)) = Some v
        \<and> (\<forall>n'<n. \<forall>e\<in>set es. \<not> answered J (a (m + n') e))
        \<and> (\<forall>j<i. \<not> answered J (a (m + n) (es ! j)))
        \<and> cs_requests s' = cs_requests s + n * length es + i + 1
        \<and> cs_waited s' \<le> cs_waited s + k * (8000 + 5000 * length es)"
  using assms
proof (induction k arbitrary: m s r)
  case (Suc k)
  define s0 where "s0 = (if m > 0 then s\<lparr>cs_waited := cs_waited s + pass_backoff_ms m\<rparr> else s)"
  have s0: "cs_requests s0 = cs_requests s" "cs_errors s0 = cs_errors s"
    "cs_waited s0 \<le> cs_waited s + 8000"
    using pass_backoff_bound [of m] by (auto simp: s0_def)
  have up: "[m..<m + Suc k] = m # [Suc m..<Suc m + k]" by (simp add: upt_rec)
  show ?case
  proof (cases "call_pass J (a m) es s0")
    case (Inl s1)
    note one = call_pass_Inl [OF Inl]
    have run: "call_passes J a es [Suc m..<Suc m + k] s1 = r"
      using Suc.prems Inl unfolding up by (simp add: s0_def)
    have split: "(\<forall>n<Suc k. P n) \<longleftrightarrow> P 0 \<and> (\<forall>n<k. P (Suc n))" for P
      by (auto simp: less_Suc_eq_0_disj)
    show ?thesis
    proof (cases r)
      case (Inl s')
      with Suc.IH [OF run] one s0 show ?thesis
        by (auto simp: split algebra_simps)
    next
      case (Inr vs)
      obtain v s' where vs: "vs = (v, s')" by (cases vs)
      from Suc.IH [OF run] Inr vs obtain n i where
          n: "n < k" "i < length es" "answer_result J (a (Suc m + n) (es ! i)) = Some v"
        "\<forall>n'<n. \<forall>e\<in>set es. \<not> answered J (a (Suc m + n') e)"
        "\<forall>j<i. \<not> answered J (a (Suc m + n) (es ! j))"
        "cs_requests s' = cs_requests s1 + n * length es + i + 1"
        "cs_waited s' \<le> cs_waited s1 + k * (8000 + 5000 * length es)" by auto
      show ?thesis unfolding Inr vs sum.case prod.case
        by (rule exI [of _ "Suc n"], rule conjI, use n in simp, rule exI [of _ i])
          (use n one s0 in \<open>auto simp: less_Suc_eq_0_disj algebra_simps\<close>)
    qed
  next
    case (Inr vs)
    obtain v s' where vs: "vs = (v, s')" by (cases vs)
    from call_pass_Inr [OF Inr [unfolded vs]] obtain i where
        i: "i < length es" "answer_result J (a m (es ! i)) = Some v"
      "\<forall>j<i. \<not> answered J (a m (es ! j))" "cs_requests s' = cs_requests s0 + i + 1"
      "cs_waited s' \<le> cs_waited s0 + 5000 * length es" by blast
    have r: "r = Inr (v, s')" using Suc.prems Inr vs unfolding up by (simp add: s0_def)
    show ?thesis unfolding r sum.case prod.case
      by (rule exI [of _ 0], rule conjI, simp, rule exI [of _ i])
        (use i s0 in \<open>auto simp: algebra_simps\<close>)
  qed
qed simp

section \<open>Properties\<close>

text \<open>
  C28: A call to the nodes always ends, within a bounded number of
  requests and a bounded wait, whatever the nodes answer: at most the passes times the endpoints
  requests, and at most eight seconds for every pass plus five for every request. It returns the
  result of the first answer that carries no error; it fails only when every endpoint has failed in
  every pass, has then one text for every request, and is an availability error.
\<close>

theorem failover_is_bounded:
  "case rpc_call J answers es passes of (res, s) \<Rightarrow>
     cs_waited s \<le> unat (max passes 1) * (8000 + 5000 * length es)
   \<and> (case res of
        Inl e \<Rightarrow> (\<forall>n<unat (max passes 1). \<forall>ep\<in>set es. \<not> answered J (answers n ep))
          \<and> cs_requests s = unat (max passes 1) * length es
          \<and> length (cs_errors s) = cs_requests s \<and> rf_availability e
      | Inr v \<Rightarrow> \<exists>n<unat (max passes 1). \<exists>i<length es. answer_result J (answers n (es ! i)) = Some v
          \<and> (\<forall>n'<n. \<forall>ep\<in>set es. \<not> answered J (answers n' ep))
          \<and> (\<forall>j<i. \<not> answered J (answers n (es ! j)))
          \<and> cs_requests s = n * length es + i + 1)"
proof (cases "call_passes J answers es [0..<unat (max passes 1)] empty_call")
  case (Inl s)
  with call_passes_run [of J answers es 0 "unat (max passes 1)" empty_call] show ?thesis
    by (simp add: rpc_call_def empty_call_def)
next
  case (Inr vs)
  obtain v s where "vs = (v, s)" by (cases vs)
  with Inr call_passes_run [of J answers es 0 "unat (max passes 1)" empty_call] show ?thesis
    by (auto simp: rpc_call_def empty_call_def)
qed

theorem failover_is_bounded_witness:
  "rpc_call jval_ops (\<lambda>_ e. if e = ''a'' then NoAnswer ''timeout''
       else Body ''200 OK'' (JDict [(''result'', JNum 7)])) [''a'', ''b''] 1
     = (Inr (JNum 7), \<lparr>cs_errors = [''a: timeout''], cs_step = 0, cs_waited = 0, cs_requests = 2\<rparr>)
   \<and> (2::nat) \<le> unat (max 1 (1 :: u32)) * length [''a'', ''b'']"
proof -
  have run: "rpc_call jval_ops (\<lambda>_ e. if e = ''a'' then NoAnswer ''timeout''
       else Body ''200 OK'' (JDict [(''result'', JNum 7)])) [''a'', ''b''] 1
     = (Inr (JNum 7), \<lparr>cs_errors = [''a: timeout''], cs_step = 0, cs_waited = 0, cs_requests = 2\<rparr>)"
    by (simp add: rpc_call_def empty_call_def request_once_def jval_ops_def Let_def)
  from failover_is_bounded [where J = jval_ops and es = "[''a'', ''b'']" and passes = 1
      and answers = "\<lambda>_ e. if e = ''a'' then NoAnswer ''timeout''
       else Body ''200 OK'' (JDict [(''result'', JNum 7)])"]
  have "(2::nat) \<le> unat (max 1 (1 :: u32)) * length [''a'', ''b'']"
    unfolding run by (auto simp: less_Suc_eq)
  with run show ?thesis by simp
qed

text \<open>Numbers printed in decimal are read back.\<close>

lemma digits_val_append: "digits_val acc (xs @ ys) =
    Option.bind (digits_val acc xs) (\<lambda>a. digits_val a ys)"
  by (induction xs arbitrary: acc) (simp_all split: option.split)

lemma digit_val_digit: "d < 10 \<Longrightarrow> digit_val (char_of (48 + d)) = Some d"
  by (simp add: digit_val_def Let_def)

lemma digits_val_show: "digits_val 0 (show_nat n) = Some n"
proof (induction n rule: show_nat.induct)
  case (1 n)
  show ?case
  proof (cases "n < 10")
    case True
    then show ?thesis by (simp add: show_nat.simps [of n] digit_val_digit)
  next
    case False
    have "digits_val 0 (show_nat n) = Option.bind (digits_val 0 (show_nat (n div 10)))
        (\<lambda>a. digits_val a [char_of (48 + n mod 10)])"
      using False by (subst show_nat.simps) (simp add: digits_val_append)
    also have "\<dots> = Some n" using False 1 by (simp add: digit_val_digit)
    finally show ?thesis .
  qed
qed

lemma show_nat_shape: "show_nat n \<noteq> [] \<and> hd (show_nat n) \<noteq> CHR ''+''"
proof (induction n rule: show_nat.induct)
  case (1 n)
  show ?case
  proof (cases "n < 10")
    case True
    have "char_of (48 + n) \<noteq> CHR ''+''"
    proof
      assume "char_of (48 + n) = CHR ''+''"
      then have "digit_val (CHR ''+'') = Some n" using digit_val_digit [OF True] by simp
      then show False by (simp add: digit_val_def Let_def)
    qed
    then show ?thesis using True by (simp add: show_nat.simps [of n])
  next
    case False
    with 1 show ?thesis by (simp add: show_nat.simps [of n])
  qed
qed

lemma parse_show_u64: "parse_u64 (show_word (w :: u64)) = Some w"
proof -
  have "unat w < 2 ^ 64" using unat_below [of w] by simp
  then show ?thesis
    using show_nat_shape [of "unat w"] digits_val_show [of "unat w"]
    by (simp add: parse_u64_def show_word_def Let_def)
qed

text \<open>What a node sends for the token accounts of an owner.\<close>

definition token_account_json :: "string \<times> u64 \<times> u8 \<Rightarrow> jval" where
  "token_account_json = (\<lambda>(mint, amount, decimals). JDict [(''account'', JDict [(''data'',
     JDict [(''parsed'', JDict [(''info'', JDict [(''mint'', JText mint),
       (''tokenAmount'', JDict [(''amount'', JText (show_word amount)),
          (''decimals'', JNum (int (unat decimals)))])])])])])])"

definition token_accounts_json :: "(string \<times> u64 \<times> u8) list \<Rightarrow> jval" where
  "token_accounts_json bs = JDict [(''value'', JList (map token_account_json bs))]"

text \<open>
  The balances of a wallet survive the way through the JSON of
  the node: for every list of mints, 64-bit amounts and 8-bit decimals, parsing what a node sends
  for them gives exactly that list.
\<close>

theorem token_balances_round_trip:
  "parse_token_balances jval_ops (token_accounts_json bs) = Inr bs"
proof -
  have one: "parse_token_balance jval_ops (token_account_json b) = Inr b" for b
  proof -
    obtain mint amount d where b: "b = (mint, amount, d)" by (cases b) auto
    have b8: "unat d < 2 ^ 8" using unat_below [of d] by simp
    have u: "unat (ucast d :: u64) = unat d"
      unfolding unsigned_ucast_eq using b8 by (simp add: take_bit_nat_eq_self)
    have "(of_int (int (unat d)) :: u64) = ucast d"
      by (rule word_unat_eq_iff [THEN iffD2]) (use b8 u in \<open>simp add: unat_of_nat take_bit_nat_eq_self\<close>)
    then have w: "u64_of_int (int (unat d)) = Some (ucast d)"
      using b8 by (simp add: u64_of_int_def del: of_nat_unat)
    have lt: "(ucast d :: u64) < 256" using b8 u by (simp add: word_less_nat_alt)
    have "ucast (ucast d :: u64) = d" by transfer simp
    with w lt show ?thesis
      by (simp add: b parse_token_balance_def token_account_json_def jval_ops_def Let_def
          also_then_def need_def parse_show_u64)
  qed
  have "collect_all (parse_token_balance jval_ops) (map token_account_json bs) = Inr bs"
    unfolding collect_all_Inr by (simp add: list_all2_conv_all_nth one)
  then show ?thesis
    by (simp add: parse_token_balances_def token_accounts_json_def also_then_def need_def)
      (simp add: jval_ops_def)
qed

text \<open>
  The lookup tables. With \<open>base64\<close> a node answers with the pair of the data and the name of the
  encoding, and the code takes the second: whatever the account holds, it gets that name.
\<close>

lemma account_data_is_the_encoding_name:
  assumes "\<not> jv_null J account" and "jv_array J (jv_index J account ''data'') = Some [d, enc]"
  shows "account_base64 J account = jv_str J enc"
  using assms by (simp add: account_base64_def)

text \<open>A price sent as a text is refused, although the code means to try the text first.\<close>

lemma price_text_is_refused:
  "parse_sol_price X jval_ops (JDict [(''data'', JDict [(wsol_mint,
     JDict [(''price'', JText p)])])]) = None"
  by (simp add: parse_sol_price_def jval_ops_def)

end
