(* ===== verification/Rpc_Methods.thy ===== *)
theory Rpc_Methods
  imports Rpc
begin

text \<open>
  \<open>src/data/rpc.rs\<close>: the methods of \<open>RpcPool\<close>, each a call of the failover loop with its request and
  the parser of its answer. A request is the method of the node with its parameters; what a node
  answers to a request, by pass and endpoint, is the function \<open>net\<close>. The gate that bounds the
  concurrent fetches of transactions delays a call and is left out.
\<close>

section \<open>Requests\<close>

datatype rpc_request =
    GetHealth
  | GetBalance string
  | GetSignatureStatuses string
  | GetTransaction string
  | GetSignaturesForAddress string u32 "string option"     \<comment> \<open>address, limit, before\<close>
  | GetTokenLargestAccounts string
  | GetAccountInfo string
  | GetTokenAccountsByOwner string string                  \<comment> \<open>owner, program\<close>
  | GetMultipleAccounts "string list"

definition sol_token_program :: string where
  "sol_token_program = ''TokenkegQfeZyiNwAJbNbGKPFXCWuBvf9Ss623VQ5DA''"

text \<open>The pool: its endpoints and the passes over them; \<open>with_attempts\<close> keeps at least one pass.\<close>

record rpc_pool =
  pl_endpoints :: "string list"
  pl_max_attempts :: u32

definition with_attempts :: "string list \<Rightarrow> u32 \<Rightarrow> rpc_pool" where
  "with_attempts endpoints passes = \<lparr>pl_endpoints = endpoints, pl_max_attempts = max passes 1\<rparr>"

definition new_pool :: "string list \<Rightarrow> rpc_pool" where
  "new_pool endpoints = with_attempts endpoints 1"

type_synonym 'v net = "rpc_request \<Rightarrow> nat \<Rightarrow> string \<Rightarrow> 'v http_answer"

definition pool_call :: "'v json \<Rightarrow> 'v net \<Rightarrow> rpc_pool \<Rightarrow> rpc_request \<Rightarrow> 'v rpc_answer" where
  "pool_call J net p r = fst (rpc_call J (net r) (pl_endpoints p) (pl_max_attempts p))"

section \<open>Methods\<close>

definition health :: "'v json \<Rightarrow> 'v net \<Rightarrow> rpc_pool \<Rightarrow> unit rpc_answer" where
  "health J net p = also_then (pool_call J net p GetHealth) (\<lambda>_. Inr ())"

definition balance_lamports :: "'v json \<Rightarrow> 'v net \<Rightarrow> rpc_pool \<Rightarrow> string \<Rightarrow> u64 rpc_answer" where
  "balance_lamports J net p address =
     also_then (pool_call J net p (GetBalance address)) (parse_balance_lamports J)"

definition signature_status_of ::
    "'v json \<Rightarrow> 'v net \<Rightarrow> rpc_pool \<Rightarrow> string \<Rightarrow> 'v signature_status option rpc_answer" where
  "signature_status_of J net p sig =
     also_then (pool_call J net p (GetSignatureStatuses sig)) (\<lambda>v. Inr (parse_signature_status J v))"

definition transaction :: "'v json \<Rightarrow> 'v net \<Rightarrow> rpc_pool \<Rightarrow> string \<Rightarrow> 'v option rpc_answer" where
  "transaction J net p sig =
     also_then (pool_call J net p (GetTransaction sig)) (\<lambda>v. Inr (parse_transaction_answer J v))"

definition signatures_for_address ::
    "'v json \<Rightarrow> 'v net \<Rightarrow> rpc_pool \<Rightarrow> string \<Rightarrow> u32 \<Rightarrow> 'v signature_entry list rpc_answer" where
  "signatures_for_address J net p address limit =
     also_then (pool_call J net p (GetSignaturesForAddress address limit None)) (parse_signatures J)"

definition signatures_for_address_paged ::
    "'v json \<Rightarrow> 'v net \<Rightarrow> rpc_pool \<Rightarrow> string \<Rightarrow> u32 \<Rightarrow> string option
     \<Rightarrow> 'v signature_entry list rpc_answer" where
  "signatures_for_address_paged J net p address limit before =
     also_then (pool_call J net p (GetSignaturesForAddress address limit before)) (parse_signatures J)"

definition token_largest_accounts ::
    "'v json \<Rightarrow> 'v net \<Rightarrow> rpc_pool \<Rightarrow> string \<Rightarrow> largest_account list rpc_answer" where
  "token_largest_accounts J net p mint =
     also_then (pool_call J net p (GetTokenLargestAccounts mint)) (parse_largest_accounts J)"

definition mint_account_info_of ::
    "'v json \<Rightarrow> 'v net \<Rightarrow> rpc_pool \<Rightarrow> string \<Rightarrow> mint_account_info option rpc_answer" where
  "mint_account_info_of J net p mint =
     also_then (pool_call J net p (GetAccountInfo mint)) (parse_mint_account_info J)"

definition token_balances_of ::
    "'v json \<Rightarrow> 'v net \<Rightarrow> rpc_pool \<Rightarrow> string \<Rightarrow> (string \<times> u64 \<times> u8) list rpc_answer" where
  "token_balances_of J net p owner =
     also_then (pool_call J net p (GetTokenAccountsByOwner owner sol_token_program))
       (parse_token_balances J)"

definition fetch_accounts_base64 ::
    "'v json \<Rightarrow> 'v net \<Rightarrow> rpc_pool \<Rightarrow> string list \<Rightarrow> string option list rpc_answer" where
  "fetch_accounts_base64 J net p pubkeys =
    (if pubkeys = [] then Inr []
     else also_then (pool_call J net p (GetMultipleAccounts pubkeys)) (parse_accounts_base64 J))"

text \<open>The price service, outside the pool: its answer, when one came, has a status and a body.\<close>

definition fetch_sol_price_usd ::
    "ext \<Rightarrow> 'v json \<Rightarrow> string + bool \<times> (string + 'v) \<Rightarrow> decimal option rpc_answer" where
  "fetch_sol_price_usd X J answer = (case answer of
      Inl e \<Rightarrow> Inl \<lparr>rf_text = ''HTTP client: '' @ e, rf_availability = True\<rparr>
    | Inr (success, body) \<Rightarrow>
        if \<not> success then Inr None
        else (case body of
            Inl e \<Rightarrow> Inl \<lparr>rf_text = ''HTTP client: '' @ e, rf_availability = True\<rparr>
          | Inr v \<Rightarrow> Inr (parse_sol_price X J v)))"

section \<open>The health report\<close>

record rpc_health_entry =
  he_endpoint :: string
  he_healthy :: bool
  he_latency_ms :: u64
  he_status_code :: u16
  he_error :: "string option"

text \<open>One request for each endpoint: a status, or no answer, with the time it took.\<close>

definition health_entry :: "string \<Rightarrow> (string + u16) \<times> u64 \<Rightarrow> rpc_health_entry" where
  "health_entry endpoint ans = (case fst ans of
      Inr status \<Rightarrow> \<lparr>he_endpoint = endpoint, he_healthy = (200 \<le> status \<and> status < 300),
        he_latency_ms = snd ans, he_status_code = status, he_error = None\<rparr>
    | Inl e \<Rightarrow> \<lparr>he_endpoint = endpoint, he_healthy = False, he_latency_ms = snd ans,
        he_status_code = 0, he_error = Some e\<rparr>)"

definition health_report :: "(string \<Rightarrow> (string + u16) \<times> u64) \<Rightarrow> rpc_pool \<Rightarrow> rpc_health_entry list" where
  "health_report answers p = map (\<lambda>e. health_entry e (answers e)) (pl_endpoints p)"

section \<open>Facts\<close>

text \<open>The parsers report what is wrong with an answer, never that there was none.\<close>

named_theorems parse_failures \<open>the failures of a parser are about the answer\<close>

definition about_answer :: "'a rpc_answer \<Rightarrow> bool" where
  "about_answer r \<longleftrightarrow> (\<forall>e. r = Inl e \<longrightarrow> \<not> rf_availability e)"

lemma about_answer_Inr [simp]: "about_answer (Inr x)"
  by (simp add: about_answer_def)

lemma about_need [parse_failures]: "about_answer (need m msg)"
  by (auto simp: about_answer_def need_def invalid_answer_def split: option.split)

lemma about_then [parse_failures]:
  "about_answer m \<Longrightarrow> (\<And>x. about_answer (f x)) \<Longrightarrow> about_answer (also_then m f)"
  by (auto simp: about_answer_def also_then_def split: sum.splits)

lemma about_collect [parse_failures]:
  "(\<And>x. about_answer (f x)) \<Longrightarrow> about_answer (collect_all f xs)"
  by (induction xs) (auto intro!: about_then)

lemma about_parsers [parse_failures]:
  "about_answer (parse_balance_lamports J v)" "about_answer (parse_signature_entry J v)"
  "about_answer (parse_signatures J v)" "about_answer (parse_largest_account J v)"
  "about_answer (parse_largest_accounts J v)" "about_answer (parse_mint_account_info J v)"
  "about_answer (parse_token_balance J v)" "about_answer (parse_token_balances J v)"
  "about_answer (parse_accounts_base64 J v)"
  unfolding parse_balance_lamports_def parse_signature_entry_def parse_signatures_def
    parse_largest_account_def parse_largest_accounts_def parse_mint_account_info_def
    parse_token_balance_def parse_token_balances_def parse_accounts_base64_def Let_def
  by (auto intro!: parse_failures)

lemma pool_call_failure:
  "pool_call J net p r = Inl e \<Longrightarrow> rf_availability e"
  by (auto simp: pool_call_def rpc_call_def split: sum.splits prod.splits)

text \<open>A method: a call and the parser of its answer.\<close>

lemma method_failure:
  assumes "\<And>v. about_answer (parse v)"
  shows "(\<exists>e. also_then (pool_call J net p r) parse = Inl e \<and> rf_availability e)
    \<longleftrightarrow> (\<exists>e. pool_call J net p r = Inl e)"
  using assms pool_call_failure [of J net p r]
  by (cases "pool_call J net p r") (auto simp: also_then_def about_answer_def)

section \<open>Properties\<close>

text \<open>
  An availability failure says that no node gave
  an answer without an error, and nothing else: each method of the pool fails with availability
  exactly when the call behind it found no such answer, and a malformed answer is never reported as
  one. Callers may therefore treat availability as an unknown outcome and the rest as a fact about the
  answer.
\<close>

theorem availability_is_about_the_nodes:
  shows "(\<exists>e. balance_lamports J net p a = Inl e \<and> rf_availability e)
      \<longleftrightarrow> (\<exists>e. pool_call J net p (GetBalance a) = Inl e)"
    and "(\<exists>e. signature_status_of J net p a = Inl e) \<longleftrightarrow> (\<exists>e. pool_call J net p (GetSignatureStatuses a) = Inl e)"
    and "(\<exists>e. transaction J net p a = Inl e) \<longleftrightarrow> (\<exists>e. pool_call J net p (GetTransaction a) = Inl e)"
    and "(\<exists>e. signatures_for_address_paged J net p a n b = Inl e \<and> rf_availability e)
      \<longleftrightarrow> (\<exists>e. pool_call J net p (GetSignaturesForAddress a n b) = Inl e)"
    and "(\<exists>e. token_largest_accounts J net p a = Inl e \<and> rf_availability e)
      \<longleftrightarrow> (\<exists>e. pool_call J net p (GetTokenLargestAccounts a) = Inl e)"
    and "(\<exists>e. mint_account_info_of J net p a = Inl e \<and> rf_availability e)
      \<longleftrightarrow> (\<exists>e. pool_call J net p (GetAccountInfo a) = Inl e)"
    and "(\<exists>e. token_balances_of J net p a = Inl e \<and> rf_availability e)
      \<longleftrightarrow> (\<exists>e. pool_call J net p (GetTokenAccountsByOwner a sol_token_program) = Inl e)"
  unfolding balance_lamports_def signatures_for_address_paged_def token_largest_accounts_def
    mint_account_info_of_def token_balances_of_def signature_status_of_def transaction_def
  by (rule method_failure, rule about_parsers | simp add: also_then_def split: sum.split)+

text \<open>The report has one entry for each endpoint, in order, and an unreachable one is unhealthy.\<close>

lemma health_entry_endpoint: "he_endpoint (health_entry e ans) = e"
  by (simp add: health_entry_def split: sum.split)

lemma health_report_entries:
  "map he_endpoint (health_report answers p) = pl_endpoints p"
  "e \<in> set (health_report answers p) \<Longrightarrow> he_healthy e \<Longrightarrow> he_error e = None \<and> he_status_code e \<noteq> 0"
  by (simp add: health_report_def comp_def health_entry_endpoint)
    (auto simp: health_report_def health_entry_def split: sum.splits)

text \<open>The paged method without a cursor is the plain one.\<close>

lemma first_page: "signatures_for_address_paged J net p a n None = signatures_for_address J net p a n"
  by (simp add: signatures_for_address_paged_def signatures_for_address_def)

end
