(* ===== verification/Token_Data.thy ===== *)
theory Token_Data
  imports Rpc Runtime_Exit
begin

text \<open>
  \<open>src/collector/token_data.rs\<close>: the safety facts and the market snapshot of a token, from RPC
  answers and a quote. Answers are arguments: pages of the signature history are a function of the
  cursor. The pause between pages is left out.
\<close>

definition age_page_limit :: nat where "age_page_limit = 200"
definition max_age_pages :: nat where "max_age_pages = 10"

text \<open>\<open>i64\<close> arithmetic that saturates.\<close>

definition i64_sat :: "int \<Rightarrow> int" where
  "i64_sat n = max (- (2 ^ 63)) (min (2 ^ 63 - 1) n)"

section \<open>Liquidity from a price impact\<close>

definition estimate_liquidity_usd :: "ext \<Rightarrow> decimal \<Rightarrow> u32 \<Rightarrow> decimal option" where
  "estimate_liquidity_usd X trade_size_usd price_impact_bps =
    (if price_impact_bps > 0 then do {
       a \<leftarrow> dec_mul X trade_size_usd 10000;
       l \<leftarrow> dec_div X a (dec_of_word price_impact_bps);
       Some (dec_round_dp X 2 l)
     } else Some 0)"

section \<open>Token safety\<close>

text \<open>The share of the ten largest holders, in hundredths of a percent cast to \<open>u32\<close>.\<close>

definition holder_top10 :: "mint_account_info \<Rightarrow> largest_account list \<Rightarrow> decimal" where
  "holder_top10 info holders =
    (let top10 = sum_list (map (\<lambda>h. unat (la_amount h)) (take 10 holders))
     in dec_of_word (of_nat (top10 * 10000 div unat (ma_supply info)) :: u32) / 100)"

text \<open>The oldest block time of a page, together with what was known.\<close>

definition older :: "int option \<Rightarrow> int option \<Rightarrow> int option" where
  "older oldest bt = (case bt of None \<Rightarrow> oldest
     | Some t \<Rightarrow> Some (case oldest of None \<Rightarrow> t | Some p \<Rightarrow> min p t))"

definition oldest_of :: "int option \<Rightarrow> 'v signature_entry list \<Rightarrow> int option" where
  "oldest_of oldest page = fold (\<lambda>e acc. older acc (sn_block_time e)) page oldest"

definition reached :: "int \<Rightarrow> int option \<Rightarrow> bool" where
  "reached cutoff oldest \<longleftrightarrow> (case oldest of None \<Rightarrow> False | Some t \<Rightarrow> t \<le> cutoff)"

text \<open>
  The walk back through the history of the mint: the first argument counts the pages left. The
  result is the oldest block time seen and whether the history was exhausted.
\<close>

fun age_walk ::
    "nat \<Rightarrow> (string option \<Rightarrow> rpc_failure + 'v signature_entry list) \<Rightarrow> int \<Rightarrow> string option
     \<Rightarrow> int option \<Rightarrow> rpc_failure + int option \<times> bool" where
  "age_walk 0 pages cutoff before oldest = Inr (oldest, False)"
| "age_walk (Suc n) pages cutoff before oldest =
    (case pages before of
       Inl e \<Rightarrow> Inl e
     | Inr page \<Rightarrow>
       if page = [] then Inr (oldest, True)
       else if reached cutoff (oldest_of oldest page) then Inr (oldest_of oldest page, False)
       else if length page < age_page_limit then Inr (oldest_of oldest page, True)
       else age_walk n pages cutoff (Some (sn_signature (last page))) (oldest_of oldest page))"

text \<open>The answers are those for the mint; \<open>now\<close> is the second clock reading, \<open>now_ts\<close> the first in seconds.\<close>

definition fetch_token_safety ::
    "rpc_failure + mint_account_info option \<Rightarrow> rpc_failure + largest_account list
     \<Rightarrow> (string option \<Rightarrow> rpc_failure + 'v signature_entry list) \<Rightarrow> int \<Rightarrow> int \<Rightarrow> datetime
     \<Rightarrow> string + token_safety option" where
  "fetch_token_safety mint_info largest pages min_age now_ts now =
    (case mint_info of
       Inl e \<Rightarrow> Inl (''mint_account_info RPC failed: '' @ rf_text e)
     | Inr None \<Rightarrow> Inr None
     | Inr (Some info) \<Rightarrow>
       if \<not> ma_is_initialized info then Inr None
       else (case largest of
         Inl e \<Rightarrow> Inl (''token_largest_accounts RPC failed: '' @ rf_text e)
       | Inr holders \<Rightarrow>
         if \<not> (ma_supply info > 0 \<and> holders \<noteq> []) then Inr None
         else
          (let cutoff = i64_sat (now_ts - max min_age 0) in
           case age_walk max_age_pages pages cutoff None None of
             Inl e \<Rightarrow> Inl (''signatures_for_address RPC failed: '' @ rf_text e)
           | Inr (None, _) \<Rightarrow> Inr None
           | Inr (Some oldest_ts, exhausted) \<Rightarrow>
             if \<not> exhausted \<and> oldest_ts > cutoff then Inr None
             else Inr (Some
               \<lparr>mint_authority_present = (ma_mint_authority info \<noteq> None),
                freeze_authority_present = (ma_freeze_authority info \<noteq> None),
                holder_top10_pct = holder_top10 info holders,
                token_age_secs = i64_sat (now_ts - oldest_ts),
                liquidity_locked_or_burned = None, sellable = None, route_available = None,
                creator_suspicious = None, abnormal_activity = None,
                liquidity_change_pct = None, ts_observed_at = now\<rparr>))))"

section \<open>Market snapshot\<close>

definition fetch_market_snapshot ::
    "ext \<Rightarrow> exec_env \<Rightarrow> string \<Rightarrow> decimal \<Rightarrow> u8 \<Rightarrow> u8 \<Rightarrow> u64 \<Rightarrow> u16 \<Rightarrow> datetime
     \<Rightarrow> (string + (market_snapshot \<times> u32) option) option" where
  "fetch_market_snapshot X E mint sol_price sol_dec token_dec input_amount slippage now =
    (case xe_quote E wsol_mint mint input_amount slippage of
       Inl e \<Rightarrow> Some (Inl ''Jupiter quote failed'')
     | Inr q \<Rightarrow>
       if q_output_amount q = 0 \<or> q_input_amount q = 0 then Some (Inr None)
       else do {
         us \<leftarrow> pow10_u64 X sol_dec;
         sol_spent \<leftarrow> dec_div X (dec_of_word (q_input_amount q)) (dec_of_word us);
         ut \<leftarrow> pow10_u64 X token_dec;
         received \<leftarrow> dec_div X (dec_of_word (q_output_amount q)) (dec_of_word ut);
         if received = 0 then Some (Inr None)
         else do {
           v \<leftarrow> dec_mul X sol_spent sol_price;
           price \<leftarrow> dec_div X v received;
           size \<leftarrow> dec_mul X sol_spent sol_price;
           liquidity \<leftarrow> estimate_liquidity_usd X size (q_price_impact_bps q);
           Some (Inr (Some
             (\<lparr>mk_mint = mint, mk_price_usd = price, mk_liquidity_usd = liquidity,
               mk_volume_24h_usd = 0, mk_volatility_pct = 0, mk_buy_sell_imbalance = 0,
               mk_observed_at = now, mk_received_at = now, mk_slot = None,
               mk_price_impact_bps = Some (q_price_impact_bps q)\<rparr>, q_price_impact_bps q)))
         }
       })"

section \<open>Facts\<close>

text \<open>The block times on the pages the walk looks at.\<close>

fun walked :: "nat \<Rightarrow> (string option \<Rightarrow> rpc_failure + 'v signature_entry list) \<Rightarrow> int
    \<Rightarrow> string option \<Rightarrow> int option \<Rightarrow> 'v signature_entry list" where
  "walked 0 pages cutoff before oldest = []"
| "walked (Suc n) pages cutoff before oldest =
    (case pages before of
       Inl e \<Rightarrow> []
     | Inr page \<Rightarrow>
       if page = [] \<or> reached cutoff (oldest_of oldest page) \<or> length page < age_page_limit
       then page
       else page @ walked n pages cutoff (Some (sn_signature (last page))) (oldest_of oldest page))"

lemma oldest_of_Nil [simp]: "oldest_of oldest [] = oldest"
  by (simp add: oldest_of_def)

lemma oldest_of_append: "oldest_of oldest (xs @ ys) = oldest_of (oldest_of oldest xs) ys"
  by (simp add: oldest_of_def)

lemma age_walk_oldest:
  "age_walk n pages cutoff before oldest = Inr (o', ex) \<Longrightarrow>
     o' = oldest_of oldest (walked n pages cutoff before oldest)"
  by (induction n arbitrary: before oldest)
    (auto simp: oldest_of_append split: sum.split_asm if_split_asm)

lemma oldest_of_min:
  "oldest_of oldest page = Some t \<Longrightarrow>
     (oldest = Some t \<or> (\<exists>e\<in>set page. sn_block_time e = Some t))
   \<and> (\<forall>e\<in>set page. \<forall>b. sn_block_time e = Some b \<longrightarrow> t \<le> b) \<and> (\<forall>p. oldest = Some p \<longrightarrow> t \<le> p)"
proof (induction page arbitrary: oldest)
  case (Cons e page)
  have step: "oldest_of oldest (e # page) = oldest_of (older oldest (sn_block_time e)) page"
    by (simp add: oldest_of_def)
  show ?case using Cons.IH [OF Cons.prems [unfolded step]]
    by (auto simp: older_def min_def split: option.split_asm if_split_asm)
qed simp

section \<open>Properties\<close>

text \<open>
  The age of a token is proved, never guessed. When safety
  facts are reported, the age is counted from the earliest block time on the pages of the history
  that were walked, and either the whole history was walked or that time already lies at or before
  the required age; the mint is initialised and has a supply. So an age below the minimum is only
  ever reported for a history that was seen completely.
\<close>

theorem token_age_is_proven:
  assumes "fetch_token_safety mint_info largest pages min_age now_ts now = Inr (Some s)"
  shows "\<exists>oldest exhausted info. mint_info = Inr (Some info) \<and> ma_is_initialized info
    \<and> ma_supply info \<noteq> 0
    \<and> age_walk max_age_pages pages (i64_sat (now_ts - max min_age 0)) None None
        = Inr (Some oldest, exhausted)
    \<and> token_age_secs s = i64_sat (now_ts - oldest)
    \<and> (\<exists>e\<in>set (walked max_age_pages pages (i64_sat (now_ts - max min_age 0)) None None).
         sn_block_time e = Some oldest)
    \<and> (\<forall>e\<in>set (walked max_age_pages pages (i64_sat (now_ts - max min_age 0)) None None).
         case sn_block_time e of None \<Rightarrow> True | Some b \<Rightarrow> oldest \<le> b)
    \<and> (exhausted \<or> oldest \<le> i64_sat (now_ts - max min_age 0))"
proof -
  let ?cut = "i64_sat (now_ts - max min_age 0)"
  obtain info oldest exhausted where i: "mint_info = Inr (Some info)" "ma_is_initialized info"
    "ma_supply info \<noteq> 0"
    and w: "age_walk max_age_pages pages ?cut None None = Inr (Some oldest, exhausted)"
    and c: "exhausted \<or> oldest \<le> ?cut" and s: "token_age_secs s = i64_sat (now_ts - oldest)"
    using assms unfolding fetch_token_safety_def
    by (auto simp: Let_def not_less split: sum.split_asm option.split_asm if_split_asm prod.split_asm)
  note m = oldest_of_min [OF age_walk_oldest [OF w, symmetric]]
  show ?thesis
    using i w c s m by (intro exI conjI) (auto split: option.split)
qed

definition sample_mint_info :: mint_account_info where
  "sample_mint_info = \<lparr>ma_mint_authority = None, ma_freeze_authority = None, ma_supply = 1000,
     ma_decimals = 6, ma_is_initialized = True\<rparr>"

definition sample_entry_at :: "int \<Rightarrow> jval signature_entry" where
  "sample_entry_at t = \<lparr>sn_signature = ''s'', sn_slot = 0, sn_block_time = Some t, sn_err = None,
     sn_confirmation_status = None\<rparr>"

theorem token_age_is_proven_witness:
  "\<exists>s. fetch_token_safety (Inr (Some sample_mint_info))
      (Inr [\<lparr>la_address = ''a'', la_amount = 400, la_decimals = 6\<rparr>])
      (\<lambda>_. Inr [sample_entry_at 900, sample_entry_at 100]) 500 1000 0 = Inr (Some s)
    \<and> token_age_secs s = 900 \<and> holder_top10_pct s = 40"
proof -
  let ?pages = "\<lambda>_. Inr [sample_entry_at 900, sample_entry_at 100]"
  have walk: "age_walk max_age_pages ?pages 500 None None = Inr (Some 100, False)"
    by (simp add: max_age_pages_def eval_nat_numeral oldest_of_def older_def sample_entry_at_def
        reached_def)
  have run: "\<exists>s. fetch_token_safety (Inr (Some sample_mint_info))
      (Inr [\<lparr>la_address = ''a'', la_amount = 400, la_decimals = 6\<rparr>]) ?pages 500 1000 0
      = Inr (Some s) \<and> holder_top10_pct s = 40"
    using walk
    by (simp add: fetch_token_safety_def sample_mint_info_def i64_sat_def holder_top10_def
        dec_of_word_def)
  then obtain s where s: "fetch_token_safety (Inr (Some sample_mint_info))
      (Inr [\<lparr>la_address = ''a'', la_amount = 400, la_decimals = 6\<rparr>]) ?pages 500 1000 0
      = Inr (Some s)" "holder_top10_pct s = 40" by blast
  from token_age_is_proven [OF s(1)] walk have "token_age_secs s = i64_sat (1000 - 100)"
    by (auto simp: i64_sat_def)
  with s show ?thesis by (auto simp: i64_sat_def)
qed

end
