(* ===== verification/Runtime_Session.thy ===== *)
theory Runtime_Session
  imports Runtime_Entry Token_Data
begin

text \<open>
  \<open>src/runtime.rs\<close>, the trading session: its start, the tick with its interlocks, the exits, the
  manual exit of every position and the state kept over a restart. What a tick meets is gathered in
  \<open>tick_env\<close>: the clock, the answers of the chain and the price service, the candidates that the
  feed and the wallet monitor deliver, the executor, which knows the quotes registered before, the
  fresh UUIDs and the faults of the database. A tick reads the clock once.
\<close>

section \<open>Environment\<close>

record 'v tick_env =
  te_now :: datetime
  te_live :: bool
  te_owner :: "string option"
  te_reader :: "'v chain_reader"
  te_sol_price :: "string + decimal option"
  te_reconcile_due :: bool                     \<comment> \<open>the reconcile interval has elapsed\<close>
  te_feed :: "candidate list"                  \<comment> \<open>what the collector reads from the feed\<close>
  te_wallets :: "(string + candidate list) option"   \<comment> \<open>the wallet monitor, when there is one\<close>
  te_exec :: "quote list \<Rightarrow> string \<Rightarrow> exec_env"
  te_faults :: "string \<Rightarrow> faults"               \<comment> \<open>by mint\<close>
  te_order_faults :: "order_record \<Rightarrow> faults"
  te_exit_ids :: "string \<Rightarrow> string"
  te_entry_ids :: "string \<Rightarrow> string \<times> string \<times> string"
  te_emergency_fault :: bool
  te_kill_fault :: "string option"
  te_incomplete_fault :: "string option"
  te_liquidity_fault :: "string \<Rightarrow> bool"
  te_liquidity_write_fault :: "string \<Rightarrow> bool"
  te_invalidated_fault :: "string \<Rightarrow> bool"

section \<open>The first part of a tick\<close>

definition roll_day :: "ext \<Rightarrow> datetime \<Rightarrow> session \<Rightarrow> session" where
  "roll_day X now se =
    (if day_show X now \<noteq> se_day_key se
     then se\<lparr>se_day_key := day_show X now,
       se_risk := (se_risk se)\<lparr>re_state := (re_state (se_risk se))
         \<lparr>day_start_equity := equity (re_state (se_risk se)), trades_today := 0\<rparr>\<rparr>\<rparr>
     else se)"

definition day_rollover_check :: "ext \<Rightarrow> datetime \<Rightarrow> string \<Rightarrow> bool" where
  "day_rollover_check X now stored_day \<longleftrightarrow> stored_day \<noteq> day_show X now"

definition refresh_sol_price :: "ext \<Rightarrow> 'v tick_env \<Rightarrow> session \<Rightarrow> session" where
  "refresh_sol_price X te se =
    (if \<not> te_live te then se
     else if (case se_sol_price_fetched_at se of None \<Rightarrow> False
              | Some t \<Rightarrow> num_seconds X (te_now te - t) < 120) then se
     else (case te_sol_price te of
         Inr (Some price) \<Rightarrow>
           if price > 0
           then se\<lparr>se_sol_price_usd := Some price, se_sol_price_fetched_at := Some (te_now te)\<rparr>
           else se\<lparr>se_sol_price_usd := None\<rparr>
       | _ \<Rightarrow> se\<lparr>se_sol_price_usd := None\<rparr>))"

definition periodic_reconciliation :: "'v tick_env \<Rightarrow> config \<Rightarrow> store \<Rightarrow> store" where
  "periodic_reconciliation te c st =
    (if te_live te \<and> reconcile_interval_secs (runtime c) > 0 \<and> te_reconcile_due te
     then snd (reconcile_positions_onchain (te_reader te) (te_now te) (te_owner te) st)
     else st)"

definition emergency_now :: "'v tick_env \<Rightarrow> store \<Rightarrow> bool" where
  "emergency_now te st \<longleftrightarrow> te_emergency_fault te \<or> emergency_stop st \<noteq> Inr None"

definition trip :: "session \<Rightarrow> session" where
  "trip se = se\<lparr>se_risk := (se_risk se)\<lparr>re_kill_switch := force_trip (re_kill_switch (se_risk se))\<rparr>\<rparr>"

text \<open>\<open>kill_switch_reason()?\<close>.\<close>

definition read_kill_switch :: "'v tick_env \<Rightarrow> store \<Rightarrow> string + string option" where
  "read_kill_switch te st = (case te_kill_fault te of
      Some e \<Rightarrow> Inl e
    | None \<Rightarrow> (case kill_switch_reason st of
        Inl _ \<Rightarrow> Inl ''kill switch cannot be decoded''
      | Inr r \<Rightarrow> Inr r))"

section \<open>Candidates\<close>

definition nonempty_path :: "string option \<Rightarrow> string option" where
  "nonempty_path p = (case p of None \<Rightarrow> None | Some s \<Rightarrow> if s = [] then None else Some s)"

definition feed_path :: "config \<Rightarrow> string option" where
  "feed_path c = (case nonempty_path (replay_dataset_path (runtime c)) of
      Some s \<Rightarrow> Some s
    | None \<Rightarrow> if wm_enabled (wallet_monitor c) then None
             else nonempty_path (signal_feed_path (runtime c)))"

text \<open>The token amount of a registered quote: None inside is a failed conversion.\<close>

definition quote_raw :: "ext \<Rightarrow> decimal \<Rightarrow> decimal \<Rightarrow> decimal option" where
  "quote_raw X value_usd price = do {
     a \<leftarrow> dec_div X value_usd price;
     b \<leftarrow> dec_mul X a 1000000;
     d \<leftarrow> dec_mul X b 1000000000;
     dec_div X d 1000000
   }"

definition quote_tokens :: "ext \<Rightarrow> decimal \<Rightarrow> decimal \<Rightarrow> u64 option option" where
  "quote_tokens X value_usd price = do {
     raw \<leftarrow> quote_raw X value_usd price;
     Some (case parse_u64 (dec_show X raw) of
         None \<Rightarrow> None
       | Some n \<Rightarrow> if n > 0 then Some n else None)
   }"

definition parse_u32 :: "string \<Rightarrow> u32 option" where
  "parse_u32 s = (case parse_u64 s of
      None \<Rightarrow> None
    | Some n \<Rightarrow> if n < 2 ^ 32 then Some (ucast n) else None)"

definition candidate_quote :: "config \<Rightarrow> datetime \<Rightarrow> string \<Rightarrow> candidate \<Rightarrow> u64 \<Rightarrow> u32 \<Rightarrow> quote" where
  "candidate_quote c now source cand tokens impact =
     \<lparr>q_input_mint = base_mint (strategy c), q_output_mint = cd_mint cand,
      q_input_amount = cd_input_amount cand, q_output_amount = tokens,
      q_price_impact_bps = impact, q_route = source, q_observed_at = now\<rparr>"

text \<open>\<open>let _ = store.set_last_liquidity(..)\<close>.\<close>

definition note_liquidity :: "'v tick_env \<Rightarrow> string \<Rightarrow> decimal \<Rightarrow> store \<Rightarrow> store" where
  "note_liquidity te mint liq st =
     (if te_liquidity_write_fault te mint then st else set_last_liquidity mint liq (te_now te) st)"

text \<open>
  One candidate of the feed: the quote to register, if any. A zero price, a failed conversion and
  an impact that is no integer end the tick.
\<close>

definition ingest_feed_one ::
    "ext \<Rightarrow> 'v tick_env \<Rightarrow> config \<Rightarrow> candidate \<Rightarrow> (string + quote option) option" where
  "ingest_feed_one X te c cand = (case cfg_sol_price_usd (economics c) of
      None \<Rightarrow> Some (Inr None)
    | Some sol \<Rightarrow>
      if sol \<le> 0 then Some (Inr None)
      else if mk_price_usd (cd_market cand) > 0 then do {
        tokens \<leftarrow> quote_tokens X (cd_position_usd cand) (mk_price_usd (cd_market cand));
        Some (case tokens of
            None \<Rightarrow> Inl ''failed to compute token amount''
          | Some n \<Rightarrow>
            (case parse_u32 (dec_show X (avg_price_impact_bps (cm_input (cd_costs cand)))) of
               None \<Rightarrow> Inl ''failed to parse price_impact_bps''
             | Some impact \<Rightarrow> Inr (Some
                 (candidate_quote c (te_now te) ''replay'' cand n impact))))
      }
      else Some (Inl ''candidate has zero price_usd''))"

text \<open>One candidate of the wallet monitor; here only the token amount can end the tick.\<close>

definition ingest_wallet_one ::
    "ext \<Rightarrow> 'v tick_env \<Rightarrow> config \<Rightarrow> decimal option \<Rightarrow> candidate \<Rightarrow> (string + quote option) option"
  where
  "ingest_wallet_one X te c sol_price cand = (case sol_price of
      None \<Rightarrow> Some (Inr None)
    | Some sol \<Rightarrow>
      if sol \<le> 0 \<or> \<not> mk_price_usd (cd_market cand) > 0 then Some (Inr None)
      else do {
        tokens \<leftarrow> quote_tokens X (cd_position_usd cand) (mk_price_usd (cd_market cand));
        Some (case tokens of
            None \<Rightarrow> Inl ''failed to compute token amount''
          | Some n \<Rightarrow>
            (case parse_u32 (dec_show X (avg_price_impact_bps (cm_input (cd_costs cand)))) of
               None \<Rightarrow> Inr None
             | Some impact \<Rightarrow> Inr (Some
                 (candidate_quote c (te_now te) ''wallet_monitor'' cand n impact))))
      })"

fun ingest ::
    "(candidate \<Rightarrow> (string + quote option) option) \<Rightarrow> 'v tick_env \<Rightarrow> candidate list \<Rightarrow> quote list
     \<Rightarrow> store \<Rightarrow> ((string + quote list) \<times> store) option" where
  "ingest one te [] qs st = Some (Inr qs, st)"
| "ingest one te (cand # cands) qs st =
    (let st' = note_liquidity te (cd_mint cand) (mk_liquidity_usd (cd_market cand)) st in
     case one cand of
       None \<Rightarrow> None
     | Some (Inl e) \<Rightarrow> Some (Inl e, st')
     | Some (Inr None) \<Rightarrow> ingest one te cands qs st'
     | Some (Inr (Some q)) \<Rightarrow> ingest one te cands (qs @ [q]) st')"

definition add_candidates :: "candidate list \<Rightarrow> session \<Rightarrow> session" where
  "add_candidates cands se =
     se\<lparr>se_candidates := fold (\<lambda>cd m. AList.update (cd_mint cd) cd m) cands (se_candidates se)\<rparr>"

definition ingest_feed ::
    "ext \<Rightarrow> 'v tick_env \<Rightarrow> config \<Rightarrow> session \<Rightarrow> store
     \<Rightarrow> ((string + quote list) \<times> session \<times> store) option" where
  "ingest_feed X te c se st =
    (if feed_path c = None then Some (Inr [], se, st)
     else case ingest (ingest_feed_one X te c) te (te_feed te) [] st of
       None \<Rightarrow> None
     | Some (Inl e, st') \<Rightarrow> Some (Inl e, se, st')
     | Some (Inr qs, st') \<Rightarrow> Some (Inr qs, add_candidates (te_feed te) se, st'))"

definition ingest_wallets ::
    "ext \<Rightarrow> 'v tick_env \<Rightarrow> config \<Rightarrow> quote list \<Rightarrow> session \<Rightarrow> store
     \<Rightarrow> ((string + quote list) \<times> session \<times> store) option" where
  "ingest_wallets X te c qs se st = (case te_wallets te of
      None \<Rightarrow> Some (Inr qs, se, st)
    | Some (Inl _) \<Rightarrow> Some (Inr qs, se, st)
    | Some (Inr cands) \<Rightarrow>
      (case ingest (ingest_wallet_one X te c (se_sol_price_usd se)) te cands qs st of
         None \<Rightarrow> None
       | Some (Inl e, st') \<Rightarrow> Some (Inl e, se, st')
       | Some (Inr qs', st') \<Rightarrow> Some (Inr qs', add_candidates cands se, st')))"

section \<open>Exits\<close>

text \<open>\<open>chrono::Duration::seconds\<close> panics beyond its range.\<close>

definition duration_seconds :: "int \<Rightarrow> duration option" where
  "duration_seconds n = (if \<bar>n\<bar> \<le> 9223372036854775 then Some (secs n) else None)"

text \<open>The persisted liquidity, unless it is stale or cannot be read.\<close>

definition persisted_liquidity ::
    "bool \<Rightarrow> config \<Rightarrow> datetime \<Rightarrow> store \<Rightarrow> string \<Rightarrow> decimal option option" where
  "persisted_liquidity fault c now st mint =
    (if fault then Some None
     else case last_liquidity st mint of
       Inr (Some (liq, t)) \<Rightarrow>
         if max_liquidity_age_secs (runtime c) > 0 then do {
           limit \<leftarrow> duration_seconds (sint (max_liquidity_age_secs (runtime c)));
           Some (if now - t > limit then None else Some liq)
         }
         else Some (Some liq)
     | _ \<Rightarrow> Some None)"

definition signal_invalidated :: "bool \<Rightarrow> store \<Rightarrow> string \<Rightarrow> bool" where
  "signal_invalidated fault st sid =
     (if fault then True
      else case is_signal_invalidated st sid of Inl _ \<Rightarrow> True | Inr b \<Rightarrow> b)"

text \<open>The mark of a position from a sell quote, which also refreshes the stored liquidity.\<close>

definition derive_mark ::
    "ext \<Rightarrow> 'v tick_env \<Rightarrow> exec_env \<Rightarrow> config \<Rightarrow> session \<Rightarrow> string \<Rightarrow> u64 \<Rightarrow> u8 \<Rightarrow> u8 \<Rightarrow> decimal \<Rightarrow> store
     \<Rightarrow> (decimal option \<times> store) option" where
  "derive_mark X te E c se mint remaining base_dec token_dec base_price st =
    (case Option.bind (position_of (se_portfolio se) mint) p_base_mint of
       None \<Rightarrow> Some (None, st)
     | Some base \<Rightarrow>
       (case xe_quote E mint base remaining (slippage_bps (execution c)) of
          Inl _ \<Rightarrow> Some (None, st)
        | Inr q \<Rightarrow> do {
            m \<leftarrow> mark_price_from_quote X (q_output_amount q) base_dec base_price remaining token_dec;
            case m of
              None \<Rightarrow> Some (None, st)
            | Some mark \<Rightarrow> do {
                v \<leftarrow> dec_mul X mark (dec_of_word remaining);
                u \<leftarrow> pow10_u64 X token_dec;
                probe \<leftarrow> dec_div X v (dec_of_word u);
                refreshed \<leftarrow> estimate_liquidity_usd X probe (q_price_impact_bps q);
                Some (Some mark, note_liquidity te mint refreshed st)
              }
          }))"

definition attempt_exit ::
    "ext \<Rightarrow> exec_env \<Rightarrow> (string option \<Rightarrow> string) \<Rightarrow> faults \<Rightarrow> config \<Rightarrow> datetime \<Rightarrow> string \<Rightarrow> string
     \<Rightarrow> u64 \<Rightarrow> string \<Rightarrow> session \<Rightarrow> store \<Rightarrow> (session \<times> store) option" where
  "attempt_exit X E dbg ft c now uuid mint remaining reason se st =
    (case authorize_exit (se_risk se) remaining of
       Inl _ \<Rightarrow> Some (se, st)
     | Inr _ \<Rightarrow>
       (case execute_exit_order X E dbg ft c now uuid mint reason st (se_portfolio se) of
          None \<Rightarrow> None
        | Some (res, st', pf) \<Rightarrow>
          (let se' = se\<lparr>se_portfolio := pf\<rparr> in
           case res of
             ExitConfirmed f \<Rightarrow> do {
               let exposure = (case Option.bind (position_of pf mint) p_entry_cost_usd of
                   None \<Rightarrow> 0 | Some cost \<Rightarrow> cost);
               re \<leftarrow> register_exit X (se_risk se') exposure;
               let re1 = record_execution_success re;
               Some (se'\<lparr>se_risk := if f_output_amount f = 0
                   then snd (record_execution_failure re1) else re1\<rparr>, st')
             }
           | ExitFailed _ \<Rightarrow> Some (note_failure se' st')
           | ExitUnknown \<Rightarrow> Some (se', st')
           | ExitSkipped _ \<Rightarrow> Some (se', st'))))"

text \<open>What follows a mark: the portfolio takes it, the exit rules decide and the exit is tried.\<close>

definition exit_if_due ::
    "ext \<Rightarrow> 'v tick_env \<Rightarrow> exec_env \<Rightarrow> (string option \<Rightarrow> string) \<Rightarrow> config \<Rightarrow> string \<Rightarrow> position \<Rightarrow> u64
     \<Rightarrow> decimal option \<Rightarrow> bool \<Rightarrow> decimal \<Rightarrow> session \<Rightarrow> store
     \<Rightarrow> ((string + unit) \<times> session \<times> store) option" where
  "exit_if_due X te E dbg c mint p remaining liquidity invalidated mark se st =
    (case mark_to_market X (se_portfolio se) mint mark of
       None \<Rightarrow> None
     | Some (Inl e, pf) \<Rightarrow> Some (Inl e, se\<lparr>se_portfolio := pf\<rparr>, st)
     | Some (Inr _, pf) \<Rightarrow>
    (case exit_reason X p mark liquidity (min_liquidity_usd (risk c)) invalidated (te_now te)
         (strategy c) of
       None \<Rightarrow> None
     | Some None \<Rightarrow> Some (Inr (), se\<lparr>se_portfolio := pf\<rparr>, st)
     | Some (Some k) \<Rightarrow>
    (case attempt_exit X E dbg (te_faults te mint) c (te_now te) (te_exit_ids te mint) mint remaining
         (as_str k) (se\<lparr>se_portfolio := pf\<rparr>) st of
       None \<Rightarrow> None
     | Some (se', st') \<Rightarrow> Some (Inr (), se', st'))))"

definition process_exit ::
    "ext \<Rightarrow> 'v tick_env \<Rightarrow> exec_env \<Rightarrow> (string option \<Rightarrow> string) \<Rightarrow> config \<Rightarrow> string \<Rightarrow> session \<Rightarrow> store
     \<Rightarrow> ((string + unit) \<times> session \<times> store) option" where
  "process_exit X te E dbg c mint se st =
    (case position_of (se_portfolio se) mint of
       None \<Rightarrow> Some (Inr (), se, st)
     | Some p \<Rightarrow>
    (case trusted_remaining p of
       None \<Rightarrow> Some (Inr (), se, st)
     | Some remaining \<Rightarrow>
    (case te_incomplete_fault te of
       Some e \<Rightarrow> Some (Inl e, se, st)
     | None \<Rightarrow>
       if list_ex (same_exit p) (incomplete_orders st) then Some (Inr (), se, st)
       else case (p_base_entry_price_usd p, p_base_mint_decimals p, p_token_decimals p) of
         (Some base_price, Some base_dec, Some token_dec) \<Rightarrow> do {
           liquidity \<leftarrow> (case map_of (se_candidates se) mint of
               Some cd \<Rightarrow> Some (Some (mk_liquidity_usd (cd_market cd)))
             | None \<Rightarrow> persisted_liquidity (te_liquidity_fault te mint) c (te_now te) st mint);
           let invalidated = (p_signal_id p \<noteq> []
             \<and> signal_invalidated (te_invalidated_fault te mint) st (p_signal_id p));
           (m, st1) \<leftarrow> derive_mark X te E c se mint remaining base_dec token_dec base_price st;
           case m of
             None \<Rightarrow> Some (Inr (), se, st1)
           | Some mark \<Rightarrow>
               exit_if_due X te E dbg c mint p remaining liquidity invalidated mark se st1
         }
       | _ \<Rightarrow> Some (Inr (), se, st))))"

fun process_exit_list ::
    "ext \<Rightarrow> 'v tick_env \<Rightarrow> (string \<Rightarrow> exec_env) \<Rightarrow> (string option \<Rightarrow> string) \<Rightarrow> config \<Rightarrow> string list
     \<Rightarrow> session \<Rightarrow> store \<Rightarrow> ((string + unit) \<times> session \<times> store) option" where
  "process_exit_list X te E dbg c [] se st = Some (Inr (), se, st)"
| "process_exit_list X te E dbg c (mint # mints) se st =
    (case process_exit X te (E mint) dbg c mint se st of
       None \<Rightarrow> None
     | Some (Inl e, se', st') \<Rightarrow> Some (Inl e, se', st')
     | Some (Inr _, se', st') \<Rightarrow> process_exit_list X te E dbg c mints se' st')"

definition process_exits ::
    "ext \<Rightarrow> 'v tick_env \<Rightarrow> (string \<Rightarrow> exec_env) \<Rightarrow> (string option \<Rightarrow> string) \<Rightarrow> config
     \<Rightarrow> session \<Rightarrow> store \<Rightarrow> ((string + unit) \<times> session \<times> store) option" where
  "process_exits X te E dbg c se st =
     process_exit_list X te E dbg c (map p_mint (open_positions_of (se_portfolio se))) se st"

section \<open>The tick\<close>

definition mark_equity ::
    "ext \<Rightarrow> 'v tick_env \<Rightarrow> config \<Rightarrow> session \<Rightarrow> store
     \<Rightarrow> ((string + unit) \<times> session \<times> store) option" where
  "mark_equity X te c se st = do {
     let opens = open_positions_of (se_portfolio se);
     eq \<leftarrow> equity_usd X (starting_capital_usd (risk c)) opens;
     re \<leftarrow> observe_equity X (se_risk se) eq;
     exposure \<leftarrow> aggregate_exposure X opens;
     let re' = set_total_exposure (set_open_positions re (of_nat (length opens))) exposure;
     if tripped (re_kill_switch re)
     then (case read_kill_switch te st of
         Inl e \<Rightarrow> Some (Inl e, se\<lparr>se_risk := re\<rparr>, st)
       | Inr None \<Rightarrow>
           Some (Inr (), se\<lparr>se_risk := re'\<rparr>, latch_kill_switch ''drawdown limit reached'' st)
       | Inr (Some _) \<Rightarrow> Some (Inr (), se\<lparr>se_risk := re'\<rparr>, st))
     else Some (Inr (), se\<lparr>se_risk := re'\<rparr>, st)
   }"

definition no_source :: "config \<Rightarrow> bool" where
  "no_source c \<longleftrightarrow> \<not> wm_enabled (wallet_monitor c)
     \<and> nonempty_path (signal_feed_path (runtime c)) = None
     \<and> \<not> col_enabled (collector (runtime c))"

text \<open>The interlocks in front of the entries.\<close>

definition enter_if_clear ::
    "ext \<Rightarrow> 'v tick_env \<Rightarrow> quote list \<Rightarrow> (string option \<Rightarrow> string) \<Rightarrow> config \<Rightarrow> session \<Rightarrow> store
     \<Rightarrow> ((string + unit) \<times> session \<times> store) option" where
  "enter_if_clear X te qs dbg c se st =
    (if se_emergency_active se then Some (Inr (), se, st)
     else if tripped (re_kill_switch (se_risk se)) then Some (Inr (), se, st)
     else case te_incomplete_fault te of
       Some e \<Rightarrow> Some (Inl e, se, st)
     | None \<Rightarrow>
       if entries_blocked_by st then Some (Inr (), se, st)
       else if no_source c then Some (Inr (), se, st)
       else process_entries X (te_exec te qs) dbg (te_faults te) c (te_now te) (te_entry_ids te)
              (se_candidates se) se st)"

definition trade_tick ::
    "ext \<Rightarrow> 'v tick_env \<Rightarrow> quote list \<Rightarrow> (string option \<Rightarrow> string) \<Rightarrow> config \<Rightarrow> session \<Rightarrow> store
     \<Rightarrow> ((string + unit) \<times> session \<times> store) option" where
  "trade_tick X te qs dbg c se st =
    (case mark_equity X te c se st of
       None \<Rightarrow> None
     | Some (Inl e, se', st') \<Rightarrow> Some (Inl e, se', st')
     | Some (Inr _, se1, st1) \<Rightarrow>
    (case process_exits X te (te_exec te qs) dbg c se1 st1 of
       None \<Rightarrow> None
     | Some (Inl e, se', st') \<Rightarrow> Some (Inl e, se', st')
     | Some (Inr _, se2, st2) \<Rightarrow> enter_if_clear X te qs dbg c se2 st2))"

text \<open>What happens before the marks: reconciliation, interlocks and candidates.\<close>

definition prepare_tick ::
    "ext \<Rightarrow> 'v tick_env \<Rightarrow> config \<Rightarrow> session \<Rightarrow> store
     \<Rightarrow> ((string + quote list) \<times> session \<times> store) option" where
  "prepare_tick X te c se st =
    (let se1 = refresh_sol_price X te (roll_day X (te_now te) se);
         st1 = periodic_reconciliation te c st
     in case reconcile_pending_orders X (te_reader te) (te_order_faults te) c (te_now te)
               (te_live te) (te_owner te) st1 of
       None \<Rightarrow> None
     | Some (_, st2) \<Rightarrow>
       (let se2 = se1\<lparr>se_emergency_active := emergency_now te st2\<rparr> in
        case read_kill_switch te st2 of
          Inl e \<Rightarrow> Some (Inl e, se2, st2)
        | Inr r \<Rightarrow>
          (let se3 = (if r = None then se2 else trip se2)\<lparr>se_candidates := []\<rparr> in
           case ingest_feed X te c se3 st2 of
             None \<Rightarrow> None
           | Some (Inl e, se', st') \<Rightarrow> Some (Inl e, se', st')
           | Some (Inr qs, se4, st4) \<Rightarrow> ingest_wallets X te c qs se4 st4)))"

definition tick ::
    "ext \<Rightarrow> 'v tick_env \<Rightarrow> (string option \<Rightarrow> string) \<Rightarrow> config \<Rightarrow> session \<Rightarrow> store
     \<Rightarrow> ((string + unit) \<times> session \<times> store) option" where
  "tick X te dbg c se st =
    (case prepare_tick X te c se st of
       None \<Rightarrow> None
     | Some (Inl e, se', st') \<Rightarrow> Some (Inl e, se', st')
     | Some (Inr qs, se', st') \<Rightarrow> trade_tick X te qs dbg c se' st')"

section \<open>Start, restart and the loop\<close>

definition day_key :: string where "day_key = ''runtime:day''"
definition day_start_key :: string where "day_start_key = ''runtime:day_start_equity''"
definition trades_key :: string where "trades_key = ''runtime:trades_today''"

definition persist_session_state :: "session \<Rightarrow> store \<Rightarrow> store" where
  "persist_session_state se st =
     kv_put trades_key (VCount (trades_today (re_state (se_risk se))))
      (kv_put day_start_key (VDecimal (day_start_equity (re_state (se_risk se))))
        (kv_put day_key (VText (se_day_key se)) st))"

text \<open>\<open>store.get\<close>: a value of another shape is the error of decoding it.\<close>

definition get_text :: "store \<Rightarrow> string \<Rightarrow> storage_error + string option" where
  "get_text st k = (case kv_look st k of None \<Rightarrow> Inr None | Some (VText s) \<Rightarrow> Inr (Some s)
     | Some _ \<Rightarrow> Inl Json)"

definition get_decimal :: "store \<Rightarrow> string \<Rightarrow> storage_error + decimal option" where
  "get_decimal st k = (case kv_look st k of None \<Rightarrow> Inr None | Some (VDecimal d) \<Rightarrow> Inr (Some d)
     | Some _ \<Rightarrow> Inl Json)"

definition get_count :: "store \<Rightarrow> string \<Rightarrow> storage_error + u32 option" where
  "get_count st k = (case kv_look st k of None \<Rightarrow> Inr None | Some (VCount n) \<Rightarrow> Inr (Some n)
     | Some _ \<Rightarrow> Inl Json)"

definition fresh_session :: "config \<Rightarrow> portfolio \<Rightarrow> risk_engine \<Rightarrow> session" where
  "fresh_session c pf re =
     \<lparr>se_portfolio = pf, se_risk = re, se_candidates = [], se_seen_signals = {}, se_day_key = [],
      se_emergency_active = False, se_sol_price_usd = None, se_sol_price_fetched_at = None\<rparr>"

definition restore_day ::
    "string option \<Rightarrow> decimal option \<Rightarrow> u32 option \<Rightarrow> session \<Rightarrow> session" where
  "restore_day day start trades se =
    (if day = Some (se_day_key se)
     then se\<lparr>se_risk := (se_risk se)\<lparr>re_state := (re_state (se_risk se))
       \<lparr>day_start_equity := (case start of None \<Rightarrow> day_start_equity (re_state (se_risk se))
                             | Some d \<Rightarrow> d),
        trades_today := (case trades of None \<Rightarrow> 0 | Some n \<Rightarrow> n)\<rparr>\<rparr>\<rparr>
     else se)"

text \<open>\<open>run_session\<close> up to the loop; the startup reconciliation follows it.\<close>

definition start_session ::
    "ext \<Rightarrow> config \<Rightarrow> datetime \<Rightarrow> store \<Rightarrow> (storage_error + session) option" where
  "start_session X c now st =
    (case load_portfolio st of
       Inl e \<Rightarrow> Some (Inl e)
     | Inr pf \<Rightarrow> do {
         let opens = open_positions_of pf;
         exposure \<leftarrow> aggregate_exposure X opens;
         let re = set_total_exposure
               (set_open_positions (new_engine (risk c) (starting_capital_usd (risk c)))
                 (of_nat (length opens))) exposure;
         let se = (fresh_session c pf re)\<lparr>se_day_key := day_show X now\<rparr>;
         Some (case (get_text st day_key, get_decimal st day_start_key, get_count st trades_key) of
             (Inr day, Inr start, Inr trades) \<Rightarrow>
               (let se1 = restore_day day start trades se in
                case kill_switch_reason st of
                  Inl e \<Rightarrow> Inl e
                | Inr r \<Rightarrow>
                  (let se2 = (if r = None then se1 else trip se1) in
                   case emergency_stop st of
                     Inl e \<Rightarrow> Inl e
                   | Inr em \<Rightarrow> Inr (se2\<lparr>se_emergency_active := (em \<noteq> None)\<rparr>)))
           | _ \<Rightarrow> Inl Json)
       })"

text \<open>The loop over the ticks until the shutdown: a failed tick is logged, its state kept.\<close>

fun session_loop ::
    "ext \<Rightarrow> (string option \<Rightarrow> string) \<Rightarrow> config \<Rightarrow> 'v tick_env list \<Rightarrow> session \<Rightarrow> store
     \<Rightarrow> (session \<times> store) option" where
  "session_loop X dbg c [] se st = Some (se, st)"
| "session_loop X dbg c (te # tes) se st =
    (case tick X te dbg c se st of
       None \<Rightarrow> None
     | Some (_, se', st') \<Rightarrow>
         session_loop X dbg c tes se' (persist_session_state se' st'))"

section \<open>The manual exit\<close>

definition chain_quantity :: "config \<Rightarrow> (string \<times> u64 \<times> u8) list \<Rightarrow> position \<Rightarrow> string \<Rightarrow> u64 option"
  where
  "chain_quantity c bs p mint = (case trusted_remaining p of
      Some r \<Rightarrow> Some r
    | None \<Rightarrow> (case balance_of bs mint of
        None \<Rightarrow> None
      | Some (amount, _) \<Rightarrow> if amount = 0 then None else Some amount))"

fun exit_all_loop ::
    "ext \<Rightarrow> (string \<Rightarrow> exec_env) \<Rightarrow> (string option \<Rightarrow> string) \<Rightarrow> (string \<Rightarrow> faults) \<Rightarrow> config \<Rightarrow> datetime
     \<Rightarrow> (string \<Rightarrow> string) \<Rightarrow> string option \<Rightarrow> (string \<times> u64 \<times> u8) list \<Rightarrow> string list \<Rightarrow> nat
     \<Rightarrow> session \<Rightarrow> store \<Rightarrow> ((string + nat) \<times> store) option" where
  "exit_all_loop X E dbg ft c now uuids fault bs [] n se st = Some (Inr n, st)"
| "exit_all_loop X E dbg ft c now uuids fault bs (mint # mints) n se st =
    (case position_of (se_portfolio se) mint of
       None \<Rightarrow> exit_all_loop X E dbg ft c now uuids fault bs mints n se st
     | Some p \<Rightarrow>
    (case chain_quantity c bs p mint of
       None \<Rightarrow> exit_all_loop X E dbg ft c now uuids fault bs mints n se st
     | Some remaining \<Rightarrow>
       if p_base_entry_price_usd p = None \<or> p_base_mint_decimals p = None
          \<or> p_token_decimals p = None \<or> p_base_mint p = None
       then exit_all_loop X E dbg ft c now uuids fault bs mints n se st
       else case fault of
         Some e \<Rightarrow> Some (Inl e, st)
       | None \<Rightarrow>
         if list_ex (same_exit p) (incomplete_orders st)
         then exit_all_loop X E dbg ft c now uuids fault bs mints n se st
         else
           (case attempt_exit X (E mint) dbg (ft mint) c now (uuids mint) mint remaining
                   ''manual_exit'' se st of
              None \<Rightarrow> None
            | Some (se', st') \<Rightarrow>
                exit_all_loop X E dbg ft c now uuids fault bs mints (n + 1) se' st')))"

definition exit_all_positions ::
    "ext \<Rightarrow> (string \<Rightarrow> exec_env) \<Rightarrow> (string option \<Rightarrow> string) \<Rightarrow> (string \<Rightarrow> faults) \<Rightarrow> config \<Rightarrow> datetime
     \<Rightarrow> (string \<Rightarrow> string) \<Rightarrow> string option \<Rightarrow> bool \<Rightarrow> string option \<Rightarrow> 'v chain_reader \<Rightarrow> store
     \<Rightarrow> ((string + nat) \<times> store) option" where
  "exit_all_positions X E dbg ft c now uuids fault live owner C st =
    (case load_portfolio st of
       Inl _ \<Rightarrow> Some (Inl ''positions cannot be decoded'', st)
     | Inr pf \<Rightarrow>
       (let bs = (if live then (case owner of None \<Rightarrow> []
                    | Some own \<Rightarrow> (case cr_balances C own of Inl _ \<Rightarrow> [] | Inr bs \<Rightarrow> bs)) else []);
            se = (fresh_session c pf (new_engine (risk c) (starting_capital_usd (risk c))))
                   \<lparr>se_day_key := day_show X now, se_emergency_active := True\<rparr>
        in exit_all_loop X E dbg ft c now uuids fault bs (map p_mint (open_positions_of pf)) 0 se st))"

section \<open>Frames\<close>

text \<open>What is neither a position nor touched by reconciliation: the flags of the operator and the bot.\<close>

definition same_flags :: "store \<Rightarrow> store \<Rightarrow> bool" where
  "same_flags st st' \<longleftrightarrow> (\<forall>k. \<not> key_like ''position:'' k \<longrightarrow> kv_look st' k = kv_look st k)"

lemma same_flags_refl [simp]: "same_flags st st"
  by (simp add: same_flags_def)

lemma same_flags_trans: "same_flags a b \<Longrightarrow> same_flags b c \<Longrightarrow> same_flags a c"
  by (simp add: same_flags_def)

lemma same_flags_kv: "kv st' = kv st \<Longrightarrow> same_flags st st'"
  by (simp add: same_flags_def kv_look_def)

lemma same_flags_save [simp]: "same_flags st (save_position p st1) = same_flags st st1"
proof -
  have "\<not> key_like ''position:'' k \<Longrightarrow> kv_look (save_position p st1) k = kv_look st1 k" for k
    using key_like_position [of "p_mint p"] by (auto simp: save_position_def kvs.look_put)
  then show ?thesis by (simp add: same_flags_def)
qed

lemma same_flags_update [simp]:
  "same_flags st (update_order ord now st1) = same_flags st st1"
  "same_flags st (save_fill f st1) = same_flags st st1"
  by (simp_all add: same_flags_def kv_look_def)

lemma same_flags_reads:
  assumes "same_flags st st'"
  shows "emergency_stop st' = emergency_stop st" and "kill_switch_reason st' = kill_switch_reason st"
  using assms
  by (simp_all add: same_flags_def emergency_stop_def kill_switch_reason_def emergency_key_def
      kill_switch_key_def key_like_def)

lemma account_body_flags:
  "account_body X now ord p td bd sig f st = Some (Inr st') \<Longrightarrow> same_flags st st'"
  by (auto simp: account_body_def Let_def split: sum.split_asm option.split_asm)

lemma settle_flags:
  assumes "settle_reconciled X ft now st ord p td bd sig f = Some (res, st')"
  shows "same_flags st st'"
proof -
  obtain r b where tx: "in_transaction ft st b = Some (r, st')"
    and b: "b = Some (audit_only_body now ord sig f st) \<or> b = account_body X now ord p td bd sig f st"
    using assms by (auto simp: settle_reconciled_def split: if_split_asm)
  from in_transaction_cases [OF tx] consider "b = Some (Inr st')" | "st' = st" by blast
  then show ?thesis
  proof cases
    case 1
    with b have "audit_only_body now ord sig f st = Inr st'
        \<or> account_body X now ord p td bd sig f st = Some (Inr st')" by auto
    then show ?thesis using account_body_flags audit_only_kv same_flags_kv by blast
  qed simp
qed

lemma record_flags:
  assumes "record_reconciled_fill X ft c now st ord outcome sig = Some (res, st')"
  shows "same_flags st st'"
proof -
  have "st' = st \<or> (\<exists>p td bd f. settle_reconciled X ft now st ord p td bd sig f = Some (res, st'))"
    using assms unfolding record_reconciled_fill_def
    by (auto split: option.split_asm sum.split_asm prod.split_asm)
  then show ?thesis using settle_flags by auto
qed

lemma reconcile_order_flags:
  assumes "reconcile_order X C ft c now live owner ord st = Some (res, st')"
  shows "same_flags st st'"
proof -
  have e: "same_flags st st'" if "end_order ft now ord msg target v st = (r, st')" for msg target v r
    using end_order_Inr(1) [OF that] by (rule same_flags_kv)
  have live: "same_flags st st'" if l: "reconcile_live X C ft c now owner ord sig st = Some (res, st')"
    for sig
  proof -
    consider (no_route) "st' = st" | (route) own inp out expected where "owner = Some own"
      "o_input_mint ord = Some inp" "o_output_mint ord = Some out"
      "o_input_amount_atomic ord = Some expected"
      using l by (auto simp: reconcile_live_def split: option.split_asm)
    then show ?thesis
    proof cases
      case route
      let ?a = "reconcile_signature (cr_json C) (cr_status C) (cr_transaction C) sig inp out own expected"
      show ?thesis
      proof (cases ?a)
        case (Inl f)
        then show ?thesis using l route e
          by (cases f) (auto simp: reconcile_live_def)
      next
        case (Inr oo)
        show ?thesis
        proof (cases oo)
          case None
          then show ?thesis using l route Inr e by (auto simp: reconcile_live_def split: if_split_asm)
        next
          case (Some outcome)
          then obtain r where "record_reconciled_fill X ft c now st ord outcome sig = Some (r, st')"
            using l route Inr by (auto simp: reconcile_live_def)
          then show ?thesis by (rule record_flags)
        qed
      qed
    qed simp
  qed
  show ?thesis
  proof (cases "o_signature ord")
    case None
    then show ?thesis using assms e
      by (cases live) (auto simp: reconcile_order_def split: if_split_asm)
  next
    case (Some sig)
    then show ?thesis using assms e live by (cases live) (auto simp: reconcile_order_def)
  qed
qed

lemma reconcile_orders_frame:
  "reconcile_orders X C fts c now live owner ords s st = Some (res, st') \<Longrightarrow>
     map row_id (order_rows st') = map row_id (order_rows st) \<and> same_flags st st'"
proof (induction ords arbitrary: s st)
  case (Cons ord ords)
  then obtain v st1 where o: "reconcile_order X C (fts ord) c now live owner ord st = Some (v, st1)"
    by (auto split: option.split_asm)
  then have r: "st' = st1 \<or> (\<exists>s'. reconcile_orders X C fts c now live owner ords s' st1 = Some (res, st'))"
    using Cons.prems by (auto split: sum.split_asm)
  note one = reconcile_order_ids [OF o] reconcile_order_flags [OF o]
  then show ?case using r Cons.IH same_flags_trans by auto
qed simp

lemma reconcile_positions_frame:
  "order_rows (snd (reconcile_positions_onchain C now owner st)) = order_rows st"
  "same_flags st (snd (reconcile_positions_onchain C now owner st))"
proof -
  have one: "order_rows (snd (snd (reconcile_position bs now m x))) = order_rows (snd (snd x))
      \<and> (same_flags st0 (snd (snd x)) \<longrightarrow> same_flags st0 (snd (snd (reconcile_position bs now m x))))"
    for bs m x st0
    by (cases x) (auto simp: reconcile_position_def save_if_held_def
        split: option.split sum.split prod.split bool.split)
  have all: "order_rows (snd (snd (fold (reconcile_position bs now) ms x))) = order_rows (snd (snd x))
      \<and> (same_flags st0 (snd (snd x)) \<longrightarrow>
           same_flags st0 (snd (snd (fold (reconcile_position bs now) ms x))))" for bs ms x st0
    by (induction ms arbitrary: x) (simp_all add: one)
  have "order_rows (snd (reconcile_positions_onchain C now owner st)) = order_rows st
      \<and> same_flags st (snd (reconcile_positions_onchain C now owner st))"
  proof -
    have f: "order_rows st' = order_rows st \<and> same_flags st st'"
      if "fold (reconcile_position bs now) ms (e, pf, st) = (a, b, st')" for bs ms e pf a b st'
      using all [of bs ms "(e, pf, st)" st] that by simp
    show ?thesis unfolding reconcile_positions_onchain_def
      by (auto split: option.split sum.split prod.split dest: f)
  qed
  then show "order_rows (snd (reconcile_positions_onchain C now owner st)) = order_rows st"
    "same_flags st (snd (reconcile_positions_onchain C now owner st))" by blast+
qed

text \<open>Every order is stored under its own id.\<close>

definition ids_ok :: "store \<Rightarrow> bool" where
  "ids_ok st \<longleftrightarrow> distinct (map row_id (order_rows st))
     \<and> (\<forall>r\<in>set (order_rows st). row_id r = o_id (row_payload r))"

lemma ids_ok_rows: "order_rows st' = order_rows st \<Longrightarrow> ids_ok st' = ids_ok st"
  by (simp add: ids_ok_def)

text \<open>New orders are appended, all of one kind, and under their own ids.\<close>

definition adds :: "order_kind \<Rightarrow> store \<Rightarrow> store \<Rightarrow> bool" where
  "adds k st st' \<longleftrightarrow> (\<exists>rows. order_rows st' = order_rows st @ rows
     \<and> list_all (\<lambda>r. o_kind (row_payload r) = k) rows) \<and> (ids_ok st \<longrightarrow> ids_ok st')"

lemma adds_refl: "order_rows st' = order_rows st \<Longrightarrow> adds k st st'"
  by (simp add: adds_def ids_ok_def)

lemma adds_trans: "adds k a b \<Longrightarrow> adds k b c \<Longrightarrow> adds k a c"
  by (fastforce simp: adds_def)

lemma adds_rows_same: "order_rows st1 = order_rows st \<Longrightarrow> adds k st1 st' \<Longrightarrow> adds k st st'"
  by (simp add: adds_def ids_ok_def)

lemma adds_one: "tail_order (order_rows st) st' ord now \<Longrightarrow> o_kind ord = k \<Longrightarrow> adds k st st'"
  by (auto simp: adds_def tail_order_def row_of_def ids_ok_def)

lemma note_liquidity_rows [simp]: "order_rows (note_liquidity te m l st) = order_rows st"
  by (simp add: note_liquidity_def set_last_liquidity_def kv_put_def)

lemma ingest_rows:
  "ingest one te cands qs st = Some (res, st') \<Longrightarrow> order_rows st' = order_rows st"
  by (induction cands arbitrary: qs st)
    (auto simp: Let_def split: option.split_asm sum.split_asm)

lemma add_candidates_frame [simp]:
  "se_risk (add_candidates cands se) = se_risk se"
  "se_emergency_active (add_candidates cands se) = se_emergency_active se"
  "se_portfolio (add_candidates cands se) = se_portfolio se"
  by (simp_all add: add_candidates_def)

lemma ingest_feed_frame:
  assumes "ingest_feed X te c se st = Some (res, se', st')"
  shows "order_rows st' = order_rows st \<and> se_risk se' = se_risk se
    \<and> se_emergency_active se' = se_emergency_active se"
  using assms
  by (auto simp: ingest_feed_def ingest_rows split: if_split_asm option.split_asm sum.split_asm)

lemma ingest_wallets_frame:
  assumes "ingest_wallets X te c qs se st = Some (res, se', st')"
  shows "order_rows st' = order_rows st \<and> se_risk se' = se_risk se
    \<and> se_emergency_active se' = se_emergency_active se"
  using assms
  by (auto simp: ingest_wallets_def ingest_rows split: if_split_asm option.split_asm sum.split_asm)

lemma trip_simps [simp]:
  "tripped (re_kill_switch (se_risk (trip se)))" "se_emergency_active (trip se) = se_emergency_active se"
  by (simp_all add: trip_def force_trip_def)

lemma early_frame [simp]:
  "re_kill_switch (se_risk (refresh_sol_price X te se)) = re_kill_switch (se_risk se)"
  "re_kill_switch (se_risk (roll_day X now se)) = re_kill_switch (se_risk se)"
  by (simp_all add: refresh_sol_price_def roll_day_def split: option.split sum.split)

text \<open>What the first part of a tick guarantees: the interlocks have been read from the store.\<close>

lemma prepare_tick_frame:
  assumes "prepare_tick X te c se st = Some (res, se', st')"
  shows "map row_id (order_rows st') = map row_id (order_rows st)"
    and "tripped (re_kill_switch (se_risk se)) \<Longrightarrow> tripped (re_kill_switch (se_risk se'))"
    and "res = Inr qs \<Longrightarrow> se_emergency_active se' = emergency_now te st"
    and "res = Inr qs \<Longrightarrow> te_kill_fault te = None \<and> (\<exists>r. kill_switch_reason st = Inr r
      \<and> (r \<noteq> None \<longrightarrow> tripped (re_kill_switch (se_risk se'))))"
proof -
  define st1 where "st1 = periodic_reconciliation te c st"
  define se1 where "se1 = refresh_sol_price X te (roll_day X (te_now te) se)"
  obtain pr st2 where pr: "reconcile_pending_orders X (te_reader te) (te_order_faults te) c (te_now te)
      (te_live te) (te_owner te) st1 = Some (pr, st2)"
    using assms by (auto simp: prepare_tick_def Let_def st1_def split: option.split_asm)
  define se2 where "se2 = se1\<lparr>se_emergency_active := emergency_now te st2\<rparr>"
  have f1: "order_rows st1 = order_rows st" "same_flags st st1"
    by (simp_all add: st1_def periodic_reconciliation_def reconcile_positions_frame)
  have f2: "map row_id (order_rows st2) = map row_id (order_rows st1)" "same_flags st1 st2"
    using reconcile_orders_frame [OF pr [unfolded reconcile_pending_orders_def]] by simp_all
  have flags: "same_flags st st2" using f1(2) f2(2) same_flags_trans by blast
  note reads = same_flags_reads [OF flags]
  have em: "emergency_now te st2 = emergency_now te st" using reads by (simp add: emergency_now_def)
  have ids: "map row_id (order_rows st2) = map row_id (order_rows st)" using f1 f2 by simp
  have t1: "re_kill_switch (se_risk se2) = re_kill_switch (se_risk se)" by (simp add: se2_def se1_def)
  have run: "(case read_kill_switch te st2 of
          Inl e \<Rightarrow> Some (Inl e, se2, st2)
        | Inr r \<Rightarrow>
          (let se3 = (if r = None then se2 else trip se2)\<lparr>se_candidates := []\<rparr> in
           case ingest_feed X te c se3 st2 of
             None \<Rightarrow> None
           | Some (Inl e, se', st') \<Rightarrow> Some (Inl e, se', st')
           | Some (Inr qs, se4, st4) \<Rightarrow> ingest_wallets X te c qs se4 st4)) = Some (res, se', st')"
    using assms pr unfolding st1_def se2_def se1_def by (simp add: prepare_tick_def Let_def)
  have all: "map row_id (order_rows st') = map row_id (order_rows st)
    \<and> (tripped (re_kill_switch (se_risk se)) \<longrightarrow> tripped (re_kill_switch (se_risk se')))
    \<and> (\<forall>qs. res = Inr qs \<longrightarrow> se_emergency_active se' = emergency_now te st
        \<and> te_kill_fault te = None \<and> (\<exists>r. kill_switch_reason st = Inr r
          \<and> (r \<noteq> None \<longrightarrow> tripped (re_kill_switch (se_risk se')))))"
  proof (cases "read_kill_switch te st2")
    case (Inl e)
    then show ?thesis using run ids t1 by auto
  next
    case (Inr r)
    define se3 where "se3 = (if r = None then se2 else trip se2)\<lparr>se_candidates := []\<rparr>"
    obtain fr se4 st4 where fd: "ingest_feed X te c se3 st2 = Some (fr, se4, st4)"
      and rest: "case fr of Inl e \<Rightarrow> res = Inl e \<and> se' = se4 \<and> st' = st4
        | Inr qs \<Rightarrow> ingest_wallets X te c qs se4 st4 = Some (res, se', st')"
      using run Inr by (auto simp: se3_def Let_def split: option.split_asm sum.split_asm)
    have k: "te_kill_fault te = None" "kill_switch_reason st = Inr r"
      using Inr reads by (auto simp: read_kill_switch_def split: option.split_asm sum.split_asm)
    have s3: "se_emergency_active se3 = emergency_now te st"
      "re_kill_switch (se_risk se3) = (if r = None then re_kill_switch (se_risk se)
         else force_trip (re_kill_switch (se_risk se2)))"
      using em t1 by (simp_all add: se3_def se2_def trip_def)
    have s': "order_rows st' = order_rows st2" "se_risk se' = se_risk se3"
      "se_emergency_active se' = se_emergency_active se3"
      using ingest_feed_frame [OF fd] rest
      by (auto dest!: ingest_wallets_frame split: sum.split_asm)
    show ?thesis using s' s3 k ids by (auto simp: force_trip_def)
  qed
  then show "map row_id (order_rows st') = map row_id (order_rows st)"
    and "tripped (re_kill_switch (se_risk se)) \<Longrightarrow> tripped (re_kill_switch (se_risk se'))"
    and "res = Inr qs \<Longrightarrow> se_emergency_active se' = emergency_now te st"
    and "res = Inr qs \<Longrightarrow> te_kill_fault te = None \<and> (\<exists>r. kill_switch_reason st = Inr r
      \<and> (r \<noteq> None \<longrightarrow> tripped (re_kill_switch (se_risk se'))))"
    by blast+
qed

text \<open>
  The switch stays tripped, and the interlocks and the number of trades are kept, through the marks
  and the exits.
\<close>

definition latched :: "session \<Rightarrow> session \<Rightarrow> bool" where
  "latched se se' \<longleftrightarrow> (tripped (re_kill_switch (se_risk se)) \<longrightarrow> tripped (re_kill_switch (se_risk se')))
     \<and> se_emergency_active se' = se_emergency_active se
     \<and> trades_today (re_state (se_risk se')) = trades_today (re_state (se_risk se))
     \<and> re_config (se_risk se') = re_config (se_risk se)"

lemma latched_refl [simp]: "latched se se"
  by (simp add: latched_def)

lemma latched_trans: "latched a b \<Longrightarrow> latched b c \<Longrightarrow> latched a c"
  by (simp add: latched_def)

lemma latched_portfolio [simp]: "latched se (se'\<lparr>se_portfolio := pf\<rparr>) = latched se se'"
  by (simp add: latched_def)

lemma apply_ops_trades:
  "apply_ops X e ops = Some e' \<Longrightarrow> \<forall>v. RegisterTrade v \<notin> set ops \<Longrightarrow>
     trades_today (re_state e') = trades_today (re_state e)"
proof (induction ops arbitrary: e)
  case (Cons op ops)
  then obtain e1 where e1: "apply_op X e op = Some e1" "apply_ops X e1 ops = Some e'"
    by (auto simp: panic_simps)
  have "trades_today (re_state e1) = trades_today (re_state e)"
    using e1(1) Cons.prems(2)
    by (cases op) (auto simp: observe_equity_def set_total_exposure_def set_open_positions_def
        register_exit_def record_execution_success_def record_execution_failure_def
        apply_loss_cooldown_def panic_simps Let_def)
  then show ?case using Cons.IH [OF e1(2)] Cons.prems(2) by simp
qed simp

lemma latched_risk:
  "apply_ops X (se_risk se) ops = Some re \<Longrightarrow> \<forall>v. RegisterTrade v \<notin> set ops \<Longrightarrow>
     latched se (se\<lparr>se_risk := re\<rparr>)"
  using apply_ops_keeps_trip [of X "se_risk se" ops re] apply_ops_trades [of X "se_risk se" ops re]
    apply_ops_config [of X "se_risk se" ops re]
  by (simp add: latched_def)

lemma note_failure_latched:
  assumes "note_failure se st = (se', st')"
  shows "latched se se'"
proof -
  have "se' = se\<lparr>se_risk := snd (record_execution_failure (se_risk se))\<rparr>"
    using assms by (auto simp: note_failure_def split: prod.split_asm)
  then show ?thesis using latched_risk [where X = exact_ext and ops = "[Failure]"] by simp
qed

lemma mark_equity_frame:
  assumes "mark_equity X te c se st = Some (res, se', st')"
  shows "order_rows st' = order_rows st" and "latched se se'"
proof -
  let ?opens = "open_positions_of (se_portfolio se)"
  obtain eq re exposure where o: "observe_equity X (se_risk se) eq = Some re"
    and eq: "equity_usd X (starting_capital_usd (risk c)) ?opens = Some eq"
    and ex: "aggregate_exposure X ?opens = Some exposure"
    using assms by (auto simp: mark_equity_def Let_def bind_Some_iff)
  let ?re = "set_total_exposure (set_open_positions re (of_nat (length ?opens))) exposure"
  have out: "(st' = st \<or> st' = latch_kill_switch ''drawdown limit reached'' st)
      \<and> (se' = se\<lparr>se_risk := re\<rparr> \<or> se' = se\<lparr>se_risk := ?re\<rparr>)"
  proof (cases "tripped (re_kill_switch re)")
    case True
    show ?thesis
    proof (cases "read_kill_switch te st")
      case (Inr r)
      then show ?thesis using assms o eq ex True by (cases r) (simp_all add: mark_equity_def Let_def)
    qed (use assms o eq ex True in \<open>simp add: mark_equity_def Let_def\<close>)
  qed (use assms o eq ex in \<open>simp add: mark_equity_def Let_def\<close>)
  then show "order_rows st' = order_rows st" by auto
  have "apply_ops X (se_risk se) [ObserveEquity eq] = Some re"
    "apply_ops X (se_risk se) [ObserveEquity eq, SetOpen (of_nat (length ?opens)),
      SetExposure exposure] = Some ?re"
    using o by simp_all
  from this [THEN latched_risk] show "latched se se'" using out by auto
qed

lemma execute_exit_order_adds:
  assumes "execute_exit_order X E dbg ft c now uuid mint reason st pf = Some (res, st', pf')"
  shows "adds Exit st st'"
  using execute_exit_order_cases [OF assms]
proof (elim disjE exE conjE)
  fix stored xp mark
  assume "exit_ran X ft now reason (xp_position xp) (order_rows st)
    (exit_order X uuid now mint reason xp mark) st pf res st' pf'"
  then obtain ord' where "tail_order (order_rows st) st' ord' now"
    "same_order (exit_order X uuid now mint reason xp mark) ord'"
    unfolding exit_ran_def by blast
  then show ?thesis by (auto simp: same_order_def exit_order_def intro: adds_one)
qed (simp_all add: adds_refl)

lemma adds_same_rows: "adds k st st1 \<Longrightarrow> order_rows st2 = order_rows st1 \<Longrightarrow> adds k st st2"
  by (simp add: adds_def ids_ok_def)

lemma attempt_exit_frame:
  assumes "attempt_exit X E dbg ft c now uuid mint remaining reason se st = Some (se', st')"
  shows "adds Exit st st'" and "latched se se'"
proof -
  have "adds Exit st st' \<and> latched se se'"
  proof (cases "authorize_exit (se_risk se) remaining")
    case (Inl e)
    then show ?thesis using assms by (simp add: attempt_exit_def adds_refl)
  next
    case (Inr u)
    obtain res st1 pf where ex: "execute_exit_order X E dbg ft c now uuid mint reason st
        (se_portfolio se) = Some (res, st1, pf)"
      using assms Inr by (auto simp: attempt_exit_def split: option.split_asm)
    note a = execute_exit_order_adds [OF ex]
    let ?se = "se\<lparr>se_portfolio := pf\<rparr>"
    show ?thesis
    proof (cases res)
      case (ExitConfirmed f)
      then obtain exposure re where re: "register_exit X (se_risk se) exposure = Some re"
        and se': "se' = ?se\<lparr>se_risk := if f_output_amount f = 0
                   then snd (record_execution_failure (record_execution_success re))
                   else record_execution_success re\<rparr>" and st': "st' = st1"
        using assms Inr ex by (auto simp: attempt_exit_def Let_def bind_Some_iff)
      have "apply_ops X (se_risk ?se) [RegisterExit exposure, Success]
          = Some (record_execution_success re)"
        "apply_ops X (se_risk ?se) [RegisterExit exposure, Success, Failure]
          = Some (snd (record_execution_failure (record_execution_success re)))"
        using re by simp_all
      from this [THEN latched_risk] have "latched ?se se'" using se' by simp
      then show ?thesis using a st' by (simp add: latched_def)
    next
      case (ExitFailed m)
      then have nf: "note_failure ?se st1 = (se', st')" using assms Inr ex
        by (simp add: attempt_exit_def)
      show ?thesis using note_failure_latched [OF nf] adds_same_rows [OF a note_failure_frame(2) [OF nf]]
        by (simp add: latched_def)
    qed (use assms Inr ex a in \<open>auto simp: attempt_exit_def\<close>)
  qed
  then show "adds Exit st st'" "latched se se'" by simp_all
qed

lemma derive_mark_rows:
  "derive_mark X te E c se mint r bd td bp st = Some (m, st') \<Longrightarrow> order_rows st' = order_rows st"
  by (auto simp: derive_mark_def bind_Some_iff split: option.split_asm sum.split_asm)

lemma exit_if_due_frame:
  assumes "exit_if_due X te E dbg c mint p remaining liquidity invalidated mark se st
    = Some (res, se', st')"
  shows "adds Exit st st' \<and> latched se se'"
proof -
  have "attempt_exit X E dbg ft c now uuid mint remaining reason (se\<lparr>se_portfolio := pf\<rparr>) st
      = Some (se', st') \<Longrightarrow> adds Exit st st' \<and> latched se se'" for ft now uuid reason pf
    using attempt_exit_frame [of X E dbg ft c now uuid mint remaining reason
        "se\<lparr>se_portfolio := pf\<rparr>" st se' st'] by (simp add: latched_def)
  then show ?thesis using assms
    by (auto simp: exit_if_due_def adds_refl
        split: option.split_asm prod.split_asm sum.split_asm)
qed

lemma process_exit_cases:
  assumes "process_exit X te E dbg c mint se st = Some (res, se', st')"
  obtains (stays) "se' = se" "order_rows st' = order_rows st"
    | (due) p remaining liquidity invalidated mark st1 where "order_rows st1 = order_rows st"
      "exit_if_due X te E dbg c mint p remaining liquidity invalidated mark se st1
        = Some (res, se', st')"
  using assms unfolding process_exit_def
  by (auto simp: bind_Some_iff Let_def
      split: option.split_asm if_split_asm prod.split_asm) (blast dest: derive_mark_rows)+

lemma process_exit_frame:
  assumes "process_exit X te E dbg c mint se st = Some (res, se', st')"
  shows "adds Exit st st' \<and> latched se se'"
  using assms
proof (cases rule: process_exit_cases)
  case due
  from exit_if_due_frame [OF due(2)] due(1) show ?thesis by (simp add: adds_def ids_ok_def)
qed (simp add: adds_refl)

lemma process_exit_list_frame:
  "process_exit_list X te E dbg c mints se st = Some (res, se', st')
     \<Longrightarrow> adds Exit st st' \<and> latched se se'"
proof (induction mints arbitrary: se st)
  case (Cons mint mints)
  obtain r se1 st1 where one: "process_exit X te (E mint) dbg c mint se st = Some (r, se1, st1)"
    and rest: "se' = se1 \<and> st' = st1
      \<or> process_exit_list X te E dbg c mints se1 st1 = Some (res, se', st')"
    using Cons.prems by (auto split: option.split_asm sum.split_asm)
  from rest Cons.IH [of se1 st1] process_exit_frame [OF one] show ?case
    using adds_trans latched_trans by blast
qed (simp add: adds_refl)

lemma process_entry_adds:
  assumes "process_entry X E dbg ft c now ids mint cand se st = Some (res, se', st')"
  shows "adds Entry st st'"
proof -
  obtain su pid oid where ids: "ids = (su, pid, oid)" by (cases ids)
  have "st' = st \<or> (\<exists>order td bd sg. o_kind order = Entry
      \<and> entry_ran X c now mint td bd pid sg (cd_costs cand) order (order_rows st) se st se' st')"
    using process_entry_cases [OF assms [unfolded ids]] by (fastforce simp: entry_order_def)
  then show ?thesis
    by (auto simp: entry_ran_def same_order_def adds_refl intro: adds_one)
qed

lemma process_entries_adds:
  "process_entries X E dbg ft c now uuids cands se st = Some (res, se', st') \<Longrightarrow> adds Entry st st'"
proof (induction cands arbitrary: se st)
  case (Cons a cands)
  obtain mint cand where a: "a = (mint, cand)" by (cases a)
  obtain r se1 st1 where one: "process_entry X (E mint) dbg (ft mint) c now (uuids mint) mint cand se st
      = Some (r, se1, st1)"
    and rest: "st' = st1 \<or> process_entries X E dbg ft c now uuids cands se1 st1 = Some (res, se', st')"
    using Cons.prems a by (auto split: option.split_asm sum.split_asm)
  from rest Cons.IH [of se1 st1] process_entry_adds [OF one] show ?case
    using adds_trans by blast
qed (simp add: adds_refl)

lemma enter_if_clear_cases:
  assumes "enter_if_clear X te qs dbg c se st = Some (res, se', st')"
  shows "(st' = st \<and> se' = se) \<or> (adds Entry st st' \<and> \<not> se_emergency_active se
    \<and> \<not> tripped (re_kill_switch (se_risk se)) \<and> \<not> entries_blocked_by st \<and> \<not> no_source c)"
  using assms process_entries_adds
  by (fastforce simp: enter_if_clear_def split: if_split_asm option.split_asm)

text \<open>Saving the state of the session is one of the operations of the store.\<close>

lemma persist_steps: "store_steps st (persist_session_state se st)"
  unfolding persist_session_state_def
  by (rule store_steps.more [OF store_steps.more [OF store_steps_one [OF store_step.setting]
        store_step.setting] store_step.setting])
    (simp_all add: key_like_def day_key_def day_start_key_def trades_key_def)

text \<open>A tick: what it does before the entries, and under which conditions entries follow.\<close>

lemma trade_tick_cases:
  assumes "trade_tick X te qs dbg c se st = Some (res, se', st')"
  obtains (halted) "adds Exit st st'" "latched se se'"
    | (entered) st2 where "adds Exit st st2" "adds Entry st2 st'" "\<not> se_emergency_active se"
        "\<not> tripped (re_kill_switch (se_risk se))" "\<not> entries_blocked_by st2" "\<not> no_source c"
proof -
  obtain r1 se1 st1 where m: "mark_equity X te c se st = Some (r1, se1, st1)"
    and rest1: "se' = se1 \<and> st' = st1 \<or> (\<exists>r2 se2 st2.
        process_exits X te (te_exec te qs) dbg c se1 st1 = Some (r2, se2, st2)
        \<and> (se' = se2 \<and> st' = st2 \<or> enter_if_clear X te qs dbg c se2 st2 = Some (res, se', st')))"
    using assms by (auto simp: trade_tick_def split: option.split_asm sum.split_asm)
  note f1 = mark_equity_frame [OF m]
  have a1: "adds Exit st st1" using f1(1) by (rule adds_refl)
  from rest1 show thesis
  proof (elim disjE exE conjE)
    fix r2 se2 st2
    assume x: "process_exits X te (te_exec te qs) dbg c se1 st1 = Some (r2, se2, st2)"
    note f2 = process_exit_list_frame [OF x [unfolded process_exits_def]]
    have a: "adds Exit st st2" "latched se se2"
      using a1 f1(2) f2 adds_trans latched_trans by blast+
    {
      assume "se' = se2" "st' = st2"
      with a show thesis by (intro halted) simp_all
    next
      assume "enter_if_clear X te qs dbg c se2 st2 = Some (res, se', st')"
      from enter_if_clear_cases [OF this] show thesis
      proof (elim disjE conjE)
        assume "st' = st2" "se' = se2"
        with a show thesis by (intro halted) simp_all
      next
        assume "adds Entry st2 st'" "\<not> se_emergency_active se2"
          "\<not> tripped (re_kill_switch (se_risk se2))" "\<not> entries_blocked_by st2" "\<not> no_source c"
        with a show thesis by (intro entered [of st2]) (auto simp: latched_def)
      qed
    }
  qed (use a1 f1(2) halted in simp)
qed

lemma tick_cases:
  assumes "tick X te dbg c se st = Some (res, se', st')"
  obtains (halted) "list_all (\<lambda>r. row_id r \<in> row_id ` set (order_rows st)
        \<or> o_kind (row_payload r) = Exit) (order_rows st')"
      "tripped (re_kill_switch (se_risk se)) \<longrightarrow> tripped (re_kill_switch (se_risk se'))"
    | (entered) st2 old sold new where "order_rows st' = order_rows st2 @ new"
      "order_rows st2 = old @ sold" "map row_id old = map row_id (order_rows st)"
      "list_all (\<lambda>r. o_kind (row_payload r) = Exit) sold"
      "list_all (\<lambda>r. o_kind (row_payload r) = Entry) new"
      "\<not> entries_blocked_by st2" "\<not> no_source c"
      "\<not> te_emergency_fault te" "emergency_stop st = Inr None" "te_kill_fault te = None"
      "kill_switch_reason st = Inr None" "\<not> tripped (re_kill_switch (se_risk se))"
proof -
  obtain r1 se1 st1 where p: "prepare_tick X te c se st = Some (r1, se1, st1)"
    and rest: "se' = se1 \<and> st' = st1
      \<or> (\<exists>qs. r1 = Inr qs \<and> trade_tick X te qs dbg c se1 st1 = Some (res, se', st'))"
    using assms by (auto simp: tick_def split: option.split_asm sum.split_asm)
  note f = prepare_tick_frame [OF p]
  have ids: "row_id ` set (order_rows st1) = row_id ` set (order_rows st)"
    using f(1) by (metis list.set_map)
  have old: "adds Exit st1 x \<Longrightarrow> list_all (\<lambda>r. row_id r \<in> row_id ` set (order_rows st)
        \<or> o_kind (row_payload r) = Exit) (order_rows x)" for x
    using ids unfolding adds_def list_all_iff by (metis (no_types, lifting) Un_iff imageI set_append)
  from rest show thesis
  proof (elim disjE exE conjE)
    assume "se' = se1" "st' = st1"
    with f(2) old [of st1] show thesis by (intro halted) (simp_all add: adds_refl)
  next
    fix qs assume r1: "r1 = Inr qs" and t: "trade_tick X te qs dbg c se1 st1 = Some (res, se', st')"
    from t show thesis
    proof (cases rule: trade_tick_cases)
      case halted
      then show thesis using f(2) old that(1) by (auto simp: latched_def)
    next
      case (entered st2)
      from entered(2) obtain new where new: "order_rows st' = order_rows st2 @ new"
        "list_all (\<lambda>r. o_kind (row_payload r) = Entry) new" by (auto simp: adds_def)
      from entered(1) obtain sold where "order_rows st2 = order_rows st1 @ sold"
        "list_all (\<lambda>r. o_kind (row_payload r) = Exit) sold" by (auto simp: adds_def)
      with new f(1) show thesis
        using that(2) [of st2 new "order_rows st1" sold] entered f(2) f(3) [OF r1] f(4) [OF r1]
        by (auto simp: emergency_now_def)
    qed
  qed
qed

section \<open>Properties\<close>

text \<open>
  C7: A tick that writes a new entry order has read
  every interlock as clear: at its start the store held neither an emergency stop nor a kill-switch
  reason and both could be read, the kill switch of the session was untripped, and a source of
  signals is configured. The rows it leaves are those in front of the entries, \<open>pre\<close>, followed by
  the new entry orders alone, and no row of \<open>pre\<close> has an open outcome: \<open>pre\<close> holds every order there
  was when the tick began, in the state the reconciliation of the tick gave it, and the sales of the
  tick itself.
\<close>

theorem tick_enters_only_when_clear:
  assumes "tick X te dbg c se st = Some (res, se', st')"
    and "r \<in> set (order_rows st')" and "row_id r \<notin> row_id ` set (order_rows st)"
    and "o_kind (row_payload r) = Entry"
  shows "\<not> te_emergency_fault te \<and> emergency_stop st = Inr None
    \<and> te_kill_fault te = None \<and> kill_switch_reason st = Inr None
    \<and> \<not> tripped (re_kill_switch (se_risk se)) \<and> \<not> no_source c
    \<and> (\<exists>pre old sold new. order_rows st' = pre @ new \<and> r \<in> set new
         \<and> list_all (\<lambda>r. o_kind (row_payload r) = Entry) new
         \<and> pre = old @ sold \<and> map row_id old = map row_id (order_rows st)
         \<and> list_all (\<lambda>r. o_kind (row_payload r) = Exit) sold
         \<and> list_all (\<lambda>r. \<not> incomplete_row r) pre)"
  using assms(1)
proof (cases rule: tick_cases)
  case halted
  then show ?thesis using assms(2-4) by (auto simp: list_all_iff)
next
  case (entered st2 old sold new)
  have ids: "row_id ` set old = row_id ` set (order_rows st)"
    using entered(3) by (metis list.set_map)
  have "r \<notin> set old" using assms(3) unfolding ids [symmetric] by blast
  moreover have "r \<notin> set sold" using entered(4) assms(4) by (auto simp: list_all_iff)
  ultimately have "r \<in> set new" using entered(1,2) assms(2) by simp
  moreover have "list_all (\<lambda>r. \<not> incomplete_row r) (order_rows st2)"
    using entered(6) by (auto simp: entries_blocked_by_def incomplete_orders_def filter_empty_conv
        list_all_iff)
  ultimately show ?thesis using entered by blast
qed

section \<open>The trades of a day\<close>

text \<open>What one step of the session does to the number of trades: it stays within the limit.\<close>

definition keeps_bound :: "session \<Rightarrow> session \<Rightarrow> bool" where
  "keeps_bound se se' \<longleftrightarrow> re_config (se_risk se') = re_config (se_risk se)
     \<and> (trades_today (re_state (se_risk se)) \<le> max_trades_per_day (re_config (se_risk se)) \<longrightarrow>
        trades_today (re_state (se_risk se')) \<le> max_trades_per_day (re_config (se_risk se)))"

lemma keeps_bound_refl [simp]: "keeps_bound se se"
  by (simp add: keeps_bound_def)

lemma keeps_bound_trans: "keeps_bound a b \<Longrightarrow> keeps_bound b c \<Longrightarrow> keeps_bound a c"
  by (simp add: keeps_bound_def)

lemma keeps_bound_latched: "latched se se' \<Longrightarrow> keeps_bound se se'"
  by (simp add: latched_def keeps_bound_def)

lemma keeps_bound_risk: "se_risk se' = se_risk se \<Longrightarrow> keeps_bound se se'"
  by (simp add: keeps_bound_def)

lemma prepare_tick_bound:
  assumes "prepare_tick X te c se st = Some (res, se', st')"
  shows "keeps_bound se se'"
proof -
  define st1 where "st1 = periodic_reconciliation te c st"
  define se1 where "se1 = refresh_sol_price X te (roll_day X (te_now te) se)"
  obtain pr st2 where pr: "reconcile_pending_orders X (te_reader te) (te_order_faults te) c (te_now te)
      (te_live te) (te_owner te) st1 = Some (pr, st2)"
    using assms by (auto simp: prepare_tick_def Let_def st1_def split: option.split_asm)
  define se2 where "se2 = se1\<lparr>se_emergency_active := emergency_now te st2\<rparr>"
  have b2: "keeps_bound se se2"
    by (auto simp: keeps_bound_def se2_def se1_def refresh_sol_price_def roll_day_def
        split: option.split sum.split)
  have "se_risk se' = se_risk se2 \<or> se_risk se' = se_risk (trip se2)"
  proof (cases "read_kill_switch te st2")
    case (Inl e)
    then show ?thesis using assms pr unfolding st1_def se2_def se1_def
      by (auto simp: prepare_tick_def Let_def)
  next
    case (Inr r)
    define se3 where "se3 = (if r = None then se2 else trip se2)\<lparr>se_candidates := []\<rparr>"
    obtain fr se4 st4 where fd: "ingest_feed X te c se3 st2 = Some (fr, se4, st4)"
      and rest: "case fr of Inl e \<Rightarrow> res = Inl e \<and> se' = se4 \<and> st' = st4
        | Inr qs \<Rightarrow> ingest_wallets X te c qs se4 st4 = Some (res, se', st')"
      using assms pr Inr unfolding st1_def se3_def se2_def se1_def
      by (auto simp: prepare_tick_def Let_def split: option.split_asm sum.split_asm)
    have "se_risk se' = se_risk se3"
      using ingest_feed_frame [OF fd] rest
      by (auto dest!: ingest_wallets_frame split: sum.split_asm)
    then show ?thesis by (simp add: se3_def)
  qed
  then show ?thesis using b2 by (auto simp: keeps_bound_def trip_def)
qed

lemma enter_if_clear_bound:
  assumes "enter_if_clear X te qs dbg c se st = Some (res, se', st')"
  shows "keeps_bound se se'"
proof -
  have "se' = se \<or> process_entries X (te_exec te qs) dbg (te_faults te) c (te_now te)
      (te_entry_ids te) (se_candidates se) se st = Some (res, se', st')"
    using assms by (auto simp: enter_if_clear_def split: if_split_asm option.split_asm)
  then show ?thesis
    using process_entries_limits
    by (fastforce simp: keeps_bound_def nothing_booked_def within_limits_def same_counters_def)
qed

lemma tick_bound:
  assumes "tick X te dbg c se st = Some (res, se', st')"
  shows "keeps_bound se se'"
proof -
  obtain r1 se1 st1 where p: "prepare_tick X te c se st = Some (r1, se1, st1)"
    and rest: "se' = se1 \<or> (\<exists>qs. r1 = Inr qs \<and> trade_tick X te qs dbg c se1 st1 = Some (res, se', st'))"
    using assms by (auto simp: tick_def split: option.split_asm sum.split_asm)
  have "keeps_bound se1 se'" if t: "trade_tick X te qs dbg c se1 st1 = Some (res, se', st')" for qs
  proof -
    obtain r2 se2 st2 where m: "mark_equity X te c se1 st1 = Some (r2, se2, st2)"
      and rest2: "se' = se2 \<or> (\<exists>r3 se3 st3.
        process_exits X te (te_exec te qs) dbg c se2 st2 = Some (r3, se3, st3)
        \<and> (se' = se3 \<or> enter_if_clear X te qs dbg c se3 st3 = Some (res, se', st')))"
      using t by (auto simp: trade_tick_def split: option.split_asm sum.split_asm)
    have "keeps_bound se2 se3"
      if "process_exits X te (te_exec te qs) dbg c se2 st2 = Some (r3, se3, st3)" for r3 se3 st3
      using process_exit_list_frame [OF that [unfolded process_exits_def]] keeps_bound_latched by blast
    then show ?thesis
      using keeps_bound_latched [OF mark_equity_frame(2) [OF m]] rest2 enter_if_clear_bound
        keeps_bound_trans by metis
  qed
  then show ?thesis using prepare_tick_bound [OF p] rest keeps_bound_trans by metis
qed

section \<open>Halted sessions, restarts and exits\<close>

lemma loop_stays_tripped:
  "session_loop X dbg c tes se st = Some (se', st') \<Longrightarrow> tripped (re_kill_switch (se_risk se))
     \<Longrightarrow> tripped (re_kill_switch (se_risk se'))"
proof (induction tes arbitrary: se st)
  case (Cons te tes)
  obtain res se1 st1 where t: "tick X te dbg c se st = Some (res, se1, st1)"
    and rest: "session_loop X dbg c tes se1 (persist_session_state se1 st1) = Some (se', st')"
    using Cons.prems(1) by (auto split: option.split_asm)
  from t have "tripped (re_kill_switch (se_risk se1))"
    by (cases rule: tick_cases) (use Cons.prems(2) in auto)
  with Cons.IH rest show ?case by blast
qed simp

text \<open>
  A halted session stays halted: once the kill
  switch of a session is tripped, then after any sequence of ticks, whatever they met, it is still
  tripped, and the next tick adds only exits to the orders.
\<close>

theorem halted_session_never_enters:
  assumes "session_loop X dbg c tes se0 st0 = Some (se, st)"
    and "tripped (re_kill_switch (se_risk se0))"
    and "tick X te dbg c se st = Some (res, se', st')"
  shows "tripped (re_kill_switch (se_risk se'))
    \<and> list_all (\<lambda>r. row_id r \<in> row_id ` set (order_rows st) \<or> o_kind (row_payload r) = Exit)
        (order_rows st')"
  using assms(3) loop_stays_tripped [OF assms(1,2)] by (cases rule: tick_cases) auto

text \<open>
  C10: What a restart restores. A session that starts on a
  store in which the previous session has saved its state has the kill switch tripped exactly when
  a reason is stored and is in emergency exactly when a stop is stored. On the same day it continues
  with the day's starting equity and the trades counted so far, so a restart gains no new trades; on
  another day both begin afresh.
\<close>

theorem restart_keeps_the_day:
  assumes "start_session X c now (persist_session_state old st) = Some (Inr se)"
  shows "(tripped (re_kill_switch (se_risk se)) \<longleftrightarrow> kill_switch_reason st \<noteq> Inr None)
    \<and> (se_emergency_active se \<longleftrightarrow> emergency_stop st \<noteq> Inr None)
    \<and> day_start_equity (re_state (se_risk se)) = (if day_show X now = se_day_key old
        then day_start_equity (re_state (se_risk old)) else starting_capital_usd (risk c))
    \<and> trades_today (re_state (se_risk se)) = (if day_show X now = se_day_key old
        then trades_today (re_state (se_risk old)) else 0)"
proof -
  let ?st = "persist_session_state old st"
  have keys: "get_text ?st day_key = Inr (Some (se_day_key old))"
    "get_decimal ?st day_start_key = Inr (Some (day_start_equity (re_state (se_risk old))))"
    "get_count ?st trades_key = Inr (Some (trades_today (re_state (se_risk old))))"
    by (simp_all add: persist_session_state_def get_text_def get_decimal_def get_count_def
        kvs.look_put day_key_def day_start_key_def trades_key_def)
  have flags: "kill_switch_reason ?st = kill_switch_reason st" "emergency_stop ?st = emergency_stop st"
    by (simp_all add: persist_session_state_def kill_switch_reason_def emergency_stop_def
        kvs.look_put day_key_def day_start_key_def trades_key_def kill_switch_key_def
        emergency_key_def)
  obtain pf where pf: "load_portfolio ?st = Inr pf"
    using assms by (auto simp: start_session_def split: sum.split_asm)
  obtain exposure where ex: "aggregate_exposure X (open_positions_of pf) = Some exposure"
    using assms pf by (auto simp: start_session_def Let_def bind_Some_iff)
  obtain r where r: "kill_switch_reason st = Inr r"
    using assms pf ex keys flags by (auto simp: start_session_def Let_def split: sum.split_asm)
  obtain em where em: "emergency_stop st = Inr em"
    using assms pf ex keys flags r by (auto simp: start_session_def Let_def split: sum.split_asm)
  have "se = (let se1 = restore_day (Some (se_day_key old))
            (Some (day_start_equity (re_state (se_risk old))))
            (Some (trades_today (re_state (se_risk old))))
            ((fresh_session c pf (set_total_exposure
               (set_open_positions (new_engine (risk c) (starting_capital_usd (risk c)))
                 (of_nat (length (open_positions_of pf)))) exposure))\<lparr>se_day_key := day_show X now\<rparr>)
          in (if r = None then se1 else trip se1)\<lparr>se_emergency_active := (em \<noteq> None)\<rparr>)"
    using assms pf ex keys flags r em by (simp add: start_session_def Let_def)
  note s = this
  show ?thesis unfolding s
    by (auto simp: r em Let_def restore_day_def fresh_session_def trip_def force_trip_def new_engine_def
        new_kill_switch_def set_total_exposure_def set_open_positions_def)
qed

text \<open>Sessions that agree on what the exits read, and outcomes that agree on all but the interlocks.\<close>

definition alike :: "session \<Rightarrow> session \<Rightarrow> bool" where
  "alike se se' \<longleftrightarrow> se_portfolio se' = se_portfolio se \<and> se_candidates se' = se_candidates se
     \<and> re_state (se_risk se') = re_state (se_risk se)
     \<and> consecutive_failures (se_risk se') = consecutive_failures (se_risk se)
     \<and> re_config (se_risk se') = re_config (se_risk se)"

definition alike_out ::
    "((string + unit) \<times> session \<times> store) option \<Rightarrow> ((string + unit) \<times> session \<times> store) option \<Rightarrow> bool"
  where
  "alike_out = rel_option (\<lambda>(r1, se1, st1) (r2, se2, st2). r1 = r2 \<and> alike se1 se2 \<and> st1 = st2)"

lemma alike_out_simps [simp]:
  "alike_out (Some (r1, se1, st1)) (Some (r2, se2, st2)) \<longleftrightarrow> r1 = r2 \<and> alike se1 se2 \<and> st1 = st2"
  "alike_out None y \<longleftrightarrow> y = None" "alike_out x None \<longleftrightarrow> x = None"
  by (auto simp: alike_out_def)

lemma alike_portfolio [simp]: "alike se se' \<Longrightarrow> alike (se\<lparr>se_portfolio := pf\<rparr>) (se'\<lparr>se_portfolio := pf\<rparr>)"
  by (simp add: alike_def)

lemma note_failure_alike:
  assumes "alike se1 se2" "note_failure se1 st = (s1, st1)" "note_failure se2 st = (s2, st2)"
  shows "alike s1 s2 \<and> st1 = st2"
  using assms
  by (auto simp: note_failure_def record_execution_failure_def alike_def Let_def split: if_split_asm)

lemma register_exit_alike:
  assumes "alike se1 se2"
  shows "rel_option (\<lambda>r1 r2. alike (se1\<lparr>se_risk := r1\<rparr>) (se2\<lparr>se_risk := r2\<rparr>))
    (register_exit X (se_risk se1) e) (register_exit X (se_risk se2) e)"
  using assms
  by (cases "dec_sub X (total_exposure (re_state (se_risk se1))) e")
    (auto simp: register_exit_def alike_def)

lemma booked_exit_alike:
  assumes "alike (se1\<lparr>se_risk := r1\<rparr>) (se2\<lparr>se_risk := r2\<rparr>)"
  shows "alike (se1\<lparr>se_risk := if z then snd (record_execution_failure (record_execution_success r1))
        else record_execution_success r1\<rparr>)
    (se2\<lparr>se_risk := if z then snd (record_execution_failure (record_execution_success r2))
        else record_execution_success r2\<rparr>)"
  using assms
  by (simp add: alike_def record_execution_failure_def record_execution_success_def Let_def)

lemma attempt_exit_alike:
  assumes "alike se1 se2"
  shows "alike_out
    (map_option (Pair (Inr ()))
      (attempt_exit X E dbg ft c now uuid mint remaining reason se1 st))
    (map_option (Pair (Inr ()))
      (attempt_exit X E dbg ft c now uuid mint remaining reason se2 st))"
proof (cases "remaining = 0")
  case True
  then show ?thesis using assms by (simp add: attempt_exit_def authorize_exit_def)
next
  case False
  have pf: "se_portfolio se2 = se_portfolio se1" using assms by (simp add: alike_def)
  note d = attempt_exit_def authorize_exit_def
  show ?thesis
  proof (cases "execute_exit_order X E dbg ft c now uuid mint reason st (se_portfolio se1)")
    case None
    then show ?thesis using False pf by (simp add: d)
  next
    case (Some a)
    obtain res st' pf' where a: "a = (res, st', pf')" by (cases a)
    have al: "alike (se1\<lparr>se_portfolio := pf'\<rparr>) (se2\<lparr>se_portfolio := pf'\<rparr>)" using assms by simp
    show ?thesis
    proof (cases res)
      case (ExitConfirmed f)
      let ?e = "case Option.bind (position_of pf' mint) p_entry_cost_usd of None \<Rightarrow> 0 | Some cost \<Rightarrow> cost"
      have "rel_option (\<lambda>r1 r2. alike (se1\<lparr>se_portfolio := pf', se_risk := r1\<rparr>)
          (se2\<lparr>se_portfolio := pf', se_risk := r2\<rparr>))
        (register_exit X (se_risk se1) ?e) (register_exit X (se_risk se2) ?e)"
        using register_exit_alike [OF al, of X ?e] by simp
      then show ?thesis
        using False pf Some a ExitConfirmed
        by (cases "register_exit X (se_risk se1) ?e"; cases "register_exit X (se_risk se2) ?e")
          (auto simp: d Let_def dest: booked_exit_alike [of _ _ _ _ "f_output_amount f = 0"]
            split del: if_split)
    next
      case (ExitFailed m)
      then show ?thesis using False pf Some a
          note_failure_alike [OF al, of st']
        by (cases "note_failure (se1\<lparr>se_portfolio := pf'\<rparr>) st'";
            cases "note_failure (se2\<lparr>se_portfolio := pf'\<rparr>) st'") (simp add: d Let_def)
    qed (use False pf Some a al in \<open>simp_all add: d Let_def\<close>)
  qed
qed

lemma exit_if_due_alike:
  assumes "alike se1 se2"
  shows "alike_out (exit_if_due X te E dbg c mint p remaining liquidity invalidated mark se1 st)
    (exit_if_due X te E dbg c mint p remaining liquidity invalidated mark se2 st)"
proof -
  have pf: "se_portfolio se2 = se_portfolio se1" using assms by (simp add: alike_def)
  have m: "exit_if_due X te E dbg c mint p remaining liquidity invalidated mark se st =
    (case mark_to_market X (se_portfolio se) mint mark of
       None \<Rightarrow> None
     | Some (Inl e, pf) \<Rightarrow> Some (Inl e, se\<lparr>se_portfolio := pf\<rparr>, st)
     | Some (Inr _, pf) \<Rightarrow>
    (case exit_reason X p mark liquidity (min_liquidity_usd (risk c)) invalidated (te_now te)
         (strategy c) of
       None \<Rightarrow> None
     | Some None \<Rightarrow> Some (Inr (), se\<lparr>se_portfolio := pf\<rparr>, st)
     | Some (Some k) \<Rightarrow> map_option (Pair (Inr ()))
        (attempt_exit X E dbg (te_faults te mint) c (te_now te) (te_exit_ids te mint) mint remaining
         (as_str k) (se\<lparr>se_portfolio := pf\<rparr>) st)))" for se
    by (auto simp: exit_if_due_def split: option.split sum.split)
  have t: "alike_out (map_option (Pair (Inr ()))
        (attempt_exit X E dbg ft c now uuid mint remaining reason (se1\<lparr>se_portfolio := pf'\<rparr>) st))
      (map_option (Pair (Inr ()))
        (attempt_exit X E dbg ft c now uuid mint remaining reason (se2\<lparr>se_portfolio := pf'\<rparr>) st))"
    for ft now uuid reason pf'
    by (rule attempt_exit_alike) (simp add: assms)
  show ?thesis unfolding m pf
    by (auto simp: t assms split: option.split sum.split)
qed

lemma process_exit_alike:
  assumes "alike se1 se2"
  shows "alike_out (process_exit X te E dbg c mint se1 st) (process_exit X te E dbg c mint se2 st)"
proof -
  have f: "se_portfolio se2 = se_portfolio se1" "se_candidates se2 = se_candidates se1"
    using assms by (simp_all add: alike_def)
  have dm: "derive_mark X te E c se2 m r bd td bp s = derive_mark X te E c se1 m r bd td bp s"
    for m r bd td bp s by (simp add: derive_mark_def f cong: option.case_cong)
  show ?thesis unfolding process_exit_def f dm
    by (auto simp: assms exit_if_due_alike Let_def split: option.split bind_split)
qed

lemma process_exit_list_alike:
  "alike se1 se2 \<Longrightarrow> alike_out (process_exit_list X te E dbg c mints se1 st)
     (process_exit_list X te E dbg c mints se2 st)"
proof (induction mints arbitrary: se1 se2 st)
  case (Cons m ms)
  note one = process_exit_alike [OF Cons.prems, of X te "E m" dbg c m st]
  show ?case
  proof (cases "process_exit X te (E m) dbg c m se1 st")
    case None
    then show ?thesis using one by simp
  next
    case (Some a)
    with one obtain b where b: "process_exit X te (E m) dbg c m se2 st = Some b"
      by (cases "process_exit X te (E m) dbg c m se2 st") auto
    obtain r s1 t s2 where "a = (r, s1, t)" "b = (r, s2, t)" "alike s1 s2"
      using one Some b by (cases a; cases b) auto
    then show ?thesis using Some b Cons.IH by (cases r) auto
  qed
qed simp

text \<open>
  C8: The interlocks stop entries, never exits: whatever
  the emergency flag and the kill switch of the session say, the exits of a tick end with the same
  result, the same positions and the same store.
\<close>

theorem exits_ignore_interlocks:
  "map_option (\<lambda>(res, se', st'). (res, se_portfolio se', st')) (process_exits X te E dbg c
       (se\<lparr>se_emergency_active := b, se_risk := (se_risk se)\<lparr>re_kill_switch := k\<rparr>\<rparr>) st)
   = map_option (\<lambda>(res, se', st'). (res, se_portfolio se', st')) (process_exits X te E dbg c se st)"
proof -
  let ?se = "se\<lparr>se_emergency_active := b, se_risk := (se_risk se)\<lparr>re_kill_switch := k\<rparr>\<rparr>"
  have "alike ?se se" by (simp add: alike_def)
  from process_exit_list_alike [OF this, of X te E dbg c
      "map p_mint (open_positions_of (se_portfolio se))" st]
  show ?thesis
    by (cases "process_exits X te E dbg c ?se st"; cases "process_exits X te E dbg c se st")
      (auto simp: process_exits_def alike_def)
qed

lemma estimate_liquidity_bound:
  assumes "estimate_liquidity_usd exact_ext v impact = Some l" and "0 \<le> v"
  shows "l \<le> v * 10000 + 1 / 200"
proof (cases "impact = 0")
  case True
  then show ?thesis using assms by (simp add: estimate_liquidity_usd_def)
next
  case False
  let ?q = "v * 10000 / dec_of_word impact"
  have one: "1 \<le> (dec_of_word impact :: rat)"
    using False dec_of_word_le [of 1 impact] by (simp add: dec_of_word_def word_le_nat_alt unat_gt_0 Suc_leI)
  have l: "l = of_int \<lfloor>?q * 10 ^ 2 + 1 / 2\<rfloor> / 10 ^ 2"
    using assms(1) False
    by (auto simp: estimate_liquidity_usd_def exact_ext_def rounding_ext_def bind_Some_iff fit_Some
        word_neq_0_conv [symmetric] split: if_split_asm)
  have "of_int \<lfloor>?q * 10 ^ 2 + 1 / 2\<rfloor> \<le> ?q * 10 ^ 2 + 1 / (2 :: rat)" by (rule of_int_floor_le)
  then have "l \<le> ?q + 1 / 200" unfolding l by simp
  also have "?q \<le> v * 10000"
    using one False mult_left_mono [OF one assms(2)] by (simp add: divide_le_eq)
  finally show ?thesis by simp
qed

text \<open>
  The refresh of the liquidity condemns small
  positions. The mark of a tick overwrites the stored liquidity with an estimate from the position's
  own value, at most ten thousand times that value. So a position worth less than the required
  liquidity divided by ten thousand is sold for deteriorated liquidity at the next decision that
  reads the store, whatever its price, its age and the pool behind it.
\<close>

theorem small_positions_always_exit:
  assumes "derive_mark exact_ext te E c se mint remaining base_dec token_dec base_price st
      = Some (Some mark, st')"
    and "\<not> te_liquidity_write_fault te mint" and "0 \<le> mark"
    and "pow10_u64 exact_ext token_dec = Some unit_size"
    and "mark * dec_of_word remaining / dec_of_word unit_size * 10000 + 1 / 200
      < min_liquidity_usd (risk c)"
    and "persisted_liquidity fault c now st' mint = Some liquidity"
  shows "exit_reason exact_ext p price liquidity (min_liquidity_usd (risk c)) invalidated now2 sc
      = Some (Some LiquidityDeterioration)"
proof -
  let ?worth = "mark * dec_of_word remaining / dec_of_word unit_size"
  obtain base q where "Option.bind (position_of (se_portfolio se) mint) p_base_mint = Some base"
    "xe_quote E mint base remaining (slippage_bps (execution c)) = Inr q"
    using assms(1) by (auto simp: derive_mark_def split: option.split_asm sum.split_asm)
  then obtain l where l: "estimate_liquidity_usd exact_ext ?worth (q_price_impact_bps q) = Some l"
    and st': "st' = set_last_liquidity mint l (te_now te) st"
    using assms(1,2,4)
    by (auto simp: derive_mark_def note_liquidity_def bind_Some_iff fit_Some
        split: option.split_asm if_split_asm)
  have "l < min_liquidity_usd (risk c)"
    using estimate_liquidity_bound [OF l] assms(3,5) by simp
  moreover have "last_liquidity st' mint = Inr (Some (l, te_now te))"
    by (simp add: st' last_liquidity_def set_last_liquidity_def kvs.look_put)
  then have "liquidity = None \<or> liquidity = Some l"
    using assms(6) by (auto simp: persisted_liquidity_def bind_Some_iff split: if_split_asm)
  ultimately show ?thesis by (auto simp: exit_reason_def)
qed

text \<open>A string with a decimal point is no integer.\<close>

lemma point_is_no_digit: "digits_val acc s \<noteq> None \<Longrightarrow> CHR ''.'' \<notin> set s"
proof (induction s arbitrary: acc)
  case (Cons ch s)
  then obtain d where "digit_val ch = Some d" "digits_val (10 * acc + d) s \<noteq> None"
    by (auto split: option.split_asm)
  moreover have "digit_val CHR ''.'' = None" by (simp add: digit_val_def)
  ultimately show ?case using Cons.IH by auto
qed simp

lemma parse_point: "CHR ''.'' \<in> set s \<Longrightarrow> parse_u64 s = None"
  using point_is_no_digit [of 0 s] point_is_no_digit [of 0 "tl s"]
  by (cases s) (auto simp: parse_u64_def Let_def split: option.split)

lemma ingest_stops:
  "cand \<in> set cands \<Longrightarrow> one cand = Some (Inl e) \<Longrightarrow> ingest one te cands qs st = Some (r, st')
     \<Longrightarrow> \<exists>e. r = Inl e"
  by (induction cands arbitrary: qs st)
    (auto simp: Let_def split: option.split_asm sum.split_asm)

text \<open>
  One candidate of the feed can stop the
  exits. The number of tokens for the quote of a candidate is printed as a decimal and parsed as an
  integer; when the division leaves a decimal point, the parse fails and the error ends the whole
  tick. Such a tick returns an error and writes no order: no position is marked and no exit runs.
\<close>

theorem fractional_candidate_stops_the_tick:
  assumes "tick X te dbg c se st = Some (res, se', st')"
    and "feed_path c \<noteq> None" and "cand \<in> set (te_feed te)"
    and "cfg_sol_price_usd (economics c) = Some sol" and "0 < sol"
    and "0 < mk_price_usd (cd_market cand)"
    and "quote_raw X (cd_position_usd cand) (mk_price_usd (cd_market cand)) = Some raw"
    and "CHR ''.'' \<in> set (dec_show X raw)"
  shows "(\<exists>e. res = Inl e) \<and> map row_id (order_rows st') = map row_id (order_rows st)"
proof -
  have bad: "ingest_feed_one X te c cand = Some (Inl ''failed to compute token amount'')"
    using assms(4-7) parse_point [OF assms(8)] by (simp add: ingest_feed_one_def quote_tokens_def)
  have feed: "\<exists>e. r = Inl e" if "ingest_feed X te c s st1 = Some (r, s', st2)" for s st1 r s' st2
    using that assms(2) ingest_stops [where one = "ingest_feed_one X te c", OF assms(3) bad]
    by (fastforce simp: ingest_feed_def split: option.split_asm sum.split_asm)
  obtain r1 se1 st1 where p: "prepare_tick X te c se st = Some (r1, se1, st1)"
    and rest: "(\<exists>e. r1 = Inl e \<and> res = Inl e \<and> st' = st1) \<or> (\<exists>qs. r1 = Inr qs)"
    using assms(1) by (auto simp: tick_def split: option.split_asm sum.split_asm)
  have "\<exists>e. r1 = Inl e"
    using p by (auto simp: prepare_tick_def Let_def dest!: feed split: option.split_asm sum.split_asm)
  then show ?thesis using rest prepare_tick_frame(1) [OF p] by auto
qed

section \<open>Sample runs\<close>

text \<open>A tick that meets nothing but the given candidates.\<close>

definition sample_te :: "candidate list \<Rightarrow> jval tick_env" where
  "sample_te cands = \<lparr>te_now = 0, te_live = False, te_owner = None, te_reader = sample_reader,
     te_sol_price = Inr None, te_reconcile_due = False, te_feed = cands,
     te_wallets = Some (Inr cands),
     te_exec = (\<lambda>_ _. sample_exec (Inl (UnknownOutcome None ''late''))), te_faults = (\<lambda>_. no_faults),
     te_order_faults = (\<lambda>_. no_faults), te_exit_ids = (\<lambda>m. ''x'' @ m),
     te_entry_ids = (\<lambda>_. (''s'', ''pos'', ''u'')), te_emergency_fault = False, te_kill_fault = None,
     te_incomplete_fault = None, te_liquidity_fault = (\<lambda>_. False),
     te_liquidity_write_fault = (\<lambda>_. True), te_invalidated_fault = (\<lambda>_. False)\<rparr>"

lemma sample_te_simps [simp]:
  "te_now (sample_te cs) = 0" "te_live (sample_te cs) = False" "te_feed (sample_te cs) = cs"
  "te_reconcile_due (sample_te cs) = False" "te_wallets (sample_te cs) = Some (Inr cs)"
  "te_emergency_fault (sample_te cs) = False" "te_kill_fault (sample_te cs) = None"
  "te_incomplete_fault (sample_te cs) = None"
  "te_exec (sample_te cs) qs m = sample_exec (Inl (UnknownOutcome None ''late''))"
  "te_faults (sample_te cs) = (\<lambda>_. no_faults)"
  "te_entry_ids (sample_te cs) = (\<lambda>_. (''s'', ''pos'', ''u''))"
  "te_liquidity_write_fault (sample_te cs) m"
  by (simp_all add: sample_te_def)

lemma sample_wallet_ingest:
  "ingest (ingest_wallet_one X (sample_te es) c None) (sample_te es) cs qs st
     = Some (Inr qs, st)"
  by (induction cs arbitrary: st)
    (simp_all add: ingest_wallet_one_def note_liquidity_def Let_def)

lemma sample_prepare:
  assumes "se_day_key s = []" "se_sol_price_usd s = None" "se_candidates s = []"
    "\<not> se_emergency_active s"
  shows "prepare_tick exact_ext (sample_te cs) (example_config Paper) s empty_store
   = Some (Inr [], add_candidates cs s, empty_store)"
proof -
  have e: "emergency_now te empty_store = te_emergency_fault te"
    "kill_switch_reason empty_store = Inr None" "incomplete_orders empty_store = []" for te
    by (simp_all add: emergency_now_def emergency_stop_def kill_switch_reason_def empty_store_def
        kv_look_def incomplete_orders_def)
  have f: "feed_path (example_config Paper) = None"
    by (simp add: feed_path_def example_config_def runtime_default_def nonempty_path_def
        wallet_monitor_default_def)
  have se: "day_show exact_ext 0 = []" "s\<lparr>se_emergency_active := False, se_candidates := []\<rparr> = s"
    using assms by (simp_all add: exact_ext_def rounding_ext_def)
  have i: "ingest (ingest_wallet_one exact_ext (sample_te cs) c None) (sample_te cs) cs [] empty_store
     = Some (Inr [], empty_store)" for c
    by (simp only: sample_wallet_ingest)
  show ?thesis
    by (simp add: assms se i prepare_tick_def roll_day_def refresh_sol_price_def
        periodic_reconciliation_def reconcile_pending_orders_def read_kill_switch_def
        ingest_feed_def ingest_wallets_def f e Let_def)
qed

lemma sample_session_simps [simp]:
  "se_day_key (sample_session pr cs) = []" "se_sol_price_usd (sample_session pr cs) = pr"
  "se_candidates (sample_session pr cs) = cs" "\<not> se_emergency_active (sample_session pr cs)"
  "se_portfolio (sample_session pr cs) = []"
  "\<not> tripped (re_kill_switch (se_risk (sample_session pr cs)))"
  by (simp_all add: sample_session_def new_engine_def new_kill_switch_def)

lemma trip_fields [simp]:
  "se_day_key (trip s) = se_day_key s" "se_sol_price_usd (trip s) = se_sol_price_usd s"
  "se_candidates (trip s) = se_candidates s" "se_portfolio (trip s) = se_portfolio s"
  by (simp_all add: trip_def)

lemma sample_trade_tick:
  assumes s: "s = sample_session None cs"
  shows "trade_tick exact_ext (sample_te es) [] Option.the (example_config Paper) s empty_store
   = process_entries exact_ext (\<lambda>_. sample_exec (Inl (UnknownOutcome None ''late''))) Option.the
       (\<lambda>_. no_faults) (example_config Paper) 0 (\<lambda>_. (''s'', ''pos'', ''u'')) cs s empty_store"
proof -
  have o: "open_positions_of (se_portfolio s) = []" "\<not> se_emergency_active s"
    "\<not> tripped (re_kill_switch (se_risk s))" "se_candidates s = cs"
    by (simp_all add: s sample_session_def open_positions_of_def new_engine_def new_kill_switch_def)
  have eq: "equity_usd exact_ext 100 [] = Some 100" "aggregate_exposure exact_ext [] = Some 0"
    by (simp_all add: equity_usd_def aggregate_exposure_def)
  have re: "observe_equity exact_ext (se_risk s) 100 = Some (se_risk s)"
    by (simp add: s sample_session_def observe_equity_def ks_observe_equity_def new_engine_def
        new_kill_switch_def fit_def dec_max_def example_config_def)
  have s2: "s\<lparr>se_risk := set_total_exposure (set_open_positions (se_risk s) 0) 0\<rparr> = s"
    by (simp add: s sample_session_def set_total_exposure_def set_open_positions_def new_engine_def)
  have n: "\<not> entries_blocked_by empty_store" "\<not> no_source (example_config Paper)"
    by (simp_all add: entries_blocked_by_def incomplete_orders_def empty_store_def no_source_def
        example_config_def runtime_default_def default_collector_def)
  have te: "te_exec (sample_te es) [] = (\<lambda>_. sample_exec (Inl (UnknownOutcome None ''late'')))"
    by (rule ext) simp
  show ?thesis
    by (simp add: trade_tick_def mark_equity_def o eq re s2 process_exits_def enter_if_clear_def n te)
qed

lemma sample_tick_enters:
  "\<exists>se' st'. tick exact_ext (sample_te [sample_candidate]) Option.the (example_config Paper)
       (sample_session None []) empty_store = Some (Inr (), se', st')
     \<and> (\<exists>r\<in>set (order_rows st'). o_kind (row_payload r) = Entry)"
proof -
  let ?s = "sample_session None [(''m'', sample_candidate)]"
  have a: "add_candidates [sample_candidate] (sample_session None []) = ?s"
    by (simp add: add_candidates_def sample_session_def sample_candidate_def)
  obtain se2 st2 where p: "process_entry exact_ext (sample_exec (Inl (UnknownOutcome None ''late'')))
      Option.the no_faults (example_config Paper) 0 (''s'', ''pos'', ''u'') ''m'' sample_candidate
      ?s empty_store = Some (Inr (), se2, st2)" "order_rows st2 \<noteq> order_rows empty_store"
    using sample_unknown [of Paper None "[(''m'', sample_candidate)]"] by blast
  have "order_rows st2 \<noteq> []" "list_all (\<lambda>r. o_kind (row_payload r) = Entry) (order_rows st2)"
    using p(2) process_entry_adds [OF p(1)] by (auto simp: adds_def empty_store_def)
  then have "\<exists>r\<in>set (order_rows st2). o_kind (row_payload r) = Entry"
    by (cases "order_rows st2") auto
  moreover have "tick exact_ext (sample_te [sample_candidate]) Option.the (example_config Paper)
       (sample_session None []) empty_store = Some (Inr (), se2, st2)"
    using p(1) by (simp add: tick_def sample_prepare a sample_trade_tick [OF refl])
  ultimately show ?thesis by blast
qed

theorem tick_enters_only_when_clear_witness:
  "\<exists>se' st' pre new r. tick exact_ext (sample_te [sample_candidate]) Option.the
       (example_config Paper) (sample_session None []) empty_store = Some (Inr (), se', st')
     \<and> order_rows st' = pre @ new \<and> r \<in> set new \<and> o_kind (row_payload r) = Entry
     \<and> list_all (\<lambda>r. \<not> incomplete_row r) pre"
proof -
  obtain se' st' r where run: "tick exact_ext (sample_te [sample_candidate]) Option.the
       (example_config Paper) (sample_session None []) empty_store = Some (Inr (), se', st')"
    "r \<in> set (order_rows st')" "o_kind (row_payload r) = Entry"
    using sample_tick_enters by blast
  from tick_enters_only_when_clear [OF run(1,2) _ run(3)] run show ?thesis
    by (auto simp: empty_store_def)
qed

lemma sample_halted_tick:
  "\<exists>se' st'. tick exact_ext (sample_te []) Option.the (example_config Paper)
       (trip (sample_session None [])) empty_store = Some (Inr (), se', st')"
proof -
  let ?s = "trip (sample_session None [])"
  have o: "open_positions_of [] = []" "no_source (example_config Paper) = False"
    by (simp_all add: open_positions_of_def no_source_def example_config_def runtime_default_def
        default_collector_def)
  have eq: "equity_usd exact_ext 100 [] = Some 100" "aggregate_exposure exact_ext [] = Some 0"
    by (simp_all add: equity_usd_def aggregate_exposure_def)
  obtain re where re: "observe_equity exact_ext (se_risk ?s) 100 = Some re"
    "tripped (re_kill_switch re)"
    by (simp add: trip_def force_trip_def sample_session_def observe_equity_def
        ks_observe_equity_def new_engine_def new_kill_switch_def fit_def dec_max_def
        example_config_def)
  have k: "read_kill_switch (sample_te []) empty_store = Inr None"
    by (simp add: read_kill_switch_def kill_switch_reason_def empty_store_def kv_look_def)
  have p: "prepare_tick exact_ext (sample_te []) (example_config Paper) ?s empty_store
      = Some (Inr [], ?s, empty_store)"
    using sample_prepare [of ?s "[]"] by (simp add: add_candidates_def)
  show ?thesis
    by (simp add: tick_def p trade_tick_def mark_equity_def o eq re k process_exits_def
        enter_if_clear_def set_total_exposure_def set_open_positions_def Let_def)
qed

theorem halted_session_never_enters_witness:
  "\<exists>se' st'. tick exact_ext (sample_te []) Option.the (example_config Paper)
       (trip (sample_session None [])) empty_store = Some (Inr (), se', st')
     \<and> tripped (re_kill_switch (se_risk se'))"
proof -
  let ?s = "trip (sample_session None [])"
  obtain se' st' where t: "tick exact_ext (sample_te []) Option.the (example_config Paper)
       ?s empty_store = Some (Inr (), se', st')" using sample_halted_tick by blast
  have "session_loop exact_ext Option.the (example_config Paper) ([] :: jval tick_env list) ?s
      empty_store = Some (?s, empty_store)" by simp
  from halted_session_never_enters [OF this _ t] t show ?thesis by simp
qed

theorem restart_keeps_the_day_witness:
  "\<exists>se. start_session exact_ext (example_config Paper) 0 (persist_session_state
       ((sample_session None [])\<lparr>se_risk := (se_risk (sample_session None []))\<lparr>re_state :=
          (re_state (se_risk (sample_session None [])))\<lparr>trades_today := 2\<rparr>\<rparr>\<rparr>)
       (latch_kill_switch ''drawdown'' empty_store)) = Some (Inr se)
     \<and> trades_today (re_state (se_risk se)) = 2 \<and> tripped (re_kill_switch (se_risk se))"
proof -
  let ?old = "(sample_session None [])\<lparr>se_risk := (se_risk (sample_session None []))\<lparr>re_state :=
          (re_state (se_risk (sample_session None [])))\<lparr>trades_today := 2\<rparr>\<rparr>\<rparr>"
  let ?st = "latch_kill_switch ''drawdown'' empty_store"
  have d: "day_show exact_ext 0 = se_day_key ?old" by (simp add: exact_ext_def rounding_ext_def)
  have k: "kill_switch_reason ?st = Inr (Some ''drawdown'')"
    by (simp add: kill_switch_reason_def latch_kill_switch_def kvs.look_put)
  have "\<exists>se. start_session exact_ext (example_config Paper) 0 (persist_session_state ?old ?st)
      = Some (Inr se)"
    by (simp add: start_session_def load_portfolio_def positions_def load_def open_positions_of_def
        aggregate_exposure_def persist_session_state_def get_text_def get_decimal_def get_count_def
        kill_switch_reason_def emergency_stop_def latch_kill_switch_def empty_store_def kv_put_def
        kv_look_def day_key_def day_start_key_def trades_key_def kill_switch_key_def
        emergency_key_def key_like_def Let_def)
  then obtain se where s: "start_session exact_ext (example_config Paper) 0
      (persist_session_state ?old ?st) = Some (Inr se)" by blast
  from restart_keeps_the_day [OF s] s d k show ?thesis by simp
qed

definition writable_te :: "candidate list \<Rightarrow> jval tick_env" where
  "writable_te cs = (sample_te cs)\<lparr>te_liquidity_write_fault := (\<lambda>_. False)\<rparr>"

lemma sample_mark:
  "\<exists>st'. derive_mark exact_ext (writable_te []) (sample_exec (Inl (UnknownOutcome None ''late'')))
      (example_config Paper) ((sample_session None [])\<lparr>se_portfolio := [(''m'', sample_position)]\<rparr>)
      ''m'' 500 3 2 (2 / 5) empty_store = Some (Some (4 / 5), st')"
proof -
  have m: "mark_price_from_quote exact_ext 10000 3 (2 / 5) 500 2 = Some (Some (4 / 5))"
    by (simp add: mark_price_from_quote_def units_def checked_pow10_def dec_of_word_def fit_def
        dec_max_def)
  have "\<exists>l. estimate_liquidity_usd exact_ext 4 30 = Some l"
    by (simp add: estimate_liquidity_usd_def dec_of_word_def fit_def dec_max_def)
  moreover have "pow10_u64 exact_ext 2 = Some 100"
    by (simp add: pow10_u64_def checked_pow10_def)
  ultimately show ?thesis using m
    by (auto simp: derive_mark_def position_of_def sample_position_def sample_exec_def
        sample_quote_def dec_of_word_def fit_def dec_max_def)
qed

theorem small_positions_always_exit_witness:
  "\<exists>st' liquidity. persisted_liquidity False (example_config Paper) 0 st' ''m'' = Some liquidity
     \<and> exit_reason exact_ext sample_position 100 liquidity 50000 False 0
         (strategy (example_config Paper)) = Some (Some LiquidityDeterioration)"
proof -
  obtain st' where m: "derive_mark exact_ext (writable_te [])
      (sample_exec (Inl (UnknownOutcome None ''late'')))
      (example_config Paper) ((sample_session None [])\<lparr>se_portfolio := [(''m'', sample_position)]\<rparr>)
      ''m'' 500 3 2 (2 / 5) empty_store = Some (Some (4 / 5), st')" using sample_mark by blast
  have age: "duration_seconds (sint (max_liquidity_age_secs (runtime (example_config Paper))))
      = Some (secs 300)"
    by (simp add: duration_seconds_def example_config_def runtime_default_def
        default_max_liquidity_age_def)
  have "\<exists>liquidity. persisted_liquidity False (example_config Paper) 0 st' ''m'' = Some liquidity"
    by (auto simp: persisted_liquidity_def age split: sum.split option.split prod.split)
  then obtain liquidity where l: "persisted_liquidity False (example_config Paper) 0 st' ''m''
      = Some liquidity" by blast
  have "pow10_u64 exact_ext 2 = Some 100"
    by (simp add: pow10_u64_def checked_pow10_def)
  from small_positions_always_exit [OF m _ _ this _ l, of sample_position 100 False 0
      "strategy (example_config Paper)"]
  have "exit_reason exact_ext sample_position 100 liquidity 50000 False 0
      (strategy (example_config Paper)) = Some (Some LiquidityDeterioration)"
    by (simp add: writable_te_def dec_of_word_def)
  with l show ?thesis by blast
qed

definition pointed_ext :: ext where
  "pointed_ext = exact_ext\<lparr>dec_show := (\<lambda>_. ''1.5'')\<rparr>"

lemma sample_prepare_feed:
  "prepare_tick pointed_ext (sample_te [sample_candidate])
      ((example_config Paper)\<lparr>runtime := (runtime (example_config Paper))
         \<lparr>signal_feed_path := Some ''feed''\<rparr>\<rparr>) (sample_session None []) empty_store
    = Some (Inl ''failed to compute token amount'', sample_session None [], empty_store)"
proof -
  have e: "emergency_now te empty_store = te_emergency_fault te"
    "kill_switch_reason empty_store = Inr None" "incomplete_orders empty_store = []" for te
    by (simp_all add: emergency_now_def emergency_stop_def kill_switch_reason_def empty_store_def
        kv_look_def incomplete_orders_def)
  have q: "quote_tokens pointed_ext 5 2 = Some None"
    using parse_point [of "''1.5''"]
    by (simp add: quote_tokens_def quote_raw_def pointed_ext_def exact_ext_def rounding_ext_def
        fit_def dec_max_def)
  have f: "feed_path ((example_config Paper)\<lparr>runtime := (runtime (example_config Paper))
      \<lparr>signal_feed_path := Some ''feed''\<rparr>\<rparr>) = Some ''feed''"
    by (simp add: feed_path_def example_config_def runtime_default_def nonempty_path_def
        wallet_monitor_default_def)
  have se: "day_show pointed_ext 0 = []" "(sample_session None [])
      \<lparr>se_emergency_active := False, se_candidates := []\<rparr> = sample_session None []"
    by (simp_all add: pointed_ext_def exact_ext_def rounding_ext_def sample_session_def)
  have s: "cd_position_usd sample_candidate = 5" "mk_price_usd (cd_market sample_candidate) = 2"
    by (simp_all add: sample_candidate_def sample_market_def)
  show ?thesis
    by (simp add: se s q f e prepare_tick_def roll_day_def refresh_sol_price_def
        periodic_reconciliation_def reconcile_pending_orders_def read_kill_switch_def
        ingest_feed_def ingest_feed_one_def note_liquidity_def Let_def)
qed

theorem fractional_candidate_stops_the_tick_witness:
  "\<exists>e se' st'. tick pointed_ext (sample_te [sample_candidate]) Option.the
      ((example_config Paper)\<lparr>runtime := (runtime (example_config Paper))
         \<lparr>signal_feed_path := Some ''feed''\<rparr>\<rparr>) (sample_session None []) empty_store
    = Some (Inl e, se', st')"
proof -
  let ?c = "(example_config Paper)\<lparr>runtime := (runtime (example_config Paper))
         \<lparr>signal_feed_path := Some ''feed''\<rparr>\<rparr>"
  have raw: "quote_raw pointed_ext 5 2 = Some 2500000000"
    by (simp add: quote_raw_def pointed_ext_def exact_ext_def rounding_ext_def fit_def dec_max_def)
  have s: "cd_position_usd sample_candidate = 5" "mk_price_usd (cd_market sample_candidate) = 2"
    by (simp_all add: sample_candidate_def sample_market_def)
  have fp: "feed_path ?c \<noteq> None"
    by (simp add: feed_path_def example_config_def runtime_default_def nonempty_path_def
        wallet_monitor_default_def)
  have sol: "cfg_sol_price_usd (economics ?c) = Some 150" by simp
  have "\<exists>r. tick pointed_ext (sample_te [sample_candidate]) Option.the ?c (sample_session None [])
      empty_store = Some r"
    using sample_prepare_feed by (simp add: tick_def)
  then obtain res se' st' where t: "tick pointed_ext (sample_te [sample_candidate]) Option.the ?c
      (sample_session None []) empty_store = Some (res, se', st')" by (metis prod_cases3)
  from fractional_candidate_stops_the_tick [OF t fp _ sol] raw s t show ?thesis
    by (auto simp: pointed_ext_def)
qed

section \<open>The manual exit of untrusted positions\<close>

lemma untrusted_exit_skips:
  assumes "positions st = Inr ps" "list_all (\<lambda>p. is_open p \<longrightarrow> trusted_remaining p = None) ps"
  shows "attempt_exit X E dbg ft c now uuid mint remaining reason se st = Some (se', st')
    \<Longrightarrow> st' = st"
proof -
  have "\<exists>msg. plan_exit ft st mint ps = Inl (ExitSkipped msg)"
  proof (cases "find (\<lambda>p. p_mint p = mint) ps")
    case (Some p)
    then have "is_open p \<longrightarrow> trusted_remaining p = None"
      using assms(2) find_stored_mint [OF Some] by (auto simp: list_all_iff)
    then show ?thesis using Some by (auto simp: plan_exit_def is_open_def)
  qed (simp add: plan_exit_def)
  then have "\<exists>msg. execute_exit_order X E dbg ft c now uuid mint reason st (se_portfolio se)
      = Some (ExitSkipped msg, st, se_portfolio se)"
    using assms(1) by (auto simp: execute_exit_order_def split: option.split)
  then show "attempt_exit X E dbg ft c now uuid mint remaining reason se st = Some (se', st')
    \<Longrightarrow> st' = st"
    by (auto simp: attempt_exit_def split: sum.split_asm)
qed

lemma exit_all_loop_untrusted:
  assumes "positions st = Inr ps" "list_all (\<lambda>p. is_open p \<longrightarrow> trusted_remaining p = None) ps"
  shows "exit_all_loop X E dbg ft c now uuids fault bs mints n se st = Some (res, st') \<Longrightarrow> st' = st"
proof (induction mints arbitrary: n se)
  case (Cons mint mints)
  consider (over) "st' = st"
    | (skip) m s where "exit_all_loop X E dbg ft c now uuids fault bs mints m s st = Some (res, st')"
    | (tried) s st1 uuid r where "attempt_exit X (E mint) dbg (ft mint) c now uuid mint r ''manual_exit'' se st
          = Some (s, st1)"
        "exit_all_loop X E dbg ft c now uuids fault bs mints (n + 1) s st1 = Some (res, st')"
    using Cons.prems
    by (auto split: option.split_asm if_split_asm)
  then show ?case
  proof cases
    case tried
    then show ?thesis using untrusted_exit_skips [OF assms tried(1)] Cons.IH by blast
  qed (use Cons.IH in blast)+
qed simp

text \<open>
  The emergency liquidation cannot
  do what it is for. Its fallback to the balance on the chain is meant for positions whose quantity
  is not trusted, but the order pipeline refuses exactly these: when the quantity of no open
  position is trusted, the manual exit of every position leaves the store as it was, whatever the
  balances on the chain. Every position with a balance is still counted as exited.
\<close>

theorem untrusted_positions_are_never_liquidated:
  assumes "exit_all_positions X E dbg ft c now uuids fault live owner C st = Some (res, st')"
    and "positions st = Inr ps" and "list_all (\<lambda>p. is_open p \<longrightarrow> trusted_remaining p = None) ps"
  shows "st' = st"
  using assms exit_all_loop_untrusted [OF assms(2,3)]
  by (auto simp: exit_all_positions_def Let_def split: sum.split_asm)

definition untrusted_position :: position where
  "untrusted_position = sample_position\<lparr>p_reconciliation_status := Mismatch\<rparr>"

definition untrusted_store :: store where
  "untrusted_store = save_position untrusted_position empty_store"

lemma untrusted_positions_read: "positions untrusted_store = Inr [untrusted_position]"
  by (simp add: untrusted_store_def positions_def save_position_def kv_put_def empty_store_def
      key_like_def position_key_def untrusted_position_def sample_position_def)

theorem untrusted_positions_are_never_liquidated_witness:
  "exit_all_positions exact_ext (\<lambda>_. sample_exec (Inl (UnknownOutcome None ''late''))) Option.the
      (\<lambda>_. no_faults) (example_config Live) 0 (\<lambda>_. ''u'') None True (Some ''own'') sample_reader
      untrusted_store = Some (Inr 1, untrusted_store)"
proof -
  let ?run = "exit_all_positions exact_ext (\<lambda>_. sample_exec (Inl (UnknownOutcome None ''late'')))
      Option.the (\<lambda>_. no_faults) (example_config Live) 0 (\<lambda>_. ''u'') None True (Some ''own'')
      sample_reader untrusted_store"
  have p: "p_mint untrusted_position = ''m''" "is_open untrusted_position"
    "trusted_remaining untrusted_position = None" "p_base_entry_price_usd untrusted_position = Some 10"
    "p_base_mint_decimals untrusted_position = Some 3" "p_token_decimals untrusted_position = Some 2"
    "p_base_mint untrusted_position = Some ''sol''" "p_state untrusted_position = PosOpen"
    by (simp_all add: untrusted_position_def sample_position_def is_open_def trusted_remaining_def
        quantity_is_trusted_def)
  have l: "load_portfolio untrusted_store = Inr [(''m'', untrusted_position)]"
    by (simp add: load_portfolio_def untrusted_positions_read load_def sync_position_def p)
  have b: "balance_of [(''m'', 400, 2)] ''m'' = Some (400 :: u64, 2 :: u8)"
    by (simp add: balance_of_def)
  have i: "incomplete_orders untrusted_store = []"
    by (simp add: incomplete_orders_def untrusted_store_def save_position_def kv_put_def
        empty_store_def)
  have x: "execute_exit_order exact_ext E dbg no_faults c 0 u ''m'' r untrusted_store pf
      = Some (ExitSkipped ''quantity not trusted'', untrusted_store, pf)" for E dbg c u r pf
    by (simp add: execute_exit_order_def untrusted_positions_read plan_exit_def p)
  have "\<exists>st'. ?run = Some (Inr 1, st')"
    by (simp add: exit_all_positions_def l sample_reader_def open_positions_of_def p
        position_of_def chain_quantity_def b i attempt_exit_def authorize_exit_def x
        fresh_session_def Let_def)
  then obtain st' where run: "?run = Some (Inr 1, st')" by blast
  have "st' = untrusted_store"
    by (rule untrusted_positions_are_never_liquidated [OF run untrusted_positions_read])
      (simp add: p)
  with run show ?thesis by simp
qed

end
