(* ===== verification/Exit_Monitor.thy ===== *)
theory Exit_Monitor
  imports Runtime_Session
begin

text \<open>
  \<open>src/exit_monitor.rs\<close>: the exit loop that runs beside the session, on positions read from the
  store in every cycle. Its environment is that of a tick with the readings of the monotonic clock
  (in nanoseconds) and the faults of the reads and writes only the monitor does. The channel for the
  shutdown is left out: a run is a finite number of cycles.
\<close>

section \<open>Environment and quote cache\<close>

record 'v monitor_env =
  me_tick :: "'v tick_env"
  me_instant :: int
  me_positions_fault :: "string option"
  me_stop_fault :: "string option"          \<comment> \<open>emergency_stop() or kill_switch_reason() fails\<close>
  me_save_fault :: "string \<Rightarrow> bool"

type_synonym quote_cache = "(string \<times> quote \<times> int) list"

definition cached_quote :: "config \<Rightarrow> int \<Rightarrow> quote_cache \<Rightarrow> string \<Rightarrow> quote option" where
  "cached_quote c inst cache mint =
    (let ttl = quote_cache_ttl_secs (runtime c) in
     if ttl = 0 then None
     else case map_of cache mint of
       None \<Rightarrow> None
     | Some (q, fetched) \<Rightarrow>
         if inst - fetched < int (unat ttl) * 1000000000 then Some q else None)"

definition cache_quote :: "string \<Rightarrow> quote \<Rightarrow> int \<Rightarrow> quote_cache \<Rightarrow> quote_cache" where
  "cache_quote mint q inst cache = AList.update mint (q, inst) cache"

section \<open>Stale orders\<close>

text \<open>Ending an order: neither a refused transition nor a failed write stops the monitor.\<close>

definition give_up ::
    "faults \<Rightarrow> datetime \<Rightarrow> order_record \<Rightarrow> string \<Rightarrow> order_state \<Rightarrow> store \<Rightarrow> store" where
  "give_up ft now ord msg target st = snd (end_order ft now ord msg target VFailed st)"

definition reconcile_stale_live ::
    "ext \<Rightarrow> 'v chain_reader \<Rightarrow> faults \<Rightarrow> config \<Rightarrow> datetime \<Rightarrow> string option \<Rightarrow> order_record \<Rightarrow> string
     \<Rightarrow> store \<Rightarrow> store option" where
  "reconcile_stale_live X C ft c now owner ord sig st =
    (case (owner, o_input_mint ord, o_output_mint ord, o_input_amount_atomic ord) of
       (Some own, Some input_mint, Some output_mint, Some expected) \<Rightarrow>
       (case reconcile_signature (cr_json C) (cr_status C) (cr_transaction C) sig input_mint
               output_mint own expected of
          Inr (Some outcome) \<Rightarrow>
            map_option snd (record_reconciled_fill X ft c now st ord outcome sig)
        | Inr None \<Rightarrow> do {
            limit \<leftarrow> duration_seconds (unknown_after_secs (rpc c));
            Some (if now - o_created_at ord > limit
                  then give_up ft now ord ''signature never appeared (exit monitor)'' Expired st
                  else st)
          }
        | Inl (Transaction detail) \<Rightarrow> Some (give_up ft now ord detail Failed st)
        | Inl _ \<Rightarrow> Some st)
     | _ \<Rightarrow> Some st)"

definition reconcile_stale_order ::
    "ext \<Rightarrow> 'v chain_reader \<Rightarrow> faults \<Rightarrow> config \<Rightarrow> datetime \<Rightarrow> bool \<Rightarrow> string option \<Rightarrow> order_record
     \<Rightarrow> store \<Rightarrow> store option" where
  "reconcile_stale_order X C ft c now live owner ord st =
    (case o_signature ord of
       None \<Rightarrow> do {
         limit \<leftarrow> duration_seconds (unknown_after_secs (rpc c));
         Some (if now - o_created_at ord > limit
               then give_up ft now ord ''expired without submission (exit monitor)'' Failed st
               else st)
       }
     | Some sig \<Rightarrow>
         if \<not> live
         then Some (give_up ft now ord ''paper signature cannot be reconciled'' Failed st)
         else reconcile_stale_live X C ft c now owner ord sig st)"

fun reconcile_stale_list ::
    "ext \<Rightarrow> 'v chain_reader \<Rightarrow> (order_record \<Rightarrow> faults) \<Rightarrow> config \<Rightarrow> datetime \<Rightarrow> bool \<Rightarrow> string option
     \<Rightarrow> order_record list \<Rightarrow> store \<Rightarrow> store option" where
  "reconcile_stale_list X C fts c now live owner [] st = Some st"
| "reconcile_stale_list X C fts c now live owner (ord # ords) st =
    (case reconcile_stale_order X C (fts ord) c now live owner ord st of
       None \<Rightarrow> None
     | Some st' \<Rightarrow> reconcile_stale_list X C fts c now live owner ords st')"

definition reconcile_stale_orders :: "ext \<Rightarrow> 'v tick_env \<Rightarrow> config \<Rightarrow> store \<Rightarrow> store option" where
  "reconcile_stale_orders X te c st =
    (if te_incomplete_fault te \<noteq> None then Some st
     else reconcile_stale_list X (te_reader te) (te_order_faults te) c (te_now te) (te_live te)
            (te_owner te) (incomplete_orders st) st)"

section \<open>One position\<close>

definition has_inflight_exit :: "'v tick_env \<Rightarrow> store \<Rightarrow> position \<Rightarrow> string + bool" where
  "has_inflight_exit te st p = (case te_incomplete_fault te of
      Some e \<Rightarrow> Inl e
    | None \<Rightarrow> Inr (list_ex (same_exit p) (incomplete_orders st)))"

text \<open>The mark from a quote, fresh or cached; unlike the session, without a look at a zero output.\<close>

definition monitor_mark ::
    "ext \<Rightarrow> u64 \<Rightarrow> u64 \<Rightarrow> u8 \<Rightarrow> u8 \<Rightarrow> decimal \<Rightarrow> decimal option option" where
  "monitor_mark X output remaining base_dec token_dec base_price = do {
     base \<leftarrow> units X output base_dec;
     case base of
       Inl _ \<Rightarrow> Some None
     | Inr base_units \<Rightarrow> do {
         token \<leftarrow> units X remaining token_dec;
         case token of
           Inl _ \<Rightarrow> Some None
         | Inr token_units \<Rightarrow>
             if token_units = 0 then Some None
             else do {
               v \<leftarrow> dec_mul X base_units base_price;
               mark \<leftarrow> dec_div X v token_units;
               Some (Some mark)
             }
       }
   }"

text \<open>The quote for a mark and whether it is fresh.\<close>

definition monitor_quote ::
    "config \<Rightarrow> int \<Rightarrow> exec_env \<Rightarrow> quote_cache \<Rightarrow> string \<Rightarrow> string \<Rightarrow> u64 \<Rightarrow> (quote \<times> bool) option" where
  "monitor_quote c inst E cache mint base remaining =
    (case cached_quote c inst cache mint of
       Some q \<Rightarrow> Some (q, False)
     | None \<Rightarrow> (case xe_quote E mint base remaining (slippage_bps (execution c)) of
         Inl _ \<Rightarrow> None
       | Inr q \<Rightarrow> Some (q, True)))"

definition monitor_liquidity ::
    "ext \<Rightarrow> 'v tick_env \<Rightarrow> config \<Rightarrow> string \<Rightarrow> u64 \<Rightarrow> u8 \<Rightarrow> decimal \<Rightarrow> u32 \<Rightarrow> store
     \<Rightarrow> (decimal option \<times> store) option" where
  "monitor_liquidity X te c mint remaining token_dec mark impact st = do {
     persisted \<leftarrow> persisted_liquidity (te_liquidity_fault te mint) c (te_now te) st mint;
     case persisted of
       Some liq \<Rightarrow> Some (Some liq, st)
     | None \<Rightarrow> do {
         v \<leftarrow> dec_mul X mark (dec_of_word remaining);
         u \<leftarrow> pow10_u64 X token_dec;
         probe \<leftarrow> dec_div X v (dec_of_word u);
         refreshed \<leftarrow> estimate_liquidity_usd X probe impact;
         Some (Some refreshed, note_liquidity te mint refreshed st)
       }
   }"

text \<open>What follows the mark: the position is saved, the liquidity found and the exit tried.\<close>

definition monitor_decide ::
    "ext \<Rightarrow> 'v monitor_env \<Rightarrow> exec_env \<Rightarrow> (string option \<Rightarrow> string) \<Rightarrow> config \<Rightarrow> string \<Rightarrow> position
     \<Rightarrow> u64 \<Rightarrow> u8 \<Rightarrow> u32 \<Rightarrow> decimal \<Rightarrow> portfolio \<Rightarrow> store \<Rightarrow> (portfolio \<times> store) option" where
  "monitor_decide X me E dbg c mint p remaining token_dec impact mark pf st =
    (let te = me_tick me;
         st1 = (case position_of pf mint of
             None \<Rightarrow> st
           | Some marked \<Rightarrow> if me_save_fault me mint then st else save_position marked st)
     in case monitor_liquidity X te c mint remaining token_dec mark impact st1 of
       None \<Rightarrow> None
     | Some (liquidity, st2) \<Rightarrow>
    (case exit_reason X p mark liquidity (min_liquidity_usd (risk c))
         (signal_invalidated (te_invalidated_fault te mint) st2 (p_signal_id p)) (te_now te)
         (strategy c) of
       None \<Rightarrow> None
     | Some None \<Rightarrow> Some (pf, st2)
     | Some (Some k) \<Rightarrow>
         map_option (\<lambda>(res, st3, pf'). (pf', st3))
           (execute_exit_order X E dbg (te_faults te mint) c (te_now te) (te_exit_ids te mint) mint
              (as_str k) st2 pf)))"

text \<open>
  A position with what its mark needs: the quantity, the price, the decimals and the base mint.
\<close>

definition markable :: "position \<Rightarrow> (u64 \<times> decimal \<times> u8 \<times> u8 \<times> string) option" where
  "markable p =
    (if p_state p \<noteq> PosOpen then None
     else case (trusted_remaining p, p_base_entry_price_usd p, p_base_mint_decimals p,
                p_token_decimals p, p_base_mint p) of
       (Some remaining, Some price, Some base_dec, Some token_dec, Some base) \<Rightarrow>
          Some (remaining, price, base_dec, token_dec, base)
     | _ \<Rightarrow> None)"

text \<open>The body of the loop over the open positions.\<close>

definition monitor_position ::
    "ext \<Rightarrow> 'v monitor_env \<Rightarrow> exec_env \<Rightarrow> (string option \<Rightarrow> string) \<Rightarrow> config \<Rightarrow> string \<Rightarrow> quote_cache
     \<Rightarrow> portfolio \<Rightarrow> store \<Rightarrow> ((string + quote_cache \<times> portfolio) \<times> store) option" where
  "monitor_position X me E dbg c mint cache pf st =
    (case position_of pf mint of
       None \<Rightarrow> Some (Inr (cache, pf), st)
     | Some p \<Rightarrow>
    (if p_state p \<noteq> PosOpen \<or> trusted_remaining p = None then Some (Inr (cache, pf), st)
     else case has_inflight_exit (me_tick me) st p of
       Inl e \<Rightarrow> Some (Inl e, st)
     | Inr True \<Rightarrow> Some (Inr (cache, pf), st)
     | Inr False \<Rightarrow>
    (case markable p of
       None \<Rightarrow> Some (Inr (cache, pf), st)
     | Some (remaining, price, base_dec, token_dec, base) \<Rightarrow>
    (case monitor_quote c (me_instant me) E cache mint base remaining of
       None \<Rightarrow> Some (Inr (cache, pf), st)
     | Some (q, fresh) \<Rightarrow>
    (case monitor_mark X (q_output_amount q) remaining base_dec token_dec price of
       None \<Rightarrow> None
     | Some None \<Rightarrow> Some (Inr (cache, pf), st)
     | Some (Some mark) \<Rightarrow>
    (case mark_to_market X pf mint mark of
       None \<Rightarrow> None
     | Some (Inl _, pf') \<Rightarrow> Some (Inr (cache, pf'), st)
     | Some (Inr _, pf') \<Rightarrow>
        map_option (\<lambda>(pf'', st').
            (Inr (if fresh then cache_quote mint q (me_instant me) cache else cache, pf''), st'))
          (monitor_decide X me E dbg c mint p remaining token_dec (q_price_impact_bps q) mark pf'
             st)))))))"

fun monitor_positions ::
    "ext \<Rightarrow> 'v monitor_env \<Rightarrow> (string \<Rightarrow> exec_env) \<Rightarrow> (string option \<Rightarrow> string) \<Rightarrow> config
     \<Rightarrow> string list \<Rightarrow> quote_cache \<Rightarrow> portfolio \<Rightarrow> store
     \<Rightarrow> ((string + unit) \<times> quote_cache \<times> store) option" where
  "monitor_positions X me E dbg c [] cache pf st = Some (Inr (), cache, st)"
| "monitor_positions X me E dbg c (mint # mints) cache pf st =
    (case monitor_position X me (E mint) dbg c mint cache pf st of
       None \<Rightarrow> None
     | Some (Inl e, st') \<Rightarrow> Some (Inl e, cache, st')
     | Some (Inr (cache', pf'), st') \<Rightarrow> monitor_positions X me E dbg c mints cache' pf' st')"

section \<open>The cycle\<close>

definition monitor_tick ::
    "ext \<Rightarrow> 'v monitor_env \<Rightarrow> (string option \<Rightarrow> string) \<Rightarrow> config \<Rightarrow> quote_cache \<Rightarrow> store
     \<Rightarrow> ((string + unit) \<times> quote_cache \<times> store) option" where
  "monitor_tick X me dbg c cache st =
    (case reconcile_stale_orders X (me_tick me) c st of
       None \<Rightarrow> None
     | Some st1 \<Rightarrow>
    (case me_positions_fault me of
       Some e \<Rightarrow> Some (Inl e, cache, st1)
     | None \<Rightarrow>
    (case load_portfolio st1 of
       Inl _ \<Rightarrow> Some (Inl ''positions cannot be decoded'', cache, st1)
     | Inr pf \<Rightarrow>
    (case me_stop_fault me of
       Some e \<Rightarrow> Some (Inl e, cache, st1)
     | None \<Rightarrow>
    (case kill_switch_reason st1 of
       Inl _ \<Rightarrow> Some (Inl ''kill switch cannot be decoded'', cache, st1)
     | Inr _ \<Rightarrow> monitor_positions X me (te_exec (me_tick me) []) dbg c
                 (map p_mint (open_positions_of pf)) cache pf st1)))))"

text \<open>The loop over the cycles until the shutdown: a failed cycle is logged, what it reached kept.\<close>

fun monitor_run ::
    "ext \<Rightarrow> (string option \<Rightarrow> string) \<Rightarrow> config \<Rightarrow> 'v monitor_env list \<Rightarrow> quote_cache \<Rightarrow> store
     \<Rightarrow> (quote_cache \<times> store) option" where
  "monitor_run X dbg c [] cache st = Some (cache, st)"
| "monitor_run X dbg c (me # mes) cache st =
    (case monitor_tick X me dbg c cache st of
       None \<Rightarrow> None
     | Some (_, cache', st') \<Rightarrow> monitor_run X dbg c mes cache' st')"

section \<open>Facts\<close>

lemma monitor_liquidity_rows:
  "monitor_liquidity X te c mint r td mark imp st = Some (liq, st')
     \<Longrightarrow> order_rows st' = order_rows st"
  by (auto simp: monitor_liquidity_def bind_Some_iff split: option.split_asm)

lemma save_position_rows [simp]: "order_rows (save_position p st) = order_rows st"
  by (simp add: save_position_def kv_put_def)

lemma exit_adds_row:
  assumes "execute_exit_order X E dbg ft c now uuid mint reason st pf = Some (res, st', pf')"
    and "order_rows st' \<noteq> order_rows st"
  shows "\<exists>xp ord. order_rows st' = order_rows st @ [row_of ord now] \<and> o_kind ord = Exit
    \<and> o_mint ord = mint \<and> o_position_id ord = p_position_id (xp_position xp)
    \<and> (\<exists>stored. positions st = Inr stored \<and> plan_exit ft st mint stored = Inr xp)"
proof -
  obtain stored xp mark where s: "positions st = Inr stored" "plan_exit ft st mint stored = Inr xp"
    and ran: "exit_ran X ft now reason (xp_position xp) (order_rows st)
         (exit_order X uuid now mint reason xp mark) st pf res st' pf'"
    using execute_exit_order_cases [OF assms(1)] assms(2) by blast
  from ran obtain ord where "tail_order (order_rows st) st' ord now"
    "same_order (exit_order X uuid now mint reason xp mark) ord" unfolding exit_ran_def by blast
  with s show ?thesis
    by (intro exI [of _ xp] exI [of _ ord]) (auto simp: tail_order_def same_order_def exit_order_def)
qed

text \<open>The store after the mark has been saved, or not, and what decides over the sale in it.\<close>

definition saved_mark :: "'v monitor_env \<Rightarrow> string \<Rightarrow> portfolio \<Rightarrow> store \<Rightarrow> store" where
  "saved_mark me mint pf st = (case position_of pf mint of
      None \<Rightarrow> st
    | Some marked \<Rightarrow> if me_save_fault me mint then st else save_position marked st)"

definition sale_is_due ::
    "ext \<Rightarrow> 'v monitor_env \<Rightarrow> config \<Rightarrow> string \<Rightarrow> position \<Rightarrow> u64 \<Rightarrow> u8 \<Rightarrow> u32 \<Rightarrow> decimal \<Rightarrow> portfolio
     \<Rightarrow> store \<Rightarrow> exit_kind \<Rightarrow> store \<Rightarrow> bool" where
  "sale_is_due X me c mint p remaining token_dec impact mark pf st k st2 \<longleftrightarrow>
     (\<exists>liquidity. monitor_liquidity X (me_tick me) c mint remaining token_dec mark impact
           (saved_mark me mint pf st) = Some (liquidity, st2)
        \<and> exit_reason X p mark liquidity (min_liquidity_usd (risk c))
            (signal_invalidated (te_invalidated_fault (me_tick me) mint) st2 (p_signal_id p))
            (te_now (me_tick me)) (strategy c) = Some (Some k))"

lemma saved_mark_rows [simp]: "order_rows (saved_mark me mint pf st) = order_rows st"
  by (simp add: saved_mark_def split: option.split)

lemma monitor_decide_cases:
  assumes "monitor_decide X me E dbg c mint p remaining td imp mark pf st = Some (pf', st')"
  shows "order_rows st' = order_rows st
    \<or> (\<exists>k st2 res. sale_is_due X me c mint p remaining td imp mark pf st k st2
       \<and> order_rows st2 = order_rows st
       \<and> execute_exit_order X E dbg (te_faults (me_tick me) mint) c (te_now (me_tick me))
           (te_exit_ids (me_tick me) mint) mint (as_str k) st2 pf = Some (res, st', pf'))"
proof -
  let ?te = "me_tick me"
  note d = monitor_decide_def Let_def saved_mark_def [symmetric]
  obtain liquidity st2 where l: "monitor_liquidity X ?te c mint remaining td mark imp
      (saved_mark me mint pf st) = Some (liquidity, st2)"
    using assms by (auto simp: d split: option.split_asm)
  have r2: "order_rows st2 = order_rows st" using monitor_liquidity_rows [OF l] by simp
  let ?inv = "signal_invalidated (te_invalidated_fault ?te mint) st2 (p_signal_id p)"
  obtain reason where e: "exit_reason X p mark liquidity (min_liquidity_usd (risk c)) ?inv
      (te_now ?te) (strategy c) = Some reason"
    using assms l by (auto simp: d split: option.split_asm)
  show ?thesis
  proof (cases reason)
    case None
    then show ?thesis using assms l e r2 by (simp add: d)
  next
    case (Some k)
    then obtain res where "execute_exit_order X E dbg (te_faults ?te mint) c (te_now ?te)
        (te_exit_ids ?te mint) mint (as_str k) st2 pf = Some (res, st', pf')"
      using assms l e by (auto simp: d)
    moreover have "sale_is_due X me c mint p remaining td imp mark pf st k st2"
      using l e Some by (auto simp: sale_is_due_def)
    ultimately show ?thesis using r2 by blast
  qed
qed

lemma monitor_position_cases:
  assumes "monitor_position X me E dbg c mint cache pf st = Some (res, st')"
  obtains (stays) "st' = st"
    | (decides) p remaining price bd td base q fresh mark pf1 pf2 cache' where
        "position_of pf mint = Some p" "has_inflight_exit (me_tick me) st p = Inr False"
        "markable p = Some (remaining, price, bd, td, base)"
        "monitor_quote c (me_instant me) E cache mint base remaining = Some (q, fresh)"
        "monitor_mark X (q_output_amount q) remaining bd td price = Some (Some mark)"
        "monitor_decide X me E dbg c mint p remaining td (q_price_impact_bps q) mark pf1 st
          = Some (pf2, st')" "res = Inr (cache', pf2)"
        "\<exists>u. mark_to_market X pf mint mark = Some (Inr u, pf1)"
  using assms unfolding monitor_position_def
  by (auto split: option.split_asm if_split_asm sum.split_asm bool.split_asm prod.split_asm)

lemma monitor_position_adds:
  assumes "monitor_position X me E dbg c mint cache pf st = Some (res, st')"
  shows "adds Exit st st'"
  using assms
proof (cases rule: monitor_position_cases)
  case stays
  then show ?thesis by (simp add: adds_refl)
next
  case decides
  from monitor_decide_cases [OF decides(6)] show ?thesis
    by (elim disjE exE conjE) (erule adds_refl, erule adds_rows_same, erule execute_exit_order_adds)
qed

text \<open>Ending an order with another text leaves the same states.\<close>

definition same_states :: "store \<Rightarrow> store \<Rightarrow> bool" where
  "same_states st st' \<longleftrightarrow> kv st' = kv st \<and> fill_rows st' = fill_rows st
     \<and> map (\<lambda>r. (row_id r, row_state r)) (order_rows st')
         = map (\<lambda>r. (row_id r, row_state r)) (order_rows st)"

lemma same_states_refl [simp]: "same_states st st"
  by (simp add: same_states_def)

lemma transition_text:
  "o_state (transition_or_keep (ord\<lparr>o_error := m\<rparr>) s) = o_state (transition_or_keep ord s)"
  by (simp add: transition_or_keep_def transition_def)

lemma end_order_text:
  "same_states (snd (end_order ft now ord m1 target v1 st)) (snd (end_order ft now ord m2 target v2 st))"
  by (simp add: end_order_def Let_def transition_text same_states_def update_order_def comp_def
      if_distrib cong: if_cong)

lemma give_up_ids [simp]: "map row_id (order_rows (give_up ft now ord m s st)) = map row_id (order_rows st)"
  using end_order_Inr(3) [of ft now ord m s VFailed st] unfolding give_up_def
  by (metis surj_pair snd_conv)

lemma give_up_kv [simp]: "kv (give_up ft now ord m s st) = kv st"
  using end_order_Inr(1) [of ft now ord m s VFailed st] unfolding give_up_def
  by (metis surj_pair snd_conv)

lemma duration_seconds_secs: "duration_seconds n = Some d \<Longrightarrow> d = secs n"
  by (simp add: duration_seconds_def split: if_split_asm)

lemma give_up_like_end_order:
  assumes "end_order ft now ord m1 s v st = (r, st1)" "st2 = give_up ft now ord m2 s st"
  shows "same_states st1 st2"
  using end_order_text [of ft now ord m1 s v st m2 VFailed] assms by (simp add: give_up_def)

lemma stale_live_like_session:
  assumes "reconcile_live X C ft c now owner ord sig st = Some (res, st1)"
    and "reconcile_stale_live X C ft c now owner ord sig st = Some st2"
  shows "same_states st1 st2"
proof (cases "\<exists>own inp out e. owner = Some own \<and> o_input_mint ord = Some inp
       \<and> o_output_mint ord = Some out \<and> o_input_amount_atomic ord = Some e")
  case False
  then show ?thesis using assms
    by (auto simp: reconcile_live_def reconcile_stale_live_def split: option.split_asm)
next
  case True
  then obtain own inp out e where r: "owner = Some own" "o_input_mint ord = Some inp"
    "o_output_mint ord = Some out" "o_input_amount_atomic ord = Some e" by blast
  define a where "a = reconcile_signature (cr_json C) (cr_status C) (cr_transaction C) sig inp out own e"
  note d = reconcile_live_def reconcile_stale_live_def r a_def [symmetric]
  consider (pending) "a = Inr None" | (fill) outcome where "a = Inr (Some outcome)"
    | (failed) f where "a = Inl f" by (cases a) auto
  then show ?thesis
  proof cases
    case pending
    with assms give_up_like_end_order duration_seconds_secs show ?thesis
      by (fastforce simp: d bind_Some_iff split: if_split_asm)
  next
    case fill
    with assms show ?thesis by (auto simp: d)
  next
    case failed
    with assms give_up_like_end_order show ?thesis by (cases f) (fastforce simp: d)+
  qed
qed

text \<open>
  C12: The two loops agree on live orders. What the
  session's reconciliation of an open order leaves in the store, the monitor's leaves too: the same
  positions, fills and states of every order; only the text of an error may differ.
\<close>

theorem monitor_reconciles_like_session:
  assumes "reconcile_order X C ft c now True owner ord st = Some (res, st1)"
    and "reconcile_stale_order X C ft c now True owner ord st = Some st2"
  shows "same_states st1 st2"
proof (cases "o_signature ord")
  case None
  then show ?thesis using assms give_up_like_end_order duration_seconds_secs
    by (fastforce simp: reconcile_order_def reconcile_stale_order_def bind_Some_iff
        split: if_split_asm)
next
  case (Some sig)
  then show ?thesis using assms stale_live_like_session
    by (simp add: reconcile_order_def reconcile_stale_order_def)
qed

lemma reconcile_stale_order_ids:
  assumes "reconcile_stale_order X C ft c now live owner ord st = Some st'"
  shows "map row_id (order_rows st') = map row_id (order_rows st)"
proof -
  have live: "map row_id (order_rows st') = map row_id (order_rows st)"
    if "reconcile_stale_live X C ft c now owner ord sig st = Some st'" for sig
    using that record_reconciled_fill_cases
    by (fastforce simp: reconcile_stale_live_def bind_Some_iff
        split: option.split_asm sum.split_asm execution_error.split_asm if_split_asm)
  show ?thesis
    using assms live
    by (auto simp: reconcile_stale_order_def bind_Some_iff split: option.split_asm if_split_asm)
qed

lemma reconcile_stale_list_ids:
  "reconcile_stale_list X C fts c now live owner ords st = Some st' \<Longrightarrow>
     map row_id (order_rows st') = map row_id (order_rows st)"
proof (induction ords arbitrary: st)
  case (Cons ord ords)
  then obtain st1 where "reconcile_stale_order X C (fts ord) c now live owner ord st = Some st1"
    "reconcile_stale_list X C fts c now live owner ords st1 = Some st'"
    by (auto split: option.split_asm)
  then show ?case using Cons.IH [of st1] reconcile_stale_order_ids by metis
qed simp

lemma monitor_positions_adds:
  "monitor_positions X me E dbg c mints cache pf st = Some (res, cache', st') \<Longrightarrow> adds Exit st st'"
proof (induction mints arbitrary: cache pf st)
  case (Cons mint mints)
  obtain r st1 where one: "monitor_position X me (E mint) dbg c mint cache pf st = Some (r, st1)"
    using Cons.prems by (auto split: option.split_asm)
  have rest: "st' = st1
      \<or> (\<exists>cache1 pf1. monitor_positions X me E dbg c mints cache1 pf1 st1 = Some (res, cache', st'))"
    using Cons.prems one by (cases r) (auto split: prod.split_asm)
  from rest Cons.IH monitor_position_adds [OF one] show ?case using adds_trans by blast
qed (simp add: adds_refl)

text \<open>A cycle of the monitor adds nothing but exits to the orders.\<close>

lemma monitor_tick_adds:
  assumes "monitor_tick X me dbg c cache st = Some (res, cache', st')"
  shows "list_all (\<lambda>r. row_id r \<in> row_id ` set (order_rows st) \<or> o_kind (row_payload r) = Exit)
    (order_rows st')"
proof -
  obtain st1 where r: "reconcile_stale_orders X (me_tick me) c st = Some st1"
    and a: "adds Exit st1 st'"
    using assms monitor_positions_adds
    by (fastforce simp: monitor_tick_def adds_refl split: option.split_asm sum.split_asm)
  have "map row_id (order_rows st1) = map row_id (order_rows st)"
    using r reconcile_stale_list_ids
    by (fastforce simp: reconcile_stale_orders_def split: if_split_asm)
  then have "row_id ` set (order_rows st1) = row_id ` set (order_rows st)"
    by (metis list.set_map)
  then show ?thesis using a unfolding adds_def list_all_iff
    by (metis (no_types, lifting) Un_iff imageI set_append)
qed

section \<open>Properties\<close>

text \<open>
  C11: The monitor sells only for a reason. When it
  writes an order for a position, the position is open with a trusted quantity and no exit in
  flight; it was marked with the quote, fresh or cached, for that quantity; and with this mark, the
  liquidity the monitor found (the stored one, or one estimated from this mark and the impact of
  this quote) and the invalidation stored for the signal, one of the exit rules fired. The sale is
  tried for exactly that reason, and it writes one order, an exit for the mint.
\<close>

theorem monitor_orders_are_justified:
  assumes "monitor_position X me E dbg c mint cache pf st = Some (res, st')"
    and "order_rows st' \<noteq> order_rows st"
  shows "\<exists>p remaining price base_dec token_dec base q fresh mark u pf1 k st2 r pf2 ord.
      position_of pf mint = Some p \<and> p_state p = PosOpen \<and> trusted_remaining p = Some remaining
    \<and> \<not> list_ex (same_exit p) (incomplete_orders st)
    \<and> markable p = Some (remaining, price, base_dec, token_dec, base)
    \<and> monitor_quote c (me_instant me) E cache mint base remaining = Some (q, fresh)
    \<and> monitor_mark X (q_output_amount q) remaining base_dec token_dec price = Some (Some mark)
    \<and> mark_to_market X pf mint mark = Some (Inr u, pf1)
    \<and> sale_is_due X me c mint p remaining token_dec (q_price_impact_bps q) mark pf1 st k st2
    \<and> execute_exit_order X E dbg (te_faults (me_tick me) mint) c (te_now (me_tick me))
        (te_exit_ids (me_tick me) mint) mint (as_str k) st2 pf1 = Some (r, st', pf2)
    \<and> order_rows st' = order_rows st @ [row_of ord (te_now (me_tick me))]
    \<and> o_kind ord = Exit \<and> o_mint ord = mint"
  using assms(1)
proof (cases rule: monitor_position_cases)
  case stays
  then show ?thesis using assms(2) by simp
next
  case (decides p remaining price bd td base q fresh mark pf1 pf2 cache')
  have p: "p_state p = PosOpen" "trusted_remaining p = Some remaining"
    "\<not> list_ex (same_exit p) (incomplete_orders st)"
    using decides(2,3)
    by (auto simp: markable_def has_inflight_exit_def split: if_split_asm option.split_asm)
  obtain k st2 r where
      e: "sale_is_due X me c mint p remaining td (q_price_impact_bps q) mark pf1 st k st2"
    and r: "order_rows st2 = order_rows st"
    and x: "execute_exit_order X E dbg (te_faults (me_tick me) mint) c (te_now (me_tick me))
        (te_exit_ids (me_tick me) mint) mint (as_str k) st2 pf1 = Some (r, st', pf2)"
    using monitor_decide_cases [OF decides(6)] assms(2) by blast
  obtain ord where "order_rows st' = order_rows st @ [row_of ord (te_now (me_tick me))]"
    "o_kind ord = Exit" "o_mint ord = mint"
    using exit_adds_row [OF x] assms(2) r by auto
  with decides(1,3-5,8) p e x show ?thesis by blast
qed

text \<open>
  A cached quote is for the quantity held when it was
  fetched. While it is fresh the monitor uses its output for whatever quantity is left: when \<open>m0\<close> is
  the mark of the quantity \<open>r0\<close> the quote was made for, the mark of the quantity \<open>r\<close> now held is
  \<open>m0\<close> times \<open>r0 / r\<close>. After half of a position has been sold, its price seems to have doubled.
\<close>

theorem cached_quote_misprices:
  assumes "cached_quote c inst cache mint = Some q"
    and "monitor_mark exact_ext (q_output_amount q) r0 bd td price = Some (Some m0)"
    and "monitor_mark exact_ext (q_output_amount q) r bd td price = Some (Some m)"
  shows "monitor_quote c inst E cache mint base r = Some (q, False)
    \<and> m = m0 * dec_of_word r0 / dec_of_word r"
proof -
  obtain b d where "checked_pow10 bd = Some b" "checked_pow10 td = Some d"
    "m = dec_of_word (q_output_amount q) / dec_of_word b * price / (dec_of_word r / dec_of_word d)"
    "m0 = dec_of_word (q_output_amount q) / dec_of_word b * price / (dec_of_word r0 / dec_of_word d)"
    "dec_of_word r / dec_of_word d \<noteq> 0" "dec_of_word r0 / dec_of_word d \<noteq> 0"
    using assms(2,3)
    by (auto simp: monitor_mark_def units_def bind_Some_iff fit_Some
        split: option.split_asm if_split_asm)
  then show ?thesis using assms(1)
    by (simp add: monitor_quote_def field_simps)
qed

section \<open>Sample runs\<close>

definition sample_me :: "jval monitor_env" where
  "sample_me = \<lparr>me_tick = sample_te [], me_instant = 0, me_positions_fault = None,
     me_stop_fault = None, me_save_fault = (\<lambda>_. True)\<rparr>"

lemma held_exit_order:
  "\<exists>res st' pf'. execute_exit_order exact_ext (sample_exec (Inl (UnknownOutcome None ''late''))) dbg
       no_faults (example_config Paper) 0 uuid ''m'' reason held_store pf = Some (res, st', pf')
     \<and> order_rows st' \<noteq> []"
proof -
  define ord where "ord = exit_order exact_ext uuid 0 ''m'' reason held_xp 50"
  have "order_problem ord = None"
    by (simp add: order_problem_def ord_def exit_order_def sample_position_def)
  then have r: "reserve_order ord 0 held_store = (Inr True, held_store\<lparr>order_rows := [row_of ord 0]\<rparr>)"
    by (simp add: reserve_order_def held_store_def empty_store_def)
  have "units exact_ext 500 2 = Some (Inr 5)" "dec_mul exact_ext 5 10 = Some 50"
    by (simp_all add: units_def checked_pow10_def dec_of_word_def fit_def dec_max_def)
  then have "execute_exit_order exact_ext (sample_exec (Inl (UnknownOutcome None ''late''))) dbg
       no_faults (example_config Paper) 0 uuid ''m'' reason held_store pf
     = run_exit exact_ext (sample_exec (Inl (UnknownOutcome None ''late''))) dbg no_faults
         (example_config Paper) 0 ''m'' reason [sample_position] held_xp ord
         (held_store\<lparr>order_rows := [row_of ord 0]\<rparr>) pf"
    using r by (simp add: execute_exit_order_def held_positions held_plan ord_def Let_def)
  moreover have "\<exists>st'. run_exit exact_ext (sample_exec (Inl (UnknownOutcome None ''late''))) dbg
       no_faults (example_config Paper) 0 ''m'' reason [sample_position] held_xp ord
       (held_store\<lparr>order_rows := [row_of ord 0]\<rparr>) pf
      = Some (ExitUnknown, st', pf) \<and> order_rows st' \<noteq> []"
    by (simp add: run_exit_def held_submit(1) persist_def update_order_def sample_quote_def Let_def)
  ultimately show ?thesis by auto
qed

lemma sample_monitor_order:
  "\<exists>res st'. monitor_position exact_ext sample_me (sample_exec (Inl (UnknownOutcome None ''late'')))
      Option.the (example_config Paper) ''m'' [] [(''m'', sample_position)] held_store
    = Some (res, st') \<and> order_rows st' \<noteq> []"
proof -
  let ?E = "sample_exec (Inl (UnknownOutcome None ''late''))"
  let ?p = sample_position and ?c = "example_config Paper"
  have p: "position_of [(''m'', ?p)] ''m'' = Some ?p" "p_state ?p = PosOpen"
    "trusted_remaining ?p = Some 500" "markable ?p = Some (500, 10, 3, 2, ''sol'')"
    by (simp_all add: position_of_def sample_position_def trusted_remaining_def is_open_def
        quantity_is_trusted_def markable_def)
  have i: "has_inflight_exit (me_tick sample_me) held_store ?p = Inr False"
    by (simp add: has_inflight_exit_def sample_me_def incomplete_orders_def held_store_def
        save_position_def kv_put_def empty_store_def)
  have q: "monitor_quote ?c (me_instant sample_me) ?E [] ''m'' ''sol'' 500
      = Some (sample_quote, True)"
    by (simp add: monitor_quote_def cached_quote_def Let_def)
  have m: "monitor_mark exact_ext (q_output_amount sample_quote) 500 3 2 10 = Some (Some 20)"
    by (simp add: monitor_mark_def units_def checked_pow10_def sample_quote_def dec_of_word_def
        fit_def dec_max_def)
  obtain v pf where mk: "mark_to_market exact_ext [(''m'', ?p)] ''m'' 20 = Some (Inr v, pf)"
    by (simp add: mark_to_market_def sample_position_def dec_of_word_def fit_def dec_max_def)
  have liq: "\<exists>l. monitor_liquidity exact_ext (me_tick sample_me) ?c ''m'' 500 2 20 30 held_store
      = Some (Some l, held_store) \<and> l < 50000"
  proof -
    have "last_liquidity held_store ''m'' = Inr None"
      by (simp add: last_liquidity_def held_store_def save_position_def kvs.look_put position_key_def)
        (simp add: kv_look_def empty_store_def)
    then have "persisted_liquidity f ?c 0 held_store ''m'' = Some None" for f
      by (simp add: persisted_liquidity_def)
    moreover have "pow10_u64 exact_ext 2 = Some 100"
      by (simp add: pow10_u64_def checked_pow10_def)
    moreover have "\<lfloor>20000003 / 6 :: rat\<rfloor> = 3333333" by (rule floor_unique) simp_all
    then have "estimate_liquidity_usd exact_ext 100 30 = Some (3333333 / 100)"
      by (simp add: estimate_liquidity_usd_def dec_of_word_def fit_def dec_max_def)
        (simp add: exact_ext_def rounding_ext_def)
    ultimately have "monitor_liquidity exact_ext (me_tick sample_me) ?c ''m'' 500 2 20 30 held_store
        = Some (Some (3333333 / 100), held_store)"
      by (simp add: monitor_liquidity_def sample_me_def note_liquidity_def dec_of_word_def fit_def
          dec_max_def)
    then show ?thesis by (intro exI [of _ "3333333 / 100"]) simp
  qed
  then obtain l where l: "monitor_liquidity exact_ext (me_tick sample_me) ?c ''m'' 500 2 20 30
      held_store = Some (Some l, held_store)" "l < 50000" by blast
  have sv: "me_save_fault sample_me ''m''" "te_faults (me_tick sample_me) ''m'' = no_faults"
    "te_now (me_tick sample_me) = 0" "q_price_impact_bps sample_quote = 30"
    by (simp_all add: sample_me_def sample_quote_def)
  obtain res st' pf' where x: "execute_exit_order exact_ext ?E Option.the no_faults ?c 0
      (te_exit_ids (me_tick sample_me) ''m'') ''m'' (as_str LiquidityDeterioration) held_store pf
      = Some (res, st', pf')" "order_rows st' \<noteq> []" using held_exit_order by blast
  have "monitor_decide exact_ext sample_me ?E Option.the ?c ''m'' ?p 500 2 30 20 pf held_store
      = Some (pf', st')"
    using l x sv by (simp add: monitor_decide_def exit_reason_def Let_def split: option.split)
  then show ?thesis using p i q m mk sv x(2)
    by (simp add: monitor_position_def)
qed

text \<open>In this run the mark is 20 and the estimated liquidity is too low.\<close>

theorem monitor_orders_are_justified_witness:
  "\<exists>res st' k st2 pf1 ord. monitor_position exact_ext sample_me
      (sample_exec (Inl (UnknownOutcome None ''late''))) Option.the (example_config Paper) ''m'' []
      [(''m'', sample_position)] held_store = Some (res, st')
    \<and> sale_is_due exact_ext sample_me (example_config Paper) ''m'' sample_position 500 2 30 20 pf1
        held_store k st2
    \<and> order_rows st' = [row_of ord 0] \<and> o_kind ord = Exit \<and> o_mint ord = ''m''"
proof -
  let ?E = "sample_exec (Inl (UnknownOutcome None ''late''))" and ?c = "example_config Paper"
  obtain res st' where run: "monitor_position exact_ext sample_me ?E Option.the ?c ''m'' []
      [(''m'', sample_position)] held_store = Some (res, st')"
    "order_rows st' \<noteq> []" using sample_monitor_order by blast
  have h: "order_rows held_store = []" "te_now (me_tick sample_me) = 0"
    by (simp_all add: held_store_def empty_store_def sample_me_def)
  have p: "position_of [(''m'', sample_position)] ''m'' = Some sample_position"
    "markable sample_position = Some (500, 10, 3, 2, ''sol'')"
    by (simp_all add: position_of_def sample_position_def trusted_remaining_def is_open_def
        quantity_is_trusted_def markable_def)
  have q: "monitor_quote ?c (me_instant sample_me) ?E [] ''m'' ''sol'' 500 = Some (sample_quote, True)"
    by (simp add: monitor_quote_def cached_quote_def Let_def)
  have m: "monitor_mark exact_ext (q_output_amount sample_quote) 500 3 2 10 = Some (Some 20)"
    by (simp add: monitor_mark_def units_def checked_pow10_def sample_quote_def dec_of_word_def
        fit_def dec_max_def)
  have i: "q_price_impact_bps sample_quote = 30" by (simp add: sample_quote_def)
  from monitor_orders_are_justified [OF run(1)] run(2) h(1) obtain k st2 pf1 ord where
    "sale_is_due exact_ext sample_me ?c ''m'' sample_position 500 2 30 20 pf1 held_store k st2"
    "order_rows st' = [row_of ord 0]" "o_kind ord = Exit" "o_mint ord = ''m''"
    unfolding h(2) by (auto simp: p q m i)
  with run(1) show ?thesis by blast
qed

theorem cached_quote_misprices_witness:
  "monitor_mark exact_ext (q_output_amount sample_quote) 250 3 2 10 = Some (Some 40)
    \<and> monitor_mark exact_ext (q_output_amount sample_quote) 500 3 2 10 = Some (Some 20)
    \<and> (40 :: decimal) = 20 * dec_of_word (500 :: u64) / dec_of_word (250 :: u64)"
proof -
  have c: "cached_quote (example_config Paper) 0 [(''m'', sample_quote, 0)] ''m'' = Some sample_quote"
    by (simp add: cached_quote_def example_config_def runtime_default_def
        default_quote_cache_ttl_def)
  have m: "monitor_mark exact_ext (q_output_amount sample_quote) 500 3 2 10 = Some (Some 20)"
    "monitor_mark exact_ext (q_output_amount sample_quote) 250 3 2 10 = Some (Some 40)"
    by (simp_all add: monitor_mark_def units_def checked_pow10_def sample_quote_def dec_of_word_def
        fit_def dec_max_def)
  from cached_quote_misprices [OF c m] m show ?thesis by simp
qed

theorem monitor_reconciles_like_session_witness:
  "\<exists>res st1 st2. reconcile_order exact_ext sample_reader no_faults (example_config Live) 0 True None
      live_order empty_store = Some (res, st1)
    \<and> reconcile_stale_order exact_ext sample_reader no_faults (example_config Live) 0 True None
      live_order empty_store = Some st2 \<and> same_states st1 st2"
proof -
  have r: "reconcile_order exact_ext sample_reader no_faults (example_config Live) 0 True None
      live_order empty_store = Some (Inr VUnresolved, empty_store)"
    by (simp add: reconcile_order_def reconcile_live_def)
  have s: "reconcile_stale_order exact_ext sample_reader no_faults (example_config Live) 0 True None
      live_order empty_store = Some empty_store"
    by (simp add: reconcile_stale_order_def reconcile_stale_live_def)
  from monitor_reconciles_like_session [OF r s] r s show ?thesis by blast
qed

end
