(* ===== verification/Swap_Parser.thy ===== *)
theory Swap_Parser
  imports Token_Data
begin

text \<open>
  \<open>src/collector/swap_parser.rs\<close>: the swap of a wallet, read off the balances in the metadata of a
  confirmed transaction. JSON values are accessed through the record of \<open>Reconcile\<close>. A hash map is
  an association list; the order in which the code meets the mints of its maps is an argument. The
  outer option of a result is None when the code panics.
\<close>

section \<open>Programs and results\<close>

definition dex_programs :: "(string \<times> string) list" where
  "dex_programs =
    [(''JUP6LkbZbjS1jKKwapdHNy74zcZ3tLUZoi5QNyVTaV4'', ''jupiter_v6''),
     (''JUP4Fb2cqiRUcaTHdrPC8h2gNsA2ETXiPDD33WcGuJB'', ''jupiter_v4''),
     (''JUP3jqKShLTC4TXbKQ9sRMSMgGKHGSuR3wHkJz2Bjqp'', ''jupiter_v3''),
     (''675kPX9MHTjS2zt1qfr1NYHuzeLXfQM9H24wFSUt1Mp8'', ''raydium_amm''),
     (''CAMMCzo5YL8w4VFF8KVHrK22GGUsp5VTaW7grrKgrWqK'', ''raydium_clmm''),
     (''CPMMoo8L3F4NbTegBCKVNunggL7H1ZpdTHKxQB5qKP1C'', ''raydium_cpmm''),
     (''whirLbMiicVdio4qvUfM5KAg6Ct8VwpYzGff3uctyCc'', ''orca_whirlpool''),
     (''PhoeNiXZ8ByJGLkxNfZRnkUfjvmuYqLR89jjFHGqdXY'', ''phoenix''),
     (''LBUZKhRxPF3XUpBCjp4YzTKgLccjZhTSK9PK88t2jzdc'', ''meteora_dlmm''),
     (''Eo7WjKq67rjJQSZxS6z3YkapzS3LLjgeF31Rr9oFk7JE'', ''meteora_dyn_amm''),
     (''SSwapUtyTFBdGF1rCvjz4wp4Y8tE1dPi54Fo8SPauX6'', ''saber''),
     (''SwaPpA9LAaLfeLi3a68M4DjnLqgtticKg6CnyNwgAC8'', ''saber''),
     (''jupiter6ooCZ...ignored'', ''ignore'')]"

datatype swap_direction = SwapBuy | SwapSell

record parsed_swap =
  sw_wallet :: string
  sw_input_mint :: string
  sw_output_mint :: string
  sw_input_amount :: u64
  sw_output_amount :: u64
  sw_input_decimals :: u8
  sw_output_decimals :: u8
  sw_direction :: swap_direction
  sw_fee_lamports :: u64
  sw_dex :: string
  sw_slot :: u64
  sw_block_time :: int
  sw_signature :: string

section \<open>Reading the transaction\<close>

definition extract_pubkey :: "'v json \<Rightarrow> 'v \<Rightarrow> string option" where
  "extract_pubkey J key = (case jv_str J key of
      Some s \<Rightarrow> Some s
    | None \<Rightarrow> jv_str J (jv_index J key ''pubkey''))"

text \<open>The map of one owner: amounts of a mint add up with saturation, the first decimals stay.\<close>

type_synonym token_map = "(string \<times> u64 \<times> u8) list"

definition add_balance :: "'v json \<Rightarrow> string \<Rightarrow> 'v \<Rightarrow> token_map \<Rightarrow> token_map" where
  "add_balance J wallet entry m =
    (if jv_str J (jv_index J entry ''owner'') \<noteq> Some wallet then m
     else case jv_str J (jv_index J entry ''mint'') of
       None \<Rightarrow> m
     | Some mint \<Rightarrow>
       (let ui = jv_index J entry ''uiTokenAmount'';
            amount = (case Option.bind (jv_str J (jv_index J ui ''amount'')) parse_u64 of
                        None \<Rightarrow> 0 | Some a \<Rightarrow> a);
            decs = (case jv_u64 J (jv_index J ui ''decimals'') of None \<Rightarrow> 0 | Some d \<Rightarrow> ucast d)
        in AList.update mint (case map_of m mint of
              None \<Rightarrow> (sat_add 0 amount, decs)
            | Some (a, d) \<Rightarrow> (sat_add a amount, d)) m))"

definition parse_token_balances_for_owner :: "'v json \<Rightarrow> 'v \<Rightarrow> string \<Rightarrow> token_map" where
  "parse_token_balances_for_owner J bals wallet = (case jv_array J bals of
      None \<Rightarrow> []
    | Some arr \<Rightarrow> fold (add_balance J wallet) arr [])"

text \<open>The strings of an array; indexing the object by a missing key panics.\<close>

definition loaded_strings :: "'v json \<Rightarrow> 'v \<Rightarrow> string \<Rightarrow> string list option" where
  "loaded_strings J loaded key = (case jv_get J loaded key of
      None \<Rightarrow> None
    | Some v \<Rightarrow> Some (case jv_array J v of None \<Rightarrow> [] | Some ks \<Rightarrow> List.map_filter (jv_str J) ks))"

definition build_all_account_keys :: "'v json \<Rightarrow> 'v \<Rightarrow> string list option option" where
  "build_all_account_keys J tx =
    (let msg = jv_index J (jv_index J tx ''transaction'') ''message'';
         loaded = jv_index J (jv_index J tx ''meta'') ''loadedAddresses''
     in case jv_array J (jv_index J msg ''accountKeys'') of
       None \<Rightarrow> Some None
     | Some ks \<Rightarrow>
       (let keys = List.map_filter (extract_pubkey J) ks in
        if jv_object J loaded then do {
          w \<leftarrow> loaded_strings J loaded ''writable'';
          r \<leftarrow> loaded_strings J loaded ''readonly'';
          Some (Some (keys @ w @ r))
        }
        else Some (Some keys)))"

section \<open>The exchange\<close>

definition dex_of_key :: "string \<Rightarrow> string option" where
  "dex_of_key k = map_of dex_programs k"

definition instruction_dex :: "'v json \<Rightarrow> string list \<Rightarrow> 'v \<Rightarrow> string option" where
  "instruction_dex J keys ix = (case jv_u64 J (jv_index J ix ''programIdIndex'') of
      None \<Rightarrow> None
    | Some pid \<Rightarrow> (case Option.bind (nth_opt keys (unat pid)) dex_of_key of
        None \<Rightarrow> None
      | Some d \<Rightarrow> if d \<noteq> ''ignore'' then Some d else None))"

definition array_of :: "'v json \<Rightarrow> 'v \<Rightarrow> 'v list" where
  "array_of J v = (case jv_array J v of None \<Rightarrow> [] | Some xs \<Rightarrow> xs)"

definition detect_dex :: "'v json \<Rightarrow> 'v \<Rightarrow> string list \<Rightarrow> string" where
  "detect_dex J tx keys =
    (let msg = jv_index J (jv_index J tx ''transaction'') ''message'';
         top = array_of J (jv_index J msg ''instructions'');
         blocks = array_of J (jv_index J (jv_index J tx ''meta'') ''innerInstructions'');
         inner = concat (map (\<lambda>b. array_of J (jv_index J b ''instructions'')) blocks)
     in case List.map_filter (instruction_dex J keys) (top @ inner) of
       [] \<Rightarrow> ''unknown''
     | d # _ \<Rightarrow> d)"

section \<open>The swap\<close>

definition dust_lamports :: u64 where "dust_lamports = 1000"
definition min_swap_lamports :: int where "min_swap_lamports = 1000"

text \<open>\<open>max_by_key\<close>: of several largest elements the last one.\<close>

fun last_max :: "('a \<Rightarrow> 'b::linorder) \<Rightarrow> 'a list \<Rightarrow> 'a option" where
  "last_max f [] = None"
| "last_max f (x # xs) = (case last_max f xs of
      None \<Rightarrow> Some x
    | Some y \<Rightarrow> if f x > f y then Some x else Some y)"

definition primary :: "(string \<times> u64 \<times> u8) list \<Rightarrow> (string \<times> u64 \<times> u8) option" where
  "primary moved =
    (let amt = (\<lambda>(_, a, _). a) in
     case last_max amt (filter (\<lambda>x. amt x \<ge> dust_lamports) moved) of
       Some x \<Rightarrow> Some x
     | None \<Rightarrow> last_max amt moved)"

definition token_amount :: "token_map \<Rightarrow> string \<Rightarrow> int" where
  "token_amount m mint = (case map_of m mint of None \<Rightarrow> 0 | Some (a, _) \<Rightarrow> int (unat a))"

definition token_decimals_of :: "token_map \<Rightarrow> token_map \<Rightarrow> string \<Rightarrow> u8" where
  "token_decimals_of pre post mint = (case map_of post mint of
      Some (_, d) \<Rightarrow> d
    | None \<Rightarrow> (case map_of pre mint of Some (_, d) \<Rightarrow> d | None \<Rightarrow> 0))"

text \<open>The changes of the tokens other than wrapped SOL, gained and lost.\<close>

definition token_change :: "token_map \<Rightarrow> token_map \<Rightarrow> string \<Rightarrow> int" where
  "token_change pre post mint = token_amount post mint - token_amount pre mint"

definition gained :: "token_map \<Rightarrow> token_map \<Rightarrow> string list \<Rightarrow> (string \<times> u64 \<times> u8) list" where
  "gained pre post mints = map (\<lambda>m. (m, of_int (token_change pre post m), token_decimals_of pre post m))
     (filter (\<lambda>m. m \<noteq> wsol_mint \<and> token_change pre post m > 0) mints)"

definition lost :: "token_map \<Rightarrow> token_map \<Rightarrow> string list \<Rightarrow> (string \<times> u64 \<times> u8) list" where
  "lost pre post mints = map (\<lambda>m. (m, of_int (- token_change pre post m), token_decimals_of pre post m))
     (filter (\<lambda>m. m \<noteq> wsol_mint \<and> token_change pre post m < 0) mints)"

text \<open>What the three cases share, and the cases themselves.\<close>

record swap_context =
  sc_wallet :: string
  sc_fee :: u64
  sc_dex :: string
  sc_slot :: u64
  sc_block_time :: int
  sc_signature :: string

definition make_swap ::
    "swap_context \<Rightarrow> string \<times> u64 \<times> u8 \<Rightarrow> string \<times> u64 \<times> u8 \<Rightarrow> swap_direction \<Rightarrow> parsed_swap" where
  "make_swap k inp out dir = (case (inp, out) of ((im, ia, idc), (om, oa, odc)) \<Rightarrow>
     \<lparr>sw_wallet = sc_wallet k, sw_input_mint = im, sw_output_mint = om, sw_input_amount = ia,
      sw_output_amount = oa, sw_input_decimals = idc, sw_output_decimals = odc, sw_direction = dir,
      sw_fee_lamports = sc_fee k, sw_dex = sc_dex k, sw_slot = sc_slot k,
      sw_block_time = sc_block_time k, sw_signature = sc_signature k\<rparr>)"

definition classify_swap ::
    "swap_context \<Rightarrow> int \<Rightarrow> (string \<times> u64 \<times> u8) list \<Rightarrow> (string \<times> u64 \<times> u8) list
     \<Rightarrow> parsed_swap option" where
  "classify_swap k spent gain loss =
    (if spent > min_swap_lamports \<and> gain \<noteq> []
     then map_option (\<lambda>out. make_swap k (wsol_mint, of_int spent, 9) out SwapBuy) (primary gain)
     else if spent < - min_swap_lamports \<and> loss \<noteq> []
     then map_option (\<lambda>inp. make_swap k inp (wsol_mint, of_int (- spent), 9) SwapSell) (primary loss)
     else if loss \<noteq> [] \<and> gain \<noteq> [] \<and> \<bar>spent\<bar> < min_swap_lamports
     then (case (primary loss, primary gain) of
         (Some inp, Some out) \<Rightarrow> Some (make_swap k inp out
           (if fst inp = wsol_mint then SwapBuy
            else if fst out = wsol_mint then SwapSell else SwapBuy))
       | _ \<Rightarrow> None)
     else None)"

text \<open>The balance of the wallet in lamports before and after.\<close>

definition native_balances :: "'v json \<Rightarrow> 'v \<Rightarrow> nat \<Rightarrow> (u64 \<times> u64) option" where
  "native_balances J meta i = do {
     pres \<leftarrow> jv_array J (jv_index J meta ''preBalances'');
     posts \<leftarrow> jv_array J (jv_index J meta ''postBalances'');
     (if length pres \<noteq> length posts \<or> i \<ge> length pres \<or> i \<ge> length posts then None
      else do {
        pre \<leftarrow> jv_u64 J (pres ! i);
        post \<leftarrow> jv_u64 J (posts ! i);
        Some (pre, post)
      })
   }"

definition default_word :: "u64 option \<Rightarrow> u64" where
  "default_word w = (case w of None \<Rightarrow> 0 | Some x \<Rightarrow> x)"

definition swap_of_balances ::
    "'v json \<Rightarrow> (string list \<Rightarrow> string list) \<Rightarrow> 'v \<Rightarrow> 'v \<Rightarrow> string \<Rightarrow> string list \<Rightarrow> u64 \<Rightarrow> u64
     \<Rightarrow> parsed_swap option" where
  "swap_of_balances J ord tx meta wallet keys pre_sol post_sol =
    (let pre = parse_token_balances_for_owner J (jv_index J meta ''preTokenBalances'') wallet;
         post = parse_token_balances_for_owner J (jv_index J meta ''postTokenBalances'') wallet;
         mints = ord (remdups (map fst pre @ map fst post));
         fee = default_word (jv_u64 J (jv_index J meta ''fee''));
         wsol = (if wsol_mint \<in> set mints then token_change pre post wsol_mint else 0);
         native = int (unat post_sol) - int (unat pre_sol);
         spent = - native - wsol - int (unat fee);
         dex = detect_dex J tx keys
     in if dex = ''unknown'' then None
        else classify_swap
          \<lparr>sc_wallet = wallet, sc_fee = fee, sc_dex = dex,
           sc_slot = default_word (jv_u64 J (jv_index J tx ''slot'')),
           sc_block_time = (case jv_i64 J (jv_index J tx ''blockTime'') of None \<Rightarrow> 0 | Some t \<Rightarrow> t),
           sc_signature = (case Option.bind (jv_array J (jv_index J (jv_index J tx ''transaction'')
               ''signatures'')) (\<lambda>ss. Option.bind (nth_opt ss 0) (jv_str J)) of
               None \<Rightarrow> '''' | Some s \<Rightarrow> s)\<rparr>
          spent (gained pre post mints) (lost pre post mints))"

definition parse_swap_from_transaction ::
    "'v json \<Rightarrow> (string list \<Rightarrow> string list) \<Rightarrow> 'v \<Rightarrow> string \<Rightarrow> parsed_swap option option" where
  "parse_swap_from_transaction J ord tx wallet =
    (case jv_get J tx ''meta'' of
       None \<Rightarrow> Some None
     | Some meta \<Rightarrow>
    (if (case jv_get J meta ''err'' of None \<Rightarrow> False | Some e \<Rightarrow> \<not> jv_null J e) then Some None
     else case build_all_account_keys J tx of
       None \<Rightarrow> None
     | Some None \<Rightarrow> Some None
     | Some (Some keys) \<Rightarrow>
    (case position_where (\<lambda>k. k = wallet) keys of
       None \<Rightarrow> Some None
     | Some i \<Rightarrow>
    (case native_balances J meta i of
       None \<Rightarrow> Some None
     | Some (pre_sol, post_sol) \<Rightarrow>
         Some (swap_of_balances J ord tx meta wallet keys pre_sol post_sol)))))"

section \<open>Facts\<close>

lemma last_max_in: "last_max f xs = Some x \<Longrightarrow> x \<in> set xs"
  by (induction xs arbitrary: x) (auto split: option.split_asm if_split_asm)

lemma last_max_None [simp]: "last_max f xs = None \<longleftrightarrow> xs = []"
  by (cases xs) (auto split: option.split)

lemma last_max_ge: "last_max f xs = Some x \<Longrightarrow> y \<in> set xs \<Longrightarrow> f y \<le> f x"
  by (induction xs arbitrary: x) (fastforce split: option.split_asm if_split_asm)+

lemma primary_in: "primary xs = Some x \<Longrightarrow> x \<in> set xs"
  unfolding primary_def Let_def
  by (auto dest!: last_max_in split: option.split_asm)

text \<open>The primary token is the one with the largest change, dust or not.\<close>

lemma primary_largest:
  assumes "primary xs = Some (m, a, d)" and "(m', a', d') \<in> set xs"
  shows "a' \<le> a"
proof (cases "last_max (\<lambda>(_, a, _). a) (filter (\<lambda>x. (case x of (_, a, _) \<Rightarrow> a) \<ge> dust_lamports) xs)")
  case None
  then show ?thesis using assms last_max_ge [of "\<lambda>(_, a, _). a" xs "(m, a, d)" "(m', a', d')"]
    by (simp add: primary_def)
next
  case (Some x)
  then have x: "x = (m, a, d)" using assms(1) by (simp add: primary_def)
  then have "dust_lamports \<le> a" using last_max_in [OF Some] by auto
  then show ?thesis using last_max_ge [OF Some, of "(m', a', d')"] assms(2) x
    by (cases "dust_lamports \<le> a'") auto
qed

lemma token_amount_bound: "0 \<le> token_amount m mint" "token_amount m mint < 2 ^ 64"
proof -
  have "uint (a :: u64) < 2 ^ 64" for a using uint_lt2p [of a] by simp
  then show "0 \<le> token_amount m mint" "token_amount m mint < 2 ^ 64"
    by (auto simp: token_amount_def split: option.split)
qed

lemma word_of_int_exact: "0 \<le> i \<Longrightarrow> i < 2 ^ 64 \<Longrightarrow> int (unat (of_int i :: u64)) = i"
  by (rule u64_of_int_unat) (simp add: u64_of_int_def)

lemma gained_exact:
  assumes "(m, a, d) \<in> set (gained pre post mints)"
  shows "m \<noteq> wsol_mint" "0 < token_change pre post m" "int (unat a) = token_change pre post m"
proof -
  have a: "a = of_int (token_change pre post m)" and m: "m \<noteq> wsol_mint" "0 < token_change pre post m"
    using assms by (auto simp: gained_def)
  have "token_change pre post m < 2 ^ 64"
    using token_amount_bound(2) [of post m] token_amount_bound(1) [of pre m]
    by (simp add: token_change_def)
  then show "int (unat a) = token_change pre post m" "m \<noteq> wsol_mint" "0 < token_change pre post m"
    using a m word_of_int_exact by simp_all
qed

lemma lost_exact:
  assumes "(m, a, d) \<in> set (lost pre post mints)"
  shows "m \<noteq> wsol_mint" "token_change pre post m < 0" "int (unat a) = - token_change pre post m"
proof -
  have a: "a = of_int (- token_change pre post m)" and m: "m \<noteq> wsol_mint" "token_change pre post m < 0"
    using assms by (auto simp: lost_def)
  have "- token_change pre post m < 2 ^ 64"
    using token_amount_bound(2) [of pre m] token_amount_bound(1) [of post m]
    by (simp add: token_change_def)
  then show "int (unat a) = - token_change pre post m" "m \<noteq> wsol_mint" "token_change pre post m < 0"
    using a m word_of_int_exact [of "- token_change pre post m"] by simp_all
qed

text \<open>What a classified swap says about the balances of its wallet.\<close>

definition swap_matches :: "token_map \<Rightarrow> token_map \<Rightarrow> int \<Rightarrow> parsed_swap \<Rightarrow> bool" where
  "swap_matches pre post spent s \<longleftrightarrow>
     (if sw_input_mint s = wsol_mint
      then min_swap_lamports < spent \<and> sw_input_amount s = of_int spent
      else token_change pre post (sw_input_mint s) < 0
         \<and> int (unat (sw_input_amount s)) = - token_change pre post (sw_input_mint s))
   \<and> (if sw_output_mint s = wsol_mint
      then spent < - min_swap_lamports \<and> sw_output_amount s = of_int (- spent)
      else 0 < token_change pre post (sw_output_mint s)
         \<and> int (unat (sw_output_amount s)) = token_change pre post (sw_output_mint s))
   \<and> \<not> (sw_input_mint s = wsol_mint \<and> sw_output_mint s = wsol_mint)
   \<and> (sw_direction s = SwapSell \<longleftrightarrow> sw_output_mint s = wsol_mint)"

lemma classify_swap_matches:
  assumes "classify_swap k spent (gained pre post mints) (lost pre post mints) = Some s"
  shows "swap_matches pre post spent s" "sw_wallet s = sc_wallet k" "sw_dex s = sc_dex k"
proof -
  consider (buy) om oa od where "primary (gained pre post mints) = Some (om, oa, od)"
      "min_swap_lamports < spent" "s = make_swap k (wsol_mint, of_int spent, 9) (om, oa, od) SwapBuy"
    | (sell) im ia idc where "primary (lost pre post mints) = Some (im, ia, idc)"
      "spent < - min_swap_lamports"
      "s = make_swap k (im, ia, idc) (wsol_mint, of_int (- spent), 9) SwapSell"
    | (swap) im ia idc om oa od dir where "primary (lost pre post mints) = Some (im, ia, idc)"
      "primary (gained pre post mints) = Some (om, oa, od)"
      "dir = (if im = wsol_mint then SwapBuy else if om = wsol_mint then SwapSell else SwapBuy)"
      "s = make_swap k (im, ia, idc) (om, oa, od) dir"
    using assms unfolding classify_swap_def
    by (auto split: if_split_asm option.split_asm)
  then have "swap_matches pre post spent s \<and> sw_wallet s = sc_wallet k \<and> sw_dex s = sc_dex k"
  proof cases
    case buy
    from gained_exact [OF primary_in [OF buy(1)]] buy(2,3) show ?thesis
      by (simp add: swap_matches_def make_swap_def)
  next
    case sell
    from lost_exact [OF primary_in [OF sell(1)]] sell(2,3) show ?thesis
      by (simp add: swap_matches_def make_swap_def)
  next
    case swap
    from lost_exact [OF primary_in [OF swap(1)]] gained_exact [OF primary_in [OF swap(2)]] swap(3,4)
    show ?thesis by (simp add: swap_matches_def make_swap_def)
  qed
  then show "swap_matches pre post spent s" "sw_wallet s = sc_wallet k" "sw_dex s = sc_dex k"
    by simp_all
qed

lemma detect_dex_known:
  assumes "detect_dex J tx keys \<noteq> ''unknown''"
  shows "\<exists>k\<in>set keys. map_of dex_programs k = Some (detect_dex J tx keys)
    \<and> detect_dex J tx keys \<noteq> ''ignore''"
proof -
  obtain d ds ixs where f: "List.map_filter (instruction_dex J keys) ixs = d # ds"
    and d: "detect_dex J tx keys = d"
    using assms by (auto simp: detect_dex_def Let_def split: list.split_asm)
  have "d \<in> set (List.map_filter (instruction_dex J keys) ixs)" using f by simp
  then obtain ix where "instruction_dex J keys ix = Some d"
    by (auto simp: List.map_filter_def)
  then show ?thesis using d
    by (fastforce simp: instruction_dex_def dex_of_key_def nth_opt_def bind_Some_iff
        split: option.split_asm if_split_asm)
qed

lemma spent_at_threshold: "\<bar>spent\<bar> = min_swap_lamports \<Longrightarrow> classify_swap k spent gain loss = None"
  by (auto simp: classify_swap_def min_swap_lamports_def)

lemma missing_loaded_list_panics:
  assumes "jv_object J (jv_index J (jv_index J tx ''meta'') ''loadedAddresses'')"
    and "jv_get J (jv_index J (jv_index J tx ''meta'') ''loadedAddresses'') ''writable'' = None"
    and "jv_array J (jv_index J (jv_index J (jv_index J tx ''transaction'') ''message'')
      ''accountKeys'') \<noteq> None"
  shows "build_all_account_keys J tx = None"
  using assms by (auto simp: build_all_account_keys_def loaded_strings_def Let_def)

section \<open>Properties\<close>

text \<open>
  C31: A swap found in a transaction is what the metadata shows.
  The transaction has no error, the wallet is one of its accounts, a known exchange program ran in
  it, and the amounts are the exact changes of the wallet's summed token balances; the SOL side is
  the change of its lamports and wrapped SOL without the fee, above the threshold. A swap counts as
  a sale exactly when SOL is received; a swap of one token for another is always a buy.
\<close>

theorem swap_is_evidenced:
  assumes "parse_swap_from_transaction J ord tx wallet = Some (Some s)"
    and "\<forall>xs. set (ord xs) = set xs"
  shows "\<exists>meta keys i pre_sol post_sol. jv_get J tx ''meta'' = Some meta
    \<and> (jv_get J meta ''err'' = None \<or> (\<exists>e. jv_get J meta ''err'' = Some e \<and> jv_null J e))
    \<and> build_all_account_keys J tx = Some (Some keys)
    \<and> position_where (\<lambda>k. k = wallet) keys = Some i
    \<and> native_balances J meta i = Some (pre_sol, post_sol) \<and> sw_wallet s = wallet
    \<and> (\<exists>k\<in>set keys. map_of dex_programs k = Some (sw_dex s) \<and> sw_dex s \<noteq> ''ignore'')
    \<and> (let pre = parse_token_balances_for_owner J (jv_index J meta ''preTokenBalances'') wallet;
           post = parse_token_balances_for_owner J (jv_index J meta ''postTokenBalances'') wallet;
           fee = int (unat (default_word (jv_u64 J (jv_index J meta ''fee''))))
       in swap_matches pre post (int (unat pre_sol) - int (unat post_sol)
            - token_change pre post wsol_mint - fee) s)"
proof -
  obtain meta keys i pre_sol post_sol where
      m: "jv_get J tx ''meta'' = Some meta"
    and e: "jv_get J meta ''err'' = None \<or> (\<exists>e. jv_get J meta ''err'' = Some e \<and> jv_null J e)"
    and k: "build_all_account_keys J tx = Some (Some keys)"
    and i: "position_where (\<lambda>k. k = wallet) keys = Some i"
    and n: "native_balances J meta i = Some (pre_sol, post_sol)"
    and s: "swap_of_balances J ord tx meta wallet keys pre_sol post_sol = Some s"
    using assms(1) unfolding parse_swap_from_transaction_def
    by (auto split: option.split_asm if_split_asm prod.split_asm)
  define pre where "pre = parse_token_balances_for_owner J (jv_index J meta ''preTokenBalances'') wallet"
  define post where "post = parse_token_balances_for_owner J (jv_index J meta ''postTokenBalances'') wallet"
  define fee where "fee = default_word (jv_u64 J (jv_index J meta ''fee''))"
  define mints where "mints = ord (remdups (map fst pre @ map fst post))"
  have "wsol_mint \<notin> set mints \<Longrightarrow> map_of pre wsol_mint = None \<and> map_of post wsol_mint = None"
    using assms(2) by (auto simp: mints_def map_of_eq_None_iff)
  then have w: "(if wsol_mint \<in> set mints then token_change pre post wsol_mint else 0)
      = token_change pre post wsol_mint" by (auto simp: token_change_def token_amount_def)
  define spent where "spent = int (unat pre_sol) - int (unat post_sol)
            - token_change pre post wsol_mint - int (unat fee)"
  obtain ctx where c: "classify_swap ctx spent (gained pre post mints) (lost pre post mints) = Some s"
    and ctx: "sc_wallet ctx = wallet" "sc_dex ctx = detect_dex J tx keys"
    and d: "detect_dex J tx keys \<noteq> ''unknown''"
    using s w unfolding swap_of_balances_def Let_def
    by (auto simp: pre_def [symmetric] post_def [symmetric] mints_def [symmetric] spent_def
        fee_def [symmetric] split: if_split_asm)
  note f = classify_swap_matches [OF c]
  have "\<exists>k\<in>set keys. map_of dex_programs k = Some (sw_dex s) \<and> sw_dex s \<noteq> ''ignore''"
    using detect_dex_known [OF d] f(3) ctx(2) by simp
  moreover have "let pre = parse_token_balances_for_owner J (jv_index J meta ''preTokenBalances'') wallet;
           post = parse_token_balances_for_owner J (jv_index J meta ''postTokenBalances'') wallet;
           fee = int (unat (default_word (jv_u64 J (jv_index J meta ''fee''))))
       in swap_matches pre post (int (unat pre_sol) - int (unat post_sol)
            - token_change pre post wsol_mint - fee) s"
    using f(1) by (simp add: pre_def post_def fee_def spent_def Let_def)
  ultimately show ?thesis using m e k i n f(2) ctx(1) by (intro exI conjI) auto
qed

section \<open>A sample purchase\<close>

definition buy_json :: jval where
  "buy_json = JDict [(''transaction'', JDict [(''message'', JDict
       [(''accountKeys'', JList [JText ''w'', JText ''whirLbMiicVdio4qvUfM5KAg6Ct8VwpYzGff3uctyCc'']),
        (''instructions'', JList [JDict [(''programIdIndex'', JNum 1)]])]),
       (''signatures'', JList [JText ''sig''])]),
     (''slot'', JNum 7), (''blockTime'', JNum 100),
     (''meta'', JDict [(''fee'', JNum 5000), (''preBalances'', JList [JNum 1000000, JNum 1]),
       (''postBalances'', JList [JNum 495000, JNum 1]), (''preTokenBalances'', JList []),
       (''postTokenBalances'', JList [JDict [(''owner'', JText ''w''), (''mint'', JText ''m''),
          (''uiTokenAmount'', JDict [(''amount'', JText ''400''), (''decimals'', JNum 6)])]])])]"

lemma buy_json_parsed:
  "\<exists>s. parse_swap_from_transaction jval_ops (\<lambda>xs. xs) buy_json ''w'' = Some (Some s)
     \<and> sw_direction s = SwapBuy \<and> sw_output_amount s = 400 \<and> sw_input_amount s = 500000"
  by (simp add: parse_swap_from_transaction_def buy_json_def jval_ops_def build_all_account_keys_def
      extract_pubkey_def List.map_filter_def native_balances_def u64_of_int_def swap_of_balances_def
      parse_token_balances_for_owner_def add_balance_def parse_u64_def digit_val_def sat_add_def
      detect_dex_def array_of_def instruction_dex_def nth_opt_def dex_of_key_def dex_programs_def
      wsol_mint_def token_change_def token_amount_def token_decimals_of_def default_word_def
      gained_def lost_def classify_swap_def min_swap_lamports_def primary_def dust_lamports_def
      make_swap_def Let_def)

theorem swap_is_evidenced_witness:
  "\<exists>s pre post spent. parse_swap_from_transaction jval_ops (\<lambda>xs. xs) buy_json ''w'' = Some (Some s)
     \<and> sw_direction s = SwapBuy \<and> sw_output_amount s = 400 \<and> swap_matches pre post spent s"
proof -
  obtain s where s: "parse_swap_from_transaction jval_ops (\<lambda>xs. xs) buy_json ''w'' = Some (Some s)"
    "sw_direction s = SwapBuy" "sw_output_amount s = 400" using buy_json_parsed by blast
  from swap_is_evidenced [OF s(1)] s show ?thesis by (auto simp: Let_def)
qed

end
