(* ===== verification/Wallet_Stats.thy ===== *)
theory Wallet_Stats
  imports Swap_Parser Smart_Money
begin

text \<open>
  \<open>src/collector/wallet_monitor.rs\<close>, the accounting of a tracked wallet: the lots it holds, its
  completed trades and the statistics built from them, the observation of a swap and the check of
  addresses. A hash map is an association list.
\<close>

section \<open>Constants\<close>

definition min_completed_trades :: u32 where "min_completed_trades = 25"
definition default_rebuild_page :: u32 where "default_rebuild_page = 200"
definition max_rebuild_pages :: u32 where "max_rebuild_pages = 5"
definition max_transactions_per_tick :: nat where "max_transactions_per_tick = 12"
definition low_activity_tx_threshold :: u32 where "low_activity_tx_threshold = 1"
definition valid_active_swap_threshold :: u32 where "valid_active_swap_threshold = 1"
definition max_observations_per_wallet :: nat where "max_observations_per_wallet = 5000"

section \<open>Lots and trades\<close>

record open_lot =
  lot_sol :: decimal
  lot_tokens :: decimal
  lot_time :: datetime

record completed_trade =
  ct_return_pct :: decimal
  ct_pnl_sol :: decimal
  ct_entry_time :: datetime
  ct_exit_time :: datetime

record wallet_accumulator =
  ac_open :: "(string \<times> open_lot list) list"
  ac_trades :: "completed_trade list"
  ac_buys :: u32
  ac_sells :: u32
  ac_dex :: "(string \<times> u32) list"
  ac_last :: "int option"
  ac_first :: "int option"

definition new_accumulator :: wallet_accumulator where
  "new_accumulator = \<lparr>ac_open = [], ac_trades = [], ac_buys = 0, ac_sells = 0, ac_dex = [],
     ac_last = None, ac_first = None\<rparr>"

text \<open>
  The loop of \<open>record_sell\<close>, with the lots left and the trades so far. The first argument is fuel:
  a pass removes a lot or, because the difference of equal decimals is zero, ends the sale.
\<close>

fun sell_loop ::
    "ext \<Rightarrow> nat \<Rightarrow> decimal \<Rightarrow> datetime \<Rightarrow> decimal \<Rightarrow> open_lot list \<Rightarrow> completed_trade list
     \<Rightarrow> (open_lot list \<times> completed_trade list) option" where
  "sell_loop X 0 ppt t left q out = None"
| "sell_loop X (Suc n) ppt t left q out =
    (if \<not> left > 0 then Some (q, out)
     else case q of
       [] \<Rightarrow> Some ([], out)
     | lot # rest \<Rightarrow>
       if lot_tokens lot \<le> 0 then sell_loop X n ppt t left rest out
       else do {
         let sold = min (lot_tokens lot) left;
         c \<leftarrow> dec_mul X (lot_sol lot) sold;
         cost \<leftarrow> dec_div X c (lot_tokens lot);
         proceeds \<leftarrow> dec_mul X ppt sold;
         gain \<leftarrow> dec_sub X proceeds cost;
         ret \<leftarrow> (if cost > 0 then do {
                  r \<leftarrow> dec_div X gain cost;
                  p \<leftarrow> dec_mul X r 100;
                  Some (dec_round_dp X 2 p)
                } else Some 0);
         tokens' \<leftarrow> dec_sub X (lot_tokens lot) sold;
         sol' \<leftarrow> dec_sub X (lot_sol lot) cost;
         left' \<leftarrow> dec_sub X left sold;
         let trade = \<lparr>ct_return_pct = ret, ct_pnl_sol = gain, ct_entry_time = lot_time lot,
                      ct_exit_time = t\<rparr>;
         sell_loop X n ppt t left'
           (if tokens' = 0 then rest
            else lot\<lparr>lot_tokens := tokens', lot_sol := sol'\<rparr> # rest) (out @ [trade])
       })"

definition record_sell ::
    "ext \<Rightarrow> string \<Rightarrow> decimal \<Rightarrow> decimal \<Rightarrow> datetime \<Rightarrow> wallet_accumulator
     \<Rightarrow> wallet_accumulator option" where
  "record_sell X mint sold received t acc =
    (case map_of (ac_open acc) mint of
       None \<Rightarrow> Some acc
     | Some q \<Rightarrow>
       if q = [] \<or> sold \<le> 0 then Some acc
       else do {
         ppt \<leftarrow> dec_div X received sold;
         (q', out) \<leftarrow> sell_loop X (length q + 2) ppt t sold q [];
         Some (acc\<lparr>ac_open := AList.update mint q' (ac_open acc),
                   ac_trades := ac_trades acc @ out\<rparr>)
       })"

text \<open>\<open>timestamp()\<close>: whole seconds, rounded down.\<close>

definition timestamp :: "datetime \<Rightarrow> int" where
  "timestamp t = t div nanos"

definition record_observation ::
    "ext \<Rightarrow> string \<Rightarrow> swap_direction \<Rightarrow> decimal \<Rightarrow> decimal \<Rightarrow> datetime \<Rightarrow> wallet_accumulator
     \<Rightarrow> wallet_accumulator option" where
  "record_observation X mint dir input output ts acc =
    (let bt = timestamp ts;
         acc1 = acc\<lparr>ac_last := Some (case ac_last acc of None \<Rightarrow> bt | Some p \<Rightarrow> max p bt),
                    ac_first := Some (case ac_first acc of None \<Rightarrow> bt | Some p \<Rightarrow> min p bt)\<rparr>
     in case dir of
       SwapBuy \<Rightarrow>
         (let lots = (case map_of (ac_open acc) mint of None \<Rightarrow> [] | Some q \<Rightarrow> q) in
          Some (acc1\<lparr>ac_buys := ac_buys acc + 1,
            ac_open := AList.update mint
              (lots @ [\<lparr>lot_sol = input, lot_tokens = output, lot_time = ts\<rparr>]) (ac_open acc)\<rparr>))
     | SwapSell \<Rightarrow> record_sell X mint input output ts (acc1\<lparr>ac_sells := ac_sells acc + 1\<rparr>))"

definition bump :: "string \<Rightarrow> (string \<times> u32) list \<Rightarrow> (string \<times> u32) list" where
  "bump k m = AList.update k ((case map_of m k of None \<Rightarrow> 0 | Some n \<Rightarrow> n) + 1) m"

definition observe_dex :: "string \<Rightarrow> wallet_accumulator \<Rightarrow> wallet_accumulator" where
  "observe_dex dex acc = acc\<lparr>ac_dex := bump dex (ac_dex acc)\<rparr>"

section \<open>Statistics\<close>

definition dec_mean :: "ext \<Rightarrow> decimal list \<Rightarrow> decimal option" where
  "dec_mean X xs = Option.bind (dec_sum X xs) (\<lambda>s. dec_div X s (of_nat (length xs)))"

definition mean_opt :: "ext \<Rightarrow> decimal list \<Rightarrow> decimal option option" where
  "mean_opt X xs = (if xs = [] then Some None else map_option Some (dec_mean X xs))"

text \<open>The loop over the trades: cumulative result, peak and largest drawdown in percent.\<close>

fun drawdown_loop ::
    "ext \<Rightarrow> decimal \<Rightarrow> decimal \<Rightarrow> decimal \<Rightarrow> completed_trade list \<Rightarrow> decimal option" where
  "drawdown_loop X cumulative peak dd [] = Some dd"
| "drawdown_loop X cumulative peak dd (t # ts) = do {
     c \<leftarrow> dec_add X cumulative (ct_pnl_sol t);
     let p = (if c > peak then c else peak);
     d \<leftarrow> (if p > 0 then do {
            f \<leftarrow> dec_sub X p c; r \<leftarrow> dec_div X f p; dec_mul X r 100
          } else Some 0);
     drawdown_loop X c p (if d > dd then d else dd) ts
   }"

definition empty_stats :: "string \<Rightarrow> datetime \<Rightarrow> wallet_stats" where
  "empty_stats wallet cutoff =
     \<lparr>w_wallet = wallet, w_entity_id = None, w_realized_pnl_usd = 0, w_win_rate = 0,
      w_avg_return_pct = 0, w_median_return_pct = 0, w_max_drawdown_pct = 0, w_trades = 0,
      w_recent_return_pct = 0, w_concentration_pct = 0, w_scam_exposure_pct = 0, w_score = 0,
      w_tier = Candidate, w_updated_at = cutoff, w_avg_win_pct = None, w_avg_loss_pct = None\<rparr>"

definition completed_by :: "datetime \<Rightarrow> wallet_accumulator \<Rightarrow> completed_trade list" where
  "completed_by cutoff acc =
     sort_key ct_exit_time (filter (\<lambda>t. ct_exit_time t \<le> cutoff) (ac_trades acc))"

definition build_stats ::
    "ext \<Rightarrow> wallet_accumulator \<Rightarrow> string \<Rightarrow> datetime \<Rightarrow> wallet_stats option" where
  "build_stats X acc wallet cutoff =
    (let trades = completed_by cutoff acc;
         count = of_nat (length trades) :: u32;
         returns = map ct_return_pct trades
     in if count = 0 then Some (empty_stats wallet cutoff)
     else do {
       let wins = (of_nat (length (filter (\<lambda>r. r > 0) returns)) :: u32);
       win_rate \<leftarrow> dec_div X (dec_of_word wins) (dec_of_word count);
       total_return \<leftarrow> dec_sum X returns;
       avg_return \<leftarrow> dec_div X total_return (dec_of_word count);
       avg_win \<leftarrow> mean_opt X (filter (\<lambda>r. r > 0) returns);
       avg_loss \<leftarrow> mean_opt X (map abs (filter (\<lambda>r. r < 0) returns));
       realized \<leftarrow> dec_sum X (map ct_pnl_sol trades);
       max_dd \<leftarrow> drawdown_loop X 0 0 0 trades;
       Some ((empty_stats wallet cutoff)\<lparr>w_realized_pnl_usd := realized, w_win_rate := win_rate,
         w_avg_return_pct := avg_return,
         w_median_return_pct := sort returns ! (length returns div 2),
         w_max_drawdown_pct := max_dd, w_trades := count,
         w_recent_return_pct := last returns, w_avg_win_pct := avg_win,
         w_avg_loss_pct := avg_loss\<rparr>)
     })"

section \<open>Observing a swap\<close>

text \<open>\<open>DateTime::from_timestamp(secs, 0)\<close>: None outside the calendar of the crate.\<close>

definition from_timestamp :: "int \<Rightarrow> datetime option" where
  "from_timestamp n =
     (if - 8334601228800 \<le> n \<and> n \<le> 8210266876799 then Some (secs n) else None)"

definition swap_time :: "datetime \<Rightarrow> parsed_swap \<Rightarrow> datetime" where
  "swap_time now s = (case from_timestamp (sw_block_time s) of None \<Rightarrow> now | Some t \<Rightarrow> t)"

definition absorb_swap ::
    "ext \<Rightarrow> datetime \<Rightarrow> parsed_swap \<Rightarrow> decimal \<Rightarrow> string
     \<Rightarrow> wallet_accumulator \<times> wallet_trade_observation list
     \<Rightarrow> (wallet_accumulator \<times> wallet_trade_observation list) option" where
  "absorb_swap X now s sol_price wallet = (\<lambda>(acc, obs). do {
     pi \<leftarrow> pow10_u64 X (sw_input_decimals s);
     input \<leftarrow> dec_div X (dec_of_word (sw_input_amount s)) (dec_of_word pi);
     po \<leftarrow> pow10_u64 X (sw_output_decimals s);
     output \<leftarrow> dec_div X (dec_of_word (sw_output_amount s)) (dec_of_word po);
     notional \<leftarrow> dec_mul X (case sw_direction s of SwapBuy \<Rightarrow> input | SwapSell \<Rightarrow> output) sol_price;
     let ts = swap_time now s;
     let (mint, sd) = (case sw_direction s of SwapBuy \<Rightarrow> (sw_output_mint s, Buy)
                       | SwapSell \<Rightarrow> (sw_input_mint s, Sell));
     let ob = \<lparr>ob_wallet = wallet, ob_mint = mint, ob_side = sd, ob_notional_usd = notional,
               ob_observed_at = ts, ob_received_at = now, ob_signature = sw_signature s\<rparr>;
     acc' \<leftarrow> record_observation X mint (sw_direction s) input output ts acc;
     Some (acc', if length obs < max_observations_per_wallet then obs @ [ob] else obs)
   })"

section \<open>Addresses\<close>

definition between :: "char \<Rightarrow> char \<Rightarrow> char \<Rightarrow> bool" where
  "between a b ch \<longleftrightarrow> (of_char a :: nat) \<le> of_char ch \<and> (of_char ch :: nat) \<le> of_char b"

definition base58_char :: "char \<Rightarrow> bool" where
  "base58_char ch \<longleftrightarrow> between CHR ''1'' CHR ''9'' ch \<or> between CHR ''A'' CHR ''H'' ch
     \<or> between CHR ''J'' CHR ''N'' ch \<or> between CHR ''P'' CHR ''Z'' ch
     \<or> between CHR ''a'' CHR ''k'' ch \<or> between CHR ''m'' CHR ''z'' ch"

definition is_valid_solana_address :: "string \<Rightarrow> bool" where
  "is_valid_solana_address addr \<longleftrightarrow>
     \<not> (length addr < 32 \<or> length addr > 44) \<and> list_all base58_char addr"

definition load_wallets :: "string + string \<Rightarrow> string \<Rightarrow> string + string list" where
  "load_wallets content path = (case content of
      Inl e \<Rightarrow> Inl (''cannot read wallets file '' @ path @ '': '' @ e)
    | Inr txt \<Rightarrow> Inr (filter is_valid_solana_address
        (filter (\<lambda>l. l \<noteq> [] \<and> hd l \<noteq> CHR ''#'') (map trim (str_lines txt)))))"

section \<open>Facts\<close>

text \<open>Decimal arithmetic without rounding and without a range, to state what the accounting is meant to compute.\<close>

definition ideal_ext :: ext where
  "ideal_ext = exact_ext\<lparr>dec_add := (\<lambda>a b. Some (a + b)), dec_sub := (\<lambda>a b. Some (a - b)),
     dec_mul := (\<lambda>a b. Some (a * b)), dec_div := (\<lambda>a b. if b = 0 then None else Some (a / b))\<rparr>"

lemma ideal_ext_simps [simp]:
  "dec_add ideal_ext a b = Some (a + b)" "dec_sub ideal_ext a b = Some (a - b)"
  "dec_mul ideal_ext a b = Some (a * b)"
  "dec_div ideal_ext a b = (if b = 0 then None else Some (a / b))"
  by (simp_all add: ideal_ext_def)

definition lots_ok :: "open_lot list \<Rightarrow> bool" where
  "lots_ok q \<longleftrightarrow> list_all (\<lambda>l. 0 < lot_tokens l) q"

definition held_tokens :: "open_lot list \<Rightarrow> decimal" where
  "held_tokens q = sum_list (map lot_tokens q)"

definition held_cost :: "open_lot list \<Rightarrow> decimal" where
  "held_cost q = sum_list (map lot_sol q)"

definition booked_pnl :: "completed_trade list \<Rightarrow> decimal" where
  "booked_pnl ts = sum_list (map ct_pnl_sol ts)"

lemma lots_simps [simp]:
  "lots_ok []" "lots_ok (l # q) \<longleftrightarrow> 0 < lot_tokens l \<and> lots_ok q"
  "held_tokens [] = 0" "held_tokens (l # q) = lot_tokens l + held_tokens q"
  "held_cost [] = 0" "held_cost (l # q) = lot_sol l + held_cost q"
  "booked_pnl [] = 0" "booked_pnl (x # ts) = ct_pnl_sol x + booked_pnl ts"
  by (simp_all add: lots_ok_def held_tokens_def held_cost_def booked_pnl_def)

lemma held_tokens_nonneg: "lots_ok q \<Longrightarrow> 0 \<le> held_tokens q"
  by (induction q) auto

text \<open>What a sale leaves: the oldest lots are consumed, and every token sold is booked with its cost.\<close>

lemma sell_loop_fifo:
  "lots_ok q \<Longrightarrow> 0 \<le> left \<Longrightarrow> length q + 2 \<le> n \<Longrightarrow>
     \<exists>q' new. sell_loop ideal_ext n ppt t left q out = Some (q', out @ new) \<and> lots_ok q'
       \<and> held_tokens q' = held_tokens q - min (held_tokens q) left
       \<and> booked_pnl new = ppt * min (held_tokens q) left - (held_cost q - held_cost q')
       \<and> list_all (\<lambda>x. ct_exit_time x = t) new"
proof (induction q arbitrary: n left out)
  case Nil
  then obtain m where "n = Suc m" by (cases n) auto
  with Nil show ?case by (intro exI [of _ "[]"]) simp
next
  case (Cons lot rest)
  then obtain m where n: "n = Suc m" and m: "length rest + 2 \<le> m" by (cases n) auto
  have nn: "0 \<le> held_tokens rest" using Cons.prems(1) held_tokens_nonneg by simp
  show ?case
  proof (cases "left > 0")
    case False
    with Cons.prems nn n show ?thesis
      by (intro exI [of _ "lot # rest"] exI [of _ "[]"]) (simp add: min_def)
  next
    case True
    have pos: "0 < lot_tokens lot" using Cons.prems(1) by simp
    show ?thesis
    proof (cases "lot_tokens lot \<le> left")
      case whole: True
      define r where "r = (if lot_sol lot > 0
          then dec_round_dp ideal_ext 2 ((ppt * lot_tokens lot - lot_sol lot) / lot_sol lot * 100)
          else 0)"
      let ?trade = "\<lparr>ct_return_pct = r, ct_pnl_sol = ppt * lot_tokens lot - lot_sol lot,
          ct_entry_time = lot_time lot, ct_exit_time = t\<rparr>"
      have run: "sell_loop ideal_ext n ppt t left (lot # rest) out
          = sell_loop ideal_ext m ppt t (left - lot_tokens lot) rest (out @ [?trade])"
        using True pos whole by (simp add: n r_def min_def Let_def)
      obtain q' new where IH: "sell_loop ideal_ext m ppt t (left - lot_tokens lot) rest (out @ [?trade])
            = Some (q', (out @ [?trade]) @ new)" "lots_ok q'"
          "held_tokens q' = held_tokens rest - min (held_tokens rest) (left - lot_tokens lot)"
          "booked_pnl new = ppt * min (held_tokens rest) (left - lot_tokens lot)
             - (held_cost rest - held_cost q')" "list_all (\<lambda>x. ct_exit_time x = t) new"
        using Cons.IH [of "left - lot_tokens lot" m "out @ [?trade]"] Cons.prems(1) whole m by auto
      have mn: "min (lot_tokens lot + held_tokens rest) left
          = lot_tokens lot + min (held_tokens rest) (left - lot_tokens lot)"
        by (simp add: min_def)
      show ?thesis
        using IH mn
        by (intro exI [of _ q'] exI [of _ "?trade # new"]) (simp add: run algebra_simps)
    next
      case part: False
      define cost where "cost = lot_sol lot * left / lot_tokens lot"
      define r where "r = (if cost > 0
          then dec_round_dp ideal_ext 2 ((ppt * left - cost) / cost * 100) else 0)"
      let ?trade = "\<lparr>ct_return_pct = r, ct_pnl_sol = ppt * left - cost,
          ct_entry_time = lot_time lot, ct_exit_time = t\<rparr>"
      let ?lot = "lot\<lparr>lot_tokens := lot_tokens lot - left, lot_sol := lot_sol lot - cost\<rparr>"
      obtain k where k: "m = Suc k" using m by (cases m) auto
      have run: "sell_loop ideal_ext n ppt t left (lot # rest) out = Some (?lot # rest, out @ [?trade])"
        using True pos part by (simp add: n k r_def cost_def min_def Let_def)
      have "min (lot_tokens lot + held_tokens rest) left = left" using part nn by (simp add: min_def)
      then show ?thesis
        using part Cons.prems(1)
        by (intro exI [of _ "?lot # rest"] exI [of _ "[?trade]"]) (simp add: run)
    qed
  qed
qed

text \<open>A history as the accounting sees it: mint, direction, input and output leg, time.\<close>

type_synonym trade_event = "string \<times> swap_direction \<times> decimal \<times> decimal \<times> datetime"

fun observe_all ::
    "ext \<Rightarrow> trade_event list \<Rightarrow> wallet_accumulator \<Rightarrow> wallet_accumulator option" where
  "observe_all X [] acc = Some acc"
| "observe_all X ((mint, dir, input, output, ts) # es) acc =
     Option.bind (record_observation X mint dir input output ts acc) (observe_all X es)"

text \<open>No mint is sold after it was bought, in the order of processing.\<close>

fun sells_come_first :: "string set \<Rightarrow> trade_event list \<Rightarrow> bool" where
  "sells_come_first bought [] = True"
| "sells_come_first bought ((mint, dir, _) # es) = (case dir of
      SwapSell \<Rightarrow> mint \<notin> bought \<and> sells_come_first bought es
    | SwapBuy \<Rightarrow> sells_come_first (insert mint bought) es)"

lemma unmatched_history:
  "sells_come_first bought es \<Longrightarrow> fst ` set (ac_open acc) \<subseteq> bought \<Longrightarrow>
     \<exists>acc'. observe_all X es acc = Some acc' \<and> ac_trades acc' = ac_trades acc"
proof (induction es arbitrary: bought acc)
  case (Cons e es)
  obtain mint dir input outp ts where e: "e = (mint, dir, input, outp, ts)" by (cases e)
  show ?case
  proof (cases dir)
    case SwapSell
    then have "map_of (ac_open acc) mint = None"
      using Cons.prems e by (auto simp: map_of_eq_None_iff)
    then obtain acc1 where "record_observation X mint dir input outp ts acc = Some acc1"
      "ac_trades acc1 = ac_trades acc" "ac_open acc1 = ac_open acc"
      using SwapSell by (simp add: record_observation_def record_sell_def Let_def)
    then show ?thesis using Cons.IH [of bought acc1] Cons.prems e SwapSell by simp
  next
    case SwapBuy
    then obtain acc1 where "record_observation X mint dir input outp ts acc = Some acc1"
      "ac_trades acc1 = ac_trades acc" "fst ` set (ac_open acc1) \<subseteq> insert mint bought"
      using Cons.prems(2) by (auto simp: record_observation_def Let_def dom_update)
    then show ?thesis using Cons.IH [of "insert mint bought" acc1] Cons.prems e SwapBuy by simp
  qed
qed simp

lemma sort_nth_in: "xs \<noteq> [] \<Longrightarrow> sort xs ! (length xs div 2) \<in> set xs"
  by (metis length_greater_0_conv length_sort nth_mem set_sort div_less_dividend one_less_numeral_iff
      semiring_norm(76))

lemma unat_of_count: "n < 2 ^ 32 \<Longrightarrow> unat (of_nat n :: u32) = n"
  by (simp add: unsigned_of_nat take_bit_nat_eq_self)

lemma drawdown_mono: "drawdown_loop X c p dd ts = Some r \<Longrightarrow> dd \<le> r"
  by (induction ts arbitrary: c p dd)
    (fastforce simp: bind_Some_iff Let_def split: if_split_asm)+

section \<open>Properties\<close>

text \<open>
  C32: The accounting of a sale. In arithmetic without
  rounding or overflow a sale against open lots of positive size always succeeds; it removes the
  tokens sold from the lots, all of them when more is sold than held, keeps every lot positive, and
  the result booked over its trades is the part of the proceeds for the tokens that were held less
  the cost that left the lots. Nothing else changes in the list of trades.
\<close>

theorem sales_are_first_in_first_out:
  assumes "map_of (ac_open acc) mint = Some q" and "q \<noteq> []" and "lots_ok q" and "0 < sold"
  shows "\<exists>acc' q' new. record_sell ideal_ext mint sold received t acc = Some acc'
    \<and> map_of (ac_open acc') mint = Some q' \<and> lots_ok q'
    \<and> held_tokens q' = max 0 (held_tokens q - sold)
    \<and> ac_trades acc' = ac_trades acc @ new
    \<and> booked_pnl new = received * (min (held_tokens q) sold / sold)
        - (held_cost q - held_cost q')"
proof -
  obtain q' new where s: "sell_loop ideal_ext (length q + 2) (received / sold) t sold q []
        = Some (q', new)" "lots_ok q'" "held_tokens q' = held_tokens q - min (held_tokens q) sold"
      "booked_pnl new = received / sold * min (held_tokens q) sold - (held_cost q - held_cost q')"
    using sell_loop_fifo [OF assms(3), of sold "length q + 2" "received / sold" t "[]"] assms(4)
    by auto
  let ?acc = "acc\<lparr>ac_open := AList.update mint q' (ac_open acc), ac_trades := ac_trades acc @ new\<rparr>"
  have run: "record_sell ideal_ext mint sold received t acc = Some ?acc"
    using s(1) assms(1,2,4) by (simp add: record_sell_def)
  have h: "held_tokens q' = max 0 (held_tokens q - sold)"
    using s(3) by (simp add: min_def max_def)
  show ?thesis
    by (intro exI [of _ ?acc] exI [of _ q'] exI [of _ new]) (simp add: run s h map_of_update)
qed

text \<open>
  The order of a history matters. When every
  sale of a mint is processed before its purchases, no trade is ever completed, whatever the
  arithmetic: the sales find no lot. A node lists the signatures of a wallet with the newest first
  and the reconstruction processes them in that order, so the round trips of a wallet that sold
  what it had bought are lost and its lots stay open.
\<close>

theorem newest_first_completes_nothing:
  assumes "sells_come_first {} es"
  shows "\<exists>acc. observe_all X es new_accumulator = Some acc \<and> ac_trades acc = []"
  using unmatched_history [OF assms, of new_accumulator X] by (simp add: new_accumulator_def)

text \<open>
  The statistics of a wallet. Under every monotone rounding
  of the decimal arithmetic the win rate lies between 0 and 1 and the drawdown is not negative; the
  number of trades is that of the trades completed by the cutoff, the time of the statistics is the
  cutoff, and the median is one of the returns.
\<close>

theorem stats_in_range:
  assumes "decimal_arith X" and "build_stats X acc wallet cutoff = Some s"
    and "length (completed_by cutoff acc) < 2 ^ 32"
  shows "0 \<le> w_win_rate s \<and> w_win_rate s \<le> 1 \<and> 0 \<le> w_max_drawdown_pct s
    \<and> unat (w_trades s) = length (completed_by cutoff acc) \<and> w_updated_at s = cutoff
    \<and> (w_trades s = 0 \<or> w_median_return_pct s \<in> ct_return_pct ` set (completed_by cutoff acc))"
proof -
  define trades where "trades = completed_by cutoff acc"
  define count where "count = (of_nat (length trades) :: u32)"
  define returns where "returns = map ct_return_pct trades"
  define wins where "wins = (of_nat (length (filter (\<lambda>r. r > 0) returns)) :: u32)"
  have len: "unat count = length trades" using assms(3)
    by (simp add: count_def trades_def unat_of_count)
  have le: "wins \<le> count"
  proof -
    have "length (filter (\<lambda>r. r > 0) returns) \<le> length trades"
      unfolding returns_def by (metis length_filter_le length_map)
    then show ?thesis using assms(3) unfolding wins_def count_def trades_def word_le_nat_alt
      by (simp add: unat_of_count)
  qed
  show ?thesis
  proof (cases "count = 0")
    case True
    then have "s = empty_stats wallet cutoff"
      using assms(2) by (simp add: build_stats_def Let_def trades_def [symmetric] count_def [symmetric])
    then show ?thesis using True len by (simp add: empty_stats_def trades_def)
  next
    case False
    then obtain wr tr ar aw al rl dd where
        wr: "dec_div X (dec_of_word wins) (dec_of_word count) = Some wr"
      and dd: "drawdown_loop X 0 0 0 trades = Some dd"
      and s: "s = (empty_stats wallet cutoff)\<lparr>w_realized_pnl_usd := rl, w_win_rate := wr,
         w_avg_return_pct := ar, w_median_return_pct := sort returns ! (length returns div 2),
         w_max_drawdown_pct := dd, w_trades := count,
         w_recent_return_pct := last returns, w_avg_win_pct := aw, w_avg_loss_pct := al\<rparr>"
      using assms(2) by (auto simp: build_stats_def Let_def bind_Some_iff trades_def [symmetric]
          count_def [symmetric] returns_def [symmetric] wins_def [symmetric])
    have "0 \<le> wr" "wr \<le> 1"
      using decimal_arith.div_nonneg [OF assms(1) wr] decimal_arith.div_le_one [OF assms(1) wr] le
      by simp_all
    moreover have "0 \<le> dd" using drawdown_mono [OF dd] .
    moreover have "returns \<noteq> []"
    proof
      assume "returns = []"
      then have "count = 0" by (simp add: returns_def count_def)
      with False show False by simp
    qed
    then have "sort returns ! (length returns div 2) \<in> ct_return_pct ` set trades"
      using sort_nth_in [of returns] by (simp add: returns_def)
    ultimately show ?thesis
      using len by (simp add: s empty_stats_def trades_def [symmetric])
  qed
qed

text \<open>A wallet that bought ten tokens for two and later sold them for three.\<close>

definition sample_round_trip :: "trade_event list" where
  "sample_round_trip = [(''M'', SwapBuy, 2, 10, 100), (''M'', SwapSell, 10, 3, 200)]"

definition sample_lots :: wallet_accumulator where
  "sample_lots = new_accumulator\<lparr>ac_open := [(''M'', [\<lparr>lot_sol = 2, lot_tokens = 10, lot_time = 100\<rparr>])]\<rparr>"

text \<open>
  The same two swaps, in the order of time and in the order of the node: one completed trade
  and none.
\<close>

lemma order_decides_the_trades:
  "map_option (\<lambda>a. map ct_pnl_sol (ac_trades a))
     (observe_all ideal_ext sample_round_trip new_accumulator) = Some [1]"
  "map_option (\<lambda>a. map ct_pnl_sol (ac_trades a))
     (observe_all ideal_ext (rev sample_round_trip) new_accumulator) = Some []"
  by (simp_all add: sample_round_trip_def new_accumulator_def record_observation_def
      record_sell_def Let_def eval_nat_numeral)

theorem sales_are_first_in_first_out_witness:
  "\<exists>acc' q' new. record_sell ideal_ext ''M'' 4 3 200 sample_lots = Some acc'
    \<and> map_of (ac_open acc') ''M'' = Some q' \<and> lots_ok q'
    \<and> held_tokens q' = max 0 (10 - 4)
    \<and> ac_trades acc' = ac_trades sample_lots @ new
    \<and> booked_pnl new = 3 * (min 10 4 / 4) - (2 - held_cost q')"
  using sales_are_first_in_first_out
    [of sample_lots "''M''" "[\<lparr>lot_sol = 2, lot_tokens = 10, lot_time = 100\<rparr>]" 4 3 200]
  by (simp add: sample_lots_def new_accumulator_def)

theorem newest_first_completes_nothing_witness:
  "\<exists>acc. observe_all ideal_ext (rev sample_round_trip) new_accumulator = Some acc
     \<and> ac_trades acc = []"
  by (rule newest_first_completes_nothing) (simp add: sample_round_trip_def)

definition sample_history :: wallet_accumulator where
  "sample_history = new_accumulator\<lparr>ac_trades :=
     [\<lparr>ct_return_pct = - 50, ct_pnl_sol = - 1, ct_entry_time = 100, ct_exit_time = 300\<rparr>,
      \<lparr>ct_return_pct = 20, ct_pnl_sol = 2, ct_entry_time = 100, ct_exit_time = 200\<rparr>]\<rparr>"

theorem stats_in_range_witness:
  "\<exists>s. build_stats exact_ext sample_history ''w'' 1000 = Some s
     \<and> 0 \<le> w_win_rate s \<and> w_win_rate s \<le> 1 \<and> 0 \<le> w_max_drawdown_pct s
     \<and> unat (w_trades s) = 2"
proof -
  have c: "completed_by 1000 sample_history =
      [\<lparr>ct_return_pct = 20, ct_pnl_sol = 2, ct_entry_time = 100, ct_exit_time = 200\<rparr>,
       \<lparr>ct_return_pct = - 50, ct_pnl_sol = - 1, ct_entry_time = 100, ct_exit_time = 300\<rparr>]"
    by (simp add: completed_by_def sample_history_def)
  have "\<exists>s. build_stats exact_ext sample_history ''w'' 1000 = Some s"
    by (simp add: build_stats_def c dec_sum_def mean_opt_def dec_mean_def fit_def dec_max_def
        dec_of_word_def Let_def)
  then show ?thesis
    using stats_in_range [OF exact.decimal_arith_axioms, of sample_history "''w''" 1000]
    by (auto simp: c)
qed

end
