(* ===== verification/Wallet_Monitor.thy ===== *)
theory Wallet_Monitor
  imports Wallet_Stats Runtime_Session
begin

text \<open>
  \<open>src/collector/wallet_monitor.rs\<close>, the monitor: the reconstruction of a wallet's history with its
  validation report, the incremental poll, the events of the websocket and the candidates built from
  a consensus. Answers of nodes are functions of the request, the readings of the clock are fields of
  the environment, and the order in which the code meets the elements of a hash set is a function on
  lists. The pauses between requests are left out. The outer option is None when the code panics.
\<close>

section \<open>Reports\<close>

datatype wallet_status = ValidActive | NoSwapActivity | LowActivity | InvalidWallet | Suspect
  | IncompleteHistory

record wallet_report =
  vr_wallet :: string
  vr_status :: wallet_status
  vr_signatures_fetched :: u32
  vr_successful :: u32
  vr_swaps_parsed :: u32
  vr_buys :: u32
  vr_sells :: u32
  vr_parse_failures :: u32
  vr_fetch_failures :: u32
  vr_history_complete :: bool
  vr_dex :: "(string \<times> u32) list"
  vr_last :: "int option"
  vr_first :: "int option"

record validation_summary =
  vs_loaded :: u32
  vs_valid :: u32
  vs_active :: u32
  vs_no_swaps :: u32
  vs_invalid :: u32
  vs_low :: u32
  vs_signatures :: u64
  vs_successful :: u64
  vs_swaps :: u64
  vs_buys :: u64
  vs_sells :: u64
  vs_reports :: "wallet_report list"

definition empty_report :: "string \<Rightarrow> wallet_status \<Rightarrow> bool \<Rightarrow> wallet_report" where
  "empty_report wallet status whole =
     \<lparr>vr_wallet = wallet, vr_status = status, vr_signatures_fetched = 0, vr_successful = 0,
      vr_swaps_parsed = 0, vr_buys = 0, vr_sells = 0, vr_parse_failures = 0,
      vr_fetch_failures = 0, vr_history_complete = whole, vr_dex = [], vr_last = None,
      vr_first = None\<rparr>"

definition empty_validation :: validation_summary where
  "empty_validation = \<lparr>vs_loaded = 0, vs_valid = 0, vs_active = 0, vs_no_swaps = 0, vs_invalid = 0,
     vs_low = 0, vs_signatures = 0, vs_successful = 0, vs_swaps = 0, vs_buys = 0, vs_sells = 0,
     vs_reports = []\<rparr>"

definition add_report :: "nat \<Rightarrow> wallet_report \<Rightarrow> validation_summary \<Rightarrow> validation_summary" where
  "add_report wallets r s =
    (let s1 = s\<lparr>vs_loaded := of_nat wallets,
           vs_signatures := vs_signatures s + ucast (vr_signatures_fetched r),
           vs_successful := vs_successful s + ucast (vr_successful r),
           vs_swaps := vs_swaps s + ucast (vr_swaps_parsed r),
           vs_buys := vs_buys s + ucast (vr_buys r), vs_sells := vs_sells s + ucast (vr_sells r)\<rparr>;
         s2 = (case vr_status r of
             ValidActive \<Rightarrow> s1\<lparr>vs_valid := vs_valid s + 1, vs_active := vs_active s + 1\<rparr>
           | NoSwapActivity \<Rightarrow> s1\<lparr>vs_valid := vs_valid s + 1, vs_no_swaps := vs_no_swaps s + 1\<rparr>
           | LowActivity \<Rightarrow> s1\<lparr>vs_valid := vs_valid s + 1, vs_low := vs_low s + 1\<rparr>
           | _ \<Rightarrow> s1\<lparr>vs_invalid := vs_invalid s + 1\<rparr>)
     in s2\<lparr>vs_reports := vs_reports s @ [r]\<rparr>)"

section \<open>State and environment\<close>

record ws_event =
  we_wallet :: string
  we_swap :: parsed_swap
  we_detected_at :: datetime

record wallet_monitor =
  mn_wallets :: "string list"
  mn_processed :: "string \<Rightarrow> string set option"
  mn_accumulators :: "string \<Rightarrow> wallet_accumulator option"
  mn_tracker :: wallet_tracker
  mn_seen :: "string set"
  mn_offered :: "string set"
  mn_position_usd :: decimal
  mn_window :: u64
  mn_poll_idx :: nat
  mn_summary :: validation_summary
  mn_rebuilt :: "string list"
  mn_scan_budget :: nat
  mn_rebuild_done :: bool
  mn_summary_logged :: bool
  mn_pending :: "candidate list"
  mn_ws_events :: "ws_event list"
  mn_ws_seen :: "string set"
  mn_sol_price :: "decimal option"

record 'v monitor_world =
  wo_json :: "'v json"
  wo_order :: "string list \<Rightarrow> string list"   \<comment> \<open>the order of a hash set\<close>
  wo_pages :: "string \<Rightarrow> u32 \<Rightarrow> string option \<Rightarrow> rpc_failure + 'v signature_entry list"
  wo_tx :: "string \<Rightarrow> rpc_failure + 'v option"
  wo_mint_info :: "string \<Rightarrow> rpc_failure + mint_account_info option"
  wo_mint_again :: "string \<Rightarrow> rpc_failure + mint_account_info option"   \<comment> \<open>the second request\<close>
  wo_largest :: "string \<Rightarrow> rpc_failure + largest_account list"
  wo_exec :: exec_env
  wo_may_block :: bool        \<comment> \<open>is blocking_lock allowed where the monitor runs\<close>
  wo_now :: datetime          \<comment> \<open>at the start of a tick\<close>
  wo_window_now :: datetime   \<comment> \<open>at the start of a reconstruction\<close>
  wo_absorb_now :: datetime   \<comment> \<open>while swaps are absorbed\<close>
  wo_end_now :: datetime      \<comment> \<open>at the end of a reconstruction\<close>
  wo_safety_ts :: int
  wo_safety_now :: datetime
  wo_quote_now :: datetime

text \<open>\<open>WalletMonitor::new\<close> after the check of the configuration and the loading of the wallets.\<close>

definition initial_monitor :: "config \<Rightarrow> string list \<Rightarrow> wallet_monitor" where
  "initial_monitor c wallets =
     \<lparr>mn_wallets = wallets, mn_processed = Map.empty, mn_accumulators = Map.empty,
      mn_tracker = new_tracker default_thresholds, mn_seen = {}, mn_offered = {},
      mn_position_usd = wm_position_usd (wallet_monitor c),
      mn_window = consensus_window_secs (wallet_monitor c), mn_poll_idx = 0,
      mn_summary = empty_validation, mn_rebuilt = [],
      mn_scan_budget = unat (max 1 (min (max_history_signatures (wallet_monitor c))
        (default_rebuild_page * max_rebuild_pages))),
      mn_rebuild_done = False, mn_summary_logged = False, mn_pending = [], mn_ws_events = [],
      mn_ws_seen = {}, mn_sol_price = None\<rparr>"

definition new_monitor :: "config \<Rightarrow> string + string \<Rightarrow> string + wallet_monitor" where
  "new_monitor c content =
    (if wm_enabled (wallet_monitor c) \<and> cfg_sol_price_usd (economics c) = None
     then Inl ''wallet_monitor requires economics.sol_price_usd''
     else case load_wallets content (wallets_file (wallet_monitor c)) of
       Inl e \<Rightarrow> Inl e
     | Inr wallets \<Rightarrow> Inr (initial_monitor c wallets))"

definition set_sol_price :: "decimal option \<Rightarrow> wallet_monitor \<Rightarrow> wallet_monitor" where
  "set_sol_price p st = st\<lparr>mn_sol_price := p\<rparr>"

definition record_validation_report :: "wallet_report \<Rightarrow> wallet_monitor \<Rightarrow> wallet_monitor" where
  "record_validation_report r st =
     st\<lparr>mn_summary := add_report (length (mn_wallets st)) r (mn_summary st)\<rparr>"

definition maybe_log_summary :: "wallet_monitor \<Rightarrow> wallet_monitor" where
  "maybe_log_summary st =
    (if mn_summary_logged st \<or> length (mn_rebuilt st) < length (mn_wallets st) then st
     else st\<lparr>mn_summary_logged := True\<rparr>)"

section \<open>Candidates\<close>

text \<open>The amount asked for in the quote; a text that is no \<open>u64\<close> becomes zero.\<close>

definition candidate_input :: "ext \<Rightarrow> config \<Rightarrow> decimal \<Rightarrow> decimal \<Rightarrow> u64 option" where
  "candidate_input X c position_usd sol_price = do {
     a \<leftarrow> (case cfg_mode c of
            Live \<Rightarrow> dec_mul X 4 (dec_of_word (priority_fee_lamports (execution c)))
          | _ \<Rightarrow> Option.bind (dec_div X position_usd sol_price) (\<lambda>q. dec_mul X q 1000000000));
     Some (case parse_u64 (dec_show X a) of None \<Rightarrow> 0 | Some n \<Rightarrow> n)
   }"

text \<open>The ratio of the mean win to the mean loss of the wallets, and that loss.\<close>

definition win_loss :: "ext \<Rightarrow> wallet_stats list \<Rightarrow> (decimal \<times> decimal) option option" where
  "win_loss X ws = do {
     win \<leftarrow> mean_opt X (List.map_filter w_avg_win_pct ws);
     loss \<leftarrow> mean_opt X (List.map_filter w_avg_loss_pct ws);
     (case (win, loss) of
        (Some w, Some l) \<Rightarrow> if l > 0 then map_option (\<lambda>r. Some (r, l)) (dec_div X w l) else Some None
      | _ \<Rightarrow> Some None)
   }"

definition candidate_cost_model ::
    "ext \<Rightarrow> config \<Rightarrow> decimal \<Rightarrow> decimal \<Rightarrow> u32 \<Rightarrow> decimal \<times> decimal \<Rightarrow> datetime \<Rightarrow> cost_model option"
  where
  "candidate_cost_model X c position_usd sol_price impact wl now = do {
     f \<leftarrow> dec_div X (dec_of_word (priority_fee_lamports (execution c))) 1000000000;
     fee \<leftarrow> dec_mul X f sol_price;
     Some \<lparr>cm_observed_at = now,
       cm_input = \<lparr>position_size_usd = position_usd, avg_priority_fee_usd = fee,
         avg_swap_fee_bps = 0, avg_slippage_bps = dec_of_word (slippage_bps (execution c)),
         avg_price_impact_bps = dec_of_word impact, failed_tx_rate = 0,
         avg_failed_tx_cost_usd = 0, assumed_win_loss_ratio = fst wl,
         assumed_avg_loss_pct = snd wl\<rparr>,
       cm_source = ''wallet_monitor'', cm_is_live_snapshot = True\<rparr>
   }"

definition earliest_update :: "datetime \<Rightarrow> wallet_stats list \<Rightarrow> datetime" where
  "earliest_update now ws = (case map w_updated_at ws of [] \<Rightarrow> now | t # ts \<Rightarrow> fold min ts t)"

definition make_candidate ::
    "ext \<Rightarrow> config \<Rightarrow> wallet_monitor \<Rightarrow> string \<Rightarrow> datetime \<Rightarrow> decimal \<Rightarrow> wallet_stats list
     \<Rightarrow> token_safety \<Rightarrow> u8 \<Rightarrow> u64 \<Rightarrow> market_snapshot \<Rightarrow> u32 \<Rightarrow> candidate option option" where
  "make_candidate X c st mint now sol_price ws safety decs amount market impact = do {
     avg_return \<leftarrow> (if ws = [] then Some 0 else dec_mean X (map w_avg_return_pct ws));
     wl \<leftarrow> win_loss X ws;
     (case wl of
        None \<Rightarrow> Some None
      | Some p \<Rightarrow> do {
          costs \<leftarrow> candidate_cost_model X c (mn_position_usd st) sol_price impact p now;
          let blockchain = earliest_update now ws;
          Some (Some \<lparr>cd_mint = mint, cd_token_decimals = Some decs,
            cd_base_mint_decimals = Some 9, cd_input_amount = amount,
            cd_position_usd = mn_position_usd st, cd_expected_gross_return_pct = avg_return,
            cd_market = market,
            cd_safety = safety\<lparr>sellable := Some True, route_available := Some True\<rparr>,
            cd_wallets = ws, cd_costs = costs, cd_blockchain_timestamp = blockchain,
            cd_detection_timestamp = now, cd_candidate_timestamp = now,
            cd_detection_latency_ms = max 0 ((now - blockchain) div 1000000)\<rparr>)
        })
   }"

text \<open>The requests about the mint: its safety, its decimals and a quote. None when one says no.\<close>

definition gather_evidence ::
    "ext \<Rightarrow> 'v monitor_world \<Rightarrow> config \<Rightarrow> wallet_monitor \<Rightarrow> string \<Rightarrow> decimal
     \<Rightarrow> (token_safety \<times> u8 \<times> u64 \<times> market_snapshot \<times> u32) option option" where
  "gather_evidence X W c st mint sol_price =
    (case fetch_token_safety (wo_mint_info W mint) (wo_largest W mint)
            (wo_pages W mint (of_nat age_page_limit)) (min_token_age_secs (strategy c))
            (wo_safety_ts W) (wo_safety_now W) of
       Inl _ \<Rightarrow> Some None
     | Inr None \<Rightarrow> Some None
     | Inr (Some safety) \<Rightarrow>
    (case wo_mint_again W mint of
       Inr (Some info) \<Rightarrow>
         if \<not> ma_is_initialized info then Some None
         else do {
           amount \<leftarrow> candidate_input X c (mn_position_usd st) sol_price;
           snap \<leftarrow> fetch_market_snapshot X (wo_exec W) mint sol_price 9 (ma_decimals info) amount
                    (slippage_bps (execution c)) (wo_quote_now W);
           (case snap of
              Inr (Some (market, impact)) \<Rightarrow>
                Some (Some (safety, ma_decimals info, amount, market, impact))
            | _ \<Rightarrow> Some None)
         }
     | _ \<Rightarrow> Some None))"

definition check_and_build_candidate ::
    "ext \<Rightarrow> 'v monitor_world \<Rightarrow> config \<Rightarrow> string \<Rightarrow> datetime \<Rightarrow> decimal
     \<Rightarrow> wallet_monitor \<times> candidate list \<Rightarrow> (wallet_monitor \<times> candidate list) option" where
  "check_and_build_candidate X W c mint now sol_price = (\<lambda>(st, cands).
    if mint \<in> mn_seen st \<and> list_ex (\<lambda>k. cd_mint k = mint) cands then Some (st, cands)
    else do {
      max_age \<leftarrow> duration_seconds (sint (mn_window st));
      let ws = qualified_consensus_at (mn_tracker st) mint now max_age;
      (if length ws < unat (min_consensus_wallets (strategy c)) then Some (st, cands)
       else do {
         ev \<leftarrow> gather_evidence X W c st mint sol_price;
         (case ev of
            None \<Rightarrow> Some (st, cands)
          | Some (safety, decs, amount, market, impact) \<Rightarrow> do {
              cand \<leftarrow> make_candidate X c st mint now sol_price ws safety decs amount market impact;
              (case cand of
                 None \<Rightarrow> Some (st, cands)
               | Some k \<Rightarrow> Some (st\<lparr>mn_seen := insert mint (mn_seen st),
                   mn_offered := insert mint (mn_offered st)\<rparr>, cands @ [k]))
            })
       })
    })"

section \<open>Reconstruction of a history\<close>

text \<open>\<open>i64\<close> subtraction: traps or wraps with the build profile.\<close>

definition i64_minus :: "ext \<Rightarrow> int \<Rightarrow> int \<Rightarrow> int option" where
  "i64_minus X a b =
    (if - (2 ^ 63) \<le> a - b \<and> a - b < 2 ^ 63 then Some (a - b)
     else if overflow_checks X then None else Some (sint (of_int (a - b) :: u64)))"

text \<open>
  The pages of signatures: the first argument counts the pages left. A failed request ends the walk
  like a short page; the flag tells that the last allowed page was full.
\<close>

fun fetch_pages ::
    "('w \<Rightarrow> u32 \<Rightarrow> string option \<Rightarrow> rpc_failure + 'v signature_entry list) \<Rightarrow> nat \<Rightarrow> 'w \<Rightarrow> string option
     \<Rightarrow> 'v signature_entry list \<Rightarrow> 'v signature_entry list \<times> bool" where
  "fetch_pages P 0 wallet before acc = (acc, False)"
| "fetch_pages P (Suc n) wallet before acc = (case P wallet default_rebuild_page before of
      Inl _ \<Rightarrow> (acc, False)
    | Inr page \<Rightarrow>
      if length page < unat default_rebuild_page then (acc @ page, False)
      else if n = 0 then (acc @ page, True)
      else fetch_pages P n wallet (Some (sn_signature (last page))) (acc @ page))"

definition rebuild_pages :: "config \<Rightarrow> nat" where
  "rebuild_pages c = unat (max 1 (min
     (max (max_history_signatures (wallet_monitor c)) default_rebuild_page div default_rebuild_page)
     max_rebuild_pages))"

record history_scan =
  hs_fetch_failures :: u32
  hs_tx_fetched :: u32
  hs_swaps :: u32
  hs_buys :: u32
  hs_sells :: u32
  hs_dex :: "(string \<times> u32) list"
  hs_last :: "int option"
  hs_first :: "int option"
  hs_processed :: "string set"
  hs_acc :: wallet_accumulator
  hs_observations :: "wallet_trade_observation list"
  hs_recent :: "string list"

definition empty_scan :: history_scan where
  "empty_scan = \<lparr>hs_fetch_failures = 0, hs_tx_fetched = 0, hs_swaps = 0, hs_buys = 0, hs_sells = 0,
     hs_dex = [], hs_last = None, hs_first = None, hs_processed = {}, hs_acc = new_accumulator,
     hs_observations = [], hs_recent = []\<rparr>"

definition scan_time :: "int option \<Rightarrow> history_scan \<Rightarrow> history_scan" where
  "scan_time bt h = (case bt of None \<Rightarrow> h
     | Some t \<Rightarrow> h\<lparr>hs_last := Some (case hs_last h of None \<Rightarrow> t | Some p \<Rightarrow> max p t),
                  hs_first := Some (case hs_first h of None \<Rightarrow> t | Some p \<Rightarrow> min p t)\<rparr>)"

definition scan_swap ::
    "ext \<Rightarrow> 'v monitor_world \<Rightarrow> wallet_monitor \<Rightarrow> decimal \<Rightarrow> string \<Rightarrow> parsed_swap \<Rightarrow> history_scan
     \<Rightarrow> history_scan option" where
  "scan_swap X W st sol_price wallet s h = do {
     let h1 = h\<lparr>hs_swaps := hs_swaps h + 1, hs_acc := observe_dex (sw_dex s) (hs_acc h),
       hs_dex := bump (sw_dex s) (hs_dex h)\<rparr>;
     h2 \<leftarrow> (case sw_direction s of
        SwapBuy \<Rightarrow> do {
          age \<leftarrow> i64_minus X (timestamp (wo_window_now W)) (sw_block_time s);
          Some (h1\<lparr>hs_buys := hs_buys h + 1,
            hs_recent := (if sw_block_time s \<le> timestamp (wo_window_now W)
                \<and> age \<le> sint (mn_window st)
              then List.insert (sw_output_mint s) (hs_recent h) else hs_recent h)\<rparr>)
        }
      | SwapSell \<Rightarrow> Some (h1\<lparr>hs_sells := hs_sells h + 1\<rparr>));
     (acc, obs) \<leftarrow> absorb_swap X (wo_absorb_now W) s sol_price wallet
       (hs_acc h2, hs_observations h2);
     Some (h2\<lparr>hs_acc := acc, hs_observations := obs\<rparr>)
   }"

definition scan_signature ::
    "ext \<Rightarrow> 'v monitor_world \<Rightarrow> wallet_monitor \<Rightarrow> decimal \<Rightarrow> string \<Rightarrow> 'v signature_entry
     \<Rightarrow> history_scan \<Rightarrow> history_scan option" where
  "scan_signature X W st sol_price wallet e h =
    (if sn_err e \<noteq> None then Some h
     else
      (let h1 = scan_time (sn_block_time e) h in
       case wo_tx W (sn_signature e) of
         Inl _ \<Rightarrow> Some (h1\<lparr>hs_fetch_failures := hs_fetch_failures h + 1\<rparr>)
       | Inr None \<Rightarrow> Some h1
       | Inr (Some tx) \<Rightarrow>
         (let h2 = h1\<lparr>hs_tx_fetched := hs_tx_fetched h + 1,
                hs_processed := insert (sn_signature e) (hs_processed h)\<rparr>
          in case parse_swap_from_transaction (wo_json W) (wo_order W) tx wallet of
            None \<Rightarrow> None
          | Some None \<Rightarrow> Some h2
          | Some (Some s) \<Rightarrow> scan_swap X W st sol_price wallet s h2)))"

fun scan_history ::
    "ext \<Rightarrow> 'v monitor_world \<Rightarrow> wallet_monitor \<Rightarrow> decimal \<Rightarrow> string \<Rightarrow> 'v signature_entry list
     \<Rightarrow> history_scan \<Rightarrow> history_scan option" where
  "scan_history X W st sol_price wallet [] h = Some h"
| "scan_history X W st sol_price wallet (e # es) h =
     Option.bind (scan_signature X W st sol_price wallet e h)
       (scan_history X W st sol_price wallet es)"

text \<open>
  The verdict on a history. The ratios of the code are quotients of \<open>u32\<close> values in \<open>f64\<close>; division
  is correctly rounded and the quotients differ from 0.30 and 0.05 by more than an ulp unless they
  are equal to them, so the comparisons are those of the exact fractions.
\<close>

definition history_complete :: "bool \<Rightarrow> 'v signature_entry list \<Rightarrow> history_scan \<Rightarrow> u32 \<Rightarrow> bool" where
  "history_complete hit_limit sigs h trades \<longleftrightarrow>
    (let attempted = length sigs - length (filter (\<lambda>e. sn_err e \<noteq> None) sigs)
     in \<not> hit_limit
      \<and> (attempted = 0 \<or> unat (hs_fetch_failures h) * 10 \<le> 3 * attempted)
      \<and> trades \<ge> min_completed_trades)"

definition history_status :: "'v signature_entry list \<Rightarrow> history_scan \<Rightarrow> bool \<Rightarrow> wallet_status" where
  "history_status sigs h whole =
    (if sigs = [] \<or> hs_tx_fetched h < low_activity_tx_threshold then LowActivity
     else if \<not> whole then IncompleteHistory
     else if hs_swaps h < valid_active_swap_threshold then NoSwapActivity
     else if unat (hs_swaps h) * 20 < unat (hs_tx_fetched h) then NoSwapActivity
     else ValidActive)"

text \<open>What the monitor keeps of a history: its statistics whenever there is a trade.\<close>

definition keep_observations ::
    "datetime \<Rightarrow> wallet_trade_observation list \<Rightarrow> wallet_tracker \<Rightarrow> wallet_tracker" where
  "keep_observations now obs tr =
     fold (\<lambda>ob t. observe t ob) (filter (\<lambda>ob. ob_received_at ob \<le> now) obs) tr"

definition learn ::
    "ext \<Rightarrow> datetime \<Rightarrow> wallet_trade_observation list \<Rightarrow> wallet_stats \<Rightarrow> wallet_tracker
     \<Rightarrow> wallet_tracker option" where
  "learn X now obs s tr =
    (let tr1 = keep_observations now obs tr in if w_trades s > 0 then upsert X tr1 s else Some tr1)"

text \<open>The recent purchases: the first one without a price ends the reconstruction with an empty report.\<close>

fun offer_recent ::
    "ext \<Rightarrow> 'v monitor_world \<Rightarrow> config \<Rightarrow> string \<Rightarrow> datetime \<Rightarrow> string list \<Rightarrow> wallet_monitor
     \<Rightarrow> (wallet_report option \<times> wallet_monitor) option" where
  "offer_recent X W c wallet now [] st = Some (None, st)"
| "offer_recent X W c wallet now (m # ms) st =
    (if m \<in> mn_offered st then offer_recent X W c wallet now ms st
     else case mn_sol_price st of
       None \<Rightarrow> Some (Some (empty_report wallet IncompleteHistory False), st)
     | Some p \<Rightarrow> do {
         (st', cs) \<leftarrow> check_and_build_candidate X W c m now p (st, []);
         offer_recent X W c wallet now ms (st'\<lparr>mn_pending := mn_pending st' @ cs\<rparr>)
       })"

definition history_report ::
    "string \<Rightarrow> 'v signature_entry list \<Rightarrow> history_scan \<Rightarrow> bool \<Rightarrow> wallet_report" where
  "history_report wallet sigs h whole =
     \<lparr>vr_wallet = wallet, vr_status = history_status sigs h whole,
      vr_signatures_fetched = of_nat (length sigs), vr_successful = hs_tx_fetched h,
      vr_swaps_parsed = hs_swaps h, vr_buys = hs_buys h, vr_sells = hs_sells h,
      vr_parse_failures = hs_tx_fetched h - hs_swaps h, vr_fetch_failures = hs_fetch_failures h,
      vr_history_complete = whole, vr_dex = hs_dex h, vr_last = hs_last h, vr_first = hs_first h\<rparr>"

definition rebuild_wallet_history ::
    "ext \<Rightarrow> 'v monitor_world \<Rightarrow> config \<Rightarrow> string \<Rightarrow> wallet_monitor
     \<Rightarrow> (wallet_report \<times> wallet_monitor) option" where
  "rebuild_wallet_history X W c wallet st =
    (if \<not> is_valid_solana_address wallet then Some (empty_report wallet InvalidWallet True, st)
     else
      (let (found, hit_limit) = fetch_pages (wo_pages W) (rebuild_pages c) wallet None [];
           sigs = take (mn_scan_budget st) found;
           now = wo_end_now W
       in do {
         sol_price \<leftarrow> cfg_sol_price_usd (economics c);
         h \<leftarrow> scan_history X W st sol_price wallet sigs empty_scan;
         stats \<leftarrow> build_stats X (hs_acc h) wallet now;
         tr \<leftarrow> learn X now (hs_observations h) stats (mn_tracker st);
         let st1 = st\<lparr>mn_accumulators := (mn_accumulators st)(wallet \<mapsto> hs_acc h),
               mn_processed := (mn_processed st)(wallet \<mapsto> hs_processed h),
               mn_rebuilt := List.insert wallet (mn_rebuilt st), mn_tracker := tr\<rparr>;
         (early, st2) \<leftarrow> offer_recent X W c wallet now (wo_order W (hs_recent h)) st1;
         Some (case early of
             Some r \<Rightarrow> r
           | None \<Rightarrow> history_report wallet sigs h
               (history_complete hit_limit sigs h (w_trades stats)), st2)
       }))"

section \<open>The incremental poll\<close>

text \<open>
  The new signatures of a wallet: at most \<open>max_transactions_per_tick\<close> transactions are fetched. Marking
  one in the set shared with the websocket takes \<open>blocking_lock\<close>, which by its documentation panics in
  an asynchronous context. The result has the monitor and the swaps found.
\<close>

fun poll_signatures ::
    "'v monitor_world \<Rightarrow> string \<Rightarrow> 'v signature_entry list \<Rightarrow> nat \<Rightarrow> wallet_monitor \<Rightarrow> parsed_swap list
     \<Rightarrow> (wallet_monitor \<times> parsed_swap list) option" where
  "poll_signatures W wallet [] n st swaps = Some (st, swaps)"
| "poll_signatures W wallet (e # es) n st swaps =
    (if sn_err e \<noteq> None then poll_signatures W wallet es n st swaps
     else if (case mn_processed st wallet of None \<Rightarrow> False | Some s \<Rightarrow> sn_signature e \<in> s)
     then poll_signatures W wallet es n st swaps
     else if n \<ge> max_transactions_per_tick then Some (st, swaps)
     else case wo_tx W (sn_signature e) of
       Inl _ \<Rightarrow> poll_signatures W wallet es n st swaps
     | Inr None \<Rightarrow> poll_signatures W wallet es n st swaps
     | Inr (Some tx) \<Rightarrow>
       if \<not> wo_may_block W then None
       else
        (let seen = (case mn_processed st wallet of None \<Rightarrow> {} | Some s \<Rightarrow> s);
             st1 = st\<lparr>mn_processed := (mn_processed st)(wallet \<mapsto> insert (sn_signature e) seen),
               mn_ws_seen := insert (sn_signature e) (mn_ws_seen st)\<rparr>
         in case parse_swap_from_transaction (wo_json W) (wo_order W) tx wallet of
           None \<Rightarrow> None
         | Some None \<Rightarrow> poll_signatures W wallet es (n + 1) st1 swaps
         | Some (Some s) \<Rightarrow> poll_signatures W wallet es (n + 1) st1 (swaps @ [s])))"

text \<open>The accounting of the swaps, with the mints bought.\<close>

fun absorb_polled ::
    "ext \<Rightarrow> 'v monitor_world \<Rightarrow> decimal \<Rightarrow> string \<Rightarrow> parsed_swap list
     \<Rightarrow> wallet_accumulator \<times> wallet_trade_observation list \<Rightarrow> string list
     \<Rightarrow> (wallet_accumulator \<times> wallet_trade_observation list \<times> string list) option" where
  "absorb_polled X W sol_price wallet [] (acc, obs) mints = Some (acc, obs, mints)"
| "absorb_polled X W sol_price wallet (s # ss) (acc, obs) mints = do {
     ao \<leftarrow> absorb_swap X (wo_absorb_now W) s sol_price wallet (observe_dex (sw_dex s) acc, obs);
     absorb_polled X W sol_price wallet ss ao
       (case sw_direction s of SwapBuy \<Rightarrow> List.insert (sw_output_mint s) mints | SwapSell \<Rightarrow> mints)
   }"

fun offer_new ::
    "ext \<Rightarrow> 'v monitor_world \<Rightarrow> config \<Rightarrow> datetime \<Rightarrow> string list \<Rightarrow> wallet_monitor \<times> candidate list
     \<Rightarrow> (wallet_monitor \<times> candidate list) option" where
  "offer_new X W c now [] (st, cands) = Some (st, cands)"
| "offer_new X W c now (m # ms) (st, cands) =
    (if m \<in> mn_offered st then offer_new X W c now ms (st, cands)
     else case mn_sol_price st of
       None \<Rightarrow> offer_new X W c now ms (st, cands)
     | Some p \<Rightarrow> Option.bind (check_and_build_candidate X W c m now p (st, cands))
         (offer_new X W c now ms))"

definition accumulator_of :: "wallet_monitor \<Rightarrow> string \<Rightarrow> wallet_accumulator" where
  "accumulator_of st wallet =
     (case mn_accumulators st wallet of None \<Rightarrow> new_accumulator | Some a \<Rightarrow> a)"

text \<open>A failed request for signatures changes nothing and is only logged.\<close>

definition poll_page :: u32 where "poll_page = 50"

definition poll_wallet ::
    "ext \<Rightarrow> 'v monitor_world \<Rightarrow> config \<Rightarrow> string \<Rightarrow> datetime \<Rightarrow> wallet_monitor \<times> candidate list
     \<Rightarrow> (wallet_monitor \<times> candidate list) option" where
  "poll_wallet X W c wallet now = (\<lambda>(st, cands).
    if wallet \<notin> set (mn_rebuilt st) then Some (st, cands)
    else case wo_pages W wallet poll_page None of
      Inl _ \<Rightarrow> Some (st, cands)
    | Inr sigs \<Rightarrow>
      if sigs = [] then Some (st, cands)
      else do {
        sol_price \<leftarrow> cfg_sol_price_usd (economics c);
        (st1, swaps) \<leftarrow> poll_signatures W wallet sigs 0 st [];
        (acc, obs, mints) \<leftarrow> absorb_polled X W sol_price wallet swaps (accumulator_of st1 wallet, []) [];
        stats \<leftarrow> build_stats X acc wallet now;
        tr \<leftarrow> learn X now obs stats (mn_tracker st1);
        let st2 = st1\<lparr>mn_accumulators := (mn_accumulators st1)(wallet \<mapsto> acc),
              mn_seen := mn_seen st1 \<union> set mints, mn_tracker := tr\<rparr>;
        offer_new X W c now (wo_order W mints) (st2, cands)
      })"

section \<open>Events of the websocket\<close>

definition process_ws_swap_event ::
    "ext \<Rightarrow> 'v monitor_world \<Rightarrow> config \<Rightarrow> datetime \<Rightarrow> ws_event \<Rightarrow> wallet_monitor \<times> candidate list
     \<Rightarrow> (wallet_monitor \<times> candidate list) option" where
  "process_ws_swap_event X W c now ev = (\<lambda>(st, cands).
    case mn_sol_price st of
      None \<Rightarrow> Some (st, cands)
    | Some p \<Rightarrow> do {
        let wallet = we_wallet ev;
        let s = we_swap ev;
        (acc, obs) \<leftarrow> absorb_swap X (wo_absorb_now W) s p wallet
          (observe_dex (sw_dex s) (accumulator_of st wallet), []);
        stats \<leftarrow> build_stats X acc wallet now;
        tr \<leftarrow> learn X now obs stats (mn_tracker st);
        let st1 = st\<lparr>mn_accumulators := (mn_accumulators st)(wallet \<mapsto> acc), mn_tracker := tr\<rparr>;
        (case sw_direction s of
           SwapSell \<Rightarrow> Some (st1, cands)
         | SwapBuy \<Rightarrow>
           (let mint = sw_output_mint s;
                st2 = st1\<lparr>mn_seen := insert mint (mn_seen st1)\<rparr>
            in if mint \<in> mn_offered st2 then Some (st2, cands)
               else check_and_build_candidate X W c mint now p (st2, cands)))
      })"

fun process_ws_events ::
    "ext \<Rightarrow> 'v monitor_world \<Rightarrow> config \<Rightarrow> datetime \<Rightarrow> ws_event list
     \<Rightarrow> wallet_monitor \<times> candidate list \<Rightarrow> (wallet_monitor \<times> candidate list) option" where
  "process_ws_events X W c now [] sc = Some sc"
| "process_ws_events X W c now (e # es) sc =
     Option.bind (process_ws_swap_event X W c now e sc) (process_ws_events X W c now es)"

section \<open>The tick\<close>

definition wallets_per_tick :: nat where "wallets_per_tick = 8"

fun poll_wallets ::
    "ext \<Rightarrow> 'v monitor_world \<Rightarrow> config \<Rightarrow> string list \<Rightarrow> wallet_monitor \<times> candidate list
     \<Rightarrow> (wallet_monitor \<times> candidate list) option" where
  "poll_wallets X W c [] sc = Some sc"
| "poll_wallets X W c (w # ws) sc =
     Option.bind (poll_wallet X W c w (wo_now W) sc) (poll_wallets X W c ws)"

definition poll_batch :: "wallet_monitor \<Rightarrow> string list" where
  "poll_batch st =
    (let n = length (mn_wallets st); start = mn_poll_idx st mod n
     in map (\<lambda>i. mn_wallets st ! (i mod n)) [start ..< start + min wallets_per_tick n])"

definition poll_tick ::
    "ext \<Rightarrow> 'v monitor_world \<Rightarrow> config \<Rightarrow> wallet_monitor \<times> candidate list
     \<Rightarrow> (candidate list \<times> wallet_monitor) option" where
  "poll_tick X W c = (\<lambda>(st, cands).
    (let n = length (mn_wallets st)
     in map_option prod.swap (poll_wallets X W c (poll_batch st)
       (st\<lparr>mn_poll_idx := (mn_poll_idx st mod n + min wallets_per_tick n) mod n\<rparr>, cands))))"

definition wallet_tick ::
    "ext \<Rightarrow> 'v monitor_world \<Rightarrow> config \<Rightarrow> wallet_monitor \<Rightarrow> (candidate list \<times> wallet_monitor) option" where
  "wallet_tick X W c st =
    (if mn_wallets st = [] then Some ([], st)
     else if mn_pending st \<noteq> [] then Some (mn_pending st, st\<lparr>mn_pending := []\<rparr>)
     else do {
       (st1, cands) \<leftarrow> process_ws_events X W c (wo_now W) (mn_ws_events st)
         (st\<lparr>mn_ws_events := []\<rparr>, []);
       (if mn_rebuild_done st1 then poll_tick X W c (st1, cands)
        else case find (\<lambda>w. w \<notin> set (mn_rebuilt st1)) (mn_wallets st1) of
          Some w \<Rightarrow> do {
            (r, st2) \<leftarrow> rebuild_wallet_history X W c w st1;
            Some (cands, maybe_log_summary (record_validation_report r st2))
          }
        | None \<Rightarrow> poll_tick X W c (st1\<lparr>mn_rebuild_done := True\<rparr>, cands))
     })"

fun validate_each ::
    "ext \<Rightarrow> 'v monitor_world \<Rightarrow> config \<Rightarrow> string list \<Rightarrow> wallet_monitor \<Rightarrow> wallet_monitor option" where
  "validate_each X W c [] st = Some st"
| "validate_each X W c (w # ws) st =
    (if w \<in> set (mn_rebuilt st) then validate_each X W c ws st
     else do {
       (r, st1) \<leftarrow> rebuild_wallet_history X W c w st;
       validate_each X W c ws (record_validation_report r st1)
     })"

definition validate_all ::
    "ext \<Rightarrow> 'v monitor_world \<Rightarrow> config \<Rightarrow> wallet_monitor \<Rightarrow> (validation_summary \<times> wallet_monitor) option"
  where
  "validate_all X W c st = do {
     st1 \<leftarrow> validate_each X W c (mn_wallets st) st;
     let st2 = maybe_log_summary (st1\<lparr>mn_rebuild_done := True\<rparr>);
     Some (mn_summary st2, st2)
   }"

section \<open>Facts\<close>

text \<open>Mints added to a set of offered mints, each for the first time.\<close>

definition extends :: "string set \<Rightarrow> string list \<Rightarrow> string set \<Rightarrow> bool" where
  "extends S new S' \<longleftrightarrow> distinct new \<and> set new \<inter> S = {} \<and> S' = S \<union> set new"

lemma extends_Nil [simp]: "extends S [] S' \<longleftrightarrow> S' = S"
  by (auto simp: extends_def)

lemma extends_trans: "extends S xs S' \<Longrightarrow> extends S' ys S'' \<Longrightarrow> extends S (xs @ ys) S''"
  by (auto simp: extends_def)

text \<open>What every operation on candidates keeps: the queue, the price and the wallets.\<close>

definition same_queue :: "wallet_monitor \<Rightarrow> wallet_monitor \<Rightarrow> bool" where
  "same_queue st st' \<longleftrightarrow> mn_pending st' = mn_pending st \<and> mn_sol_price st' = mn_sol_price st
     \<and> mn_wallets st' = mn_wallets st"

lemma same_queue_refl [simp, intro]: "same_queue st st"
  by (simp add: same_queue_def)

lemma same_queue_trans: "same_queue a b \<Longrightarrow> same_queue b d \<Longrightarrow> same_queue a d"
  by (simp add: same_queue_def)

definition offering ::
    "wallet_monitor \<times> candidate list \<Rightarrow> wallet_monitor \<times> candidate list \<Rightarrow> bool" where
  "offering sc sc' \<longleftrightarrow> same_queue (fst sc) (fst sc')
     \<and> (\<exists>new. snd sc' = snd sc @ new
        \<and> extends (mn_offered (fst sc)) (map cd_mint new) (mn_offered (fst sc'))
        \<and> (mn_sol_price (fst sc) = None \<longrightarrow> new = []))"

lemma offering_same:
  "same_queue st st' \<Longrightarrow> mn_offered st' = mn_offered st \<Longrightarrow> offering (st, cands) (st', cands)"
  by (simp add: offering_def)

lemma offering_refl [simp, intro]: "offering sc sc"
  by (cases sc) (auto intro: offering_same)

lemma offering_trans:
  assumes "offering a b" and "offering b d"
  shows "offering a d"
proof -
  obtain xs ys where "snd b = snd a @ xs" "snd d = snd b @ ys"
    "extends (mn_offered (fst a)) (map cd_mint xs) (mn_offered (fst b))"
    "extends (mn_offered (fst b)) (map cd_mint ys) (mn_offered (fst d))"
    "mn_sol_price (fst a) = None \<longrightarrow> xs = []" "mn_sol_price (fst b) = None \<longrightarrow> ys = []"
    using assms by (auto simp: offering_def)
  moreover have "same_queue (fst a) (fst d)" "mn_sol_price (fst b) = mn_sol_price (fst a)"
    using assms same_queue_trans by (auto simp: offering_def same_queue_def)
  ultimately show ?thesis
    unfolding offering_def by (intro conjI exI [of _ "xs @ ys"]) (auto intro: extends_trans)
qed

lemma make_candidate_mint:
  "make_candidate X c st mint now p ws safety d a market impact = Some (Some k) \<Longrightarrow> cd_mint k = mint"
  by (auto simp: make_candidate_def bind_Some_iff Let_def split: option.split_asm)

lemma check_cases:
  assumes "check_and_build_candidate X W c mint now p (st, cands) = Some sc'"
  obtains "sc' = (st, cands)"
  | max_age safety decs amount market impact k where
      "duration_seconds (sint (mn_window st)) = Some max_age"
      "unat (min_consensus_wallets (strategy c))
        \<le> length (qualified_consensus_at (mn_tracker st) mint now max_age)"
      "gather_evidence X W c st mint p = Some (Some (safety, decs, amount, market, impact))"
      "make_candidate X c st mint now p (qualified_consensus_at (mn_tracker st) mint now max_age)
         safety decs amount market impact = Some (Some k)"
      "sc' = (st\<lparr>mn_seen := insert mint (mn_seen st), mn_offered := insert mint (mn_offered st)\<rparr>,
              cands @ [k])"
  using assms unfolding check_and_build_candidate_def
  by (auto simp: bind_Some_iff Let_def not_less split: if_split_asm option.split_asm)

lemma check_offering:
  assumes "check_and_build_candidate X W c mint now p (st, cands) = Some sc'"
    and "mint \<notin> mn_offered st" and "mn_sol_price st \<noteq> None"
  shows "offering (st, cands) sc'"
  using assms(1)
proof (cases rule: check_cases)
  case (2 max_age safety decs amount market impact k)
  then show ?thesis using assms(2,3)
    by (auto simp: offering_def same_queue_def extends_def dest!: make_candidate_mint)
qed simp

lemma offer_new_offering:
  "offer_new X W c now ms (st, cands) = Some sc' \<Longrightarrow> offering (st, cands) sc'"
proof (induction ms arbitrary: st cands)
  case (Cons m ms)
  show ?case
  proof (cases "m \<in> mn_offered st \<or> mn_sol_price st = None")
    case True
    with Cons show ?thesis by (auto split: if_split_asm)
  next
    case False
    then obtain p sc1 where p: "mn_sol_price st = Some p"
      and k: "check_and_build_candidate X W c m now p (st, cands) = Some sc1"
      and r: "offer_new X W c now ms sc1 = Some sc'"
      using Cons.prems by (auto simp: bind_Some_iff)
    have "offering (st, cands) sc1" using check_offering [OF k] False p by simp
    moreover have "offering sc1 sc'" using Cons.IH [of "fst sc1" "snd sc1"] r by simp
    ultimately show ?thesis by (rule offering_trans)
  qed
qed simp

lemma poll_signatures_same:
  "poll_signatures W wallet es n st swaps = Some (st', swaps') \<Longrightarrow>
     same_queue st st' \<and> mn_offered st' = mn_offered st \<and> mn_tracker st' = mn_tracker st"
proof (induction es arbitrary: n st swaps)
  case (Cons e es)
  then show ?case
    by (auto simp: same_queue_def Let_def split: if_split_asm sum.split_asm option.split_asm
        dest!: Cons.IH)
qed (auto)

lemma poll_offering:
  assumes "poll_wallet X W c wallet now (st, cands) = Some sc'"
  shows "offering (st, cands) sc'"
proof (cases "sc' = (st, cands)")
  case False
  then obtain sigs st1 swaps acc obs mints tr where
      p: "poll_signatures W wallet sigs 0 st [] = Some (st1, swaps)"
    and o: "offer_new X W c now (wo_order W mints)
        (st1\<lparr>mn_accumulators := (mn_accumulators st1)(wallet \<mapsto> acc),
             mn_seen := mn_seen st1 \<union> set mints, mn_tracker := tr\<rparr>, cands) = Some sc'"
    using assms unfolding poll_wallet_def
    by (auto simp: bind_Some_iff split: if_split_asm sum.split_asm)
  have "offering (st, cands) (st1\<lparr>mn_accumulators := (mn_accumulators st1)(wallet \<mapsto> acc),
             mn_seen := mn_seen st1 \<union> set mints, mn_tracker := tr\<rparr>, cands)"
    using poll_signatures_same [OF p] by (intro offering_same) (auto simp: same_queue_def)
  then show ?thesis using offer_new_offering [OF o] by (rule offering_trans)
qed simp

lemma ws_event_offering:
  assumes "process_ws_swap_event X W c now ev (st, cands) = Some sc'"
  shows "offering (st, cands) sc'"
proof (cases "mn_sol_price st")
  case None
  then show ?thesis using assms by (simp add: process_ws_swap_event_def)
next
  case (Some p)
  let ?st = "\<lambda>acc tr. st\<lparr>mn_accumulators := (mn_accumulators st)(we_wallet ev \<mapsto> acc),
       mn_tracker := tr\<rparr>"
  let ?seen = "\<lambda>s. s\<lparr>mn_seen := insert (sw_output_mint (we_swap ev)) (mn_seen s)\<rparr>"
  from Some assms obtain acc tr where
    c: "sc' = (?st acc tr, cands) \<or> sc' = (?seen (?st acc tr), cands)
      \<or> sw_output_mint (we_swap ev) \<notin> mn_offered st \<and> check_and_build_candidate X W c
          (sw_output_mint (we_swap ev)) now p (?seen (?st acc tr), cands) = Some sc'"
    unfolding process_ws_swap_event_def
    by (cases "sw_direction (we_swap ev)") (auto simp: bind_Some_iff Let_def split: if_split_asm)
  have s: "offering (st, cands) (?st acc tr, cands)" "offering (st, cands) (?seen (?st acc tr), cands)"
    by (intro offering_same; simp add: same_queue_def)+
  from c show ?thesis
  proof (elim disjE conjE)
    assume "sw_output_mint (we_swap ev) \<notin> mn_offered st" and
      "check_and_build_candidate X W c (sw_output_mint (we_swap ev)) now p
         (?seen (?st acc tr), cands) = Some sc'"
    then have "offering (?seen (?st acc tr), cands) sc'" using Some by (intro check_offering) simp_all
    with s(2) show ?thesis by (rule offering_trans)
  qed (use s in simp_all)
qed

lemma ws_events_offering:
  "process_ws_events X W c now es sc = Some sc' \<Longrightarrow> offering sc sc'"
proof (induction es arbitrary: sc)
  case (Cons e es)
  then obtain sc1 where e: "process_ws_swap_event X W c now e sc = Some sc1"
    and r: "process_ws_events X W c now es sc1 = Some sc'" by (auto simp: bind_Some_iff)
  have "offering sc sc1" using ws_event_offering [of X W c now e "fst sc" "snd sc"] e by simp
  then show ?case using Cons.IH [OF r] by (rule offering_trans)
qed simp

lemma poll_wallets_offering:
  "poll_wallets X W c ws sc = Some sc' \<Longrightarrow> offering sc sc'"
proof (induction ws arbitrary: sc)
  case (Cons w ws)
  then obtain sc1 where e: "poll_wallet X W c w (wo_now W) sc = Some sc1"
    and r: "poll_wallets X W c ws sc1 = Some sc'" by (auto simp: bind_Some_iff)
  have "offering sc sc1" using poll_offering [of X W c w "wo_now W" "fst sc" "snd sc"] e by simp
  then show ?case using Cons.IH [OF r] by (rule offering_trans)
qed simp

text \<open>A reconstruction puts its candidates in the queue.\<close>

definition queueing :: "wallet_monitor \<Rightarrow> wallet_monitor \<Rightarrow> bool" where
  "queueing st st' \<longleftrightarrow> mn_sol_price st' = mn_sol_price st \<and> mn_wallets st' = mn_wallets st
     \<and> (\<exists>new. mn_pending st' = mn_pending st @ new
        \<and> extends (mn_offered st) (map cd_mint new) (mn_offered st')
        \<and> (mn_sol_price st = None \<longrightarrow> new = []))"

lemma queueing_refl [simp, intro]: "queueing st st"
  by (simp add: queueing_def)

lemma queueing_trans:
  assumes "queueing a b" and "queueing b d"
  shows "queueing a d"
proof -
  obtain xs ys where "mn_pending b = mn_pending a @ xs" "mn_pending d = mn_pending b @ ys"
    "extends (mn_offered a) (map cd_mint xs) (mn_offered b)"
    "extends (mn_offered b) (map cd_mint ys) (mn_offered d)"
    "mn_sol_price a = None \<longrightarrow> xs = []" "mn_sol_price b = None \<longrightarrow> ys = []"
    "mn_sol_price b = mn_sol_price a" "mn_sol_price d = mn_sol_price b"
    "mn_wallets b = mn_wallets a" "mn_wallets d = mn_wallets b"
    using assms by (auto simp: queueing_def)
  then show ?thesis
    unfolding queueing_def by (intro conjI exI [of _ "xs @ ys"]) (auto intro: extends_trans)
qed

lemma queueing_offering:
  assumes "offering (st, []) (st1, cs)"
  shows "queueing st (st1\<lparr>mn_pending := mn_pending st1 @ cs\<rparr>)"
  using assms by (auto simp: offering_def queueing_def same_queue_def)

lemma check_tracker:
  "check_and_build_candidate X W c m now p (st, cands) = Some (st', cands') \<Longrightarrow>
     mn_tracker st' = mn_tracker st"
  by (erule check_cases) auto

lemma offer_recent_queueing:
  "offer_recent X W c wallet now ms st = Some (r, st') \<Longrightarrow>
     queueing st st' \<and> mn_tracker st' = mn_tracker st"
proof (induction ms arbitrary: st)
  case (Cons m ms)
  show ?case
  proof (cases "m \<in> mn_offered st \<or> mn_sol_price st = None")
    case True
    with Cons show ?thesis by (auto split: if_split_asm)
  next
    case False
    then obtain p st1 cs where p: "mn_sol_price st = Some p"
      and k: "check_and_build_candidate X W c m now p (st, []) = Some (st1, cs)"
      and r: "offer_recent X W c wallet now ms (st1\<lparr>mn_pending := mn_pending st1 @ cs\<rparr>)
        = Some (r, st')"
      using Cons.prems by (auto simp: bind_Some_iff)
    have "queueing st (st1\<lparr>mn_pending := mn_pending st1 @ cs\<rparr>)"
      using check_offering [OF k] False p by (intro queueing_offering) simp
    with Cons.IH [OF r] show ?thesis using queueing_trans check_tracker [OF k] by auto
  qed
qed simp

lemma rebuild_cases:
  assumes "rebuild_wallet_history X W c wallet st = Some (r, st')" and "is_valid_solana_address wallet"
  obtains found hit h sol stats tr early where
    "fetch_pages (wo_pages W) (rebuild_pages c) wallet None [] = (found, hit)"
    "cfg_sol_price_usd (economics c) = Some sol"
    "scan_history X W st sol wallet (take (mn_scan_budget st) found) empty_scan = Some h"
    "build_stats X (hs_acc h) wallet (wo_end_now W) = Some stats"
    "learn X (wo_end_now W) (hs_observations h) stats (mn_tracker st) = Some tr"
    "offer_recent X W c wallet (wo_end_now W) (wo_order W (hs_recent h))
      (st\<lparr>mn_accumulators := (mn_accumulators st)(wallet \<mapsto> hs_acc h),
          mn_processed := (mn_processed st)(wallet \<mapsto> hs_processed h),
          mn_rebuilt := List.insert wallet (mn_rebuilt st), mn_tracker := tr\<rparr>) = Some (early, st')"
    "r = (case early of Some r \<Rightarrow> r | None \<Rightarrow> history_report wallet (take (mn_scan_budget st) found) h
       (history_complete hit (take (mn_scan_budget st) found) h (w_trades stats)))"
  using assms unfolding rebuild_wallet_history_def
  by (auto simp: bind_Some_iff Let_def split: prod.split_asm)

lemma rebuild_queueing:
  assumes "rebuild_wallet_history X W c wallet st = Some (r, st')"
  shows "queueing st st'"
proof (cases "is_valid_solana_address wallet")
  case True
  from assms this show ?thesis
  proof (cases rule: rebuild_cases)
    case (1 found hit h sol stats tr early)
    then show ?thesis using offer_recent_queueing [OF 1(6)] by (auto simp: queueing_def)
  qed
next
  case False
  then show ?thesis using assms by (simp add: rebuild_wallet_history_def)
qed

lemma report_queueing:
  "queueing st st' \<Longrightarrow> queueing st (record_validation_report r st')"
  "queueing st st' \<Longrightarrow> queueing st (maybe_log_summary st')"
  by (auto simp: queueing_def record_validation_report_def maybe_log_summary_def)

lemma validate_each_queueing:
  "validate_each X W c ws st = Some st' \<Longrightarrow> queueing st st'"
proof (induction ws arbitrary: st)
  case (Cons w ws)
  show ?case
  proof (cases "w \<in> set (mn_rebuilt st)")
    case False
    then obtain r st1 where "rebuild_wallet_history X W c w st = Some (r, st1)"
      and v: "validate_each X W c ws (record_validation_report r st1) = Some st'"
      using Cons.prems by (auto simp: bind_Some_iff)
    from rebuild_queueing [OF this(1)] show ?thesis
      using report_queueing(1) queueing_trans Cons.IH [OF v] by blast
  qed (use Cons in simp)
qed simp

lemma validate_all_queueing:
  assumes "validate_all X W c st = Some (s, st')"
  shows "queueing st st'"
proof -
  obtain st1 where v: "validate_each X W c (mn_wallets st) st = Some st1"
    and st': "st' = maybe_log_summary (st1\<lparr>mn_rebuild_done := True\<rparr>)"
    using assms by (auto simp: validate_all_def bind_Some_iff Let_def)
  have "queueing st1 (st1\<lparr>mn_rebuild_done := True\<rparr>)" by (simp add: queueing_def)
  with validate_each_queueing [OF v] show ?thesis unfolding st'
    by (intro report_queueing(2)) (rule queueing_trans)
qed

text \<open>A tick releases what was queued and what it built itself.\<close>

lemma poll_tick_offering:
  "poll_tick X W c (st, cands) = Some (out, st') \<Longrightarrow> offering (st, cands) (st', out)"
proof -
  assume "poll_tick X W c (st, cands) = Some (out, st')"
  then have "poll_wallets X W c (poll_batch st) (st\<lparr>mn_poll_idx := (mn_poll_idx st mod
      length (mn_wallets st) + min wallets_per_tick (length (mn_wallets st)))
      mod length (mn_wallets st)\<rparr>, cands) = Some (st', out)"
    by (auto simp: poll_tick_def Let_def)
  from poll_wallets_offering [OF this] show "offering (st, cands) (st', out)"
    by (auto simp: offering_def same_queue_def)
qed

lemma tick_offers:
  assumes "wallet_tick X W c st = Some (out, st')"
  shows "mn_sol_price st' = mn_sol_price st \<and> mn_wallets st' = mn_wallets st \<and> (\<exists>new.
     out @ mn_pending st' = mn_pending st @ new
     \<and> extends (mn_offered st) (map cd_mint new) (mn_offered st')
     \<and> (mn_sol_price st = None \<longrightarrow> new = []))"
proof (cases "mn_wallets st = [] \<or> mn_pending st \<noteq> []")
  case True
  then show ?thesis using assms by (auto simp: wallet_tick_def split: if_split_asm)
next
  case False
  then obtain st1 cands where e: "process_ws_events X W c (wo_now W) (mn_ws_events st)
      (st\<lparr>mn_ws_events := []\<rparr>, []) = Some (st1, cands)"
    and t: "(if mn_rebuild_done st1 then poll_tick X W c (st1, cands)
        else case find (\<lambda>w. w \<notin> set (mn_rebuilt st1)) (mn_wallets st1) of
          Some w \<Rightarrow> Option.bind (rebuild_wallet_history X W c w st1) (\<lambda>(r, st2).
            Some (cands, maybe_log_summary (record_validation_report r st2)))
        | None \<Rightarrow> poll_tick X W c (st1\<lparr>mn_rebuild_done := True\<rparr>, cands)) = Some (out, st')"
    using assms by (auto simp: wallet_tick_def bind_Some_iff)
  have "offering (st\<lparr>mn_ws_events := []\<rparr>, []) (st1, cands)" by (rule ws_events_offering [OF e])
  then have o: "offering (st, []) (st1, cands)" by (simp add: offering_def same_queue_def)
  have polled: "?thesis" if "poll_tick X W c (st1\<lparr>mn_rebuild_done := b\<rparr>, cands) = Some (out, st')" for b
  proof -
    have "offering (st1, cands) (st', out)"
      using poll_tick_offering [OF that] by (simp add: offering_def same_queue_def)
    with o have "offering (st, []) (st', out)" by (rule offering_trans)
    then show ?thesis using False by (auto simp: offering_def same_queue_def)
  qed
  consider "poll_tick X W c (st1\<lparr>mn_rebuild_done := True\<rparr>, cands) = Some (out, st')"
    | w r st2 where "rebuild_wallet_history X W c w st1 = Some (r, st2)" "out = cands"
        "st' = maybe_log_summary (record_validation_report r st2)"
  proof (cases "mn_rebuild_done st1")
    case True
    then have eq: "st1\<lparr>mn_rebuild_done := True\<rparr> = st1" by simp
    show thesis by (rule that(1), unfold eq) (use t True in simp)
  qed (use t that in \<open>auto simp: bind_Some_iff split: option.split_asm\<close>)
  then show ?thesis
  proof cases
    case 2
    then have q: "queueing st1 st'" using rebuild_queueing report_queueing by blast
    obtain xs where xs: "mn_pending st' = mn_pending st1 @ xs"
      "extends (mn_offered st1) (map cd_mint xs) (mn_offered st')"
      "mn_sol_price st1 = None \<longrightarrow> xs = []" "mn_sol_price st' = mn_sol_price st1"
      "mn_wallets st' = mn_wallets st1"
      using q by (auto simp: queueing_def)
    with o 2(2) False show ?thesis
      by (intro conjI exI [of _ "cands @ xs"])
        (auto simp: offering_def same_queue_def intro: extends_trans)
  qed (rule polled)
qed

section \<open>Runs of the monitor\<close>

text \<open>
  What can happen to a monitor: a tick or a validation of the cohort in one of the worlds allowed, an
  event of the websocket and, when the flag is set, a new price. The list has the candidates released.
\<close>

inductive wallet_run ::
    "ext \<Rightarrow> config \<Rightarrow> ('v monitor_world \<Rightarrow> bool) \<Rightarrow> bool \<Rightarrow> wallet_monitor \<Rightarrow> candidate list
     \<Rightarrow> wallet_monitor \<Rightarrow> bool"
  for X c world priced st where
  start: "wallet_run X c world priced st [] st"
| tick: "wallet_run X c world priced st out st1 \<Longrightarrow> world W \<Longrightarrow>
     wallet_tick X W c st1 = Some (cs, st2) \<Longrightarrow> wallet_run X c world priced st (out @ cs) st2"
| validate: "wallet_run X c world priced st out st1 \<Longrightarrow> world W \<Longrightarrow>
     validate_all X W c st1 = Some (s, st2) \<Longrightarrow> wallet_run X c world priced st out st2"
| event: "wallet_run X c world priced st out st1 \<Longrightarrow>
     wallet_run X c world priced st out
       (st1\<lparr>mn_ws_events := mn_ws_events st1 @ [e], mn_ws_seen := insert k (mn_ws_seen st1)\<rparr>)"
| price: "wallet_run X c world priced st out st1 \<Longrightarrow> priced \<Longrightarrow>
     wallet_run X c world priced st out (set_sol_price p st1)"

definition offers_ok :: "candidate list \<Rightarrow> wallet_monitor \<Rightarrow> bool" where
  "offers_ok out st \<longleftrightarrow> distinct (map cd_mint (out @ mn_pending st))
     \<and> mn_offered st = cd_mint ` set (out @ mn_pending st)"

lemma offers_ok_extends:
  assumes "offers_ok out st" and "cs @ mn_pending st' = mn_pending st @ new"
    and "extends (mn_offered st) (map cd_mint new) (mn_offered st')"
  shows "offers_ok (out @ cs) st'"
proof -
  have e: "(out @ cs) @ mn_pending st' = (out @ mn_pending st) @ new" using assms(2) by simp
  show ?thesis using assms(1,3) unfolding offers_ok_def e extends_def
    by (auto simp: image_Un)
qed

lemma run_offers_ok:
  "wallet_run X c world priced st out st' \<Longrightarrow> offers_ok [] st \<Longrightarrow> offers_ok out st'"
proof (induction rule: wallet_run.induct)
  case (tick out st1 W cs st2)
  from tick_offers [OF tick.hyps(3)] obtain new where
    "cs @ mn_pending st2 = mn_pending st1 @ new"
    "extends (mn_offered st1) (map cd_mint new) (mn_offered st2)" by blast
  with tick.IH [OF tick.prems] show ?case by (rule offers_ok_extends)
next
  case (validate out st1 W s st2)
  from validate_all_queueing [OF validate.hyps(3)] obtain new where
    "[] @ mn_pending st2 = mn_pending st1 @ new"
    "extends (mn_offered st1) (map cd_mint new) (mn_offered st2)" by (auto simp: queueing_def)
  from offers_ok_extends [OF validate.IH [OF validate.prems] this] show ?case by simp
qed (auto simp: offers_ok_def set_sol_price_def)

lemma run_unpriced:
  "wallet_run X c world priced st out st' \<Longrightarrow> \<not> priced \<Longrightarrow> mn_sol_price st = None \<Longrightarrow>
     mn_pending st = [] \<Longrightarrow> out = [] \<and> mn_pending st' = [] \<and> mn_sol_price st' = None"
proof (induction rule: wallet_run.induct)
  case (tick out st1 W cs st2)
  then show ?case using tick_offers [OF tick.hyps(3)] by auto
next
  case (validate out st1 W s st2)
  then show ?case using validate_all_queueing [OF validate.hyps(3)] by (auto simp: queueing_def)
qed auto

section \<open>What the poll and the reconstruction do not guard\<close>

text \<open>
  A reconstruction that found a trade feeds the tracker whatever its verdict: with fewer than the
  required completed trades the wallet is never active, yet its statistics are the tracker's.
\<close>

lemma incomplete_history_is_used:
  assumes "rebuild_wallet_history X W c wallet st = Some (r, st')"
    and "is_valid_solana_address wallet" and "mn_accumulators st' wallet = Some acc"
    and "build_stats X acc wallet (wo_end_now W) = Some stats"
    and "0 < w_trades stats" and "w_trades stats < min_completed_trades"
  shows "vr_status r \<noteq> ValidActive \<and> (\<exists>s tr0. upsert X tr0 stats = Some (mn_tracker st')
    \<and> tr_wallets (mn_tracker st') wallet = Some s \<and> w_trades s = w_trades stats)"
  using assms(1,2)
proof (cases rule: rebuild_cases)
  case (1 found hit h sol stats' tr early)
  have acc: "mn_accumulators st' wallet = Some (hs_acc h)"
    if "offer_recent X W c wallet now ms st0 = Some (early', st')"
      "mn_accumulators st0 wallet = Some (hs_acc h)" for now ms st0 early'
    using that
  proof (induction ms arbitrary: st0)
    case (Cons m ms)
    then show ?case
      by (auto simp: bind_Some_iff split: if_split_asm option.split_asm elim!: check_cases)
  qed simp
  from acc [OF 1(6)] have "acc = hs_acc h" using assms(3) by simp
  with 1(4) assms(4) have st: "stats' = stats" by simp
  from 1(5) st assms(5) have u: "upsert X (keep_observations (wo_end_now W) (hs_observations h)
      (mn_tracker st)) stats = Some tr" by (simp add: learn_def Let_def)
  have t: "mn_tracker st' = tr" using offer_recent_queueing [OF 1(6)] by simp
  have w: "w_wallet stats = wallet"
    using assms(4) by (auto simp: build_stats_def empty_stats_def bind_Some_iff Let_def
        split: if_split_asm)
  have "\<not> history_complete hit' sigs h' (w_trades stats)" for hit' sigs h'
    using assms(6) unfolding history_complete_def Let_def by (simp add: not_le)
  moreover have "early = Some r' \<Longrightarrow> vr_status r' = IncompleteHistory" for r'
    using 1(6)
  proof -
    have "offer_recent X W c wallet now ms st0 = Some (Some r', st') \<Longrightarrow>
        vr_status r' = IncompleteHistory" for now ms st0
      by (induction ms arbitrary: st0)
        (auto simp: bind_Some_iff empty_report_def split: if_split_asm option.split_asm)
    then show "early = Some r' \<Longrightarrow> vr_status r' = IncompleteHistory" using 1(6) by blast
  qed
  ultimately have "vr_status r \<noteq> ValidActive"
    using 1(7) st by (auto simp: history_report_def history_status_def split: option.split)
  moreover obtain s where "score_wallet X stats (tr_thresholds (keep_observations (wo_end_now W)
      (hs_observations h) (mn_tracker st))) = Some s"
    "tr_wallets tr (w_wallet s) = Some s" using u by (auto simp: upsert_def bind_Some_iff)
  moreover from this(1) have "w_wallet s = wallet" "w_trades s = w_trades stats"
    using w by (auto simp: score_wallet_def bind_Some_iff)
  ultimately show ?thesis using u t by auto
qed

text \<open>A page that could not be fetched ends the walk exactly like the end of the history.\<close>

lemma failed_page_ends_the_history:
  "P wallet default_rebuild_page before = Inl e \<Longrightarrow> fetch_pages P n wallet before acc = (acc, False)"
  by (cases n) simp_all

text \<open>Where blocking is not allowed, the first new transaction a poll fetches panics.\<close>

lemma poll_panics_in_async_context:
  assumes "\<not> wo_may_block W" and "wallet \<in> set (mn_rebuilt st)"
    and "wo_pages W wallet poll_page None = Inr (e # es)" and "sn_err e = None"
    and "mn_processed st wallet = Some s" and "sn_signature e \<notin> s"
    and "wo_tx W (sn_signature e) = Inr (Some tx)"
  shows "poll_wallet X W c wallet now (st, cands) = None"
  using assms by (simp add: poll_wallet_def max_transactions_per_tick_def)

text \<open>Observations carry the clock reading of their absorption, later than that of the tick.\<close>

lemma absorbed_received_at:
  "absorb_swap X t s p wallet (acc, obs) = Some (acc', obs') \<Longrightarrow>
     list_all (\<lambda>ob. ob_received_at ob = t) obs \<Longrightarrow> list_all (\<lambda>ob. ob_received_at ob = t) obs'"
  by (cases "sw_direction s")
    (auto simp: absorb_swap_def bind_Some_iff Let_def split: if_split_asm)

lemma late_observations_are_dropped:
  assumes "list_all (\<lambda>ob. ob_received_at ob = t) obs" and "now < t"
  shows "keep_observations now obs tr = tr"
proof -
  have "filter (\<lambda>ob. ob_received_at ob \<le> now) obs = []"
    using assms by (auto simp: filter_empty_conv list_all_iff)
  then show ?thesis unfolding keep_observations_def by simp
qed

lemma case_nothing:
  "(case x of None \<Rightarrow> Some None | Some p \<Rightarrow> m p) = Some (Some k) \<longleftrightarrow> (\<exists>p. x = Some p \<and> m p = Some (Some k))"
  by (cases x) auto

lemma win_loss_positive: "win_loss X ws = Some (Some wl) \<Longrightarrow> 0 < snd wl"
  by (fastforce simp: win_loss_def bind_Some_iff split: option.split_asm if_split_asm)

lemma cost_model_of:
  "candidate_cost_model X c usd p impact wl now = Some m \<Longrightarrow>
     position_size_usd (cm_input m) = usd \<and> assumed_avg_loss_pct (cm_input m) = snd wl"
  by (auto simp: candidate_cost_model_def bind_Some_iff)

lemma case_snapshot:
  "(case snap of Inr (Some (market, impact)) \<Rightarrow> Some (Some (f market impact)) | _ \<Rightarrow> Some None)
     = Some (Some r) \<longleftrightarrow> (\<exists>market impact. snap = Inr (Some (market, impact)) \<and> f market impact = r)"
  by (auto split: sum.split option.split)

lemma snapshot_quote:
  assumes "fetch_market_snapshot X E mint p sd td amount slip now = Some (Inr (Some r))"
  shows "\<exists>q. xe_quote E wsol_mint mint amount slip = Inr q \<and> q_input_amount q \<noteq> 0
    \<and> q_output_amount q \<noteq> 0"
  using assms unfolding fetch_market_snapshot_def
  by (cases "xe_quote E wsol_mint mint amount slip") (auto split: if_split_asm)

section \<open>Properties\<close>

text \<open>
  C29: No candidate without evidence. When the monitor adds a
  candidate for a mint, it is a single one, for that mint, which is then marked as offered. Its
  wallets are the consensus of the tracker at the time of the tick and are at least as many as
  required; the decimals come from the initialised mint on the chain; its safety facts are those
  proved from the chain, with route and sellability set only because a quote with non-zero amounts
  was received; the assumed loss is positive, and the size in the cost model is that of the
  candidate, so the entry screen of the session never refuses it for a mismatch of the two.
\<close>

theorem candidate_is_evidenced:
  assumes "check_and_build_candidate X W c mint now p (st, cands) = Some (st', cands')"
    and "cands' \<noteq> cands"
  shows "\<exists>k max_age safety info q. cands' = cands @ [k] \<and> cd_mint k = mint \<and> mint \<in> mn_offered st'
    \<and> duration_seconds (sint (mn_window st)) = Some max_age
    \<and> cd_wallets k = qualified_consensus_at (mn_tracker st) mint now max_age
    \<and> unat (min_consensus_wallets (strategy c)) \<le> length (cd_wallets k)
    \<and> wo_mint_again W mint = Inr (Some info) \<and> ma_is_initialized info
    \<and> cd_token_decimals k = Some (ma_decimals info)
    \<and> fetch_token_safety (wo_mint_info W mint) (wo_largest W mint)
        (wo_pages W mint (of_nat age_page_limit)) (min_token_age_secs (strategy c))
        (wo_safety_ts W) (wo_safety_now W) = Inr (Some safety)
    \<and> cd_safety k = safety\<lparr>sellable := Some True, route_available := Some True\<rparr>
    \<and> xe_quote (wo_exec W) wsol_mint mint (cd_input_amount k) (slippage_bps (execution c)) = Inr q
    \<and> q_input_amount q \<noteq> 0 \<and> q_output_amount q \<noteq> 0
    \<and> 0 < assumed_avg_loss_pct (cm_input (cd_costs k))
    \<and> position_size_usd (cm_input (cd_costs k)) = cd_position_usd k"
  using assms(1)
proof (cases rule: check_cases)
  case (2 max_age safety decs amount market impact k)
  obtain info q where e: "fetch_token_safety (wo_mint_info W mint) (wo_largest W mint)
        (wo_pages W mint (of_nat age_page_limit)) (min_token_age_secs (strategy c))
        (wo_safety_ts W) (wo_safety_now W) = Inr (Some safety)"
      "wo_mint_again W mint = Inr (Some info)" "ma_is_initialized info" "decs = ma_decimals info"
      "xe_quote (wo_exec W) wsol_mint mint amount (slippage_bps (execution c)) = Inr q"
      "q_input_amount q \<noteq> 0" "q_output_amount q \<noteq> 0"
    using 2(3) unfolding gather_evidence_def
    by (auto simp: bind_Some_iff case_snapshot dest!: snapshot_quote
        split: sum.split_asm option.split_asm if_split_asm)
  have k: "cd_mint k = mint" "cd_input_amount k = amount" "cd_token_decimals k = Some decs"
      "cd_wallets k = qualified_consensus_at (mn_tracker st) mint now max_age"
      "cd_safety k = safety\<lparr>sellable := Some True, route_available := Some True\<rparr>"
      "0 < assumed_avg_loss_pct (cm_input (cd_costs k))"
      "position_size_usd (cm_input (cd_costs k)) = cd_position_usd k"
    using 2(4)
    by (auto simp: make_candidate_def bind_Some_iff case_nothing Let_def
        dest!: win_loss_positive cost_model_of)
  from 2(1,2,5) e k show ?thesis
    by (intro exI [of _ k] exI [of _ max_age] exI [of _ safety] exI [of _ info] exI [of _ q]) simp
qed (use assms(2) in simp)

text \<open>
  C30: Every mint is offered at most once. Over any run
  of a monitor that starts with nothing offered, with ticks, validations of the cohort, events of the websocket and
  price updates in any order, the candidates released so far together with those still queued have
  pairwise different mints, and these are exactly the mints marked as offered: none is repeated,
  lost from the mark or marked without a candidate.
\<close>

theorem each_mint_is_offered_once:
  assumes "wallet_run X c world priced st0 out st" and "mn_pending st0 = []"
    and "mn_offered st0 = {}"
  shows "distinct (map cd_mint (out @ mn_pending st))
    \<and> mn_offered st = cd_mint ` set (out @ mn_pending st)"
proof -
  have "offers_ok [] st0" using assms(2,3) by (simp add: offers_ok_def)
  from run_offers_ok [OF assms(1) this] show ?thesis by (simp only: offers_ok_def)
qed

text \<open>
  Without a price nothing is offered. As long as the
  price of SOL is never handed to the monitor, no run releases or queues a candidate, whatever the
  wallets did and whatever the nodes answer: the failure is closed. No caller in the repository
  hands a price to the monitor, so its candidates never reach the session.
\<close>

theorem no_price_no_candidate:
  assumes "wallet_run X c world False (initial_monitor c wallets) out st"
  shows "out = [] \<and> mn_pending st = [] \<and> mn_offered st = {}"
proof -
  have "out = [] \<and> mn_pending st = []"
    using run_unpriced [OF assms] by (simp add: initial_monitor_def)
  moreover have "offers_ok out st"
    using run_offers_ok [OF assms] by (simp add: offers_ok_def initial_monitor_def)
  ultimately show ?thesis by (simp add: offers_ok_def)
qed

section \<open>A consensus of two wallets\<close>

definition sample_trader :: "string \<Rightarrow> wallet_stats" where
  "sample_trader name = (sample_wallet name)\<lparr>w_avg_win_pct := Some 30, w_avg_loss_pct := Some 10\<rparr>"

definition sample_purchase :: "string \<Rightarrow> wallet_trade_observation" where
  "sample_purchase name = \<lparr>ob_wallet = name, ob_mint = ''m'', ob_side = Buy, ob_notional_usd = 5,
     ob_observed_at = 0, ob_received_at = 0, ob_signature = ''s''\<rparr>"

definition sample_monitor :: wallet_monitor where
  "sample_monitor = (initial_monitor (example_config Paper) [''w''])\<lparr>
     mn_tracker := \<lparr>tr_wallets = [''a'' \<mapsto> sample_trader ''a'', ''b'' \<mapsto> sample_trader ''b''],
       tr_observations = [sample_purchase ''a'', sample_purchase ''b''],
       tr_thresholds = default_thresholds\<rparr>,
     mn_position_usd := 5, mn_sol_price := Some 150\<rparr>"

definition sample_world :: "jval monitor_world" where
  "sample_world = \<lparr>wo_json = jval_ops, wo_order = (\<lambda>xs. xs),
     wo_pages = (\<lambda>_ _ _. Inr [sample_entry_at 100]), wo_tx = (\<lambda>_. Inr None),
     wo_mint_info = (\<lambda>_. Inr (Some sample_mint_info)),
     wo_mint_again = (\<lambda>_. Inr (Some sample_mint_info)),
     wo_largest = (\<lambda>_. Inr [\<lparr>la_address = ''a'', la_amount = 400, la_decimals = 6\<rparr>]),
     wo_exec = sample_exec (Inl StaleQuote), wo_may_block = False, wo_now = 0, wo_window_now = 0,
     wo_absorb_now = 1, wo_end_now = 0, wo_safety_ts = 100000, wo_safety_now = 0,
     wo_quote_now = 0\<rparr>"

lemma sample_consensus:
  "qualified_consensus_at (mn_tracker sample_monitor) ''m'' 0 (secs n)
     = (if 0 \<le> n then [sample_trader ''a'', sample_trader ''b''] else [])"
  by (simp add: qualified_consensus_at_def sample_monitor_def sample_purchase_def buy_evidence_def
      wallet_usable_def sample_trader_def sample_wallet_def entity_key_def secs_def nanos_def
      List.map_filter_def)

lemma sample_evidence:
  "\<exists>safety amount market impact. gather_evidence exact_ext sample_world (example_config Paper)
     sample_monitor ''m'' 150 = Some (Some (safety, 6, amount, market, impact))"
proof -
  have age: "age_walk max_age_pages (\<lambda>_. Inr [sample_entry_at 100]) 13600 None None
      = Inr (Some 100, False)"
    by (simp add: max_age_pages_def eval_nat_numeral oldest_of_def older_def sample_entry_at_def
        reached_def)
  have "\<exists>s. fetch_token_safety (wo_mint_info sample_world ''m'') (wo_largest sample_world ''m'')
      (wo_pages sample_world ''m'' (of_nat age_page_limit))
      (min_token_age_secs (strategy (example_config Paper))) (wo_safety_ts sample_world)
      (wo_safety_now sample_world) = Inr (Some s)"
    using age by (simp add: fetch_token_safety_def sample_world_def sample_mint_info_def i64_sat_def
        example_config_def)
  then show ?thesis
    by (auto simp: gather_evidence_def sample_world_def sample_mint_info_def candidate_input_def
        example_config_def fetch_market_snapshot_def sample_exec_def sample_quote_def pow10_u64_def
        checked_pow10_def sample_monitor_def dec_of_word_def fit_def dec_max_def
        estimate_liquidity_usd_def)
qed

lemma sample_build:
  assumes "mn_tracker st = mn_tracker sample_monitor" and "mn_window st = mn_window sample_monitor"
    and "mn_position_usd st = mn_position_usd sample_monitor" and "mn_offered st = {}"
  shows "\<exists>st' k. check_and_build_candidate exact_ext sample_world (example_config Paper) ''m'' 0 150
     (st, []) = Some (st', [k]) \<and> cd_mint k = ''m''
       \<and> st' = st\<lparr>mn_seen := insert ''m'' (mn_seen st), mn_offered := {''m''}\<rparr>"
proof -
  have g: "gather_evidence exact_ext sample_world (example_config Paper) st ''m'' 150
      = gather_evidence exact_ext sample_world (example_config Paper) sample_monitor ''m'' 150"
    by (simp only: gather_evidence_def assms(3))
  obtain safety amount market impact where e: "gather_evidence exact_ext sample_world
      (example_config Paper) st ''m'' 150 = Some (Some (safety, 6, amount, market, impact))"
    using sample_evidence g by auto
  let ?ws = "[sample_trader ''a'', sample_trader ''b'']"
  have n: "duration_seconds (sint (mn_window st)) = Some (secs 900)"
    using assms(2) by (simp add: duration_seconds_def sample_monitor_def initial_monitor_def
        example_config_def wallet_monitor_default_def default_consensus_window_def)
  have "\<exists>k. make_candidate exact_ext (example_config Paper) st ''m'' 0 150 ?ws safety 6 amount
      market impact = Some (Some k)"
    by (simp add: make_candidate_def win_loss_def mean_opt_def dec_mean_def dec_sum_def
        candidate_cost_model_def sample_trader_def sample_wallet_def List.map_filter_def fit_def
        dec_max_def dec_of_word_def example_config_def Let_def)
  then obtain k where k: "make_candidate exact_ext (example_config Paper) st ''m'' 0 150 ?ws safety 6
      amount market impact = Some (Some k)" by blast
  have m: "min_consensus_wallets (strategy (example_config Paper)) = 2"
    by (simp add: example_config_def)
  show ?thesis
    using n k e m sample_consensus [of 900] make_candidate_mint [OF k]
    by (simp add: check_and_build_candidate_def assms(1,4))
qed

theorem candidate_is_evidenced_witness:
  "\<exists>st' k. check_and_build_candidate exact_ext sample_world (example_config Paper) ''m'' 0 150
     (sample_monitor, []) = Some (st', [k]) \<and> 2 \<le> length (cd_wallets k)
     \<and> cd_token_decimals k = Some 6 \<and> ''m'' \<in> mn_offered st'"
proof -
  have "mn_offered sample_monitor = {}" by (simp add: sample_monitor_def initial_monitor_def)
  then obtain st' k where run: "check_and_build_candidate exact_ext sample_world (example_config Paper)
      ''m'' 0 150 (sample_monitor, []) = Some (st', [k])"
    using sample_build [of sample_monitor] by auto
  have w: "wo_mint_again sample_world ''m'' = Inr (Some sample_mint_info)"
    "ma_decimals sample_mint_info = 6"
    "min_consensus_wallets (strategy (example_config Paper)) = 2"
    by (simp_all add: sample_world_def sample_mint_info_def example_config_def)
  from candidate_is_evidenced [OF run] run w show ?thesis by auto
qed

definition sample_event :: ws_event where
  "sample_event = \<lparr>we_wallet = ''w'',
     we_swap = \<lparr>sw_wallet = ''w'', sw_input_mint = wsol_mint, sw_output_mint = ''m'',
       sw_input_amount = 2000, sw_output_amount = 500, sw_input_decimals = 3,
       sw_output_decimals = 2, sw_direction = SwapBuy, sw_fee_lamports = 5, sw_dex = ''orca'',
       sw_slot = 1, sw_block_time = 0, sw_signature = ''s''\<rparr>, we_detected_at = 0\<rparr>"

lemma sample_tick:
  "\<exists>st k. wallet_tick exact_ext sample_world (example_config Paper)
     (sample_monitor\<lparr>mn_ws_events := [sample_event], mn_ws_seen := {''s''}\<rparr>) = Some ([k], st)
     \<and> cd_mint k = ''m''"
proof -
  let ?c = "example_config Paper"
  let ?st0 = "sample_monitor\<lparr>mn_ws_seen := {''s''}, mn_ws_events := []\<rparr>"
  let ?s = "we_swap sample_event"
  obtain acc ob where a: "absorb_swap exact_ext 1 ?s 150 ''w''
      (observe_dex (sw_dex ?s) new_accumulator, []) = Some (acc, [ob])"
    and t: "ac_trades acc = []" and r: "ob_received_at ob = 1"
    by (simp add: absorb_swap_def sample_event_def pow10_u64_def checked_pow10_def dec_of_word_def
        fit_def dec_max_def swap_time_def from_timestamp_def Wallet_Stats.record_observation_def
        observe_dex_def new_accumulator_def max_observations_per_wallet_def Let_def)
  have b: "build_stats exact_ext acc ''w'' 0 = Some (empty_stats ''w'' 0)"
    by (simp add: build_stats_def completed_by_def t)
  have l: "learn exact_ext 0 [ob] (empty_stats ''w'' 0) tr = Some tr" for tr
    by (simp add: learn_def keep_observations_def r empty_stats_def)
  let ?st1 = "?st0\<lparr>mn_accumulators := (mn_accumulators ?st0)(''w'' \<mapsto> acc),
      mn_seen := insert ''m'' (mn_seen ?st0)\<rparr>"
  obtain st2 k where k: "check_and_build_candidate exact_ext sample_world ?c ''m'' 0 150 (?st1, [])
      = Some (st2, [k])" "cd_mint k = ''m''"
    "st2 = ?st1\<lparr>mn_seen := insert ''m'' (mn_seen ?st1), mn_offered := {''m''}\<rparr>"
    using sample_build [of ?st1] by (auto simp: sample_monitor_def initial_monitor_def)
  have e: "process_ws_swap_event exact_ext sample_world ?c 0 sample_event (?st0, [])
      = Some (st2, [k])"
    using a b l k(1)
    by (simp add: process_ws_swap_event_def accumulator_of_def sample_monitor_def
        initial_monitor_def sample_event_def sample_world_def)
  have i: "mn_wallets st2 = [''w'']" "mn_rebuilt st2 = []" "\<not> mn_rebuild_done st2"
    by (simp_all add: k(3) sample_monitor_def initial_monitor_def)
  have n: "wo_now sample_world = 0" "mn_wallets sample_monitor = [''w'']"
    "mn_pending sample_monitor = []"
    by (simp_all add: sample_world_def sample_monitor_def initial_monitor_def)
  show ?thesis
    using e i n k(2)
    by (simp add: wallet_tick_def rebuild_wallet_history_def is_valid_solana_address_def)
qed

theorem each_mint_is_offered_once_witness:
  "\<exists>k st. wallet_run exact_ext (example_config Paper) (\<lambda>W. W = sample_world) True sample_monitor [k] st
     \<and> mn_offered st = insert ''m'' (cd_mint ` set (mn_pending st))
     \<and> ''m'' \<notin> cd_mint ` set (mn_pending st)"
proof -
  let ?run = "wallet_run exact_ext (example_config Paper) (\<lambda>W. W = sample_world) True sample_monitor"
  obtain st k where t: "wallet_tick exact_ext sample_world (example_config Paper)
      (sample_monitor\<lparr>mn_ws_events := [sample_event], mn_ws_seen := {''s''}\<rparr>) = Some ([k], st)"
    and k: "cd_mint k = ''m''" using sample_tick by blast
  have s: "mn_ws_events sample_monitor = []" "mn_ws_seen sample_monitor = {}"
    "mn_pending sample_monitor = []" "mn_offered sample_monitor = {}"
    by (simp_all add: sample_monitor_def initial_monitor_def)
  have "?run [] (sample_monitor\<lparr>mn_ws_events := [sample_event], mn_ws_seen := {''s''}\<rparr>)"
    using wallet_run.event [OF wallet_run.start, where X = exact_ext
        and c = "example_config Paper" and world = "\<lambda>W. W = sample_world" and priced = True
        and st = sample_monitor and e = sample_event and k = "''s''"] s by simp
  from wallet_run.tick [OF this _ t] have r: "?run [k] st" by simp
  with each_mint_is_offered_once [OF r s(3,4)] k show ?thesis by (intro exI [of _ k] exI [of _ st]) auto
qed

theorem no_price_no_candidate_witness:
  "\<exists>st. wallet_run exact_ext (example_config Paper) (\<lambda>W. W = sample_world) False
      (initial_monitor (example_config Paper) []) [] st \<and> mn_ws_events st = [sample_event]
      \<and> mn_pending st = []"
proof -
  let ?st = "(initial_monitor (example_config Paper) [])\<lparr>mn_ws_events := [sample_event],
      mn_ws_seen := {''s''}\<rparr>"
  have "wallet_run exact_ext (example_config Paper) (\<lambda>W. W = sample_world) False
      (initial_monitor (example_config Paper) []) [] ?st"
    using wallet_run.event [OF wallet_run.start, where X = exact_ext and c = "example_config Paper"
        and world = "\<lambda>W. W = sample_world" and priced = False
        and st = "initial_monitor (example_config Paper) []" and e = sample_event and k = "''s''"]
    by (simp add: initial_monitor_def)
  with no_price_no_candidate [OF this] show ?thesis by (intro exI [of _ ?st]) simp
qed

end
