(* ===== verification/Collector.thy ===== *)
theory Collector
  imports Runtime_Session Jupiter
begin

text \<open>
  \<open>src/collector/mod.rs\<close>: the candidate feed, read from a file of JSON lines, from a batch or live
  from quotes of fixed mints. The parser of a line and the answer of the price service are arguments.
  The outer option is None when the code panics.
\<close>

section \<open>Validation\<close>

datatype feed_problem = FutureDated | MarketTooOld int | SafetyTooOld int | MissingDecimals
  | ModelsDisagree

fun feed_problem_text :: "int \<Rightarrow> feed_problem \<Rightarrow> string" where
  "feed_problem_text limit FutureDated = ''future-dated candidate''"
| "feed_problem_text limit (MarketTooOld age) =
     ''market data too old: '' @ show_int age @ ''s > '' @ show_int limit @ ''s''"
| "feed_problem_text limit (SafetyTooOld age) =
     ''safety data too old: '' @ show_int age @ ''s > '' @ show_int limit @ ''s''"
| "feed_problem_text limit MissingDecimals = ''missing canonical mint decimals''"
| "feed_problem_text limit ModelsDisagree = ''position and economic model disagree''"

definition feed_problem_of :: "ext \<Rightarrow> candidate \<Rightarrow> datetime \<Rightarrow> int \<Rightarrow> feed_problem option" where
  "feed_problem_of X k now limit =
    (let market_age = num_seconds X (now - mk_observed_at (cd_market k));
         safety_age = num_seconds X (now - ts_observed_at (cd_safety k))
     in if mk_observed_at (cd_market k) > now \<or> ts_observed_at (cd_safety k) > now
        then Some FutureDated
        else if market_age > limit then Some (MarketTooOld market_age)
        else if safety_age > limit then Some (SafetyTooOld safety_age)
        else if cd_token_decimals k = None \<or> cd_base_mint_decimals k = None
        then Some MissingDecimals
        else if position_size_usd (cm_input (cd_costs k)) \<noteq> cd_position_usd k
        then Some ModelsDisagree
        else None)"

section \<open>Files and batches\<close>

text \<open>The state of a collector: the mints it has seen.\<close>

type_synonym collector = "string set"

definition new_collector :: collector where "new_collector = {}"

text \<open>One line of a feed; a rejected candidate marks its mint as seen.\<close>

definition feed_line ::
    "ext \<Rightarrow> (string \<Rightarrow> string + candidate) \<Rightarrow> datetime \<Rightarrow> int \<Rightarrow> string \<Rightarrow> candidate list \<times> collector
     \<Rightarrow> candidate list \<times> collector" where
  "feed_line X parse now limit line = (\<lambda>(out, seen). case parse line of
      Inl _ \<Rightarrow> (out, seen)
    | Inr k \<Rightarrow>
      if feed_problem_of X k now limit \<noteq> None then (out, insert (cd_mint k) seen)
      else if cd_mint k \<in> seen then (out, seen)
      else (out @ [k], insert (cd_mint k) seen))"

definition collect_from_jsonl ::
    "ext \<Rightarrow> (string \<Rightarrow> string + candidate) \<Rightarrow> string + string \<Rightarrow> datetime \<Rightarrow> int \<Rightarrow> collector
     \<Rightarrow> candidate list \<times> collector" where
  "collect_from_jsonl X parse content now limit seen = (case content of
      Inl _ \<Rightarrow> ([], seen)
    | Inr data \<Rightarrow> fold (feed_line X parse now limit)
        (filter (\<lambda>l. trim l \<noteq> []) (str_lines data)) ([], seen))"

text \<open>A batch; here a rejected candidate leaves no mark.\<close>

definition batch_one ::
    "ext \<Rightarrow> datetime \<Rightarrow> int \<Rightarrow> candidate \<Rightarrow> candidate list \<times> collector \<Rightarrow> candidate list \<times> collector"
  where
  "batch_one X now limit k = (\<lambda>(out, seen).
     if feed_problem_of X k now limit \<noteq> None \<or> cd_mint k \<in> seen then (out, seen)
     else (out @ [k], insert (cd_mint k) seen))"

definition collect_batch ::
    "ext \<Rightarrow> candidate list \<Rightarrow> datetime \<Rightarrow> int \<Rightarrow> collector \<Rightarrow> candidate list \<times> collector" where
  "collect_batch X batch now limit seen = fold (batch_one X now limit) batch ([], seen)"

definition is_seen :: "collector \<Rightarrow> string \<Rightarrow> bool" where "is_seen seen mint \<longleftrightarrow> mint \<in> seen"
definition clear_seen :: "collector \<Rightarrow> collector" where "clear_seen seen = {}"

section \<open>Live collection\<close>

definition scan_mints :: "string list" where
  "scan_mints =
    [''DezXAZ8z7PnrnRJjz3wXBoRgixCa6xjnB7YaB1pPB263'',
     ''EPjFWdd5AufqSSqeM2qN1xzybapC8G4wEGGkZwyTDt1v'',
     ''Es9vMFrzaCERmJfrF4H2FYD4KCoNkY11McCe8BenwNYB'',
     ''mSoLzYCxHdYgdzU16g5QSh3i5K3z3KZK7ytfqcJm7So'',
     ''7vfCXTUNx5WjhG1A8Bn6ULCsG6r18WYVMJbY4eRQvVkX'',
     ''JUPyiwrYJFskUPiHa7hkeR8VUtAeFoSYbKedZNsDvCN'',
     ''7GCihgDB8fe6KNjn2MYtkzZcRjQy3t9GHdC8uHYmW2hr'']"

datatype collect_result = Candidates "candidate list" | RateLimited u64 | Transient string

text \<open>
  The price from the body of the price service: a positive number, printed and read again; \<open>read_dec\<close>
  is \<open>Decimal::from_str_radix\<close> on that text.
\<close>

definition live_sol_price ::
    "(rat \<Rightarrow> string) \<Rightarrow> (string \<Rightarrow> decimal option) \<Rightarrow> 'v json \<Rightarrow> 'v option \<Rightarrow> decimal option" where
  "live_sol_price show_f64 read_dec J answer = (case answer of
      None \<Rightarrow> None
    | Some body \<Rightarrow>
      (case jv_f64 J (jv_index J (jv_index J (jv_index J body ''data'') wsol_mint) ''price'') of
         None \<Rightarrow> None
       | Some p \<Rightarrow> if p > 0
           then Some (case read_dec (show_f64 p) of None \<Rightarrow> 0 | Some d \<Rightarrow> d) else None))"

definition live_market ::
    "ext \<Rightarrow> string \<Rightarrow> datetime \<Rightarrow> decimal \<Rightarrow> decimal \<Rightarrow> u32 \<Rightarrow> market_snapshot option" where
  "live_market X mint now price usd impact = do {
     liquidity \<leftarrow> (if impact > 0 then do {
         a \<leftarrow> dec_mul X usd 10000;
         l \<leftarrow> dec_div X a (dec_of_word impact);
         Some (dec_round_dp X 2 l)
       } else Some usd);
     Some \<lparr>mk_mint = mint, mk_price_usd = price, mk_liquidity_usd = liquidity,
       mk_volume_24h_usd = 0, mk_volatility_pct = 0, mk_buy_sell_imbalance = 0,
       mk_observed_at = now, mk_received_at = now, mk_slot = None,
       mk_price_impact_bps = Some impact\<rparr>
   }"

definition live_safety :: "datetime \<Rightarrow> token_safety" where
  "live_safety now =
     \<lparr>mint_authority_present = False, freeze_authority_present = False, holder_top10_pct = 0,
      token_age_secs = 0, liquidity_locked_or_burned = None, sellable = Some True,
      route_available = Some True, creator_suspicious = None, abnormal_activity = None,
      liquidity_change_pct = None, ts_observed_at = now\<rparr>"

definition live_costs ::
    "ext \<Rightarrow> config \<Rightarrow> datetime \<Rightarrow> decimal \<Rightarrow> decimal \<Rightarrow> u32 \<Rightarrow> cost_model option" where
  "live_costs X c now sol_price usd impact = do {
     f \<leftarrow> dec_div X (dec_of_word (priority_fee_lamports (execution c))) 1000000000;
     fee \<leftarrow> dec_mul X f sol_price;
     Some \<lparr>cm_observed_at = now,
       cm_input = \<lparr>position_size_usd = usd, avg_priority_fee_usd = fee, avg_swap_fee_bps = 0,
         avg_slippage_bps = dec_of_word (slippage_bps (execution c)),
         avg_price_impact_bps = dec_of_word impact, failed_tx_rate = 0, avg_failed_tx_cost_usd = 0,
         assumed_win_loss_ratio = 0, assumed_avg_loss_pct = 0\<rparr>,
       cm_source = ''jupiter_live'', cm_is_live_snapshot = True\<rparr>
   }"

text \<open>The gate against unknown costs: a zero counts as unknown.\<close>

definition unknown_cost :: "break_even_inputs \<Rightarrow> bool" where
  "unknown_cost i \<longleftrightarrow> avg_swap_fee_bps i = 0 \<or> failed_tx_rate i = 0 \<or> avg_failed_tx_cost_usd i = 0
     \<or> assumed_win_loss_ratio i = 0 \<or> assumed_avg_loss_pct i = 0"

definition live_candidate ::
    "ext \<Rightarrow> config \<Rightarrow> datetime \<Rightarrow> decimal \<Rightarrow> string \<Rightarrow> quote \<Rightarrow> candidate option option" where
  "live_candidate X c now sol_price mint q =
    (if q_output_amount q = 0 \<or> q_input_amount q = 0 then Some None
     else do {
       sol \<leftarrow> dec_div X (dec_of_word (q_input_amount q)) 1000000000;
       tokens \<leftarrow> dec_div X (dec_of_word (q_output_amount q)) 1000000;
       if tokens = 0 then Some None
       else do {
         v \<leftarrow> dec_mul X sol sol_price;
         price \<leftarrow> dec_div X v tokens;
         usd \<leftarrow> dec_mul X sol sol_price;
         if usd \<le> 0 \<or> usd > max_live_capital_usd (risk c) then Some None
         else do {
           market \<leftarrow> live_market X mint now price usd (q_price_impact_bps q);
           if mk_liquidity_usd market < min_liquidity_usd (risk c) then Some None
           else do {
             costs \<leftarrow> live_costs X c now sol_price usd (q_price_impact_bps q);
             Some (if unknown_cost (cm_input costs) then None
               else Some \<lparr>cd_mint = mint, cd_token_decimals = Some 6,
                 cd_base_mint_decimals = Some 9, cd_input_amount = q_input_amount q,
                 cd_position_usd = usd, cd_expected_gross_return_pct = 0, cd_market = market,
                 cd_safety = live_safety now, cd_wallets = [], cd_costs = costs,
                 cd_blockchain_timestamp = now, cd_detection_timestamp = now,
                 cd_candidate_timestamp = now, cd_detection_latency_ms = 0\<rparr>)
           }
         }
       }
     })"

text \<open>\<open>priority_fee_lamports * 4\<close>: a plain operator.\<close>

definition times_four :: "ext \<Rightarrow> u64 \<Rightarrow> u64 option" where
  "times_four X w = (if overflow_checks X \<and> \<not> unat w * 4 < 2 ^ 64 then None else Some (w * 4))"

fun live_scan ::
    "ext \<Rightarrow> exec_env \<Rightarrow> config \<Rightarrow> datetime \<Rightarrow> decimal \<Rightarrow> string list \<Rightarrow> candidate list
     \<Rightarrow> collect_result option" where
  "live_scan X E c now sol_price [] out = Some (Candidates out)"
| "live_scan X E c now sol_price (m # ms) out =
    (if m = base_mint (strategy c) then live_scan X E c now sol_price ms out
     else case times_four X (priority_fee_lamports (execution c)) of
       None \<Rightarrow> None
     | Some amount \<Rightarrow>
    (case xe_quote E (base_mint (strategy c)) m amount (slippage_bps (execution c)) of
       Inl (Unavailable msg) \<Rightarrow>
         if sublist ''rate-limited'' msg then Some (RateLimited 5)
         else live_scan X E c now sol_price ms out
     | Inl _ \<Rightarrow> live_scan X E c now sol_price ms out
     | Inr q \<Rightarrow>
       (case live_candidate X c now sol_price m q of
          None \<Rightarrow> None
        | Some None \<Rightarrow> live_scan X E c now sol_price ms out
        | Some (Some k) \<Rightarrow> live_scan X E c now sol_price ms (out @ [k]))))"

definition collect_live ::
    "ext \<Rightarrow> exec_env \<Rightarrow> config \<Rightarrow> datetime \<Rightarrow> decimal option \<Rightarrow> collect_result option" where
  "collect_live X E c now price = (case price of
      None \<Rightarrow> Some (Candidates [])
    | Some p \<Rightarrow> if p \<le> 0 then Some (Candidates [])
               else live_scan X E c now p scan_mints [])"

section \<open>Facts\<close>

text \<open>What a pass over a feed keeps: \<open>ks\<close> are the candidates met so far.\<close>

definition feed_inv ::
    "ext \<Rightarrow> datetime \<Rightarrow> int \<Rightarrow> collector \<Rightarrow> candidate list \<Rightarrow> candidate list \<times> collector \<Rightarrow> bool" where
  "feed_inv X now limit seen0 ks = (\<lambda>(out, seen).
     distinct (map cd_mint out) \<and> cd_mint ` set out \<inter> seen0 = {} \<and> set out \<subseteq> set ks
     \<and> list_all (\<lambda>k. feed_problem_of X k now limit = None) out
     \<and> seen = seen0 \<union> cd_mint ` set ks)"

definition parsed :: "(string \<Rightarrow> string + candidate) \<Rightarrow> string list \<Rightarrow> candidate list" where
  "parsed parse ls = List.map_filter (\<lambda>l. case parse l of Inl _ \<Rightarrow> None | Inr k \<Rightarrow> Some k) ls"

lemma feed_line_inv:
  assumes "feed_inv X now limit seen0 ks s"
  shows "feed_inv X now limit seen0 (ks @ parsed parse [l]) (feed_line X parse now limit l s)"
  using assms
  by (cases s; cases "parse l") (auto simp: feed_inv_def feed_line_def parsed_def map_filter_simps)

lemma feed_lines_inv:
  "feed_inv X now limit seen0 ks s \<Longrightarrow>
     feed_inv X now limit seen0 (ks @ parsed parse ls) (fold (feed_line X parse now limit) ls s)"
proof (induction ls arbitrary: ks s)
  case Nil
  then show ?case by (simp add: parsed_def map_filter_simps)
next
  case (Cons l ls)
  have "parsed parse (l # ls) = parsed parse [l] @ parsed parse ls"
    by (simp add: parsed_def map_filter_simps split: option.split sum.split)
  with Cons.IH [OF feed_line_inv [OF Cons.prems, of parse l]] show ?case by simp
qed

lemma live_candidate_none: "live_candidate X c now p m q = Some r \<Longrightarrow> r = None"
  by (auto simp: live_candidate_def live_costs_def unknown_cost_def bind_Some_iff
      split: if_split_asm)

lemma live_scan_empty:
  "live_scan X E c now p ms [] = Some r \<Longrightarrow> r = Candidates [] \<or> r = RateLimited 5"
proof (induction ms)
  case (Cons m ms)
  then show ?case
    by (auto split: if_split_asm option.split_asm sum.split_asm execution_error.split_asm
        dest: live_candidate_none)
qed simp

text \<open>
  A candidate refused in a file marks its mint, so a later valid line for the mint is skipped as a
  duplicate; a batch with the same two candidates delivers it.
\<close>

lemma refused_line_hides_the_next:
  assumes "parse l1 = Inr k1" and "feed_problem_of X k1 now limit \<noteq> None"
    and "parse l2 = Inr k2" and "feed_problem_of X k2 now limit = None"
    and "cd_mint k2 = cd_mint k1" and "cd_mint k1 \<notin> seen"
  shows "fold (feed_line X parse now limit) [l1, l2] ([], seen) = ([], insert (cd_mint k1) seen)"
    "collect_batch X [k1, k2] now limit seen = ([k2], insert (cd_mint k1) seen)"
  using assms by (auto simp: feed_line_def collect_batch_def batch_one_def)

section \<open>Properties\<close>

text \<open>
  What a feed delivers. Whatever the file holds and
  whatever the parser answers, the candidates collected are among those parsed, each passed the
  validation (not from the future, young enough, with decimals, its cost model for its own size),
  their mints are pairwise different and had not been seen before, and afterwards exactly the mints
  seen before and those of the parsed candidates are marked as seen.
\<close>

theorem feed_delivers_fresh_candidates_once:
  assumes "collect_from_jsonl X parse (Inr data) now limit seen = (out, seen')"
  shows "distinct (map cd_mint out) \<and> cd_mint ` set out \<inter> seen = {}
    \<and> set out \<subseteq> set (parsed parse (filter (\<lambda>l. trim l \<noteq> []) (str_lines data)))
    \<and> list_all (\<lambda>k. feed_problem_of X k now limit = None) out
    \<and> seen' = seen \<union> cd_mint ` set (parsed parse (filter (\<lambda>l. trim l \<noteq> []) (str_lines data)))"
proof -
  have "feed_inv X now limit seen [] ([], seen)" by (simp add: feed_inv_def)
  from feed_lines_inv [OF this, of parse "filter (\<lambda>l. trim l \<noteq> []) (str_lines data)"] show ?thesis
    using assms by (simp add: collect_from_jsonl_def feed_inv_def)
qed

text \<open>
  The live scan delivers nothing. Its candidates carry a
  zero for every cost it cannot observe, the gate behind it takes a zero for unknown, and so a run
  that returns ends with no candidate or with the back-off of a rate limit, for every price, every
  configuration and every answer of the executor.
\<close>

theorem live_collection_is_closed:
  assumes "collect_live X E c now price = Some r"
  shows "r = Candidates [] \<or> r = RateLimited 5"
  using assms live_scan_empty
  by (auto simp: collect_live_def split: option.split_asm if_split_asm)

definition sample_parse :: "string \<Rightarrow> string + candidate" where
  "sample_parse l = (if l = ''x'' then Inr sample_candidate else Inl ''malformed'')"

definition sample_feed :: string where
  "sample_feed = ''x'' @ [CHR 0x0A] @ ''y'' @ [CHR 0x0A] @ ''x''"

theorem feed_delivers_fresh_candidates_once_witness:
  "collect_from_jsonl exact_ext sample_parse (Inr sample_feed) 0 10 {} = ([sample_candidate], {''m''})
     \<and> feed_problem_of exact_ext sample_candidate 0 10 = None"
proof -
  have ok: "feed_problem_of exact_ext sample_candidate 0 10 = None"
    by (simp add: feed_problem_of_def sample_candidate_def sample_market_def sample_safety_def
        trunc_quot_def candidate_costs_def sample_costs_def sample_inputs_def Let_def nanos_def)
  have m: "cd_mint sample_candidate = ''m''" by (simp add: sample_candidate_def)
  have t: "trim ''x'' \<noteq> []" "trim ''y'' \<noteq> []" by (simp_all add: trim_def is_white_def)
  then have ls: "filter (\<lambda>l. trim l \<noteq> []) (str_lines sample_feed) = [''x'', ''y'', ''x'']"
    by (simp add: str_lines_def strip_cr_def sample_feed_def)
  have f: "feed_line exact_ext sample_parse 0 10 ''x'' ([], {}) = ([sample_candidate], {''m''})"
    "feed_line exact_ext sample_parse 0 10 ''y'' s = s"
    "feed_line exact_ext sample_parse 0 10 ''x'' ([sample_candidate], {''m''})
      = ([sample_candidate], {''m''})" for s
    by (auto simp: feed_line_def sample_parse_def ok m split: prod.split)
  have run: "collect_from_jsonl exact_ext sample_parse (Inr sample_feed) 0 10 {}
      = ([sample_candidate], {''m''})"
    by (simp only: collect_from_jsonl_def sum.case ls fold_simps id_apply f)
  from feed_delivers_fresh_candidates_once [OF run] run show ?thesis by simp
qed

theorem live_collection_is_closed_witness:
  "\<exists>r. collect_live exact_ext (sample_exec (Inl StaleQuote)) (example_config Paper) 0 (Some 150) = Some r
     \<and> (r = Candidates [] \<or> r = RateLimited 5)"
proof -
  have c: "priority_fee_lamports (execution (example_config Paper)) = 10000"
    by (simp add: example_config_def)
  have "\<exists>r. live_candidate exact_ext (example_config Paper) 0 150 m sample_quote = Some r" for m
    by (simp add: live_candidate_def sample_quote_def dec_of_word_def fit_def dec_max_def c
        live_market_def live_costs_def Let_def)
  then have k: "live_candidate exact_ext (example_config Paper) 0 150 m sample_quote = Some None" for m
    using live_candidate_none by blast
  have q: "xe_quote (sample_exec (Inl StaleQuote)) b m a l = Inr sample_quote" for b m a l
    by (simp add: sample_exec_def)
  have t: "times_four exact_ext 10000 = Some 40000" by (simp add: times_four_def)
  have "live_scan exact_ext (sample_exec (Inl StaleQuote)) (example_config Paper) 0 150 ms []
      = Some (Candidates [])" for ms
    by (induction ms) (simp_all add: q k c t)
  then have "collect_live exact_ext (sample_exec (Inl StaleQuote)) (example_config Paper) 0 (Some 150)
      = Some (Candidates [])" by (simp add: collect_live_def)
  with live_collection_is_closed [OF this] show ?thesis by blast
qed

end
