(* ===== verification/Wallet_Ws.thy ===== *)
theory Wallet_Ws
  imports Wallet_Monitor
begin

text \<open>
  \<open>src/collector/wallet_ws.rs\<close>: the websocket subscriptions that feed the wallet monitor. A message is
  the JSON value it parses to; a connection is the list of the frames its socket yields, and the
  connection attempts are a list of their outcomes, a clean close or a failure. The outer option is None when the code panics.
\<close>

section \<open>Reconnecting\<close>

definition ws_base_ms :: u64 where "ws_base_ms = 1000"
definition ws_max_ms :: u64 where "ws_max_ms = 30000"

text \<open>The exponent is at most five, so the power does not saturate.\<close>

definition ws_backoff :: "u32 \<Rightarrow> u64" where
  "ws_backoff failures = min (sat_mul ws_base_ms (2 ^ unat (min failures 5))) ws_max_ms"

text \<open>
  The loop of \<open>run\<close> over the outcomes known: the endpoint and the delay after each attempt, and
  whether the manager gave up.
\<close>

fun ws_loop :: "nat \<Rightarrow> u32 \<Rightarrow> bool list \<Rightarrow> u32 \<Rightarrow> nat \<Rightarrow> (nat \<times> u64) list \<times> bool" where
  "ws_loop endpoints limit [] failures idx = ([], failures \<ge> limit)"
| "ws_loop endpoints limit (clean # outcomes) failures idx =
    (if failures \<ge> limit then ([], True)
     else if clean then apfst (Cons (idx mod endpoints, 0)) (ws_loop endpoints limit outcomes 0 idx)
     else apfst (Cons (idx mod endpoints, ws_backoff (failures + 1)))
       (ws_loop endpoints limit outcomes (failures + 1) (idx + 1)))"

definition ws_run :: "string list \<Rightarrow> string list \<Rightarrow> u32 \<Rightarrow> bool list \<Rightarrow> (nat \<times> u64) list \<times> bool" where
  "ws_run endpoints wallets limit outcomes =
    (if endpoints = [] \<or> wallets = [] then ([], True)
     else ws_loop (length endpoints) limit outcomes 0 0)"

section \<open>A message\<close>

record 'v ws_env =
  wse_json :: "'v json"
  wse_order :: "string list \<Rightarrow> string list"
  wse_tx :: "string \<Rightarrow> rpc_failure + 'v option"
  wse_now :: datetime
  wse_channel_open :: bool

text \<open>The swaps of the wallets; a closed channel ends the loop.\<close>

fun ws_events_of ::
    "'v ws_env \<Rightarrow> 'v \<Rightarrow> string list \<Rightarrow> ws_event list option" where
  "ws_events_of E tx [] = Some []"
| "ws_events_of E tx (w # ws) =
    (case parse_swap_from_transaction (wse_json E) (wse_order E) tx w of
       None \<Rightarrow> None
     | Some None \<Rightarrow> ws_events_of E tx ws
     | Some (Some s) \<Rightarrow>
       if wse_channel_open E
       then map_option (Cons \<lparr>we_wallet = w, we_swap = s, we_detected_at = wse_now E\<rparr>)
              (ws_events_of E tx ws)
       else Some [])"

text \<open>The shared set of signatures and the channel are threaded through.\<close>

definition handle_message ::
    "'v ws_env \<Rightarrow> string list \<Rightarrow> string + 'v \<Rightarrow> string set \<times> ws_event list
     \<Rightarrow> ((string + unit) \<times> string set \<times> ws_event list) option" where
  "handle_message E wallets msg = (\<lambda>(seen, events).
    let J = wse_json E in
    case msg of
      Inl e \<Rightarrow> Some (Inl e, seen, events)
    | Inr v \<Rightarrow>
      if jv_get J v ''result'' \<noteq> None \<and> jv_get J v ''method'' = None
      then Some (Inr (), seen, events)
      else case Option.bind (jv_get J v ''params'') (\<lambda>p. jv_get J p ''result'') of
        None \<Rightarrow> Some (Inl ''missing params.result in WebSocket notification'', seen, events)
      | Some params \<Rightarrow>
        (case Option.bind (jv_get J params ''signature'') (jv_str J) of
           None \<Rightarrow> Some (Inl ''missing signature in notification'', seen, events)
         | Some sig \<Rightarrow>
           if sig \<in> seen then Some (Inr (), seen, events)
           else (case wse_tx E sig of
             Inr (Some tx) \<Rightarrow> (case ws_events_of E tx wallets of
                 None \<Rightarrow> None
               | Some new \<Rightarrow> Some (Inr (), insert sig seen, events @ new))
           | _ \<Rightarrow> Some (Inr (), seen, events))))"

section \<open>A connection\<close>

text \<open>
  What the socket yields: a text with the value it parses to or the error of parsing, a ping, a
  close, any other message or a receive error. Each frame comes with what the node answers while it
  is handled. The list ends when the stream does.
\<close>

datatype 'v ws_frame = WsText "string + 'v" | WsPing | WsClose | WsOther | WsBroken string

fun ws_subscribe :: "(string \<Rightarrow> string option) \<Rightarrow> string list \<Rightarrow> string + unit" where
  "ws_subscribe send [] = Inr ()"
| "ws_subscribe send (w # ws) = (case send w of
     Some e \<Rightarrow> Inl (''failed to send subscribe for '' @ w @ '': '' @ e)
   | None \<Rightarrow> ws_subscribe send ws)"

text \<open>A message that cannot be handled is skipped.\<close>

fun ws_listen ::
    "string list \<Rightarrow> ('v ws_env \<times> 'v ws_frame) list \<Rightarrow> string set \<times> ws_event list
     \<Rightarrow> ((string + unit) \<times> string set \<times> ws_event list) option" where
  "ws_listen wallets [] st = Some (Inr (), st)"
| "ws_listen wallets ((E, frame) # frames) st = (case frame of
     WsBroken e \<Rightarrow> Some (Inl (''WebSocket receive error: '' @ e), st)
   | WsClose \<Rightarrow> Some (Inr (), st)
   | WsText msg \<Rightarrow> (case handle_message E wallets msg st of
         None \<Rightarrow> None
       | Some (_, st') \<Rightarrow> ws_listen wallets frames st')
   | _ \<Rightarrow> ws_listen wallets frames st)"

definition connect_and_subscribe ::
    "string \<Rightarrow> string option \<Rightarrow> (string \<Rightarrow> string option) \<Rightarrow> string list
     \<Rightarrow> ('v ws_env \<times> 'v ws_frame) list \<Rightarrow> string set \<times> ws_event list
     \<Rightarrow> ((string + unit) \<times> string set \<times> ws_event list) option" where
  "connect_and_subscribe endpoint connect_error send wallets frames st = (case connect_error of
     Some e \<Rightarrow> Some (Inl (''WebSocket connect failed to '' @ endpoint @ '': '' @ e), st)
   | None \<Rightarrow> (case ws_subscribe send wallets of
         Inl e \<Rightarrow> Some (Inl e, st)
       | Inr _ \<Rightarrow> ws_listen wallets frames st))"

section \<open>Facts\<close>

lemma ws_backoff_le: "ws_backoff failures \<le> 30000"
  by (simp add: ws_backoff_def ws_max_ms_def)

text \<open>The first delay is two seconds, not the documented one.\<close>

lemma ws_backoff_sequence:
  "map ws_backoff [1, 2, 3, 4, 5, 6] = [2000, 4000, 8000, 16000, 30000, 30000]"
  by (simp add: ws_backoff_def ws_base_ms_def ws_max_ms_def sat_mul_def)

text \<open>
  What the loop should go by: how many of the last outcomes were failures, and how many were so far.
\<close>

definition failures_in_a_row :: "bool list \<Rightarrow> nat" where
  "failures_in_a_row os = length (takeWhile Not (rev os))"

definition failures_so_far :: "bool list \<Rightarrow> nat" where
  "failures_so_far os = length (filter Not os)"

lemma failures_simps [simp]:
  "failures_in_a_row [] = 0" "failures_so_far [] = 0"
  "failures_in_a_row (os @ [True]) = 0" "failures_so_far (os @ [True]) = failures_so_far os"
  "failures_in_a_row (os @ [False]) = Suc (failures_in_a_row os)"
  "failures_so_far (os @ [False]) = Suc (failures_so_far os)"
  by (simp_all add: failures_in_a_row_def failures_so_far_def)

lemma failures_replicate [simp]: "failures_in_a_row (os @ True # replicate k False) = k"
  by (simp add: failures_in_a_row_def takeWhile_append)

lemma ws_backoff_value:
  assumes "k < 2 ^ 32"
  shows "unat (ws_backoff (of_nat k)) = min (1000 * 2 ^ min k 5) 30000"
proof -
  have u: "unat (of_nat k :: u32) = k" using assms by (simp add: unat_of_nat take_bit_nat_eq_self)
  have le: "(of_nat k :: u32) \<le> 5 \<longleftrightarrow> k \<le> 5" using u by (simp add: word_le_nat_alt)
  show ?thesis
  proof (cases "k \<le> 5")
    case True
    then consider "k = 0" | "k = 1" | "k = 2" | "k = 3" | "k = 4" | "k = 5" by linarith
    then show ?thesis
      by cases (simp_all add: ws_backoff_def ws_base_ms_def ws_max_ms_def sat_mul_def)
  next
    case False
    then have "min (of_nat k :: u32) 5 = 5" using le by (simp add: min_def)
    then show ?thesis using False
      by (simp add: ws_backoff_def ws_base_ms_def ws_max_ms_def sat_mul_def)
  qed
qed

text \<open>An attempt after the outcomes \<open>pre\<close>: its endpoint, and the delay when it comes out as \<open>b\<close>.\<close>

definition attempt_after :: "nat \<Rightarrow> bool list \<Rightarrow> bool \<Rightarrow> nat \<times> u64" where
  "attempt_after n pre b = (failures_so_far pre mod n,
     if b then 0 else ws_backoff (of_nat (failures_in_a_row (pre @ [b]))))"

definition follows_outcomes ::
    "nat \<Rightarrow> u32 \<Rightarrow> bool list \<Rightarrow> bool list \<Rightarrow> (nat \<times> u64) list \<Rightarrow> bool \<Rightarrow> bool" where
  "follows_outcomes n m pre os as gave_up \<longleftrightarrow> length as \<le> length os
     \<and> (\<forall>j<length as. failures_in_a_row (pre @ take j os) < unat m
          \<and> as ! j = attempt_after n (pre @ take j os) (os ! j))
     \<and> (gave_up \<longleftrightarrow> unat m \<le> failures_in_a_row (pre @ take (length as) os))
     \<and> (\<not> gave_up \<longrightarrow> length as = length os)"

lemma follows_outcomes_Cons:
  assumes f: "follows_outcomes n m (pre @ [b]) os as g" and lt: "failures_in_a_row pre < unat m"
  shows "follows_outcomes n m pre (b # os) (attempt_after n pre b # as) g"
proof -
  have one: "failures_in_a_row (pre @ take j (b # os)) < unat m
      \<and> (attempt_after n pre b # as) ! j = attempt_after n (pre @ take j (b # os)) ((b # os) ! j)"
    if "j < Suc (length as)" for j
  proof (cases j)
    case (Suc k)
    with that have "k < length as" by simp
    with f have "failures_in_a_row ((pre @ [b]) @ take k os) < unat m
        \<and> as ! k = attempt_after n ((pre @ [b]) @ take k os) (os ! k)"
      unfolding follows_outcomes_def by blast
    then show ?thesis by (simp add: Suc)
  qed (use lt in simp)
  have eqs: "pre @ take (length (attempt_after n pre b # as)) (b # os) = (pre @ [b]) @ take (length as) os"
    "length (attempt_after n pre b # as) = Suc (length as)" "length (b # os) = Suc (length os)"
    by simp_all
  from f have p: "length as \<le> length os"
      "g \<longleftrightarrow> unat m \<le> failures_in_a_row ((pre @ [b]) @ take (length as) os)"
      "\<not> g \<Longrightarrow> length as = length os"
    unfolding follows_outcomes_def by blast+
  have "g \<longleftrightarrow> unat m \<le> failures_in_a_row (pre @ take (length (attempt_after n pre b # as)) (b # os))"
    unfolding eqs(1) by (fact p(2))
  moreover have "length as \<le> length os \<and> (\<not> g \<longrightarrow> length as = length os)" using p by blast
  ultimately show ?thesis unfolding follows_outcomes_def eqs(2,3)
    by (intro conjI allI impI) (assumption | simp only: one Suc_le_mono | blast)+
qed

lemma ws_loop_follows:
  "f = of_nat (failures_in_a_row pre) \<Longrightarrow> i = failures_so_far pre \<Longrightarrow> failures_in_a_row pre \<le> unat m
     \<Longrightarrow> ws_loop n m os f i = (as, g) \<Longrightarrow> follows_outcomes n m pre os as g"
proof (induction os arbitrary: f i pre as)
  case Nil
  have "failures_in_a_row pre < 2 ^ 32" using Nil(3) unat_below [of m] by simp
  then have "unat f = failures_in_a_row pre"
    using Nil(1) by (simp add: unat_of_nat take_bit_nat_eq_self)
  then show ?case using Nil(4) by (auto simp: follows_outcomes_def word_le_nat_alt)
next
  case (Cons b os)
  have "failures_in_a_row pre < 2 ^ 32" using Cons.prems(3) unat_below [of m] by simp
  then have u: "unat f = failures_in_a_row pre"
    using Cons.prems(1) by (simp add: unat_of_nat take_bit_nat_eq_self)
  show ?case
  proof (cases "f \<ge> m")
    case True
    then show ?thesis using u Cons.prems(4) by (auto simp: follows_outcomes_def word_le_nat_alt)
  next
    case False
    then have lt: "failures_in_a_row pre < unat m" using u by (simp add: word_le_nat_alt not_le)
    let ?f = "if b then 0 else f + 1" and ?i = "if b then i else i + 1"
    obtain as' where l: "ws_loop n m os ?f ?i = (as', g)" and as: "as = attempt_after n pre b # as'"
      using Cons.prems False
      by (cases "ws_loop n m os ?f ?i")
        (auto simp: attempt_after_def apfst_def add.commute split: if_split_asm)
    have "follows_outcomes n m (pre @ [b]) os as' g"
      by (rule Cons.IH [OF _ _ _ l]) (cases b; use lt Cons.prems(1,2) in simp)+
    from follows_outcomes_Cons [OF this lt] show ?thesis unfolding as .
  qed
qed

lemma ws_events_sound:
  "ws_events_of E tx ws = Some evs \<Longrightarrow> e \<in> set evs \<Longrightarrow>
     we_wallet e \<in> set ws \<and> we_detected_at e = wse_now E
     \<and> parse_swap_from_transaction (wse_json E) (wse_order E) tx (we_wallet e) = Some (Some (we_swap e))"
  by (induction ws arbitrary: evs)
    (auto split: option.split_asm if_split_asm)

text \<open>
  What one message, and then a whole connection, adds: signatures are only added, events are only
  appended, and each of them is a swap of a monitored wallet in a transaction that was fetched.
\<close>

definition feed_adds ::
    "'v ws_env set \<Rightarrow> string list \<Rightarrow> string set \<times> ws_event list \<Rightarrow> string set \<times> ws_event list \<Rightarrow> bool" where
  "feed_adds Es wallets st st' \<longleftrightarrow> fst st \<subseteq> fst st'
     \<and> (\<exists>new. snd st' = snd st @ new \<and> (\<forall>e\<in>set new. we_wallet e \<in> set wallets
         \<and> (\<exists>E\<in>Es. \<exists>sig tx. sig \<in> fst st' - fst st \<and> wse_tx E sig = Inr (Some tx)
              \<and> we_detected_at e = wse_now E
              \<and> parse_swap_from_transaction (wse_json E) (wse_order E) tx (we_wallet e)
                = Some (Some (we_swap e)))))"

lemma feed_adds_refl: "feed_adds Es wallets st st"
  by (simp add: feed_adds_def)

lemma feed_adds_trans:
  assumes "feed_adds Es wallets st st'" "feed_adds Es' wallets st' st''"
  shows "feed_adds (Es \<union> Es') wallets st st''"
proof -
  obtain a b where ab: "snd st' = snd st @ a" "snd st'' = snd st' @ b"
    using assms unfolding feed_adds_def by blast
  then have "snd st'' = snd st @ (a @ b)" by simp
  moreover have "fst st \<subseteq> fst st'" "fst st' \<subseteq> fst st''" using assms unfolding feed_adds_def by blast+
  ultimately show ?thesis
    using assms ab unfolding feed_adds_def
    by (intro conjI exI [of _ "a @ b"]) (fastforce dest: subsetD)+
qed

lemma handle_message_adds:
  assumes "handle_message E wallets msg st = Some (r, st')"
  shows "feed_adds {E} wallets st st'"
proof (cases "st' = st")
  case False
  obtain seen events where st: "st = (seen, events)" by fastforce
  obtain sig tx new where "wse_tx E sig = Inr (Some tx)" "ws_events_of E tx wallets = Some new"
    "sig \<notin> seen" "st' = (insert sig seen, events @ new)"
    using assms False unfolding handle_message_def Let_def st
    by (auto split: if_split_asm option.split_asm sum.split_asm)
  with ws_events_sound [of E tx wallets new] show ?thesis
    unfolding feed_adds_def st by auto
qed (simp add: feed_adds_refl)

text \<open>
  What a connection delivers is evidenced. Whatever frames a
  socket yields and however the connection ends, by an error too, the signatures seen before are
  still seen, the events delivered before are kept, and each new event is a swap of a monitored wallet
  parsed from the transaction of a signature that had not been seen and is marked as seen.
\<close>

theorem feed_events_are_evidenced:
  assumes "connect_and_subscribe endpoint connect_error send wallets frames st = Some (r, st')"
  shows "feed_adds (fst ` set frames) wallets st st'"
proof -
  have listen: "ws_listen wallets frames st = Some (r, st') \<Longrightarrow> feed_adds (fst ` set frames) wallets st st'"
    for st :: "string set \<times> ws_event list"
  proof (induction frames arbitrary: st)
    case (Cons p frames)
    obtain E frame where p: "p = (E, frame)" by fastforce
    show ?case
    proof (cases frame)
      case (WsText msg)
      with Cons.prems obtain r1 st1 where h: "handle_message E wallets msg st = Some (r1, st1)"
        and l: "ws_listen wallets frames st1 = Some (r, st')"
        by (auto simp: p split: option.split_asm prod.split_asm)
      show ?thesis
        using feed_adds_trans [OF handle_message_adds [OF h] Cons.IH [OF l]] by (simp add: p)
    next
      case WsPing
      with Cons feed_adds_trans [OF feed_adds_refl [of "{E}"] Cons.IH [of st]]
      show ?thesis by (simp add: p)
    next
      case WsOther
      with Cons feed_adds_trans [OF feed_adds_refl [of "{E}"] Cons.IH [of st]]
      show ?thesis by (simp add: p)
    qed (use Cons.prems in \<open>auto simp: p feed_adds_refl\<close>)
  qed (simp add: feed_adds_refl)
  then show ?thesis
    using assms by (auto simp: connect_and_subscribe_def feed_adds_refl split: option.split_asm sum.split_asm)
qed

section \<open>Properties\<close>


text \<open>
  A notification counts once. When the transaction of a
  notification can be fetched and the message is handled, handling it again, at any later time and
  in any order of the maps, changes nothing: its signature is in the shared set. The events it added
  are swaps parsed from that transaction for monitored wallets. When the transaction cannot be
  fetched the set and the events stay as they were, so a later message can still deliver it.
\<close>

theorem notification_counts_once:
  assumes "handle_message E wallets (Inr v) (seen, events) = Some (Inr (), seen', events')"
  shows "(\<exists>new. events' = events @ new \<and> (\<forall>e. e \<in> set new \<longrightarrow> we_wallet e \<in> set wallets
      \<and> (\<exists>tx. parse_swap_from_transaction (wse_json E) (wse_order E) tx (we_wallet e)
          = Some (Some (we_swap e)))))
    \<and> (seen' = seen \<and> events' = events
       \<or> handle_message (E\<lparr>wse_now := later, wse_tx := tx', wse_order := order'\<rparr>) wallets (Inr v)
           (seen', queue) = Some (Inr (), seen', queue))"
proof (cases "events' = events \<and> seen' = seen")
  case False
  then obtain params sig tx new where r: "jv_get (wse_json E) v ''result'' = None
      \<or> jv_get (wse_json E) v ''method'' \<noteq> None"
    and p: "Option.bind (jv_get (wse_json E) v ''params'') (\<lambda>p. jv_get (wse_json E) p ''result'')
      = Some params"
    and s: "Option.bind (jv_get (wse_json E) params ''signature'') (jv_str (wse_json E)) = Some sig"
    and n: "ws_events_of E tx wallets = Some new" "seen' = insert sig seen" "events' = events @ new"
    using assms unfolding handle_message_def Let_def
    by (auto split: if_split_asm option.split_asm sum.split_asm)
  have "handle_message (E\<lparr>wse_now := later, wse_tx := tx', wse_order := order'\<rparr>) wallets (Inr v)
      (seen', queue) = Some (Inr (), seen', queue)"
    using r p s n(2) by (auto simp: handle_message_def Let_def)
  with ws_events_sound [OF n(1)] n(3) show ?thesis by (intro conjI exI [of _ new]) blast+
qed auto

lemmas ws_samples = ws_run_def ws_backoff_def ws_base_ms_def ws_max_ms_def sat_mul_def apfst_def
  word_le_nat_alt mod_Suc numeral_2_eq_2 [symmetric]


text \<open>
  The limit is on the failures in a row over all endpoints: with more endpoints than the limit, some
  are never tried before the manager gives up.
\<close>

lemma limit_is_shared_by_the_endpoints:
  "map fst (fst (ws_run [''a'', ''b'', ''c''] [''w''] 2 [False, False, True])) = [0, 1]
     \<and> snd (ws_run [''a'', ''b'', ''c''] [''w''] 2 [False, False, True])"
  by (simp add: ws_samples)

definition sample_ws_env :: "jval ws_env" where
  "sample_ws_env = \<lparr>wse_json = jval_ops, wse_order = (\<lambda>xs. xs), wse_tx = (\<lambda>_. Inr (Some buy_json)),
     wse_now = 5, wse_channel_open = True\<rparr>"

definition sample_notification :: jval where
  "sample_notification = JDict [(''method'', JText ''logsNotification''),
     (''params'', JDict [(''result'', JDict [(''signature'', JText ''sig'')])])]"

theorem notification_counts_once_witness:
  "\<exists>e. handle_message sample_ws_env [''w''] (Inr sample_notification) ({}, []) = Some (Inr (), {''sig''}, [e])
     \<and> we_wallet e = ''w''
     \<and> handle_message (sample_ws_env\<lparr>wse_now := 9, wse_tx := \<lambda>_. Inr None, wse_order := rev\<rparr>) [''w'']
         (Inr sample_notification) ({''sig''}, []) = Some (Inr (), {''sig''}, [])"
proof -
  obtain s where s: "parse_swap_from_transaction jval_ops (\<lambda>xs. xs) buy_json ''w'' = Some (Some s)"
    using buy_json_parsed by blast
  let ?e = "\<lparr>we_wallet = ''w'', we_swap = s, we_detected_at = 5\<rparr>"
  have run: "handle_message sample_ws_env [''w''] (Inr sample_notification) ({}, [])
      = Some (Inr (), {''sig''}, [?e])"
    using s by (simp add: handle_message_def sample_ws_env_def sample_notification_def Let_def
        jval_ops_def)
  from notification_counts_once [OF run, of rev "\<lambda>_. Inr None" 9 "[]"] run show ?thesis
    by (intro exI [of _ ?e]) simp
qed

theorem feed_events_are_evidenced_witness:
  "\<exists>e. connect_and_subscribe ''wss://a'' None (\<lambda>_. None) [''w'']
       [(sample_ws_env, WsPing), (sample_ws_env, WsText (Inr sample_notification)),
        (sample_ws_env, WsText (Inr sample_notification)), (sample_ws_env, WsClose)] ({}, [])
       = Some (Inr (), {''sig''}, [e])
     \<and> feed_adds {sample_ws_env} [''w''] ({}, []) ({''sig''}, [e])"
proof -
  obtain s where s: "parse_swap_from_transaction jval_ops (\<lambda>xs. xs) buy_json ''w'' = Some (Some s)"
    using buy_json_parsed by blast
  let ?e = "\<lparr>we_wallet = ''w'', we_swap = s, we_detected_at = 5\<rparr>"
  have run: "connect_and_subscribe ''wss://a'' None (\<lambda>_. None) [''w'']
       [(sample_ws_env, WsPing), (sample_ws_env, WsText (Inr sample_notification)),
        (sample_ws_env, WsText (Inr sample_notification)), (sample_ws_env, WsClose)] ({}, [])
       = Some (Inr (), {''sig''}, [?e])"
    using s by (simp add: connect_and_subscribe_def handle_message_def sample_ws_env_def
        sample_notification_def Let_def jval_ops_def)
  with feed_events_are_evidenced [OF run] show ?thesis by (intro exI [of _ ?e]) simp
qed

text \<open>
  A notification of a node has the signature below \<open>value\<close>, beside the context; \<open>handle_message\<close> looks
  for it one level above and refuses it.
\<close>

lemma nested_signature_is_missed:
  "handle_message sample_ws_env wallets (Inr (JDict [(''method'', JText ''logsNotification''),
     (''params'', JDict [(''result'', JDict [(''context'', JDict [(''slot'', JNum 1)]),
        (''value'', JDict [(''signature'', JText sig)])])])])) st
     = Some (Inl ''missing signature in notification'', st)"
  by (cases st) (simp add: handle_message_def sample_ws_env_def Let_def jval_ops_def)

end
