(* ===== verification/History.thy ===== *)
theory History
  imports Runtime_Session Backtest_Data
begin

text \<open>
  \<open>src/history.rs\<close>: the recorder that appends observed candidates to a file of JSON lines, and the
  validator of such a file. A file is its text, None when it does not exist; the serializer and the
  parser of a record are arguments.
\<close>

section \<open>The recorder\<close>

record history_record =
  hr_recorded_at :: datetime
  hr_source :: string
  hr_candidate :: candidate

record history_recorder =
  hc_seen :: "string set"
  hc_created :: bool

definition new_recorder :: history_recorder where
  "new_recorder = \<lparr>hc_seen = {}, hc_created = False\<rparr>"

definition newline :: string where "newline = [CHR 0x0A]"

definition history_header :: "string list" where
  "history_header =
    [''# Historical data collected by `cargo run -- collect-history`.'',
     ''# Each line is one CandidateInput as observed live by the'',
     ''# production collector. Strict PIT (point-in-time) validation'',
     ''# applies: any feature.observed_at must be <= market.observed_at'',
     ''# and every wallet.updated_at must be <= market.observed_at.'',
     ''#'',
     ''# KNOWN LIMITATIONS of this recorded data:'',
     ''# - wallet score and trades are heuristic, not historical PnL'',
     ''# - no subsequent price observations are recorded (no forward'',
     ''#   price path for exit simulation)'',
     ''# - holder_top10_pct, creator_suspicious, abnormal_activity,'',
     ''#   liquidity_change_pct are hard-coded defaults'',
     ''#'']"

definition text_of_lines :: "string list \<Rightarrow> string" where
  "text_of_lines ls = concat (map (\<lambda>l. l @ newline) ls)"

text \<open>An existing file is kept; an empty one gets the header.\<close>

definition ensure_file ::
    "history_recorder \<times> string option \<Rightarrow> history_recorder \<times> string option" where
  "ensure_file = (\<lambda>(rc, file).
     if hc_created rc then (rc, file)
     else (rc\<lparr>hc_created := True\<rparr>,
       Some (case file of
           None \<Rightarrow> text_of_lines history_header
         | Some txt \<Rightarrow> if txt = [] then text_of_lines history_header else txt)))"

text \<open>
  \<open>record\<close> at the time \<open>now\<close>, when the file system obeys. A serializer that fails leaves the mint
  marked as seen.
\<close>

definition record_candidate ::
    "(history_record \<Rightarrow> string option) \<Rightarrow> datetime \<Rightarrow> candidate \<Rightarrow> history_recorder \<times> string option
     \<Rightarrow> (string + bool) \<times> history_recorder \<times> string option" where
  "record_candidate ser now k s =
    (let (rc, file) = ensure_file s in
     if cd_mint k = [] then (Inr False, rc, file)
     else if cd_mint k \<in> hc_seen rc then (Inr False, rc, file)
     else
       let rc1 = rc\<lparr>hc_seen := insert (cd_mint k) (hc_seen rc)\<rparr> in
       case ser \<lparr>hr_recorded_at = now, hr_source = ''collect_live'', hr_candidate = k\<rparr> of
         None \<Rightarrow> (Inl ''invalid data'', rc1, file)
       | Some json \<Rightarrow> (Inr True, rc1, map_option (\<lambda>t. t @ json @ newline) file))"

fun record_all ::
    "(history_record \<Rightarrow> string option) \<Rightarrow> (datetime \<times> candidate) list
     \<Rightarrow> history_recorder \<times> string option \<Rightarrow> history_recorder \<times> string option" where
  "record_all ser [] s = s"
| "record_all ser ((now, k) # ks) s = record_all ser ks (snd (record_candidate ser now k s))"

section \<open>The validator\<close>

record history_validation =
  hv_total :: nat
  hv_parseable :: nat
  hv_unparseable :: "string list"
  hv_duplicates :: "string list"
  hv_records :: "history_record list"
  hv_future :: nat
  hv_missing_decimals :: nat
  hv_cost_mismatch :: nat
  hv_wallet_pit :: nat

definition empty_history_validation :: history_validation where
  "empty_history_validation = \<lparr>hv_total = 0, hv_parseable = 0, hv_unparseable = [], hv_duplicates = [],
     hv_records = [], hv_future = 0, hv_missing_decimals = 0, hv_cost_mismatch = 0,
     hv_wallet_pit = 0\<rparr>"

definition flag :: "bool \<Rightarrow> nat" where "flag b = (if b then 1 else 0)"

text \<open>A parsed record, at the time \<open>now\<close>, with the mints seen so far.\<close>

definition validate_record ::
    "datetime \<Rightarrow> history_record \<Rightarrow> history_validation \<times> string set \<Rightarrow> history_validation \<times> string set" where
  "validate_record now h = (\<lambda>(r, seen).
    let k = hr_candidate h in
    (r\<lparr>hv_parseable := hv_parseable r + 1,
       hv_duplicates := hv_duplicates r @ (if cd_mint k \<in> seen then [cd_mint k] else []),
       hv_future := hv_future r
         + flag (mk_observed_at (cd_market k) > now \<or> ts_observed_at (cd_safety k) > now),
       hv_missing_decimals := hv_missing_decimals r
         + flag (cd_token_decimals k = None \<or> cd_base_mint_decimals k = None),
       hv_cost_mismatch := hv_cost_mismatch r
         + flag (position_size_usd (cm_input (cd_costs k)) \<noteq> cd_position_usd k),
       hv_wallet_pit := hv_wallet_pit r
         + flag (list_ex (\<lambda>w. w_updated_at w > mk_observed_at (cd_market k)) (cd_wallets k)),
       hv_records := hv_records r @ [h]\<rparr>,
     insert (cd_mint k) seen))"

definition comment_or_blank :: "string \<Rightarrow> bool" where
  "comment_or_blank l \<longleftrightarrow> trim l = [] \<or> hd (trim l) = CHR 0x23"

definition validate_line ::
    "ext \<Rightarrow> (string \<Rightarrow> string + history_record) \<Rightarrow> datetime \<Rightarrow> nat \<times> string
     \<Rightarrow> history_validation \<times> string set \<Rightarrow> history_validation \<times> string set" where
  "validate_line X parse now il = (\<lambda>(r, seen).
    if comment_or_blank (snd il) then (r, seen)
    else
      let r1 = r\<lparr>hv_total := hv_total r + 1\<rparr>;
          bad = (\<lambda>msg. r1\<lparr>hv_unparseable := hv_unparseable r1
            @ [''line '' @ show_nat (fst il + 1) @ '': '' @ msg]\<rparr>) in
      case parse (trim (snd il)) of
        Inl e \<Rightarrow> (bad e, seen)
      | Inr h \<Rightarrow>
        if \<not> is_valid_solana_pubkey (cd_mint (hr_candidate h))
        then (bad (''invalid mint address '' @ str_debug X (cd_mint (hr_candidate h))), seen)
        else validate_record now h (r1, seen))"

definition validate_history ::
    "ext \<Rightarrow> (string \<Rightarrow> string + history_record) \<Rightarrow> datetime \<Rightarrow> string option
     \<Rightarrow> string + history_validation" where
  "validate_history X parse now file = (case file of
      None \<Rightarrow> Inl ''read''
    | Some txt \<Rightarrow> Inr (fst (fold (validate_line X parse now) (enumerate 0 (str_lines txt))
        (empty_history_validation, {}))))"

section \<open>Facts\<close>

text \<open>A line of a text: no line feed and no carriage return at its end.\<close>

definition plain_line :: "string \<Rightarrow> bool" where
  "plain_line l \<longleftrightarrow> CHR 0x0A \<notin> set l \<and> (l \<noteq> [] \<longrightarrow> last l \<noteq> CHR 0x0D)"

lemma raw_lines_line:
  "CHR 0x0A \<notin> set l \<Longrightarrow> raw_lines acc (l @ CHR 0x0A # t) = strip_cr (rev acc @ l) # raw_lines [] t"
  by (induction l arbitrary: acc) auto

lemma str_lines_line:
  assumes "plain_line l"
  shows "str_lines (l @ newline @ t) = l # str_lines t"
proof -
  have "strip_cr l = l" using assms by (auto simp: strip_cr_def plain_line_def)
  then show ?thesis using assms raw_lines_line [of l "[]" t]
    by (simp add: str_lines_def newline_def plain_line_def)
qed

lemma str_lines_text: "list_all plain_line ls \<Longrightarrow> str_lines (text_of_lines ls) = ls"
proof (induction ls)
  case (Cons l ls)
  then show ?case using str_lines_line [of l "text_of_lines ls"]
    by (simp add: text_of_lines_def)
qed (simp add: text_of_lines_def str_lines_def)

lemma text_of_lines_append: "text_of_lines (xs @ ys) = text_of_lines xs @ text_of_lines ys"
  by (simp add: text_of_lines_def)

lemma header_plain: "list_all plain_line history_header"
  by (simp add: history_header_def plain_line_def)

lemma header_comments: "list_all comment_or_blank history_header"
  by (simp add: history_header_def comment_or_blank_def trim_def is_white_def)

lemma validate_line_comment:
  "comment_or_blank l \<Longrightarrow> validate_line X parse now (i, l) s = s"
  by (simp add: validate_line_def split: prod.split)

lemma validate_comments:
  "list_all comment_or_blank ls \<Longrightarrow> fold (validate_line X parse now) (enumerate i ls) s = s"
  by (induction ls arbitrary: i s) (simp_all add: validate_line_comment)

text \<open>What the recorder writes: the first candidate of every mint that has a name.\<close>

fun first_of_mint :: "string set \<Rightarrow> (datetime \<times> candidate) list \<Rightarrow> (datetime \<times> candidate) list" where
  "first_of_mint seen [] = []"
| "first_of_mint seen ((now, k) # ks) =
     (if cd_mint k = [] \<or> cd_mint k \<in> seen then first_of_mint seen ks
      else (now, k) # first_of_mint (insert (cd_mint k) seen) ks)"

definition nk_mint :: "datetime \<times> candidate \<Rightarrow> string" where "nk_mint nk = cd_mint (snd nk)"

definition recorded :: "datetime \<times> candidate \<Rightarrow> history_record" where
  "recorded nk = \<lparr>hr_recorded_at = fst nk, hr_source = ''collect_live'', hr_candidate = snd nk\<rparr>"

text \<open>The behaviour of serde_json the round trip rests on.\<close>

definition faithful ::
    "(history_record \<Rightarrow> string option) \<Rightarrow> (string \<Rightarrow> string + history_record)
     \<Rightarrow> (datetime \<times> candidate) list \<Rightarrow> bool" where
  "faithful ser parse ks \<longleftrightarrow> list_all (\<lambda>nk. case ser (recorded nk) of
       None \<Rightarrow> False
     | Some l \<Rightarrow> parse l = Inr (recorded nk) \<and> plain_line l \<and> \<not> comment_or_blank l \<and> trim l = l) ks"

definition encoded :: "(history_record \<Rightarrow> string option) \<Rightarrow> datetime \<times> candidate \<Rightarrow> string" where
  "encoded ser nk = (case ser (recorded nk) of None \<Rightarrow> [] | Some l \<Rightarrow> l)"

lemma faithful_encoded:
  assumes "faithful ser parse ks" and "nk \<in> set ks"
  shows "ser (recorded nk) = Some (encoded ser nk)" "parse (encoded ser nk) = Inr (recorded nk)"
    "plain_line (encoded ser nk)" "\<not> comment_or_blank (encoded ser nk)"
    "trim (encoded ser nk) = encoded ser nk"
  using assms by (auto simp: faithful_def list_all_iff encoded_def split: option.splits)

lemma faithful_subset:
  "faithful ser parse ks \<Longrightarrow> set ks' \<subseteq> set ks \<Longrightarrow> faithful ser parse ks'"
  unfolding faithful_def list_all_iff by blast

lemma first_of_mint_subset: "set (first_of_mint seen ks) \<subseteq> set ks"
  by (induction seen ks rule: first_of_mint.induct) auto

lemma text_of_lines_snoc: "text_of_lines (ls @ [l]) = text_of_lines ls @ l @ newline"
  by (simp add: text_of_lines_def)

lemma record_all_text:
  "faithful ser parse ks \<Longrightarrow> hc_created rc \<Longrightarrow> snd (record_all ser ks (rc, Some (text_of_lines ls)))
    = Some (text_of_lines (ls @ map (encoded ser) (first_of_mint (hc_seen rc) ks)))"
proof (induction ks arbitrary: rc ls)
  case (Cons nk ks)
  obtain now k where nk: "nk = (now, k)" by (cases nk)
  have rest: "faithful ser parse ks" using faithful_subset [OF Cons.prems(1)] by auto
  show ?case
  proof (cases "cd_mint k = [] \<or> cd_mint k \<in> hc_seen rc")
    case True
    then show ?thesis using Cons.IH [OF rest Cons.prems(2)] Cons.prems(2)
      by (auto simp: nk record_candidate_def ensure_file_def)
  next
    case False
    let ?rc = "rc\<lparr>hc_seen := insert (cd_mint k) (hc_seen rc)\<rparr>"
    have "ser \<lparr>hr_recorded_at = now, hr_source = ''collect_live'', hr_candidate = k\<rparr>
        = Some (encoded ser nk)"
      using faithful_encoded(1) [OF Cons.prems(1), of nk] by (simp add: recorded_def nk)
    then have "record_all ser (nk # ks) (rc, Some (text_of_lines ls))
        = record_all ser ks (?rc, Some (text_of_lines (ls @ [encoded ser nk])))"
      using False Cons.prems(2)
      by (simp add: nk record_candidate_def ensure_file_def text_of_lines_snoc)
    with Cons.IH [OF rest, of ?rc "ls @ [encoded ser nk]"] Cons.prems(2) False
    show ?thesis by (simp add: nk)
  qed
qed simp

definition sound_record :: "datetime \<times> candidate \<Rightarrow> bool" where
  "sound_record nk \<longleftrightarrow> is_valid_solana_pubkey (cd_mint (snd nk))"

lemma validate_record_fields:
  "hv_duplicates (fst (validate_record now h (r, seen))) = hv_duplicates r
     @ (if cd_mint (hr_candidate h) \<in> seen then [cd_mint (hr_candidate h)] else [])"
  "hv_total (fst (validate_record now h (r, seen))) = hv_total r"
  "hv_records (fst (validate_record now h (r, seen))) = hv_records r @ [h]"
  "hv_parseable (fst (validate_record now h (r, seen))) = hv_parseable r + 1"
  "snd (validate_record now h (r, seen)) = insert (cd_mint (hr_candidate h)) seen"
  by (simp_all add: validate_record_def Let_def)

text \<open>The mints of a list that occurred before, in the list or among those seen.\<close>

fun repeats :: "string set \<Rightarrow> string list \<Rightarrow> string list" where
  "repeats seen [] = []"
| "repeats seen (m # ms) = (if m \<in> seen then [m] else []) @ repeats (insert m seen) ms"

lemma repeats_distinct: "distinct ms \<Longrightarrow> seen \<inter> set ms = {} \<Longrightarrow> repeats seen ms = []"
  by (induction seen ms rule: repeats.induct) auto

lemma validate_line_record:
  assumes "\<not> comment_or_blank l" and "trim l = l" and "parse l = Inr (recorded nk)"
  shows "\<exists>u. validate_line X parse now (i, l) (r, seen) = (if sound_record nk
      then validate_record now (recorded nk) (r\<lparr>hv_total := hv_total r + 1\<rparr>, seen)
      else (r\<lparr>hv_total := hv_total r + 1, hv_unparseable := u\<rparr>, seen))"
  using assms by (simp add: validate_line_def sound_record_def recorded_def Let_def) blast

lemma validate_encoded:
  "faithful ser parse nks \<Longrightarrow>
    (let r' = fst (fold (validate_line X parse now) (enumerate i (map (encoded ser) nks)) (r, seen))
     in hv_records r' = hv_records r @ map recorded (filter sound_record nks)
      \<and> hv_duplicates r' = hv_duplicates r @ repeats seen (map nk_mint (filter sound_record nks))
      \<and> hv_total r' = hv_total r + length nks
      \<and> hv_parseable r' = hv_parseable r + length (filter sound_record nks))"
proof (induction nks arbitrary: r seen i)
  case (Cons nk nks)
  note f = faithful_encoded [OF Cons.prems, OF list.set_intros(1)]
  have rest: "faithful ser parse nks" using faithful_subset [OF Cons.prems] by auto
  have k: "hr_candidate (recorded nk) = snd nk" by (simp add: recorded_def)
  obtain r1 seen1 where s: "validate_line X parse now (i, encoded ser nk) (r, seen) = (r1, seen1)"
    by (cases "validate_line X parse now (i, encoded ser nk) (r, seen)")
  obtain u where u: "(r1, seen1) = (if sound_record nk
      then validate_record now (recorded nk) (r\<lparr>hv_total := hv_total r + 1\<rparr>, seen)
      else (r\<lparr>hv_total := hv_total r + 1, hv_unparseable := u\<rparr>, seen))"
    using validate_line_record [OF f(4,5), of parse nk X now i r seen] f(2) s by metis
  show ?case
  proof (cases "sound_record nk")
    case True
    then have "(r1, seen1)
        = validate_record now (recorded nk) (r\<lparr>hv_total := hv_total r + 1\<rparr>, seen)"
      using u by simp
    then have "r1 = fst (validate_record now (recorded nk) (r\<lparr>hv_total := hv_total r + 1\<rparr>, seen))"
      "seen1 = snd (validate_record now (recorded nk) (r\<lparr>hv_total := hv_total r + 1\<rparr>, seen))"
      by (metis fst_conv, metis snd_conv)
    then have r1: "hv_duplicates r1 = hv_duplicates r @ (if nk_mint nk \<in> seen then [nk_mint nk] else [])"
      "hv_total r1 = hv_total r + 1" "hv_records r1 = hv_records r @ [recorded nk]"
      "hv_parseable r1 = hv_parseable r + 1" "seen1 = insert (nk_mint nk) seen"
      by (simp_all add: validate_record_fields k nk_mint_def)
    from Cons.IH [OF rest, of "Suc i" r1 seen1] True show ?thesis
      by (simp add: s r1 Let_def)
  next
    case False
    then have r1: "hv_duplicates r1 = hv_duplicates r" "hv_total r1 = hv_total r + 1"
      "hv_records r1 = hv_records r" "hv_parseable r1 = hv_parseable r" "seen1 = seen"
      using u by simp_all
    from Cons.IH [OF rest, of "Suc i" r1 seen1] False show ?thesis
      by (simp add: s r1 Let_def)
  qed
qed simp

lemma first_of_mint_distinct:
  "distinct (map nk_mint (first_of_mint seen ks))
    \<and> seen \<inter> nk_mint ` set (first_of_mint seen ks) = {}"
  by (induction seen ks rule: first_of_mint.induct) (auto simp: nk_mint_def)

section \<open>Properties\<close>

text \<open>Sessions of the recorder one after another on the same file.\<close>

fun record_sessions ::
    "(history_record \<Rightarrow> string option) \<Rightarrow> (datetime \<times> candidate) list list \<Rightarrow> string option
     \<Rightarrow> string option" where
  "record_sessions ser [] file = file"
| "record_sessions ser (ks # kss) file =
     record_sessions ser kss (snd (record_all ser ks (new_recorder, file)))"

definition session_records :: "(datetime \<times> candidate) list list \<Rightarrow> (datetime \<times> candidate) list" where
  "session_records kss = concat (map (first_of_mint {}) kss)"

lemma record_ensures:
  assumes "ks \<noteq> []"
  shows "record_all ser ks (new_recorder, None) = record_all ser ks
      (new_recorder\<lparr>hc_created := True\<rparr>, Some (text_of_lines history_header))"
    and "ls \<noteq> [] \<Longrightarrow> record_all ser ks (new_recorder, Some (text_of_lines ls)) = record_all ser ks
      (new_recorder\<lparr>hc_created := True\<rparr>, Some (text_of_lines ls))"
  using assms by (cases ks; cases "hd ks"; cases ls;
      simp add: record_candidate_def ensure_file_def new_recorder_def text_of_lines_def newline_def)+

lemma session_text:
  assumes "faithful ser parse ks" "ks \<noteq> []" "ls \<noteq> []"
  shows "snd (record_all ser ks (new_recorder, Some (text_of_lines ls)))
      = Some (text_of_lines (ls @ map (encoded ser) (first_of_mint {} ks)))"
    and "snd (record_all ser ks (new_recorder, None))
      = Some (text_of_lines (history_header @ map (encoded ser) (first_of_mint {} ks)))"
  using record_all_text [OF assms(1), of "new_recorder\<lparr>hc_created := True\<rparr>"] record_ensures assms(2,3)
  by (simp_all add: new_recorder_def)

lemma later_sessions_text:
  "faithful ser parse (concat kss) \<Longrightarrow> ls \<noteq> [] \<Longrightarrow>
     record_sessions ser kss (Some (text_of_lines ls))
       = Some (text_of_lines (ls @ map (encoded ser) (session_records kss)))"
proof (induction kss arbitrary: ls)
  case (Cons ks kss)
  have f: "faithful ser parse ks" "faithful ser parse (concat kss)"
    using faithful_subset [OF Cons.prems(1)] by auto
  show ?case
    using Cons.IH [OF f(2)] session_text(1) [OF f(1) _ Cons.prems(2)] Cons.prems(2)
    by (cases "ks = []") (simp_all add: session_records_def)
qed (simp add: session_records_def)

lemma sessions_text:
  "faithful ser parse (concat kss) \<Longrightarrow> concat kss \<noteq> [] \<Longrightarrow>
     record_sessions ser kss None
       = Some (text_of_lines (history_header @ map (encoded ser) (session_records kss)))"
proof (induction kss)
  case (Cons ks kss)
  have f: "faithful ser parse ks" "faithful ser parse (concat kss)"
    using faithful_subset [OF Cons.prems(1)] by auto
  have h: "history_header \<noteq> []" by (simp add: history_header_def)
  show ?case
    using Cons.IH [OF f(2)] Cons.prems(2) session_text(2) [OF f(1) _ h] h
      later_sessions_text [OF f(2), of "history_header @ map (encoded ser) (first_of_mint {} ks)"]
    by (cases "ks = []") (simp_all add: session_records_def)
qed simp


definition line_candidate :: candidate where
  "line_candidate = sample_candidate\<lparr>cd_mint := replicate 40 CHR ''A''\<rparr>"


end
