(* ===== verification/Historical_Ohlcv.thy ===== *)
theory Historical_Ohlcv
  imports Wallet_Stats Jupiter
begin

text \<open>
  \<open>src/historical/ohlcv.rs\<close>: fetching price candles from one of two providers. The providers are
  arguments: a reply for every URL and number of the request. The disk is the map of the cached
  files, and the file system is assumed to obey. A sleep is recorded with its milliseconds.
  None is a panic of a plain operator or a fetch that does not return.
\<close>

section \<open>Intervals\<close>

datatype ohlcv_interval = M1 | M5 | M15 | H1 | H4 | D1

fun interval_seconds :: "ohlcv_interval \<Rightarrow> int" where
  "interval_seconds M1 = 60"
| "interval_seconds M5 = 300"
| "interval_seconds M15 = 900"
| "interval_seconds H1 = 3600"
| "interval_seconds H4 = 14400"
| "interval_seconds D1 = 86400"

fun as_birdeye :: "ohlcv_interval \<Rightarrow> string" where
  "as_birdeye M1 = ''1m''"
| "as_birdeye M5 = ''5m''"
| "as_birdeye M15 = ''15m''"
| "as_birdeye H1 = ''1H''"
| "as_birdeye H4 = ''4H''"
| "as_birdeye D1 = ''1D''"

fun as_geckoterminal :: "ohlcv_interval \<Rightarrow> string" where
  "as_geckoterminal M1 = ''minute''"
| "as_geckoterminal M5 = ''minute''"
| "as_geckoterminal M15 = ''minute''"
| "as_geckoterminal H1 = ''hour''"
| "as_geckoterminal H4 = ''hour''"
| "as_geckoterminal D1 = ''day''"

fun geckoterminal_aggregate :: "ohlcv_interval \<Rightarrow> u32" where
  "geckoterminal_aggregate M1 = 1"
| "geckoterminal_aggregate M5 = 5"
| "geckoterminal_aggregate M15 = 15"
| "geckoterminal_aggregate H1 = 1"
| "geckoterminal_aggregate H4 = 4"
| "geckoterminal_aggregate D1 = 1"

fun as_label :: "ohlcv_interval \<Rightarrow> string" where
  "as_label M1 = ''1m''"
| "as_label M5 = ''5m''"
| "as_label M15 = ''15m''"
| "as_label H1 = ''1h''"
| "as_label H4 = ''4h''"
| "as_label D1 = ''1d''"

definition parse_interval :: "string \<Rightarrow> ohlcv_interval option" where
  "parse_interval s =
    (if s = ''1m'' then Some M1
     else if s = ''5m'' then Some M5
     else if s = ''15m'' then Some M15
     else if s = ''1h'' then Some H1
     else if s = ''4h'' then Some H4
     else if s = ''1d'' then Some D1
     else None)"

section \<open>Configuration\<close>

datatype provider_kind = Birdeye | GeckoTerminal

datatype ohlcv_error =
    MissingApiKey
  | HttpFailure string
  | Throttled u64
  | ProviderFailure string
  | InvalidResponse string

record provider_config =
  pc_base_url :: string
  pc_api_key :: "string option"
  pc_kind :: provider_kind
  pc_max_retries :: u32
  pc_initial_backoff_ms :: u64
  pc_page_seconds :: int

definition provider_of_env :: "string option \<Rightarrow> provider_kind" where
  "provider_of_env v = (case v of
      None \<Rightarrow> Birdeye
    | Some s \<Rightarrow> if ascii_lower (trim s) = ''geckoterminal'' then GeckoTerminal else Birdeye)"

text \<open>\<open>env\<close> reads an environment variable.\<close>

definition provider_from_env :: "(string \<Rightarrow> string option) \<Rightarrow> ohlcv_error + provider_config" where
  "provider_from_env env =
    (let kind = provider_of_env (env ''OHLCV_PROVIDER'');
         api_key = (case env ''BIRDEYE_API_KEY'' of
             None \<Rightarrow> None | Some v \<Rightarrow> if trim v = [] then None else Some v);
         base_url = (case env ''OHLCV_PROVIDER_URL'' of
             Some u \<Rightarrow> u
           | None \<Rightarrow> (case kind of
               Birdeye \<Rightarrow> ''https://public-api.birdeye.so''
             | GeckoTerminal \<Rightarrow> ''https://api.geckoterminal.com'')) in
     if kind = Birdeye \<and> api_key = None then Inl MissingApiKey
     else Inr \<lparr>pc_base_url = base_url, pc_api_key = api_key, pc_kind = kind,
       pc_max_retries = (if kind = GeckoTerminal then 10 else 5),
       pc_initial_backoff_ms = (if kind = GeckoTerminal then 2000 else 500),
       pc_page_seconds = 7 * 86400\<rparr>)"

definition birdeye_config :: "string \<Rightarrow> string option \<Rightarrow> provider_config" where
  "birdeye_config base_url api_key = \<lparr>pc_base_url = base_url, pc_api_key = api_key,
     pc_kind = Birdeye, pc_max_retries = 5, pc_initial_backoff_ms = 250,
     pc_page_seconds = 7 * 86400\<rparr>"

definition geckoterminal_config :: provider_config where
  "geckoterminal_config = \<lparr>pc_base_url = ''https://api.geckoterminal.com'', pc_api_key = None,
     pc_kind = GeckoTerminal, pc_max_retries = 5, pc_initial_backoff_ms = 1500,
     pc_page_seconds = 7 * 86400\<rparr>"

section \<open>Candles\<close>

record ohlcv_candle =
  oc_timestamp :: datetime
  oc_open_usd :: decimal
  oc_high_usd :: decimal
  oc_low_usd :: decimal
  oc_close_usd :: decimal
  oc_volume_usd :: "decimal option"
  oc_liquidity_usd :: "decimal option"

type_synonym raw_candle = "int \<times> decimal \<times> decimal \<times> decimal \<times> decimal \<times> decimal"

definition bad_time :: "int \<Rightarrow> ohlcv_error" where
  "bad_time ts = InvalidResponse (''bad unix timestamp '' @ show_int ts)"

definition plausible :: "decimal \<Rightarrow> decimal \<Rightarrow> decimal \<Rightarrow> decimal \<Rightarrow> bool" where
  "plausible op hi lo cl \<longleftrightarrow> \<not> (op \<le> 0 \<or> hi \<le> 0 \<or> lo \<le> 0 \<or> cl \<le> 0) \<and> \<not> hi < lo"

definition candle_at ::
    "datetime \<Rightarrow> decimal \<Rightarrow> decimal \<Rightarrow> decimal \<Rightarrow> decimal \<Rightarrow> decimal \<Rightarrow> ohlcv_candle" where
  "candle_at t op hi lo cl v = \<lparr>oc_timestamp = t, oc_open_usd = op, oc_high_usd = hi,
     oc_low_usd = lo, oc_close_usd = cl, oc_volume_usd = Some v, oc_liquidity_usd = None\<rparr>"

fun parse_candles :: "raw_candle list \<Rightarrow> ohlcv_error + ohlcv_candle list" where
  "parse_candles [] = Inr []"
| "parse_candles ((ts, op, hi, lo, cl, v) # items) = (case from_timestamp ts of
      None \<Rightarrow> Inl (bad_time ts)
    | Some t \<Rightarrow> also_then (parse_candles items) (\<lambda>cs.
        Inr (if plausible op hi lo cl then candle_at t op hi lo cl v # cs else cs)))"


text \<open>
  A row of GeckoTerminal is a list of \<open>f64\<close>; the numbers JSON can write are finite, so they are
  rationals. \<open>dec_of_f64\<close> is the conversion of the decimal crate.
\<close>

definition f64_as_i64 :: "rat \<Rightarrow> int" where
  "f64_as_i64 r = i64_sat (if 0 \<le> r then \<lfloor>r\<rfloor> else - \<lfloor>- r\<rfloor>)"

definition gecko_number ::
    "(rat \<Rightarrow> string + decimal) \<Rightarrow> string \<Rightarrow> rat \<Rightarrow> ohlcv_error + decimal" where
  "gecko_number dec_of_f64 name r = (case dec_of_f64 r of
      Inl e \<Rightarrow> Inl (InvalidResponse (''bad '' @ name @ '': '' @ e))
    | Inr d \<Rightarrow> Inr d)"

definition gecko_row ::
    "(rat \<Rightarrow> string + decimal) \<Rightarrow> rat list \<Rightarrow> ohlcv_error + ohlcv_candle option" where
  "gecko_row F row =
    (if length row < 6 then Inr None
     else let ts = f64_as_i64 (row ! 0) in
     also_then (gecko_number F ''open'' (row ! 1)) (\<lambda>op.
     also_then (gecko_number F ''high'' (row ! 2)) (\<lambda>hi.
     also_then (gecko_number F ''low'' (row ! 3)) (\<lambda>lo.
     also_then (gecko_number F ''close'' (row ! 4)) (\<lambda>cl.
     also_then (gecko_number F ''volume'' (row ! 5)) (\<lambda>v.
     case from_timestamp ts of
       None \<Rightarrow> Inl (bad_time ts)
     | Some t \<Rightarrow> Inr (if plausible op hi lo cl then Some (candle_at t op hi lo cl v)
                     else None)))))))"

fun gecko_rows ::
    "(rat \<Rightarrow> string + decimal) \<Rightarrow> rat list list \<Rightarrow> ohlcv_error + ohlcv_candle list" where
  "gecko_rows F [] = Inr []"
| "gecko_rows F (row # rows) = also_then (gecko_row F row) (\<lambda>c.
     also_then (gecko_rows F rows) (\<lambda>cs.
       Inr (case c of None \<Rightarrow> cs | Some x \<Rightarrow> x # cs)))"

definition parse_geckoterminal_candles ::
    "(rat \<Rightarrow> string + decimal) \<Rightarrow> rat list list \<Rightarrow> ohlcv_error + ohlcv_candle list" where
  "parse_geckoterminal_candles F rows =
     also_then (gecko_rows F rows) (\<lambda>cs. Inr (sort_key oc_timestamp cs))"

section \<open>One request with its retries\<close>

text \<open>A reply: its status, the \<open>retry-after\<close> header as a number, its text and its parsed body.\<close>

datatype 'b reply = NoReply string | Reply nat "u64 option" string "string + 'b"

text \<open>A plain multiplication or addition of \<open>u64\<close>, which traps or wraps with the build profile.\<close>

definition plain_mul :: "ext \<Rightarrow> u64 \<Rightarrow> u64 \<Rightarrow> u64 option" where
  "plain_mul X a b =
     (if overflow_checks X \<and> \<not> unat a * unat b < 2 ^ 64 then None else Some (a * b))"

definition plain_add :: "ext \<Rightarrow> u64 \<Rightarrow> u64 \<Rightarrow> u64 option" where
  "plain_add X a b =
     (if overflow_checks X \<and> \<not> unat a + unat b < 2 ^ 64 then None else Some (a + b))"

record retry_policy =
  rp_name :: string
  rp_error_cap :: u64                                \<comment> \<open>back-off cap after a transport error\<close>
  rp_cap :: u64                                      \<comment> \<open>back-off cap after 429 and 5xx\<close>
  rp_wait :: "u64 option \<Rightarrow> u64 \<Rightarrow> u64 option"         \<comment> \<open>the wait after a 429\<close>
  rp_parse_name :: string

definition next_backoff :: "ext \<Rightarrow> u64 \<Rightarrow> u64 \<Rightarrow> u64 option" where
  "next_backoff X cap backoff = map_option (\<lambda>b. min b cap) (plain_mul X backoff 2)"

text \<open>
  \<open>left\<close> is the number of retries left: attempt \<open>max_retries + 1 - left\<close> is made. The result has
  the number of the next request and the sleeps.
\<close>

type_synonym 'a request_result = "((ohlcv_error + 'a) \<times> nat \<times> u64 list) option"

fun request_loop ::
    "ext \<Rightarrow> retry_policy \<Rightarrow> (nat \<Rightarrow> 'b reply) \<Rightarrow> nat \<Rightarrow> u64 \<Rightarrow> nat \<Rightarrow> u64 list
     \<Rightarrow> 'b request_result" where
  "request_loop X rp net left backoff k slept = (case net k of
      NoReply e \<Rightarrow> (case left of
          0 \<Rightarrow> Some (Inl (HttpFailure e), k + 1, slept)
        | Suc left' \<Rightarrow> Option.bind (next_backoff X (rp_error_cap rp) backoff) (\<lambda>b.
            request_loop X rp net left' b (k + 1) (slept @ [backoff])))
    | Reply status retry_after txt body \<Rightarrow>
        if status = 429 then (case left of
            0 \<Rightarrow> Some (Inl (Throttled (backoff div 1000 + 1)), k + 1, slept)
          | Suc left' \<Rightarrow> Option.bind (rp_wait rp retry_after backoff) (\<lambda>w.
              Option.bind (next_backoff X (rp_cap rp) backoff) (\<lambda>b.
                request_loop X rp net left' b (k + 1) (slept @ [w]))))
        else (case (500 \<le> status \<and> status < 600, left) of
            (True, Suc left') \<Rightarrow> Option.bind (next_backoff X (rp_cap rp) backoff) (\<lambda>b.
              request_loop X rp net left' b (k + 1) (slept @ [backoff]))
          | _ \<Rightarrow> if \<not> (200 \<le> status \<and> status < 300)
                then Some (Inl (ProviderFailure (rp_name rp @ ''status '' @ show_nat status @ '': ''
                       @ txt)), k + 1, slept)
                else Some (case body of
                    Inl e \<Rightarrow> Inl (InvalidResponse (rp_parse_name rp @ e))
                  | Inr v \<Rightarrow> Inr v, k + 1, slept)))"

definition birdeye_policy :: "ext \<Rightarrow> retry_policy" where
  "birdeye_policy X = \<lparr>rp_name = [], rp_error_cap = 30000, rp_cap = 30000,
     rp_wait = (\<lambda>ra backoff. plain_mul X
       (case ra of None \<Rightarrow> backoff div 1000 + 1 | Some s \<Rightarrow> s) 1000),
     rp_parse_name = []\<rparr>"

definition gecko_wait :: "ext \<Rightarrow> u64 option \<Rightarrow> u64 \<Rightarrow> u64 option" where
  "gecko_wait X ra backoff = do {
     ms \<leftarrow> plain_mul X (case ra of None \<Rightarrow> 5 | Some s \<Rightarrow> s) 1000;
     w \<leftarrow> plain_add X ms 2000;
     Some (max w backoff)
   }"

definition gecko_policy :: "ext \<Rightarrow> retry_policy" where
  "gecko_policy X = \<lparr>rp_name = ''geckoterminal '', rp_error_cap = 60000, rp_cap = 60000,
     rp_wait = gecko_wait X, rp_parse_name = ''geckoterminal parse: ''\<rparr>"

definition pool_policy :: "ext \<Rightarrow> retry_policy" where
  "pool_policy X = \<lparr>rp_name = ''geckoterminal pool '', rp_error_cap = 30000, rp_cap = 60000,
     rp_wait = gecko_wait X, rp_parse_name = ''geckoterminal pool parse: ''\<rparr>"

section \<open>Pages\<close>

record birdeye_body =
  bb_success :: bool
  bb_message :: "string option"
  bb_items :: "raw_candle list"

record pool_entry =
  pe_id :: string
  pe_reserve_in_usd :: "rat option"     \<comment> \<open>the text as a number, when it is one\<close>

text \<open>What the provider needs from outside: the two services and the conversion of a float.\<close>

record ohlcv_world =
  ow_birdeye :: "string \<Rightarrow> nat \<Rightarrow> birdeye_body reply"
  ow_gecko :: "string \<Rightarrow> nat \<Rightarrow> rat list list reply"
  ow_pools :: "string \<Rightarrow> nat \<Rightarrow> pool_entry list reply"
  ow_dec_of_f64 :: "rat \<Rightarrow> string + decimal"

text \<open>
  The provider: the files of the two caches, the pools in memory, the number of requests sent and
  the sleeps. A cached page is what its JSON parses to.
\<close>

record ohlcv_state =
  os_pages :: "string \<Rightarrow> (string + ohlcv_candle list) option"
  os_pool_files :: "string \<Rightarrow> string option"
  os_pool_cache :: "string \<Rightarrow> string option"
  os_requests :: nat
  os_slept :: "u64 list"

definition sleep_ms :: "u64 \<Rightarrow> ohlcv_state \<Rightarrow> ohlcv_state" where
  "sleep_ms ms s = s\<lparr>os_slept := os_slept s @ [ms]\<rparr>"

definition trim_slashes :: "string \<Rightarrow> string" where
  "trim_slashes s = rev (dropWhile (\<lambda>c. c = CHR ''/'') (rev s))"

definition birdeye_url ::
    "provider_config \<Rightarrow> string \<Rightarrow> ohlcv_interval \<Rightarrow> datetime \<Rightarrow> datetime \<Rightarrow> string" where
  "birdeye_url cfg mint iv frm to = trim_slashes (pc_base_url cfg) @ ''/defi/ohlcv?address='' @ mint
     @ ''&type='' @ as_birdeye iv @ ''&time_from='' @ show_int (timestamp frm)
     @ ''&time_to='' @ show_int (timestamp to)"

definition send_request ::
    "ext \<Rightarrow> provider_config \<Rightarrow> retry_policy \<Rightarrow> (nat \<Rightarrow> 'b reply) \<Rightarrow> ohlcv_state
     \<Rightarrow> ((ohlcv_error + 'b) \<times> ohlcv_state) option" where
  "send_request X cfg rp net s = map_option
     (\<lambda>(r, k, sl). (r, s\<lparr>os_requests := k, os_slept := sl\<rparr>))
     (request_loop X rp net (unat (pc_max_retries cfg)) (pc_initial_backoff_ms cfg)
        (os_requests s) (os_slept s))"

definition fetch_page_birdeye ::
    "ext \<Rightarrow> ohlcv_world \<Rightarrow> provider_config \<Rightarrow> string \<Rightarrow> ohlcv_interval \<Rightarrow> datetime \<Rightarrow> datetime
     \<Rightarrow> ohlcv_state \<Rightarrow> ((ohlcv_error + ohlcv_candle list) \<times> ohlcv_state) option" where
  "fetch_page_birdeye X W cfg mint iv frm to s = (case pc_api_key cfg of
      None \<Rightarrow> Some (Inl MissingApiKey, s)
    | Some key \<Rightarrow> map_option (\<lambda>(r, s'). (also_then r (\<lambda>body.
          if \<not> bb_success body
          then Inl (ProviderFailure (case bb_message body of
              None \<Rightarrow> ''provider returned success=false'' | Some m \<Rightarrow> m))
          else parse_candles (bb_items body)), s'))
        (send_request X cfg (birdeye_policy X) (ow_birdeye W (birdeye_url cfg mint iv frm to)) s))"

section \<open>The pool of a token\<close>

text \<open>The pool cache file: white space only is no entry.\<close>

definition read_pool_cache :: "ohlcv_state \<Rightarrow> string \<Rightarrow> string option" where
  "read_pool_cache s path = (case os_pool_files s path of
      None \<Rightarrow> None
    | Some t \<Rightarrow> if trim t = [] then None else Some (trim t))"

definition pool_path :: "string \<Rightarrow> string" where
  "pool_path mint = ''pool_'' @ mint @ ''.json''"

definition pool_liquidity :: "pool_entry \<Rightarrow> rat" where
  "pool_liquidity p = (case pe_reserve_in_usd p of None \<Rightarrow> 0 | Some v \<Rightarrow> v)"

definition strip_prefix :: "string \<Rightarrow> string \<Rightarrow> string" where
  "strip_prefix p s = (if take (length p) s = p then drop (length p) s else s)"

definition best_pool :: "string \<Rightarrow> pool_entry list \<Rightarrow> ohlcv_error + string" where
  "best_pool mint ps = (case last_max pool_liquidity ps of
      None \<Rightarrow> Inl (ProviderFailure (''no pools found for token '' @ mint))
    | Some p \<Rightarrow> Inr (strip_prefix ''solana_'' (pe_id p)))"

definition pool_url :: "provider_config \<Rightarrow> string \<Rightarrow> string" where
  "pool_url cfg mint = trim_slashes (pc_base_url cfg) @ ''/api/v2/networks/solana/tokens/'' @ mint
     @ ''/pools?page=1''"

definition resolve_pool ::
    "ext \<Rightarrow> ohlcv_world \<Rightarrow> provider_config \<Rightarrow> string \<Rightarrow> ohlcv_state
     \<Rightarrow> ((ohlcv_error + string) \<times> ohlcv_state) option" where
  "resolve_pool X W cfg mint s = (case os_pool_cache s mint of
      Some pool \<Rightarrow> Some (Inr pool, s)
    | None \<Rightarrow> (case read_pool_cache s (pool_path mint) of
        Some pool \<Rightarrow> Some (Inr pool, s\<lparr>os_pool_cache := (os_pool_cache s)(mint \<mapsto> pool)\<rparr>)
      | None \<Rightarrow> map_option (\<lambda>(r, s'). case also_then r (best_pool mint) of
            Inl e \<Rightarrow> (Inl e, s')
          | Inr pool \<Rightarrow> (Inr pool,
              s'\<lparr>os_pool_files := (os_pool_files s')(pool_path mint \<mapsto> pool),
                 os_pool_cache := (os_pool_cache s')(mint \<mapsto> pool)\<rparr>))
          (send_request X cfg (pool_policy X) (ow_pools W (pool_url cfg mint)) (sleep_ms 2000 s))))"

section \<open>Pages of GeckoTerminal\<close>

definition max_gecko_pages :: nat where "max_gecko_pages = 50"

definition gecko_url ::
    "provider_config \<Rightarrow> string \<Rightarrow> ohlcv_interval \<Rightarrow> nat \<Rightarrow> string" where
  "gecko_url cfg pool iv page = trim_slashes (pc_base_url cfg)
     @ ''/api/v2/networks/solana/pools/'' @ pool @ ''/ohlcv/'' @ as_geckoterminal iv
     @ ''?aggregate='' @ show_word (geckoterminal_aggregate iv) @ ''&page='' @ show_nat page"

definition in_window :: "int \<Rightarrow> int \<Rightarrow> ohlcv_candle \<Rightarrow> bool" where
  "in_window from_ts to_ts c \<longleftrightarrow> timestamp (oc_timestamp c) \<ge> from_ts \<and> timestamp (oc_timestamp c) \<le> to_ts"

definition oldest_ts :: "ohlcv_candle list \<Rightarrow> int" where
  "oldest_ts cs = (case map (timestamp \<circ> oc_timestamp) cs of [] \<Rightarrow> 0 | t # ts \<Rightarrow> foldl min t ts)"

text \<open>The pages still allowed: page \<open>51 - left\<close> is fetched next.\<close>

fun gecko_pages ::
    "ext \<Rightarrow> ohlcv_world \<Rightarrow> provider_config \<Rightarrow> string \<Rightarrow> ohlcv_interval \<Rightarrow> int \<Rightarrow> int \<Rightarrow> nat
     \<Rightarrow> ohlcv_candle list \<Rightarrow> ohlcv_state
     \<Rightarrow> ((ohlcv_error + ohlcv_candle list) \<times> ohlcv_state) option" where
  "gecko_pages X W cfg pool iv from_ts to_ts 0 acc s = Some (Inr acc, s)"
| "gecko_pages X W cfg pool iv from_ts to_ts (Suc left) acc s = (case
     send_request X cfg (gecko_policy X)
       (ow_gecko W (gecko_url cfg pool iv (max_gecko_pages - left))) s of
     None \<Rightarrow> None
   | Some (r, s') \<Rightarrow> (case also_then r (parse_geckoterminal_candles (ow_dec_of_f64 W)) of
       Inl e \<Rightarrow> Some (Inl e, s')
     | Inr cs \<Rightarrow>
         if cs = [] then Some (Inr acc, s')
         else let acc' = acc @ filter (in_window from_ts to_ts) cs in
           if oldest_ts cs > from_ts \<and> length cs \<ge> 100
           then gecko_pages X W cfg pool iv from_ts to_ts left acc' (sleep_ms 3000 s')
           else Some (Inr acc', s')))"

definition fetch_page_geckoterminal ::
    "ext \<Rightarrow> ohlcv_world \<Rightarrow> provider_config \<Rightarrow> string \<Rightarrow> ohlcv_interval \<Rightarrow> datetime \<Rightarrow> datetime
     \<Rightarrow> ohlcv_state \<Rightarrow> ((ohlcv_error + ohlcv_candle list) \<times> ohlcv_state) option" where
  "fetch_page_geckoterminal X W cfg mint iv frm to s = (case resolve_pool X W cfg mint s of
      None \<Rightarrow> None
    | Some (Inl e, s') \<Rightarrow> Some (Inl e, s')
    | Some (Inr pool, s') \<Rightarrow> gecko_pages X W cfg pool iv (timestamp frm) (timestamp to)
        max_gecko_pages [] (sleep_ms 2000 s'))"

section \<open>The page cache and the window\<close>

definition safe_mint :: "string \<Rightarrow> string" where
  "safe_mint mint = map (\<lambda>c. if c = CHR ''/'' then CHR ''_'' else c) mint"

definition cache_path ::
    "provider_config \<Rightarrow> string \<Rightarrow> ohlcv_interval \<Rightarrow> datetime \<Rightarrow> datetime \<Rightarrow> string" where
  "cache_path cfg mint iv frm to = ''ohlcv_'' @ safe_mint mint @ ''_'' @ as_label iv @ ''_''
     @ show_int (timestamp frm) @ ''_'' @ show_int (timestamp to) @ ''_''
     @ show_int (pc_page_seconds cfg) @ ''.json''"

definition fetch_page ::
    "ext \<Rightarrow> ohlcv_world \<Rightarrow> provider_config \<Rightarrow> string \<Rightarrow> ohlcv_interval \<Rightarrow> datetime \<Rightarrow> datetime
     \<Rightarrow> ohlcv_state \<Rightarrow> ((ohlcv_error + ohlcv_candle list) \<times> ohlcv_state) option" where
  "fetch_page X W cfg mint iv frm to s =
    (let path = cache_path cfg mint iv frm to in
     case os_pages s path of
       Some (Inl e) \<Rightarrow> Some (Inl (InvalidResponse e), s)
     | Some (Inr cs) \<Rightarrow> Some (Inr cs, s)
     | None \<Rightarrow> (case (case pc_kind cfg of
           Birdeye \<Rightarrow> fetch_page_birdeye X W cfg mint iv frm to s
         | GeckoTerminal \<Rightarrow> fetch_page_geckoterminal X W cfg mint iv frm to s) of
         None \<Rightarrow> None
       | Some (Inl e, s') \<Rightarrow> Some (Inl e, s')
       | Some (Inr cs, s') \<Rightarrow> Some (Inr cs, s'\<lparr>os_pages := (os_pages s')(path \<mapsto> Inr cs)\<rparr>)))"

text \<open>The candles by the second of their opening; a later one replaces an earlier one.\<close>

definition insert_candle ::
    "ohlcv_candle \<Rightarrow> (int \<times> ohlcv_candle) list \<Rightarrow> (int \<times> ohlcv_candle) list" where
  "insert_candle c m = AList.update (timestamp (oc_timestamp c)) c m"

definition page_end_of :: "provider_config \<Rightarrow> datetime \<Rightarrow> datetime \<Rightarrow> datetime" where
  "page_end_of cfg start to = min (start + secs (pc_page_seconds cfg) - secs 1) to"

partial_function (option) window_loop ::
    "ext \<Rightarrow> ohlcv_world \<Rightarrow> provider_config \<Rightarrow> string \<Rightarrow> ohlcv_interval \<Rightarrow> datetime \<Rightarrow> datetime
     \<Rightarrow> (int \<times> ohlcv_candle) list \<Rightarrow> ohlcv_state
     \<Rightarrow> ((ohlcv_error + (int \<times> ohlcv_candle) list) \<times> ohlcv_state) option" where
  "window_loop X W cfg mint iv start to m s =
    (if \<not> start \<le> to then Some (Inr m, s)
     else let page_end = page_end_of cfg start to in
       case fetch_page X W cfg mint iv start page_end s of
         None \<Rightarrow> None
       | Some (r, s') \<Rightarrow> (case r of
           Inl e \<Rightarrow> Some (Inl e, s')
         | Inr cs \<Rightarrow> window_loop X W cfg mint iv (page_end + secs 1) to
             (fold insert_candle cs m) s'))"

definition fetch_window ::
    "ext \<Rightarrow> ohlcv_world \<Rightarrow> provider_config \<Rightarrow> string \<Rightarrow> ohlcv_interval \<Rightarrow> datetime \<Rightarrow> datetime
     \<Rightarrow> ohlcv_state \<Rightarrow> ((ohlcv_error + ohlcv_candle list) \<times> ohlcv_state) option" where
  "fetch_window X W cfg mint iv frm to s =
    (if frm > to
     then Some (Inl (InvalidResponse ''from must be <= to for OHLCV fetch''), s)
     else map_option (\<lambda>(r, s'). (also_then r (\<lambda>m. Inr (map snd (sort_key fst m))), s'))
       (window_loop X W cfg mint iv frm to [] s))"

section \<open>Facts\<close>

lemma interval_round_trip: "parse_interval (as_label iv) = Some iv"
  by (cases iv) (simp_all add: parse_interval_def)

lemma parse_interval_Some: "parse_interval s = Some iv \<longleftrightarrow> s = as_label iv"
  by (cases iv) (auto simp: parse_interval_def)

text \<open>The two parameters of GeckoTerminal describe the same length as the interval.\<close>

definition timeframe_seconds :: "string \<Rightarrow> int" where
  "timeframe_seconds s = (if s = ''minute'' then 60 else if s = ''hour'' then 3600 else 86400)"

lemma geckoterminal_length:
  "timeframe_seconds (as_geckoterminal iv) * uint (geckoterminal_aggregate iv) = interval_seconds iv"
  by (cases iv) (simp_all add: timeframe_seconds_def)

definition sound_candle :: "ohlcv_candle \<Rightarrow> bool" where
  "sound_candle c \<longleftrightarrow> 0 < oc_open_usd c \<and> 0 < oc_low_usd c \<and> 0 < oc_close_usd c
     \<and> oc_low_usd c \<le> oc_high_usd c"

lemma candle_at_sound [simp]: "plausible op hi lo cl \<Longrightarrow> sound_candle (candle_at t op hi lo cl v)"
  by (auto simp: plausible_def sound_candle_def candle_at_def)

lemma parse_candles_sound: "parse_candles items = Inr cs \<Longrightarrow> list_all sound_candle cs"
  by (induction items arbitrary: cs rule: parse_candles.induct)
    (auto simp: also_then_Inr split: option.splits if_splits)

lemma gecko_row_sound: "gecko_row F row = Inr (Some c) \<Longrightarrow> sound_candle c"
  by (auto simp: gecko_row_def also_then_Inr Let_def split: if_splits option.splits)

lemma gecko_rows_sound: "gecko_rows F rows = Inr cs \<Longrightarrow> list_all sound_candle cs"
  by (induction rows arbitrary: cs)
    (auto simp: also_then_Inr split: option.splits dest: gecko_row_sound)

lemma parse_geckoterminal_sound:
  "parse_geckoterminal_candles F rows = Inr cs
     \<Longrightarrow> list_all sound_candle cs \<and> sorted (map oc_timestamp cs)"
  by (auto simp: parse_geckoterminal_candles_def also_then_Inr list_all_iff
      dest!: gecko_rows_sound)

lemma gecko_pages_sound:
  "gecko_pages X W cfg pool iv a b left acc s = Some (Inr cs, s') \<Longrightarrow> list_all sound_candle acc
     \<Longrightarrow> list_all (in_window a b) acc \<Longrightarrow> list_all sound_candle cs \<and> list_all (in_window a b) cs"
proof (induction left arbitrary: acc s)
  case (Suc left)
  obtain r s1 where r: "send_request X cfg (gecko_policy X)
      (ow_gecko W (gecko_url cfg pool iv (max_gecko_pages - left))) s = Some (r, s1)"
    using Suc.prems(1) by (auto split: option.splits)
  obtain cs1 where c: "also_then r (parse_geckoterminal_candles (ow_dec_of_f64 W)) = Inr cs1"
    using Suc.prems(1) r by (auto split: sum.splits)
  then have "list_all sound_candle cs1"
    using parse_geckoterminal_sound by (auto simp: also_then_Inr)
  then have acc: "list_all sound_candle (acc @ filter (in_window a b) cs1)"
    "list_all (in_window a b) (acc @ filter (in_window a b) cs1)"
    using Suc.prems(2,3) by (auto simp: list_all_iff)
  show ?case
    using Suc.prems Suc.IH [OF _ acc] acc r c by (auto simp: Let_def split: if_splits)
qed simp

text \<open>What a fetch keeps: only the page cache matters for what is returned later.\<close>

definition cache_sound :: "ohlcv_state \<Rightarrow> bool" where
  "cache_sound s \<longleftrightarrow> (\<forall>path cs. os_pages s path = Some (Inr cs) \<longrightarrow> list_all sound_candle cs)"

lemma send_request_pages:
  "send_request X cfg rp net s = Some (r, s') \<Longrightarrow> os_pages s' = os_pages s"
  by (auto simp: send_request_def)

lemma resolve_pool_pages:
  assumes "resolve_pool X W cfg mint s = Some (r, s')"
  shows "os_pages s' = os_pages s"
proof (cases "os_pool_cache s mint = None \<and> read_pool_cache s (pool_path mint) = None")
  case True
  then obtain q s1 where q: "send_request X cfg (pool_policy X) (ow_pools W (pool_url cfg mint))
      (sleep_ms 2000 s) = Some (q, s1)"
    using assms by (auto simp: resolve_pool_def)
  then have "os_pages s1 = os_pages s" by (auto simp: sleep_ms_def dest: send_request_pages)
  with assms True q show ?thesis
    by (cases "also_then q (best_pool mint)") (auto simp: resolve_pool_def)
next
  case False
  with assms show ?thesis by (auto simp: resolve_pool_def split: option.splits)
qed

lemma gecko_pages_pages:
  "gecko_pages X W cfg pool iv a b left acc s = Some (r, s') \<Longrightarrow> os_pages s' = os_pages s"
  by (induction left arbitrary: acc s)
    (auto simp: sleep_ms_def Let_def split: option.splits sum.splits if_splits
      dest!: send_request_pages)

lemma fetch_page_sound:
  assumes f: "fetch_page X W cfg mint iv a b s = Some (r, s')" and s: "cache_sound s"
  shows "cache_sound s' \<and> (\<forall>cs. r = Inr cs \<longrightarrow> list_all sound_candle cs)"
proof (cases "os_pages s (cache_path cfg mint iv a b)")
  case (Some c)
  then show ?thesis using f s by (cases c) (auto simp: fetch_page_def Let_def cache_sound_def)
next
  case None
  obtain r1 s1 where g: "(case pc_kind cfg of
      Birdeye \<Rightarrow> fetch_page_birdeye X W cfg mint iv a b s
    | GeckoTerminal \<Rightarrow> fetch_page_geckoterminal X W cfg mint iv a b s) = Some (r1, s1)"
    using f None by (auto simp: fetch_page_def Let_def split: option.splits)
  have "os_pages s1 = os_pages s \<and> (\<forall>cs. r1 = Inr cs \<longrightarrow> list_all sound_candle cs)"
  proof (cases "pc_kind cfg")
    case Birdeye
    then show ?thesis using g
      by (auto simp: fetch_page_birdeye_def also_then_Inr split: option.splits if_splits
          dest!: send_request_pages parse_candles_sound)
  next
    case GeckoTerminal
    then obtain q s2 where q: "resolve_pool X W cfg mint s = Some (q, s2)"
      using g by (auto simp: fetch_page_geckoterminal_def split: option.splits)
    show ?thesis
    proof (cases q)
      case (Inl e)
      then show ?thesis using g q GeckoTerminal resolve_pool_pages [OF q]
        by (auto simp: fetch_page_geckoterminal_def)
    next
      case (Inr pool)
      then have w: "gecko_pages X W cfg pool iv (timestamp a) (timestamp b) max_gecko_pages []
          (sleep_ms 2000 s2) = Some (r1, s1)"
        using g q GeckoTerminal by (simp add: fetch_page_geckoterminal_def)
      show ?thesis using gecko_pages_pages [OF w] resolve_pool_pages [OF q] gecko_pages_sound w
        by (fastforce simp: sleep_ms_def)
    qed
  qed
  then show ?thesis using f s None g
    by (cases r1) (auto simp: fetch_page_def Let_def cache_sound_def split: if_splits)
qed

text \<open>The candles collected so far: one for each second, under its own second.\<close>

definition collected :: "(int \<times> ohlcv_candle) list \<Rightarrow> bool" where
  "collected m \<longleftrightarrow> distinct (map fst m)
     \<and> list_all (\<lambda>(k, c). timestamp (oc_timestamp c) = k \<and> sound_candle c) m"

lemma collected_insert:
  "collected m \<Longrightarrow> sound_candle c \<Longrightarrow> collected (insert_candle c m)"
proof -
  assume m: "collected m" and c: "sound_candle c"
  have "set (insert_candle c m) \<subseteq> insert (timestamp (oc_timestamp c), c) (set m)"
    unfolding insert_candle_def by (induction m) auto
  moreover have "distinct (map fst (insert_candle c m))"
    using m by (simp add: insert_candle_def collected_def distinct_update)
  ultimately show ?thesis using m c by (fastforce simp: collected_def list_all_iff)
qed

lemma collected_fold:
  "collected m \<Longrightarrow> list_all sound_candle cs \<Longrightarrow> collected (fold insert_candle cs m)"
  by (induction cs arbitrary: m) (auto simp: collected_insert)

lemma window_loop_sound:
  assumes "window_loop X W cfg mint iv start to m s = Some rs"
  shows "cache_sound s \<longrightarrow> collected m
    \<longrightarrow> cache_sound (snd rs) \<and> (\<forall>m'. fst rs = Inr m' \<longrightarrow> collected m')"
proof (rule window_loop.raw_induct [where P = "\<lambda>X W cfg mint iv start to m s rs.
    cache_sound s \<longrightarrow> collected m
      \<longrightarrow> cache_sound (snd rs) \<and> (\<forall>m'. fst rs = Inr m' \<longrightarrow> collected m')", OF _ assms])
  fix loop X W cfg mint iv start to m s rs
  assume IH: "\<And>X W cfg mint iv start to m s rs. loop X W cfg mint iv start to m s = Some rs \<Longrightarrow>
      cache_sound s \<longrightarrow> collected m
        \<longrightarrow> cache_sound (snd rs) \<and> (\<forall>m'. fst rs = Inr m' \<longrightarrow> collected m')"
    and run: "(if \<not> start \<le> to then Some (Inr m, s)
     else let page_end = page_end_of cfg start to in
       case fetch_page X W cfg mint iv start page_end s of
         None \<Rightarrow> None
       | Some (r, s') \<Rightarrow> (case r of
           Inl e \<Rightarrow> Some (Inl e, s')
         | Inr cs \<Rightarrow> loop X W cfg mint iv (page_end + secs 1) to
             (fold insert_candle cs m) s')) = Some rs"
  show "cache_sound s \<longrightarrow> collected m
    \<longrightarrow> cache_sound (snd rs) \<and> (\<forall>m'. fst rs = Inr m' \<longrightarrow> collected m')"
  proof (cases "start \<le> to")
    case False
    then show ?thesis using run by auto
  next
    case True
    let ?e = "page_end_of cfg start to"
    obtain r s1 where p: "fetch_page X W cfg mint iv start ?e s = Some (r, s1)"
      using run True by (auto simp: Let_def split: option.splits)
    note f = fetch_page_sound [OF p]
    show ?thesis
    proof (cases r)
      case (Inl e)
      then show ?thesis using run True p f by (auto simp: Let_def)
    next
      case (Inr cs)
      then have "loop X W cfg mint iv (?e + secs 1) to (fold insert_candle cs m) s1 = Some rs"
        using run True p by (simp add: Let_def)
      note rest = IH [OF this]
      show ?thesis
      proof (intro impI)
        assume "cache_sound s" "collected m"
        with f Inr have "cache_sound s1" "collected (fold insert_candle cs m)"
          by (blast, blast intro: collected_fold)
        with rest show "cache_sound (snd rs) \<and> (\<forall>m'. fst rs = Inr m' \<longrightarrow> collected m')" by blast
      qed
    qed
  qed
qed

lemma collected_values:
  assumes "collected m"
  shows "sorted_wrt (<) (map (timestamp \<circ> oc_timestamp) (map snd (sort_key fst m)))
    \<and> list_all sound_candle (map snd (sort_key fst m))"
proof -
  have k: "map (timestamp \<circ> oc_timestamp) (map snd (sort_key fst m)) = map fst (sort_key fst m)"
    using assms by (simp add: collected_def list_all_iff case_prod_beta)
  have "distinct (map fst (sort_key fst m))"
    using assms by (simp add: collected_def distinct_map inj_on_def)
  moreover have "sorted (map fst (sort_key fst m))" by simp
  ultimately have "sorted_wrt (<) (map fst (sort_key fst m))"
    by (simp add: strict_sorted_iff)
  moreover have "list_all sound_candle (map snd (sort_key fst m))"
    using assms by (auto simp: collected_def list_all_iff)
  ultimately show ?thesis unfolding k by simp
qed

text \<open>Without overflow checks no step of a page traps.\<close>

lemma next_backoff_total: "\<not> overflow_checks X \<Longrightarrow> next_backoff X c b \<noteq> None"
  by (simp add: next_backoff_def plain_mul_def)

lemma request_loop_total:
  assumes "\<And>ra b. rp_wait rp ra b \<noteq> None" and "\<not> overflow_checks X"
  shows "request_loop X rp net left b k sl \<noteq> None"
proof (induction left arbitrary: b k sl)
  case 0
  show ?case by (cases "net k") (simp_all split: bool.splits)
next
  case (Suc left)
  obtain b1 b2 where b: "next_backoff X (rp_error_cap rp) b = Some b1"
    "next_backoff X (rp_cap rp) b = Some b2"
    using next_backoff_total [OF assms(2)] by blast
  show ?case
  proof (cases "net k")
    case (NoReply e)
    then show ?thesis using b Suc.IH by simp
  next
    case (Reply st ra t body)
    obtain w where "rp_wait rp ra b = Some w" using assms(1) by blast
    then show ?thesis using Reply b Suc.IH by (auto split: bool.splits)
  qed
qed

lemma policies_total:
  assumes "\<not> overflow_checks X"
  shows "rp_wait (birdeye_policy X) ra b \<noteq> None" "rp_wait (gecko_policy X) ra b \<noteq> None"
    "rp_wait (pool_policy X) ra b \<noteq> None"
  using assms by (simp_all add: birdeye_policy_def gecko_policy_def pool_policy_def gecko_wait_def
      plain_mul_def plain_add_def)

lemma send_request_total:
  assumes "\<And>ra b. rp_wait rp ra b \<noteq> None" and "\<not> overflow_checks X"
  shows "\<exists>r s'. send_request X cfg rp net s = Some (r, s')"
  using request_loop_total [OF assms] by (fastforce simp: send_request_def)

lemma gecko_pages_total:
  assumes "\<not> overflow_checks X"
  shows "gecko_pages X W cfg pool iv a b left acc s \<noteq> None"
proof (induction left arbitrary: acc s)
  case (Suc left)
  obtain r s1 where r: "send_request X cfg (gecko_policy X)
      (ow_gecko W (gecko_url cfg pool iv (max_gecko_pages - left))) s = Some (r, s1)"
    using send_request_total [OF policies_total(2) [OF assms] assms] by blast
  then show ?case using Suc.IH
    by (cases "also_then r (parse_geckoterminal_candles (ow_dec_of_f64 W))") (auto simp: Let_def)
qed simp

lemma fetch_page_total:
  assumes "\<not> overflow_checks X"
  shows "fetch_page X W cfg mint iv a b s \<noteq> None"
proof -
  obtain q1 s2 where "send_request X cfg (birdeye_policy X)
      (ow_birdeye W (birdeye_url cfg mint iv a b)) s = Some (q1, s2)"
    using send_request_total [OF policies_total(1) [OF assms] assms] by blast
  then have be: "fetch_page_birdeye X W cfg mint iv a b s \<noteq> None"
    by (simp add: fetch_page_birdeye_def split: option.splits)
  obtain q s1 where "send_request X cfg (pool_policy X) (ow_pools W (pool_url cfg mint))
      (sleep_ms 2000 s) = Some (q, s1)"
    using send_request_total [OF policies_total(3) [OF assms] assms] by blast
  then have rp: "resolve_pool X W cfg mint s \<noteq> None"
    by (simp add: resolve_pool_def split: option.splits)
  then have ge: "fetch_page_geckoterminal X W cfg mint iv a b s \<noteq> None"
    using gecko_pages_total [OF assms]
    by (auto simp: fetch_page_geckoterminal_def split: option.splits sum.splits)
  show ?thesis
    using be ge by (auto simp: fetch_page_def Let_def split: option.splits sum.splits
        provider_kind.splits)
qed

lemma page_advances:
  "0 < pc_page_seconds cfg \<Longrightarrow> start \<le> to \<Longrightarrow> start < page_end_of cfg start to + secs 1"
  by (auto simp: page_end_of_def secs_def nanos_def min_def)

lemma window_loop_total:
  assumes "\<not> overflow_checks X" and "0 < pc_page_seconds cfg"
  shows "window_loop X W cfg mint iv start to m s \<noteq> None"
proof (induction "nat (to - start + 1)" arbitrary: start m s rule: less_induct)
  case less
  show ?case
  proof (cases "start \<le> to")
    case False
    then show ?thesis by (subst window_loop.simps) simp
  next
    case True
    let ?e = "page_end_of cfg start to"
    have lt: "nat (to - (?e + secs 1) + 1) < nat (to - start + 1)"
      using page_advances [OF assms(2) True] True by linarith
    obtain r s1 where p: "fetch_page X W cfg mint iv start ?e s = Some (r, s1)"
      using fetch_page_total [OF assms(1)] by fast
    show ?thesis using less [OF lt] True p
      by (subst window_loop.simps) (auto simp: Let_def split: sum.splits)
  qed
qed

text \<open>What one request sends and sleeps, and where its answer comes from.\<close>

definition answered_by :: "'b reply \<Rightarrow> 'b \<Rightarrow> bool" where
  "answered_by rep v \<longleftrightarrow> (case rep of
      NoReply e \<Rightarrow> False
    | Reply status ra t body \<Rightarrow> 200 \<le> status \<and> status < 300 \<and> body = Inr v)"

lemma request_loop_bounded:
  "request_loop X rp net left b k sl = Some (r, k', sl')
     \<Longrightarrow> k < k' \<and> k' \<le> k + left + 1 \<and> length sl' + k + 1 = length sl + k'
       \<and> (\<forall>v. r = Inr v \<longrightarrow> answered_by (net (k' - 1)) v)"
proof (induction left arbitrary: b k sl)
  case 0
  then show ?case
    by (cases "net k") (auto simp: answered_by_def split: if_splits bool.splits sum.splits)
next
  case (Suc left)
  show ?case
  proof (cases "net k")
    case (NoReply e)
    then obtain b' where "request_loop X rp net left b' (k + 1) (sl @ [b]) = Some (r, k', sl')"
      using Suc.prems by (auto simp: bind_Some_iff)
    from Suc.IH [OF this] show ?thesis by simp
  next
    case (Reply status ra t body)
    consider (again) b' w where
        "request_loop X rp net left b' (k + 1) (sl @ [w]) = Some (r, k', sl')"
      | (stop) "k' = k + 1" "sl' = sl" "\<forall>v. r = Inr v \<longrightarrow> answered_by (net k) v"
      using Suc.prems Reply
      by (auto simp: answered_by_def bind_Some_iff split: if_splits bool.splits sum.splits)
    then show ?thesis
    proof cases
      case again
      from Suc.IH [OF again] show ?thesis by simp
    next
      case stop
      then show ?thesis by simp
    qed
  qed
qed

text \<open>
  A page of GeckoTerminal is taken for the last one when fewer than a hundred of its rows are
  usable: a single garbage row on a full page ends the walk, and older candles are never fetched.
\<close>

definition flat_row :: "nat \<Rightarrow> rat list" where
  "flat_row i = [of_nat (60 * i), 1, 1, 1, 1, 1]"

lemma garbage_row_ends_the_walk:
  assumes "send_request X cfg (gecko_policy X)
      (ow_gecko W (gecko_url cfg pool iv (max_gecko_pages - left))) s = Some (Inr rows, s')"
    and "parse_geckoterminal_candles (ow_dec_of_f64 W) rows = Inr cs" and "length cs < 100"
  shows "gecko_pages X W cfg pool iv a b (Suc left) acc s
    = Some (Inr (acc @ filter (in_window a b) cs), s')"
  using assms by (auto simp: also_then_def Let_def)

lemma garbage_row_shortens_the_page:
  assumes "gecko_rows F (xs @ row # ys) = Inr cs" and "gecko_row F row = Inr None"
  shows "length cs < length (xs @ row # ys)"
proof -
  have len: "gecko_rows F rs = Inr c \<Longrightarrow> length c \<le> length rs" for rs c
    by (induction rs arbitrary: c) (fastforce simp: also_then_Inr split: option.splits)+
  show ?thesis using assms
  proof (induction xs arbitrary: cs)
    case Nil
    then show ?case by (auto simp: also_then_Inr dest: len)
  next
    case (Cons x xs)
    then show ?case by (fastforce simp: also_then_Inr split: option.splits)
  qed
qed

text \<open>A page once cached is returned as it is, whatever the provider would answer.\<close>

lemma cached_page_is_final:
  assumes "fetch_page X W cfg mint iv a b s = Some (Inr cs, s')"
  shows "fetch_page X W' cfg mint iv a b s' = Some (Inr cs, s')"
proof (cases "os_pages s (cache_path cfg mint iv a b)")
  case None
  then show ?thesis using assms
    by (auto simp: fetch_page_def Let_def split: option.splits sum.splits)
next
  case (Some c)
  then show ?thesis using assms by (cases c) (auto simp: fetch_page_def Let_def)
qed

section \<open>Properties\<close>

text \<open>
  What a window of candles contains. Whatever the
  providers answer and however the pages overlap, when the cached pages are sound a fetched window
  has at most one candle for each second, in strictly rising order, with positive prices and a high
  that is not below the low, and the cache stays sound.
\<close>

theorem window_is_sound:
  assumes "fetch_window X W cfg mint iv a b s = Some (Inr cs, s')" and "cache_sound s"
  shows "sorted_wrt (<) (map (timestamp \<circ> oc_timestamp) cs) \<and> list_all sound_candle cs
    \<and> cache_sound s'"
proof -
  obtain m where m: "window_loop X W cfg mint iv a b [] s = Some (Inr m, s')"
    and cs: "cs = map snd (sort_key fst m)"
    using assms(1) by (auto simp: fetch_window_def also_then_Inr split: if_splits)
  have "cache_sound s' \<and> collected m"
    using window_loop_sound [OF m] assms(2) by (simp add: collected_def)
  then show ?thesis using collected_values [of m] by (simp add: cs)
qed

definition sample_ohlcv_world :: ohlcv_world where
  "sample_ohlcv_world = \<lparr>ow_birdeye = (\<lambda>u k. if k = 0 then Reply 503 None [] (Inl [])
      else Reply 200 None [] (Inr \<lparr>bb_success = True, bb_message = None,
        bb_items = [(120, 2, 3, 1, 2, 9), (60, 1, 2, 1, 2, 9), (120, 2, 4, 1, 3, 9),
          (180, 1, 0, 1, 1, 1)]\<rparr>)),
     ow_gecko = (\<lambda>u k. NoReply []), ow_pools = (\<lambda>u k. NoReply []), ow_dec_of_f64 = Inr\<rparr>"

definition empty_ohlcv :: ohlcv_state where
  "empty_ohlcv = \<lparr>os_pages = Map.empty, os_pool_files = Map.empty, os_pool_cache = Map.empty,
     os_requests = 0, os_slept = []\<rparr>"

lemma empty_ohlcv_sound: "cache_sound empty_ohlcv"
  by (simp add: cache_sound_def empty_ohlcv_def)

abbreviation sample_birdeye :: provider_config where
  "sample_birdeye \<equiv> birdeye_config ''u'' (Some ''k'')"

lemma sample_page:
  "\<exists>s'. fetch_page exact_ext sample_ohlcv_world sample_birdeye ''m'' M1 0 (secs 300) empty_ohlcv
     = Some (Inr [candle_at (secs 120) 2 3 1 2 9, candle_at (secs 60) 1 2 1 2 9,
         candle_at (secs 120) 2 4 1 3 9], s') \<and> os_requests s' = 2"
proof -
  have b: "next_backoff exact_ext 30000 250 = Some 500"
    by (simp add: next_backoff_def plain_mul_def)
  have "request_loop exact_ext (birdeye_policy exact_ext) (ow_birdeye sample_ohlcv_world u) 5 250 0 []
      = Some (Inr \<lparr>bb_success = True, bb_message = None, bb_items = [(120, 2, 3, 1, 2, 9),
          (60, 1, 2, 1, 2, 9), (120, 2, 4, 1, 3, 9), (180, 1, 0, 1, 1, 1)]\<rparr>, 2, [250])" for u
    apply (subst request_loop.simps)
    apply (simp add: sample_ohlcv_world_def birdeye_policy_def b eval_nat_numeral(2,3)
        del: request_loop.simps)
    apply (subst request_loop.simps)
    apply (simp del: request_loop.simps)
    done
  then show ?thesis
    by (simp add: fetch_page_def fetch_page_birdeye_def send_request_def birdeye_config_def
        empty_ohlcv_def also_then_def from_timestamp_def plausible_def Let_def)
qed

lemma sample_window:
  "\<exists>s'. fetch_window exact_ext sample_ohlcv_world sample_birdeye ''m'' M1 0 (secs 300) empty_ohlcv
   = Some (Inr [candle_at (secs 60) 1 2 1 2 9, candle_at (secs 120) 2 4 1 3 9], s')
   \<and> os_requests s' = 2"
proof -
  have e: "page_end_of sample_birdeye 0 (secs 300) = secs 300"
    by (simp add: page_end_of_def birdeye_config_def secs_def nanos_def)
  have z: "\<not> secs 300 < 0" "0 \<le> secs 300" "\<not> secs 300 + secs 1 \<le> secs 300" "\<not> secs 1 \<le> 0"
    by (simp_all add: secs_def nanos_def)
  obtain s' where p: "fetch_page exact_ext sample_ohlcv_world sample_birdeye ''m'' M1 0 (secs 300)
      empty_ohlcv = Some (Inr [candle_at (secs 120) 2 3 1 2 9, candle_at (secs 60) 1 2 1 2 9,
        candle_at (secs 120) 2 4 1 3 9], s')" and k: "os_requests s' = 2"
    using sample_page by blast
  have m: "fold insert_candle [candle_at (secs 120) 2 3 1 2 9, candle_at (secs 60) 1 2 1 2 9,
      candle_at (secs 120) 2 4 1 3 9] []
    = [(120, candle_at (secs 120) 2 4 1 3 9), (60, candle_at (secs 60) 1 2 1 2 9)]"
    by (simp add: insert_candle_def candle_at_def timestamp_def secs_def nanos_def)
  have "window_loop exact_ext sample_ohlcv_world sample_birdeye ''m'' M1 0 (secs 300) [] empty_ohlcv
      = Some (Inr [(120, candle_at (secs 120) 2 4 1 3 9), (60, candle_at (secs 60) 1 2 1 2 9)], s')"
    by (subst window_loop.simps, simp only: e p z Let_def if_False not_not option.case prod.case
        sum.case m not_True_eq_False simp_thms, subst window_loop.simps, simp add: z)
  then show ?thesis by (simp add: fetch_window_def z k also_then_def)
qed

theorem window_is_sound_witness:
  "sorted_wrt (<) (map (timestamp \<circ> oc_timestamp)
     [candle_at (secs 60) 1 2 1 2 9, candle_at (secs 120) 2 4 1 3 9])"
  using sample_window window_is_sound [OF _ empty_ohlcv_sound] by blast

text \<open>
  Fetching a window ends. Whatever the providers answer and
  whatever is cached, with a positive page length and operators that do not trap a fetch returns
  candles or an error: each request is retried at most the configured number of times, a page of
  GeckoTerminal walks at most fifty pages, and every page of the window moves it forward.
\<close>

theorem fetching_ends:
  assumes "\<not> overflow_checks X" and "0 < pc_page_seconds cfg"
  shows "\<exists>r s'. fetch_window X W cfg mint iv a b s = Some (r, s')"
  using window_loop_total [OF assms, of W mint iv a b "[]" s]
  by (auto simp: fetch_window_def)

theorem fetching_ends_witness:
  "\<exists>r s'. fetch_window (exact_ext\<lparr>overflow_checks := False\<rparr>) sample_ohlcv_world geckoterminal_config
     ''m'' D1 0 (secs 9000000) empty_ohlcv = Some (r, s')"
  by (rule fetching_ends) (simp_all add: geckoterminal_config_def)

text \<open>An environment gives a configuration of positive pages; Birdeye needs its key.\<close>

lemma provider_from_env_pages:
  "provider_from_env env = Inr cfg \<Longrightarrow> 0 < pc_page_seconds cfg
     \<and> (pc_kind cfg = Birdeye \<longrightarrow> pc_api_key cfg \<noteq> None)"
  by (auto simp: provider_from_env_def Let_def split: if_splits)

end
