(* ===== verification/Historical_Wallet.thy ===== *)
theory Historical_Wallet
  imports Historical_Ohlcv
begin

text \<open>
  \<open>src/historical/wallet.rs\<close>: the statistics of a wallet at a time in the past, from the signatures
  of its transactions. The node is an argument, one answer for every call; the two orders in which
  the code iterates its hash maps are arguments too. The trade cache is a map from file names to
  what their JSON parses to.
\<close>

section \<open>Trades\<close>

record wallet_trade =
  wt_wallet :: string
  wt_mint :: string
  wt_side :: side
  wt_notional_usd :: decimal
  wt_block_time :: datetime
  wt_signature :: string
  wt_slot :: "u64 option"

record historical_wallet_stats =
  hw_wallet :: string
  hw_trades :: u32
  hw_realized_pnl_usd :: decimal
  hw_win_rate :: decimal
  hw_avg_return_pct :: decimal
  hw_median_return_pct :: decimal
  hw_max_drawdown_pct :: decimal
  hw_recent_return_pct :: decimal
  hw_concentration_pct :: decimal
  hw_scam_exposure_pct :: decimal
  hw_score :: decimal
  hw_tier :: wallet_tier
  hw_updated_at :: datetime
  hw_avg_win_pct :: "decimal option"
  hw_avg_loss_pct :: "decimal option"
  hw_filtered_future_trades :: u32

definition to_wallet_stats :: "historical_wallet_stats \<Rightarrow> wallet_stats" where
  "to_wallet_stats h = \<lparr>w_wallet = hw_wallet h, w_entity_id = None,
     w_realized_pnl_usd = hw_realized_pnl_usd h, w_win_rate = hw_win_rate h,
     w_avg_return_pct = hw_avg_return_pct h, w_median_return_pct = hw_median_return_pct h,
     w_max_drawdown_pct = hw_max_drawdown_pct h, w_trades = hw_trades h,
     w_recent_return_pct = hw_recent_return_pct h, w_concentration_pct = hw_concentration_pct h,
     w_scam_exposure_pct = hw_scam_exposure_pct h, w_score = hw_score h, w_tier = hw_tier h,
     w_updated_at = hw_updated_at h, w_avg_win_pct = hw_avg_win_pct h,
     w_avg_loss_pct = hw_avg_loss_pct h\<rparr>"

section \<open>Fetching\<close>

datatype reconstruction_error = RpcProblem rpc_failure | InvalidPayload string

text \<open>One page of signatures: the trades so far and the last signature.\<close>

definition trade_of_item ::
    "'v json \<Rightarrow> string \<Rightarrow> string \<Rightarrow> 'v \<Rightarrow> wallet_trade list" where
  "trade_of_item J wallet sig item =
    (if jv_object J (jv_index J item ''err'') then []
     else case Option.bind (jv_i64 J (jv_index J item ''blockTime'')) from_timestamp of
       None \<Rightarrow> []
     | Some t \<Rightarrow> [\<lparr>wt_wallet = wallet, wt_mint = [], wt_side = Buy, wt_notional_usd = 0,
         wt_block_time = t, wt_signature = sig, wt_slot = jv_u64 J (jv_index J item ''slot'')\<rparr>])"

fun signature_items ::
    "'v json \<Rightarrow> string \<Rightarrow> 'v list \<Rightarrow> wallet_trade list \<times> string option
     \<Rightarrow> reconstruction_error + wallet_trade list \<times> string option" where
  "signature_items J wallet [] acc = Inr acc"
| "signature_items J wallet (item # items) acc = (case jv_str J (jv_index J item ''signature'') of
      None \<Rightarrow> Inl (InvalidPayload ''missing signature'')
    | Some sig \<Rightarrow> signature_items J wallet items
        (fst acc @ trade_of_item J wallet sig item, Some sig))"

definition signature_page_limit :: nat where "signature_page_limit = 1000"

text \<open>
  \<open>call n before\<close> is the answer of the node to the n-th call. The walk is not bounded by the code:
  None is a walk that does not return.
\<close>

partial_function (option) fetch_trades_loop ::
    "'v json \<Rightarrow> (nat \<Rightarrow> string option \<Rightarrow> rpc_failure + 'v) \<Rightarrow> string \<Rightarrow> nat \<Rightarrow> string option \<Rightarrow> nat
     \<Rightarrow> wallet_trade list \<Rightarrow> (reconstruction_error + wallet_trade list) option" where
  "fetch_trades_loop J call wallet max_signatures before n all = (case call n before of
      Inl e \<Rightarrow> Some (Inl (RpcProblem e))
    | Inr v \<Rightarrow> (case jv_array J v of
        None \<Rightarrow> Some (Inl (InvalidPayload ''getSignaturesForAddress did not return array''))
      | Some items \<Rightarrow>
          if items = [] then Some (Inr all)
          else (case signature_items J wallet items (all, None) of
            Inl e \<Rightarrow> Some (Inl e)
          | Inr (all', last_sig) \<Rightarrow>
              if length all' \<ge> max_signatures \<or> last_sig = None then Some (Inr all')
              else if length items < signature_page_limit then Some (Inr all')
              else fetch_trades_loop J call wallet max_signatures last_sig (n + 1) all')))"

definition fetch_trades ::
    "'v json \<Rightarrow> (nat \<Rightarrow> string option \<Rightarrow> rpc_failure + 'v) \<Rightarrow> string \<Rightarrow> nat
     \<Rightarrow> (reconstruction_error + wallet_trade list) option" where
  "fetch_trades J call wallet max_signatures =
     fetch_trades_loop J call wallet max_signatures None 0 []"

type_synonym trade_cache = "string \<Rightarrow> (string + wallet_trade list) option"

definition sanitize :: "string \<Rightarrow> string" where
  "sanitize s = map (\<lambda>c. if is_ascii_alphanumeric c then c else CHR ''_'') s"

definition trade_cache_path :: "string \<Rightarrow> string" where
  "trade_cache_path wallet = ''wallet_'' @ sanitize wallet @ ''.json''"

definition known_by :: "datetime \<Rightarrow> wallet_trade list \<Rightarrow> wallet_trade list" where
  "known_by as_of ts = sort_key wt_block_time (filter (\<lambda>t. wt_block_time t \<le> as_of) ts)"

definition fetch_wallet_trades ::
    "'v json \<Rightarrow> (nat \<Rightarrow> string option \<Rightarrow> rpc_failure + 'v) \<Rightarrow> string \<Rightarrow> datetime \<Rightarrow> nat \<Rightarrow> trade_cache
     \<Rightarrow> ((reconstruction_error + wallet_trade list) \<times> trade_cache) option" where
  "fetch_wallet_trades J call wallet as_of max_signatures cache =
    (let path = trade_cache_path wallet in
     case cache path of
       Some (Inl e) \<Rightarrow> Some (Inl (InvalidPayload e), cache)
     | Some (Inr ts) \<Rightarrow> Some (Inr (known_by as_of ts), cache)
     | None \<Rightarrow> map_option (\<lambda>r. case r of
           Inl e \<Rightarrow> (Inl e, cache)
         | Inr raw \<Rightarrow> (Inr (known_by as_of raw), cache(path \<mapsto> Inr raw)))
         (fetch_trades J call wallet max_signatures))"

section \<open>Reconstruction\<close>

type_synonym mint_entry = "side \<times> decimal \<times> datetime"

definition push_trade ::
    "wallet_trade \<Rightarrow> (string \<times> mint_entry list) list \<Rightarrow> (string \<times> mint_entry list) list" where
  "push_trade t m = AList.update (wt_mint t)
     ((case map_of m (wt_mint t) of None \<Rightarrow> [] | Some es \<Rightarrow> es)
        @ [(wt_side t, wt_notional_usd t, wt_block_time t)]) m"

definition per_mint :: "wallet_trade list \<Rightarrow> (string \<times> mint_entry list) list" where
  "per_mint ts = fold push_trade ts []"

text \<open>Cost, proceeds and the notional of all mints after the entries of one mint.\<close>

fun mint_flow ::
    "ext \<Rightarrow> mint_entry list \<Rightarrow> decimal \<times> decimal \<times> decimal \<Rightarrow> (decimal \<times> decimal \<times> decimal) option" where
  "mint_flow X [] acc = Some acc"
| "mint_flow X ((side, notional, t) # es) (cost, proceeds, tot) = do {
     tot' \<leftarrow> dec_add X tot notional;
     if side = Buy
     then do { c \<leftarrow> dec_add X cost notional; mint_flow X es (c, proceeds, tot') }
     else do { p \<leftarrow> dec_add X proceeds notional; mint_flow X es (cost, p, tot') }
   }"

record mint_totals =
  mt_notional :: decimal
  mt_realized :: decimal
  mt_largest :: decimal
  mt_returns :: "decimal list"
  mt_pnl :: "(string \<times> decimal) list"

definition mint_step ::
    "ext \<Rightarrow> string \<times> mint_entry list \<Rightarrow> mint_totals \<Rightarrow> mint_totals option" where
  "mint_step X me a = do {
     (cost, proceeds, tot) \<leftarrow> mint_flow X (snd me) (0, 0, mt_notional a);
     pnl \<leftarrow> dec_sub X proceeds cost;
     realized \<leftarrow> dec_add X (mt_realized a) pnl;
     both \<leftarrow> dec_add X cost proceeds;
     returns \<leftarrow> (if cost > 0 then do {
         q \<leftarrow> dec_div X pnl cost;
         r \<leftarrow> dec_mul X q 100;
         Some (mt_returns a @ [r]) }
       else Some (mt_returns a));
     Some \<lparr>mt_notional = tot, mt_realized = realized,
       mt_largest = (if both > mt_largest a then both else mt_largest a), mt_returns = returns,
       mt_pnl = AList.update (fst me) pnl (mt_pnl a)\<rparr>
   }"

fun mint_steps ::
    "ext \<Rightarrow> (string \<times> mint_entry list) list \<Rightarrow> mint_totals \<Rightarrow> mint_totals option" where
  "mint_steps X [] a = Some a"
| "mint_steps X (m # ms) a = Option.bind (mint_step X m a) (mint_steps X ms)"

definition no_totals :: mint_totals where
  "no_totals = \<lparr>mt_notional = 0, mt_realized = 0, mt_largest = 0, mt_returns = [], mt_pnl = []\<rparr>"

definition median_of :: "ext \<Rightarrow> decimal list \<Rightarrow> decimal option" where
  "median_of X values =
    (if values = [] then Some 0
     else let vs = sort values; mid = length vs div 2 in
       if length vs mod 2 = 1 then Some (vs ! mid)
       else do { a \<leftarrow> dec_add X (vs ! (mid - 1)) (vs ! mid); dec_div X a 2 })"

text \<open>The largest fall of the accumulated profit below its peak, over the mints in some order.\<close>

fun pnl_drawdown :: "ext \<Rightarrow> decimal list \<Rightarrow> decimal \<Rightarrow> decimal \<Rightarrow> decimal \<Rightarrow> decimal option" where
  "pnl_drawdown X [] cumulative peak worst = Some worst"
| "pnl_drawdown X (p # ps) cumulative peak worst = do {
     c \<leftarrow> dec_add X cumulative p;
     let peak' = (if c > peak then c else peak);
     dd \<leftarrow> dec_sub X peak' c;
     pnl_drawdown X ps c peak' (if dd > worst then dd else worst)
   }"

definition share_pct :: "ext \<Rightarrow> decimal \<Rightarrow> decimal \<Rightarrow> decimal option" where
  "share_pct X part whole =
    (if whole > 0 then do { q \<leftarrow> dec_div X part whole; p \<leftarrow> dec_mul X q 100; Some (min p 100) }
     else Some 0)"

definition mean_or_zero :: "ext \<Rightarrow> decimal list \<Rightarrow> decimal option" where
  "mean_or_zero X xs =
    (if xs = [] then Some 0
     else do { s \<leftarrow> dec_sum X xs; dec_div X s (dec_of_word (of_nat (length xs) :: u32)) })"

definition win_share :: "ext \<Rightarrow> decimal list \<Rightarrow> decimal option" where
  "win_share X rs =
    (if rs = [] then Some 0
     else dec_div X (dec_of_word (of_nat (length (filter (\<lambda>r. r > 0) rs)) :: u32))
            (dec_of_word (of_nat (length rs) :: u32)))"

definition unknown_wallet :: "string \<Rightarrow> datetime \<Rightarrow> u32 \<Rightarrow> historical_wallet_stats" where
  "unknown_wallet wallet as_of filtered = \<lparr>hw_wallet = wallet, hw_trades = 0,
     hw_realized_pnl_usd = 0, hw_win_rate = 0, hw_avg_return_pct = 0, hw_median_return_pct = 0,
     hw_max_drawdown_pct = 0, hw_recent_return_pct = 0, hw_concentration_pct = 0,
     hw_scam_exposure_pct = 0, hw_score = 0, hw_tier = Candidate, hw_updated_at = as_of,
     hw_avg_win_pct = None, hw_avg_loss_pct = None, hw_filtered_future_trades = filtered\<rparr>"

text \<open>
  The statistics of the trades up to a time: \<open>o1\<close> orders the trades of each mint, \<open>o2\<close> the profit of
  each mint.
\<close>

definition eligible_stats ::
    "ext \<Rightarrow> ((string \<times> mint_entry list) list \<Rightarrow> (string \<times> mint_entry list) list)
     \<Rightarrow> ((string \<times> decimal) list \<Rightarrow> (string \<times> decimal) list) \<Rightarrow> wallet_trade list \<Rightarrow> datetime \<Rightarrow> u32
     \<Rightarrow> historical_wallet_stats option" where
  "eligible_stats X o1 o2 eligible as_of filtered = do {
     a \<leftarrow> mint_steps X (o1 (per_mint eligible)) no_totals;
     win_rate \<leftarrow> win_share X (mt_returns a);
     avg \<leftarrow> mean_or_zero X (mt_returns a);
     med \<leftarrow> median_of X (mt_returns a);
     dd \<leftarrow> pnl_drawdown X (map snd (o2 (mt_pnl a))) 0 0 0;
     concentration \<leftarrow> share_pct X (mt_largest a) (mt_notional a);
     recent_window \<leftarrow> dec_sum X (map wt_notional_usd (take 50 (rev eligible)));
     recent \<leftarrow> share_pct X recent_window (mt_notional a);
     let stats = \<lparr>hw_wallet = wt_wallet (hd eligible), hw_trades = of_nat (length eligible),
       hw_realized_pnl_usd = mt_realized a, hw_win_rate = win_rate, hw_avg_return_pct = avg,
       hw_median_return_pct = med, hw_max_drawdown_pct = dd, hw_recent_return_pct = recent,
       hw_concentration_pct = concentration, hw_scam_exposure_pct = 0, hw_score = 0,
       hw_tier = Candidate, hw_updated_at = as_of, hw_avg_win_pct = None,
       hw_avg_loss_pct = None, hw_filtered_future_trades = filtered\<rparr>;
     ws \<leftarrow> score_wallet X (to_wallet_stats stats) default_thresholds;
     Some (stats\<lparr>hw_score := w_score ws, hw_tier := w_tier ws\<rparr>)
   }"

definition reconstruct_at ::
    "ext \<Rightarrow> ((string \<times> mint_entry list) list \<Rightarrow> (string \<times> mint_entry list) list)
     \<Rightarrow> ((string \<times> decimal) list \<Rightarrow> (string \<times> decimal) list) \<Rightarrow> wallet_trade list \<Rightarrow> datetime
     \<Rightarrow> historical_wallet_stats option" where
  "reconstruct_at X o1 o2 trades as_of =
    (let eligible = filter (\<lambda>t. wt_block_time t \<le> as_of) trades;
         filtered = (of_nat (length trades - length eligible) :: u32) in
     if eligible = []
     then Some (unknown_wallet (case trades of [] \<Rightarrow> [] | t # _ \<Rightarrow> wt_wallet t) as_of filtered)
     else eligible_stats X o1 o2 eligible as_of filtered)"

section \<open>Facts\<close>

text \<open>What the fetch produces: a purchase of nothing for every transaction.\<close>

definition blank_trade :: "string \<Rightarrow> wallet_trade \<Rightarrow> bool" where
  "blank_trade wallet t \<longleftrightarrow> wt_wallet t = wallet \<and> wt_mint t = [] \<and> wt_side t = Buy
     \<and> wt_notional_usd t = 0"

lemma trade_of_item_blank: "list_all (blank_trade wallet) (trade_of_item J wallet sig item)"
  by (auto simp: trade_of_item_def blank_trade_def split: option.split)

lemma signature_items_blank:
  "signature_items J wallet items acc = Inr r \<Longrightarrow> list_all (blank_trade wallet) (fst acc)
     \<Longrightarrow> list_all (blank_trade wallet) (fst r)"
  by (induction items arbitrary: acc) (auto simp: trade_of_item_blank split: option.splits)

lemma fetch_trades_loop_blank:
  assumes "fetch_trades_loop J call wallet mx before n all = Some r"
  shows "list_all (blank_trade wallet) all
    \<longrightarrow> (\<forall>ts. r = Inr ts \<longrightarrow> list_all (blank_trade wallet) ts)"
proof (rule fetch_trades_loop.raw_induct [where P = "\<lambda>J call wallet mx before n all r.
    list_all (blank_trade wallet) all
      \<longrightarrow> (\<forall>ts. r = Inr ts \<longrightarrow> list_all (blank_trade wallet) ts)", OF _ assms])
  fix loop and J :: "'a json" and call wallet mx before n all r
  assume IH: "\<And>J call wallet mx before n all r. loop J call wallet mx before n all = Some r \<Longrightarrow>
      list_all (blank_trade wallet) all \<longrightarrow> (\<forall>ts. r = Inr ts \<longrightarrow> list_all (blank_trade wallet) ts)"
    and run: "(case call n before of
      Inl e \<Rightarrow> Some (Inl (RpcProblem e))
    | Inr v \<Rightarrow> (case jv_array J v of
        None \<Rightarrow> Some (Inl (InvalidPayload ''getSignaturesForAddress did not return array''))
      | Some items \<Rightarrow>
          if items = [] then Some (Inr all)
          else (case signature_items J wallet items (all, None) of
            Inl e \<Rightarrow> Some (Inl e)
          | Inr (all', last_sig) \<Rightarrow>
              if length all' \<ge> mx \<or> last_sig = None then Some (Inr all')
              else if length items < signature_page_limit then Some (Inr all')
              else loop J call wallet mx last_sig (n + 1) all'))) = Some r"
  show "list_all (blank_trade wallet) all
    \<longrightarrow> (\<forall>ts. r = Inr ts \<longrightarrow> list_all (blank_trade wallet) ts)"
    using run signature_items_blank [of J wallet _ "(all, None)"]
    by (auto split: sum.splits option.splits if_splits dest!: IH)
qed

lemma fetch_trades_blank:
  "fetch_trades J call wallet mx = Some (Inr ts) \<Longrightarrow> list_all (blank_trade wallet) ts"
  using fetch_trades_loop_blank by (fastforce simp: fetch_trades_def)

lemma known_by_blank:
  "list_all (blank_trade wallet) ts \<Longrightarrow> list_all (blank_trade wallet) (known_by as_of ts)"
  by (auto simp: known_by_def list_all_iff)

lemma per_mint_blank:
  assumes "list_all (blank_trade wallet) ts" and "ts \<noteq> []"
  shows "\<exists>es. per_mint ts = [([], es)] \<and> list_all (\<lambda>e. fst e = Buy \<and> fst (snd e) = 0) es"
proof -
  have rest: "\<exists>es. fold push_trade ts [([], es0)] = [([], es)]
      \<and> list_all (\<lambda>e. fst e = Buy \<and> fst (snd e) = 0) es"
    if "list_all (blank_trade wallet) ts" "list_all (\<lambda>e. fst e = Buy \<and> fst (snd e) = 0) es0"
    for ts es0
    using that
  proof (induction ts arbitrary: es0)
    case (Cons t ts)
    then show ?case by (simp add: push_trade_def blank_trade_def)
  qed simp
  obtain t ts' where "ts = t # ts'" using assms(2) by (cases ts) auto
  then show ?thesis using assms(1) rest [of ts' "[(Buy, 0, wt_block_time t)]"]
    by (simp add: per_mint_def push_trade_def blank_trade_def)
qed

text \<open>A hash map is iterated in some order of its entries.\<close>

definition reordering :: "('a list \<Rightarrow> 'a list) \<Rightarrow> bool" where
  "reordering f \<longleftrightarrow> (\<forall>xs. set (f xs) = set xs \<and> length (f xs) = length xs)"

lemma reordering_one: "reordering f \<Longrightarrow> f [x] = [x]"
  unfolding reordering_def
  by (cases "f [x]") (auto dest: spec [of _ "[x]"])

definition blank_stats :: "historical_wallet_stats \<Rightarrow> bool" where
  "blank_stats h \<longleftrightarrow> hw_score h = 0 \<and> hw_realized_pnl_usd h = 0 \<and> hw_win_rate h = 0
    \<and> hw_avg_return_pct h = 0 \<and> hw_recent_return_pct h = 0 \<and> hw_max_drawdown_pct h = 0"

context decimal_arith begin

lemma zero_sub: "dec_sub X 0 0 = Some r \<Longrightarrow> r = 0"
  using sub_nonneg [of 0 0 r] sub_nonpos [of 0 0 r] by simp

lemma zero_mul: "dec_mul X a b = Some r \<Longrightarrow> a * b = 0 \<Longrightarrow> r = 0"
  using mul_mono [of a b r 0 0 0] mul_mono [of 0 0 0 a b r] mul_zero by fastforce

lemma flow_blank:
  "list_all (\<lambda>e. fst e = Buy \<and> fst (snd e) = 0) es \<Longrightarrow> mint_flow X es (0, 0, 0) = Some (0, 0, 0)"
  by (induction es) (auto simp: add_zero)

lemma step_blank:
  assumes "list_all (\<lambda>e. fst e = Buy \<and> fst (snd e) = 0) es"
    and "mint_steps X [([], es)] no_totals = Some a"
  shows "a = no_totals\<lparr>mt_pnl := [([], 0)]\<rparr>"
  using assms(2) zero_sub
  by (auto simp: mint_step_def flow_blank [OF assms(1)] no_totals_def add_zero bind_Some_iff)

lemma score_blank:
  assumes "score_wallet X s t = Some s'" and "w_win_rate s = 0" and "w_avg_return_pct s = 0"
    and "w_median_return_pct s = 0" and "w_recent_return_pct s = 0"
    and "w_concentration_pct s = 0" and "w_max_drawdown_pct s = 0"
    and "w_scam_exposure_pct s = 0" and "w_realized_pnl_usd s = 0"
  shows "w_score s' = 0"
proof -
  have z: "dec_mul X 0 b = Some r \<Longrightarrow> r = 0" for b r using zero_mul by simp
  show ?thesis using assms
    by (auto simp: score_wallet_def wallet_score_value_def bind_Some_iff Let_def add_zero
        dest!: z zero_sub)
qed

lemma eligible_blank:
  assumes b: "list_all (blank_trade wallet) el" "el \<noteq> []"
    and o1: "reordering o1" and o2: "reordering o2"
    and r: "eligible_stats X o1 o2 el as_of n = Some h"
  shows "blank_stats h"
proof -
  obtain es where es: "per_mint el = [([], es)]" "list_all (\<lambda>e. fst e = Buy \<and> fst (snd e) = 0) es"
    using per_mint_blank [OF b] by blast
  have one: "o1 (per_mint el) = [([], es)]" using reordering_one [OF o1] es(1) by simp
  obtain a where a: "mint_steps X [([], es)] no_totals = Some a"
    using r by (auto simp: eligible_stats_def one bind_Some_iff)
  have t: "a = no_totals\<lparr>mt_pnl := [([], 0)]\<rparr>" by (rule step_blank [OF es(2) a])
  have two: "o2 [([], 0)] = [([], 0)]" using reordering_one [OF o2] by simp
  obtain d where d: "pnl_drawdown X [0] 0 0 0 = Some d"
    using r a by (auto simp: eligible_stats_def one two t no_totals_def bind_Some_iff
        simp del: pnl_drawdown.simps)
  then have "d = 0" using zero_sub by (auto simp: add_zero bind_Some_iff Let_def split: if_splits)
  with d have dd: "pnl_drawdown X [0] 0 0 0 = Some 0" by simp
  show ?thesis
    using r a dd
    by (auto simp: eligible_stats_def one t two no_totals_def win_share_def blank_stats_def
        mean_or_zero_def median_of_def share_pct_def bind_Some_iff to_wallet_stats_def
        simp del: pnl_drawdown.simps dest: score_blank)
qed

lemma reconstruct_blank:
  assumes b: "list_all (blank_trade wallet) ts" and o: "reordering o1" "reordering o2"
    and r: "reconstruct_at X o1 o2 ts as_of = Some h"
  shows "blank_stats h"
proof (cases "filter (\<lambda>t. wt_block_time t \<le> as_of) ts = []")
  case True
  then show ?thesis using r
    by (auto simp: reconstruct_at_def unknown_wallet_def Let_def blank_stats_def)
next
  case False
  have "list_all (blank_trade wallet) (filter (\<lambda>t. wt_block_time t \<le> as_of) ts)"
    using b by (auto simp: list_all_iff)
  from eligible_blank [OF this False o] r False show ?thesis
    by (auto simp: reconstruct_at_def Let_def)
qed

end

lemma eligible_stats_counter:
  "map_option (hw_filtered_future_trades_update (\<lambda>_. 0)) (eligible_stats X o1 o2 el as_of n)
     = eligible_stats X o1 o2 el as_of 0"
  by (simp add: eligible_stats_def map_option_bind Let_def to_wallet_stats_def o_def
      cong: option.case_cong)

section \<open>Properties\<close>

text \<open>
  What the statistics of a fetched wallet say.
  The fetch books every transaction as a purchase of nothing, so whatever the node answers and
  whatever the wallet traded, the statistics reconstructed from a fresh fetch have a score, a profit,
  a win rate, an average return, a recent return and a drawdown of zero.
\<close>

theorem fetched_wallets_show_nothing:
  assumes "decimal_arith X" and "reordering o1" and "reordering o2"
    and "cache (trade_cache_path wallet) = None"
    and "fetch_wallet_trades J call wallet as_of mx cache = Some (Inr ts, cache')"
    and "reconstruct_at X o1 o2 ts as_of = Some h"
  shows "hw_score h = 0 \<and> hw_realized_pnl_usd h = 0 \<and> hw_win_rate h = 0
    \<and> hw_avg_return_pct h = 0 \<and> hw_recent_return_pct h = 0 \<and> hw_max_drawdown_pct h = 0"
proof -
  obtain raw where "fetch_trades J call wallet mx = Some (Inr raw)" "ts = known_by as_of raw"
    using assms(4,5)
    by (cases "fetch_trades J call wallet mx")
      (auto simp: fetch_wallet_trades_def Let_def split: sum.splits)
  then have "list_all (blank_trade wallet) ts"
    using fetch_trades_blank known_by_blank by fast
  from decimal_arith.reconstruct_blank [OF assms(1) this assms(2,3,6)] show ?thesis by (simp add: blank_stats_def)
qed

definition sample_signatures :: jval where
  "sample_signatures = JList
     [JDict [(''signature'', JText ''s''), (''blockTime'', JNum 60), (''slot'', JNum 7)]]"

definition sample_trade :: "string \<Rightarrow> wallet_trade" where
  "sample_trade mint = \<lparr>wt_wallet = ''w'', wt_mint = mint, wt_side = Buy, wt_notional_usd = 0,
     wt_block_time = secs 60, wt_signature = ''s'', wt_slot = Some 7\<rparr>"

lemma sample_fetched:
  "fetch_trades jval_ops (\<lambda>_ _. Inr sample_signatures) ''w'' 10 = Some (Inr [sample_trade []])"
  unfolding fetch_trades_def
  by (subst fetch_trades_loop.simps)
    (simp add: sample_signatures_def jval_ops_def trade_of_item_def from_timestamp_def
      sample_trade_def signature_page_limit_def u64_of_int_def)

lemma sample_fetch:
  "fetch_wallet_trades jval_ops (\<lambda>_ _. Inr sample_signatures) ''w'' (secs 100) 10 Map.empty
     = Some (Inr [sample_trade []],
         [trade_cache_path ''w'' \<mapsto> Inr [sample_trade []]])"
  using sample_fetched
  by (simp add: fetch_wallet_trades_def known_by_def sample_trade_def secs_def nanos_def Let_def)

lemma sample_reconstruct:
  "\<exists>h. reconstruct_at exact_ext (\<lambda>m. m) (\<lambda>m. m) [sample_trade []] (secs 100) = Some h"
  by (simp add: reconstruct_at_def eligible_stats_def sample_trade_def per_mint_def push_trade_def
      mint_step_def no_totals_def win_share_def mean_or_zero_def median_of_def share_pct_def
      dec_sum_def score_wallet_def wallet_score_value_def to_wallet_stats_def
      default_thresholds_def fit_def dec_max_def secs_def nanos_def Let_def dec_of_word_def)

theorem fetched_wallets_show_nothing_witness:
  "\<exists>h. reconstruct_at exact_ext (\<lambda>m. m) (\<lambda>m. m) [sample_trade []] (secs 100) = Some h
    \<and> hw_score h = 0"
proof -
  obtain h where h: "reconstruct_at exact_ext (\<lambda>m. m) (\<lambda>m. m) [sample_trade []] (secs 100) = Some h"
    using sample_reconstruct by blast
  have "reordering (\<lambda>m :: (string \<times> mint_entry list) list. m)"
    "reordering (\<lambda>m :: (string \<times> decimal) list. m)" by (simp_all add: reordering_def)
  from fetched_wallets_show_nothing [OF exact.decimal_arith_axioms this _ sample_fetch h] h
  show ?thesis by simp
qed

text \<open>
  The reconstruction is point-in-time. Trades
  after the requested time change nothing but their own count: two lists with the same trades up to
  that time, in the same order, give the same statistics, in particular the same score and tier.
\<close>

theorem wallet_ignores_the_future:
  assumes "filter (\<lambda>t. wt_block_time t \<le> as_of) ts = filter (\<lambda>t. wt_block_time t \<le> as_of) ts'"
    and "filter (\<lambda>t. wt_block_time t \<le> as_of) ts \<noteq> []"
  shows "map_option (hw_filtered_future_trades_update (\<lambda>_. 0)) (reconstruct_at X o1 o2 ts as_of)
    = map_option (hw_filtered_future_trades_update (\<lambda>_. 0)) (reconstruct_at X o1 o2 ts' as_of)"
  using assms
  by (simp add: reconstruct_at_def Let_def eligible_stats_counter)

theorem wallet_ignores_the_future_witness:
  "map_option (hw_filtered_future_trades_update (\<lambda>_. 0))
      (reconstruct_at exact_ext (\<lambda>m. m) (\<lambda>m. m)
        [sample_trade [], (sample_trade ''m'')\<lparr>wt_block_time := secs 200\<rparr>] (secs 100))
    = map_option (hw_filtered_future_trades_update (\<lambda>_. 0))
      (reconstruct_at exact_ext (\<lambda>m. m) (\<lambda>m. m) [sample_trade []] (secs 100))"
  by (rule wallet_ignores_the_future) (simp_all add: sample_trade_def secs_def nanos_def)

text \<open>The drawdown follows the order in which a hash map yields the mints.\<close>

lemma drawdown_depends_on_the_order:
  "pnl_drawdown exact_ext [- 3, 5, - 3] 0 0 0 = Some 3"
  "pnl_drawdown exact_ext [- 3, - 3, 5] 0 0 0 = Some 6"
  by (simp_all add: fit_def dec_max_def Let_def)

lemma full_sample_size: "max (25 :: u32) 1 = 25"
  by (simp add: max_def word_le_nat_alt)

text \<open>
  The recent return is the share of the last fifty trades in the notional: a wallet that lost nine
  tenths of its stake has a recent return of one hundred percent.
\<close>

lemma losing_wallet_has_full_recent_return:
  "\<exists>h. reconstruct_at exact_ext (\<lambda>m. m) (\<lambda>m. m)
      [(sample_trade ''m'')\<lparr>wt_notional_usd := 100\<rparr>,
       (sample_trade ''m'')\<lparr>wt_side := Sell, wt_notional_usd := 10\<rparr>] (secs 100) = Some h
    \<and> hw_realized_pnl_usd h = - 90 \<and> hw_recent_return_pct h = 100"
  by (simp add: reconstruct_at_def eligible_stats_def sample_trade_def per_mint_def push_trade_def
      mint_step_def no_totals_def win_share_def mean_or_zero_def median_of_def share_pct_def
      dec_sum_def score_wallet_def wallet_score_value_def to_wallet_stats_def
      default_thresholds_def fit_def dec_max_def secs_def nanos_def Let_def dec_of_word_def
      full_sample_size)

end
