(* ===== verification/Historical_Signal.thy ===== *)
theory Historical_Signal
  imports Historical_Wallet Backtest_Engine
begin

text \<open>
  \<open>src/historical/cost.rs\<close>, \<open>safety.rs\<close> and \<open>signal.rs\<close>: the modelled costs of a trade, the safety of
  a token read from its mint account, and the historical signal built from a candle, a safety
  observation, wallet statistics and the candles that follow.
\<close>

section \<open>cost.rs\<close>

datatype cost_source = SourceObserved | SourceModeled

fun show_cost_source :: "cost_source \<Rightarrow> string" where
  "show_cost_source SourceObserved = ''Observed''"
| "show_cost_source SourceModeled = ''Modeled''"

record cost_breakdown =
  cb_swap_fee_bps :: decimal
  cb_priority_fee_usd :: decimal
  cb_slippage_bps :: decimal
  cb_price_impact_bps :: decimal
  cb_failed_tx_rate :: decimal
  cb_failed_tx_cost_usd :: decimal
  cb_source :: cost_source

definition modeled_slippage :: "ext \<Rightarrow> price_observation option \<Rightarrow> (decimal \<times> cost_source) option" where
  "modeled_slippage X candle = (case candle of
      None \<Rightarrow> Some (50, SourceModeled)
    | Some c \<Rightarrow> (case (high_usd c, low_usd c) of
        (Some high, Some low) \<Rightarrow>
          (let close = effective_close c in
           if close > 0 \<and> high \<ge> low
           then do {
             d \<leftarrow> dec_sub X high low;
             q \<leftarrow> dec_div X d close;
             slippage \<leftarrow> dec_mul X q 10000;
             Some (min slippage 1000, SourceObserved) }
           else Some (50, SourceModeled))
      | _ \<Rightarrow> Some (50, SourceModeled)))"

definition modeled_impact ::
    "ext \<Rightarrow> decimal \<Rightarrow> price_observation option \<Rightarrow> (decimal \<times> cost_source) option" where
  "modeled_impact X position_usd candle = (case Option.bind candle volume of
      None \<Rightarrow> Some (20, SourceModeled)
    | Some v \<Rightarrow>
        if v > 0
        then do {
          q \<leftarrow> dec_div X position_usd v;
          impact \<leftarrow> dec_mul X q 10000;
          Some (min impact 1000, SourceObserved) }
        else Some (20, SourceModeled))"

definition build_cost_model ::
    "ext \<Rightarrow> decimal \<Rightarrow> price_observation option \<Rightarrow> decimal \<Rightarrow> u64 \<Rightarrow> decimal \<Rightarrow> datetime
     \<Rightarrow> (cost_model \<times> cost_breakdown) option" where
  "build_cost_model X position_usd candle sol_price_usd lamports swap_fee_bps as_of =
   do {
     (slippage, source_slippage) \<leftarrow> modeled_slippage X candle;
     (impact, source_impact) \<leftarrow> modeled_impact X position_usd candle;
     sol \<leftarrow> dec_div X (dec_of_word lamports) 1000000000;
     priority_fee \<leftarrow> dec_mul X sol sol_price_usd;
     let source = (if source_slippage = SourceObserved \<and> source_impact = SourceObserved
                   then SourceObserved else SourceModeled);
     Some (\<lparr>cm_observed_at = as_of,
        cm_input = \<lparr>position_size_usd = position_usd, avg_priority_fee_usd = priority_fee,
          avg_swap_fee_bps = swap_fee_bps, avg_slippage_bps = slippage,
          avg_price_impact_bps = impact, failed_tx_rate = 5 / 100,
          avg_failed_tx_cost_usd = priority_fee, assumed_win_loss_ratio = 2,
          assumed_avg_loss_pct = 10\<rparr>,
        cm_source = ''historical_pipeline_'' @ show_cost_source source,
        cm_is_live_snapshot = False\<rparr>,
       \<lparr>cb_swap_fee_bps = swap_fee_bps, cb_priority_fee_usd = priority_fee,
        cb_slippage_bps = slippage, cb_price_impact_bps = impact, cb_failed_tx_rate = 5 / 100,
        cb_failed_tx_cost_usd = priority_fee, cb_source = source\<rparr>)
   }"

section \<open>safety.rs\<close>

record historical_token_safety =
  hts_mint :: string
  hts_mint_authority_present :: bool
  hts_freeze_authority_present :: bool
  hts_decimals :: u8
  hts_supply :: decimal
  hts_holder_top10_pct :: "decimal option"
  hts_token_age_secs :: int
  hts_sellable :: "bool option"
  hts_route_available :: "bool option"
  hts_creator_suspicious :: "bool option"
  hts_abnormal_activity :: "bool option"
  hts_liquidity_change_pct :: "decimal option"
  hts_liquidity_locked_or_burned :: "bool option"
  hts_observed_at :: datetime
  hts_created_at :: "datetime option"

datatype safety_error = SafetyRpc rpc_failure | SafetyInvalid string

text \<open>\<open>reply\<close> is the answer of the node, \<open>parse_dec\<close> the decimal parser of the crate.\<close>

definition fetch_safety ::
    "ext \<Rightarrow> 'v json \<Rightarrow> (string \<Rightarrow> string + decimal) \<Rightarrow> rpc_failure + 'v \<Rightarrow> string \<Rightarrow> datetime
     \<Rightarrow> safety_error + historical_token_safety" where
  "fetch_safety X J parse_dec reply mint as_of = (case reply of
      Inl e \<Rightarrow> Inl (SafetyRpc e)
    | Inr answer \<Rightarrow> (case jv_get J answer ''value'' of
        None \<Rightarrow> Inl (SafetyInvalid (''mint '' @ mint @ '' has no account info at ''
                 @ time_show X as_of))
      | Some account \<Rightarrow>
          if jv_null J account
          then Inl (SafetyInvalid (''mint '' @ mint @ '' has no account info at ''
                 @ time_show X as_of))
          else (case Option.bind (jv_get J account ''data'') (\<lambda>d. jv_get J d ''parsed'') of
            None \<Rightarrow> Inl (SafetyInvalid ''account data not parsed'')
          | Some parsed \<Rightarrow> (let info = jv_index J parsed ''info'' in
              case jv_u64 J (jv_index J info ''decimals'') of
                None \<Rightarrow> Inl (SafetyInvalid ''decimals missing'')
              | Some d \<Rightarrow>
                  if \<not> d < 256 then Inl (SafetyInvalid ''decimals missing'')
                  else (case jv_str J (jv_index J info ''supply'') of
                    None \<Rightarrow> Inl (SafetyInvalid ''supply missing'')
                  | Some t \<Rightarrow> (case parse_dec t of
                      Inl e \<Rightarrow> Inl (SafetyInvalid (''invalid supply: '' @ e))
                    | Inr supply \<Rightarrow> Inr \<lparr>hts_mint = mint,
                        hts_mint_authority_present =
                          (\<not> jv_null J (jv_index J info ''mintAuthority'')),
                        hts_freeze_authority_present =
                          (\<not> jv_null J (jv_index J info ''freezeAuthority'')),
                        hts_decimals = ucast d, hts_supply = supply, hts_holder_top10_pct = None,
                        hts_token_age_secs = 0, hts_sellable = None, hts_route_available = None,
                        hts_creator_suspicious = None, hts_abnormal_activity = None,
                        hts_liquidity_change_pct = None, hts_liquidity_locked_or_burned = None,
                        hts_observed_at = as_of, hts_created_at = None\<rparr>))))))"

definition to_token_safety :: "historical_token_safety \<Rightarrow> int \<Rightarrow> token_safety" where
  "to_token_safety h age = \<lparr>mint_authority_present = hts_mint_authority_present h,
     freeze_authority_present = hts_freeze_authority_present h,
     holder_top10_pct = unwrap_or (hts_holder_top10_pct h) 0, token_age_secs = age,
     liquidity_locked_or_burned = hts_liquidity_locked_or_burned h, sellable = hts_sellable h,
     route_available = hts_route_available h, creator_suspicious = hts_creator_suspicious h,
     abnormal_activity = hts_abnormal_activity h,
     liquidity_change_pct = hts_liquidity_change_pct h, ts_observed_at = hts_observed_at h\<rparr>"

section \<open>signal.rs\<close>

record signal_builder =
  sb_position_usd :: decimal
  sb_token_decimals :: u8
  sb_base_mint_decimals :: u8
  sb_sol_price_usd :: decimal
  sb_priority_fee_lamports :: u64
  sb_swap_fee_bps :: decimal
  sb_future_window_minutes :: int

definition new_builder :: "decimal \<Rightarrow> u8 \<Rightarrow> u8 \<Rightarrow> decimal \<Rightarrow> signal_builder" where
  "new_builder position_usd token_decimals base_decimals sol_price_usd =
    \<lparr>sb_position_usd = position_usd, sb_token_decimals = token_decimals,
     sb_base_mint_decimals = base_decimals, sb_sol_price_usd = sol_price_usd,
     sb_priority_fee_lamports = 10000, sb_swap_fee_bps = 30, sb_future_window_minutes = 240\<rparr>"

definition with_priority_fee :: "u64 \<Rightarrow> signal_builder \<Rightarrow> signal_builder" where
  "with_priority_fee lamports b = b\<lparr>sb_priority_fee_lamports := lamports\<rparr>"

definition with_swap_fee_bps :: "decimal \<Rightarrow> signal_builder \<Rightarrow> signal_builder" where
  "with_swap_fee_bps bps b = b\<lparr>sb_swap_fee_bps := bps\<rparr>"

definition with_future_window_minutes :: "int \<Rightarrow> signal_builder \<Rightarrow> signal_builder" where
  "with_future_window_minutes m b = b\<lparr>sb_future_window_minutes := m\<rparr>"

datatype signal_error =
    PitViolation string
  | MissingFutureData string
  | MissingWalletEvidence string

record dataset_entry =
  de_signal :: historical_signal
  de_breakdown :: cost_breakdown

definition observation_of :: "ohlcv_candle \<Rightarrow> price_observation" where
  "observation_of c = \<lparr>po_timestamp = oc_timestamp c, po_price_usd = oc_close_usd c,
     po_liquidity_usd = unwrap_or (oc_liquidity_usd c) 0, open_usd = Some (oc_open_usd c),
     high_usd = Some (oc_high_usd c), low_usd = Some (oc_low_usd c),
     close_usd = Some (oc_close_usd c), volume = oc_volume_usd c\<rparr>"

definition market_of :: "string \<Rightarrow> ohlcv_candle \<Rightarrow> market_snapshot" where
  "market_of mint c = \<lparr>mk_mint = mint, mk_price_usd = oc_close_usd c,
     mk_liquidity_usd = unwrap_or (oc_liquidity_usd c) 0,
     mk_volume_24h_usd = unwrap_or (oc_volume_usd c) 0, mk_volatility_pct = 20,
     mk_buy_sell_imbalance = 1 / 2, mk_observed_at = oc_timestamp c,
     mk_received_at = oc_timestamp c, mk_slot = None, mk_price_impact_bps = None\<rparr>"

definition after_signal :: "ext \<Rightarrow> string \<Rightarrow> datetime \<Rightarrow> datetime \<Rightarrow> string" where
  "after_signal X what t ts = what @ time_show X t @ '' > signal_timestamp '' @ time_show X ts"

definition input_problem ::
    "ext \<Rightarrow> datetime \<Rightarrow> ohlcv_candle \<Rightarrow> historical_token_safety \<Rightarrow> historical_wallet_stats list
     \<Rightarrow> signal_error option" where
  "input_problem X ts c safety ws =
    (if oc_timestamp c > ts
     then Some (PitViolation (after_signal X ''market candle timestamp '' (oc_timestamp c) ts))
     else if hts_observed_at safety > ts
     then Some (PitViolation (after_signal X ''safety.observed_at '' (hts_observed_at safety) ts))
     else case find (\<lambda>w. hw_updated_at w > ts) ws of
       Some w \<Rightarrow> Some (PitViolation (after_signal X (''wallet '' @ hw_wallet w @ '' updated_at '')
           (hw_updated_at w) ts))
     | None \<Rightarrow> None)"

definition horizon_of :: "signal_builder \<Rightarrow> datetime \<Rightarrow> datetime" where
  "horizon_of b ts = ts + mins (sb_future_window_minutes b)"

definition history_of ::
    "signal_builder \<Rightarrow> datetime \<Rightarrow> ohlcv_candle \<Rightarrow> ohlcv_candle list \<Rightarrow> price_observation list" where
  "history_of b ts c future =
    (let later = map observation_of (filter (\<lambda>f. \<not> oc_timestamp f < ts) future);
         all = (if oc_timestamp c = ts then observation_of c # later else later) in
     filter (\<lambda>ob. po_timestamp ob \<le> horizon_of b ts \<or> po_timestamp ob = ts) all)"

definition build_signal ::
    "ext \<Rightarrow> signal_builder \<Rightarrow> string \<Rightarrow> datetime \<Rightarrow> ohlcv_candle \<Rightarrow> historical_token_safety
     \<Rightarrow> historical_wallet_stats list \<Rightarrow> ohlcv_candle list \<Rightarrow> (signal_error + dataset_entry) option" where
  "build_signal X b mint ts c safety ws future = (case input_problem X ts c safety ws of
      Some e \<Rightarrow> Some (Inl e)
    | None \<Rightarrow> do {
        (costs, breakdown) \<leftarrow> build_cost_model X (sb_position_usd b) (Some (observation_of c))
          (sb_sol_price_usd b) (sb_priority_fee_lamports b) (sb_swap_fee_bps b) ts;
        let wallets = map to_wallet_stats (filter (\<lambda>w. hw_trades w > 0) ws);
        let history = history_of b ts c future;
        if cm_observed_at costs > ts
        then Some (Inl (PitViolation ''costs.observed_at must be <= signal_timestamp''))
        else if history = []
        then Some (Inl (MissingFutureData ''no future price observations in window''))
        else if wallets = []
        then Some (Inl (MissingWalletEvidence ''no wallets with positive trades''))
        else do {
          r \<leftarrow> calculate X costs;
          let gross = (case r of Inl e \<Rightarrow> 0 | Inr v \<Rightarrow> required_avg_win_pct v);
          Some (Inr \<lparr>de_signal = \<lparr>signal_timestamp = ts, hs_mint = mint,
              hs_market = market_of mint c,
              hs_safety = to_token_safety safety (hts_token_age_secs safety),
              hs_wallets = wallets, hs_costs = costs, hs_position_usd = sb_position_usd b,
              hs_expected_gross_return_pct = gross, hs_token_decimals = sb_token_decimals b,
              hs_base_mint_decimals = sb_base_mint_decimals b, price_history = history\<rparr>,
            de_breakdown = breakdown\<rparr>)
        }
      })"

section \<open>Facts\<close>

lemma fetch_safety_unknown:
  assumes "fetch_safety X J parse_dec reply mint as_of = Inr h"
  shows "hts_observed_at h = as_of \<and> hts_sellable h = None \<and> hts_route_available h = None
    \<and> hts_token_age_secs h = 0 \<and> hts_holder_top10_pct h = None"
  using assms by (auto simp: fetch_safety_def Let_def split: sum.splits option.splits if_splits)

lemma build_cost_model_time:
  "build_cost_model X p c sol l fee ts = Some (m, b)
     \<Longrightarrow> cm_observed_at m = ts \<and> position_size_usd (cm_input m) = p"
  by (auto simp: build_cost_model_def bind_Some_iff Let_def)

lemma build_signal_Inr:
  assumes "build_signal X b mint ts c safety ws future = Some (Inr e)"
  shows "input_problem X ts c safety ws = None"
    and "signal_timestamp (de_signal e) = ts" "hs_mint (de_signal e) = mint"
    and "hs_market (de_signal e) = market_of mint c"
    and "hs_safety (de_signal e) = to_token_safety safety (hts_token_age_secs safety)"
    and "hs_wallets (de_signal e) = map to_wallet_stats (filter (\<lambda>w. hw_trades w > 0) ws)"
    and "hs_wallets (de_signal e) \<noteq> []"
    and "price_history (de_signal e) = history_of b ts c future"
    and "price_history (de_signal e) \<noteq> []"
    and "cm_observed_at (hs_costs (de_signal e)) = ts"
    and "position_size_usd (cm_input (hs_costs (de_signal e))) = hs_position_usd (de_signal e)"
proof -
  have p: "input_problem X ts c safety ws = None"
    using assms by (auto simp: build_signal_def split: option.splits)
  obtain costs br where m: "build_cost_model X (sb_position_usd b) (Some (observation_of c))
      (sb_sol_price_usd b) (sb_priority_fee_lamports b) (sb_swap_fee_bps b) ts = Some (costs, br)"
    using assms p by (auto simp: build_signal_def bind_Some_iff)
  note t = build_cost_model_time [OF m]
  obtain r where r: "calculate X costs = Some r"
    using assms p m by (auto simp: build_signal_def bind_Some_iff Let_def split: if_splits)
  show "input_problem X ts c safety ws = None" by (rule p)
  show "signal_timestamp (de_signal e) = ts" "hs_mint (de_signal e) = mint"
    "hs_market (de_signal e) = market_of mint c"
    "hs_safety (de_signal e) = to_token_safety safety (hts_token_age_secs safety)"
    "hs_wallets (de_signal e) = map to_wallet_stats (filter (\<lambda>w. hw_trades w > 0) ws)"
    "hs_wallets (de_signal e) \<noteq> []"
    "price_history (de_signal e) = history_of b ts c future" "price_history (de_signal e) \<noteq> []"
    "cm_observed_at (hs_costs (de_signal e)) = ts"
    "position_size_usd (cm_input (hs_costs (de_signal e))) = hs_position_usd (de_signal e)"
    using assms p m r t by (auto simp: build_signal_def Let_def split: if_splits)
qed

lemma input_problem_None:
  "input_problem X ts c safety ws = None \<longleftrightarrow> oc_timestamp c \<le> ts \<and> hts_observed_at safety \<le> ts
     \<and> list_all (\<lambda>w. hw_updated_at w \<le> ts) ws"
proof (cases "find (\<lambda>w. hw_updated_at w > ts) ws")
  case None
  then have "list_all (\<lambda>w. hw_updated_at w \<le> ts) ws"
    by (auto simp: find_None_iff list_all_iff not_less)
  with None show ?thesis by (simp add: input_problem_def not_less)
next
  case (Some w)
  then have "w \<in> set ws" "ts < hw_updated_at w" by (auto simp: find_Some_iff)
  then have "\<not> list_all (\<lambda>w. hw_updated_at w \<le> ts) ws" by (auto simp: list_all_iff not_le)
  with Some show ?thesis by (simp add: input_problem_def)
qed

lemma history_of_window:
  assumes "0 \<le> sb_future_window_minutes b"
  shows "list_all (\<lambda>ob. ts \<le> po_timestamp ob \<and> po_timestamp ob \<le> horizon_of b ts)
    (history_of b ts c future)"
proof -
  have "ts \<le> horizon_of b ts" using assms by (simp add: horizon_of_def mins_def nanos_def)
  then show ?thesis by (auto simp: history_of_def list_all_iff observation_of_def Let_def)
qed

lemma pit_rejects_unsellable:
  "sellable s \<noteq> Some True \<Longrightarrow> pit_filter X c ws m s e now \<noteq> None"
  by (auto simp: pit_filter_def split: if_splits)

lemma evaluate_rejects_unsellable:
  assumes "sellable s \<noteq> Some True"
  shows "\<exists>r. evaluate_signal_pit X c mint ws m s e now = Some (Rejected r)"
  using pit_rejects_unsellable [OF assms, of X c ws m e now]
  by (auto simp: evaluate_signal_pit_def)

section \<open>Properties\<close>

text \<open>
  C37: A built signal knows nothing of the future.
  When a build succeeds, the market, the safety, the costs and every wallet were observed at the
  signal or before, some wallet traded, and the price history is not empty and lies between the
  signal and the horizon of the builder, whatever candles, wallets and safety were handed in.
\<close>

theorem built_signal_is_point_in_time:
  assumes "build_signal X b mint ts c safety ws future = Some (Inr e)"
    and "0 \<le> sb_future_window_minutes b"
  shows "mk_observed_at (hs_market (de_signal e)) \<le> ts
    \<and> ts_observed_at (hs_safety (de_signal e)) \<le> ts
    \<and> cm_observed_at (hs_costs (de_signal e)) \<le> ts
    \<and> list_all (\<lambda>w. w_updated_at w \<le> ts \<and> 0 < w_trades w) (hs_wallets (de_signal e))
    \<and> hs_wallets (de_signal e) \<noteq> []
    \<and> price_history (de_signal e) \<noteq> []
    \<and> list_all (\<lambda>ob. ts \<le> po_timestamp ob \<and> po_timestamp ob \<le> horizon_of b ts)
        (price_history (de_signal e))
    \<and> position_size_usd (cm_input (hs_costs (de_signal e))) = hs_position_usd (de_signal e)"
proof -
  note s = build_signal_Inr [OF assms(1)]
  show ?thesis using s history_of_window [OF assms(2), of ts c future] s(1) [unfolded input_problem_None]
    by (auto simp: market_of_def to_token_safety_def to_wallet_stats_def list_all_iff)
qed

text \<open>
  The pipeline feeds a backtest that refuses
  all of it. The safety fetched from the chain leaves open whether a token can be sold, and the
  point-in-time decision takes that for unsafe: the simulation of a signal built on a fetched
  safety never yields a trade, for every configuration, candle, wallet and cost.
\<close>

theorem built_signals_are_never_traded:
  assumes "fetch_safety X J parse_dec reply mint as_of = Inr safety"
    and "build_signal X b mint ts c safety ws future = Some (Inr e)"
  shows "simulate_signal X (de_signal e) cfg a spl index \<noteq> Some (Inr trade)"
proof -
  have "sellable (hs_safety (de_signal e)) = None"
    using fetch_safety_unknown [OF assms(1)] build_signal_Inr(5) [OF assms(2)]
    by (simp add: to_token_safety_def)
  then have "\<exists>r. evaluate_signal_pit X cfg (hs_mint (de_signal e)) (hs_wallets (de_signal e))
      (hs_market (de_signal e)) (hs_safety (de_signal e)) v (signal_timestamp (de_signal e))
    = Some (Rejected r)" for v
    by (intro evaluate_rejects_unsellable) simp
  then show ?thesis
    unfolding simulate_signal_def try_res_Inr
    by (metis (no_types, lifting) bind.bind_lunit old.sum.distinct(1) option.inject
        strategy_decision.simps(6))
qed

definition sample_entry_candle :: ohlcv_candle where
  "sample_entry_candle = candle_at 0 1 2 1 1 100"

definition sample_mint_answer :: jval where
  "sample_mint_answer = JDict [(''value'', JDict [(''data'', JDict [(''parsed'', JDict
     [(''info'', JDict [(''decimals'', JNum 6), (''supply'', JText ''1'')])])])])]"

definition sample_historical_safety :: historical_token_safety where
  "sample_historical_safety = \<lparr>hts_mint = ''m'', hts_mint_authority_present = False,
     hts_freeze_authority_present = False, hts_decimals = 6, hts_supply = 1,
     hts_holder_top10_pct = None, hts_token_age_secs = 0, hts_sellable = None,
     hts_route_available = None, hts_creator_suspicious = None, hts_abnormal_activity = None,
     hts_liquidity_change_pct = None, hts_liquidity_locked_or_burned = None,
     hts_observed_at = secs 60, hts_created_at = None\<rparr>"

lemma sample_safety_fetched:
  "fetch_safety exact_ext jval_ops (\<lambda>_. Inr 1) (Inr sample_mint_answer) ''m'' (secs 60)
     = Inr sample_historical_safety"
  by (simp add: fetch_safety_def sample_mint_answer_def jval_ops_def u64_of_int_def
      sample_historical_safety_def)

definition sample_history_wallet :: historical_wallet_stats where
  "sample_history_wallet = (unknown_wallet ''w'' (secs 60) 0)\<lparr>hw_trades := 3\<rparr>"

lemma sample_cost_model:
  "\<exists>m br r. build_cost_model exact_ext 5 (Some (observation_of (candle_at t 1 2 1 1 100))) 150 10000
      30 ts = Some (m, br) \<and> cm_observed_at m = ts \<and> calculate exact_ext m = Some (Inr r)"
proof -
  obtain m br where c: "build_cost_model exact_ext 5 (Some (observation_of
      (candle_at t 1 2 1 1 100))) 150 10000 30 ts = Some (m, br)"
    and i: "cm_input m = \<lparr>position_size_usd = 5, avg_priority_fee_usd = 3 / 2000,
      avg_swap_fee_bps = 30, avg_slippage_bps = 1000, avg_price_impact_bps = 500,
      failed_tx_rate = 1 / 20, avg_failed_tx_cost_usd = 3 / 2000, assumed_win_loss_ratio = 2,
      assumed_avg_loss_pct = 10\<rparr>" and t: "cm_observed_at m = ts"
    by (simp add: build_cost_model_def modeled_slippage_def modeled_impact_def observation_of_def
        candle_at_def effective_close_def fit_def dec_max_def Let_def dec_of_word_def)
  have "\<exists>r. calculate exact_ext m = Some (Inr r)"
    by (simp add: calculate_Inr valid_inputs_def i break_even_values_def fit_def dec_max_def Let_def)
  with c t show ?thesis by blast
qed

lemma sample_build_at:
  assumes "t \<le> secs 60" and "hw_updated_at h \<le> secs 60" and "0 < hw_trades h"
  shows "\<exists>e. build_signal exact_ext (new_builder 5 6 9 150) ''m'' (secs 60)
     (candle_at t 1 2 1 1 100) sample_historical_safety [h] [candle_at (secs 120) 1 2 1 1 100]
   = Some (Inr e)"
proof -
  obtain m br r where c: "build_cost_model exact_ext 5 (Some (observation_of
      (candle_at t 1 2 1 1 100))) 150 10000 30 (secs 60) = Some (m, br)"
    "cm_observed_at m = secs 60" "calculate exact_ext m = Some (Inr r)"
    using sample_cost_model [of t "secs 60"] by blast
  have p: "input_problem exact_ext (secs 60) (candle_at t 1 2 1 1 100) sample_historical_safety [h]
      = None"
    using assms by (simp add: input_problem_None candle_at_def sample_historical_safety_def)
  have "observation_of (candle_at (secs 120) 1 2 1 1 100) \<in> set (history_of (new_builder 5 6 9 150)
      (secs 60) (candle_at t 1 2 1 1 100) [candle_at (secs 120) 1 2 1 1 100])"
    by (simp add: history_of_def new_builder_def candle_at_def secs_def nanos_def mins_def
        horizon_of_def observation_of_def Let_def)
  then have "history_of (new_builder 5 6 9 150)
      (secs 60) (candle_at t 1 2 1 1 100) [candle_at (secs 120) 1 2 1 1 100] \<noteq> []" by auto
  with p c assms(3) show ?thesis
    by (simp add: build_signal_def Let_def) (simp add: new_builder_def)
qed

lemma sample_signal_build:
  "\<exists>e. build_signal exact_ext (new_builder 5 6 9 150) ''m'' (secs 60) sample_entry_candle
     sample_historical_safety [sample_history_wallet] [candle_at (secs 120) 1 2 1 1 100]
   = Some (Inr e)"
  unfolding sample_entry_candle_def
  by (rule sample_build_at) (simp_all add: sample_history_wallet_def unknown_wallet_def secs_def
      nanos_def)

theorem built_signal_is_point_in_time_witness:
  "\<exists>e. build_signal exact_ext (new_builder 5 6 9 150) ''m'' (secs 60) sample_entry_candle
     sample_historical_safety [sample_history_wallet] [candle_at (secs 120) 1 2 1 1 100]
   = Some (Inr e) \<and> mk_observed_at (hs_market (de_signal e)) \<le> secs 60"
  using sample_signal_build built_signal_is_point_in_time [of exact_ext "new_builder 5 6 9 150"]
  by (fastforce simp: new_builder_def)

theorem built_signals_are_never_traded_witness:
  "\<exists>e. build_signal exact_ext (new_builder 5 6 9 150) ''m'' (secs 60) sample_entry_candle
     sample_historical_safety [sample_history_wallet] [candle_at (secs 120) 1 2 1 1 100]
   = Some (Inr e) \<and> (\<forall>a spl index trade.
       simulate_signal exact_ext (de_signal e) (example_config Paper) a spl index \<noteq> Some (Inr trade))"
  using sample_signal_build built_signals_are_never_traded [OF sample_safety_fetched] by blast

text \<open>
  The wallets of the pipeline are dated with the signal, and the loader refuses a wallet dated after
  the market: a signal whose candle opened before it is rejected when its dataset is read.
\<close>

lemma wallets_are_newer_than_the_market:
  assumes "build_signal X b mint ts c safety ws future = Some (Inr e)"
    and "list_all (\<lambda>w. hw_updated_at w = ts) ws" and "oc_timestamp c < ts"
  shows "\<exists>reason. validate_signal X (de_signal e) line = Inl reason"
proof (rule ccontr)
  assume "\<not> ?thesis"
  then have "validate_signal X (de_signal e) line = Inr ()"
    by (cases "validate_signal X (de_signal e) line") auto
  then have "decision_problem X (de_signal e) = None"
    by (auto simp: validate_signal_def split: if_splits option.splits)
  then have "point_in_time (de_signal e)" by (rule decision_problem_None(4))
  moreover have "\<exists>w. w \<in> set (hs_wallets (de_signal e))"
    using build_signal_Inr(7) [OF assms(1)] by (auto simp: neq_Nil_conv)
  moreover have "\<forall>w\<in>set (hs_wallets (de_signal e)). w_updated_at w = ts"
    using build_signal_Inr(6) [OF assms(1)] assms(2)
    by (auto simp: list_all_iff to_wallet_stats_def)
  ultimately show False using build_signal_Inr(4) [OF assms(1)] assms(3)
    by (auto simp: point_in_time_def market_of_def)
qed

end
