(* ===== verification/Historical_Build.thy ===== *)
theory Historical_Build
  imports Historical_Signal
begin

text \<open>
  \<open>src/historical/build.rs\<close>: the resumable build of a dataset. A run walks over the tokens and the
  grid of signal times, skips the pairs its resume file names, builds the others from candles,
  safety and wallets and appends each built signal before it rewrites the resume file. The output
  file is the list of its signals, one line each; whether a write succeeds is a choice of the world.
\<close>

section \<open>Options and state\<close>

datatype build_error =
    OhlcvProblem ohlcv_error
  | RpcReadError safety_error
  | IoProblem
  | SignalProblem string
  | ConfigProblem ohlcv_error

record build_options =
  bo_mints :: "string list"
  bo_start :: datetime
  bo_end :: datetime
  bo_interval :: ohlcv_interval
  bo_signals_per_mint :: nat
  bo_position_usd :: decimal
  bo_token_decimals :: u8
  bo_base_mint_decimals :: u8
  bo_sol_price_usd :: decimal
  bo_priority_fee_lamports :: u64
  bo_swap_fee_bps :: decimal
  bo_future_window_minutes :: int
  bo_max_wallet_signatures :: nat
  bo_wallet_pubkeys :: "string list"

record build_report =
  br_total_signals :: nat
  br_accepted_signals :: nat
  br_skipped_signals :: nat
  br_date_range :: "(datetime \<times> datetime) option"
  br_unique_tokens :: nat

text \<open>
  The world of a run. The calls for safety and wallets are numbered by the build they belong to,
  the two kinds of writes by the build too.
\<close>

record 'v build_world =
  bw_json :: "'v json"
  bw_ohlcv :: ohlcv_world
  bw_parse_dec :: "string \<Rightarrow> string + decimal"
  bw_safety :: "nat \<Rightarrow> rpc_failure + 'v"
  bw_signatures :: "nat \<Rightarrow> string \<Rightarrow> nat \<Rightarrow> string option \<Rightarrow> rpc_failure + 'v"
  bw_order1 :: "(string \<times> mint_entry list) list \<Rightarrow> (string \<times> mint_entry list) list"
  bw_order2 :: "(string \<times> decimal) list \<Rightarrow> (string \<times> decimal) list"
  bw_serializes :: "historical_signal \<Rightarrow> bool"
  bw_append_ok :: "nat \<Rightarrow> bool"
  bw_resume_ok :: "nat \<Rightarrow> bool"

record build_disk =
  bd_output :: "historical_signal list"
  bd_resume :: "(string + string set) option"     \<comment> \<open>None: no file, or an empty one\<close>
  bd_trades :: trade_cache

record builder =
  bs_config :: provider_config
  bs_ohlcv :: ohlcv_state
  bs_written :: "string set"
  bs_disk :: build_disk
  bs_builds :: nat

definition load_resume :: "build_disk \<Rightarrow> build_error + string set" where
  "load_resume d = (case bd_resume d of
      None \<Rightarrow> Inr {}
    | Some (Inl e) \<Rightarrow> Inl (SignalProblem (''invalid resume file: '' @ e))
    | Some (Inr w) \<Rightarrow> Inr w)"

definition new_historical_builder ::
    "(string \<Rightarrow> string option) \<Rightarrow> ohlcv_state \<Rightarrow> build_disk \<Rightarrow> build_error + builder" where
  "new_historical_builder env caches d = (case provider_from_env env of
      Inl e \<Rightarrow> Inl (ConfigProblem e)
    | Inr cfg \<Rightarrow> also_then (load_resume d) (\<lambda>w. Inr \<lparr>bs_config = cfg, bs_ohlcv = caches,
        bs_written = w, bs_disk = d, bs_builds = 0\<rparr>))"

section \<open>The grid and the entry candle\<close>

definition compute_signal_grid :: "ext \<Rightarrow> datetime \<Rightarrow> datetime \<Rightarrow> nat \<Rightarrow> datetime list" where
  "compute_signal_grid X frm til n =
    (if n \<le> 1 \<or> til \<le> frm then [frm]
     else let gap = num_seconds X (til - frm) div max (int n - 1) 1 in
       map (\<lambda>i. frm + secs (int i * gap)) [0..<n])"

definition pick_entry_candle :: "ohlcv_candle list \<Rightarrow> datetime \<Rightarrow> ohlcv_candle option" where
  "pick_entry_candle cs ts = find (\<lambda>c. oc_timestamp c \<le> ts) (rev cs)"

section \<open>Building one signal\<close>

fun build_wallets ::
    "ext \<Rightarrow> 'v build_world \<Rightarrow> build_options \<Rightarrow> nat \<Rightarrow> datetime \<Rightarrow> string list \<Rightarrow> trade_cache
     \<Rightarrow> (historical_wallet_stats list \<times> trade_cache) option" where
  "build_wallets X W opt k ts [] cache = Some ([], cache)"
| "build_wallets X W opt k ts (w # ws) cache = do {
     (r, cache1) \<leftarrow> fetch_wallet_trades (bw_json W) (bw_signatures W k w) w ts
        (bo_max_wallet_signatures opt) cache;
     here \<leftarrow> (case r of
         Inl e \<Rightarrow> Some []
       | Inr trades \<Rightarrow> do {
           h \<leftarrow> reconstruct_at X (bw_order1 W) (bw_order2 W) trades ts;
           Some (if hw_trades h > 0 then [h] else []) });
     (rest, cache2) \<leftarrow> build_wallets X W opt k ts ws cache1;
     Some (here @ rest, cache2)
   }"

definition builder_of :: "build_options \<Rightarrow> signal_builder" where
  "builder_of opt = with_future_window_minutes (bo_future_window_minutes opt)
     (with_swap_fee_bps (bo_swap_fee_bps opt)
       (with_priority_fee (bo_priority_fee_lamports opt)
         (new_builder (bo_position_usd opt) (bo_token_decimals opt) (bo_base_mint_decimals opt)
            (bo_sol_price_usd opt))))"

definition signal_error_text :: "signal_error \<Rightarrow> string" where
  "signal_error_text e = (case e of
      PitViolation m \<Rightarrow> ''point-in-time violation: '' @ m
    | MissingFutureData m \<Rightarrow> ''missing future data: '' @ m
    | MissingWalletEvidence m \<Rightarrow> ''missing wallet evidence: '' @ m)"

definition build_one ::
    "ext \<Rightarrow> 'v build_world \<Rightarrow> build_options \<Rightarrow> nat \<Rightarrow> string \<Rightarrow> datetime \<Rightarrow> ohlcv_candle list
     \<Rightarrow> trade_cache \<Rightarrow> ((build_error + dataset_entry) \<times> trade_cache) option" where
  "build_one X W opt k mint ts candles cache = (case pick_entry_candle candles ts of
      None \<Rightarrow> Some (Inl (SignalProblem (''no candle at or before '' @ time_show X ts @ '' for ''
                @ mint)), cache)
    | Some entry \<Rightarrow>
        let future = filter (\<lambda>c. oc_timestamp c > ts) candles in
        (case fetch_safety X (bw_json W) (bw_parse_dec W) (bw_safety W k) mint ts of
          Inl e \<Rightarrow> Some (Inl (RpcReadError e), cache)
        | Inr safety \<Rightarrow> do {
            (wallets, cache') \<leftarrow> build_wallets X W opt k ts (bo_wallet_pubkeys opt) cache;
            r \<leftarrow> build_signal X (builder_of opt) mint ts entry safety wallets future;
            Some (case r of
                Inl e \<Rightarrow> Inl (SignalProblem (signal_error_text e))
              | Inr e \<Rightarrow> Inr e, cache')
          }))"

section \<open>A run\<close>

record run_counts =
  rc_accepted :: nat
  rc_skipped :: nat
  rc_earliest :: "datetime option"
  rc_latest :: "datetime option"

definition resume_key :: "string \<Rightarrow> datetime \<Rightarrow> string" where
  "resume_key mint ts = mint @ ''|'' @ show_int (timestamp ts)"

definition skip_one :: "run_counts \<Rightarrow> run_counts" where
  "skip_one c = c\<lparr>rc_skipped := rc_skipped c + 1\<rparr>"

definition accept_one :: "datetime \<Rightarrow> run_counts \<Rightarrow> run_counts" where
  "accept_one ts c = c\<lparr>rc_accepted := rc_accepted c + 1,
     rc_earliest := (case rc_earliest c of
         None \<Rightarrow> Some ts | Some e \<Rightarrow> if ts < e then Some ts else Some e),
     rc_latest := (case rc_latest c of
         None \<Rightarrow> Some ts | Some l \<Rightarrow> if ts > l then Some ts else Some l)\<rparr>"

text \<open>
  The built signal is appended, then its key is remembered and the resume file rewritten; each of
  the two writes can fail.
\<close>

definition write_signal ::
    "'v build_world \<Rightarrow> string \<Rightarrow> dataset_entry \<Rightarrow> builder \<Rightarrow> (build_error + unit) \<times> builder" where
  "write_signal W key e b =
    (let k = bs_builds b; d = bs_disk b in
     if \<not> bw_serializes W (de_signal e) then (Inl (SignalProblem ''serialization''), b)
     else if \<not> bw_append_ok W k then (Inl IoProblem, b)
     else let d1 = d\<lparr>bd_output := bd_output d @ [de_signal e]\<rparr>;
              written = insert key (bs_written b) in
       if \<not> bw_resume_ok W k then (Inl IoProblem, b\<lparr>bs_written := written, bs_disk := d1\<rparr>)
       else (Inr (), b\<lparr>bs_written := written,
               bs_disk := d1\<lparr>bd_resume := Some (Inr written)\<rparr>\<rparr>))"

definition run_one ::
    "ext \<Rightarrow> 'v build_world \<Rightarrow> build_options \<Rightarrow> string \<Rightarrow> ohlcv_candle list \<Rightarrow> datetime
     \<Rightarrow> run_counts \<times> builder \<Rightarrow> ((build_error + run_counts) \<times> builder) option" where
  "run_one X W opt mint candles ts = (\<lambda>(c, b).
    let key = resume_key mint ts in
    if key \<in> bs_written b then Some (Inr (skip_one c), b)
    else do {
      (r, cache) \<leftarrow> build_one X W opt (bs_builds b) mint ts candles (bd_trades (bs_disk b));
      let b1 = b\<lparr>bs_disk := (bs_disk b)\<lparr>bd_trades := cache\<rparr>\<rparr>;
      case r of
        Inl e \<Rightarrow> Some (Inr (skip_one c), b1\<lparr>bs_builds := bs_builds b + 1\<rparr>)
      | Inr e \<Rightarrow>
          let (w, b2) = write_signal W key e b1; b3 = b2\<lparr>bs_builds := bs_builds b + 1\<rparr> in
          (case w of
             Inl x \<Rightarrow> Some (Inl x, b3)
           | Inr _ \<Rightarrow> Some (Inr (accept_one ts c), b3))
    })"

fun run_grid ::
    "ext \<Rightarrow> 'v build_world \<Rightarrow> build_options \<Rightarrow> string \<Rightarrow> ohlcv_candle list \<Rightarrow> datetime list
     \<Rightarrow> run_counts \<times> builder \<Rightarrow> ((build_error + run_counts) \<times> builder) option" where
  "run_grid X W opt mint candles [] cb = Some (Inr (fst cb), snd cb)"
| "run_grid X W opt mint candles (ts # tss) cb = (case run_one X W opt mint candles ts cb of
      None \<Rightarrow> None
    | Some (Inl e, b) \<Rightarrow> Some (Inl e, b)
    | Some (Inr c, b) \<Rightarrow> run_grid X W opt mint candles tss (c, b))"

fun run_mints ::
    "ext \<Rightarrow> 'v build_world \<Rightarrow> build_options \<Rightarrow> datetime list \<Rightarrow> string list \<Rightarrow> run_counts \<times> builder
     \<Rightarrow> ((build_error + run_counts) \<times> builder) option" where
  "run_mints X W opt grid [] cb = Some (Inr (fst cb), snd cb)"
| "run_mints X W opt grid (mint # ms) cb =
     (case fetch_window X (bw_ohlcv W) (bs_config (snd cb)) mint (bo_interval opt)
         (bo_start opt - secs (24 * 3600)) (bo_end opt + mins (bo_future_window_minutes opt))
         (bs_ohlcv (snd cb)) of
       None \<Rightarrow> None
     | Some (Inl e, s) \<Rightarrow> Some (Inl (OhlcvProblem e), (snd cb)\<lparr>bs_ohlcv := s\<rparr>)
     | Some (Inr candles, s) \<Rightarrow>
         (case run_grid X W opt mint candles grid (fst cb, (snd cb)\<lparr>bs_ohlcv := s\<rparr>) of
           None \<Rightarrow> None
         | Some (Inl e, b) \<Rightarrow> Some (Inl e, b)
         | Some (Inr c, b) \<Rightarrow> run_mints X W opt grid ms (c, b)))"

definition no_counts_yet :: run_counts where
  "no_counts_yet = \<lparr>rc_accepted = 0, rc_skipped = 0, rc_earliest = None, rc_latest = None\<rparr>"

definition run_build ::
    "ext \<Rightarrow> 'v build_world \<Rightarrow> build_options \<Rightarrow> builder
     \<Rightarrow> ((build_error + build_report) \<times> builder) option" where
  "run_build X W opt b =
    (let grid = compute_signal_grid X (bo_start opt) (bo_end opt) (bo_signals_per_mint opt) in
     map_option (\<lambda>(r, b'). (also_then r (\<lambda>c. Inr
         \<lparr>br_total_signals = length (bo_mints opt) * length grid,
          br_accepted_signals = rc_accepted c, br_skipped_signals = rc_skipped c,
          br_date_range = (case (rc_earliest c, rc_latest c) of
              (Some e, Some l) \<Rightarrow> Some (e, l) | _ \<Rightarrow> None),
          br_unique_tokens = card (set (bo_mints opt))\<rparr>), b'))
       (run_mints X W opt grid (bo_mints opt) (no_counts_yet, b)))"

text \<open>
  Several runs over the same disk: each reads the environment, the caches of candles and the resume
  file anew.
\<close>

type_synonym 'v build_run = "(string \<Rightarrow> string option) \<times> ohlcv_state \<times> 'v build_world \<times> build_options"

definition rebuild :: "ext \<Rightarrow> 'v build_run \<Rightarrow> build_disk \<Rightarrow> build_disk option" where
  "rebuild X r d = (case r of (env, caches, W, opt) \<Rightarrow>
    (case new_historical_builder env caches d of
       Inl e \<Rightarrow> Some d
     | Inr b \<Rightarrow> map_option (\<lambda>(_, b'). bs_disk b') (run_build X W opt b)))"

fun rebuilds :: "ext \<Rightarrow> 'v build_run list \<Rightarrow> build_disk \<Rightarrow> build_disk option" where
  "rebuilds X [] d = Some d"
| "rebuilds X (r # rs) d = Option.bind (rebuild X r d) (rebuilds X rs)"

section \<open>Facts\<close>

text \<open>With a clock that counts whole seconds the grid stays between its ends, in order.\<close>

lemma grid_in_range:
  assumes "num_seconds X (til - frm) = (til - frm) div nanos" and "frm \<le> til"
  shows "sorted (compute_signal_grid X frm til n)
    \<and> list_all (\<lambda>t. frm \<le> t \<and> t \<le> til) (compute_signal_grid X frm til n)
    \<and> compute_signal_grid X frm til n \<noteq> []"
proof (cases "n \<le> 1 \<or> til \<le> frm")
  case True
  then show ?thesis using assms(2) by (auto simp: compute_signal_grid_def)
next
  case False
  define gap where "gap = (til - frm) div nanos div (int n - 1)"
  have n: "0 < int n - 1" using False by simp
  have span: "0 \<le> (til - frm) div nanos" using False by (simp add: pos_imp_zdiv_nonneg_iff nanos_def)
  then have g0: "0 \<le> gap" unfolding gap_def using n by (simp add: pos_imp_zdiv_nonneg_iff)
  have mx: "max (int n - 1) 1 = int n - 1" using n by simp
  have grid: "compute_signal_grid X frm til n = map (\<lambda>i. frm + secs (int i * gap)) [0..<n]"
    using False assms(1) by (simp only: compute_signal_grid_def gap_def mx Let_def if_False)
  have top: "secs (int i * gap) \<le> til - frm" if "i < n" for i
  proof -
    have "int i * gap \<le> (int n - 1) * gap" using that g0 by (intro mult_right_mono) auto
    also have "\<dots> \<le> (til - frm) div nanos"
      unfolding gap_def using pos_mod_sign [of "int n - 1"] n
      by (simp add: minus_mod_eq_mult_div [symmetric])
    finally have "int i * gap * nanos \<le> (til - frm) div nanos * nanos"
      by (intro mult_right_mono) (simp_all add: nanos_def)
    also have "\<dots> \<le> til - frm" by (simp add: nanos_def)
    finally show ?thesis by (simp add: secs_def)
  qed
  have "sorted (map (\<lambda>i. frm + secs (int i * gap)) [0..<n])"
    by (rule sorted_map_mono) (auto simp: mono_on_def secs_def nanos_def g0 intro: mult_right_mono)
  moreover have "list_all (\<lambda>t. frm \<le> t \<and> t \<le> til) (map (\<lambda>i. frm + secs (int i * gap)) [0..<n])"
    using top g0 by (auto simp: list_all_iff secs_def nanos_def algebra_simps)
  ultimately show ?thesis using grid False by simp
qed

text \<open>What a disk that was only written by completed builds satisfies.\<close>

definition output_key :: "historical_signal \<Rightarrow> string" where
  "output_key s = resume_key (hs_mint s) (signal_timestamp s)"

definition decided_in_time :: "historical_signal \<Rightarrow> bool" where
  "decided_in_time s \<longleftrightarrow> mk_observed_at (hs_market s) \<le> signal_timestamp s
     \<and> ts_observed_at (hs_safety s) \<le> signal_timestamp s
     \<and> cm_observed_at (hs_costs s) \<le> signal_timestamp s
     \<and> list_all (\<lambda>w. w_updated_at w \<le> signal_timestamp s) (hs_wallets s)
     \<and> hs_wallets s \<noteq> [] \<and> price_history s \<noteq> []"

definition disk_consistent :: "build_disk \<Rightarrow> bool" where
  "disk_consistent d \<longleftrightarrow> distinct (map output_key (bd_output d))
     \<and> load_resume d = Inr (output_key ` set (bd_output d))
     \<and> list_all decided_in_time (bd_output d)"

definition builder_consistent :: "builder \<Rightarrow> bool" where
  "builder_consistent b \<longleftrightarrow> disk_consistent (bs_disk b)
     \<and> bs_written b = output_key ` set (bd_output (bs_disk b))"

text \<open>The output only grows.\<close>

definition extends_disk :: "build_disk \<Rightarrow> build_disk \<Rightarrow> bool" where
  "extends_disk d d' \<longleftrightarrow> (\<exists>new. bd_output d' = bd_output d @ new)"

lemma extends_disk_trans [trans]:
  "extends_disk d d' \<Longrightarrow> extends_disk d' d'' \<Longrightarrow> extends_disk d d''"
  by (auto simp: extends_disk_def)

lemma extends_disk_same [simp]: "bd_output d' = bd_output d \<Longrightarrow> extends_disk d d'"
  by (simp add: extends_disk_def)

lemma build_one_signal:
  assumes "build_one X W opt k mint ts cs cache = Some (Inr e, cache')"
  shows "output_key (de_signal e) = resume_key mint ts \<and> decided_in_time (de_signal e)"
proof -
  obtain entry safety ws future
    where b: "build_signal X (builder_of opt) mint ts entry safety ws future = Some (Inr e)"
    using assms
    by (auto simp: build_one_def bind_Some_iff Let_def split: option.splits sum.splits)
      (metis sum.exhaust)
  note s = build_signal_Inr [OF b]
  show ?thesis
    using s s(1) [unfolded input_problem_None]
    by (auto simp: output_key_def decided_in_time_def market_of_def to_token_safety_def
        to_wallet_stats_def list_all_iff)
qed

lemma write_signal_consistent:
  assumes b: "builder_consistent b" and e: "output_key (de_signal e) = key"
    "decided_in_time (de_signal e)" and new: "key \<notin> bs_written b" and ok: "\<And>k. bw_resume_ok W k"
    and w: "write_signal W key e b = (r, b')"
  shows "builder_consistent b' \<and> extends_disk (bs_disk b) (bs_disk b')"
  using assms
  by (auto simp: write_signal_def builder_consistent_def disk_consistent_def load_resume_def
      extends_disk_def Let_def split: if_splits)

lemma run_one_consistent:
  assumes "builder_consistent (snd cb)" and ok: "\<And>k. bw_resume_ok W k"
    and run: "run_one X W opt mint cs ts cb = Some (r, b')"
  shows "builder_consistent b' \<and> extends_disk (bs_disk (snd cb)) (bs_disk b')"
proof -
  obtain c b where cb: "cb = (c, b)" by (cases cb)
  show ?thesis
  proof (cases "resume_key mint ts \<in> bs_written b")
    case True
    then show ?thesis using assms by (auto simp: cb run_one_def)
  next
    case False
    obtain q cache where q: "build_one X W opt (bs_builds b) mint ts cs (bd_trades (bs_disk b))
        = Some (q, cache)"
      using run False by (auto simp: cb run_one_def bind_Some_iff Let_def)
    let ?b = "b\<lparr>bs_disk := (bs_disk b)\<lparr>bd_trades := cache\<rparr>\<rparr>"
    have c1: "builder_consistent ?b" using assms(1)
      by (simp add: cb builder_consistent_def disk_consistent_def load_resume_def)
    show ?thesis
    proof (cases q)
      case (Inl e)
      then show ?thesis using run False q c1
        by (auto simp: cb run_one_def builder_consistent_def)
    next
      case (Inr e)
      obtain w b2 where w: "write_signal W (resume_key mint ts) e ?b = (w, b2)"
        by (cases "write_signal W (resume_key mint ts) e ?b")
      have "builder_consistent b2 \<and> extends_disk (bs_disk ?b) (bs_disk b2)"
        using write_signal_consistent [OF c1 _ _ _ ok w] build_one_signal [OF q [unfolded Inr]] False
        by simp
      then show ?thesis using run False q Inr w
        by (auto simp: cb run_one_def builder_consistent_def extends_disk_def Let_def
            split: sum.splits)
    qed
  qed
qed

lemma run_grid_consistent:
  "builder_consistent (snd cb) \<Longrightarrow> (\<And>k. bw_resume_ok W k)
     \<Longrightarrow> run_grid X W opt mint cs tss cb = Some (r, b')
     \<Longrightarrow> builder_consistent b' \<and> extends_disk (bs_disk (snd cb)) (bs_disk b')"
proof (induction tss arbitrary: cb)
  case (Cons ts tss)
  obtain q b1 where q: "run_one X W opt mint cs ts cb = Some (q, b1)"
    using Cons.prems(3) by (auto split: option.splits)
  note one = run_one_consistent [OF Cons.prems(1,2) q]
  show ?case
  proof (cases q)
    case (Inl e)
    then show ?thesis using Cons.prems(3) q one by simp
  next
    case (Inr c)
    then have "run_grid X W opt mint cs tss (c, b1) = Some (r, b')" using Cons.prems(3) q by simp
    from Cons.IH [OF _ Cons.prems(2) this] one show ?thesis by (auto intro: extends_disk_trans)
  qed
qed simp

lemma run_mints_consistent:
  "builder_consistent (snd cb) \<Longrightarrow> (\<And>k. bw_resume_ok W k)
     \<Longrightarrow> run_mints X W opt grid ms cb = Some (r, b')
     \<Longrightarrow> builder_consistent b' \<and> extends_disk (bs_disk (snd cb)) (bs_disk b')"
proof (induction ms arbitrary: cb)
  case (Cons m ms)
  obtain q s where q: "fetch_window X (bw_ohlcv W) (bs_config (snd cb)) m (bo_interval opt)
      (bo_start opt - secs (24 * 3600)) (bo_end opt + mins (bo_future_window_minutes opt))
      (bs_ohlcv (snd cb)) = Some (q, s)"
    using Cons.prems(3) by (auto split: option.splits)
  let ?b = "(snd cb)\<lparr>bs_ohlcv := s\<rparr>"
  have c: "builder_consistent ?b" using Cons.prems(1) by (simp add: builder_consistent_def)
  show ?case
  proof (cases q)
    case (Inl e)
    then show ?thesis using Cons.prems(3) q c by auto
  next
    case (Inr cs)
    obtain g b1 where g: "run_grid X W opt m cs grid (fst cb, ?b) = Some (g, b1)"
      using Cons.prems(3) q Inr by (auto split: option.splits)
    have one: "builder_consistent b1 \<and> extends_disk (bs_disk (snd cb)) (bs_disk b1)"
      using run_grid_consistent [OF _ Cons.prems(2) g] c by simp
    show ?thesis
    proof (cases g)
      case (Inl e)
      then show ?thesis using Cons.prems(3) q Inr g one by simp
    next
      case (Inr c)
      then have "run_mints X W opt grid ms (c, b1) = Some (r, b')"
        using Cons.prems(3) q \<open>q = Inr cs\<close> g by simp
      from Cons.IH [OF _ Cons.prems(2) this] one show ?thesis by (auto intro: extends_disk_trans)
    qed
  qed
qed simp

section \<open>Properties\<close>

text \<open>
  C36: A dataset grows without repetition as long as the
  resume file can be written. Assumed are a disk to begin with whose output holds no token twice for one
  second and only point-in-time signals and whose resume file names exactly them, an empty disk among
  others, and that every write of the resume file succeeds. Then any sequence of builds over this disk,
  with any options, candles, wallets, answers and failing appends, only appends signals: no token is
  written twice for one second, the resume file names exactly what was written, and every signal of
  the output is point-in-time, with wallets and a price history. Without the second assumption this
  fails: \<open>crash_between_the_writes\<close> below.
\<close>

theorem signals_are_written_once:
  assumes "disk_consistent d" and "list_all (\<lambda>(env, caches, W, opt). bw_resume_ok W = (\<lambda>_. True)) rs"
    and "rebuilds X rs d = Some d'"
  shows "disk_consistent d' \<and> extends_disk d d'"
  using assms
proof (induction rs arbitrary: d)
  case (Cons r rs)
  obtain env caches W opt where r: "r = (env, caches, W, opt)" by (cases r)
  obtain d1 where d1: "rebuild X r d = Some d1" "rebuilds X rs d1 = Some d'"
    using Cons.prems(3) by (auto simp: bind_Some_iff)
  have "disk_consistent d1 \<and> extends_disk d d1"
  proof (cases "new_historical_builder env caches d")
    case (Inl e)
    then show ?thesis using d1 Cons.prems(1) by (simp add: rebuild_def r)
  next
    case (Inr b)
    then have b: "builder_consistent b" "bs_disk b = d"
      using Cons.prems(1)
      by (auto simp: new_historical_builder_def also_then_def builder_consistent_def
          disk_consistent_def split: sum.splits)
    obtain q b' where "run_mints X W opt
        (compute_signal_grid X (bo_start opt) (bo_end opt) (bo_signals_per_mint opt))
        (bo_mints opt) (no_counts_yet, b) = Some (q, b')" "d1 = bs_disk b'"
      using d1(1) Inr by (auto simp: rebuild_def r run_build_def Let_def)
    then show ?thesis using run_mints_consistent [of "(no_counts_yet, b)" W] b Cons.prems(2)
      by (auto simp: r builder_consistent_def)
  qed
  then show ?case using Cons.IH [OF _ _ d1(2)] Cons.prems(2) by (auto intro: extends_disk_trans)
qed simp

definition sample_build_world :: "jval build_world" where
  "sample_build_world = \<lparr>bw_json = jval_ops, bw_ohlcv = sample_ohlcv_world,
     bw_parse_dec = (\<lambda>_. Inr 1), bw_safety = (\<lambda>_. Inr sample_mint_answer),
     bw_signatures = (\<lambda>_ _ _ _. Inr sample_signatures), bw_order1 = (\<lambda>m. m), bw_order2 = (\<lambda>m. m),
     bw_serializes = (\<lambda>_. True), bw_append_ok = (\<lambda>_. True), bw_resume_ok = (\<lambda>_. True)\<rparr>"

definition sample_options :: build_options where
  "sample_options = \<lparr>bo_mints = [''m''], bo_start = secs 60, bo_end = secs 60, bo_interval = M1,
     bo_signals_per_mint = 1, bo_position_usd = 5, bo_token_decimals = 6,
     bo_base_mint_decimals = 9, bo_sol_price_usd = 150, bo_priority_fee_lamports = 10000,
     bo_swap_fee_bps = 30, bo_future_window_minutes = 240, bo_max_wallet_signatures = 10,
     bo_wallet_pubkeys = [''w'']\<rparr>"

abbreviation sample_candles :: "ohlcv_candle list" where
  "sample_candles \<equiv> [candle_at (secs 60) 1 2 1 1 100, candle_at (secs 120) 1 2 1 1 100]"

definition sample_caches :: ohlcv_state where
  "sample_caches = empty_ohlcv\<lparr>os_pages := (\<lambda>_. Some (Inr sample_candles))\<rparr>"

definition sample_env :: "string \<Rightarrow> string option" where
  "sample_env v = (if v = ''OHLCV_PROVIDER'' then Some ''geckoterminal'' else None)"

definition empty_disk :: build_disk where
  "empty_disk = \<lparr>bd_output = [], bd_resume = None, bd_trades = Map.empty\<rparr>"

lemma sample_build_one:
  "\<exists>e cache. build_one exact_ext sample_build_world sample_options 0 ''m'' (secs 60) sample_candles
     Map.empty = Some (Inr e, cache)"
proof -
  have f: "fetch_wallet_trades jval_ops (\<lambda>_ _. Inr sample_signatures) ''w'' (secs 60) 10 Map.empty
      = Some (Inr [sample_trade []], [trade_cache_path ''w'' \<mapsto> Inr [sample_trade []]])"
    using sample_fetched by (simp add: fetch_wallet_trades_def known_by_def sample_trade_def Let_def)
  obtain h where h: "reconstruct_at exact_ext (\<lambda>m. m) (\<lambda>m. m) [sample_trade []] (secs 60) = Some h"
    and u: "hw_updated_at h = secs 60" "hw_trades h = 1"
    by (simp add: reconstruct_at_def eligible_stats_def sample_trade_def per_mint_def
        push_trade_def mint_step_def no_totals_def win_share_def mean_or_zero_def median_of_def
        share_pct_def dec_sum_def score_wallet_def wallet_score_value_def to_wallet_stats_def
        default_thresholds_def fit_def dec_max_def secs_def nanos_def Let_def dec_of_word_def)
  obtain e where e: "build_signal exact_ext (new_builder 5 6 9 150) ''m'' (secs 60)
     (candle_at (secs 60) 1 2 1 1 100) sample_historical_safety [h]
     [candle_at (secs 120) 1 2 1 1 100] = Some (Inr e)"
    using sample_build_at [of "secs 60" h] u by auto
  have b: "builder_of sample_options = new_builder 5 6 9 150"
    by (simp add: builder_of_def sample_options_def new_builder_def with_priority_fee_def
        with_swap_fee_bps_def with_future_window_minutes_def)
  have o: "bo_wallet_pubkeys sample_options = [''w'']"
    "bo_max_wallet_signatures sample_options = 10" by (simp_all add: sample_options_def)
  have p: "pick_entry_candle sample_candles (secs 60) = Some (candle_at (secs 60) 1 2 1 1 100)"
    "filter (\<lambda>c. oc_timestamp c > secs 60) sample_candles = [candle_at (secs 120) 1 2 1 1 100]"
    by (simp_all add: pick_entry_candle_def candle_at_def secs_def nanos_def)
  show ?thesis
    by (simp only: build_one_def p option.case Let_def)
      (simp add: sample_build_world_def sample_safety_fetched o f h u b e)
qed

lemma sample_rebuild:
  "\<exists>d s. rebuild exact_ext (sample_env, sample_caches, sample_build_world, sample_options)
     empty_disk = Some d \<and> bd_output d = [s]"
proof -
  obtain e cache where e: "build_one exact_ext sample_build_world sample_options 0 ''m'' (secs 60)
      sample_candles Map.empty = Some (Inr e, cache)"
    using sample_build_one by blast
  obtain cfg where cfg: "provider_from_env sample_env = Inr cfg" "pc_page_seconds cfg = 7 * 86400"
    by (simp add: provider_from_env_def sample_env_def provider_of_env_def ascii_lower_def trim_def
        is_white_def)
  have w: "\<exists>s. fetch_window exact_ext (bw_ohlcv sample_build_world) cfg ''m'' M1
      (secs 60 - secs (24 * 3600)) (secs 60 + mins 240) sample_caches = Some (Inr sample_candles, s)"
  proof -
    let ?a = "secs 60 - secs (24 * 3600)" and ?b = "secs 60 + mins 240"
    have z: "\<not> ?a > ?b" "?a \<le> ?b" "page_end_of cfg ?a ?b = ?b" "\<not> ?b + secs 1 \<le> ?b"
      "\<not> mins 240 < - secs 86400"
      by (simp_all add: secs_def nanos_def mins_def page_end_of_def cfg(2))
    have f: "fetch_page exact_ext (bw_ohlcv sample_build_world) cfg ''m'' M1 ?a ?b sample_caches
        = Some (Inr sample_candles, sample_caches)"
      by (simp add: fetch_page_def sample_caches_def Let_def)
    have m: "fold insert_candle sample_candles []
        = [(60, candle_at (secs 60) 1 2 1 1 100), (120, candle_at (secs 120) 1 2 1 1 100)]"
      by (simp add: insert_candle_def candle_at_def timestamp_def secs_def nanos_def)
    have "window_loop exact_ext (bw_ohlcv sample_build_world) cfg ''m'' M1 ?a ?b [] sample_caches
        = Some (Inr [(60, candle_at (secs 60) 1 2 1 1 100), (120, candle_at (secs 120) 1 2 1 1 100)],
            sample_caches)"
      by (subst window_loop.simps, simp only: z f Let_def if_False not_not option.case prod.case
          sum.case m not_True_eq_False simp_thms, subst window_loop.simps, simp only: z not_False_eq_True if_True)
    then show ?thesis by (simp add: fetch_window_def z also_then_def)
  qed
  obtain s1 where w1: "fetch_window exact_ext (bw_ohlcv sample_build_world) cfg ''m'' M1
      (secs 60 - secs (24 * 3600)) (secs 60 + mins 240) sample_caches = Some (Inr sample_candles, s1)"
    using w by blast
  have g: "compute_signal_grid exact_ext (secs 60) (secs 60) 1 = [secs 60]"
    by (simp add: compute_signal_grid_def)
  have o: "bo_mints sample_options = [''m'']" "bo_start sample_options = secs 60"
    "bo_end sample_options = secs 60" "bo_interval sample_options = M1"
    "bo_signals_per_mint sample_options = 1" "bo_future_window_minutes sample_options = 240"
    by (simp_all add: sample_options_def)
  have k: "bw_serializes sample_build_world x" "bw_append_ok sample_build_world n"
    "bw_resume_ok sample_build_world n" for x n by (simp_all add: sample_build_world_def)
  show ?thesis
    by (simp add: rebuild_def new_historical_builder_def cfg load_resume_def empty_disk_def
        also_then_def run_build_def o g del: One_nat_def)
      (use w1 e in \<open>simp add: run_one_def write_signal_def k Let_def\<close>)
qed

lemma empty_disk_consistent: "disk_consistent empty_disk"
  by (simp add: disk_consistent_def empty_disk_def load_resume_def)

theorem signals_are_written_once_witness:
  "\<exists>d s. rebuilds exact_ext [(sample_env, sample_caches, sample_build_world, sample_options)]
     empty_disk = Some d \<and> bd_output d = [s] \<and> load_resume d = Inr {output_key s}"
proof -
  obtain d s where d: "rebuild exact_ext (sample_env, sample_caches, sample_build_world,
      sample_options) empty_disk = Some d" "bd_output d = [s]"
    using sample_rebuild by blast
  then have r: "rebuilds exact_ext [(sample_env, sample_caches, sample_build_world, sample_options)]
      empty_disk = Some d" by simp
  have "list_all (\<lambda>(env :: string \<Rightarrow> string option, caches :: ohlcv_state, W, opt :: build_options).
      bw_resume_ok W = (\<lambda>_. True))
      [(sample_env, sample_caches, sample_build_world, sample_options)]"
    by (simp add: sample_build_world_def)
  from signals_are_written_once [OF empty_disk_consistent this r] d r show ?thesis
    by (auto simp: disk_consistent_def)
qed

text \<open>
  The append comes first: when the process dies, or the write fails, between the two writes, the
  signal is in the output and not in the resume file, and the next run does not know it.
\<close>

lemma crash_between_the_writes:
  assumes "bw_serializes W (de_signal e)" and "bw_append_ok W (bs_builds b)"
    and "\<not> bw_resume_ok W (bs_builds b)" and "write_signal W key e b = (r, b')"
    and "load_resume (bs_disk b) = Inr known" and "key \<notin> known"
    and "new_historical_builder env caches (bs_disk b') = Inr b''"
  shows "bd_output (bs_disk b') = bd_output (bs_disk b) @ [de_signal e] \<and> key \<notin> bs_written b''"
  using assms
  by (auto simp: write_signal_def new_historical_builder_def load_resume_def also_then_def Let_def
      split: if_splits sum.splits)

end
