(* ===== verification/Historical_Validate.thy ===== *)
theory Historical_Validate
  imports Historical_Build
begin

text \<open>
  \<open>src/historical/validate.rs\<close>: the strict validator of a built dataset. It reads the lines itself,
  runs the loader of the backtest over the same content and counts every issue.
\<close>

section \<open>The validator\<close>

record validation_report =
  vr_records :: nat
  vr_valid_records :: nat
  vr_rejected_records :: nat
  vr_pit_violations :: nat
  vr_missing_data_records :: nat
  vr_duplicate_records :: nat
  vr_chronological_order_ok :: bool
  vr_date_range :: "(datetime \<times> datetime) option"
  vr_unique_tokens :: nat
  vr_unique_wallets :: nat
  vr_issues :: "string list"

definition is_clean :: "validation_report \<Rightarrow> bool" where
  "is_clean r \<longleftrightarrow> vr_rejected_records r = 0 \<and> vr_pit_violations r = 0
     \<and> vr_missing_data_records r = 0 \<and> vr_duplicate_records r = 0
     \<and> vr_chronological_order_ok r \<and> vr_issues r = []"

record line_scan =
  ls_signals :: "historical_signal list"
  ls_json_invalid :: nat
  ls_duplicates :: nat
  ls_seen :: "signal_key set"
  ls_issues :: "string list"

definition skipped_line :: "string \<Rightarrow> bool" where
  "skipped_line raw \<longleftrightarrow> trim raw = [] \<or> hd (trim raw) = CHR 0x23"

definition scan_line ::
    "ext \<Rightarrow> (string \<Rightarrow> string + historical_signal) \<Rightarrow> nat \<times> string \<Rightarrow> line_scan \<Rightarrow> line_scan" where
  "scan_line X parse nl a =
    (if skipped_line (snd nl) then a
     else case parse (trim (snd nl)) of
       Inl e \<Rightarrow> a\<lparr>ls_json_invalid := ls_json_invalid a + 1,
         ls_issues := ls_issues a @ [at_line (fst nl + 1) (''invalid JSON: '' @ e)]\<rparr>
     | Inr s \<Rightarrow>
         if signal_key s \<in> ls_seen a
         then a\<lparr>ls_duplicates := ls_duplicates a + 1,
           ls_issues := ls_issues a @ [at_line (fst nl + 1) (''duplicate signal ('' @ hs_mint s
             @ '' @ '' @ time_show X (signal_timestamp s) @ '')'')]\<rparr>
         else a\<lparr>ls_signals := ls_signals a @ [s], ls_seen := insert (signal_key s) (ls_seen a)\<rparr>)"

definition empty_scan_state :: line_scan where
  "empty_scan_state = \<lparr>ls_signals = [], ls_json_invalid = 0, ls_duplicates = 0, ls_seen = {},
     ls_issues = []\<rparr>"

fun in_order :: "historical_signal list \<Rightarrow> bool" where
  "in_order (a # b # rest) = (\<not> signal_timestamp a > signal_timestamp b \<and> in_order (b # rest))"
| "in_order _ = True"

text \<open>What is wrong with the data of a loaded signal.\<close>

definition data_issues :: "ext \<Rightarrow> historical_signal \<Rightarrow> string list" where
  "data_issues X s = (let ts = time_show X (signal_timestamp s) in
     (case price_history s of
        [] \<Rightarrow> [ts @ '': empty price_history'']
      | ob # _ \<Rightarrow> if po_timestamp ob < signal_timestamp s
          then [ts @ '': price_history[0].timestamp precedes signal_timestamp''] else [])
     @ (if position_size_usd (cm_input (hs_costs s)) \<noteq> hs_position_usd s
        then [ts @ '': costs.input.position_size_usd ('' 
            @ dec_show X (position_size_usd (cm_input (hs_costs s)))
            @ '') != signal.position_usd ('' @ dec_show X (hs_position_usd s) @ '')'']
        else []))"

definition validation_report_of ::
    "ext \<Rightarrow> (string \<Rightarrow> string + historical_signal) \<Rightarrow> string \<Rightarrow> validation_report" where
  "validation_report_of X parse content =
    (let a = fold (scan_line X parse) (enumerate 0 (str_lines content)) empty_scan_state;
         loaded = load_historical_signals X parse content;
         sorted_signals = lr_signals loaded;
         chrono = in_order sorted_signals;
         data = concat (map (data_issues X) sorted_signals);
         all = length (ls_signals a) + ls_json_invalid a in
     \<lparr>vr_records = all,
      vr_valid_records = length sorted_signals,
      vr_rejected_records = all - length sorted_signals,
      vr_pit_violations = length (lr_rejection_reasons loaded),
      vr_missing_data_records = length data,
      vr_duplicate_records = ls_duplicates a,
      vr_chronological_order_ok = chrono,
      vr_date_range = (if sorted_signals = [] then None
        else Some (signal_timestamp (hd sorted_signals), signal_timestamp (last sorted_signals))),
      vr_unique_tokens = card (hs_mint ` set sorted_signals),
      vr_unique_wallets = card (set (concat (map (\<lambda>s. map w_wallet (hs_wallets s))
        sorted_signals))),
      vr_issues = ls_issues a
        @ map (\<lambda>r. ''load-time rejection: '' @ r) (lr_rejection_reasons loaded)
        @ (if chrono then [] else [''signals not in chronological order''])
        @ data\<rparr>)"

text \<open>\<open>None\<close> is a file that cannot be read.\<close>

definition validate_dataset ::
    "ext \<Rightarrow> (string \<Rightarrow> string + historical_signal) \<Rightarrow> bool \<Rightarrow> string option
     \<Rightarrow> string + validation_report" where
  "validate_dataset X parse strict file = (case file of
      None \<Rightarrow> Inl ''read''
    | Some content \<Rightarrow> (let r = validation_report_of X parse content in
        if strict \<and> \<not> is_clean r
        then Inl (''validation failed: rejected='' @ show_nat (vr_rejected_records r) @ '', pit=''
          @ show_nat (vr_pit_violations r) @ '', missing='' @ show_nat (vr_missing_data_records r)
          @ '', dup='' @ show_nat (vr_duplicate_records r) @ '', chrono_ok=''
          @ (if vr_chronological_order_ok r then ''true'' else ''false''))
        else Inr r))"

section \<open>Reference\<close>

text \<open>
  What the strict validator is to accept: every line that is neither blank nor a comment parses to
  a signal that the loader accepts, whose costs are for its own size, and no two signals share
  token and time.
\<close>

fun clean_lines ::
    "ext \<Rightarrow> (string \<Rightarrow> string + historical_signal) \<Rightarrow> signal_key set \<Rightarrow> (nat \<times> string) list \<Rightarrow> bool" where
  "clean_lines X parse seen [] = True"
| "clean_lines X parse seen ((n, raw) # nls) =
     (if skipped_line raw then clean_lines X parse seen nls
      else case parse (trim raw) of
        Inl e \<Rightarrow> False
      | Inr s \<Rightarrow> validate_signal X s (n + 1) = Inr () \<and> signal_key s \<notin> seen
          \<and> position_size_usd (cm_input (hs_costs s)) = hs_position_usd s
          \<and> clean_lines X parse (insert (signal_key s) seen) nls)"

fun signals_of ::
    "(string \<Rightarrow> string + historical_signal) \<Rightarrow> (nat \<times> string) list \<Rightarrow> historical_signal list" where
  "signals_of parse [] = []"
| "signals_of parse ((n, raw) # nls) =
     (if skipped_line raw then signals_of parse nls
      else case parse (trim raw) of Inl e \<Rightarrow> signals_of parse nls | Inr s \<Rightarrow> s # signals_of parse nls)"

section \<open>Facts\<close>

lemma in_order_sorted: "in_order ss \<longleftrightarrow> sorted (map signal_timestamp ss)"
  by (induction ss rule: in_order.induct) (auto simp: not_less intro: order.trans)

lemma load_sorted: "in_order (lr_signals (load_historical_signals X parse content))"
  by (simp add: in_order_sorted load_historical_signals_def split: prod.split)

lemma loaded_signals_ok: "list_all signal_ok (lr_signals (load_historical_signals X parse content))"
proof -
  have "load_inv (fold (load_line X parse) (enumerate 0 (str_lines content))
      (\<lparr>lr_signals = [], lr_rejected_count = 0, lr_rejection_reasons = []\<rparr>, {}))"
    by (rule load_fold_inv) (simp add: load_inv_def)
  then show ?thesis
    by (simp add: load_historical_signals_def load_inv_def list_all_iff split: prod.splits)
qed

text \<open>A loaded signal has no data issue but a size that differs.\<close>

lemma data_issues_ok:
  "signal_ok s \<Longrightarrow> data_issues X s = [] \<longleftrightarrow> position_size_usd (cm_input (hs_costs s)) = hs_position_usd s"
  by (cases "price_history s")
    (auto simp: data_issues_def signal_ok_def observation_ok_def Let_def)

lemma scan_grows:
  "\<exists>more. ls_issues (fold (scan_line X parse) nls a) = ls_issues a @ more"
proof (induction nls arbitrary: a)
  case (Cons nl nls)
  have "\<exists>m. ls_issues (scan_line X parse nl a) = ls_issues a @ m"
    by (auto simp: scan_line_def split: sum.split)
  then show ?case using Cons.IH [of "scan_line X parse nl a"] by auto
qed simp

lemma load_grows:
  "\<exists>more. lr_rejection_reasons (fst (fold (load_line X parse) nls a))
     = lr_rejection_reasons (fst a) @ more"
proof (induction nls arbitrary: a)
  case (Cons nl nls)
  have "\<exists>m. lr_rejection_reasons (fst (load_line X parse nl a)) = lr_rejection_reasons (fst a) @ m"
    by (cases a; cases nl) (auto simp: load_line_def reject_def Let_def split: sum.split)
  then show ?case using Cons.IH [of "load_line X parse nl a"] by auto
qed simp

text \<open>The loader rejects nothing exactly on these lines, and then keeps all their signals.\<close>

fun loadable ::
    "ext \<Rightarrow> (string \<Rightarrow> string + historical_signal) \<Rightarrow> signal_key set \<Rightarrow> (nat \<times> string) list \<Rightarrow> bool" where
  "loadable X parse seen [] = True"
| "loadable X parse seen ((n, raw) # nls) =
     (if skipped_line raw then loadable X parse seen nls
      else case parse (trim raw) of
        Inl e \<Rightarrow> False
      | Inr s \<Rightarrow> validate_signal X s (n + 1) = Inr () \<and> signal_key s \<notin> seen
          \<and> loadable X parse (insert (signal_key s) seen) nls)"

lemma load_all:
  "loadable X parse seen nls \<Longrightarrow> lr_rejection_reasons r = []
     \<Longrightarrow> lr_rejection_reasons (fst (fold (load_line X parse) nls (r, seen))) = []
       \<and> lr_signals (fst (fold (load_line X parse) nls (r, seen)))
           = lr_signals r @ signals_of parse nls"
proof (induction nls arbitrary: r seen)
  case (Cons nl nls)
  obtain n raw where nl: "nl = (n, raw)" by (cases nl)
  show ?case
  proof (cases "skipped_line raw")
    case True
    then have "load_line X parse nl (r, seen) = (r, seen)"
      by (auto simp: load_line_def nl skipped_line_def Let_def)
    then show ?thesis using Cons.IH [of seen r] Cons.prems True by (simp add: nl)
  next
    case False
    then obtain s where s: "parse (trim raw) = Inr s" "validate_signal X s (Suc n) = Inr ()"
      "signal_key s \<notin> seen" "loadable X parse (insert (signal_key s) seen) nls"
      using Cons.prems(1) by (auto simp: nl split: sum.splits)
    have "load_line X parse nl (r, seen)
        = (r\<lparr>lr_signals := lr_signals r @ [s]\<rparr>, insert (signal_key s) seen)"
      using False s by (simp add: load_line_def nl skipped_line_def Let_def)
    then show ?thesis
      using Cons.IH [OF s(4), of "r\<lparr>lr_signals := lr_signals r @ [s]\<rparr>"] Cons.prems(2) s(1) False
      by (simp add: nl)
  qed
qed simp

lemma not_loadable_rejects:
  "\<not> loadable X parse seen nls
     \<Longrightarrow> lr_rejection_reasons (fst (fold (load_line X parse) nls (r, seen))) \<noteq> []"
proof (induction nls arbitrary: r seen)
  case (Cons nl nls)
  obtain n raw where nl: "nl = (n, raw)" by (cases nl)
  show ?case
  proof (cases "skipped_line raw")
    case True
    then have "load_line X parse nl (r, seen) = (r, seen)"
      by (auto simp: load_line_def nl skipped_line_def Let_def)
    then show ?thesis using Cons.IH [of seen r] Cons.prems True by (simp add: nl)
  next
    case False
    show ?thesis
    proof (cases "\<exists>s. parse (trim raw) = Inr s \<and> validate_signal X s (Suc n) = Inr ()
        \<and> signal_key s \<notin> seen")
      case True
      then obtain s where s: "parse (trim raw) = Inr s" "validate_signal X s (Suc n) = Inr ()"
        "signal_key s \<notin> seen" by blast
      have "load_line X parse nl (r, seen)
          = (r\<lparr>lr_signals := lr_signals r @ [s]\<rparr>, insert (signal_key s) seen)"
        using False s by (simp add: load_line_def nl skipped_line_def Let_def)
      moreover have "\<not> loadable X parse (insert (signal_key s) seen) nls"
        using Cons.prems False s by (simp add: nl)
      ultimately show ?thesis using Cons.IH by simp
    next
      case bad: False
      have "lr_rejection_reasons (fst (load_line X parse nl (r, seen))) \<noteq> []"
        using False bad
        by (auto simp: load_line_def reject_def nl skipped_line_def Let_def split: sum.splits)
      then show ?thesis using load_grows [of X parse nls "load_line X parse nl (r, seen)"] by auto
    qed
  qed
qed simp

text \<open>On loadable lines the validator's own scan finds the same signals and no issue.\<close>

lemma scan_all:
  "loadable X parse (ls_seen a) nls \<Longrightarrow> ls_issues a = []
     \<Longrightarrow> (let a' = fold (scan_line X parse) nls a in ls_issues a' = []
          \<and> ls_signals a' = ls_signals a @ signals_of parse nls
          \<and> ls_json_invalid a' = ls_json_invalid a \<and> ls_duplicates a' = ls_duplicates a)"
proof (induction nls arbitrary: a)
  case (Cons nl nls)
  obtain n raw where nl: "nl = (n, raw)" by (cases nl)
  show ?case
  proof (cases "skipped_line raw")
    case True
    then show ?thesis using Cons.IH [of a] Cons.prems by (simp add: nl scan_line_def)
  next
    case False
    then obtain s where s: "parse (trim raw) = Inr s" "signal_key s \<notin> ls_seen a"
      "loadable X parse (insert (signal_key s) (ls_seen a)) nls"
      using Cons.prems(1) by (auto simp: nl split: sum.splits)
    let ?a = "a\<lparr>ls_signals := ls_signals a @ [s], ls_seen := insert (signal_key s) (ls_seen a)\<rparr>"
    have "scan_line X parse nl a = ?a" using False s by (simp add: scan_line_def nl)
    then show ?thesis using Cons.IH [of ?a] Cons.prems(2) s False by (simp add: nl Let_def)
  qed
qed simp

text \<open>
  Every loaded signal has a key the scan has seen, so the count of rejected records, a plain
  subtraction in the code, does not underflow.
\<close>

definition scans_agree :: "load_result \<times> signal_key set \<Rightarrow> line_scan \<Rightarrow> bool" where
  "scans_agree l a \<longleftrightarrow> snd l \<subseteq> ls_seen a \<and> finite (ls_seen a)
     \<and> length (lr_signals (fst l)) = card (snd l) \<and> length (ls_signals a) = card (ls_seen a)"

lemma scans_agree_line:
  assumes "scans_agree l a"
  shows "scans_agree (load_line X parse nl l) (scan_line X parse nl a)"
proof -
  obtain n raw r seen where nl: "nl = (n, raw)" "l = (r, seen)" by (cases nl, cases l)
  have fin: "finite seen" using assms finite_subset by (auto simp: scans_agree_def nl)
  show ?thesis
  proof (cases "skipped_line raw")
    case True
    then show ?thesis using assms
      by (auto simp: nl load_line_def scan_line_def skipped_line_def Let_def)
  next
    case False
    then show ?thesis using assms fin
      by (auto simp: nl load_line_def scan_line_def skipped_line_def reject_def scans_agree_def
          Let_def split: sum.splits)
  qed
qed

lemma scans_agree_fold:
  "scans_agree l a \<Longrightarrow> scans_agree (fold (load_line X parse) nls l) (fold (scan_line X parse) nls a)"
proof (induction nls arbitrary: l a)
  case (Cons nl nls)
  from Cons.IH [OF scans_agree_line [OF Cons.prems]] show ?case by simp
qed simp

lemma valid_records_bounded:
  "vr_valid_records (validation_report_of X parse content)
     \<le> vr_records (validation_report_of X parse content)"
proof -
  have "scans_agree (\<lparr>lr_signals = [], lr_rejected_count = 0, lr_rejection_reasons = []\<rparr>, {})
      empty_scan_state" by (simp add: scans_agree_def empty_scan_state_def)
  from scans_agree_fold [OF this, of X parse "enumerate 0 (str_lines content)"]
  have "length (lr_signals (load_historical_signals X parse content))
      \<le> length (ls_signals (fold (scan_line X parse) (enumerate 0 (str_lines content))
          empty_scan_state))"
    by (auto simp: scans_agree_def load_historical_signals_def card_mono split: prod.split)
  then show ?thesis by (simp add: validation_report_of_def Let_def)
qed

lemma clean_lines_loadable:
  "clean_lines X parse seen nls \<longleftrightarrow> loadable X parse seen nls
     \<and> list_all (\<lambda>s. position_size_usd (cm_input (hs_costs s)) = hs_position_usd s)
         (signals_of parse nls)"
  by (induction X parse seen nls rule: clean_lines.induct) (auto split: sum.splits)

section \<open>Properties\<close>

text \<open>The report of a file that does not load is not clean; of one that does, the sizes decide.\<close>

definition unread :: "load_result \<times> signal_key set" where
  "unread = (\<lparr>lr_signals = [], lr_rejected_count = 0, lr_rejection_reasons = []\<rparr>, {})"

lemma load_fold:
  "lr_rejection_reasons (load_historical_signals X parse content)
    = lr_rejection_reasons (fst (fold (load_line X parse) (enumerate 0 (str_lines content)) unread))"
  "lr_signals (load_historical_signals X parse content)
    = sort_key signal_timestamp
        (lr_signals (fst (fold (load_line X parse) (enumerate 0 (str_lines content)) unread)))"
  by (simp_all add: load_historical_signals_def unread_def split: prod.split)

lemma unloadable_not_clean:
  assumes "\<not> loadable X parse {} (enumerate 0 (str_lines content))"
  shows "\<not> is_clean (validation_report_of X parse content)"
proof -
  have "lr_rejection_reasons (load_historical_signals X parse content) \<noteq> []"
    using not_loadable_rejects [OF assms] load_fold(1) [of X parse content] unfolding unread_def
    by metis
  then show ?thesis by (simp add: is_clean_def validation_report_of_def Let_def)
qed

lemma loadable_report:
  assumes "loadable X parse {} (enumerate 0 (str_lines content))"
  defines "ss \<equiv> signals_of parse (enumerate 0 (str_lines content))"
    and "r \<equiv> validation_report_of X parse content"
  shows "is_clean r \<longleftrightarrow> list_all (\<lambda>s. position_size_usd (cm_input (hs_costs s)) = hs_position_usd s) ss"
    and "vr_records r = length ss" and "vr_valid_records r = length ss"
proof -
  let ?nls = "enumerate 0 (str_lines content)"
  have l: "lr_rejection_reasons (load_historical_signals X parse content) = []"
    "lr_signals (load_historical_signals X parse content) = sort_key signal_timestamp ss"
    using load_all [OF assms(1), of "fst unread"] load_fold [of X parse content]
    by (simp_all add: unread_def ss_def)
  have s: "ls_issues (fold (scan_line X parse) ?nls empty_scan_state) = []"
    "ls_signals (fold (scan_line X parse) ?nls empty_scan_state) = ss"
    "ls_json_invalid (fold (scan_line X parse) ?nls empty_scan_state) = 0"
    "ls_duplicates (fold (scan_line X parse) ?nls empty_scan_state) = 0"
    using scan_all [of X parse empty_scan_state ?nls] assms(1)
    by (simp_all add: empty_scan_state_def ss_def Let_def)
  have d: "concat (map (data_issues X) (lr_signals (load_historical_signals X parse content))) = []
      \<longleftrightarrow> list_all (\<lambda>s. position_size_usd (cm_input (hs_costs s)) = hs_position_usd s) ss"
    using loaded_signals_ok [of X parse content] data_issues_ok by (auto simp: l(2) list_all_iff)
  show "is_clean r \<longleftrightarrow> list_all (\<lambda>s. position_size_usd (cm_input (hs_costs s)) = hs_position_usd s) ss"
    and "vr_records r = length ss" and "vr_valid_records r = length ss"
    using d load_sorted [of X parse content] l s
    by (simp_all add: r_def is_clean_def validation_report_of_def Let_def)
qed

text \<open>
  What the strict validator accepts: a file passes if and only if every line that is neither blank
  nor a comment parses to a signal that the loader of the backtest accepts, with costs for its own
  size, and no two of them share token and time; the report then counts each of them once as valid.
  The documented check of the chronological order is not among the conditions, see below.
\<close>

lemma strict_validation_is_exact:
  "(case validate_dataset X parse True (Some content) of
      Inl e \<Rightarrow> \<not> clean_lines X parse {} (enumerate 0 (str_lines content))
    | Inr r \<Rightarrow> clean_lines X parse {} (enumerate 0 (str_lines content)) \<and> is_clean r
        \<and> vr_records r = length (signals_of parse (enumerate 0 (str_lines content)))
        \<and> vr_valid_records r = vr_records r)"
proof (cases "loadable X parse {} (enumerate 0 (str_lines content))")
  case False
  then show ?thesis using unloadable_not_clean [OF False]
    by (simp add: validate_dataset_def clean_lines_loadable Let_def)
next
  case True
  from loadable_report [OF this] True show ?thesis
    by (simp add: validate_dataset_def clean_lines_loadable Let_def)
qed

text \<open>
  The chronological check cannot fail: it looks at the signals after the loader has sorted them, so
  a file whose lines are out of order is reported as in order.
\<close>

lemma order_is_never_violated: "vr_chronological_order_ok (validation_report_of X parse content)"
  using load_sorted by (simp add: validation_report_of_def Let_def)

end
