(* ===== verification/Report.thy ===== *)
theory Report
  imports Store
begin

text \<open>
  \<open>src/report.rs\<close>: the performance report over the persisted positions and orders. The counters are
  32-bit and their increment is a plain operator; the two maps of counters are partial functions.
  The printed forms of a report are not modelled.
\<close>

section \<open>The report\<close>

record performance_report =
  pr_total_trades :: u32
  pr_wins :: u32
  pr_losses :: u32
  pr_total_pnl_usd :: decimal
  pr_gross_wins_usd :: decimal
  pr_gross_losses_usd :: decimal
  pr_total_fees_usd :: decimal
  pr_win_rate :: decimal
  pr_expectancy :: decimal
  pr_profit_factor :: decimal
  pr_max_drawdown_usd :: decimal
  pr_max_drawdown_pct :: decimal
  pr_peak_equity_usd :: decimal
  pr_min_equity_usd :: decimal
  pr_avg_holding_minutes :: decimal
  pr_exits_by_reason :: "string \<rightharpoonup> u32"
  pr_rejections_by_reason :: "string \<rightharpoonup> u32"
  pr_starting_capital_usd :: decimal
  pr_ending_equity_usd :: decimal

definition new_report :: "decimal \<Rightarrow> performance_report" where
  "new_report start = \<lparr>pr_total_trades = 0, pr_wins = 0, pr_losses = 0, pr_total_pnl_usd = 0,
     pr_gross_wins_usd = 0, pr_gross_losses_usd = 0, pr_total_fees_usd = 0, pr_win_rate = 0,
     pr_expectancy = 0, pr_profit_factor = 0, pr_max_drawdown_usd = 0, pr_max_drawdown_pct = 0,
     pr_peak_equity_usd = start, pr_min_equity_usd = start, pr_avg_holding_minutes = 0,
     pr_exits_by_reason = Map.empty, pr_rejections_by_reason = Map.empty,
     pr_starting_capital_usd = start, pr_ending_equity_usd = 0\<rparr>"

text \<open>\<open>n += 1\<close> on a counter, and \<open>*m.entry(k).or_insert(0) += 1\<close> on a map of them.\<close>

definition bump_u32 :: "ext \<Rightarrow> u32 \<Rightarrow> u32 option" where
  "bump_u32 X n = (if overflow_checks X \<and> n = - 1 then None else Some (n + 1))"

definition bump_counter :: "ext \<Rightarrow> string \<Rightarrow> (string \<rightharpoonup> u32) \<Rightarrow> (string \<rightharpoonup> u32) option" where
  "bump_counter X k m = map_option (\<lambda>n. m(k \<mapsto> n)) (bump_u32 X (case m k of None \<Rightarrow> 0 | Some n \<Rightarrow> n))"

section \<open>Positions\<close>

text \<open>The outcome counters: wins or losses with their gross amount.\<close>

definition book_outcome :: "ext \<Rightarrow> decimal \<Rightarrow> performance_report \<Rightarrow> performance_report option" where
  "book_outcome X pnl r =
    (if pnl > 0
     then do {
       w \<leftarrow> bump_u32 X (pr_wins r);
       g \<leftarrow> dec_add X (pr_gross_wins_usd r) pnl;
       Some (r\<lparr>pr_wins := w, pr_gross_wins_usd := g\<rparr>)
     }
     else do {
       l \<leftarrow> bump_u32 X (pr_losses r);
       g \<leftarrow> dec_add X (pr_gross_losses_usd r) \<bar>pnl\<bar>;
       Some (r\<lparr>pr_losses := l, pr_gross_losses_usd := g\<rparr>)
     })"

text \<open>The equity of the source is the peak so far plus this profit.\<close>

definition track_equity :: "ext \<Rightarrow> decimal \<Rightarrow> performance_report \<Rightarrow> performance_report option" where
  "track_equity X pnl r = do {
     cur \<leftarrow> dec_add X (pr_peak_equity_usd r) pnl;
     let peak = (if cur > pr_peak_equity_usd r then cur else pr_peak_equity_usd r);
     let low = (if cur < pr_min_equity_usd r then cur else pr_min_equity_usd r);
     Some (r\<lparr>pr_peak_equity_usd := peak, pr_min_equity_usd := low, pr_ending_equity_usd := cur\<rparr>)
   }"

definition exit_reason_of :: "position \<Rightarrow> string" where
  "exit_reason_of p = (case p_exit_reason p of None \<Rightarrow> [] | Some s \<Rightarrow> s)"

definition book_closed :: "ext \<Rightarrow> position \<Rightarrow> performance_report \<Rightarrow> performance_report option" where
  "book_closed X p r = do {
     let pnl = p_realized_pnl_usd p;
     fees \<leftarrow> dec_add X (p_fees_usd p) (case p_exit_fees_usd p of None \<Rightarrow> 0 | Some f \<Rightarrow> f);
     n \<leftarrow> bump_u32 X (pr_total_trades r);
     t \<leftarrow> dec_add X (pr_total_pnl_usd r) pnl;
     fs \<leftarrow> dec_add X (pr_total_fees_usd r) fees;
     r1 \<leftarrow> book_outcome X pnl
            (r\<lparr>pr_total_trades := n, pr_total_pnl_usd := t, pr_total_fees_usd := fs\<rparr>);
     m \<leftarrow> bump_counter X (exit_reason_of p) (pr_exits_by_reason r1);
     track_equity X pnl (r1\<lparr>pr_exits_by_reason := m\<rparr>)
   }"

fun book_positions ::
    "ext \<Rightarrow> position list \<Rightarrow> performance_report \<Rightarrow> performance_report option" where
  "book_positions X [] r = Some r"
| "book_positions X (p # ps) r =
    (if p_state p = PosClosed then Option.bind (book_closed X p r) (book_positions X ps)
     else book_positions X ps r)"

section \<open>Metrics\<close>

definition rates :: "ext \<Rightarrow> performance_report \<Rightarrow> performance_report option" where
  "rates X r =
    (if pr_total_trades r > 0
     then do {
       q \<leftarrow> dec_div X (dec_of_word (pr_wins r)) (dec_of_word (pr_total_trades r));
       w \<leftarrow> dec_mul X q 100;
       e \<leftarrow> dec_div X (pr_total_pnl_usd r) (dec_of_word (pr_total_trades r));
       Some (r\<lparr>pr_win_rate := w, pr_expectancy := e\<rparr>)
     }
     else Some r)"

definition u64_max_dec :: decimal where "u64_max_dec = dec_of_word (- 1 :: u64)"

definition factor :: "ext \<Rightarrow> performance_report \<Rightarrow> performance_report option" where
  "factor X r = do {
     f \<leftarrow> (if pr_gross_losses_usd r > 0 then dec_div X (pr_gross_wins_usd r) (pr_gross_losses_usd r)
          else Some (if pr_gross_wins_usd r > 0 then u64_max_dec else 0));
     Some (r\<lparr>pr_profit_factor := f\<rparr>)
   }"

definition drawdown :: "ext \<Rightarrow> performance_report \<Rightarrow> performance_report option" where
  "drawdown X r =
    (if pr_peak_equity_usd r > 0
     then do {
       dd \<leftarrow> dec_sub X (pr_peak_equity_usd r) (pr_min_equity_usd r);
       q \<leftarrow> dec_div X dd (pr_peak_equity_usd r);
       pct \<leftarrow> dec_mul X q 100;
       Some (r\<lparr>pr_max_drawdown_usd := dd, pr_max_drawdown_pct := pct\<rparr>)
     }
     else Some r)"

section \<open>Orders\<close>

definition failure_reason :: "order_record \<Rightarrow> string" where
  "failure_reason ord = (case o_error ord of None \<Rightarrow> ''unknown'' | Some e \<Rightarrow> e)"

fun count_rejections ::
    "ext \<Rightarrow> order_record list \<Rightarrow> performance_report \<Rightarrow> performance_report option" where
  "count_rejections X [] r = Some r"
| "count_rejections X (ord # ords) r =
    (if o_state ord = Failed
     then do {
       m \<leftarrow> bump_counter X (failure_reason ord) (pr_rejections_by_reason r);
       count_rejections X ords (r\<lparr>pr_rejections_by_reason := m\<rparr>)
     }
     else count_rejections X ords r)"

text \<open>\<open>generate\<close>.\<close>

definition generate_report ::
    "ext \<Rightarrow> store \<Rightarrow> decimal \<Rightarrow> (storage_error + performance_report) option" where
  "generate_report X st start =
    (case positions st of
       Inl e \<Rightarrow> Some (Inl e)
     | Inr ps \<Rightarrow> do {
         r1 \<leftarrow> book_positions X ps (new_report start);
         r2 \<leftarrow> rates X r1;
         r3 \<leftarrow> factor X r2;
         r4 \<leftarrow> drawdown X r3;
         r5 \<leftarrow> count_rejections X (all_orders st) r4;
         Some (Inr r5)
       })"

section \<open>Facts\<close>

lemma bump_u32_exact:
  assumes "bump_u32 exact_ext n = Some m"
  shows "unat m = unat n + 1"
proof -
  have m: "n \<noteq> - 1" "m = n + 1" using assms by (auto simp: bump_u32_def split: if_splits)
  have "unat n \<noteq> unat (- 1 :: u32)" using m(1) by (metis unsigned_word_eqI)
  then have "unat n + unat (1 :: u32) < 2 ^ LENGTH(32)"
    using unat_below [of n] by (simp add: unat_max_word)
  then show ?thesis using unat_add_below [of n 1] m(2) by simp
qed

definition count_at :: "(string \<rightharpoonup> u32) \<Rightarrow> string \<Rightarrow> nat" where
  "count_at m k = (case m k of None \<Rightarrow> 0 | Some n \<Rightarrow> unat n)"

lemma count_at_empty [simp]: "count_at Map.empty k = 0"
  by (simp add: count_at_def)

lemma bump_counter_exact:
  "bump_counter exact_ext k m = Some m' \<Longrightarrow> count_at m' k' = count_at m k' + of_bool (k' = k)"
  by (auto simp: bump_counter_def count_at_def dest!: bump_u32_exact split: option.splits)

definition is_win :: "position \<Rightarrow> bool" where "is_win p \<longleftrightarrow> p_realized_pnl_usd p > 0"

definition closed_positions :: "position list \<Rightarrow> position list" where
  "closed_positions ps = filter (\<lambda>p. p_state p = PosClosed) ps"

lemma book_outcome_exact:
  assumes "book_outcome exact_ext pnl r = Some r'"
  shows "pr_total_trades r' = pr_total_trades r" "pr_total_pnl_usd r' = pr_total_pnl_usd r"
    "pr_exits_by_reason r' = pr_exits_by_reason r" "pr_peak_equity_usd r' = pr_peak_equity_usd r"
    "pr_rejections_by_reason r' = pr_rejections_by_reason r"
    "pr_total_fees_usd r' = pr_total_fees_usd r"
    "unat (pr_wins r') = unat (pr_wins r) + of_bool (0 < pnl)"
    "unat (pr_losses r') = unat (pr_losses r) + of_bool (\<not> 0 < pnl)"
    "pr_gross_wins_usd r' = pr_gross_wins_usd r + max 0 pnl"
    "pr_gross_losses_usd r' = pr_gross_losses_usd r + max 0 (- pnl)"
  using assms
  by (auto simp: book_outcome_def panic_simps split: if_splits dest!: fit_SomeD bump_u32_exact)

lemma track_equity_exact:
  assumes "track_equity exact_ext pnl r = Some r'"
  shows "pr_total_trades r' = pr_total_trades r" "pr_total_pnl_usd r' = pr_total_pnl_usd r"
    "pr_exits_by_reason r' = pr_exits_by_reason r"
    "pr_rejections_by_reason r' = pr_rejections_by_reason r"
    "pr_total_fees_usd r' = pr_total_fees_usd r" "pr_wins r' = pr_wins r"
    "pr_losses r' = pr_losses r" "pr_gross_wins_usd r' = pr_gross_wins_usd r"
    "pr_gross_losses_usd r' = pr_gross_losses_usd r"
    "pr_peak_equity_usd r' = pr_peak_equity_usd r + max 0 pnl"
    "pr_ending_equity_usd r' = pr_peak_equity_usd r + pnl"
  using assms by (auto simp: track_equity_def panic_simps Let_def dest!: fit_SomeD)

text \<open>What booking the positions \<open>ps\<close> has added to the report.\<close>

definition booked :: "position list \<Rightarrow> performance_report \<Rightarrow> performance_report \<Rightarrow> bool" where
  "booked cs r r' \<longleftrightarrow>
     unat (pr_total_trades r') = unat (pr_total_trades r) + length cs
     \<and> unat (pr_wins r') = unat (pr_wins r) + length (filter is_win cs)
     \<and> unat (pr_losses r') = unat (pr_losses r) + length (filter (\<lambda>p. \<not> is_win p) cs)
     \<and> pr_total_pnl_usd r' = pr_total_pnl_usd r + (\<Sum>p\<leftarrow>cs. p_realized_pnl_usd p)
     \<and> pr_gross_wins_usd r' = pr_gross_wins_usd r + (\<Sum>p\<leftarrow>cs. max 0 (p_realized_pnl_usd p))
     \<and> pr_gross_losses_usd r' = pr_gross_losses_usd r + (\<Sum>p\<leftarrow>cs. max 0 (- p_realized_pnl_usd p))
     \<and> pr_peak_equity_usd r' = pr_peak_equity_usd r + (\<Sum>p\<leftarrow>cs. max 0 (p_realized_pnl_usd p))
     \<and> pr_rejections_by_reason r' = pr_rejections_by_reason r
     \<and> (\<forall>k. count_at (pr_exits_by_reason r') k
          = count_at (pr_exits_by_reason r) k + count_list (map exit_reason_of cs) k)"

lemma booked_nil [simp]: "booked [] r r" by (simp add: booked_def)

lemma booked_trans: "booked [p] r r1 \<Longrightarrow> booked cs r1 r' \<Longrightarrow> booked (p # cs) r r'"
  by (auto simp: booked_def)

lemma book_closed_exact:
  assumes "book_closed exact_ext p r = Some r'"
  shows "booked [p] r r'"
proof -
  let ?pnl = "p_realized_pnl_usd p"
  obtain n t fs r1 m where n: "bump_u32 exact_ext (pr_total_trades r) = Some n"
    and t: "dec_add exact_ext (pr_total_pnl_usd r) ?pnl = Some t"
    and r1: "book_outcome exact_ext ?pnl
        (r\<lparr>pr_total_trades := n, pr_total_pnl_usd := t, pr_total_fees_usd := fs\<rparr>) = Some r1"
    and m: "bump_counter exact_ext (exit_reason_of p) (pr_exits_by_reason r1) = Some m"
    and e: "track_equity exact_ext ?pnl (r1\<lparr>pr_exits_by_reason := m\<rparr>) = Some r'"
    using assms by (auto simp: book_closed_def Let_def panic_simps simp del: exact_ext_simps)
  have "t = pr_total_pnl_usd r + ?pnl" using t by (auto dest: fit_SomeD)
  then show ?thesis
    using bump_u32_exact [OF n] book_outcome_exact [OF r1] bump_counter_exact [OF m] track_equity_exact [OF e]
    by (auto simp: booked_def is_win_def)
qed

lemma book_positions_exact:
  "book_positions exact_ext ps r = Some r' \<Longrightarrow> booked (closed_positions ps) r r'"
proof (induction ps arbitrary: r)
  case (Cons p ps)
  then show ?case
    by (cases "p_state p = PosClosed")
      (auto simp: closed_positions_def panic_simps intro: booked_trans book_closed_exact)
qed (simp add: closed_positions_def)

lemma rates_exact:
  assumes "rates exact_ext r = Some r'"
  shows "booked [] r r'" "pr_starting_capital_usd r' = pr_starting_capital_usd r"
    "pr_total_trades r \<noteq> 0 \<Longrightarrow>
       pr_win_rate r' = dec_of_word (pr_wins r) / dec_of_word (pr_total_trades r) * 100"
    "pr_total_trades r \<noteq> 0 \<Longrightarrow> pr_expectancy r' = pr_total_pnl_usd r / dec_of_word (pr_total_trades r)"
  using assms by (auto simp: rates_def panic_simps booked_def word_gt_0 split: if_splits dest!: fit_SomeD)

lemma factor_exact:
  assumes "factor X r = Some r'"
  shows "booked [] r r'" "pr_win_rate r' = pr_win_rate r" "pr_expectancy r' = pr_expectancy r"
  using assms by (auto simp: factor_def panic_simps booked_def)

lemma drawdown_exact:
  assumes "drawdown X r = Some r'"
  shows "booked [] r r'" "pr_win_rate r' = pr_win_rate r" "pr_expectancy r' = pr_expectancy r"
  using assms by (auto simp: drawdown_def panic_simps booked_def split: if_splits)

definition failures :: "order_record list \<Rightarrow> order_record list" where
  "failures ords = filter (\<lambda>ord. o_state ord = Failed) ords"

text \<open>Counting the failures leaves the rest of the report alone.\<close>

lemma count_rejections_exact:
  assumes "count_rejections exact_ext ords r = Some r'"
  shows "\<exists>m. r' = r\<lparr>pr_rejections_by_reason := m\<rparr> \<and> (\<forall>k. count_at m k
     = count_at (pr_rejections_by_reason r) k + count_list (map failure_reason (failures ords)) k)"
  using assms
proof (induction ords arbitrary: r)
  case (Cons ord ords)
  show ?case
  proof (cases "o_state ord = Failed")
    case True
    then obtain m where m: "bump_counter exact_ext (failure_reason ord) (pr_rejections_by_reason r) = Some m"
      and r: "count_rejections exact_ext ords (r\<lparr>pr_rejections_by_reason := m\<rparr>) = Some r'"
      using Cons.prems by (auto simp: panic_simps)
    then show ?thesis
      using Cons.IH [OF r] bump_counter_exact [OF m] True by (auto simp: failures_def)
  next
    case False
    then show ?thesis using Cons.IH [of r] Cons.prems by (auto simp: failures_def)
  qed
next
  case Nil
  then show ?case by (intro exI [of _ "pr_rejections_by_reason r"]) (simp add: failures_def)
qed

lemma booked_rest: "booked cs r r1 \<Longrightarrow> booked [] r1 r' \<Longrightarrow> booked cs r r'"
  by (auto simp: booked_def)

lemma booked_split:
  "booked cs r r' \<Longrightarrow>
     unat (pr_wins r') + unat (pr_losses r') - unat (pr_wins r) - unat (pr_losses r) = length cs
     \<and> pr_gross_wins_usd r' - pr_gross_losses_usd r' - (pr_gross_wins_usd r - pr_gross_losses_usd r)
       = (\<Sum>p\<leftarrow>cs. p_realized_pnl_usd p)"
proof -
  assume b: "booked cs r r'"
  have "(\<Sum>p\<leftarrow>cs. max 0 (p_realized_pnl_usd p)) - (\<Sum>p\<leftarrow>cs. max 0 (- p_realized_pnl_usd p))
      = (\<Sum>p\<leftarrow>cs. p_realized_pnl_usd p)"
    by (induction cs) (auto simp: max_def)
  then show ?thesis using b sum_length_filter_compl [of is_win cs]
    by (auto simp: booked_def)
qed

lemma booked_same:
  assumes "booked [] r r'"
  shows "pr_wins r' = pr_wins r" "pr_total_trades r' = pr_total_trades r"
    "pr_total_pnl_usd r' = pr_total_pnl_usd r"
  using assms by (auto simp: booked_def intro: unsigned_word_eqI)

text \<open>The parts of a report that was generated.\<close>

lemma generate_report_parts:
  assumes "generate_report exact_ext st start = Some (Inr r)" and "positions st = Inr ps"
  obtains r4 m where "booked (closed_positions ps) (new_report start) r4"
    "r = r4\<lparr>pr_rejections_by_reason := m\<rparr>"
    "\<And>k. count_at m k = count_list (map failure_reason (failures (all_orders st))) k"
    "pr_total_trades r4 \<noteq> 0 \<Longrightarrow>
       pr_win_rate r4 = dec_of_word (pr_wins r4) / dec_of_word (pr_total_trades r4) * 100"
    "pr_total_trades r4 \<noteq> 0 \<Longrightarrow> pr_expectancy r4 = pr_total_pnl_usd r4 / dec_of_word (pr_total_trades r4)"
proof -
  obtain r1 r2 r3 r4 where r1: "book_positions exact_ext ps (new_report start) = Some r1"
    and r2: "rates exact_ext r1 = Some r2" and r3: "factor exact_ext r2 = Some r3"
    and r4: "drawdown exact_ext r3 = Some r4"
    and r: "count_rejections exact_ext (all_orders st) r4 = Some r"
    using assms by (auto simp: generate_report_def panic_simps)
  have b1: "booked (closed_positions ps) (new_report start) r1"
    using book_positions_exact [OF r1] .
  have e: "pr_wins r4 = pr_wins r1" "pr_total_trades r4 = pr_total_trades r1"
    "pr_total_pnl_usd r4 = pr_total_pnl_usd r1"
    using booked_same [OF rates_exact(1) [OF r2]] booked_same [OF factor_exact(1) [OF r3]]
      booked_same [OF drawdown_exact(1) [OF r4]] by simp_all
  have b4: "booked (closed_positions ps) (new_report start) r4"
    using booked_rest [OF booked_rest [OF booked_rest [OF b1 rates_exact(1) [OF r2]]
      factor_exact(1) [OF r3]] drawdown_exact(1) [OF r4]] .
  obtain m where m: "r = r4\<lparr>pr_rejections_by_reason := m\<rparr>"
    "\<And>k. count_at m k = count_at (pr_rejections_by_reason r4) k
       + count_list (map failure_reason (failures (all_orders st))) k"
    using count_rejections_exact [OF r] by auto
  have "pr_rejections_by_reason r4 = Map.empty" using b4 by (simp add: booked_def new_report_def)
  with m(2) have mk: "\<And>k. count_at m k = count_list (map failure_reason (failures (all_orders st))) k"
    by simp
  show thesis
    by (rule that [OF b4 m(1) mk])
      (use rates_exact(3,4) [OF r2] factor_exact(2,3) [OF r3] drawdown_exact(2,3) [OF r4] e in auto)
qed

section \<open>Properties\<close>

definition sample_closed :: "string \<Rightarrow> decimal \<Rightarrow> position" where
  "sample_closed m pnl = sample_position\<lparr>p_mint := m, p_state := PosClosed, p_realized_pnl_usd := pnl,
     p_exit_fees_usd := Some 1, p_fees_usd := 1, p_exit_reason := Some ''stop_loss''\<rparr>"

text \<open>
  The peak is the starting capital and every profit made, whatever was lost in between: a losing
  trade does not lower the equity from which the next profit counts.
\<close>

lemma report_peak_ignores_losses:
  assumes "generate_report exact_ext st start = Some (Inr r)" and "positions st = Inr ps"
  shows "pr_peak_equity_usd r = start + pr_gross_wins_usd r"
proof -
  from assms obtain r4 m where b: "booked (closed_positions ps) (new_report start) r4"
    and r: "r = r4\<lparr>pr_rejections_by_reason := m\<rparr>"
    by (rule generate_report_parts) blast
  show ?thesis using b unfolding r by (simp add: booked_def new_report_def)
qed

text \<open>
  C35: The performance report agrees with the persisted trades. With exact
  arithmetic, the trades counted are the closed positions, each is a win or a loss, the total profit
  is the sum of the realised profits and also the gross wins less the gross losses, the win rate and
  the expectancy are those of these totals, and under each reason stand as many exits and
  rejections as there are closed positions and failed orders with that reason.
\<close>

theorem report_adds_up:
  assumes "generate_report exact_ext st start = Some (Inr r)" and "positions st = Inr ps"
  shows "unat (pr_total_trades r) = length (closed_positions ps)
    \<and> unat (pr_wins r) = length (filter is_win (closed_positions ps))
    \<and> unat (pr_wins r) + unat (pr_losses r) = unat (pr_total_trades r)
    \<and> pr_total_pnl_usd r = (\<Sum>p\<leftarrow>closed_positions ps. p_realized_pnl_usd p)
    \<and> pr_total_pnl_usd r = pr_gross_wins_usd r - pr_gross_losses_usd r
    \<and> (closed_positions ps = []
       \<or> pr_win_rate r = dec_of_word (pr_wins r) / dec_of_word (pr_total_trades r) * 100
         \<and> pr_expectancy r = pr_total_pnl_usd r / dec_of_word (pr_total_trades r))
    \<and> (\<forall>k. count_at (pr_exits_by_reason r) k
         = count_list (map exit_reason_of (closed_positions ps)) k)
    \<and> (\<forall>k. count_at (pr_rejections_by_reason r) k
         = count_list (map failure_reason (failures (all_orders st))) k)"
proof -
  from assms obtain r4 m where b: "booked (closed_positions ps) (new_report start) r4"
    and r: "r = r4\<lparr>pr_rejections_by_reason := m\<rparr>"
    and m: "\<And>k. count_at m k = count_list (map failure_reason (failures (all_orders st))) k"
    and w: "pr_total_trades r4 \<noteq> 0 \<Longrightarrow>
       pr_win_rate r4 = dec_of_word (pr_wins r4) / dec_of_word (pr_total_trades r4) * 100"
    and e: "pr_total_trades r4 \<noteq> 0 \<Longrightarrow>
       pr_expectancy r4 = pr_total_pnl_usd r4 / dec_of_word (pr_total_trades r4)"
    by (rule generate_report_parts) blast
  have t: "unat (pr_total_trades r4) = length (closed_positions ps)"
    "unat (pr_wins r4) = length (filter is_win (closed_positions ps))"
    "pr_total_pnl_usd r4 = (\<Sum>p\<leftarrow>closed_positions ps. p_realized_pnl_usd p)"
    "\<And>k. count_at (pr_exits_by_reason r4) k = count_list (map exit_reason_of (closed_positions ps)) k"
    using b by (simp_all add: booked_def new_report_def)
  have "closed_positions ps = [] \<or> pr_total_trades r4 \<noteq> 0" using t(1) by auto
  then show ?thesis using t booked_split [OF b] m w e unfolding r
    by (auto simp: new_report_def)
qed

definition sample_reported :: store where
  "sample_reported =
     save_position (sample_closed ''a'' 10) (save_position (sample_closed ''b'' (- 5)) empty_store)"

definition after_loss :: performance_report where
  "after_loss = (new_report 100)\<lparr>pr_total_trades := 1, pr_losses := 1, pr_total_pnl_usd := - 5,
     pr_gross_losses_usd := 5, pr_total_fees_usd := 2, pr_min_equity_usd := 95,
     pr_exits_by_reason := [''stop_loss'' \<mapsto> 1], pr_ending_equity_usd := 95\<rparr>"

definition after_win :: performance_report where
  "after_win = after_loss\<lparr>pr_total_trades := 2, pr_wins := 1, pr_total_pnl_usd := 5,
     pr_gross_wins_usd := 10, pr_total_fees_usd := 4, pr_peak_equity_usd := 110,
     pr_exits_by_reason := [''stop_loss'' \<mapsto> 2], pr_ending_equity_usd := 110\<rparr>"

lemmas report_steps = book_closed_def bump_u32_def bump_counter_def book_outcome_def track_equity_def
  exit_reason_of_def fit_def dec_max_def Let_def

lemma sample_steps:
  "book_closed exact_ext (sample_closed ''b'' (- 5)) (new_report 100) = Some after_loss"
  "book_closed exact_ext (sample_closed ''a'' 10) after_loss = Some after_win"
  by (simp_all add: report_steps sample_closed_def sample_position_def after_loss_def after_win_def
      new_report_def)

lemma sample_metrics:
  "\<exists>r. Option.bind (rates exact_ext after_win) (\<lambda>r2. Option.bind (factor exact_ext r2)
     (\<lambda>r3. drawdown exact_ext r3)) = Some r"
  by (simp add: rates_def factor_def drawdown_def after_win_def after_loss_def new_report_def fit_def
      dec_max_def dec_of_word_def word_gt_0)

theorem report_adds_up_witness:
  "\<exists>r. generate_report exact_ext sample_reported 100 = Some (Inr r)
     \<and> unat (pr_total_trades r) = 2 \<and> pr_total_pnl_usd r = 5"
proof -
  define ps where "ps = [sample_closed ''b'' (- 5), sample_closed ''a'' 10]"
  have ps: "positions sample_reported = Inr ps"
    by (simp add: ps_def sample_reported_def positions_def save_position_def kv_put_def empty_store_def
        key_like_def position_key_def sample_closed_def)
  have state: "p_state (sample_closed m d) = PosClosed" for m d by (simp add: sample_closed_def)
  have none: "all_orders sample_reported = []"
    by (simp add: all_orders_def sample_reported_def empty_store_def)
  obtain r where r: "generate_report exact_ext sample_reported 100 = Some (Inr r)"
    using sample_metrics by (auto simp: generate_report_def ps ps_def state sample_steps none
        Option.bind_eq_Some_conv)
  show ?thesis using report_adds_up [OF r ps] r
    by (simp add: ps_def closed_positions_def sample_closed_def)
qed

end
