(* ===== verification/Order_Kinds.thy ===== *)
theory Order_Kinds
  imports Runtime_Session
begin

text \<open>
  Which orders a store holds and of which kind each is: reconciliation rewrites orders but keeps their
  ids and kinds, and a tick of a halted session adds exits at most.
\<close>

section \<open>The kinds of the stored orders\<close>

text \<open>What reconciliation keeps: which orders there are and of which kind each is.\<close>

definition order_kinds :: "store \<Rightarrow> (string \<times> order_kind) list" where
  "order_kinds st = map (\<lambda>r. (row_id r, o_kind (row_payload r))) (order_rows st)"

definition agrees :: "order_record \<Rightarrow> store \<Rightarrow> bool" where
  "agrees ord st \<longleftrightarrow> (\<forall>k. (o_id ord, k) \<in> set (order_kinds st) \<longrightarrow> k = o_kind ord)"

definition keeps :: "store \<Rightarrow> store \<Rightarrow> bool" where
  "keeps st st' \<longleftrightarrow> order_kinds st' = order_kinds st \<and> (ids_ok st \<longrightarrow> ids_ok st')"

lemma keeps_refl [simp]: "keeps st st"
  by (simp add: keeps_def)

lemma keeps_trans: "keeps a b \<Longrightarrow> keeps b c \<Longrightarrow> keeps a c"
  by (simp add: keeps_def)

lemma keeps_rows: "order_rows st' = order_rows st \<Longrightarrow> keeps st st'"
  by (simp add: keeps_def order_kinds_def ids_ok_def)

lemma keeps_agrees: "keeps st st' \<Longrightarrow> agrees ord st' = agrees ord st"
  by (simp add: keeps_def agrees_def)

text \<open>An order that was only written again.\<close>

definition rewritten :: "order_record \<Rightarrow> store \<Rightarrow> store \<Rightarrow> bool" where
  "rewritten ord st st' \<longleftrightarrow> order_rows st' = order_rows st
     \<or> (\<exists>ord' now. same_order ord ord' \<and> order_rows st' = order_rows (update_order ord' now st))"

lemma rewritten_keeps:
  assumes "rewritten ord st st'" "agrees ord st" "ids_ok st"
  shows "keeps st st'"
proof -
  have "keeps st st'" if s: "same_order ord ord'"
    and r: "order_rows st' = order_rows (update_order ord' now st)" for ord' now
  proof -
    have "order_kinds st' = order_kinds st"
      using assms(2) s r
      by (force simp: order_kinds_def update_order_def agrees_def same_order_def)
    moreover have "ids_ok st'"
      using assms(3) update_order_ids [of ord' now st]
      by (auto simp: ids_ok_def r simp del: update_order_ids) (auto simp: update_order_def split: if_splits)
    ultimately show ?thesis by (simp add: keeps_def)
  qed
  then show ?thesis using assms(1) keeps_rows by (auto simp: rewritten_def)
qed

text \<open>Every step of a reconciliation writes its own order at most.\<close>

lemma transition_same: "transition a s = Inr b \<Longrightarrow> same_order ord a \<Longrightarrow> same_order ord b"
  by (auto simp: transition_def same_order_def split: if_splits)

lemma rewritten_refl [simp]: "rewritten ord st st"
  by (simp add: rewritten_def)

lemma end_order_rewritten:
  "end_order ft now ord msg target v st = (res, st') \<Longrightarrow> rewritten ord st st'"
  by (auto simp: end_order_def Let_def rewritten_def split: if_splits
      intro!: exI [of _ "transition_or_keep (ord\<lparr>o_error := Some msg\<rparr>) target"])

lemma update_rewritten:
  assumes "order_rows st1 = order_rows st" "same_order ord ord'"
  shows "rewritten ord st (update_order ord' now st1)"
  unfolding rewritten_def using assms
  by (intro disjI2 exI [of _ ord'] exI [of _ now]) (simp add: update_order_def)

lemma audit_rewritten: "audit_only_body now ord sig f st = Inr st' \<Longrightarrow> rewritten ord st st'"
  by (auto simp: audit_only_body_def split: sum.splits
      intro!: update_rewritten elim!: transition_same)

lemma account_rewritten:
  "account_body X now ord p td bd sig f st = Some (Inr st') \<Longrightarrow> rewritten ord st st'"
  by (auto simp: account_body_def Let_def split: sum.splits option.splits
      intro!: update_rewritten elim!: transition_same)

lemma settle_rewritten:
  assumes "settle_reconciled X ft now st ord p td bd sig f = Some (res, st')"
  shows "rewritten ord st st'"
proof -
  obtain r b where tx: "in_transaction ft st b = Some (r, st')"
    and b: "b = Some (audit_only_body now ord sig f st) \<or> b = account_body X now ord p td bd sig f st"
    using assms by (auto simp: settle_reconciled_def split: if_split_asm)
  from in_transaction_cases [OF tx] b show ?thesis
    using audit_rewritten account_rewritten by fastforce
qed

lemma record_rewritten:
  assumes "record_reconciled_fill X ft c now st ord outcome sig = Some (res, st')"
  shows "rewritten ord st st'"
proof -
  have "st' = st \<or> (\<exists>p td bd f. settle_reconciled X ft now st ord p td bd sig f = Some (res, st'))"
    using assms unfolding record_reconciled_fill_def
    by (auto split: option.split_asm sum.split_asm prod.split_asm)
  then show ?thesis using settle_rewritten by auto
qed

lemma reconcile_live_rewritten:
  assumes "reconcile_live X C ft c now owner ord sig st = Some (res, st')"
  shows "rewritten ord st st'"
proof -
  note e = end_order_rewritten
  consider (no_route) "st' = st" | (route) own inp out expected where "owner = Some own"
    "o_input_mint ord = Some inp" "o_output_mint ord = Some out"
    "o_input_amount_atomic ord = Some expected"
    using assms by (auto simp: reconcile_live_def split: option.split_asm)
  then show ?thesis
  proof cases
    case route
    show ?thesis
    proof (cases "reconcile_signature (cr_json C) (cr_status C) (cr_transaction C) sig inp out own expected")
      case (Inl f)
      then show ?thesis using assms route e by (cases f) (auto simp: reconcile_live_def)
    next
      case (Inr oo)
      then show ?thesis using assms route e record_rewritten
        by (cases oo) (auto simp: reconcile_live_def split: if_split_asm)
    qed
  qed simp
qed

lemma reconcile_order_rewritten:
  assumes "reconcile_order X C ft c now live owner ord st = Some (res, st')"
  shows "rewritten ord st st'"
  using assms end_order_rewritten reconcile_live_rewritten unfolding reconcile_order_def
  by (auto split: option.split_asm bool.split_asm if_split_asm) blast+

lemma reconcile_orders_keeps:
  "reconcile_orders X C fts c now live owner ords s st = Some (res, st') \<Longrightarrow> ids_ok st \<Longrightarrow>
     \<forall>ord\<in>set ords. agrees ord st \<Longrightarrow> keeps st st'"
proof (induction ords arbitrary: s st)
  case (Cons ord ords)
  then obtain v st1 where o: "reconcile_order X C (fts ord) c now live owner ord st = Some (v, st1)"
    by (auto split: option.split_asm)
  then have r: "st' = st1 \<or> (\<exists>s'. reconcile_orders X C fts c now live owner ords s' st1 = Some (res, st'))"
    using Cons.prems(1) by (auto split: sum.split_asm)
  have one: "keeps st st1"
    using rewritten_keeps [OF reconcile_order_rewritten [OF o]] Cons.prems by simp
  then have "ids_ok st1" "\<forall>ord\<in>set ords. agrees ord st1"
    using Cons.prems by (simp_all add: keeps_def agrees_def)
  then show ?case using r Cons.IH one keeps_trans by blast
qed simp

lemma incomplete_agrees:
  assumes "ids_ok st" "ord \<in> set (incomplete_orders st)"
  shows "agrees ord st"
proof -
  obtain r0 where r0: "r0 \<in> set (order_rows st)" "ord = row_payload r0"
    using assms(2) by (auto simp: incomplete_orders_def)
  have "r = r0" if "r \<in> set (order_rows st)" "row_id r = o_id ord" for r
    using assms(1) that r0 by (metis distinct_map ids_ok_def inj_on_def)
  then show ?thesis using r0(2) by (auto simp: agrees_def order_kinds_def)
qed

lemma reconcile_pending_keeps:
  assumes "reconcile_pending_orders X C fts c now live owner st = Some (res, st')" "ids_ok st"
  shows "keeps st st'"
  using reconcile_orders_keeps [OF assms(1) [unfolded reconcile_pending_orders_def] assms(2)]
    incomplete_agrees [OF assms(2)] by blast

section \<open>A halted tick\<close>

text \<open>Orders are added, but only exits.\<close>

definition only_exits :: "store \<Rightarrow> store \<Rightarrow> bool" where
  "only_exits st st' \<longleftrightarrow> (\<exists>new. order_kinds st' = order_kinds st @ new \<and> list_all (\<lambda>(_, k). k = Exit) new)
     \<and> ids_ok st'"

lemma only_exits_trans: "only_exits a b \<Longrightarrow> only_exits b c \<Longrightarrow> only_exits a c"
  by (fastforce simp: only_exits_def)

lemma keeps_only_exits: "keeps st st' \<Longrightarrow> ids_ok st \<Longrightarrow> only_exits st st'"
  by (simp add: keeps_def only_exits_def)

lemma adds_only_exits: "adds Exit st st' \<Longrightarrow> ids_ok st \<Longrightarrow> only_exits st st'"
  by (auto simp: adds_def only_exits_def order_kinds_def list_all_iff)

lemma prepare_tick_keeps:
  assumes "prepare_tick X te c se st = Some (res, se', st')" "ids_ok st"
  shows "keeps st st'"
proof -
  let ?st1 = "periodic_reconciliation te c st"
  obtain pr st2 where pr: "reconcile_pending_orders X (te_reader te) (te_order_faults te) c (te_now te)
      (te_live te) (te_owner te) ?st1 = Some (pr, st2)"
    using assms by (auto simp: prepare_tick_def Let_def split: option.split_asm)
  have s1: "order_rows ?st1 = order_rows st"
    by (simp add: periodic_reconciliation_def reconcile_positions_frame)
  have "keeps st ?st1" "ids_ok ?st1" using keeps_rows [OF s1] assms(2) by (simp_all add: keeps_def)
  then have k: "keeps st st2" using reconcile_pending_keeps [OF pr] keeps_trans by blast
  have "order_rows st' = order_rows st2"
    using assms(1) pr by (auto simp: prepare_tick_def Let_def dest!: ingest_feed_frame ingest_wallets_frame
        split: option.split_asm sum.split_asm prod.split_asm)
  then show ?thesis using k keeps_rows keeps_trans by blast
qed

lemma halted_tick:
  assumes "tick X te dbg c se st = Some (res, se', st')" "ids_ok st"
    and "tripped (re_kill_switch (se_risk se))"
  shows "only_exits st st' \<and> tripped (re_kill_switch (se_risk se'))"
proof -
  obtain r1 se1 st1 where p: "prepare_tick X te c se st = Some (r1, se1, st1)"
    and rest: "se' = se1 \<and> st' = st1
      \<or> (\<exists>qs. r1 = Inr qs \<and> trade_tick X te qs dbg c se1 st1 = Some (res, se', st'))"
    using assms(1) by (auto simp: tick_def split: option.split_asm sum.split_asm)
  have k: "keeps st st1" "tripped (re_kill_switch (se_risk se1))"
    using prepare_tick_keeps [OF p assms(2)] prepare_tick_frame(2) [OF p] assms(3) by simp_all
  then have o: "only_exits st st1" "ids_ok st1"
    using keeps_only_exits [OF k(1) assms(2)] assms(2) by (simp_all add: keeps_def)
  from rest show ?thesis
  proof (elim disjE exE conjE)
    fix qs assume "trade_tick X te qs dbg c se1 st1 = Some (res, se', st')"
    then show ?thesis
    proof (cases rule: trade_tick_cases)
      case halted
      then show ?thesis using o k(2) adds_only_exits only_exits_trans by (auto simp: latched_def)
    qed (use k(2) in simp)
  qed (use o k(2) in simp)
qed

lemma persist_only_exits: "only_exits st (persist_session_state se st') = only_exits st st'"
  by (simp add: only_exits_def persist_session_state_def kv_put_def order_kinds_def ids_ok_def)

end
