(* ===== verification/Bot_Steps.thy ===== *)
theory Bot_Steps
  imports Order_Kinds Exit_Monitor
begin

text \<open>
  The session and the exit monitor side by side. \<open>run_session\<close> of \<open>src/runtime.rs\<close> spawns the
  monitor of \<open>src/exit_monitor.rs\<close> on the same store; the two tasks share nothing else. A step of the
  bot is one tick of the session with the save that follows it, or one cycle of the monitor, or a
  change of the operator's flags by another command, in any order. Finer interleavings, inside a
  tick, are not modelled.
\<close>

section \<open>Steps\<close>

record bot =
  b_session :: session
  b_cache :: quote_cache
  b_store :: store

datatype 'v event =
    SessionTick "'v tick_env"
  | MonitorCycle "'v monitor_env"
  | OperatorStop string datetime
  | OperatorClear

fun bot_event ::
    "ext \<Rightarrow> (string option \<Rightarrow> string) \<Rightarrow> config \<Rightarrow> 'v event \<Rightarrow> bot \<Rightarrow> bot option" where
  "bot_event X dbg c (SessionTick te) b =
     map_option (\<lambda>(_, se, st). b\<lparr>b_session := se, b_store := persist_session_state se st\<rparr>)
       (tick X te dbg c (b_session b) (b_store b))"
| "bot_event X dbg c (MonitorCycle me) b =
     map_option (\<lambda>(_, cache, st). b\<lparr>b_cache := cache, b_store := st\<rparr>)
       (monitor_tick X me dbg c (b_cache b) (b_store b))"
| "bot_event X dbg c (OperatorStop reason now) b =
     Some (b\<lparr>b_store := set_emergency_stop reason now (b_store b)\<rparr>)"
| "bot_event X dbg c OperatorClear b =
     Some (b\<lparr>b_store := clear_emergency_stop (b_store b)\<rparr>)"

fun_cases bot_event_tick: "bot_event X dbg c (SessionTick te) b = Some b'"
fun_cases bot_event_cycle: "bot_event X dbg c (MonitorCycle me) b = Some b'"

text \<open>Any interleaving of such steps.\<close>

inductive bot_steps ::
    "ext \<Rightarrow> (string option \<Rightarrow> string) \<Rightarrow> config \<Rightarrow> 'v event list \<Rightarrow> bot \<Rightarrow> bot \<Rightarrow> bool"
    for X dbg c where
  finished: "bot_steps X dbg c [] b b"
| step: "bot_event X dbg c e b = Some b1 \<Longrightarrow> bot_steps X dbg c es b1 b2
         \<Longrightarrow> bot_steps X dbg c (e # es) b b2"

inductive_cases bot_steps_Nil: "bot_steps X dbg c [] b b'"
inductive_cases bot_steps_Cons: "bot_steps X dbg c (e # es) b b'"

inductive_simps bot_steps_simps:
  "bot_steps X dbg c [] b b'"
  "bot_steps X dbg c (e # es) b b'"

text \<open>The same as a function of the events.\<close>

fun bot_run ::
    "ext \<Rightarrow> (string option \<Rightarrow> string) \<Rightarrow> config \<Rightarrow> 'v event list \<Rightarrow> bot \<Rightarrow> bot option" where
  "bot_run X dbg c [] b = Some b"
| "bot_run X dbg c (e # es) b = (case bot_event X dbg c e b of
     None \<Rightarrow> None
   | Some b1 \<Rightarrow> bot_run X dbg c es b1)"

lemma bot_run_steps: "bot_run X dbg c es b = Some b' \<longleftrightarrow> bot_steps X dbg c es b b'"
  by (induction es arbitrary: b) (auto simp: bot_steps_simps split: option.split)

text \<open>Without the monitor and the operator the steps are the loop of the session.\<close>

lemma session_loop_steps:
  "session_loop X dbg c tes se st = Some (se', st') \<longleftrightarrow>
     bot_steps X dbg c (map SessionTick tes) \<lparr>b_session = se, b_cache = cache, b_store = st\<rparr>
       \<lparr>b_session = se', b_cache = cache, b_store = st'\<rparr>"
  by (induction tes arbitrary: se st)
    (auto simp: bot_steps_simps split: option.splits prod.splits)

section \<open>The monitor keeps the kinds of the orders\<close>

lemma give_up_rewritten: "rewritten ord st (give_up ft now ord msg target st)"
  unfolding give_up_def by (metis end_order_rewritten surj_pair snd_conv)

lemma stale_order_rewritten:
  assumes "reconcile_stale_order X C ft c now live owner ord st = Some st'"
  shows "rewritten ord st st'"
proof -
  have live: "rewritten ord st st'" if "reconcile_stale_live X C ft c now owner ord sig st = Some st'" for sig
  proof -
    have "st' = st \<or> (\<exists>msg target. st' = give_up ft now ord msg target st)
      \<or> (\<exists>outcome r. record_reconciled_fill X ft c now st ord outcome sig = Some (r, st'))"
      using that unfolding reconcile_stale_live_def
      by (auto simp: bind_Some_iff split: option.split_asm sum.split_asm execution_error.split_asm if_split_asm)
    then show ?thesis using give_up_rewritten record_rewritten by auto
  qed
  show ?thesis
    using assms live give_up_rewritten
    by (auto simp: reconcile_stale_order_def bind_Some_iff split: option.split_asm if_split_asm)
qed

lemma stale_list_keeps:
  "reconcile_stale_list X C fts c now live owner ords st = Some st' \<Longrightarrow> ids_ok st \<Longrightarrow>
     \<forall>ord\<in>set ords. agrees ord st \<Longrightarrow> keeps st st'"
proof (induction ords arbitrary: st)
  case (Cons ord ords)
  then obtain st1 where o: "reconcile_stale_order X C (fts ord) c now live owner ord st = Some st1"
    and rest: "reconcile_stale_list X C fts c now live owner ords st1 = Some st'"
    by (auto split: option.split_asm)
  have one: "keeps st st1"
    using rewritten_keeps [OF stale_order_rewritten [OF o]] Cons.prems by simp
  then have "ids_ok st1" "\<forall>ord\<in>set ords. agrees ord st1"
    using Cons.prems by (simp_all add: keeps_def agrees_def)
  then show ?case using rest Cons.IH one keeps_trans by blast
qed simp

lemma monitor_tick_only_exits:
  assumes "monitor_tick X me dbg c cache st = Some (res, cache', st')" "ids_ok st"
  shows "only_exits st st'"
proof -
  obtain st1 where r: "reconcile_stale_orders X (me_tick me) c st = Some st1"
    and a: "adds Exit st1 st'"
    using assms(1) monitor_positions_adds
    by (fastforce simp: monitor_tick_def adds_refl split: option.split_asm sum.split_asm)
  have "keeps st st1"
    using r by (auto simp: reconcile_stale_orders_def split: if_split_asm
        intro: stale_list_keeps [OF _ assms(2)] incomplete_agrees [OF assms(2)])
  then have "only_exits st st1" "ids_ok st1"
    using keeps_only_exits assms(2) by (simp_all add: keeps_def)
  with adds_only_exits [OF a] show ?thesis using only_exits_trans by blast
qed

section \<open>Tasks on a shared store\<close>

text \<open>
  What the bot relies on in each of its tasks: an action that starts halted stays halted and adds
  only exits to the orders of the store. The actions may be interleaved with anything that has the
  same contract, so the contract is all that is used of them.
\<close>

locale selling_task =
  fixes act :: "'s \<times> store \<Rightarrow> ('s \<times> store) option"
    and halted :: "'s \<Rightarrow> bool"
  assumes stays_halted: "act (s, st) = Some (s', st') \<Longrightarrow> halted s \<Longrightarrow> ids_ok st \<Longrightarrow> halted s'"
    and only_sells: "act (s, st) = Some (s', st') \<Longrightarrow> halted s \<Longrightarrow> ids_ok st \<Longrightarrow> only_exits st st'"
begin

lemma keeps_ids: "act (s, st) = Some (s', st') \<Longrightarrow> halted s \<Longrightarrow> ids_ok st \<Longrightarrow> ids_ok st'"
  using only_sells by (auto simp: only_exits_def)

lemma kinds_grow:
  assumes "act (s, st) = Some (s', st')" "halted s" "ids_ok st"
  shows "set (order_kinds st) \<subseteq> set (order_kinds st')"
    and "(i, Entry) \<in> set (order_kinds st') \<Longrightarrow> (i, Entry) \<in> set (order_kinds st)"
  using only_sells [OF assms] by (auto simp: only_exits_def list_all_iff)

end

definition session_act ::
    "ext \<Rightarrow> (string option \<Rightarrow> string) \<Rightarrow> config \<Rightarrow> 'v tick_env \<Rightarrow> session \<times> store \<Rightarrow> (session \<times> store) option"
  where
  "session_act X dbg c te = (\<lambda>(se, st). map_option (\<lambda>(_, se', st'). (se', persist_session_state se' st'))
     (tick X te dbg c se st))"

definition monitor_act ::
    "ext \<Rightarrow> (string option \<Rightarrow> string) \<Rightarrow> config \<Rightarrow> 'v monitor_env \<Rightarrow> quote_cache \<times> store
     \<Rightarrow> (quote_cache \<times> store) option" where
  "monitor_act X dbg c me = (\<lambda>(cache, st). map_option (\<lambda>(_, cache', st'). (cache', st'))
     (monitor_tick X me dbg c cache st))"

interpretation trader: selling_task "session_act X dbg c te" "\<lambda>se. tripped (re_kill_switch (se_risk se))"
  for X dbg c te
  by unfold_locales (auto simp: session_act_def persist_only_exits dest!: halted_tick)

interpretation seller: selling_task "monitor_act X dbg c me" "\<lambda>_. True" for X dbg c me
  by unfold_locales (auto simp: monitor_act_def dest: monitor_tick_only_exits)

text \<open>The operator's commands change no order.\<close>

definition operator_act :: "(store \<Rightarrow> store) \<Rightarrow> unit \<times> store \<Rightarrow> (unit \<times> store) option" where
  "operator_act f = (\<lambda>(u, st). Some (u, f st))"

lemma operator_only_exits:
  assumes "order_rows (f st) = order_rows st" "ids_ok st"
  shows "only_exits st (f st)"
  using keeps_only_exits [OF keeps_rows] assms by blast

interpretation stopping: selling_task "operator_act (set_emergency_stop reason now)" "\<lambda>_. True"
  for reason now
  by unfold_locales
    (auto simp: operator_act_def set_emergency_stop_def kv_put_def intro!: operator_only_exits)

interpretation clearing: selling_task "operator_act clear_emergency_stop" "\<lambda>_. True"
  by unfold_locales (auto simp: operator_act_def clear_emergency_stop_def intro!: operator_only_exits)

section \<open>Halted\<close>

definition halted_bot :: "bot \<Rightarrow> bool" where
  "halted_bot b \<longleftrightarrow> ids_ok (b_store b) \<and> tripped (re_kill_switch (se_risk (b_session b)))"

lemma halted_event:
  assumes "bot_event X dbg c e b = Some b'" "halted_bot b"
  shows "halted_bot b' \<and> only_exits (b_store b) (b_store b')"
proof (cases e)
  case (SessionTick te)
  then obtain se st where "session_act X dbg c te (b_session b, b_store b) = Some (se, st)"
    and b': "b' = b\<lparr>b_session := se, b_store := st\<rparr>"
    using assms(1) by (auto simp: session_act_def)
  note act = this(1)
  show ?thesis using trader.stays_halted [OF act] trader.only_sells [OF act] trader.keeps_ids [OF act]
      assms(2) by (simp add: b' halted_bot_def)
next
  case (MonitorCycle me)
  then obtain cache st where "monitor_act X dbg c me (b_cache b, b_store b) = Some (cache, st)"
    and b': "b' = b\<lparr>b_cache := cache, b_store := st\<rparr>"
    using assms(1) by (auto simp: monitor_act_def)
  note act = this(1)
  show ?thesis using seller.only_sells [OF act] seller.keeps_ids [OF act] assms(2)
    by (simp add: b' halted_bot_def)
next
  case (OperatorStop reason now)
  have act: "operator_act (set_emergency_stop reason now) ((), b_store b)
      = Some ((), set_emergency_stop reason now (b_store b))" by (simp add: operator_act_def)
  show ?thesis using stopping.only_sells [OF act] stopping.keeps_ids [OF act] assms OperatorStop
    by (auto simp: halted_bot_def)
next
  case OperatorClear
  have act: "operator_act clear_emergency_stop ((), b_store b)
      = Some ((), clear_emergency_stop (b_store b))" by (simp add: operator_act_def)
  show ?thesis using clearing.only_sells [OF act] clearing.keeps_ids [OF act] assms OperatorClear
    by (auto simp: halted_bot_def)
qed

section \<open>Properties\<close>

text \<open>
  C9: A halted bot only sells. Once the kill switch of the session
  is tripped and every order is stored under its own id, no interleaving of ticks of the session,
  cycles of the exit monitor and changes of the emergency stop, whatever they meet, untrips the switch,
  loses an order, changes the kind of one or adds anything but exits.
\<close>

theorem halted_bot_only_sells:
  assumes "bot_steps X dbg c es b b'" and "halted_bot b"
  shows "halted_bot b' \<and> (\<exists>new. order_kinds (b_store b') = order_kinds (b_store b) @ new
    \<and> list_all (\<lambda>(_, k). k = Exit) new)"
proof -
  have "halted_bot b' \<and> only_exits (b_store b) (b_store b')"
    using assms
  proof (induction rule: bot_steps.induct)
    case (finished b)
    then show ?case by (simp add: halted_bot_def only_exits_def)
  next
    case (step e b b1 es b2)
    then show ?case using halted_event only_exits_trans by blast
  qed
  then show ?thesis by (simp add: only_exits_def)
qed

lemma bot_event_bound:
  assumes "bot_event X dbg c e b = Some b'"
  shows "keeps_bound (b_session b) (b_session b')"
  using assms by (cases e) (auto dest: tick_bound simp: keeps_bound_def)

lemma bot_run_bound:
  "bot_run X dbg c es b = Some b' \<Longrightarrow> keeps_bound (b_session b) (b_session b')"
  by (induction es arbitrary: b)
    (auto simp: keeps_bound_def [of x x for x] dest: bot_event_bound keeps_bound_trans split: option.split_asm)

lemma bot_run_append:
  "bot_run X dbg c (es @ fs) b = Option.bind (bot_run X dbg c es b) (bot_run X dbg c fs)"
  by (induction es arbitrary: b) (simp_all split: option.split)

text \<open>
  C40: The daily limit holds over a whole session. A session
  that starts within it has, after any sequence of ticks, of cycles of the exit monitor and of changes
  of the emergency stop, whatever they met, not counted more trades than the limit allows, across
  changes of the day, errors and failures; neither the limit nor the rest of the risk configuration
  ever changes; and after a tick the database holds the count, so that a restart reads it back.
\<close>

theorem trades_of_a_day_are_bounded:
  assumes "bot_run X dbg c (es @ [SessionTick te]) b = Some b'"
    and "trades_today (re_state (se_risk (b_session b)))
      \<le> max_trades_per_day (re_config (se_risk (b_session b)))"
  shows "trades_today (re_state (se_risk (b_session b')))
        \<le> max_trades_per_day (re_config (se_risk (b_session b')))
    \<and> re_config (se_risk (b_session b')) = re_config (se_risk (b_session b))
    \<and> get_count (b_store b') trades_key = Inr (Some (trades_today (re_state (se_risk (b_session b')))))"
proof -
  have "get_count (b_store b') trades_key = Inr (Some (trades_today (re_state (se_risk (b_session b')))))"
    using assms(1) by (auto simp: bot_run_append bind_Some_iff persist_session_state_def get_count_def
        kvs.look_put split: option.split_asm)
  then show ?thesis using bot_run_bound [OF assms(1)] assms(2) by (simp add: keeps_bound_def)
qed

definition sample_bot :: bot where
  "sample_bot = \<lparr>b_session = trip (sample_session None []), b_cache = [], b_store = empty_store\<rparr>"

theorem halted_bot_only_sells_witness:
  "\<exists>b'. bot_steps exact_ext Option.the (example_config Paper)
       [SessionTick (sample_te []), OperatorStop ''halt'' 0, OperatorClear :: jval event] sample_bot b'
     \<and> halted_bot b'"
proof -
  have h: "halted_bot sample_bot"
    by (simp add: halted_bot_def sample_bot_def ids_ok_def empty_store_def)
  obtain se st where "tick exact_ext (sample_te []) Option.the (example_config Paper)
      (trip (sample_session None [])) empty_store = Some (Inr (), se, st)"
    using sample_halted_tick by blast
  then have "\<exists>b'. bot_steps exact_ext Option.the (example_config Paper)
      [SessionTick (sample_te []), OperatorStop ''halt'' 0, OperatorClear :: jval event] sample_bot b'"
    by (auto simp: bot_steps_simps sample_bot_def)
  then show ?thesis using halted_bot_only_sells [OF _ h] by blast
qed

theorem trades_of_a_day_are_bounded_witness:
  "\<exists>b' r. bot_run exact_ext Option.the (example_config Paper)
       ([OperatorStop ''halt'' 0, OperatorClear] @ [SessionTick (sample_te [sample_candidate])])
       \<lparr>b_session = sample_session None [], b_cache = [], b_store = empty_store\<rparr> = Some b'
     \<and> r \<in> set (order_rows (b_store b')) \<and> o_kind (row_payload r) = Entry
     \<and> trades_today (re_state (se_risk (b_session b'))) \<le> 3"
proof -
  obtain se' st' r where t: "tick exact_ext (sample_te [sample_candidate]) Option.the
       (example_config Paper) (sample_session None []) empty_store = Some (Inr (), se', st')"
    "r \<in> set (order_rows st')" "o_kind (row_payload r) = Entry"
    using sample_tick_enters by blast
  let ?b = "\<lparr>b_session = sample_session None [], b_cache = [], b_store = empty_store\<rparr>"
  let ?b' = "\<lparr>b_session = se', b_cache = [], b_store = persist_session_state se' st'\<rparr>"
  have "clear_emergency_stop (set_emergency_stop ''halt'' 0 empty_store) = empty_store"
    by (simp add: clear_emergency_stop_def set_emergency_stop_def kv_put_def empty_store_def)
  then have run: "bot_run exact_ext Option.the (example_config Paper)
       ([OperatorStop ''halt'' 0, OperatorClear] @ [SessionTick (sample_te [sample_candidate])]) ?b
       = Some ?b'" using t(1) by simp
  have "trades_today (re_state (se_risk (sample_session None []))) = 0"
    "max_trades_per_day (re_config (se_risk (sample_session None []))) = 3"
    by (simp_all add: sample_session_def new_engine_def example_config_def)
  moreover have "trades_today (re_state (se_risk (sample_session None [])))
      \<le> max_trades_per_day (re_config (se_risk (sample_session None [])))" using calculation by simp
  then have "trades_today (re_state (se_risk se')) \<le> max_trades_per_day (re_config (se_risk se'))
      \<and> re_config (se_risk se') = re_config (se_risk (sample_session None []))"
    using trades_of_a_day_are_bounded [OF run] unfolding bot.select_convs by blast
  moreover have "r \<in> set (order_rows (b_store ?b'))"
    using t(2) by (simp add: persist_session_state_def kv_put_def)
  ultimately show ?thesis using run t(3)
    by (intro exI [of _ ?b'] exI [of _ r]) auto
qed

end
