(* ===== verification/Latch.thy ===== *)
theory Latch
  imports Bot_Steps
begin

text \<open>
  The latch of the kill switch in the store: once a reason is stored, no operation of the bot takes it
  back. A drawdown or failures in a row may store another reason; reconciliation, marks, exits, the
  saving of the day, whole sessions, the cycles of the exit monitor and the manual exit keep it.
\<close>

section \<open>Keeping the latch\<close>

definition holds_latch :: "store \<Rightarrow> bool" where
  "holds_latch st \<longleftrightarrow> (\<exists>r. kill_switch_reason st = Inr (Some r))"

definition stays_latched :: "store \<Rightarrow> store \<Rightarrow> bool" where
  "stays_latched st st' \<longleftrightarrow> (holds_latch st \<longrightarrow> holds_latch st')"

named_theorems latch_keepers \<open>steps that keep the latch of the kill switch\<close>

lemma stays_latched_refl [simp]: "stays_latched st st"
  by (simp add: stays_latched_def)

lemma stays_latched_trans [trans]: "stays_latched a b \<Longrightarrow> stays_latched b c \<Longrightarrow> stays_latched a c"
  by (simp add: stays_latched_def)

lemma stays_latched_look:
  "kv_look st' kill_switch_key = kv_look st kill_switch_key \<Longrightarrow> stays_latched st st'"
  by (simp add: stays_latched_def holds_latch_def kill_switch_reason_def)

lemma stays_latched_kv [latch_keepers]: "kv st' = kv st \<Longrightarrow> stays_latched st st'"
  by (rule stays_latched_look) (simp add: kv_look_def)

lemma stays_latched_flags [latch_keepers]: "same_flags st st' \<Longrightarrow> stays_latched st st'"
  by (simp add: stays_latched_def holds_latch_def same_flags_reads)

lemma stays_latched_put [latch_keepers]: "k \<noteq> kill_switch_key \<Longrightarrow> stays_latched st (kv_put k v st)"
  by (rule stays_latched_look) (simp add: kvs.look_put)

lemma stays_latched_latch [latch_keepers]: "stays_latched st (latch_kill_switch r st)"
  by (simp add: stays_latched_def holds_latch_def kill_switch_reason_def latch_kill_switch_def
      kvs.look_put)

lemma other_keys [simp]:
  "position_key m \<noteq> kill_switch_key" "''liquidity:'' @ m \<noteq> kill_switch_key"
  "day_key \<noteq> kill_switch_key" "day_start_key \<noteq> kill_switch_key" "trades_key \<noteq> kill_switch_key"
  "emergency_key \<noteq> kill_switch_key"
  by (simp_all add: position_key_def kill_switch_key_def day_key_def day_start_key_def trades_key_def
      emergency_key_def)

lemmas other_keys_sym [simp] = other_keys [THEN not_sym]

lemma persist_stays_latched [latch_keepers]: "stays_latched st (persist_session_state se st)"
  by (rule stays_latched_look) (simp add: persist_session_state_def kvs.look_put)

lemma note_liquidity_stays_latched [latch_keepers]: "stays_latched st (note_liquidity te m l st)"
  by (auto simp: note_liquidity_def set_last_liquidity_def kill_switch_key_def intro!: stays_latched_put)

lemma emergency_stays_latched [latch_keepers]:
  "stays_latched st (set_emergency_stop reason now st)" "stays_latched st (clear_emergency_stop st)"
proof -
  show "stays_latched st (set_emergency_stop reason now st)"
    by (simp add: set_emergency_stop_def latch_keepers)
  show "stays_latched st (clear_emergency_stop st)"
    using other_keys(6) by (intro stays_latched_look)
      (simp add: clear_emergency_stop_def kv_look_def AList.delete_conv')
qed

section \<open>Exits\<close>

lemma execute_exit_stays_latched:
  assumes "execute_exit_order X E dbg ft c now uuid mint reason st pf = Some (res, st', pf')"
  shows "stays_latched st st'"
  using execute_exit_order_cases [OF assms]
proof (elim disjE exE conjE)
  fix stored xp mark
  assume r: "exit_ran X ft now reason (xp_position xp) (order_rows st)
    (exit_order X uuid now mint reason xp mark) st pf res st' pf'"
  show ?thesis
  proof (cases res)
    case (ExitConfirmed f)
    then obtain k p where "kv st' = AList.update (position_key k) p (kv st)"
      using r by (auto simp: exit_ran_def)
    then show ?thesis by (intro stays_latched_look) (simp add: kv_look_def)
  qed (use r in \<open>auto simp: exit_ran_def intro: latch_keepers\<close>)
qed simp_all

lemma note_failure_stays_latched:
  "note_failure se st = (se', st') \<Longrightarrow> stays_latched st st'"
  by (auto simp: note_failure_def latch_keepers split: prod.split_asm if_split_asm)

lemma attempt_exit_stays_latched:
  assumes "attempt_exit X E dbg ft c now uuid mint remaining reason se st = Some (se', st')"
  shows "stays_latched st st'"
proof (cases "authorize_exit (se_risk se) remaining")
  case (Inr u)
  obtain res st1 pf where ex: "execute_exit_order X E dbg ft c now uuid mint reason st
      (se_portfolio se) = Some (res, st1, pf)"
    using assms Inr by (auto simp: attempt_exit_def split: option.split_asm)
  note a = execute_exit_stays_latched [OF ex]
  show ?thesis
  proof (cases res)
    case (ExitFailed m)
    then have "note_failure (se\<lparr>se_portfolio := pf\<rparr>) st1 = (se', st')"
      using assms Inr ex by (simp add: attempt_exit_def)
    with a show ?thesis using note_failure_stays_latched stays_latched_trans by blast
  qed (use assms Inr ex a in \<open>auto simp: attempt_exit_def Let_def bind_Some_iff\<close>)
qed (use assms in \<open>simp add: attempt_exit_def\<close>)

lemma derive_mark_stays_latched:
  "derive_mark X te E c se mint r bd td bp st = Some (m, st') \<Longrightarrow> stays_latched st st'"
  by (auto simp: derive_mark_def bind_Some_iff latch_keepers split: option.split_asm sum.split_asm)

lemma exit_if_due_stays_latched:
  "exit_if_due X te E dbg c mint p remaining liquidity invalidated mark se st = Some (res, se', st')
     \<Longrightarrow> stays_latched st st'"
  by (auto simp: exit_if_due_def dest: attempt_exit_stays_latched
      split: option.split_asm prod.split_asm sum.split_asm)

lemma process_exit_stays_latched:
  "process_exit X te E dbg c mint se st = Some (res, se', st') \<Longrightarrow> stays_latched st st'"
  unfolding process_exit_def
  by (auto simp: bind_Some_iff Let_def split: option.split_asm if_split_asm prod.split_asm)
    (blast dest: derive_mark_stays_latched exit_if_due_stays_latched intro: stays_latched_trans)+

lemma process_exit_list_stays_latched:
  "process_exit_list X te E dbg c mints se st = Some (res, se', st') \<Longrightarrow> stays_latched st st'"
proof (induction mints arbitrary: se st)
  case (Cons m ms)
  then show ?case
    by (auto split: option.split_asm prod.split_asm sum.split_asm)
      (blast dest: process_exit_stays_latched intro: stays_latched_trans)+
qed simp

section \<open>A halted session\<close>

lemma ingest_stays_latched:
  "ingest one te cands qs st = Some (res, st') \<Longrightarrow> stays_latched st st'"
proof (induction cands arbitrary: qs st)
  case (Cons cand cands)
  have n: "stays_latched st (note_liquidity te (cd_mint cand) (mk_liquidity_usd (cd_market cand)) st)"
    by (rule note_liquidity_stays_latched)
  show ?case
    using Cons.prems n stays_latched_trans [OF n Cons.IH]
    by (auto simp: Let_def split: option.split_asm sum.split_asm)
qed simp

lemma ingest_both_stay_latched:
  "ingest_feed X te c se st = Some (res, se', st') \<Longrightarrow> stays_latched st st'"
  "ingest_wallets X te c qs se st = Some (res', se', st') \<Longrightarrow> stays_latched st st'"
  by (auto simp: ingest_feed_def ingest_wallets_def dest: ingest_stays_latched
      split: if_split_asm option.split_asm sum.split_asm)

lemma pending_stays_latched:
  "reconcile_pending_orders X C fts c now live owner st = Some (res, st') \<Longrightarrow> stays_latched st st'"
  using reconcile_orders_frame [of X C fts c now live owner]
  by (auto simp: reconcile_pending_orders_def intro: stays_latched_flags)

lemma positions_stay_latched:
  "stays_latched st (snd (reconcile_positions_onchain C now owner st))"
  by (rule stays_latched_flags) (rule reconcile_positions_frame(2))

lemma reconciliation_stays_latched:
  assumes "run_reconciliation X C fts c now live owner st = Some (res, st')"
  shows "stays_latched st st'"
proof -
  obtain r st1 where r: "reconcile_pending_orders X C fts c now live owner st = Some (r, st1)"
    and st': "st' = st1 \<or> st' = snd (reconcile_positions_onchain C now owner st1)"
    using assms by (auto simp: run_reconciliation_def
        split: option.split_asm sum.split_asm prod.split_asm)
  from st' positions_stay_latched have "stays_latched st1 st'" by auto
  with pending_stays_latched [OF r] show ?thesis by (rule stays_latched_trans)
qed

lemma prepare_tick_stays_latched:
  assumes "prepare_tick X te c se st = Some (res, se', st')"
  shows "stays_latched st st'"
proof -
  let ?st1 = "periodic_reconciliation te c st"
  obtain pr st2 where pr: "reconcile_pending_orders X (te_reader te) (te_order_faults te) c (te_now te)
      (te_live te) (te_owner te) ?st1 = Some (pr, st2)"
    using assms by (auto simp: prepare_tick_def Let_def split: option.split_asm)
  have "stays_latched st ?st1" by (simp add: periodic_reconciliation_def positions_stay_latched)
  then have "stays_latched st st2" using pending_stays_latched [OF pr] by (rule stays_latched_trans)
  moreover have "stays_latched st2 st'"
    using assms pr by (auto simp: prepare_tick_def Let_def dest: ingest_both_stay_latched
        intro: stays_latched_trans split: option.split_asm sum.split_asm prod.split_asm)
  ultimately show ?thesis by (rule stays_latched_trans)
qed

lemma mark_equity_stays_latched:
  "mark_equity X te c se st = Some (res, se', st') \<Longrightarrow> stays_latched st st'"
  by (auto simp: mark_equity_def Let_def bind_Some_iff latch_keepers
      split: if_split_asm sum.split_asm option.split_asm)

lemma halted_tick_stays_latched:
  assumes "tick X te dbg c se st = Some (res, se', st')" "tripped (re_kill_switch (se_risk se))"
  shows "stays_latched st st'"
proof -
  obtain r1 se1 st1 where p: "prepare_tick X te c se st = Some (r1, se1, st1)"
    and rest: "se' = se1 \<and> st' = st1
      \<or> (\<exists>qs. r1 = Inr qs \<and> trade_tick X te qs dbg c se1 st1 = Some (res, se', st'))"
    using assms(1) by (auto simp: tick_def split: option.split_asm sum.split_asm)
  have t: "tripped (re_kill_switch (se_risk se1))" using prepare_tick_frame(2) [OF p] assms(2) .
  note k = prepare_tick_stays_latched [OF p]
  from rest show ?thesis
  proof (elim disjE exE conjE)
    fix qs assume tr: "trade_tick X te qs dbg c se1 st1 = Some (res, se', st')"
    obtain r2 se2 st2 where m: "mark_equity X te c se1 st1 = Some (r2, se2, st2)"
      and rest2: "st' = st2 \<or> (\<exists>r3 se3. process_exits X te (te_exec te qs) dbg c se2 st2
         = Some (r3, se3, st')) \<or> (\<exists>r3 se3 st3. process_exits X te (te_exec te qs) dbg c se2 st2
         = Some (r3, se3, st3) \<and> enter_if_clear X te qs dbg c se3 st3 = Some (res, se', st'))"
      using tr by (auto simp: trade_tick_def split: option.split_asm sum.split_asm)
    note k2 = stays_latched_trans [OF k mark_equity_stays_latched [OF m]]
    have x: "stays_latched st2 st3 \<and> tripped (re_kill_switch (se_risk se3))"
      if "process_exits X te (te_exec te qs) dbg c se2 st2 = Some (r3, se3, st3)" for r3 se3 st3
      using that [unfolded process_exits_def] process_exit_list_stays_latched
        process_exit_list_frame mark_equity_frame(2) [OF m] t
      by (fastforce simp: latched_def)
    from rest2 k2 x show ?thesis
      by (auto simp: enter_if_clear_def intro: stays_latched_trans split: if_split_asm)
  qed (use k in simp)
qed

section \<open>The manual exit\<close>

lemma exit_all_loop_sells:
  "exit_all_loop X E dbg ft c now uuids fault bs mints n se st = Some (res, st')
     \<Longrightarrow> adds Exit st st' \<and> stays_latched st st'"
proof (induction mints arbitrary: n se st)
  case (Cons mint mints)
  consider "st' = st"
    | "exit_all_loop X E dbg ft c now uuids fault bs mints n se st = Some (res, st')"
    | remaining se1 st1 where "attempt_exit X (E mint) dbg (ft mint) c now (uuids mint) mint remaining
          ''manual_exit'' se st = Some (se1, st1)"
        "exit_all_loop X E dbg ft c now uuids fault bs mints (n + 1) se1 st1 = Some (res, st')"
    using Cons.prems by (auto split: option.split_asm if_split_asm)
  then show ?case
  proof cases
    case 3
    note a = attempt_exit_frame(1) [OF 3(1)] attempt_exit_stays_latched [OF 3(1)]
    with Cons.IH [OF 3(2)] adds_trans stays_latched_trans show ?thesis by blast
  qed (use Cons.IH in \<open>auto simp: adds_refl\<close>)
qed (simp add: adds_refl)

lemma exit_all_sells:
  assumes "exit_all_positions X E dbg ft c now uuids fault live owner C st = Some (res, st')"
  shows "adds Exit st st' \<and> stays_latched st st'"
  using assms exit_all_loop_sells
  by (auto simp: exit_all_positions_def Let_def adds_refl split: sum.split_asm)

section \<open>The exit monitor\<close>

lemma save_position_stays_latched [latch_keepers]: "stays_latched st (save_position p st)"
  by (simp add: save_position_def flip: position_key_def) (rule stays_latched_put, simp)

lemma stale_order_stays_latched:
  assumes "reconcile_stale_order X C ft c now live owner ord st = Some st'"
  shows "stays_latched st st'"
proof -
  have g: "stays_latched st (give_up ft now ord msg target st)" for msg target
    by (rule stays_latched_kv) simp
  have live: "stays_latched st st'" if "reconcile_stale_live X C ft c now owner ord sig st = Some st'" for sig
  proof -
    have "st' = st \<or> (\<exists>msg target. st' = give_up ft now ord msg target st)
      \<or> (\<exists>outcome r. record_reconciled_fill X ft c now st ord outcome sig = Some (r, st'))"
      using that unfolding reconcile_stale_live_def
      by (auto simp: bind_Some_iff split: option.split_asm sum.split_asm execution_error.split_asm if_split_asm)
    then show ?thesis using g record_flags stays_latched_flags by auto
  qed
  show ?thesis
    using assms live g
    by (auto simp: reconcile_stale_order_def bind_Some_iff split: option.split_asm if_split_asm)
qed

lemma stale_list_stays_latched:
  "reconcile_stale_list X C fts c now live owner ords st = Some st' \<Longrightarrow> stays_latched st st'"
proof (induction ords arbitrary: st)
  case (Cons ord ords)
  then obtain st1 where o: "reconcile_stale_order X C (fts ord) c now live owner ord st = Some st1"
    and rest: "reconcile_stale_list X C fts c now live owner ords st1 = Some st'"
    by (auto split: option.split_asm)
  from stale_order_stays_latched [OF o] Cons.IH [OF rest] show ?case by (rule stays_latched_trans)
qed simp

lemma monitor_decide_stays_latched:
  assumes "monitor_decide X me E dbg c mint p remaining td impact mark pf st = Some (pf', st')"
  shows "stays_latched st st'"
proof -
  let ?st1 = "case position_of pf mint of None \<Rightarrow> st
      | Some marked \<Rightarrow> if me_save_fault me mint then st else save_position marked st"
  have k: "stays_latched st ?st1" by (simp add: save_position_stays_latched split: option.split)
  obtain liq st2 where l: "monitor_liquidity X (me_tick me) c mint remaining td mark impact ?st1
      = Some (liq, st2)"
    and rest: "st' = st2 \<or> (\<exists>ft now uuid reason res. execute_exit_order X E dbg ft c now uuid mint
        reason st2 pf = Some (res, st', pf'))"
    using assms by (auto simp: monitor_decide_def Let_def split: option.split_asm) blast+
  have "stays_latched ?st1 st2"
    using l note_liquidity_stays_latched
    by (auto simp: monitor_liquidity_def bind_Some_iff split: option.split_asm)
  with k have "stays_latched st st2" by (rule stays_latched_trans)
  with rest show ?thesis using execute_exit_stays_latched stays_latched_trans by auto
qed

lemma monitor_position_stays_latched:
  "monitor_position X me E dbg c mint cache pf st = Some (res, st') \<Longrightarrow> stays_latched st st'"
  by (cases rule: monitor_position_cases) (auto dest: monitor_decide_stays_latched)

lemma monitor_positions_stays_latched:
  "monitor_positions X me E dbg c mints cache pf st = Some (res, cache', st') \<Longrightarrow> stays_latched st st'"
proof (induction mints arbitrary: cache pf st)
  case (Cons mint mints)
  obtain r st1 where one: "monitor_position X me (E mint) dbg c mint cache pf st = Some (r, st1)"
    using Cons.prems by (auto split: option.split_asm)
  have "st' = st1
      \<or> (\<exists>cache1 pf1. monitor_positions X me E dbg c mints cache1 pf1 st1 = Some (res, cache', st'))"
    using Cons.prems one by (cases r) (auto split: prod.split_asm)
  then have "stays_latched st1 st'" using Cons.IH by auto
  with monitor_position_stays_latched [OF one] show ?case by (rule stays_latched_trans)
qed simp

lemma monitor_tick_stays_latched:
  assumes "monitor_tick X me dbg c cache st = Some (res, cache', st')"
  shows "stays_latched st st'"
proof -
  obtain st1 where r: "reconcile_stale_orders X (me_tick me) c st = Some st1"
    and a: "stays_latched st1 st'"
    using assms monitor_positions_stays_latched
    by (fastforce simp: monitor_tick_def split: option.split_asm sum.split_asm)
  have "stays_latched st st1"
    using r stale_list_stays_latched by (auto simp: reconcile_stale_orders_def split: if_split_asm)
  then show ?thesis using a by (rule stays_latched_trans)
qed

section \<open>Tasks that keep the latch\<close>

text \<open>The contract of the tasks on the shared store, with the latch: what is stored stays stored.\<close>

locale latch_task = selling_task act halted
  for act :: "'s \<times> store \<Rightarrow> ('s \<times> store) option" and halted :: "'s \<Rightarrow> bool" +
  assumes keeps_latch: "act (s, st) = Some (s', st') \<Longrightarrow> halted s \<Longrightarrow> ids_ok st \<Longrightarrow> stays_latched st st'"
begin

lemma latched_and_sells:
  assumes "act (s, st) = Some (s', st')" "halted s" "ids_ok st" "holds_latch st"
  shows "halted s' \<and> ids_ok st' \<and> holds_latch st' \<and> only_exits st st'"
  using stays_halted [OF assms(1-3)] keeps_ids [OF assms(1-3)] only_sells [OF assms(1-3)]
    keeps_latch [OF assms(1-3)] assms(4) by (simp add: stays_latched_def)

end

interpretation latch_trader: latch_task "session_act X dbg c te" "\<lambda>se. tripped (re_kill_switch (se_risk se))"
  for X dbg c te
proof
  fix s st s' st'
  assume a: "session_act X dbg c te (s, st) = Some (s', st')" "tripped (re_kill_switch (se_risk s))"
  then obtain r st1 where t: "tick X te dbg c s st = Some (r, s', st1)"
    and st': "st' = persist_session_state s' st1" by (auto simp: session_act_def)
  show "stays_latched st st'"
    unfolding st' using halted_tick_stays_latched [OF t a(2)] persist_stays_latched
    by (rule stays_latched_trans)
qed

interpretation latch_seller: latch_task "monitor_act X dbg c me" "\<lambda>_. True" for X dbg c me
  by unfold_locales (auto simp: monitor_act_def dest: monitor_tick_stays_latched)

interpretation latch_stopping: latch_task "operator_act (set_emergency_stop reason now)" "\<lambda>_. True"
  for reason now
  by unfold_locales (simp add: operator_act_def emergency_stays_latched)

interpretation latch_clearing: latch_task "operator_act clear_emergency_stop" "\<lambda>_. True"
  by unfold_locales (simp add: operator_act_def emergency_stays_latched)

text \<open>In any interleaving a halted bot over a latched store keeps both.\<close>

lemma latched_steps:
  assumes "bot_steps X dbg c es b b'" "halted_bot b" "holds_latch (b_store b)"
  shows "halted_bot b' \<and> holds_latch (b_store b') \<and> only_exits (b_store b) (b_store b')"
  using assms
proof (induction rule: bot_steps.induct)
  case (finished b)
  then show ?case by (simp add: halted_bot_def only_exits_def)
next
  case (step e b b1 es b2)
  have "holds_latch (b_store b1)"
  proof (cases e)
    case (SessionTick te)
    then have "session_act X dbg c te (b_session b, b_store b) = Some (b_session b1, b_store b1)"
      using step.hyps(1) by (auto simp: session_act_def)
    from latch_trader.latched_and_sells [OF this] step.prems show ?thesis by (simp add: halted_bot_def)
  next
    case (MonitorCycle me)
    then have "monitor_act X dbg c me (b_cache b, b_store b) = Some (b_cache b1, b_store b1)"
      using step.hyps(1) by (auto simp: monitor_act_def)
    from latch_seller.latched_and_sells [OF this] step.prems show ?thesis by (simp add: halted_bot_def)
  qed (use step emergency_stays_latched in \<open>auto simp: stays_latched_def\<close>)
  with step halted_event [OF step.hyps(1)] show ?case using only_exits_trans by blast
qed

end
