(* ===== verification/Session_Run.thy ===== *)
theory Session_Run
  imports Latch Report
begin

text \<open>
  \<open>run_session\<close> of \<open>src/runtime.rs\<close> as a whole: the start, the exit monitor spawned beside the
  session, the startup reconciliation, the ticks of the session and the cycles of the monitor in any
  order until the shutdown, the final reconciliation and the report. The flags of the operator, which
  other commands write to the same store, may change between the steps. The monitor may run while the
  session is starting; its cycles are whole steps here as well.
\<close>

section \<open>A session from start to end\<close>

record 'v session_env =
  sn_now :: datetime
  sn_reader :: "'v chain_reader"
  sn_faults :: "order_record \<Rightarrow> faults"
  sn_starting :: "'v monitor_env list"        \<comment> \<open>cycles of the monitor before the reconciliation\<close>
  sn_events :: "'v event list"                \<comment> \<open>until both tasks have stopped\<close>
  sn_end_now :: datetime
  sn_end_reader :: "'v chain_reader"
  sn_end_faults :: "order_record \<Rightarrow> faults"

datatype session_error = SessionStore storage_error | StartupReconciliation string

definition startup_reconciliation ::
    "ext \<Rightarrow> config \<Rightarrow> bool \<Rightarrow> string option \<Rightarrow> 'v session_env \<Rightarrow> store
     \<Rightarrow> ((string + reconcile_summary) \<times> store) option" where
  "startup_reconciliation X c live owner S st =
    (if live then run_reconciliation X (sn_reader S) (sn_faults S) c (sn_now S) live owner st
     else reconcile_pending_orders X (sn_reader S) (sn_faults S) c (sn_now S) live owner st)"

text \<open>The errors of the final reconciliation are logged.\<close>

definition final_reconciliation ::
    "ext \<Rightarrow> config \<Rightarrow> bool \<Rightarrow> string option \<Rightarrow> 'v session_env \<Rightarrow> store \<Rightarrow> store option" where
  "final_reconciliation X c live owner S st =
    (if live
     then map_option snd (reconcile_pending_orders X (sn_end_reader S) (sn_end_faults S) c
            (sn_end_now S) live owner st)
     else Some st)"

text \<open>Whether the executor is live and who owns its wallet is the same in every step of both tasks.\<close>

definition executor_tick :: "bool \<Rightarrow> string option \<Rightarrow> 'v tick_env \<Rightarrow> 'v tick_env" where
  "executor_tick live owner te = te\<lparr>te_live := live, te_owner := owner\<rparr>"

fun executor_event :: "bool \<Rightarrow> string option \<Rightarrow> 'v event \<Rightarrow> 'v event" where
  "executor_event live owner (SessionTick te) = SessionTick (executor_tick live owner te)"
| "executor_event live owner (MonitorCycle me) =
     MonitorCycle (me\<lparr>me_tick := executor_tick live owner (me_tick me)\<rparr>)"
| "executor_event live owner (OperatorStop reason now) = OperatorStop reason now"
| "executor_event live owner OperatorClear = OperatorClear"

text \<open>
  The monitor is spawned with an empty cache before the session reads the day and the interlocks,
  which it never writes, and is awaited before the final reconciliation.
\<close>

definition run_session ::
    "ext \<Rightarrow> (string option \<Rightarrow> string) \<Rightarrow> config \<Rightarrow> bool \<Rightarrow> string option \<Rightarrow> 'v session_env \<Rightarrow> store
     \<Rightarrow> ((session_error + performance_report) \<times> store) option" where
  "run_session X dbg c live owner S st =
    (case start_session X c (sn_now S) st of
       None \<Rightarrow> None
     | Some (Inl e) \<Rightarrow> Some (Inl (SessionStore e), st)
     | Some (Inr se) \<Rightarrow>
    (case bot_run X dbg c (map (executor_event live owner \<circ> MonitorCycle) (sn_starting S))
            \<lparr>b_session = se, b_cache = [], b_store = st\<rparr> of
       None \<Rightarrow> None
     | Some b \<Rightarrow>
    (case startup_reconciliation X c live owner S (b_store b) of
       None \<Rightarrow> None
     | Some (Inl e, st1) \<Rightarrow> Some (Inl (StartupReconciliation e), st1)
     | Some (Inr _, st1) \<Rightarrow>
    (case bot_run X dbg c (map (executor_event live owner) (sn_events S)) (b\<lparr>b_store := st1\<rparr>) of
       None \<Rightarrow> None
     | Some b' \<Rightarrow> do {
         st3 \<leftarrow> final_reconciliation X c live owner S (b_store b');
         r \<leftarrow> generate_report X st3 (starting_capital_usd (risk c));
         Some (case r of Inl e \<Rightarrow> Inl (SessionStore e) | Inr rep \<Rightarrow> Inr rep, st3)
       }))))"

section \<open>A latched run\<close>

lemma startup_keeps:
  assumes "startup_reconciliation X c live owner S st = Some (res, st')" "ids_ok st"
  shows "keeps st st'"
proof (cases live)
  case True
  then obtain r st1 where r: "reconcile_pending_orders X (sn_reader S) (sn_faults S) c (sn_now S) True owner st
      = Some (r, st1)" and st': "st' = st1
        \<or> st' = snd (reconcile_positions_onchain (sn_reader S) (sn_now S) owner st1)"
    using assms(1) by (auto simp: startup_reconciliation_def run_reconciliation_def
        split: option.split_asm sum.split_asm prod.split_asm)
  have "order_rows st' = order_rows st1" using st' reconcile_positions_frame(1) by auto
  then show ?thesis using reconcile_pending_keeps [OF r assms(2)] keeps_rows keeps_trans by blast
next
  case False
  then show ?thesis using assms reconcile_pending_keeps by (simp add: startup_reconciliation_def)
qed

lemma final_keeps:
  assumes "final_reconciliation X c live owner S st = Some st'" "ids_ok st"
  shows "keeps st st'"
  using assms reconcile_pending_keeps
  by (auto simp: final_reconciliation_def split: if_splits)

lemma start_session_trips:
  assumes "start_session X c now st = Some (Inr se)" "kill_switch_reason st = Inr (Some r)"
  shows "tripped (re_kill_switch (se_risk se))"
proof -
  obtain pf where pf: "load_portfolio st = Inr pf"
    using assms(1) by (auto simp: start_session_def split: sum.split_asm)
  obtain ex where ex: "aggregate_exposure X (open_positions_of pf) = Some ex"
    using assms(1) pf by (auto simp: start_session_def bind_Some_iff Let_def)
  obtain day start trades em where "get_text st day_key = Inr day" "get_decimal st day_start_key = Inr start"
    "get_count st trades_key = Inr trades" "emergency_stop st = Inr em"
    using assms pf ex by (auto simp: start_session_def Let_def split: sum.split_asm)
  then show ?thesis using assms pf ex
    by (auto simp: start_session_def Let_def trip_def force_trip_def)
qed

lemma startup_stays_latched:
  assumes "startup_reconciliation X c live owner S st = Some (res, st')"
  shows "stays_latched st st'"
  using assms reconciliation_stays_latched pending_stays_latched
  by (auto simp: startup_reconciliation_def split: if_split_asm)

text \<open>
  A session that starts on a store with a latched kill switch adds only exits to the orders, whatever
  its ticks, the cycles of the monitor and the operator do, and leaves the latch in place.
\<close>

lemma latched_run:
  assumes "run_session X dbg c live owner S st = Some (res, st')" "ids_ok st" "holds_latch st"
  shows "holds_latch st' \<and> only_exits st st'"
proof -
  obtain r where r: "kill_switch_reason st = Inr (Some r)" using assms(3) by (auto simp: holds_latch_def)
  obtain a where a: "start_session X c (sn_now S) st = Some a"
    using assms(1) by (auto simp: run_session_def split: option.split_asm)
  show ?thesis
  proof (cases a)
    case (Inl e)
    then show ?thesis using assms a by (simp add: run_session_def only_exits_def)
  next
    case (Inr se)
    let ?b0 = "\<lparr>b_session = se, b_cache = [], b_store = st\<rparr>"
    have "halted_bot ?b0"
      using start_session_trips [OF a [unfolded Inr] r] assms(2) by (simp add: halted_bot_def)
    obtain b where b: "bot_run X dbg c (map (executor_event live owner \<circ> MonitorCycle)
          (sn_starting S)) ?b0 = Some b"
      using assms(1) a Inr by (auto simp: run_session_def split: option.split_asm)
    obtain s st1 where s: "startup_reconciliation X c live owner S (b_store b) = Some (s, st1)"
      using assms(1) a Inr b by (auto simp: run_session_def split: option.split_asm)
    have rest: "st' = st1 \<or> (\<exists>b'. bot_run X dbg c (map (executor_event live owner) (sn_events S))
          (b\<lparr>b_store := st1\<rparr>) = Some b' \<and> final_reconciliation X c live owner S (b_store b') = Some st')"
      using assms(1) a Inr b s
      by (cases s) (auto simp: run_session_def bind_Some_iff split: option.split_asm)
    have one: "halted_bot b" "holds_latch (b_store b)" "only_exits st (b_store b)"
      using latched_steps [OF b [unfolded bot_run_steps] \<open>halted_bot ?b0\<close>] assms(3) by simp_all
    note k = startup_keeps [OF s] startup_stays_latched [OF s]
    have two: "only_exits (b_store b) st1" "ids_ok st1" "holds_latch st1" "halted_bot (b\<lparr>b_store := st1\<rparr>)"
      using k one(1,2) keeps_only_exits
      by (auto simp: halted_bot_def keeps_def stays_latched_def)
    have "holds_latch st' \<and> only_exits st1 st'" if ne: "st' \<noteq> st1"
    proof -
      obtain b' where b': "bot_run X dbg c (map (executor_event live owner) (sn_events S))
          (b\<lparr>b_store := st1\<rparr>) = Some b'"
        and f: "final_reconciliation X c live owner S (b_store b') = Some st'"
        using rest ne by blast
      have three: "halted_bot b'" "holds_latch (b_store b')" "only_exits st1 (b_store b')"
        using latched_steps [OF b' [unfolded bot_run_steps] two(4)] two(3) by simp_all
      have "stays_latched (b_store b') st'"
        using f pending_stays_latched by (auto simp: final_reconciliation_def split: if_split_asm)
      moreover have "only_exits (b_store b') st'"
        using final_keeps [OF f] keeps_only_exits three(1) by (simp add: halted_bot_def)
      ultimately show ?thesis using three only_exits_trans by (auto simp: stays_latched_def)
    qed
    then show ?thesis using one(3) two(1,3) only_exits_trans by blast
  qed
qed

section \<open>Realised losses\<close>

text \<open>
  The equity that the risk engine observes is the starting capital and the profits of the positions
  that are open now: a loss that was realised leaves it. Once nothing is open, the daily loss limit
  and the drawdown see the starting capital, whatever the closed positions have lost.
\<close>

lemma closed_losses_are_forgotten:
  assumes "mark_equity X te c se st = Some (res, se', st')"
    and "open_positions_of (se_portfolio se) = []"
  shows "equity (re_state (se_risk se')) = starting_capital_usd (risk c)"
proof -
  obtain re where re: "observe_equity X (se_risk se) (starting_capital_usd (risk c)) = Some re"
    using assms by (auto simp: mark_equity_def equity_usd_def bind_Some_iff)
  then have "equity (re_state re) = starting_capital_usd (risk c)"
    by (auto simp: observe_equity_def bind_Some_iff)
  then show ?thesis using assms re
    by (auto simp: mark_equity_def equity_usd_def bind_Some_iff Let_def set_total_exposure_def
        set_open_positions_def split: if_splits sum.splits option.splits)
qed

text \<open>
  What the exit monitor has sold, the session goes on holding: the exit of a mint whose stored
  position is closed is skipped before the executor is asked, and the portfolio of the session, its
  risk counters and the store stay as they were.
\<close>

lemma session_keeps_sold_position:
  assumes "attempt_exit X E dbg ft c now uuid mint remaining reason se st = Some (se', st')"
    and "positions st = Inr ps" and "find (\<lambda>p. p_mint p = mint) ps = Some p" and "p_state p \<noteq> PosOpen"
  shows "se_portfolio se' = se_portfolio se \<and> se_risk se' = se_risk se \<and> st' = st"
  using assms by (auto simp: attempt_exit_def execute_exit_order_def plan_exit_def
      split: sum.splits option.splits)

end
