(* ===== verification/Entry_Point.thy ===== *)
theory Entry_Point
  imports Session_Run Backtest_Stats Jupiter Rpc Collector History Historical_Build Historical_Validate
begin

text \<open>
  \<open>src/main.rs\<close>: the commands of the bot. What the outside answers (the files, the environment, the
  nodes, the key pair) is gathered in \<open>main_env\<close>. A command ends with an error or a value, and the
  store it leaves behind; what it prints is left out, apart from the values of the report and the
  status. Parsing the command line is not modelled.
\<close>

section \<open>The outside\<close>

datatype load_error = ConfigUnread | ConfigUnparsed string | ConfigRefused config_error

datatype command_error =
    ConfigFailed load_error
  | ClientFailed
  | PersistenceFailed
  | StoreProblem storage_error
  | NodesUnhealthy rpc_failure
  | ExecutorUnhealthy execution_error
  | KillSwitchLatched
  | UnreconciledOrders
  | NoSignerVariable
  | SignerMissing
  | SignerNotJson
  | SignerInvalid
  | NoApiKeyVariable
  | ApiKeyMissing
  | ApiKeyBlank
  | BalanceUnread rpc_failure
  | InsufficientSol u64
  | SignerMismatch
  | ReconciliationFailed string
  | ReconciliationIncomplete
  | ManualExitFailed string
  | SessionFailed session_error
  | DatasetRefused
  | BadArgument string
  | BuildFailed build_error
  | NoSignalsAccepted

record ('v, 'f) main_env =
  mn_config_file :: "string option"
  mn_parse_config :: "string \<Rightarrow> string + config"          \<comment> \<open>toml::from_str\<close>
  mn_client :: bool                                       \<comment> \<open>reqwest builds the HTTP client\<close>
  mn_database :: "string \<Rightarrow> bool"                          \<comment> \<open>SQLite opens the file\<close>
  mn_nodes :: "nat \<Rightarrow> nat \<Rightarrow> string \<Rightarrow> 'v http_answer"       \<comment> \<open>per health request, as in rpc_call\<close>
  mn_jup :: "('v, 'f) jup_env"
  mn_balance :: "string \<Rightarrow> u64 rpc_answer"
  mn_token_balances :: "string \<Rightarrow> (string \<times> u64 \<times> u8) list rpc_answer"

text \<open>\<open>config::load\<close>: read, parse and validate.\<close>

definition load_config :: "('v, 'f) main_env \<Rightarrow> load_error + config" where
  "load_config W = (case mn_config_file W of
      None \<Rightarrow> Inl ConfigUnread
    | Some txt \<Rightarrow> (case mn_parse_config W txt of
        Inl e \<Rightarrow> Inl (ConfigUnparsed e)
      | Inr c \<Rightarrow> (case validate c of Inl e \<Rightarrow> Inl (ConfigRefused e) | Inr _ \<Rightarrow> Inr c)))"

definition base_setup :: "('v, 'f) main_env \<Rightarrow> command_error + config" where
  "base_setup W = (case load_config W of
      Inl e \<Rightarrow> Inl (ConfigFailed e)
    | Inr c \<Rightarrow> if \<not> mn_client W then Inl ClientFailed
              else if \<not> mn_database W (sqlite_path (storage c)) then Inl PersistenceFailed
              else Inr c)"

text \<open>The \<open>i\<close>-th health request of a command.\<close>

definition pool_health :: "('v, 'f) main_env \<Rightarrow> config \<Rightarrow> nat \<Rightarrow> unit rpc_answer" where
  "pool_health W c i = map_sum id (\<lambda>_. ())
     (fst (rpc_call (je_json (mn_jup W)) (mn_nodes W i) (http_endpoints (rpc c)) (max_attempts (rpc c))))"

section \<open>The executor\<close>

datatype executor =
    LiveExecutor jupiter_executor
  | PaperOver jupiter_executor paper_executor
  | ReplayOver deterministic_executor paper_executor

definition jupiter_of :: "config \<Rightarrow> string option \<Rightarrow> string option \<Rightarrow> jupiter_executor" where
  "jupiter_of c signer key = \<lparr>jx_signer_env = signer, jx_api_key_env = key,
     jx_max_quote_age_secs = max_quote_age_secs (economics c),
     jx_max_fee_lamports = max_fee_lamports (execution c),
     jx_allowed_program_ids = allowed_program_ids (execution c),
     jx_priority_fee_lamports = priority_fee_lamports (execution c)\<rparr>"

definition build_executor :: "('v, 'f) main_env \<Rightarrow> config \<Rightarrow> command_error + executor" where
  "build_executor W c = (case cfg_mode c of
      Live \<Rightarrow>
        (case live_signer_env (execution c) of
           None \<Rightarrow> Inl NoSignerVariable
         | Some name \<Rightarrow>
           (case je_env_var (mn_jup W) name of
              Inl _ \<Rightarrow> Inl SignerMissing
            | Inr _ \<Rightarrow>
              if \<not> mn_client W then Inl ClientFailed
              else Inr (LiveExecutor (jupiter_of c (live_signer_env (execution c))
                     (jupiter_api_key_env (execution c))))))
    | Paper \<Rightarrow>
        if \<not> mn_client W then Inl ClientFailed
        else Inr (PaperOver (jupiter_of c None None) (new_paper (paper_fill_haircut_bps (runtime c))))
    | Replay \<Rightarrow> Inr (ReplayOver Map.empty (new_paper (paper_fill_haircut_bps (runtime c)))))"

fun executor_live :: "executor \<Rightarrow> bool" where
  "executor_live (LiveExecutor jx) = is_live jx"
| "executor_live (PaperOver _ _) = False"
| "executor_live (ReplayOver _ _) = False"

fun executor_owner :: "('v, 'f) main_env \<Rightarrow> executor \<Rightarrow> string option" where
  "executor_owner W (LiveExecutor jx) = signer_pubkey (mn_jup W) jx"
| "executor_owner W (PaperOver _ _) = None"
| "executor_owner W (ReplayOver _ _) = None"

fun executor_health ::
    "('v, 'f) main_env \<Rightarrow> config \<Rightarrow> nat \<Rightarrow> executor \<Rightarrow> execution_error + unit" where
  "executor_health W c i (LiveExecutor _) =
     map_sum (\<lambda>e. Unavailable (rf_text e)) id (pool_health W c i)"
| "executor_health W c i (PaperOver _ _) =
     map_sum (\<lambda>e. Unavailable (rf_text e)) id (pool_health W c i)"
| "executor_health W c i (ReplayOver _ _) = Inr ()"

section \<open>Starting live\<close>

definition signer_key :: string where "signer_key = ''runtime:signer''"
definition sol_required :: u64 where "sol_required = 100000000"

text \<open>
  The key pair of the configured variable; the texts of the three errors differ between the commands,
  the cases do not.
\<close>

definition live_key :: "('v, 'f) main_env \<Rightarrow> config \<Rightarrow> command_error + pubkey" where
  "live_key W c = (case live_signer_env (execution c) of
      None \<Rightarrow> Inl NoSignerVariable
    | Some name \<Rightarrow> (case je_env_var (mn_jup W) name of
        Inl _ \<Rightarrow> Inl SignerMissing
      | Inr raw \<Rightarrow> (case je_key_bytes (mn_jup W) raw of
          None \<Rightarrow> Inl SignerNotJson
        | Some bytes \<Rightarrow> (case je_keypair (mn_jup W) bytes of
            None \<Rightarrow> Inl SignerInvalid
          | Some key \<Rightarrow> Inr key))))"

definition live_api_key :: "('v, 'f) main_env \<Rightarrow> config \<Rightarrow> command_error + string" where
  "live_api_key W c = (case jupiter_api_key_env (execution c) of
      None \<Rightarrow> Inl NoApiKeyVariable
    | Some name \<Rightarrow> (case je_env_var (mn_jup W) name of
        Inl _ \<Rightarrow> Inl ApiKeyMissing
      | Inr key \<Rightarrow> if trim key = [] then Inl ApiKeyBlank else Inr key))"

text \<open>A stored signer of another shape is passed over: \<open>if let Ok(Some(\<dots>))\<close>.\<close>

definition signer_changed :: "store \<Rightarrow> string \<Rightarrow> bool" where
  "signer_changed st pk \<longleftrightarrow> (case get_text st signer_key of Inr (Some s) \<Rightarrow> s \<noteq> pk | _ \<Rightarrow> False)"

definition validate_live_startup ::
    "('v, 'f) main_env \<Rightarrow> config \<Rightarrow> store \<Rightarrow> (command_error + unit) \<times> store" where
  "validate_live_startup W c st =
    (case live_key W c of
       Inl e \<Rightarrow> (Inl e, st)
     | Inr key \<Rightarrow>
    (let pk = key_text (je_chain (mn_jup W)) key in
     case live_api_key W c of
       Inl e \<Rightarrow> (Inl e, st)
     | Inr _ \<Rightarrow>
    (case mn_balance W pk of
       Inl e \<Rightarrow> (Inl (BalanceUnread e), st)
     | Inr lamports \<Rightarrow>
       if lamports < sol_required then (Inl (InsufficientSol lamports), st)
       else if signer_changed st pk then (Inl SignerMismatch, st)
       else case kill_switch_reason st of
         Inl e \<Rightarrow> (Inl (StoreProblem e), st)
       | Inr (Some _) \<Rightarrow> (Inl KillSwitchLatched, st)
       | Inr None \<Rightarrow> (Inr (), kv_put signer_key (VText pk) st))))"

section \<open>The commands\<close>

definition check_command :: "('v, 'f) main_env \<Rightarrow> store \<Rightarrow> command_error + unit" where
  "check_command W st =
    also_then (base_setup W) (\<lambda>c.
    also_then (map_sum NodesUnhealthy id (pool_health W c 0)) (\<lambda>_.
    also_then (map_sum StoreProblem id (kill_switch_reason st)) (\<lambda>r.
      if r \<noteq> None then Inl KillSwitchLatched
      else if incomplete_orders st \<noteq> [] then Inl UnreconciledOrders
      else also_then
        (if cfg_mode c = Live
         then (case live_key W c of Inl SignerInvalid \<Rightarrow> Inr () | Inl e \<Rightarrow> Inl e | Inr _ \<Rightarrow> Inr ())
         else Inr ()) (\<lambda>_.
      also_then (build_executor W c) (\<lambda>ex.
      also_then (map_sum ExecutorUnhealthy id (executor_health W c 1 ex)) (\<lambda>_. Inr ()))))))"

text \<open>\<open>run\<close> before the session: the executor, or why there is none.\<close>

definition start_run ::
    "('v, 'f) main_env \<Rightarrow> store \<Rightarrow> (command_error + config \<times> executor) \<times> store" where
  "start_run W st =
    (case base_setup W of
       Inl e \<Rightarrow> (Inl e, st)
     | Inr c \<Rightarrow>
    (case kill_switch_reason st of
       Inl e \<Rightarrow> (Inl (StoreProblem e), st)
     | Inr _ \<Rightarrow>
    (case emergency_stop st of
       Inl e \<Rightarrow> (Inl (StoreProblem e), st)
     | Inr _ \<Rightarrow>
    (case pool_health W c 0 of
       Inl e \<Rightarrow> (Inl (NodesUnhealthy e), st)
     | Inr _ \<Rightarrow>
    (case (if cfg_mode c = Live then validate_live_startup W c st else (Inr (), st)) of
       (Inl e, st1) \<Rightarrow> (Inl e, st1)
     | (Inr _, st1) \<Rightarrow>
    (case build_executor W c of
       Inl e \<Rightarrow> (Inl e, st1)
     | Inr ex \<Rightarrow>
    (case executor_health W c 1 ex of
       Inl e \<Rightarrow> (Inl (ExecutorUnhealthy e), st1)
     | Inr _ \<Rightarrow> (Inr (c, ex), st1))))))))"

definition run_command ::
    "ext \<Rightarrow> (string option \<Rightarrow> string) \<Rightarrow> ('v, 'f) main_env \<Rightarrow> 'v session_env \<Rightarrow> store
     \<Rightarrow> ((command_error + performance_report) \<times> store) option" where
  "run_command X dbg W S st =
    (case start_run W st of
       (Inl e, st1) \<Rightarrow> Some (Inl e, st1)
     | (Inr (c, ex), st1) \<Rightarrow>
         map_option (\<lambda>(r, st2). (map_sum SessionFailed id r, st2))
           (run_session X dbg c (executor_live ex) (executor_owner W ex) S st1))"

definition open_executor ::
    "('v, 'f) main_env \<Rightarrow> command_error + config \<times> executor" where
  "open_executor W =
    also_then (base_setup W) (\<lambda>c.
    also_then (map_sum NodesUnhealthy id (pool_health W c 0)) (\<lambda>_.
    also_then (build_executor W c) (\<lambda>ex. Inr (c, ex))))"

definition reconcile_command ::
    "ext \<Rightarrow> ('v, 'f) main_env \<Rightarrow> 'v chain_reader \<Rightarrow> (order_record \<Rightarrow> faults) \<Rightarrow> datetime \<Rightarrow> store
     \<Rightarrow> ((command_error + unit) \<times> store) option" where
  "reconcile_command X W C fts now st =
    (case open_executor W of
       Inl e \<Rightarrow> Some (Inl e, st)
     | Inr (c, ex) \<Rightarrow>
       map_option (\<lambda>(r, st'). (case r of
            Inl e \<Rightarrow> Inl (ReconciliationFailed e)
          | Inr s \<Rightarrow> if rs_unresolved_orders s > 0 \<or> rs_onchain_errors s > 0
                    then Inl ReconciliationIncomplete else Inr (), st'))
         (run_reconciliation X C fts c now (executor_live ex) (executor_owner W ex) st))"

definition exit_all_command ::
    "ext \<Rightarrow> (string \<Rightarrow> exec_env) \<Rightarrow> (string option \<Rightarrow> string) \<Rightarrow> (string \<Rightarrow> faults) \<Rightarrow> ('v, 'f) main_env
     \<Rightarrow> datetime \<Rightarrow> (string \<Rightarrow> string) \<Rightarrow> string option \<Rightarrow> 'v chain_reader \<Rightarrow> store
     \<Rightarrow> ((command_error + nat) \<times> store) option" where
  "exit_all_command X E dbg ft W now uuids fault C st =
    (case open_executor W of
       Inl e \<Rightarrow> Some (Inl e, st)
     | Inr (c, ex) \<Rightarrow>
       map_option (\<lambda>(r, st'). (map_sum ManualExitFailed id r, st'))
         (exit_all_positions X E dbg ft c now uuids fault (executor_live ex) (executor_owner W ex) C st))"

definition emergency_stop_command ::
    "('v, 'f) main_env \<Rightarrow> string option \<Rightarrow> datetime \<Rightarrow> store \<Rightarrow> (command_error + unit) \<times> store" where
  "emergency_stop_command W reason now st = (case base_setup W of
      Inl e \<Rightarrow> (Inl e, st)
    | Inr _ \<Rightarrow> (Inr (), set_emergency_stop (case reason of None \<Rightarrow> ''operator halt'' | Some r \<Rightarrow> r) now st))"

definition clear_emergency_stop_command ::
    "('v, 'f) main_env \<Rightarrow> store \<Rightarrow> (command_error + unit) \<times> store" where
  "clear_emergency_stop_command W st = (case base_setup W of
      Inl e \<Rightarrow> (Inl e, st)
    | Inr _ \<Rightarrow> (Inr (), clear_emergency_stop st))"

definition report_command ::
    "ext \<Rightarrow> ('v, 'f) main_env \<Rightarrow> store \<Rightarrow> (command_error + performance_report) option" where
  "report_command X W st = (case base_setup W of
      Inl e \<Rightarrow> Some (Inl e)
    | Inr c \<Rightarrow> map_option (map_sum StoreProblem id)
        (generate_report X st (starting_capital_usd (risk c))))"

section \<open>Status\<close>

record bot_status =
  bt_mode :: mode
  bt_wallet :: "string option"
  bt_rpc_healthy :: bool
  bt_rpc_endpoints :: "string list"
  bt_sol_lamports :: "u64 option"
  bt_token_accounts :: nat
  bt_open :: nat
  bt_exposure_usd :: decimal
  bt_equity_usd :: decimal
  bt_realized_usd :: decimal
  bt_unrealized_usd :: decimal
  bt_kill_switch :: string
  bt_emergency :: string
  bt_unresolved :: nat
  bt_last_fill :: "order_record option"

text \<open>\<open>max_by_key\<close>: of several maxima the last.\<close>

definition later_order :: "order_record \<Rightarrow> order_record option \<Rightarrow> order_record option" where
  "later_order ord acc = (case acc of
      None \<Rightarrow> Some ord
    | Some best \<Rightarrow> if o_created_at best \<le> o_created_at ord then Some ord else Some best)"

definition last_fill_of :: "store \<Rightarrow> order_record option" where
  "last_fill_of st = fold later_order (filter (\<lambda>ord. o_signature ord \<noteq> None) (all_orders st)) None"

definition reason_or_empty :: "storage_error + string option \<Rightarrow> string" where
  "reason_or_empty r = (case r of Inr (Some s) \<Rightarrow> s | _ \<Rightarrow> [])"

definition status_wallet :: "('v, 'f) main_env \<Rightarrow> config \<Rightarrow> string option" where
  "status_wallet W c =
    (if cfg_mode c = Live
     then (case live_key W c of Inl _ \<Rightarrow> None | Inr key \<Rightarrow> Some (key_text (je_chain (mn_jup W)) key))
     else None)"

definition status_command ::
    "ext \<Rightarrow> ('v, 'f) main_env \<Rightarrow> store \<Rightarrow> (command_error + bot_status) option" where
  "status_command X W st =
    (case base_setup W of
       Inl e \<Rightarrow> Some (Inl e)
     | Inr c \<Rightarrow> do {
         let wallet = status_wallet W c;
         let ps = (case positions st of Inl _ \<Rightarrow> [] | Inr ps \<Rightarrow> ps);
         let opens = filter is_open ps;
         exposure \<leftarrow> dec_sum X (List.map_filter p_entry_cost_usd opens);
         unrealized \<leftarrow> dec_sum X (map p_unrealized_pnl_usd opens);
         realized \<leftarrow> dec_sum X (map p_realized_pnl_usd ps);
         e \<leftarrow> dec_add X (starting_capital_usd (risk c)) realized;
         eq \<leftarrow> dec_add X e unrealized;
         Some (Inr \<lparr>bt_mode = cfg_mode c, bt_wallet = wallet,
           bt_rpc_healthy = (case pool_health W c 0 of Inl _ \<Rightarrow> False | Inr _ \<Rightarrow> True),
           bt_rpc_endpoints = http_endpoints (rpc c),
           bt_sol_lamports = Option.bind wallet (\<lambda>pk. case mn_balance W pk of Inl _ \<Rightarrow> None | Inr l \<Rightarrow> Some l),
           bt_token_accounts = (case wallet of None \<Rightarrow> 0 | Some pk \<Rightarrow>
              (case mn_token_balances W pk of Inl _ \<Rightarrow> 0 | Inr bs \<Rightarrow> length bs)),
           bt_open = length opens, bt_exposure_usd = exposure, bt_equity_usd = eq,
           bt_realized_usd = realized, bt_unrealized_usd = unrealized,
           bt_kill_switch = reason_or_empty (kill_switch_reason st),
           bt_emergency = reason_or_empty (emergency_stop st),
           bt_unresolved = length (incomplete_orders st), bt_last_fill = last_fill_of st\<rparr>)
       })"

text \<open>The two interlocks in the JSON output and in the text.\<close>

definition json_kill_switch :: "bot_status \<Rightarrow> bool" where
  "json_kill_switch s \<longleftrightarrow> bt_kill_switch s = []"

definition json_emergency_stop :: "bot_status \<Rightarrow> bool" where
  "json_emergency_stop s \<longleftrightarrow> bt_emergency s = []"

definition text_kill_switch :: "bot_status \<Rightarrow> string" where
  "text_kill_switch s = (if bt_kill_switch s = [] then ''CLEAR''
     else ''LATCHED ('' @ bt_kill_switch s @ '')'')"

definition text_emergency_stop :: "bot_status \<Rightarrow> string" where
  "text_emergency_stop s = (if bt_emergency s = [] then ''CLEAR''
     else ''ACTIVE ('' @ bt_emergency s @ '')'')"

section \<open>Data commands\<close>

text \<open>
  The loop of \<open>collect-history\<close>. An iteration has its executor, its clock, the price of SOL and the
  time at which its candidates are recorded; the errors of the recorder are logged.
\<close>

fun collect_iterations ::
    "ext \<Rightarrow> (history_record \<Rightarrow> string option) \<Rightarrow> config
     \<Rightarrow> (exec_env \<times> datetime \<times> decimal option \<times> datetime) list
     \<Rightarrow> history_recorder \<times> string option \<Rightarrow> (history_recorder \<times> string option) option" where
  "collect_iterations X ser c [] s = Some s"
| "collect_iterations X ser c ((E, now, price, t) # its) s =
    (case collect_live X E c now price of
       None \<Rightarrow> None
     | Some (Candidates ks) \<Rightarrow>
         collect_iterations X ser c its (record_all ser (map (\<lambda>k. (t, k)) ks) s)
     | Some (RateLimited _) \<Rightarrow> collect_iterations X ser c its s
     | Some (Transient _) \<Rightarrow> collect_iterations X ser c its s)"

definition collect_history_command ::
    "ext \<Rightarrow> ('v, 'f) main_env \<Rightarrow> (history_record \<Rightarrow> string option)
     \<Rightarrow> (exec_env \<times> datetime \<times> decimal option \<times> datetime) list \<Rightarrow> string option
     \<Rightarrow> (command_error + string option) option" where
  "collect_history_command X W ser its file =
    (case also_then (open_executor W) (\<lambda>(c, ex).
            also_then (map_sum ExecutorUnhealthy id (executor_health W c 1 ex)) (\<lambda>_. Inr c)) of
       Inl e \<Rightarrow> Some (Inl e)
     | Inr c \<Rightarrow> map_option (\<lambda>s. Inr (snd s)) (collect_iterations X ser c its (new_recorder, file)))"

definition validate_history_command ::
    "ext \<Rightarrow> (string \<Rightarrow> string + history_record) \<Rightarrow> datetime \<Rightarrow> string option
     \<Rightarrow> command_error + history_validation" where
  "validate_history_command X parse now file = (case validate_history X parse now file of
      Inl e \<Rightarrow> Inl DatasetRefused
    | Inr r \<Rightarrow> if hv_unparseable r \<noteq> [] \<or> hv_duplicates r \<noteq> [] then Inl DatasetRefused else Inr r)"

text \<open>\<open>backtest\<close>: the file of the signals is read by \<open>run_backtest\<close>, the configuration before.\<close>

definition backtest_command ::
    "ext \<Rightarrow> ('v, 'f) main_env \<Rightarrow> (string \<Rightarrow> string + backtest_config)
     \<Rightarrow> (string \<Rightarrow> string + historical_signal) \<Rightarrow> string option \<Rightarrow> string option
     \<Rightarrow> (command_error + backtest_result) option" where
  "backtest_command X W parse_bt parse bt_file content = (case base_setup W of
      Inl e \<Rightarrow> Some (Inl e)
    | Inr c \<Rightarrow> (case bt_file of
        None \<Rightarrow> Some (Inl (BadArgument ''read''))
      | Some txt \<Rightarrow> (case parse_bt txt of
          Inl e \<Rightarrow> Some (Inl (BadArgument ''parse backtest config''))
        | Inr bt \<Rightarrow> (case content of
            None \<Rightarrow> Some (Inl (BadArgument ''cannot open historical data''))
          | Some data \<Rightarrow> map_option (map_sum BadArgument id) (run_backtest X parse c bt data)))))"

record build_args =
  ba_start :: string
  ba_end :: string
  ba_mints :: "string list"
  ba_interval :: string
  ba_signals_per_mint :: nat
  ba_position_usd :: string
  ba_token_decimals :: u8
  ba_base_mint_decimals :: u8
  ba_sol_price_usd :: string
  ba_future_window_minutes :: int
  ba_wallet_pubkeys :: "string list"

definition positive_dec :: "(string \<Rightarrow> decimal option) \<Rightarrow> string \<Rightarrow> string \<Rightarrow> command_error + decimal" where
  "positive_dec read_dec what s = (case read_dec s of
      None \<Rightarrow> Inl (BadArgument (what @ '' must be a decimal''))
    | Some d \<Rightarrow> if d \<le> 0 then Inl (BadArgument (what @ '' must be positive'')) else Inr d)"

definition build_options_of ::
    "(string \<Rightarrow> datetime option) \<Rightarrow> (string \<Rightarrow> decimal option) \<Rightarrow> build_args \<Rightarrow> command_error + build_options"
  where
  "build_options_of read_time read_dec a =
    (case read_time (ba_start a) of
       None \<Rightarrow> Inl (BadArgument ''start must be RFC3339'')
     | Some from \<Rightarrow>
    (case read_time (ba_end a) of
       None \<Rightarrow> Inl (BadArgument ''end must be RFC3339'')
     | Some til \<Rightarrow>
       if ba_mints a = [] then Inl (BadArgument ''at least one mint is required'')
       else if til \<le> from then Inl (BadArgument ''start must be strictly before end'')
       else case parse_interval (ba_interval a) of
         None \<Rightarrow> Inl (BadArgument (''unknown interval '' @ ba_interval a))
       | Some iv \<Rightarrow>
         also_then (positive_dec read_dec ''position_usd'' (ba_position_usd a)) (\<lambda>size.
         also_then (positive_dec read_dec ''sol_price_usd'' (ba_sol_price_usd a)) (\<lambda>price.
           Inr \<lparr>bo_mints = ba_mints a, bo_start = from, bo_end = til, bo_interval = iv,
             bo_signals_per_mint = ba_signals_per_mint a, bo_position_usd = size,
             bo_token_decimals = ba_token_decimals a, bo_base_mint_decimals = ba_base_mint_decimals a,
             bo_sol_price_usd = price, bo_priority_fee_lamports = 10000, bo_swap_fee_bps = 30,
             bo_future_window_minutes = ba_future_window_minutes a,
             bo_max_wallet_signatures = 1000, bo_wallet_pubkeys = ba_wallet_pubkeys a\<rparr>))))"

definition build_endpoint :: "(string \<Rightarrow> string option) \<Rightarrow> string" where
  "build_endpoint env = (case env ''SOLANA_RPC_URL'' of
      Some url \<Rightarrow> url
    | None \<Rightarrow> (case env ''HELIUS_API_KEY'' of
        Some k \<Rightarrow> ''https://mainnet.helius-rpc.com/?api-key='' @ k
      | None \<Rightarrow> ''https://api.mainnet-beta.solana.com''))"

text \<open>
  \<open>historical-build\<close> on a disk. The world of the run answers for the node behind the endpoint, whose
  client may not be built.
\<close>

definition historical_build_command ::
    "ext \<Rightarrow> (string \<Rightarrow> datetime option) \<Rightarrow> (string \<Rightarrow> decimal option) \<Rightarrow> (string \<Rightarrow> string option) \<Rightarrow> bool
     \<Rightarrow> (string \<Rightarrow> 'v build_world) \<Rightarrow> ohlcv_state \<Rightarrow> build_args \<Rightarrow> build_disk
     \<Rightarrow> ((command_error + build_report) \<times> build_disk) option" where
  "historical_build_command X read_time read_dec env client world caches a d =
    (case build_options_of read_time read_dec a of
       Inl e \<Rightarrow> Some (Inl e, d)
     | Inr opt \<Rightarrow>
       if \<not> client then Some (Inl ClientFailed, d)
       else case new_historical_builder env caches d of
         Inl e \<Rightarrow> Some (Inl (BuildFailed e), d)
       | Inr b \<Rightarrow> map_option (\<lambda>(r, b'). (case r of
             Inl e \<Rightarrow> Inl (BuildFailed e)
           | Inr rep \<Rightarrow> if br_accepted_signals rep = 0 then Inl NoSignalsAccepted else Inr rep,
           bs_disk b')) (run_build X (world (build_endpoint env)) opt b))"

definition historical_validate_command ::
    "ext \<Rightarrow> (string \<Rightarrow> string + historical_signal) \<Rightarrow> string option \<Rightarrow> command_error + validation_report" where
  "historical_validate_command X parse file = (case validate_dataset X parse True file of
      Inl _ \<Rightarrow> Inl DatasetRefused
    | Inr r \<Rightarrow> if is_clean r then Inr r else Inl DatasetRefused)"

section \<open>Facts\<close>

lemma base_setup_Inr:
  "base_setup W = Inr c \<Longrightarrow> validate c = Inr ()"
  by (auto simp: base_setup_def load_config_def split: option.splits sum.splits if_splits)

lemma live_key_Inr:
  "live_key W c = Inr key \<longleftrightarrow> (\<exists>name raw bytes. live_signer_env (execution c) = Some name
     \<and> je_env_var (mn_jup W) name = Inr raw \<and> je_key_bytes (mn_jup W) raw = Some bytes
     \<and> je_keypair (mn_jup W) bytes = Some key)"
  by (auto simp: live_key_def split: option.splits sum.splits)

lemma live_api_key_Inr:
  "live_api_key W c = Inr api \<longleftrightarrow> (\<exists>name. jupiter_api_key_env (execution c) = Some name
     \<and> je_env_var (mn_jup W) name = Inr api \<and> trim api \<noteq> [])"
  by (auto simp: live_api_key_def split: option.splits sum.splits if_splits)

text \<open>A live start that passes: every check, and the one write.\<close>

lemma validate_live_startup_Inr:
  assumes "validate_live_startup W c st = (Inr u, st')"
  obtains key api lamports where "live_key W c = Inr key" "live_api_key W c = Inr api"
    "mn_balance W (key_text (je_chain (mn_jup W)) key) = Inr lamports" "sol_required \<le> lamports"
    "\<not> signer_changed st (key_text (je_chain (mn_jup W)) key)" "kill_switch_reason st = Inr None"
    "st' = kv_put signer_key (VText (key_text (je_chain (mn_jup W)) key)) st"
  using assms by (auto simp: validate_live_startup_def Let_def not_less
      split: sum.splits if_splits option.splits)

lemma validate_live_startup_Inl:
  "validate_live_startup W c st = (Inl e, st') \<Longrightarrow> st' = st"
  by (auto simp: validate_live_startup_def Let_def split: sum.splits if_splits option.splits)

lemma start_run_Inr:
  assumes "start_run W st = (Inr (c, ex), st1)"
  obtains "base_setup W = Inr c" "pool_health W c 0 = Inr ()" "build_executor W c = Inr ex"
    "executor_health W c 1 ex = Inr ()"
    "cfg_mode c = Live \<Longrightarrow> validate_live_startup W c st = (Inr (), st1)"
    "cfg_mode c \<noteq> Live \<Longrightarrow> st1 = st"
  using assms by (auto simp: start_run_def split: sum.splits if_splits prod.splits)

lemma build_executor_live:
  assumes "build_executor W c = Inr ex"
  shows "executor_live ex \<longleftrightarrow> cfg_mode c = Live"
    and "cfg_mode c \<noteq> Live \<Longrightarrow> executor_owner W ex = None"
    and "cfg_mode c = Live \<Longrightarrow> ex = LiveExecutor (jupiter_of c (live_signer_env (execution c))
       (jupiter_api_key_env (execution c)))"
  using assms
  by (auto simp: build_executor_def is_live_def jupiter_of_def split: mode.splits option.splits
      sum.splits if_splits)

lemma live_owner:
  "live_key W c = Inr key \<Longrightarrow>
     signer_pubkey (mn_jup W) (jupiter_of c (live_signer_env (execution c)) k)
       = Some (key_text (je_chain (mn_jup W)) key)"
  by (auto simp: live_key_Inr signer_pubkey_def jup_signer_def jupiter_of_def)

lemma map_sum_Inr: "map_sum f id r = Inr x \<longleftrightarrow> r = Inr x"
  by (cases r) auto

text \<open>A start that finds the kill switch latched leaves the store alone, and is never live.\<close>

lemma latched_start:
  assumes "start_run W st = (res, st1)" "kill_switch_reason st = Inr (Some r)"
  shows "st1 = st \<and> (\<forall>c ex. res = Inr (c, ex) \<longrightarrow> base_setup W = Inr c \<and> cfg_mode c \<noteq> Live)"
proof (cases res)
  case (Inl e)
  then show ?thesis
    using assms by (auto simp: start_run_def validate_live_startup_def Let_def
        split: sum.splits if_splits prod.splits)
next
  case (Inr p)
  obtain c ex where p: "p = (c, ex)" by (cases p)
  from assms(1) [unfolded Inr p] show ?thesis
  proof (cases rule: start_run_Inr)
    case 1
    have "cfg_mode c \<noteq> Live"
      using validate_live_startup_Inr [OF 1(5)] assms(2)
      by (metis option.distinct(1) sum.inject(2))
    then show ?thesis using 1 Inr p by auto
  qed
qed

section \<open>Properties\<close>

text \<open>
  C19: What a start of the bot has seen. The configuration is
  valid and a node has answered. Only the live mode gets an executor that signs, and then the
  configured variable holds a key pair, the API key is not blank, its wallet has a tenth of a SOL, no
  other wallet was stored before, the kill switch is not latched, the executor signs for this very
  wallet, and the store has changed by nothing but its name. In the other modes there is no wallet and
  the store is untouched.
\<close>

theorem live_start_is_guarded:
  assumes "start_run W st = (Inr (c, ex), st1)"
  shows "validate c = Inr () \<and> pool_health W c 0 = Inr ()
    \<and> (if cfg_mode c = Live
       then executor_live ex \<and> kill_switch_reason st = Inr None
         \<and> (\<exists>key api lamports pk. live_key W c = Inr key \<and> pk = key_text (je_chain (mn_jup W)) key
              \<and> executor_owner W ex = Some pk
              \<and> live_api_key W c = Inr api \<and> trim api \<noteq> []
              \<and> mn_balance W pk = Inr lamports \<and> 100000000 \<le> lamports
              \<and> get_text st signer_key \<in> {Inr None, Inr (Some pk), Inl Json}
              \<and> st1 = kv_put signer_key (VText pk) st)
       else \<not> executor_live ex \<and> executor_owner W ex = None \<and> st1 = st)"
  using assms
proof (cases rule: start_run_Inr)
  case 1
  note ex = build_executor_live [OF 1(3)]
  show ?thesis
  proof (cases "cfg_mode c = Live")
    case True
    from 1(5) [OF True] obtain key api lamports where v: "live_key W c = Inr key"
      "live_api_key W c = Inr api"
      "mn_balance W (key_text (je_chain (mn_jup W)) key) = Inr lamports" "sol_required \<le> lamports"
      "\<not> signer_changed st (key_text (je_chain (mn_jup W)) key)" "kill_switch_reason st = Inr None"
      "st1 = kv_put signer_key (VText (key_text (je_chain (mn_jup W)) key)) st"
      by (rule validate_live_startup_Inr)
    have "get_text st signer_key
        \<in> {Inr None, Inr (Some (key_text (je_chain (mn_jup W)) key)), Inl Json}"
      using v(5) by (auto simp: signer_changed_def get_text_def
          split: option.splits kv_value.splits)
    moreover have "trim api \<noteq> []" using v(2) by (auto simp: live_api_key_Inr)
    ultimately show ?thesis using True 1(1,2) base_setup_Inr ex(1,3) live_owner [OF v(1)] v
      by (auto simp: sol_required_def)
  qed (use 1 base_setup_Inr ex in auto)
qed

text \<open>
  The wallet is pinned: as long as the stored name is kept, a later live start with another wallet
  does not succeed.
\<close>

lemma wallet_is_pinned:
  assumes "start_run W st = (Inr (c, ex), st1)" "cfg_mode c = Live"
    and "get_text st2 signer_key = get_text st1 signer_key"
    and "start_run W' st2 = (Inr (c', ex'), st3)" "cfg_mode c' = Live"
  shows "executor_owner W' ex' = executor_owner W ex"
  using assms(1)
proof (cases rule: start_run_Inr)
  case 1
  from 1(5) [OF assms(2)] obtain key where v: "live_key W c = Inr key"
    "st1 = kv_put signer_key (VText (key_text (je_chain (mn_jup W)) key)) st"
    by (rule validate_live_startup_Inr)
  have s: "get_text st2 signer_key = Inr (Some (key_text (je_chain (mn_jup W)) key))"
    using assms(3) v(2) by (simp add: get_text_def kvs.look_put)
  note ex = build_executor_live(3) [OF 1(3) assms(2)]
  from assms(4) show ?thesis
  proof (cases rule: start_run_Inr)
    case a: 1
    from a(5) [OF assms(5)] obtain key' where v': "live_key W' c' = Inr key'"
      "\<not> signer_changed st2 (key_text (je_chain (mn_jup W')) key')"
      by (rule validate_live_startup_Inr)
    then show ?thesis using s live_owner [OF v(1)] live_owner [OF v'(1)] ex
        build_executor_live(3) [OF a(3) assms(5)]
      by (auto simp: signer_changed_def)
  qed
qed

text \<open>
  A stored signer that does not decode does not stop a live start: the check reads the error as no
  stored signer.
\<close>

lemma undecodable_signer_is_passed_over:
  "kv_look st signer_key = Some (VCount n) \<Longrightarrow> \<not> signer_changed st pk"
  by (simp add: signer_changed_def get_text_def)

text \<open>The start of a live run and the saves of the day are steps of the store.\<close>

lemma live_start_steps:
  assumes "validate_live_startup W c st = (r, st')"
  shows "store_steps st st'"
proof (cases r)
  case (Inl e)
  then show ?thesis using validate_live_startup_Inl assms store_steps.none by metis
next
  case (Inr u)
  have "\<not> key_like ''position:'' signer_key" by (simp add: key_like_def signer_key_def)
  moreover obtain v where "st' = kv_put signer_key v st"
    using validate_live_startup_Inr assms [unfolded Inr] by metis
  ultimately show ?thesis using store_steps_one [OF store_step.setting] by simp
qed

text \<open>
  A latched bot never buys. When the store holds a reason for
  the kill switch, a run of the bot in any mode, from the start over the ticks of the session and the
  cycles of the exit monitor to the final reconciliation and whatever it meets, leaves the orders it found with their ids and kinds and adds
  nothing but exits; in live mode it does not start at all.
\<close>

theorem latched_bot_never_buys:
  assumes "run_command X dbg W S st = Some (res, st')" and "ids_ok st"
    and "kill_switch_reason st = Inr (Some r)"
  shows "(\<exists>new. order_kinds st' = order_kinds st @ new \<and> list_all (\<lambda>(_, k). k = Exit) new)
    \<and> ids_ok st' \<and> (st' = st \<or> (\<exists>c. base_setup W = Inr c \<and> cfg_mode c \<noteq> Live))"
proof -
  obtain a st1 where s: "start_run W st = (a, st1)" by fastforce
  note l = latched_start [OF s assms(3)]
  show ?thesis
  proof (cases a)
    case (Inl e)
    then show ?thesis using assms s l by (simp add: run_command_def)
  next
    case (Inr p)
    obtain c ex where p: "a = Inr (c, ex)" using Inr by (cases p) simp
    obtain r' where "run_session X dbg c (executor_live ex) (executor_owner W ex) S st = Some (r', st')"
      using assms(1) s l p by (auto simp: run_command_def)
    from latched_run [OF this assms(2)] assms(3) show ?thesis using l p
      by (auto simp: only_exits_def holds_latch_def)
  qed
qed

text \<open>
  \<open>collect-history\<close> collects nothing: the live scan it polls delivers no candidate, so whatever the
  iterations meet, the recorder and the file stay as they were.
\<close>

theorem collect_history_writes_nothing:
  "collect_iterations X ser c its s = Some s' \<Longrightarrow> s' = s"
proof (induction its arbitrary: s)
  case (Cons it its)
  obtain E now price t where it: "it = (E, now, price, t)" by (cases it) auto
  obtain r where r: "collect_live X E c now price = Some r"
    using Cons.prems it by (auto split: option.split_asm)
  from live_collection_is_closed [OF r] have "collect_iterations X ser c its s = Some s'"
    using Cons.prems it r by (cases s) auto
  then show ?case by (rule Cons.IH)
qed simp

text \<open>
  In the JSON form of the status a latched interlock is \<open>false\<close> and a clear one is \<open>true\<close>, the
  opposite of the text form.
\<close>

lemma json_interlocks_are_inverted:
  "json_kill_switch s \<longleftrightarrow> text_kill_switch s = ''CLEAR''"
  "json_emergency_stop s \<longleftrightarrow> text_emergency_stop s = ''CLEAR''"
  by (auto simp: json_kill_switch_def text_kill_switch_def json_emergency_stop_def
      text_emergency_stop_def)

text \<open>A kill switch that cannot be decoded stops every run and is shown as clear by the status.\<close>

lemma undecodable_kill_switch_is_shown_clear:
  assumes "kill_switch_reason st = Inl e" and "status_command X W st = Some (Inr s)"
  shows "text_kill_switch s = ''CLEAR''" and "start_run W st = (Inl (StoreProblem e), st)"
  using assms by (auto simp: status_command_def text_kill_switch_def reason_or_empty_def Let_def
      bind_Some_iff start_run_def split: sum.splits)

text \<open>An unclean dataset is refused by the strict validator, before its summary can be printed.\<close>

lemma unclean_summary_is_never_shown:
  "validate_dataset X parse True file = Inr r \<Longrightarrow> is_clean r"
  by (auto simp: validate_dataset_def Let_def split: option.splits if_splits)

definition sample_main :: "mode \<Rightarrow> (jval, unit) main_env" where
  "sample_main m = \<lparr>mn_config_file = Some ''toml'', mn_parse_config = (\<lambda>_. Inr (example_config m)),
     mn_client = True, mn_database = (\<lambda>_. True),
     mn_nodes = (\<lambda>_ _ _. http_answer.Body ''200 OK'' (JDict [(''result'', JText ''ok'')])),
     mn_jup = sample_jup_env, mn_balance = (\<lambda>_. Inr 200000000), mn_token_balances = (\<lambda>_. Inr [])\<rparr>"

lemma sample_setup: "base_setup (sample_main m) = Inr (example_config m)"
  by (simp add: base_setup_def load_config_def sample_main_def example_config_valid)

lemma sample_health: "pool_health (sample_main m) (example_config m) i = Inr ()"
  by (simp add: pool_health_def sample_main_def rpc_call_def sample_jup_env_def example_config_def
      default_rpc_attempts_def upt_rec empty_call_def request_once_def jval_ops_def Let_def)

lemma sample_live_start:
  "start_run (sample_main Live) empty_store = (Inr (example_config Live,
     LiveExecutor (jupiter_of (example_config Live) (Some ''SOLANA_BOT_KEYPAIR_JSON'')
       (Some ''JUPITER_API_KEY''))), kv_put signer_key (VText ''w'') empty_store)"
proof -
  have e: "live_signer_env (execution (example_config Live)) = Some ''SOLANA_BOT_KEYPAIR_JSON''"
    "jupiter_api_key_env (execution (example_config Live)) = Some ''JUPITER_API_KEY''"
    by (simp_all add: example_config_def)
  have k: "kill_switch_reason empty_store = Inr None" "emergency_stop empty_store = Inr None"
    "get_text empty_store signer_key = Inr None"
    by (simp_all add: kill_switch_reason_def emergency_stop_def get_text_def kv_look_def empty_store_def)
  have v: "validate_live_startup (sample_main Live) (example_config Live) empty_store
      = (Inr (), kv_put signer_key (VText ''w'') empty_store)"
    by (simp add: validate_live_startup_def live_key_def live_api_key_def e k sample_main_def
        sample_jup_env_def signer_changed_def sol_required_def trim_def is_white_def)
  have b: "build_executor (sample_main Live) (example_config Live) = Inr (LiveExecutor
      (jupiter_of (example_config Live) (Some ''SOLANA_BOT_KEYPAIR_JSON'') (Some ''JUPITER_API_KEY'')))"
    by (simp add: build_executor_def e sample_main_def sample_jup_env_def)
  show ?thesis by (simp add: start_run_def sample_setup sample_health k v b)
qed

theorem live_start_is_guarded_witness:
  "\<exists>ex st1. start_run (sample_main Live) empty_store = (Inr (example_config Live, ex), st1)
     \<and> executor_owner (sample_main Live) ex = Some ''w'' \<and> st1 = kv_put signer_key (VText ''w'') empty_store"
  using live_start_is_guarded [OF sample_live_start] sample_live_start
  by (auto simp: sample_main_def sample_jup_env_def)

text \<open>
  A run in which the wallet monitor offers a candidate; the exit monitor runs before and
  after the tick.
\<close>

definition sample_run_env :: "jval session_env" where
  "sample_run_env = \<lparr>sn_now = 0, sn_reader = sample_reader, sn_faults = (\<lambda>_. no_faults),
     sn_starting = [sample_me],
     sn_events = [MonitorCycle sample_me, SessionTick (sample_te [sample_candidate]),
       MonitorCycle sample_me],
     sn_end_now = 0, sn_end_reader = sample_reader, sn_end_faults = (\<lambda>_. no_faults)\<rparr>"

definition latched_store :: store where
  "latched_store = latch_kill_switch ''drawdown'' empty_store"

lemma latched_store_reads:
  "kill_switch_reason latched_store = Inr (Some ''drawdown'')" "positions latched_store = Inr []"
  "all_orders latched_store = []" "incomplete_orders latched_store = []" "ids_ok latched_store"
  "emergency_stop latched_store = Inr None" "load_portfolio latched_store = Inr []"
  by (simp_all add: latched_store_def latch_kill_switch_def kv_put_def empty_store_def positions_def
      all_orders_def incomplete_orders_def ids_ok_def kill_switch_reason_def emergency_stop_def
      kv_look_def kill_switch_key_def emergency_key_def key_like_def load_portfolio_def load_def)

text \<open>The store after a tick: settings were added to it.\<close>

definition idle_store :: "store \<Rightarrow> bool" where
  "idle_store st \<longleftrightarrow> (\<exists>r. kill_switch_reason st = Inr (Some r)) \<and> positions st = Inr []
     \<and> order_rows st = []"

lemma idle_reads:
  assumes "idle_store st"
  shows "all_orders st = []" "incomplete_orders st = []" "load_portfolio st = Inr []"
    "\<exists>r. kill_switch_reason st = Inr (Some r)" "positions st = Inr []"
  using assms by (simp_all add: idle_store_def all_orders_def incomplete_orders_def load_portfolio_def load_def)

lemma idle_latched: "idle_store latched_store"
  by (simp add: idle_store_def latched_store_reads)
    (simp add: latched_store_def latch_kill_switch_def kv_put_def empty_store_def)

lemma filter_update:
  "(\<And>u. \<not> P (k, u)) \<Longrightarrow> filter P (AList.update k v xs) = filter P xs"
  by (induction xs) auto

lemma idle_persist: "idle_store st \<Longrightarrow> idle_store (persist_session_state se st)"
  by (simp add: idle_store_def kill_switch_reason_def persist_session_state_def kvs.look_put
      positions_def kv_put_def filter_update key_like_def day_key_def day_start_key_def trades_key_def)
    (simp add: kv_look_def kill_switch_key_def update_conv')

lemma idle_cycle:
  assumes "idle_store st"
  shows "bot_event exact_ext dbg c (executor_event False None (MonitorCycle sample_me)) 
    \<lparr>b_session = se, b_cache = [], b_store = st\<rparr> = Some \<lparr>b_session = se, b_cache = [], b_store = st\<rparr>"
  using idle_reads [OF assms]
  by (auto simp: monitor_tick_def reconcile_stale_orders_def sample_me_def executor_tick_def sample_te_def
      open_positions_of_def)

lemma sample_started:
  "\<exists>se. start_session exact_ext (example_config Paper) 0 latched_store = Some (Inr se)
     \<and> se_day_key se = [] \<and> se_sol_price_usd se = None \<and> se_candidates se = []
     \<and> \<not> se_emergency_active se \<and> se_portfolio se = []
     \<and> se_risk se = (let re = new_engine (risk (example_config Paper)) 100
         in re\<lparr>re_kill_switch := force_trip (re_kill_switch re)\<rparr>)"
proof -
  have g: "get_text latched_store day_key = Inr None"
    "get_decimal latched_store day_start_key = Inr None" "get_count latched_store trades_key = Inr None"
    by (simp_all add: get_text_def get_decimal_def get_count_def latched_store_def
        latch_kill_switch_def empty_store_def kv_put_def kv_look_def day_key_def day_start_key_def
        trades_key_def kill_switch_key_def)
  have d: "day_show exact_ext 0 = []" by (simp add: exact_ext_def rounding_ext_def)
  show ?thesis
    by (simp add: start_session_def latched_store_reads open_positions_of_def aggregate_exposure_def
        g d Let_def trip_def restore_day_def fresh_session_def)
      (simp add: new_engine_def set_total_exposure_def set_open_positions_def)
qed

lemma sample_latched_tick:
  assumes "se_day_key se = []" "se_sol_price_usd se = None" "se_candidates se = []"
    "\<not> se_emergency_active se" "se_portfolio se = []"
    and risk: "se_risk se = (let re = new_engine (risk (example_config Paper)) 100
         in re\<lparr>re_kill_switch := force_trip (re_kill_switch re)\<rparr>)"
  shows "\<exists>se'. tick exact_ext (sample_te cs) dbg (example_config Paper) se latched_store
    = Some (Inr (), se', latched_store)"
proof -
  have f: "feed_path (example_config Paper) = None"
    by (simp add: feed_path_def example_config_def runtime_default_def nonempty_path_def
        wallet_monitor_default_def)
  have d: "day_show exact_ext 0 = []" by (simp add: exact_ext_def rounding_ext_def)
  have t: "force_trip (force_trip ks) = force_trip ks" for ks by (simp add: force_trip_def)
  obtain se1 where p: "prepare_tick exact_ext (sample_te cs) (example_config Paper) se latched_store
      = Some (Inr [], se1, latched_store)"
    and se1: "se_portfolio se1 = []" "se_risk se1 = se_risk se"
    using assms by (simp add: prepare_tick_def roll_day_def refresh_sol_price_def d f t
        periodic_reconciliation_def reconcile_pending_orders_def read_kill_switch_def emergency_now_def
        latched_store_reads ingest_feed_def ingest_wallets_def sample_wallet_ingest add_candidates_def
        trip_def Let_def)
  have eq: "equity_usd exact_ext 100 [] = Some 100" "aggregate_exposure exact_ext [] = Some 0"
    by (simp_all add: equity_usd_def aggregate_exposure_def)
  obtain re where re: "observe_equity exact_ext (se_risk se1) 100 = Some re"
    "tripped (re_kill_switch re)"
    using risk by (simp add: se1 force_trip_def observe_equity_def
        ks_observe_equity_def new_engine_def new_kill_switch_def fit_def dec_max_def
        example_config_def)
  have o: "open_positions_of [] = []" "starting_capital_usd (risk (example_config Paper)) = 100"
    by (simp_all add: open_positions_of_def example_config_def)
  have k: "read_kill_switch (sample_te cs) latched_store = Inr (Some ''drawdown'')"
    by (simp add: read_kill_switch_def latched_store_reads)
  show ?thesis
    by (simp add: tick_def p trade_tick_def mark_equity_def o eq re [unfolded se1(2)] k se1 process_exits_def
        enter_if_clear_def set_total_exposure_def set_open_positions_def Let_def)
qed

lemma latched_session_runs:
  "\<exists>r st. run_session exact_ext Option.the (example_config Paper) False None sample_run_env latched_store
     = Some (Inr r, st) \<and> idle_store st \<and> st \<noteq> latched_store"
proof -
  obtain se where se: "start_session exact_ext (example_config Paper) 0 latched_store = Some (Inr se)"
    "se_day_key se = []" "se_sol_price_usd se = None" "se_candidates se = []"
    "\<not> se_emergency_active se" "se_portfolio se = []"
    "se_risk se = (let re = new_engine (risk (example_config Paper)) 100
         in re\<lparr>re_kill_switch := force_trip (re_kill_switch re)\<rparr>)"
    using sample_started by blast
  obtain se' where t: "tick exact_ext (sample_te [sample_candidate]) Option.the (example_config Paper) se
      latched_store = Some (Inr (), se', latched_store)"
    using sample_latched_tick [OF se(2-7)] by blast
  let ?st = "persist_session_state se' latched_store"
  have i: "idle_store ?st" by (rule idle_persist [OF idle_latched])
  have te: "executor_tick False None (sample_te cs) = sample_te cs" for cs
    by (simp add: executor_tick_def sample_te_def)
  note c = idle_cycle [OF idle_latched] idle_cycle [OF i]
  have n: "?st \<noteq> latched_store"
  proof
    assume "?st = latched_store"
    then have "kv_look ?st day_key = kv_look latched_store day_key" by simp
    then show False
      by (simp add: persist_session_state_def kvs.look_put)
        (simp add: latched_store_def latch_kill_switch_def empty_store_def kv_put_def kv_look_def
          day_key_def day_start_key_def trades_key_def kill_switch_key_def)
  qed
  have run: "bot_run exact_ext Option.the (example_config Paper)
      (map (executor_event False None) (sn_events sample_run_env))
      \<lparr>b_session = se, b_cache = [], b_store = latched_store\<rparr>
      = Some \<lparr>b_session = se', b_cache = [], b_store = ?st\<rparr>"
    using c t by (simp add: sample_run_env_def te del: bot_event.simps(2) executor_event.simps(2))
  have st: "bot_run exact_ext Option.the (example_config Paper)
      (map (executor_event False None \<circ> MonitorCycle) (sn_starting sample_run_env))
      \<lparr>b_session = se, b_cache = [], b_store = latched_store\<rparr>
      = Some \<lparr>b_session = se, b_cache = [], b_store = latched_store\<rparr>"
    using c by (simp add: sample_run_env_def del: bot_event.simps(2) executor_event.simps(2))
  have s: "\<exists>s. startup_reconciliation exact_ext (example_config Paper) False None sample_run_env latched_store
      = Some (Inr s, latched_store)"
    by (simp add: startup_reconciliation_def reconcile_pending_orders_def latched_store_reads)
  have "\<exists>r. generate_report exact_ext ?st 100 = Some (Inr r)"
    by (simp add: generate_report_def idle_reads [OF i] rates_def factor_def drawdown_def new_report_def
        fit_def dec_max_def)
  moreover have "sn_now sample_run_env = 0" "starting_capital_usd (risk (example_config Paper)) = 100"
    by (simp_all add: sample_run_env_def example_config_def)
  ultimately show ?thesis using s se(1) i n
    by (auto simp: run_session_def st run final_reconciliation_def)
qed

lemma latched_run_result:
  "\<exists>r st. run_command exact_ext Option.the (sample_main Paper) sample_run_env latched_store
       = Some (Inr r, st) \<and> idle_store st \<and> st \<noteq> latched_store"
proof -
  have b: "build_executor (sample_main Paper) (example_config Paper)
      = Inr (PaperOver (jupiter_of (example_config Paper) None None)
          (new_paper (paper_fill_haircut_bps (runtime (example_config Paper)))))"
    by (simp add: build_executor_def sample_main_def)
  have "start_run (sample_main Paper) latched_store = (Inr (example_config Paper,
      PaperOver (jupiter_of (example_config Paper) None None)
        (new_paper (paper_fill_haircut_bps (runtime (example_config Paper))))), latched_store)"
    by (simp add: start_run_def sample_setup sample_health b latched_store_reads)
  then show ?thesis using latched_session_runs by (auto simp: run_command_def)
qed

theorem latched_bot_never_buys_witness:
  "\<exists>res st. run_command exact_ext Option.the (sample_main Paper) sample_run_env latched_store
       = Some (res, st) \<and> st \<noteq> latched_store \<and> order_kinds st = []"
proof -
  obtain r st where r: "run_command exact_ext Option.the (sample_main Paper) sample_run_env latched_store
      = Some (Inr r, st)" "st \<noteq> latched_store" "idle_store st" using latched_run_result by blast
  have "order_kinds st = []" using r(3) by (simp add: order_kinds_def idle_store_def)
  with latched_bot_never_buys [OF r(1) latched_store_reads(5,1)] r show ?thesis by blast
qed

end
