(* ===== verification/Program.thy ===== *)
theory Program
  imports Entry_Point
begin

text \<open>
  The program as a whole: \<open>main\<close> of \<open>src/main.rs\<close>, which takes a command and runs it, and a sequence of
  invocations on one database. The paths on the command line are given, a path being the text that
  names it; the output format only changes what is printed and is left out. The first part shows that
  no operation takes back the latch of the kill switch.
\<close>

section \<open>Commands\<close>

datatype command =
    CmdEconomics string                                      \<comment> \<open>input\<close>
  | CmdCheck string                                          \<comment> \<open>config, also below\<close>
  | CmdRun string
  | CmdReconcile string
  | CmdExitAll string
  | CmdEmergencyStop string "string option"
  | CmdClearEmergencyStop string
  | CmdReport string
  | CmdBacktest string string string "string option"         \<comment> \<open>backtest config, input, trades\<close>
  | CmdCollectHistory string string nat                      \<comment> \<open>output, iterations\<close>
  | CmdValidateHistory string
  | CmdHistoricalBuild build_args
  | CmdHistoricalValidate string
  | CmdStatus string

datatype program_error =
    Failed command_error
  | InputUnread
  | InputUnparsed string
  | InputRefused viability_error
  | TradesUnwritten

datatype command_output =
    NothingShown
  | EconomicsOf break_even_result
  | ReportOf performance_report
  | ExitedCount nat
  | BacktestOf backtest_result
  | HistoryOf history_validation
  | BuiltOf build_report
  | DatasetOf validation_report
  | StatusOf bot_status

text \<open>What one invocation meets; a command reads the part of it that it needs.\<close>

record ('v, 'f) program_env =
  pg_main :: "string \<Rightarrow> ('v, 'f) main_env"                    \<comment> \<open>by the configuration file\<close>
  pg_now :: datetime
  pg_dbg :: "string option \<Rightarrow> string"
  pg_session :: "'v session_env"
  pg_reader :: "'v chain_reader"
  pg_order_faults :: "order_record \<Rightarrow> faults"
  pg_exec :: "string \<Rightarrow> exec_env"
  pg_exit_faults :: "string \<Rightarrow> faults"
  pg_exit_ids :: "string \<Rightarrow> string"
  pg_exit_fault :: "string option"
  pg_inputs :: "string \<Rightarrow> string + break_even_inputs"         \<comment> \<open>toml::from_str\<close>
  pg_backtest :: "string \<Rightarrow> string + backtest_config"
  pg_signal :: "string \<Rightarrow> string + historical_signal"         \<comment> \<open>serde_json::from_str\<close>
  pg_record :: "string \<Rightarrow> string + history_record"
  pg_show_record :: "history_record \<Rightarrow> string option"
  pg_show_trades :: "simulated_trade list \<Rightarrow> string option"
  pg_writable :: "string \<Rightarrow> bool"
  pg_iterations :: "nat \<Rightarrow> exec_env \<times> datetime \<times> decimal option \<times> datetime"
  pg_read_time :: "string \<Rightarrow> datetime option"
  pg_read_dec :: "string \<Rightarrow> decimal option"
  pg_variables :: "string \<Rightarrow> string option"
  pg_client :: bool
  pg_world :: "string \<Rightarrow> 'v build_world"
  pg_caches :: ohlcv_state

text \<open>What lasts between invocations: the database, the files and the disk of the dataset builder.\<close>

record program_state =
  ps_store :: store
  ps_files :: "string \<Rightarrow> string option"
  ps_disk :: build_disk

definition economics_command ::
    "ext \<Rightarrow> (string \<Rightarrow> string + break_even_inputs) \<Rightarrow> string option
     \<Rightarrow> (program_error + break_even_result) option" where
  "economics_command X parse file = (case file of
      None \<Rightarrow> Some (Inl InputUnread)
    | Some txt \<Rightarrow> (case parse txt of
        Inl e \<Rightarrow> Some (Inl (InputUnparsed e))
      | Inr i \<Rightarrow> map_option (map_sum InputRefused id) (break_even_calculator X i)))"

text \<open>The trades of a backtest are written when a path was given.\<close>

definition write_trades ::
    "('v, 'f) program_env \<Rightarrow> string option \<Rightarrow> backtest_result \<Rightarrow> program_state
     \<Rightarrow> (program_error + command_output) \<times> program_state" where
  "write_trades G path r s = (case path of
      None \<Rightarrow> (Inr (BacktestOf r), s)
    | Some p \<Rightarrow> (case pg_show_trades G (br_all_trades r) of
        None \<Rightarrow> (Inl TradesUnwritten, s)
      | Some json \<Rightarrow>
        if pg_writable G p then (Inr (BacktestOf r), s\<lparr>ps_files := (ps_files s)(p \<mapsto> json)\<rparr>)
        else (Inl TradesUnwritten, s)))"

definition shown ::
    "('a \<Rightarrow> command_output) \<Rightarrow> command_error + 'a \<Rightarrow> program_error + command_output" where
  "shown f r = map_sum Failed f r"

definition on_store ::
    "('a \<Rightarrow> command_output) \<Rightarrow> program_state \<Rightarrow> (command_error + 'a) \<times> store
     \<Rightarrow> (program_error + command_output) \<times> program_state" where
  "on_store f s rs = (shown f (fst rs), s\<lparr>ps_store := snd rs\<rparr>)"

fun main_program ::
    "ext \<Rightarrow> ('v, 'f) program_env \<Rightarrow> command \<Rightarrow> program_state
     \<Rightarrow> ((program_error + command_output) \<times> program_state) option" where
  "main_program X G (CmdEconomics input) s =
     map_option (\<lambda>r. (map_sum id EconomicsOf r, s))
       (economics_command X (pg_inputs G) (ps_files s input))"
| "main_program X G (CmdCheck cfg) s =
     Some (shown (\<lambda>_. NothingShown) (check_command (pg_main G cfg) (ps_store s)), s)"
| "main_program X G (CmdRun cfg) s =
     map_option (on_store ReportOf s)
       (run_command X (pg_dbg G) (pg_main G cfg) (pg_session G) (ps_store s))"
| "main_program X G (CmdReconcile cfg) s =
     map_option (on_store (\<lambda>_. NothingShown) s)
       (reconcile_command X (pg_main G cfg) (pg_reader G) (pg_order_faults G) (pg_now G) (ps_store s))"
| "main_program X G (CmdExitAll cfg) s =
     map_option (on_store ExitedCount s)
       (exit_all_command X (pg_exec G) (pg_dbg G) (pg_exit_faults G) (pg_main G cfg) (pg_now G)
          (pg_exit_ids G) (pg_exit_fault G) (pg_reader G) (ps_store s))"
| "main_program X G (CmdEmergencyStop cfg reason) s =
     Some (on_store (\<lambda>_. NothingShown) s
       (emergency_stop_command (pg_main G cfg) reason (pg_now G) (ps_store s)))"
| "main_program X G (CmdClearEmergencyStop cfg) s =
     Some (on_store (\<lambda>_. NothingShown) s (clear_emergency_stop_command (pg_main G cfg) (ps_store s)))"
| "main_program X G (CmdReport cfg) s =
     map_option (\<lambda>r. (shown ReportOf r, s)) (report_command X (pg_main G cfg) (ps_store s))"
| "main_program X G (CmdBacktest cfg bt input trades) s =
     (case backtest_command X (pg_main G cfg) (pg_backtest G) (pg_signal G) (ps_files s bt)
             (ps_files s input) of
        None \<Rightarrow> None
      | Some (Inl e) \<Rightarrow> Some (Inl (Failed e), s)
      | Some (Inr r) \<Rightarrow> Some (write_trades G trades r s))"
| "main_program X G (CmdCollectHistory cfg file n) s =
     (case collect_history_command X (pg_main G cfg) (pg_show_record G)
             (map (pg_iterations G) [0..<n]) (ps_files s file) of
        None \<Rightarrow> None
      | Some (Inl e) \<Rightarrow> Some (Inl (Failed e), s)
      | Some (Inr content) \<Rightarrow>
          Some (Inr NothingShown, s\<lparr>ps_files := (ps_files s)(file := content)\<rparr>))"
| "main_program X G (CmdValidateHistory input) s =
     Some (shown HistoryOf (validate_history_command X (pg_record G) (pg_now G) (ps_files s input)), s)"
| "main_program X G (CmdHistoricalBuild args) s =
     map_option (\<lambda>(r, d). (shown BuiltOf r, s\<lparr>ps_disk := d\<rparr>))
       (historical_build_command X (pg_read_time G) (pg_read_dec G) (pg_variables G) (pg_client G)
          (pg_world G) (pg_caches G) args (ps_disk s))"
| "main_program X G (CmdHistoricalValidate input) s =
     Some (shown DatasetOf (historical_validate_command X (pg_signal G) (ps_files s input)), s)"
| "main_program X G (CmdStatus cfg) s =
     map_option (\<lambda>r. (shown StatusOf r, s)) (status_command X (pg_main G cfg) (ps_store s))"

text \<open>A history of the program: invocations in a row, each in its own environment.\<close>

fun run_program ::
    "ext \<Rightarrow> (('v, 'f) program_env \<times> command) list \<Rightarrow> program_state \<Rightarrow> program_state option" where
  "run_program X [] s = Some s"
| "run_program X ((G, cmd) # invs) s = (case main_program X G cmd s of
     None \<Rightarrow> None
   | Some (_, s') \<Rightarrow> run_program X invs s')"

section \<open>What a command may do to the store\<close>

text \<open>Sales are added at most, and the latch is kept if there is one.\<close>

definition only_sells :: "store \<Rightarrow> store \<Rightarrow> bool" where
  "only_sells st st' \<longleftrightarrow> only_exits st st' \<and> stays_latched st st'"

lemma only_sells_refl: "ids_ok st \<Longrightarrow> only_sells st st"
  by (simp add: only_sells_def only_exits_def)

lemma only_sells_trans: "only_sells a b \<Longrightarrow> only_sells b c \<Longrightarrow> only_sells a c"
  unfolding only_sells_def using only_exits_trans stays_latched_trans by blast

lemma only_sells_ids: "only_sells st st' \<Longrightarrow> ids_ok st'"
  by (simp add: only_sells_def only_exits_def)

lemma only_sells_rows:
  assumes "order_rows st' = order_rows st" "stays_latched st st'" "ids_ok st"
  shows "only_sells st st'"
  using keeps_only_exits [OF keeps_rows [OF assms(1)] assms(3)] assms(2) by (simp add: only_sells_def)

lemma emergency_rows [simp]:
  "order_rows (set_emergency_stop reason now st) = order_rows st"
  "order_rows (clear_emergency_stop st) = order_rows st"
  by (simp_all add: set_emergency_stop_def clear_emergency_stop_def kv_put_def)

lemma reconcile_command_sells:
  assumes "reconcile_command X W C fts now st = Some (res, st')" "ids_ok st"
  shows "only_sells st st'"
proof -
  have "only_sells st st1" if run: "run_reconciliation X C fts c now live owner st = Some (r, st1)"
    for c live owner r st1
  proof -
    obtain r2 st2 where p: "reconcile_pending_orders X C fts c now live owner st = Some (r2, st2)"
      and st1: "st1 = st2 \<or> st1 = snd (reconcile_positions_onchain C now owner st2)"
      using run by (auto simp: run_reconciliation_def
          split: option.split_asm sum.split_asm prod.split_asm)
    have "order_rows st1 = order_rows st2" using st1 reconcile_positions_frame(1) by auto
    then have "keeps st st1"
      using reconcile_pending_keeps [OF p assms(2)] keeps_rows keeps_trans by blast
    then show ?thesis
      using keeps_only_exits assms(2) reconciliation_stays_latched [OF run]
      by (simp add: only_sells_def)
  qed
  then show ?thesis using assms only_sells_refl
    by (auto simp: reconcile_command_def split: sum.split_asm)
qed

lemma exit_all_command_sells:
  "exit_all_command X E dbg ft W now uuids fault C st = Some (res, st') \<Longrightarrow> ids_ok st \<Longrightarrow> only_sells st st'"
  by (auto simp: exit_all_command_def only_sells_def adds_only_exits only_exits_def
      dest!: exit_all_sells split: sum.split_asm prod.split_asm)
    (auto dest: adds_only_exits simp: only_exits_def)

lemma emergency_commands_sell:
  assumes "ids_ok st"
  shows "only_sells st (snd (emergency_stop_command W reason now st))"
    and "only_sells st (snd (clear_emergency_stop_command W st))"
  using assms only_sells_refl only_sells_rows [OF emergency_rows(1) emergency_stays_latched(1)]
    only_sells_rows [OF emergency_rows(2) emergency_stays_latched(2)]
  by (auto simp: emergency_stop_command_def clear_emergency_stop_command_def split: sum.split)

lemma latched_run_sells:
  assumes "run_command X dbg W S st = Some (res, st')" "ids_ok st" "holds_latch st"
  shows "only_sells st st'"
proof -
  obtain r where r: "kill_switch_reason st = Inr (Some r)" using assms(3) by (auto simp: holds_latch_def)
  obtain a st1 where s: "start_run W st = (a, st1)" by fastforce
  note l = latched_start [OF s r]
  show ?thesis
  proof (cases a)
    case (Inl e)
    then show ?thesis using assms s l only_sells_refl by (simp add: run_command_def)
  next
    case (Inr p)
    obtain c ex where p: "a = Inr (c, ex)" using Inr by (cases p) simp
    obtain r' where run: "run_session X dbg c (executor_live ex) (executor_owner W ex) S st = Some (r', st')"
      using assms(1) s l p by (auto simp: run_command_def)
    show ?thesis
      using latched_run [OF run assms(2,3)] by (simp add: only_sells_def stays_latched_def)
  qed
qed

text \<open>The commands that write to the store, and what each of the others leaves alone.\<close>

fun writes_store :: "command \<Rightarrow> bool" where
  "writes_store (CmdRun cfg) = True"
| "writes_store (CmdReconcile cfg) = True"
| "writes_store (CmdExitAll cfg) = True"
| "writes_store (CmdEmergencyStop cfg reason) = True"
| "writes_store (CmdClearEmergencyStop cfg) = True"
| "writes_store cmd = False"

lemma reading_commands:
  "main_program X G cmd s = Some (res, s') \<Longrightarrow> \<not> writes_store cmd \<Longrightarrow> ps_store s' = ps_store s"
  by (cases cmd) (auto simp: write_trades_def Let_def split: option.split_asm sum.split_asm if_split_asm)

lemma command_sells:
  assumes "main_program X G cmd s = Some (res, s')" "ids_ok (ps_store s)"
    and "(\<forall>cfg. cmd \<noteq> CmdRun cfg) \<or> holds_latch (ps_store s)"
  shows "only_sells (ps_store s) (ps_store s')"
proof (cases "writes_store cmd")
  case False
  then show ?thesis using reading_commands [OF assms(1)] assms(2) only_sells_refl by simp
next
  case True
  then show ?thesis
    using assms by (cases cmd) (auto simp: on_store_def emergency_commands_sell
        dest: reconcile_command_sells exit_all_command_sells latched_run_sells)
qed

section \<open>Properties\<close>

text \<open>
  C39: Only \<open>run\<close> buys. Whatever command of the program is invoked, in whatever
  circumstances and with whatever outcome, unless it is \<open>run\<close> the orders of the database keep their
  ids and kinds and at most exits are added; and every command that is not meant to change the
  database, the status, the report, the check, the backtest, the dataset commands and the economics,
  leaves it exactly as it was.
\<close>

theorem only_run_buys:
  assumes "main_program X G cmd s = Some (res, s')" and "ids_ok (ps_store s)"
    and "\<forall>cfg. cmd \<noteq> CmdRun cfg"
  shows "(\<exists>new. order_kinds (ps_store s') = order_kinds (ps_store s) @ new
      \<and> list_all (\<lambda>(_, k). k = Exit) new)
    \<and> (case cmd of CmdReconcile _ \<Rightarrow> True | CmdExitAll _ \<Rightarrow> True | CmdEmergencyStop _ _ \<Rightarrow> True
       | CmdClearEmergencyStop _ \<Rightarrow> True | _ \<Rightarrow> ps_store s' = ps_store s)"
proof -
  have "only_sells (ps_store s) (ps_store s')" using command_sells assms by blast
  then show ?thesis using reading_commands [OF assms(1)] assms(3)
    by (cases cmd) (auto simp: only_sells_def only_exits_def)
qed

text \<open>
  C38: Once latched, the program never buys again. From a database
  that holds a reason for the kill switch, any sequence of invocations of any commands, \<open>run\<close> and
  \<open>clear-emergency-stop\<close> among them, each in its own circumstances, leaves the kill switch latched and
  adds nothing but exits to the orders. Only an operator who edits the database can end this.
\<close>

theorem latched_program_never_buys:
  assumes "run_program X invs s = Some s'" and "ids_ok (ps_store s)"
    and "kill_switch_reason (ps_store s) = Inr (Some r)"
  shows "(\<exists>r'. kill_switch_reason (ps_store s') = Inr (Some r'))
    \<and> (\<exists>new. order_kinds (ps_store s') = order_kinds (ps_store s) @ new
         \<and> list_all (\<lambda>(_, k). k = Exit) new)"
proof -
  have "run_program X invs s = Some s' \<Longrightarrow> ids_ok (ps_store s) \<Longrightarrow> holds_latch (ps_store s)
      \<Longrightarrow> only_sells (ps_store s) (ps_store s')" for s
  proof (induction invs arbitrary: s)
    case (Cons inv invs)
    obtain G cmd where inv: "inv = (G, cmd)" by fastforce
    obtain res s1 where m: "main_program X G cmd s = Some (res, s1)"
      and rest: "run_program X invs s1 = Some s'"
      using Cons.prems(1) by (auto simp: inv split: option.split_asm)
    have o: "only_sells (ps_store s) (ps_store s1)" using command_sells [OF m] Cons.prems by blast
    then have "holds_latch (ps_store s1)"
      using Cons.prems(3) by (simp add: only_sells_def stays_latched_def)
    from Cons.IH [OF rest only_sells_ids [OF o] this] o show ?case using only_sells_trans by blast
  qed (simp add: only_sells_refl)
  from this [OF assms(1,2)] assms(3) show ?thesis
    by (auto simp: only_sells_def only_exits_def stays_latched_def holds_latch_def)
qed

text \<open>A database whose kill switch is latched; the operator clears the stop and runs the bot.\<close>

definition sample_program_env :: "(jval, unit) program_env" where
  "sample_program_env = \<lparr>pg_main = (\<lambda>_. sample_main Paper), pg_now = 0, pg_dbg = Option.the,
     pg_session = sample_run_env, pg_reader = sample_reader, pg_order_faults = (\<lambda>_. no_faults),
     pg_exec = (\<lambda>_. sample_exec (Inl InvalidQuote)), pg_exit_faults = (\<lambda>_. no_faults),
     pg_exit_ids = (\<lambda>m. m), pg_exit_fault = None, pg_inputs = (\<lambda>_. Inl ''bad''),
     pg_backtest = (\<lambda>_. Inl ''bad''), pg_signal = (\<lambda>_. Inl ''bad''), pg_record = (\<lambda>_. Inl ''bad''),
     pg_show_record = (\<lambda>_. None), pg_show_trades = (\<lambda>_. None), pg_writable = (\<lambda>_. True),
     pg_iterations = (\<lambda>_. (sample_exec (Inl InvalidQuote), 0, None, 0)), pg_read_time = (\<lambda>_. None),
     pg_read_dec = (\<lambda>_. None), pg_variables = sample_env, pg_client = True,
     pg_world = (\<lambda>_. sample_build_world), pg_caches = sample_caches\<rparr>"

definition latched_state :: program_state where
  "latched_state = \<lparr>ps_store = latched_store, ps_files = Map.empty, ps_disk = empty_disk\<rparr>"

lemma sample_stop:
  "main_program exact_ext sample_program_env (CmdEmergencyStop ''c'' None) latched_state
     = Some (Inr NothingShown, latched_state\<lparr>ps_store := set_emergency_stop ''operator halt'' 0 latched_store\<rparr>)"
  by (simp add: sample_program_env_def latched_state_def on_store_def shown_def
      emergency_stop_command_def sample_setup)

lemma sample_clear:
  "main_program exact_ext sample_program_env (CmdClearEmergencyStop ''c'') latched_state
     = Some (Inr NothingShown, latched_state)"
  by (simp add: sample_program_env_def latched_state_def on_store_def shown_def
      clear_emergency_stop_command_def sample_setup clear_emergency_stop_def latched_store_def
      latch_kill_switch_def empty_store_def kv_put_def kill_switch_key_def emergency_key_def)

theorem only_run_buys_witness:
  "\<exists>res s'. main_program exact_ext sample_program_env (CmdEmergencyStop ''c'' None) latched_state
       = Some (res, s') \<and> emergency_stop (ps_store s') = Inr (Some ''operator halt'')
     \<and> order_kinds (ps_store s') = order_kinds latched_store"
proof -
  let ?s = "latched_state\<lparr>ps_store := set_emergency_stop ''operator halt'' 0 latched_store\<rparr>"
  have "emergency_stop (ps_store ?s) = Inr (Some ''operator halt'')"
    by (simp add: set_emergency_stop_def emergency_stop_def kvs.look_put)
  moreover have "order_kinds (ps_store ?s) = order_kinds latched_store" by (simp add: order_kinds_def)
  moreover note only_run_buys [OF sample_stop]
  ultimately show ?thesis using sample_stop latched_store_reads(5)
    by (intro exI [of _ "Inr NothingShown"] exI [of _ ?s]) simp
qed

text \<open>
  The run is offered a candidate and its exit monitor is at work; it ends with its day saved and no
  order.
\<close>

theorem latched_program_never_buys_witness:
  "\<exists>s'. run_program exact_ext [(sample_program_env, CmdClearEmergencyStop ''c''),
         (sample_program_env, CmdRun ''c'')] latched_state = Some s'
     \<and> ps_store s' \<noteq> latched_store
     \<and> (\<exists>r. kill_switch_reason (ps_store s') = Inr (Some r))
     \<and> list_all (\<lambda>(_, k). k = Exit) (order_kinds (ps_store s'))"
proof -
  obtain r st where st: "run_command exact_ext Option.the (sample_main Paper) sample_run_env latched_store
      = Some (Inr r, st)" "st \<noteq> latched_store" using latched_run_result by blast
  then have "main_program exact_ext sample_program_env (CmdRun ''c'') latched_state
      = Some (Inr (ReportOf r), latched_state\<lparr>ps_store := st\<rparr>)"
    by (simp add: sample_program_env_def latched_state_def on_store_def shown_def)
  then have run: "run_program exact_ext [(sample_program_env, CmdClearEmergencyStop ''c''),
      (sample_program_env, CmdRun ''c'')] latched_state = Some (latched_state\<lparr>ps_store := st\<rparr>)"
    by (simp add: sample_clear del: main_program.simps)
  have "ids_ok (ps_store latched_state)" "order_kinds (ps_store latched_state) = []"
    "kill_switch_reason (ps_store latched_state) = Inr (Some ''drawdown'')"
    using idle_latched by (simp_all add: latched_state_def latched_store_reads order_kinds_def idle_store_def)
  with latched_program_never_buys [OF run, of "''drawdown''"] run st(2) show ?thesis by auto
qed

end
