(* ===== verification/Spec2Isabelle.thy ===== *)
theory Spec2Isabelle
  imports Config Economics Domain Strategy Smart_Money Risk Portfolio Execution Store
    Backtest_Split Backtest_Data Backtest_Engine Backtest_Stats Backtest_Resampling Reconcile Tx_Policy Jupiter
    Runtime_Exit Runtime_Orders Runtime_Entry Rpc Rpc_Methods Token_Data
    Runtime_Session Exit_Monitor Swap_Parser Wallet_Stats Wallet_Monitor
    Collector Wallet_Ws History
    Historical_Ohlcv Historical_Wallet Historical_Signal Historical_Build Historical_Validate
    Report Order_Kinds Bot_Steps Latch Session_Run Entry_Point Program
begin

text \<open>
  Verification development of \<open>solana-bot\<close>, a program in Rust that copies the purchases of
  successful Solana wallets. It collects candidates, decides whether to enter, buys through the
  Jupiter aggregator, watches the positions it holds, sells them and keeps its state in SQLite; a
  second half replays the same decisions on historical data. The sources are under \<open>src/src\<close>; the
  paths below are relative to it.

  1. The parts and how they interact. \<open>main.rs\<close> loads the configuration, builds an executor for
  the mode (live, paper or replay) and runs a command. \<open>run\<close> starts a session of \<open>runtime.rs\<close>: a
  loop of ticks, each of which reconciles open orders with the chain, reads the interlocks (kill
  switch, emergency stop), takes candidates from the feed or the wallet monitor, marks and exits
  the positions held and only then enters new ones through the gates of \<open>economics\<close>, \<open>strategy\<close>
  and \<open>risk.rs\<close>. Beside it \<open>exit_monitor.rs\<close> sells positions on its own cadence. The two share
  nothing but the store. Both send an order through the same steps: reserve a row under an
  idempotency key, execute, and book fill, position and order in one transaction; an unknown
  outcome stays open until the chain gives evidence.

  2. Theories. One theory stands for one source file or for a part of a long one.
    Prelude: machine integers, panics, time, the record \<open>ext\<close> of the external crates.
    Config, Economics, Domain, Strategy, Smart_Money, Risk, Portfolio: the directories \<open>config\<close>,
      \<open>economics\<close>, \<open>domain\<close>, \<open>strategy\<close>, \<open>smart_money\<close> and the files \<open>risk.rs\<close>, \<open>portfolio/mod.rs\<close>;
      a struct is a record of its fields, an enum a datatype, a method a definition of its name.
    Execution, Jupiter, Tx_Policy, Reconcile: the directory \<open>execution\<close>, with the paper and
      replay executors in Execution, the live one in Jupiter, the check of a provider's transaction
      in Tx_Policy and the reading of a confirmed one in Reconcile.
    Store: \<open>storage/state.rs\<close>, every table a list of rows.
    Runtime_Exit, Runtime_Orders, Runtime_Entry, Runtime_Session: \<open>runtime.rs\<close>, in this order the
      exit pipeline, the reconciliation, the entry pipeline and the tick with start and restart.
    Exit_Monitor: \<open>exit_monitor.rs\<close>.
    Order_Kinds: which orders a store holds, and what reconciliation and a halted tick keep of them.
      Bot_Steps: ticks of the session, cycles of the monitor and changes of the operator's flags in
      any order. Latch: what keeps the kill switch of the store.
    Session_Run: \<open>run_session\<close> of \<open>runtime.rs\<close>, from the start, with the exit monitor spawned in it,
      to the report.
    Rpc, Rpc_Methods, Token_Data, Swap_Parser, Wallet_Stats, Wallet_Monitor, Wallet_Ws, Collector: \<open>data/rpc.rs\<close>
      and the directory \<open>collector\<close>.
    Backtest_Split, Backtest_Data, Backtest_Engine, Backtest_Stats, Backtest_Resampling: the directory
      \<open>backtest\<close>.
    History, Historical_Ohlcv, Historical_Wallet, Historical_Signal, Historical_Build,
      Historical_Validate: \<open>history.rs\<close> and the directory \<open>historical\<close>.
    Report, Entry_Point: \<open>report.rs\<close> and the commands of \<open>main.rs\<close>. Program: the dispatch of \<open>main\<close>
      and sequences of invocations on one database.

  3. Conventions. A state is a record that an operation takes and returns. \<open>None\<close> is a panic (or a
  loop that does not return, where the theory says so), \<open>Inl\<close> an error and \<open>Inr\<close> a value. What the
  outside does is an argument: the answers of nodes and services, clocks, UUIDs, the environment,
  the order in which a hash map is met, and the faults of the database (\<open>faults\<close>, \<open>tick_env\<close>). Theorems
  quantify over all of these. A \<open>Decimal\<close> is a rational number; the four operators of the crate are
  fields of \<open>ext\<close>, so that rounding and overflow stay open. \<open>exact_ext\<close> and \<open>scaled_ext\<close> are the
  instances of the contract \<open>decimal_arith\<close>; a property that is about exact sums says so.

  4. Interfaces. \<open>decimal_arith\<close> (arithmetic), \<open>keyed_store\<close> (maps, the key-value table, fills,
  positions, registered quotes), \<open>ranked_machine\<close> (order states), \<open>fill_executor\<close> (paper and replay
  execution), \<open>selling_task\<close> (what the session, the monitor and the operator promise on the shared
  store) and its extension \<open>latch_task\<close> (they keep the stored kill switch) are locales, each
  interpreted on the definitions of the component that provides it. Step relations with rule
  induction: \<open>store_step\<close> (store; \<open>store_reach\<close> and \<open>store_steps\<close> are its closures, and the saves of
  the session and of a live start are among its steps), \<open>wallet_run\<close> (wallet monitor) and \<open>bot_steps\<close>
  (the whole bot).

  5. What the lemmas show. No order is repeated: reservation is idempotent, an unknown exit blocks
  the next one, and reconciliation settles only on evidence from the chain. Accounting is atomic in
  every fault: a fill, its position and its order change together or not at all, and with exact
  arithmetic a position realises exactly proceeds less cost and fees. Limits hold: after the entries
  of a tick exposure, positions and trades are within theirs, and over a whole session the trades of
  the day are. Interlocks hold: an entry passes every gate, a tick
  enters only when every interlock was read as clear, exits do not depend on them, a halted bot only
  sells in any interleaving, no command but \<open>run\<close> buys, a latched database never buys again whatever
  is invoked on it, and a live start is guarded. What leaves the
  process was checked: a signed transaction passed the policy, a live fill is the one quoted. When the
  balances can be read, open positions after a reconciliation are those of the chain, but for one whose
  decimals are disputed. Candidates, swaps and wallet statistics
  rest on observed data. Historical data is point-in-time and, while its resume file can be written, written once; the
  backtest decides as production does, ignores the future, loses no record and gives a positive
  verdict only on evidence. Loops end within their bounds.

  6. Bounds and fuel. Loops of the source with a fixed limit keep it: three attempts to verify an
  outcome, twelve transactions per wallet and tick, ten pages for the age of a token, five pages of a
  wallet's history, fifty pages of candles, \<open>max_retries\<close> of a provider, passes times endpoints of the
  node pool. The integer square root runs fifty steps, as in the source. Polling for a confirmation
  consumes the list of answers it is given and is \<open>None\<close> when they run out. Selling lots takes at most
  two steps more than there are lots, which is proved to be enough. The two loops over windows and
  pages whose end depends on the provider are \<open>partial_function (option)\<close>, and that they return is
  proved where it holds. A session is a finite list of events (ticks, cycles of the monitor, changes of the
  operator's flags), and every statement about it holds for any list.

  7. Simplifications. A tick, a cycle and an exit read the clock once, where the code may read it
  several times. A tick of the session and a cycle of the monitor are atomic with respect to each
  other, and so is the startup reconciliation. Counters whose width cannot matter are natural numbers. Logging is left out. A written
  file is its content, and the caches of the dataset builder assume a file system that obeys.

  8. Not modelled. The HTTP clients, sockets and JSON or TOML decoding, which belong to other
  crates and are arguments; starting tasks, channels and the pauses between requests; the printed
  forms of reports; parsing the command line; the gate that bounds the concurrent fetches of the node
  pool; logging set-up (\<open>observability/mod.rs\<close>); and the Python dashboards and scripts.
\<close>

end
